(* ===== verification/Prelude.thy ===== *)
theory Prelude imports Main "HOL-Library.AList" "HOL-Library.Multiset" "HOL-Library.Sublist" begin

text \<open>
  What every component shares: the result type of code that can raise, the tables of the
  coordination store as lists of rows, and the lemmas about selecting, updating and inserting rows
  that carry the component proofs.

  A table is the list of its rows in insertion order. \<open>SELECT ... WHERE\<close> is \<open>filter\<close>,
  \<open>UPDATE ... SET ... WHERE\<close> is \<open>upd_where\<close>, \<open>INSERT ... ON CONFLICT(key) DO UPDATE\<close> is
  \<open>upsert\<close>, and \<open>ORDER BY ... DESC LIMIT\<close> is \<open>order_desc\<close> followed by \<open>take\<close>.
\<close>

named_theorems table_simps \<open>equations for selections and updates of tables\<close>
named_theorems keep_intros \<open>introduction rules: an operation keeps an invariant\<close>

section \<open>Results of code that can raise\<close>

datatype py_error = TypeError | AttributeError | KeyError string | ValueError string | IntegrityError | RuntimeError string

type_synonym 'a res = "py_error + 'a"

definition bind_res :: "'a res \<Rightarrow> ('a \<Rightarrow> 'b res) \<Rightarrow> 'b res" where
  "bind_res m f = (case m of Inl e \<Rightarrow> Inl e | Inr x \<Rightarrow> f x)"

lemma bind_res_simps [simp]:
  "bind_res (Inl e) f = Inl e"
  "bind_res (Inr x) f = f x"
  by (simp_all add: bind_res_def)

lemma bind_res_Inr_iff: "bind_res m f = Inr y \<longleftrightarrow> (\<exists>x. m = Inr x \<and> f x = Inr y)"
  by (cases m) auto

section \<open>Tables\<close>

definition upd_where :: "('r \<Rightarrow> bool) \<Rightarrow> ('r \<Rightarrow> 'r) \<Rightarrow> 'r list \<Rightarrow> 'r list" where
  "upd_where p f t = map (\<lambda>r. if p r then f r else r) t"

definition has_key :: "('r \<Rightarrow> 'k) \<Rightarrow> 'k \<Rightarrow> 'r list \<Rightarrow> bool" where
  "has_key key k t \<longleftrightarrow> k \<in> key ` set t"

definition row_by :: "('r \<Rightarrow> 'k) \<Rightarrow> 'k \<Rightarrow> 'r list \<Rightarrow> 'r option" where
  "row_by key k t = find (\<lambda>r. key r = k) t"

text \<open>
  \<open>upsert key new merge t\<close>: the new row is appended when no row has its key; otherwise every row
  with that key becomes \<open>merge old\<close>.
\<close>

definition upsert :: "('r \<Rightarrow> 'k) \<Rightarrow> 'r \<Rightarrow> ('r \<Rightarrow> 'r) \<Rightarrow> 'r list \<Rightarrow> 'r list" where
  "upsert key new merge t =
     (if has_key key (key new) t then upd_where (\<lambda>r. key r = key new) merge t else t @ [new])"

definition keys_ok :: "('r \<Rightarrow> 'k) \<Rightarrow> 'r list \<Rightarrow> bool" where
  "keys_ok key t \<longleftrightarrow> distinct (map key t)"

definition order_desc :: "('r \<Rightarrow> int) \<Rightarrow> 'r list \<Rightarrow> 'r list" where
  "order_desc f t = sort_key (\<lambda>r. - f r) t"

definition order_asc :: "('r \<Rightarrow> int) \<Rightarrow> 'r list \<Rightarrow> 'r list" where
  "order_asc f t = sort_key f t"

subsection \<open>Selecting and updating rows\<close>

lemma upd_where_Nil [simp]: "upd_where p f [] = []"
  by (simp add: upd_where_def)

lemma upd_where_Cons [simp]:
  "upd_where p f (r # t) = (if p r then f r else r) # upd_where p f t"
  by (simp add: upd_where_def)

lemma upd_where_append [simp]: "upd_where p f (t @ u) = upd_where p f t @ upd_where p f u"
  by (simp add: upd_where_def)

lemma length_upd_where [simp]: "length (upd_where p f t) = length t"
  by (simp add: upd_where_def)

lemma set_upd_where: "set (upd_where p f t) = (\<lambda>r. if p r then f r else r) ` set t"
  by (simp add: upd_where_def)

lemma upd_where_none: "(\<And>r. r \<in> set t \<Longrightarrow> \<not> p r) \<Longrightarrow> upd_where p f t = t"
  by (induction t) auto

lemma upd_where_same: "(\<And>r. r \<in> set t \<Longrightarrow> p r \<Longrightarrow> f r = r) \<Longrightarrow> upd_where p f t = t"
  by (induction t) auto

lemma map_upd_where: "(\<And>r. g (f r) = g r) \<Longrightarrow> map g (upd_where p f t) = map g t"
  by (induction t) auto

lemma keys_ok_upd_where [keep_intros]:
  "(\<And>r. key (f r) = key r) \<Longrightarrow> keys_ok key t \<Longrightarrow> keys_ok key (upd_where p f t)"
  by (simp add: keys_ok_def map_upd_where)

lemma has_key_upd_where [table_simps]:
  "(\<And>r. key (f r) = key r) \<Longrightarrow> has_key key k (upd_where p f t) = has_key key k t"
  by (induction t) (auto simp: has_key_def)

lemma row_by_Nil [simp]: "row_by key k [] = None"
  by (simp add: row_by_def)

lemma row_by_Cons [simp]:
  "row_by key k (r # t) = (if key r = k then Some r else row_by key k t)"
  by (simp add: row_by_def)

lemma row_by_SomeD: "row_by key k t = Some r \<Longrightarrow> key r = k \<and> r \<in> set t"
  by (induction t) (auto split: if_splits)

lemma row_by_None_iff: "row_by key k t = None \<longleftrightarrow> \<not> has_key key k t"
  by (induction t) (auto simp: has_key_def)

lemma row_by_Some_iff_has_key: "(\<exists>r. row_by key k t = Some r) \<longleftrightarrow> has_key key k t"
  by (metis not_None_eq row_by_None_iff)

lemma row_by_eq_Some_iff:
  "keys_ok key t \<Longrightarrow> row_by key k t = Some r \<longleftrightarrow> r \<in> set t \<and> key r = k"
  by (induction t) (auto simp: keys_ok_def image_iff)

lemma row_by_upd_where [table_simps]:
  assumes "\<And>r. key (f r) = key r"
  shows "row_by key k (upd_where p f t) =
    map_option (\<lambda>r. if p r then f r else r) (row_by key k t)"
  by (induction t) (use assms in auto)

lemma row_by_upd_key [table_simps]:
  assumes "\<And>r. key (f r) = key r"
  shows "row_by key k (upd_where (\<lambda>r. key r = j) f t) =
    (if k = j then map_option f (row_by key k t) else row_by key k t)"
  by (induction t) (use assms in auto)

lemma row_by_append [table_simps]:
  "row_by key k (t @ u) = (case row_by key k t of None \<Rightarrow> row_by key k u | Some r \<Rightarrow> Some r)"
  by (induction t) auto

lemma filter_upd_where_keep:
  assumes "\<And>r. q (f r) = q r"
  shows "filter q (upd_where p f t) = upd_where p f (filter q t)"
  by (induction t) (use assms in auto)

subsection \<open>Insert or update\<close>

lemma keys_ok_Nil [simp]: "keys_ok key []"
  by (simp add: keys_ok_def)

lemma keys_ok_snoc [simp]: "keys_ok key (t @ [r]) \<longleftrightarrow> keys_ok key t \<and> \<not> has_key key (key r) t"
  by (auto simp: keys_ok_def has_key_def)

lemma keys_ok_upsert [keep_intros]:
  "(\<And>r. key (merge r) = key r) \<Longrightarrow> keys_ok key t \<Longrightarrow> keys_ok key (upsert key new merge t)"
  by (simp add: upsert_def keys_ok_upd_where)

lemma row_by_upsert:
  assumes "\<And>r. key (merge r) = key r"
  shows "row_by key k (upsert key new merge t) =
    (if k = key new then Some (case row_by key k t of None \<Rightarrow> new | Some r \<Rightarrow> merge r)
     else row_by key k t)"
proof (cases "has_key key (key new) t")
  case True
  have "map_option (\<lambda>r. if key r = key new then merge r else r) (row_by key k t) =
      (if k = key new then Some (case row_by key k t of None \<Rightarrow> new | Some r \<Rightarrow> merge r)
       else row_by key k t)"
  proof (cases "row_by key k t")
    case None
    with True have "k \<noteq> key new" by (auto simp: row_by_None_iff)
    with None show ?thesis by simp
  next
    case (Some r)
    then have "key r = k" by (blast dest: row_by_SomeD)
    with Some show ?thesis by (cases "k = key new") simp_all
  qed
  with True show ?thesis
    unfolding upsert_def by (simp only: if_True row_by_upd_where [of key merge, OF assms])
next
  case False
  then have "row_by key (key new) t = None" by (simp add: row_by_None_iff)
  with False show ?thesis by (auto simp: upsert_def row_by_append split: option.splits)
qed

lemma set_upsert_new:
  "\<not> has_key key (key new) t \<Longrightarrow> set (upsert key new merge t) = insert new (set t)"
  by (simp add: upsert_def)

lemma in_upsertD:
  "r \<in> set (upsert key new merge t) \<Longrightarrow>
     r = new \<or> r \<in> set t \<or> (\<exists>q\<in>set t. key q = key new \<and> r = merge q)"
  by (auto simp: upsert_def set_upd_where split: if_splits)

subsection \<open>Ordering\<close>

lemma set_order_desc [simp]: "set (order_desc f t) = set t"
  by (simp add: order_desc_def)

lemma set_order_asc [simp]: "set (order_asc f t) = set t"
  by (simp add: order_asc_def)

lemma length_order_desc [simp]: "length (order_desc f t) = length t"
  by (simp add: order_desc_def)

lemma mset_order_desc [simp]: "mset (order_desc f t) = mset t"
  by (simp add: order_desc_def)

end
