(* ===== verification/PyText.thy ===== *)
theory PyText imports Prelude begin

text \<open>
  Python's string operations on the model's strings. A string is a list of \<open>char\<close>; a \<open>char\<close> stands
  for the code point of its value, so the model's alphabet is the code points below 256. Whitespace,
  case conversion and line boundaries are Python's on that alphabet. The file also holds
  \<open>slugify\<close> of src/tandem_agents/utils/utils.py.
\<close>

section \<open>Characters\<close>

definition code :: "char \<Rightarrow> nat" where
  "code c = of_char c"

definition is_space :: "char \<Rightarrow> bool" where
  "is_space c = (let n = code c in
     (9 \<le> n \<and> n \<le> 13) \<or> (28 \<le> n \<and> n \<le> 32) \<or> n = 133 \<or> n = 160)"

definition is_digit :: "char \<Rightarrow> bool" where
  "is_digit c = (48 \<le> code c \<and> code c \<le> 57)"

definition is_upper_az :: "char \<Rightarrow> bool" where
  "is_upper_az c = (65 \<le> code c \<and> code c \<le> 90)"

definition is_lower_az :: "char \<Rightarrow> bool" where
  "is_lower_az c = (97 \<le> code c \<and> code c \<le> 122)"

definition is_alnum_ascii :: "char \<Rightarrow> bool" where
  "is_alnum_ascii c = (is_upper_az c \<or> is_lower_az c \<or> is_digit c)"

text \<open>\<open>str.lower\<close>: the capital letters below 256 are A-Z and the accented 192-222 without 215.\<close>

definition lower_char :: "char \<Rightarrow> char" where
  "lower_char c = (let n = code c in
     if (65 \<le> n \<and> n \<le> 90) \<or> (192 \<le> n \<and> n \<le> 222 \<and> n \<noteq> 215) then char_of (n + 32) else c)"

definition lower :: "string \<Rightarrow> string" where
  "lower s = map lower_char s"

section \<open>Stripping, splitting, joining, searching\<close>

definition lstrip_by :: "(char \<Rightarrow> bool) \<Rightarrow> string \<Rightarrow> string" where
  "lstrip_by p s = dropWhile p s"

definition rstrip_by :: "(char \<Rightarrow> bool) \<Rightarrow> string \<Rightarrow> string" where
  "rstrip_by p s = rev (dropWhile p (rev s))"

definition strip_by :: "(char \<Rightarrow> bool) \<Rightarrow> string \<Rightarrow> string" where
  "strip_by p s = rstrip_by p (lstrip_by p s)"

definition strip :: "string \<Rightarrow> string" where
  "strip s = strip_by is_space s"

definition starts_with :: "string \<Rightarrow> string \<Rightarrow> bool" where
  "starts_with s pat = (take (length pat) s = pat)"

fun contains :: "string \<Rightarrow> string \<Rightarrow> bool" where
  "contains [] pat = (pat = [])"
| "contains (c # s) pat = (starts_with (c # s) pat \<or> contains s pat)"

fun join :: "string \<Rightarrow> string list \<Rightarrow> string" where
  "join sep [] = []"
| "join sep [x] = x"
| "join sep (x # y # zs) = x @ sep @ join sep (y # zs)"

fun split_char :: "char \<Rightarrow> string \<Rightarrow> string list" where
  "split_char d [] = [[]]"
| "split_char d (c # s) =
     (if c = d then [] # split_char d s
      else (case split_char d s of [] \<Rightarrow> [[c]] | w # ws \<Rightarrow> (c # w) # ws))"

definition replace_char :: "char \<Rightarrow> char \<Rightarrow> string \<Rightarrow> string" where
  "replace_char a b s = map (\<lambda>c. if c = a then b else c) s"

text \<open>\<open>while text.startswith("./"): text = text[2:]\<close>.\<close>

fun drop_dot_slash :: "string \<Rightarrow> string" where
  "drop_dot_slash (a # b # s) = (if a = CHR ''.'' \<and> b = CHR ''/'' then drop_dot_slash s else a # b # s)"
| "drop_dot_slash s = s"

text \<open>\<open>str.splitlines()\<close>: a CR LF pair is one boundary, and a final boundary starts no line.\<close>

definition is_line_end :: "char \<Rightarrow> bool" where
  "is_line_end c = (let n = code c in (10 \<le> n \<and> n \<le> 13) \<or> (28 \<le> n \<and> n \<le> 30) \<or> n = 133)"

fun split_lines_acc :: "string \<Rightarrow> string \<Rightarrow> string list" where
  "split_lines_acc acc [] = (if acc = [] then [] else [rev acc])"
| "split_lines_acc acc (c # s) =
     (if is_line_end c
      then rev acc # (case s of d # s' \<Rightarrow>
                        if code c = 13 \<and> code d = 10 then split_lines_acc [] s'
                        else split_lines_acc [] (d # s')
                      | [] \<Rightarrow> [])
      else split_lines_acc (c # acc) s)"

definition split_lines :: "string \<Rightarrow> string list" where
  "split_lines s = split_lines_acc [] s"

section \<open>Numbers as text\<close>

fun nat_str :: "nat \<Rightarrow> string" where
  "nat_str n = (if n < 10 then [char_of (48 + n)] else nat_str (n div 10) @ [char_of (48 + n mod 10)])"

declare nat_str.simps [simp del]

definition int_str :: "int \<Rightarrow> string" where
  "int_str i = (if i < 0 then CHR ''-'' # nat_str (nat (- i)) else nat_str (nat i))"

section \<open>slugify\<close>

text \<open>
  \<open>re.sub("[^...]+", rep, s)\<close>: every maximal run of characters outside the class becomes one
  \<open>rep\<close>. The flag says whether the previous character was inside such a run.
\<close>

fun sub_runs :: "(char \<Rightarrow> bool) \<Rightarrow> char \<Rightarrow> bool \<Rightarrow> string \<Rightarrow> string" where
  "sub_runs bad r inrun [] = []"
| "sub_runs bad r inrun (c # s) =
     (if bad c then (if inrun then sub_runs bad r True s else r # sub_runs bad r True s)
      else c # sub_runs bad r False s)"

definition is_dash :: "char \<Rightarrow> bool" where
  "is_dash c = (c = CHR ''-'')"

definition slugify_limit :: "string \<Rightarrow> nat \<Rightarrow> string" where
  "slugify_limit value limit =
     (let slug = lower (strip_by is_dash (sub_runs (\<lambda>c. \<not> is_alnum_ascii c) CHR ''-'' False value));
          slug = (if slug = [] then ''task'' else slug);
          cut = strip_by is_dash (take limit slug)
      in if cut = [] then ''task'' else cut)"

definition slugify :: "string \<Rightarrow> string" where
  "slugify value = slugify_limit value 48"

section \<open>Lemmas\<close>

lemma strip_by_Nil [simp]: "strip_by p [] = []"
  by (simp add: strip_by_def lstrip_by_def rstrip_by_def)

lemma strip_Nil [simp]: "strip [] = []"
  by (simp add: strip_def)

lemma set_dropWhile_sub: "set (dropWhile p s) \<subseteq> set s"
  by (induction s) auto

lemma set_rstrip_by: "set (rstrip_by p s) \<subseteq> set s"
  using set_dropWhile_sub [of p "rev s"] by (simp add: rstrip_by_def)

lemma set_strip_by: "set (strip_by p s) \<subseteq> set s"
  unfolding strip_by_def lstrip_by_def
  by (rule subset_trans [OF set_rstrip_by set_dropWhile_sub])

lemma length_strip_by: "length (strip_by p s) \<le> length s"
  unfolding strip_by_def lstrip_by_def rstrip_by_def
  using length_dropWhile_le [of p s] length_dropWhile_le [of p "rev (dropWhile p s)"]
  by simp

lemma dropWhile_eq_Nil_or_hd: "dropWhile p s = [] \<or> \<not> p (hd (dropWhile p s))"
  by (induction s) auto

lemma rstrip_by_last: "rstrip_by p s = [] \<or> \<not> p (last (rstrip_by p s))"
  using dropWhile_eq_Nil_or_hd [of p "rev s"] by (auto simp: rstrip_by_def last_rev)

lemma rstrip_by_prefix: "\<exists>t. s = rstrip_by p s @ t"
proof
  show "s = rstrip_by p s @ rev (takeWhile p (rev s))"
    unfolding rstrip_by_def
    by (metis rev_append rev_rev_ident takeWhile_dropWhile_id)
qed

lemma rstrip_by_hd: "rstrip_by p s \<noteq> [] \<Longrightarrow> hd (rstrip_by p s) = hd s"
  using rstrip_by_prefix [of s p] by (metis hd_append2)

lemma strip_by_ends:
  "strip_by p s = [] \<or> (\<not> p (hd (strip_by p s)) \<and> \<not> p (last (strip_by p s)))"
  unfolding strip_by_def lstrip_by_def
  by (metis dropWhile_eq_Nil_or_hd rstrip_by_hd rstrip_by_last rstrip_by_prefix append_is_Nil_conv)

lemma strip_by_fixed:
  assumes "s = [] \<or> (\<not> p (hd s) \<and> \<not> p (last s))"
  shows "strip_by p s = s"
proof (cases "s = []")
  case False
  with assms have "dropWhile p s = s" "dropWhile p (rev s) = rev s"
    by (auto simp: dropWhile_eq_self_iff hd_rev)
  then show ?thesis by (simp add: strip_by_def lstrip_by_def rstrip_by_def)
qed simp

lemma strip_by_idem [simp]: "strip_by p (strip_by p s) = strip_by p s"
  by (rule strip_by_fixed) (rule strip_by_ends)

lemma strip_idem [simp]: "strip (strip s) = strip s"
  by (simp add: strip_def)

lemma code_char_of: "n < 256 \<Longrightarrow> code (char_of n) = n"
  by (simp add: code_def)

lemma code_less: "code c < 256"
  by (simp add: code_def)

lemma lower_char_idem [simp]: "lower_char (lower_char c) = lower_char c"
  using code_less [of c]
  by (auto simp: lower_char_def Let_def code_char_of)

lemma lower_idem [simp]: "lower (lower s) = lower s"
  by (simp add: lower_def)

lemma lower_Nil [simp]: "lower [] = []"
  by (simp add: lower_def)

lemma lower_eq_Nil [simp]: "lower s = [] \<longleftrightarrow> s = []"
  by (simp add: lower_def)

lemma is_space_lower_char [simp]: "is_space (lower_char c) = is_space c"
  using code_less [of c]
  by (auto simp: lower_char_def is_space_def Let_def code_char_of)

lemma dropWhile_map_same:
  "(\<And>c. p (f c) = p c) \<Longrightarrow> dropWhile p (map f s) = map f (dropWhile p s)"
  by (induction s) auto

lemma strip_lower: "strip (lower s) = lower (strip s)"
  by (simp add: strip_def strip_by_def lstrip_by_def rstrip_by_def lower_def rev_map
      dropWhile_map_same)

lemma drop_dot_slash_result: "\<not> starts_with (drop_dot_slash s) ''./''"
  by (induction s rule: drop_dot_slash.induct) (auto simp: starts_with_def)

lemma drop_dot_slash_idem [simp]: "drop_dot_slash (drop_dot_slash s) = drop_dot_slash s"
  by (induction s rule: drop_dot_slash.induct) auto

lemma contains_sublist: "contains s pat \<longleftrightarrow> sublist pat s"
proof (induction s)
  case Nil
  then show ?case by simp
next
  case (Cons c s)
  have "starts_with (c # s) pat \<longleftrightarrow> prefix pat (c # s)"
    unfolding starts_with_def by (metis append_eq_conv_conj prefix_def)
  with Cons show ?case by (simp add: sublist_Cons_right)
qed

subsection \<open>Slugs\<close>

definition slug_char :: "char \<Rightarrow> bool" where
  "slug_char c = (is_lower_az c \<or> is_digit c \<or> is_dash c)"

lemma set_sub_runs: "c \<in> set (sub_runs bad r b s) \<Longrightarrow> c = r \<or> \<not> bad c"
  by (induction s arbitrary: b) (auto split: if_splits)

lemma lower_alnum_is_slug_char: "is_alnum_ascii c \<Longrightarrow> slug_char (lower_char c)"
  using code_less [of c]
  by (auto simp: is_alnum_ascii_def is_upper_az_def is_lower_az_def is_digit_def slug_char_def
      lower_char_def Let_def code_char_of)

lemma lower_dash: "lower_char (CHR ''-'') = CHR ''-''"
  by (simp add: lower_char_def code_def)

lemma slug_char_dash: "slug_char (CHR ''-'')"
  by (simp add: slug_char_def is_dash_def)

lemma task_slug_chars: "\<forall>c\<in>set ''task''. slug_char c"
  by (simp add: slug_char_def is_lower_az_def code_def)

lemma slug_body_chars:
  "\<forall>c\<in>set (lower (strip_by is_dash (sub_runs (\<lambda>c. \<not> is_alnum_ascii c) CHR ''-'' False v))). slug_char c"
proof -
  have "slug_char (lower_char c)"
    if "c \<in> set (strip_by is_dash (sub_runs (\<lambda>c. \<not> is_alnum_ascii c) CHR ''-'' False v))" for c
  proof -
    from that have "c \<in> set (sub_runs (\<lambda>c. \<not> is_alnum_ascii c) CHR ''-'' False v)"
      using set_strip_by by blast
    then have "c = CHR ''-'' \<or> is_alnum_ascii c"
      using set_sub_runs by fastforce
    then show ?thesis
      by (auto simp: lower_alnum_is_slug_char lower_dash slug_char_dash)
  qed
  then show ?thesis by (simp add: lower_def)
qed

end
