(* ===== verification/PyValue.thy ===== *)
theory PyValue imports PyText begin

text \<open>
  The dynamic values the program passes around: what \<open>json.loads\<close> returns and task dictionaries
  hold. A dict is the list of its items in insertion order; \<open>d[k] = v\<close> is \<open>AList.update\<close>, which
  keeps the position of an existing key as Python does. A float is kept as its lexeme (the program
  only tests it for truth and prints it). \<open>str\<close> and \<open>repr\<close> follow Python's rules.
\<close>

datatype json =
    JNull
  | JBool bool
  | JInt int
  | JFloat string
  | JStr string
  | JList "json list"
  | JObj "(string \<times> json) list"

type_synonym obj = "(string \<times> json) list"

section \<open>Truth, text and coercions\<close>

text \<open>A float lexeme is zero exactly when no digit before its exponent is non-zero; \<open>nan\<close> and \<open>inf\<close>
  are true.\<close>

definition mantissa :: "string \<Rightarrow> string" where
  "mantissa s = takeWhile (\<lambda>c. c \<noteq> CHR ''e'' \<and> c \<noteq> CHR ''E'') s"

fun truthy :: "json \<Rightarrow> bool" where
  "truthy JNull = False"
| "truthy (JBool b) = b"
| "truthy (JInt i) = (i \<noteq> 0)"
| "truthy (JFloat s) = list_ex (\<lambda>c. (is_digit c \<and> c \<noteq> CHR ''0'') \<or> c = CHR ''n'') (mantissa s)"
| "truthy (JStr s) = (s \<noteq> [])"
| "truthy (JList xs) = (xs \<noteq> [])"
| "truthy (JObj kvs) = (kvs \<noteq> [])"

text \<open>Python's \<open>a or b\<close>.\<close>

definition py_or :: "json \<Rightarrow> json \<Rightarrow> json" where
  "py_or a b = (if truthy a then a else b)"

definition hex_digit :: "nat \<Rightarrow> char" where
  "hex_digit n = (if n < 10 then char_of (48 + n) else char_of (87 + n))"

definition printable :: "char \<Rightarrow> bool" where
  "printable c = (let n = code c in (32 \<le> n \<and> n \<le> 126) \<or> (161 \<le> n \<and> n \<noteq> 173))"

definition repr_char :: "char \<Rightarrow> char \<Rightarrow> string" where
  "repr_char q c =
     (let bs = char_of (92::nat) in
      if c = q \<or> c = bs then [bs, c]
      else if code c = 10 then [bs, CHR ''n'']
      else if code c = 13 then [bs, CHR ''r'']
      else if code c = 9 then [bs, CHR ''t'']
      else if printable c then [c]
      else [bs, CHR ''x'', hex_digit (code c div 16), hex_digit (code c mod 16)])"

definition repr_str :: "string \<Rightarrow> string" where
  "repr_str s =
     (let sq = char_of (39::nat); dq = char_of (34::nat);
          q = (if List.member s sq \<and> \<not> List.member s dq then dq else sq)
      in [q] @ concat (map (repr_char q) s) @ [q])"

fun py_repr :: "json \<Rightarrow> string"
and py_repr_items :: "json list \<Rightarrow> string"
and py_repr_pairs :: "(string \<times> json) list \<Rightarrow> string" where
  "py_repr JNull = ''None''"
| "py_repr (JBool b) = (if b then ''True'' else ''False'')"
| "py_repr (JInt i) = int_str i"
| "py_repr (JFloat s) = s"
| "py_repr (JStr s) = repr_str s"
| "py_repr (JList xs) = ''['' @ py_repr_items xs @ '']''"
| "py_repr (JObj kvs) = ''{'' @ py_repr_pairs kvs @ ''}''"
| "py_repr_items [] = []"
| "py_repr_items (x # xs) = py_repr x @ (if xs = [] then [] else '', '' @ py_repr_items xs)"
| "py_repr_pairs [] = []"
| "py_repr_pairs ((k, v) # kvs) =
     repr_str k @ '': '' @ py_repr v @ (if kvs = [] then [] else '', '' @ py_repr_pairs kvs)"

fun py_str :: "json \<Rightarrow> string" where
  "py_str (JStr s) = s"
| "py_str v = py_repr v"

text \<open>\<open>str(value or "")\<close>, and the same stripped: \<open>_nonempty\<close> and \<open>_normalize_text\<close>.\<close>

definition str_or_empty :: "json \<Rightarrow> string" where
  "str_or_empty v = (if truthy v then py_str v else [])"

definition nonempty :: "json \<Rightarrow> string" where
  "nonempty v = strip (str_or_empty v)"

text \<open>The first non-empty of several texts, as \<open>a or b or c\<close> gives it.\<close>

fun first_nonempty :: "string list \<Rightarrow> string" where
  "first_nonempty [] = []"
| "first_nonempty (s # ss) = (if s \<noteq> [] then s else first_nonempty ss)"

section \<open>Dictionaries\<close>

definition dget :: "obj \<Rightarrow> string \<Rightarrow> json" where
  "dget d k = (case map_of d k of Some v \<Rightarrow> v | None \<Rightarrow> JNull)"

definition dhas :: "obj \<Rightarrow> string \<Rightarrow> bool" where
  "dhas d k = (map_of d k \<noteq> None)"

definition dset :: "string \<Rightarrow> json \<Rightarrow> obj \<Rightarrow> obj" where
  "dset k v d = AList.update k v d"

definition dsetdefault :: "string \<Rightarrow> json \<Rightarrow> obj \<Rightarrow> obj" where
  "dsetdefault k v d = (if dhas d k then d else dset k v d)"

text \<open>\<open>d.update(e)\<close> and \<open>{**d, **e}\<close>.\<close>

definition dupdate :: "obj \<Rightarrow> obj \<Rightarrow> obj" where
  "dupdate d e = fold (\<lambda>(k, v) acc. dset k v acc) e d"

text \<open>
  \<open>dict(value or {})\<close> for a field the task type declares a dict: a falsy value gives the empty
  dict. A truthy value of another type raises in Python; the program's \<open>Task\<close> type
  (src/tandem_agents/core/domain.py) rules it out and the model gives the empty dict.
\<close>

definition obj_of :: "json \<Rightarrow> obj" where
  "obj_of v = (case v of JObj kvs \<Rightarrow> kvs | _ \<Rightarrow> [])"

text \<open>
  \<open>list(value or [])\<close>: a list, the keys of a dict, the characters of a string. A truthy number or
  boolean raises in Python; the task type rules it out where the program calls this.
\<close>

definition list_of :: "json \<Rightarrow> json list" where
  "list_of v = (case v of
      JList xs \<Rightarrow> xs
    | JObj kvs \<Rightarrow> map (\<lambda>(k, _). JStr k) kvs
    | JStr s \<Rightarrow> map (\<lambda>c. JStr [c]) s
    | _ \<Rightarrow> [])"

definition opt_str :: "string option \<Rightarrow> json" where
  "opt_str x = (case x of None \<Rightarrow> JNull | Some s \<Rightarrow> JStr s)"

definition opt_int :: "int option \<Rightarrow> json" where
  "opt_int x = (case x of None \<Rightarrow> JNull | Some i \<Rightarrow> JInt i)"

text \<open>\<open>text or None\<close>.\<close>

definition str_or_none :: "string \<Rightarrow> string option" where
  "str_or_none s = (if s = [] then None else Some s)"

section \<open>Lemmas\<close>

lemma dget_Nil [simp]: "dget [] k = JNull"
  by (simp add: dget_def)

lemma dget_Cons [simp]: "dget ((k, v) # d) j = (if j = k then v else dget d j)"
  by (simp add: dget_def)

lemma dget_dset [simp]: "dget (dset k v d) j = (if j = k then v else dget d j)"
  by (simp add: dget_def dset_def update_conv)

lemma dhas_dset [simp]: "dhas (dset k v d) j = (j = k \<or> dhas d j)"
  by (simp add: dhas_def dset_def update_conv)

lemma dget_dupdate_notin: "j \<notin> fst ` set e \<Longrightarrow> dget (dupdate d e) j = dget d j"
  by (induction e arbitrary: d) (auto simp: dupdate_def)

lemma dupdate_Nil [simp]: "dupdate d [] = d"
  by (simp add: dupdate_def)

lemma dupdate_Cons [simp]: "dupdate d ((k, v) # e) = dupdate (dset k v d) e"
  by (simp add: dupdate_def)

lemma nonempty_str [simp]: "nonempty (JStr s) = strip s"
  by (simp add: nonempty_def str_or_empty_def)

lemma nonempty_null [simp]: "nonempty JNull = []"
  by (simp add: nonempty_def str_or_empty_def)

lemma strip_nonempty [simp]: "strip (nonempty v) = nonempty v"
  by (simp add: nonempty_def)

lemma obj_of_simps [simp]:
  "obj_of (JObj kvs) = kvs" "obj_of JNull = []"
  by (simp_all add: obj_of_def)

lemma list_of_simps [simp]:
  "list_of (JList xs) = xs" "list_of JNull = []"
  by (simp_all add: list_of_def)

end
