(* ===== verification/PyJson.thy ===== *)
theory PyJson imports PyValue begin

text \<open>
  The JSON text the program writes and reads: \<open>json.dumps(..., sort_keys=True,
  separators=(",", ":"), ensure_ascii=True)\<close> and \<open>json.loads\<close>. The store keeps its \<open>*_json\<close>
  columns as text; the model of the store keeps the value the text encodes, with its
  dicts sorted by key, as the text has them.
\<close>

section \<open>Printing\<close>

definition json_char :: "char \<Rightarrow> string" where
  "json_char c =
     (let bs = char_of (92::nat) in
      if c = char_of (34::nat) \<or> c = bs then [bs, c]
      else if code c = 8 then [bs, CHR ''b'']
      else if code c = 9 then [bs, CHR ''t'']
      else if code c = 10 then [bs, CHR ''n'']
      else if code c = 12 then [bs, CHR ''f'']
      else if code c = 13 then [bs, CHR ''r'']
      else if 32 \<le> code c \<and> code c \<le> 126 then [c]
      else [bs, CHR ''u'', CHR ''0'', CHR ''0'', hex_digit (code c div 16), hex_digit (code c mod 16)])"

definition json_string :: "string \<Rightarrow> string" where
  "json_string s = [char_of (34::nat)] @ concat (map json_char s) @ [char_of (34::nat)]"

text \<open>\<open>float.__repr__\<close>, but for the three values JSON has no numeral for.\<close>

definition json_float :: "string \<Rightarrow> string" where
  "json_float s = (if s = ''nan'' then ''NaN'' else if s = ''inf'' then ''Infinity''
     else if s = ''-inf'' then ''-Infinity'' else s)"

fun dumps_raw :: "json \<Rightarrow> string"
and dumps_items :: "json list \<Rightarrow> string"
and dumps_pairs :: "(string \<times> json) list \<Rightarrow> string" where
  "dumps_raw JNull = ''null''"
| "dumps_raw (JBool b) = (if b then ''true'' else ''false'')"
| "dumps_raw (JInt i) = int_str i"
| "dumps_raw (JFloat s) = json_float s"
| "dumps_raw (JStr s) = json_string s"
| "dumps_raw (JList xs) = CHR ''['' # dumps_items xs @ '']''"
| "dumps_raw (JObj kvs) = CHR ''{'' # dumps_pairs kvs @ ''}''"
| "dumps_items [] = []"
| "dumps_items (x # xs) = dumps_raw x @ (if xs = [] then [] else CHR '','' # dumps_items xs)"
| "dumps_pairs [] = []"
| "dumps_pairs ((k, v) # kvs) =
     json_string k @ CHR '':'' # dumps_raw v @ (if kvs = [] then [] else CHR '','' # dumps_pairs kvs)"

text \<open>\<open>sort_keys=True\<close>: the items of every dict in the order of their keys' code points.\<close>

fun str_le :: "string \<Rightarrow> string \<Rightarrow> bool" where
  "str_le [] t = True"
| "str_le (c # s) [] = False"
| "str_le (c # s) (d # t) = (code c < code d \<or> (c = d \<and> str_le s t))"

fun insert_key :: "string \<times> json \<Rightarrow> obj \<Rightarrow> obj" where
  "insert_key kv [] = [kv]"
| "insert_key kv (x # xs) = (if str_le (fst kv) (fst x) then kv # x # xs else x # insert_key kv xs)"

fun sort_keys :: "json \<Rightarrow> json"
and sort_keys_items :: "json list \<Rightarrow> json list"
and sort_keys_pairs :: "(string \<times> json) list \<Rightarrow> (string \<times> json) list" where
  "sort_keys (JList xs) = JList (sort_keys_items xs)"
| "sort_keys (JObj kvs) = JObj (sort_keys_pairs kvs)"
| "sort_keys v = v"
| "sort_keys_items [] = []"
| "sort_keys_items (x # xs) = sort_keys x # sort_keys_items xs"
| "sort_keys_pairs [] = []"
| "sort_keys_pairs ((k, v) # kvs) = insert_key (k, sort_keys v) (sort_keys_pairs kvs)"

definition dumps :: "json \<Rightarrow> string" where
  "dumps v = dumps_raw (sort_keys v)"

section \<open>Parsing\<close>

definition json_ws :: "char \<Rightarrow> bool" where
  "json_ws c = (code c = 32 \<or> code c = 9 \<or> code c = 10 \<or> code c = 13)"

definition skip_ws :: "string \<Rightarrow> string" where
  "skip_ws s = dropWhile json_ws s"

definition hex_value :: "char \<Rightarrow> nat option" where
  "hex_value c = (let n = code c in
     if 48 \<le> n \<and> n \<le> 57 then Some (n - 48)
     else if 97 \<le> n \<and> n \<le> 102 then Some (n - 87)
     else if 65 \<le> n \<and> n \<le> 70 then Some (n - 55)
     else None)"

definition escape_value :: "char \<Rightarrow> char option" where
  "escape_value c =
     (if c = char_of (34::nat) \<or> c = char_of (92::nat) \<or> c = CHR ''/'' then Some c
      else if c = CHR ''b'' then Some (char_of (8::nat))
      else if c = CHR ''f'' then Some (char_of (12::nat))
      else if c = CHR ''n'' then Some (char_of (10::nat))
      else if c = CHR ''r'' then Some (char_of (13::nat))
      else if c = CHR ''t'' then Some (char_of (9::nat))
      else None)"

text \<open>
  A four-digit escape must denote a character of the model's alphabet, so its first two digits are
  zero; other escapes are outside the model.
\<close>

definition unicode_value :: "char \<Rightarrow> char \<Rightarrow> char \<Rightarrow> char \<Rightarrow> char option" where
  "unicode_value a b c d =
     (case (hex_value a, hex_value b, hex_value c, hex_value d) of
        (Some 0, Some 0, Some x, Some y) \<Rightarrow> Some (char_of (16 * x + y))
      | _ \<Rightarrow> None)"

text \<open>The rest of a string after its opening quote.\<close>

function parse_chars :: "string \<Rightarrow> (string \<times> string) option" where
  "parse_chars [] = None"
| "parse_chars (c # s) =
     (if c = char_of (34::nat) then Some ([], s)
      else if c = char_of (92::nat) then
        (case s of [] \<Rightarrow> None
         | e # s1 \<Rightarrow>
             if e = CHR ''u'' then
               (case s1 of
                  h1 # h2 # h3 # h4 # s2 \<Rightarrow>
                    (case unicode_value h1 h2 h3 h4 of
                       None \<Rightarrow> None
                     | Some x \<Rightarrow> map_option (\<lambda>(t, r). (x # t, r)) (parse_chars s2))
                | _ \<Rightarrow> None)
             else (case escape_value e of
                     None \<Rightarrow> None
                   | Some x \<Rightarrow> map_option (\<lambda>(t, r). (x # t, r)) (parse_chars s1)))
      else if code c < 32 then None
      else map_option (\<lambda>(t, r). (c # t, r)) (parse_chars s))"
  by pat_completeness auto
termination
  by (relation "measure length") auto

definition digits_value :: "string \<Rightarrow> nat" where
  "digits_value ds = foldl (\<lambda>n c. 10 * n + (code c - 48)) 0 ds"

text \<open>The integer part is a single zero or digits that do not start with zero.\<close>

definition int_part :: "string \<Rightarrow> string" where
  "int_part s = (case s of
      [] \<Rightarrow> []
    | c # s' \<Rightarrow> if c = CHR ''0'' then [c] else takeWhile is_digit s)"

definition frac_part :: "string \<Rightarrow> string" where
  "frac_part s = (case s of
      c # d # s' \<Rightarrow> if c = CHR ''.'' \<and> is_digit d then c # takeWhile is_digit (d # s') else []
    | _ \<Rightarrow> [])"

definition exp_part :: "string \<Rightarrow> string" where
  "exp_part s = (case s of
      c # s1 \<Rightarrow>
        if c = CHR ''e'' \<or> c = CHR ''E'' then
          (case s1 of
             d # s2 \<Rightarrow>
               if (d = CHR ''+'' \<or> d = CHR ''-'') \<and> takeWhile is_digit s2 \<noteq> []
               then c # d # takeWhile is_digit s2
               else if is_digit d then c # takeWhile is_digit s1 else []
           | [] \<Rightarrow> [])
        else []
    | [] \<Rightarrow> [])"

definition parse_number :: "string \<Rightarrow> (json \<times> string) option" where
  "parse_number s =
     (let neg = starts_with s ''-'';
          s1 = (if neg then tl s else s);
          ip = int_part s1;
          s2 = drop (length ip) s1;
          fp = frac_part s2;
          s3 = drop (length fp) s2;
          ep = exp_part s3;
          s4 = drop (length ep) s3
      in if ip = [] then None
         else if fp = [] \<and> ep = []
         then Some (JInt (if neg then - int (digits_value ip) else int (digits_value ip)), s2)
         else Some (JFloat ((if neg then ''-'' else []) @ ip @ fp @ ep), s4))"

definition parse_literal :: "string \<Rightarrow> (json \<times> string) option" where
  "parse_literal s =
     (if starts_with s ''null'' then Some (JNull, drop 4 s)
      else if starts_with s ''true'' then Some (JBool True, drop 4 s)
      else if starts_with s ''false'' then Some (JBool False, drop 5 s)
      else if starts_with s ''NaN'' then Some (JFloat ''nan'', drop 3 s)
      else if starts_with s ''Infinity'' then Some (JFloat ''inf'', drop 8 s)
      else if starts_with s ''-Infinity'' then Some (JFloat ''-inf'', drop 9 s)
      else parse_number s)"

text \<open>
  The value parser. Each call spends a unit of fuel. At most two calls nest per consumed character
  (an opening bracket, then the element list after it), so the fuel \<open>loads\<close> starts with, twice the
  length of the text and two more, never runs out.
\<close>

fun parse_value :: "nat \<Rightarrow> string \<Rightarrow> (json \<times> string) option"
and parse_items :: "nat \<Rightarrow> string \<Rightarrow> (json list \<times> string) option"
and parse_pairs :: "nat \<Rightarrow> string \<Rightarrow> (obj \<times> string) option" where
  "parse_value 0 s = None"
| "parse_value (Suc n) s =
     (case s of
        [] \<Rightarrow> None
      | c # s1 \<Rightarrow>
          if c = char_of (34::nat) then map_option (\<lambda>(t, r). (JStr t, r)) (parse_chars s1)
          else if c = CHR ''['' then
            (case skip_ws s1 of
               [] \<Rightarrow> None
             | d # s2 \<Rightarrow> if d = CHR '']'' then Some (JList [], s2)
                         else map_option (\<lambda>(xs, r). (JList xs, r)) (parse_items n (d # s2)))
          else if c = CHR ''{'' then
            (case skip_ws s1 of
               [] \<Rightarrow> None
             | d # s2 \<Rightarrow> if d = CHR ''}'' then Some (JObj [], s2)
                         else map_option (\<lambda>(kvs, r). (JObj (dupdate [] kvs), r)) (parse_pairs n (d # s2)))
          else parse_literal (c # s1))"
| "parse_items 0 s = None"
| "parse_items (Suc n) s =
     (case parse_value n s of
        None \<Rightarrow> None
      | Some (x, s1) \<Rightarrow>
          (case skip_ws s1 of
             [] \<Rightarrow> None
           | d # s2 \<Rightarrow>
               if d = CHR '']'' then Some ([x], s2)
               else if d = CHR '','' then map_option (\<lambda>(xs, r). (x # xs, r)) (parse_items n (skip_ws s2))
               else None))"
| "parse_pairs 0 s = None"
| "parse_pairs (Suc n) s =
     (case s of
        [] \<Rightarrow> None
      | q # s0 \<Rightarrow>
          if q \<noteq> char_of (34::nat) then None
          else (case parse_chars s0 of
            None \<Rightarrow> None
          | Some (k, s1) \<Rightarrow>
              (case skip_ws s1 of
                 [] \<Rightarrow> None
               | d # s2 \<Rightarrow>
                   if d \<noteq> CHR '':'' then None
                   else (case parse_value n (skip_ws s2) of
                     None \<Rightarrow> None
                   | Some (v, s3) \<Rightarrow>
                       (case skip_ws s3 of
                          [] \<Rightarrow> None
                        | e # s4 \<Rightarrow>
                            if e = CHR ''}'' then Some ([(k, v)], s4)
                            else if e = CHR '','' then
                              map_option (\<lambda>(kvs, r). ((k, v) # kvs, r)) (parse_pairs n (skip_ws s4))
                            else None)))))"

definition loads :: "string \<Rightarrow> json option" where
  "loads s =
     (case parse_value (2 * length s + 2) (skip_ws s) of
        None \<Rightarrow> None
      | Some (v, r) \<Rightarrow> if skip_ws r = [] then Some v else None)"

end
