(* ===== verification/ContractText.thy ===== *)
theory ContractText imports PyJson begin

text \<open>
  The text half of src/tandem_agents/core/task_contract.py: reading a task contract out of an issue
  body written in Markdown. Each regular expression of the module is a function that returns what
  the expression's group captures. Sections are kept in the order the body opens them.
\<close>

section \<open>The module's regular expressions\<close>

definition nl :: string where
  "nl = [CHR 0x0A]"

definition fence :: string where
  "fence = [CHR 0x60, CHR 0x60, CHR 0x60]"

fun drop_spaces :: "nat \<Rightarrow> string \<Rightarrow> string" where
  "drop_spaces 0 s = s"
| "drop_spaces (Suc n) [] = []"
| "drop_spaces (Suc n) (c # s) = (if is_space c then drop_spaces n s else c # s)"

text \<open>\<open>_HEADING_RE\<close>: at most three blanks, two to six hashes, a blank, the title.\<close>

definition heading_match :: "string \<Rightarrow> string option" where
  "heading_match line =
     (let s1 = drop_spaces 3 line;
          n = length (takeWhile (\<lambda>c. c = CHR ''#'') s1);
          s2 = drop n s1
      in if 2 \<le> n \<and> n \<le> 6 \<and> s2 \<noteq> [] \<and> is_space (hd s2) then Some (strip s2) else None)"

text \<open>The list marker that \<open>_LIST_RE\<close> and \<open>_CHECKBOX_RE\<close> start with.\<close>

definition marker_rest :: "string \<Rightarrow> string option" where
  "marker_rest s = (case s of
      [] \<Rightarrow> None
    | c # s1 \<Rightarrow>
        if c = CHR ''-'' \<or> c = CHR ''*'' then Some s1
        else if is_digit c then
          (case dropWhile is_digit s of
             d # r \<Rightarrow> if d = CHR ''.'' \<or> d = CHR '')'' then Some r else None
           | [] \<Rightarrow> None)
        else None)"

text \<open>\<open>\s+(.*\S)\s*$\<close>.\<close>

definition blank_then_body :: "string \<Rightarrow> string option" where
  "blank_then_body r =
     (if r \<noteq> [] \<and> is_space (hd r) \<and> strip r \<noteq> [] then Some (strip r) else None)"

definition list_match :: "string \<Rightarrow> string option" where
  "list_match s = Option.bind (marker_rest s) blank_then_body"

definition checkbox_match :: "string \<Rightarrow> string option" where
  "checkbox_match s = (case marker_rest s of
      None \<Rightarrow> None
    | Some r \<Rightarrow>
        (case dropWhile is_space r of
           a # b # c # rest \<Rightarrow>
             if a = CHR ''['' \<and> (b = CHR '' '' \<or> b = CHR ''x'' \<or> b = CHR ''X'') \<and> c = CHR '']''
             then blank_then_body rest else None
         | _ \<Rightarrow> None))"

section \<open>Headings, texts and lists\<close>

definition heading_char :: "char \<Rightarrow> bool" where
  "heading_char c = (is_lower_az c \<or> is_digit c)"

definition normalize_heading :: "string \<Rightarrow> string" where
  "normalize_heading t =
     strip_by (\<lambda>c. c = CHR ''_'') (sub_runs (\<lambda>c. \<not> heading_char c) CHR ''_'' False (lower (strip t)))"

definition section_aliases :: "(string \<times> string) list" where
  "section_aliases =
    [(''program_context'', ''program_goal''), (''local_goal'', ''local_goal''),
     (''scope'', ''in_scope''), (''out_of_scope'', ''out_of_scope''),
     (''dependencies'', ''dependencies''), (''deliverables'', ''deliverables''),
     (''target_files'', ''target_files''), (''files_likely_involved'', ''target_files''),
     (''files_likely_touched'', ''target_files''), (''likely_files'', ''target_files''),
     (''likely_files_to_edit'', ''target_files''), (''verification'', ''verification_commands''),
     (''verification_steps'', ''verification_commands''), (''acceptance'', ''acceptance_criteria''),
     (''acceptance_criterion'', ''acceptance_criteria''),
     (''acceptance_criteria'', ''acceptance_criteria''), (''notes_for_agent'', ''notes_for_agent''),
     (''recommended_fix'', ''notes_for_agent''), (''suspected_root_cause'', ''notes_for_agent''),
     (''subtasks'', ''subtasks'')]"

text \<open>\<open>_normalize_text\<close> is \<open>nonempty\<close>.\<close>

definition normalize_text :: "json \<Rightarrow> string" where
  "normalize_text v = nonempty v"

definition is_blank :: "json \<Rightarrow> bool" where
  "is_blank v = (v = JNull \<or> v = JStr [] \<or> v = JList [] \<or> v = JObj [])"

definition coerce_text_list :: "json \<Rightarrow> string list" where
  "coerce_text_list v =
     (if is_blank v then []
      else (case v of
          JStr s \<Rightarrow> (let t = strip s in if t = [] then [] else [t])
        | _ \<Rightarrow>
          (let values = (case v of JObj kvs \<Rightarrow> map snd kvs | JList xs \<Rightarrow> xs | _ \<Rightarrow> [v])
           in filter (\<lambda>t. t \<noteq> []) (map normalize_text values))))"

definition path_char :: "char \<Rightarrow> bool" where
  "path_char c = (is_alnum_ascii c \<or> List.member ''._@+-'' c)"

text \<open>\<open>(?:/[A-Za-z0-9._@+-]+)*\<close>, greedily.\<close>

function path_tail :: "string \<Rightarrow> string" where
  "path_tail s =
     (case s of
        a # b # r \<Rightarrow>
          if a = CHR ''/'' \<and> path_char b
          then a # takeWhile path_char (b # r) @ path_tail (dropWhile path_char (b # r))
          else []
      | _ \<Rightarrow> [])"
  by pat_completeness auto
termination
  by (relation "measure length") (auto simp: length_dropWhile_le le_SucI less_Suc_eq_le)

declare path_tail.simps [simp del]

fun search_path :: "string \<Rightarrow> string option" where
  "search_path [] = None"
| "search_path (c # s) =
     (let seg = takeWhile path_char (c # s); tail = path_tail (dropWhile path_char (c # s))
      in if seg \<noteq> [] \<and> tail \<noteq> [] then Some (seg @ tail) else search_path s)"

text \<open>The text between the first two backticks that have something between them.\<close>

fun search_backtick :: "string \<Rightarrow> string option" where
  "search_backtick [] = None"
| "search_backtick (c # s) =
     (let inner = takeWhile (\<lambda>d. d \<noteq> CHR 0x60) s
      in if c = CHR 0x60 \<and> inner \<noteq> [] \<and> length inner < length s then Some inner
         else search_backtick s)"

definition is_quote :: "char \<Rightarrow> bool" where
  "is_quote c = (c = CHR 0x60 \<or> c = CHR 0x27 \<or> c = CHR 0x22)"

definition normalize_repo_relative_text :: "string \<Rightarrow> string" where
  "normalize_repo_relative_text t =
     (let text = replace_char (CHR 0x5C) (CHR ''/'') t;
          text = (case search_backtick text of
                    Some b \<Rightarrow> b
                  | None \<Rightarrow> (case search_path text of Some p \<Rightarrow> p | None \<Rightarrow> text))
      in drop_dot_slash (strip_by is_quote (strip text)))"

definition normalize_repo_relative_path :: "json \<Rightarrow> string" where
  "normalize_repo_relative_path v = normalize_repo_relative_text (normalize_text v)"

fun merge_unique_loop :: "string list \<Rightarrow> string list \<Rightarrow> string list" where
  "merge_unique_loop result [] = result"
| "merge_unique_loop result (x # xs) =
     (let t = strip x in
      if t = [] \<or> List.member result t then merge_unique_loop result xs
      else merge_unique_loop (result @ [t]) xs)"

definition merge_unique :: "string list \<Rightarrow> string list \<Rightarrow> string list" where
  "merge_unique existing additional = merge_unique_loop [] (existing @ additional)"

section \<open>Sections of an issue body\<close>

type_synonym sections = "(string \<times> string list) list"

definition preamble :: string where
  "preamble = ''__preamble__''"

definition sec_open :: "string \<Rightarrow> sections \<Rightarrow> sections" where
  "sec_open k secs = (if map_of secs k = None then secs @ [(k, [])] else secs)"

definition sec_append :: "string \<Rightarrow> string \<Rightarrow> sections \<Rightarrow> sections" where
  "sec_append k line secs =
     (let secs = sec_open k secs in AList.update k (the (map_of secs k) @ [line]) secs)"

definition section_key :: "string \<Rightarrow> string" where
  "section_key title = (let h = normalize_heading title in
     case map_of section_aliases h of Some a \<Rightarrow> a | None \<Rightarrow> h)"

fun split_sections_loop :: "string \<Rightarrow> sections \<Rightarrow> string list \<Rightarrow> sections" where
  "split_sections_loop current secs [] = secs"
| "split_sections_loop current secs (line # lines) =
     (case heading_match line of
        Some title \<Rightarrow> split_sections_loop (section_key title) (sec_open (section_key title) secs) lines
      | None \<Rightarrow> split_sections_loop current (sec_append current line secs) lines)"

definition split_sections :: "string \<Rightarrow> sections" where
  "split_sections body = split_sections_loop preamble [(preamble, [])] (split_lines body)"

definition section_lines :: "sections \<Rightarrow> string \<Rightarrow> string list" where
  "section_lines secs k = (case map_of secs k of Some ls \<Rightarrow> ls | None \<Rightarrow> [])"

definition section_text :: "string list \<Rightarrow> string" where
  "section_text lines =
     strip (join nl (filter (\<lambda>l. l \<noteq> [] \<and> \<not> starts_with l fence) (map strip lines)))"

definition section_item :: "string \<Rightarrow> string" where
  "section_item stripped =
     (case checkbox_match stripped of
        Some t \<Rightarrow> strip t
      | None \<Rightarrow> (case list_match stripped of Some t \<Rightarrow> strip t | None \<Rightarrow> stripped))"

fun section_items_loop :: "bool \<Rightarrow> string list \<Rightarrow> string list" where
  "section_items_loop in_fence [] = []"
| "section_items_loop in_fence (raw # lines) =
     (let stripped = strip raw in
      if stripped = [] then section_items_loop in_fence lines
      else if starts_with stripped fence then section_items_loop (\<not> in_fence) lines
      else (if in_fence then stripped else section_item stripped) # section_items_loop in_fence lines)"

definition section_items :: "string list \<Rightarrow> string list" where
  "section_items lines = filter (\<lambda>t. t \<noteq> []) (map strip (section_items_loop False lines))"

definition checkbox_prefixes :: "string list" where
  "checkbox_prefixes = [''- [ ]'', ''* [ ]'', ''- [x]'', ''* [x]'', ''- [X]'', ''* [X]'']"

fun fallback_checkboxes :: "string list \<Rightarrow> string list" where
  "fallback_checkboxes [] = []"
| "fallback_checkboxes (line # lines) =
     (if line = [] then fallback_checkboxes lines
      else (case checkbox_match line of
          Some t \<Rightarrow> strip t # fallback_checkboxes lines
        | None \<Rightarrow>
            if list_ex (starts_with line) checkbox_prefixes
            then strip (tl (dropWhile (\<lambda>c. c \<noteq> CHR '']'') line)) # fallback_checkboxes lines
            else fallback_checkboxes lines))"

definition fallback_acceptance_criteria :: "string \<Rightarrow> string list" where
  "fallback_acceptance_criteria body =
     (let lines = map strip (split_lines body); criteria = fallback_checkboxes lines
      in if criteria \<noteq> [] then filter (\<lambda>t. t \<noteq> []) criteria
         else filter (\<lambda>t. t \<noteq> [])
           (map (\<lambda>l. strip (lstrip_by (List.member ''-* '') l))
             (filter (\<lambda>l. starts_with l ''- '' \<or> starts_with l ''* '') lines)))"

end
