(* ===== verification/TaskContract.thy ===== *)
theory TaskContract imports ContractText begin

text \<open>
  The task half of src/tandem_agents/core/task_contract.py: the contract of a task, its
  completeness, its dependencies on other tasks and the validation of a subtask plan. Tasks are
  JSON objects, as the source's dictionaries are.
\<close>

section \<open>Bug Monitor handoffs\<close>

definition handoff_marker :: string where
  "handoff_marker = ''tandem:coder_handoff:v1''"

fun before_close :: "string \<Rightarrow> string option" where
  "before_close [] = None"
| "before_close (c # s) =
     (if starts_with (c # s) ''-->'' then Some []
      else map_option (\<lambda>t. c # t) (before_close s))"

text \<open>\<open>_TANDEM_CODER_HANDOFF_RE.search\<close>, its group stripped.\<close>

fun search_handoff :: "string \<Rightarrow> string option" where
  "search_handoff [] = None"
| "search_handoff (c # s) =
     (let s1 = dropWhile is_space (drop 4 (c # s)) in
      if starts_with (c # s) ''<!--'' \<and> starts_with s1 handoff_marker
         \<and> before_close (drop (length handoff_marker) s1) \<noteq> None
      then map_option strip (before_close (drop (length handoff_marker) s1))
      else search_handoff s)"

definition extract_handoff :: "string \<Rightarrow> obj option" where
  "extract_handoff body =
     (case search_handoff body of
        None \<Rightarrow> None
      | Some t \<Rightarrow>
          (case loads t of
             Some (JObj h) \<Rightarrow>
               if nonempty (dget h ''handoff_type'') = ''tandem_autonomous_coder_issue'' then Some h
               else None
           | _ \<Rightarrow> None))"

definition handoff_note_rows :: "(string \<times> string) list" where
  "handoff_note_rows =
    [(''Bug Monitor triage run'', ''triage_run_id''), (''Bug Monitor incident'', ''incident_id''),
     (''Bug Monitor draft'', ''draft_id''), (''Failure type'', ''failure_type''),
     (''Risk level'', ''risk_level'')]"

definition handoff_notes :: "obj \<Rightarrow> string" where
  "handoff_notes h =
     (let rows = concat (map (\<lambda>(label, key). let v = normalize_text (dget h key) in
                   if v \<noteq> [] then [label @ '': '' @ v] else []) handoff_note_rows);
          ready = dget h ''coder_ready'';
          rows = rows @ (if ready \<noteq> JNull
                   then [''Bug Monitor coder-ready signal: '' @ py_repr (JBool (truthy ready))] else []);
          missing = coerce_text_list (dget h ''missing_tool_scopes'');
          rows = rows @ (if missing \<noteq> [] then [''Missing tool scopes: '' @ join '', '' missing] else [])
      in join nl rows)"

section \<open>Parsing a contract\<close>

definition jstrs :: "string list \<Rightarrow> json" where
  "jstrs xs = JList (map JStr xs)"

fun explicit_subtasks :: "nat \<Rightarrow> string list \<Rightarrow> json list" where
  "explicit_subtasks i [] = []"
| "explicit_subtasks i (item # items) =
     (let title = strip item in
      (if title = [] then []
       else [JObj [(''id'', JStr (''subtask-'' @ nat_str i)), (''title'', JStr title),
                   (''goal'', JStr title), (''description'', JStr title),
                   (''acceptance_criteria'', JList [])]])
      @ explicit_subtasks (Suc i) items)"

definition parse_explicit_subtasks :: "string list \<Rightarrow> json list" where
  "parse_explicit_subtasks lines = explicit_subtasks 1 (section_items lines)"

definition structured_keys :: "string list" where
  "structured_keys =
    [''program_goal'', ''local_goal'', ''in_scope'', ''out_of_scope'', ''dependencies'',
     ''deliverables'', ''target_files'', ''verification_commands'', ''acceptance_criteria'',
     ''notes_for_agent'', ''subtasks'']"

definition handoff_paths :: "obj \<Rightarrow> string list" where
  "handoff_paths h =
     map normalize_repo_relative_text
       (merge_unique (coerce_text_list (dget h ''likely_files_to_edit''))
          (merge_unique (coerce_text_list (dget h ''likely_files''))
             (coerce_text_list (dget h ''target_files''))))"

definition contract_acceptance :: "sections \<Rightarrow> string \<Rightarrow> json list \<Rightarrow> string list" where
  "contract_acceptance secs body fallback =
     (let acc = section_items (section_lines secs ''acceptance_criteria'');
          acc = (if acc = [] then filter (\<lambda>t. t \<noteq> []) (map (\<lambda>e. strip (py_str e)) fallback) else acc);
          structured = list_ex (\<lambda>k. map_of secs k \<noteq> None) structured_keys
      in if acc = [] \<and> \<not> structured then fallback_acceptance_criteria body else acc)"

definition parse_task_contract :: "string \<Rightarrow> json list \<Rightarrow> obj" where
  "parse_task_contract body fallback =
     (let secs = split_sections body;
          structured = list_ex (\<lambda>k. map_of secs k \<noteq> None) structured_keys;
          items = (\<lambda>k. section_items (section_lines secs k));
          targets = map normalize_repo_relative_text (items ''target_files'');
          commands = items ''verification_commands'';
          acceptance = contract_acceptance secs body fallback;
          notes = section_text (section_lines secs ''notes_for_agent'');
          raw = strip body;
          handoff = extract_handoff raw;
          h = (case handoff of Some d \<Rightarrow> d | None \<Rightarrow> []);
          on = (handoff \<noteq> None \<and> h \<noteq> []);
          hnotes = handoff_notes h
      in [(''program_goal'', JStr (section_text (section_lines secs ''program_goal''))),
          (''local_goal'', JStr (section_text (section_lines secs ''local_goal''))),
          (''in_scope'', jstrs (items ''in_scope'')),
          (''out_of_scope'', jstrs (items ''out_of_scope'')),
          (''dependencies'', jstrs (items ''dependencies'')),
          (''deliverables'', jstrs (items ''deliverables'')),
          (''target_files'', jstrs (if on then merge_unique targets (handoff_paths h) else targets)),
          (''verification_commands'', jstrs (if on then merge_unique commands
             (merge_unique (coerce_text_list (dget h ''verification_steps''))
                (coerce_text_list (dget h ''verification_commands''))) else commands)),
          (''acceptance_criteria'', jstrs (if on then merge_unique acceptance
             (coerce_text_list (dget h ''acceptance_criteria'')) else acceptance)),
          (''notes_for_agent'', JStr (if on \<and> hnotes \<noteq> []
             then join nl (filter (\<lambda>r. strip r \<noteq> []) [notes, hnotes]) else notes)),
          (''subtasks'', JList (parse_explicit_subtasks (section_lines secs ''subtasks''))),
          (''raw_issue_body'', JStr raw),
          (''has_structured_sections'', JBool structured),
          (''tandem_coder_handoff'', (case handoff of Some d \<Rightarrow> JObj d | None \<Rightarrow> JNull))])"

section \<open>The contract of a task\<close>

definition direct_fields :: "string list" where
  "direct_fields =
    [''program_goal'', ''local_goal'', ''in_scope'', ''out_of_scope'', ''dependencies'',
     ''deliverables'', ''target_files'', ''verification_commands'', ''acceptance_criteria'',
     ''notes_for_agent'', ''subtasks'', ''tandem_coder_handoff'']"

definition list_fields :: "string list" where
  "list_fields =
    [''in_scope'', ''out_of_scope'', ''dependencies'', ''deliverables'', ''target_files'',
     ''verification_commands'', ''acceptance_criteria'']"

text \<open>A field the task itself carries overrides what was parsed from its body.\<close>

definition apply_direct :: "obj \<Rightarrow> string \<Rightarrow> obj \<Rightarrow> obj" where
  "apply_direct task field parsed =
     (let v = dget task field in
      if is_blank v then parsed
      else if field = ''subtasks'' then dset field (case v of JList xs \<Rightarrow> JList xs | _ \<Rightarrow> JList []) parsed
      else if List.member list_fields field then
        (let vs = coerce_text_list v in if vs \<noteq> [] then dset field (jstrs vs) parsed else parsed)
      else if field = ''tandem_coder_handoff'' then
        dset field (case v of JObj kvs \<Rightarrow> JObj kvs | _ \<Rightarrow> JNull) parsed
      else dset field (JStr (normalize_text v)) parsed)"

definition task_contract_payload :: "obj \<Rightarrow> obj" where
  "task_contract_payload task =
     (case dget task ''task_contract'' of
        JObj (kv # kvs) \<Rightarrow> kv # kvs
      | _ \<Rightarrow>
        (let body = normalize_text (py_or (py_or (dget task ''raw_issue_body'') (dget task ''description''))
                      (dget task ''body''));
             parsed = parse_task_contract body (list_of (dget task ''acceptance_criteria''));
             title = normalize_text (dget task ''title'');
             parsed = (if \<not> truthy (dget parsed ''local_goal'') \<and> title \<noteq> []
                       then dset ''local_goal'' (JStr title) parsed else parsed)
         in fold (apply_direct task) direct_fields parsed))"

definition linear_pr_markers :: "string list" where
  "linear_pr_markers =
    [''close duplicate'', ''close clear duplicates'', ''close stale'', ''close/supersede'',
     ''github comment'', ''re-check whether any candidate has become mergeable'', ''do not close #'']"

definition linear_note_markers :: "string list" where
  "linear_note_markers =
    [''posted in this linear issue'', ''post decision notes'', ''decision notes are posted'',
     ''linked follow-up comments'', ''record close/merge decision'', ''record close merge decision'',
     ''record decision per pr'', ''inventory'']"

definition repo_edit_markers :: "string list" where
  "repo_edit_markers =
    [''implement'', ''fix bug'', ''add '', ''build '', ''create '', ''update code'', ''refactor'', ''test '']"

definition classify_text :: "obj \<Rightarrow> obj \<Rightarrow> string" where
  "classify_text task contract =
     lower (join nl
       [normalize_text (dget task ''title''), normalize_text (dget task ''description''),
        join nl (coerce_text_list (dget contract ''acceptance_criteria'')),
        normalize_text (dget contract ''notes_for_agent'')])"

definition classify_task_execution_kind :: "obj \<Rightarrow> string" where
  "classify_task_execution_kind task =
     (let contract = task_contract_payload task;
          source_type = lower (normalize_text (dget (obj_of (dget task ''source'')) ''type''));
          targets = coerce_text_list (py_or (dget contract ''target_files'') (dget task ''target_files''));
          commands = coerce_text_list
            (py_or (dget contract ''verification_commands'') (dget task ''verification_commands''));
          text = classify_text task contract
      in if targets \<noteq> [] \<or> commands \<noteq> [] \<or> truthy (dget contract ''tandem_coder_handoff'')
         then ''code_edit''
         else if source_type = ''linear'' then
           (if list_ex (contains text) linear_pr_markers then ''github_pr_action''
            else if list_ex (contains text) linear_note_markers
                 \<and> \<not> list_ex (contains text) repo_edit_markers then ''linear_comment''
            else ''code_edit'')
         else ''code_edit'')"

text \<open>\<open>value or None\<close> and \<open>list(value or [])\<close>.\<close>

definition or_none :: "json \<Rightarrow> json" where
  "or_none v = (if truthy v then v else JNull)"

definition as_list :: "json \<Rightarrow> json" where
  "as_list v = JList (if truthy v then list_of v else [])"

definition contract_description :: "obj \<Rightarrow> obj \<Rightarrow> string" where
  "contract_description result contract =
     (let d = normalize_text (py_or (py_or (dget result ''description'') (dget result ''body''))
                (dget contract ''raw_issue_body''))
      in if truthy (dget contract ''raw_issue_body'') \<and> d = []
         then strip (py_str (dget contract ''raw_issue_body'')) else d)"

definition apply_task_contract :: "obj \<Rightarrow> obj" where
  "apply_task_contract task =
     (let source = JObj (obj_of (dget task ''source''));
          repo = JObj (obj_of (dget task ''repo''));
          contract = task_contract_payload task;
          t = normalize_text (dget task ''title'');
          title = (if t = [] then ''Untitled task'' else t);
          description = contract_description task contract;
          contract = (if truthy (dget contract ''local_goal'') then contract
                      else dset ''local_goal'' (JStr title) contract);
          result = dupdate task
            [(''title'', JStr title),
             (''description'', JStr description),
             (''raw_issue_body'', py_or (dget contract ''raw_issue_body'') (JStr description)),
             (''program_goal'', or_none (dget contract ''program_goal'')),
             (''local_goal'', or_none (dget contract ''local_goal'')),
             (''in_scope'', as_list (dget contract ''in_scope'')),
             (''out_of_scope'', as_list (dget contract ''out_of_scope'')),
             (''dependencies'', as_list (dget contract ''dependencies'')),
             (''deliverables'', as_list (dget contract ''deliverables'')),
             (''target_files'', as_list (dget contract ''target_files'')),
             (''verification_commands'', as_list (dget contract ''verification_commands'')),
             (''acceptance_criteria'', as_list (dget contract ''acceptance_criteria'')),
             (''notes_for_agent'', or_none (dget contract ''notes_for_agent'')),
             (''subtasks'', as_list (dget contract ''subtasks'')),
             (''tandem_coder_handoff'', or_none (dget contract ''tandem_coder_handoff'')),
             (''task_contract'', JObj contract),
             (''source'', source),
             (''repo'', repo)]
      in dset ''execution_kind'' (JStr (classify_task_execution_kind result)) result)"

end
