(* ===== verification/TaskDependencies.thy ===== *)
theory TaskDependencies imports TaskContract begin

text \<open>
  What the scheduler and the claim ask of a task contract (the end of
  src/tandem_agents/core/task_contract.py): whether the tasks it depends on are done, whether the
  contract is complete enough to execute, and whether a plan of subtasks stays in scope.
\<close>

section \<open>Dependencies\<close>

definition normalized_status :: "json \<Rightarrow> string" where
  "normalized_status v = lower (normalize_text v)"

definition task_is_done :: "obj \<Rightarrow> bool" where
  "task_is_done task =
     (let state = normalized_status (py_or (dget task ''state'') (dget task ''status''))
      in state = ''done'' \<or> state = ''completed'')"

text \<open>The set the source builds, as a list without repetitions.\<close>

definition task_reference_tokens :: "obj \<Rightarrow> string list" where
  "task_reference_tokens task =
     (let source = obj_of (dget task ''source'');
          metadata = obj_of (dget task ''metadata'');
          source_source = obj_of (dget (obj_of (dget metadata ''task'')) ''source'');
          low = (\<lambda>d k. lower (normalize_text (dget d k)));
          tokens =
            [low task ''task_key'', low task ''task_id'', low task ''source_ref'',
             replace_char (CHR '':'') (CHR ''/'') (low task ''task_key'')]
            @ map (low source) [''card_id'', ''item'', ''project_item_id'', ''issue_number'',
                                ''url'', ''item_url'', ''issue_url'']
            @ map (low source_source) [''card_id'', ''item'', ''project_item_id'', ''issue_number'']
      in remdups (concat (map (\<lambda>t. let t = strip t in
            if t = [] then []
            else if hd t = CHR ''#'' \<and> length t > 1 then [t, tl t] else [t]) tokens)))"

definition normalize_dependency_text :: "string \<Rightarrow> string" where
  "normalize_dependency_text t = lstrip_by (\<lambda>c. c = CHR ''#'') (lower (strip t))"

definition normalize_dependency_token :: "json \<Rightarrow> string" where
  "normalize_dependency_token v = normalize_dependency_text (normalize_text v)"

text \<open>
  \<open>lookup[token]\<close>: a known task is appended once for each of its tokens that normalises to the key.
\<close>

definition dependency_matches :: "obj list \<Rightarrow> string \<Rightarrow> obj list" where
  "dependency_matches known token =
     concat (map (\<lambda>c. replicate
        (length (filter (\<lambda>t. normalize_dependency_text t = token) (task_reference_tokens c))) c) known)"

record resolved_dep =
  rd_dependency :: json
  rd_task_key :: json
  rd_task_id :: json
  rd_status :: string

record unresolved_dep =
  ud_dependency :: json
  ud_task_keys :: "json list"
  ud_task_ids :: "json list"
  ud_statuses :: "string list"
  ud_reason :: string

record dep_status =
  ds_declared :: "json list"
  ds_resolved :: "resolved_dep list"
  ds_unresolved :: "unresolved_dep list"
  ds_blocked :: bool
  ds_satisfied :: "bool option"
  ds_unknown :: bool
  ds_blocked_reason :: "string option"

definition resolve_dependency :: "obj list \<Rightarrow> json \<Rightarrow> unresolved_dep + resolved_dep" where
  "resolve_dependency known dep =
     (let matches = dependency_matches known (normalize_dependency_token dep) in
      case find task_is_done matches of
        Some m \<Rightarrow> Inr \<lparr>rd_dependency = dep, rd_task_key = dget m ''task_key'',
                       rd_task_id = dget m ''task_id'',
                       rd_status = normalized_status (py_or (dget m ''status'') (dget m ''state''))\<rparr>
      | None \<Rightarrow>
          if matches \<noteq> [] then
            Inl \<lparr>ud_dependency = dep,
                 ud_task_keys = filter truthy (map (\<lambda>m. dget m ''task_key'') matches),
                 ud_task_ids = filter truthy (map (\<lambda>m. dget m ''task_id'') matches),
                 ud_statuses = map normalized_status
                   (filter truthy (map (\<lambda>m. py_or (dget m ''status'') (dget m ''state'')) matches)),
                 ud_reason = ''not_done''\<rparr>
          else Inl \<lparr>ud_dependency = dep, ud_task_keys = [], ud_task_ids = [], ud_statuses = [],
                    ud_reason = ''missing''\<rparr>)"

fun lefts :: "('a + 'b) list \<Rightarrow> 'a list" where
  "lefts [] = []"
| "lefts (Inl x # ys) = x # lefts ys"
| "lefts (Inr y # ys) = lefts ys"

fun rights :: "('a + 'b) list \<Rightarrow> 'b list" where
  "rights [] = []"
| "rights (Inl x # ys) = rights ys"
| "rights (Inr y # ys) = y # rights ys"

definition declared_dependencies :: "obj \<Rightarrow> json list" where
  "declared_dependencies task =
     filter (\<lambda>e. normalize_text e \<noteq> []) (list_of (dget (task_contract_payload task) ''dependencies''))"

definition dependency_status_for_task :: "obj \<Rightarrow> obj list option \<Rightarrow> dep_status" where
  "dependency_status_for_task task known_tasks =
     (let declared = declared_dependencies task in
      if declared = [] then
        \<lparr>ds_declared = [], ds_resolved = [], ds_unresolved = [], ds_blocked = False,
         ds_satisfied = Some True, ds_unknown = False, ds_blocked_reason = None\<rparr>
      else (case known_tasks of
          None \<Rightarrow>
            \<lparr>ds_declared = declared, ds_resolved = [], ds_unresolved = [], ds_blocked = False,
             ds_satisfied = None, ds_unknown = True, ds_blocked_reason = None\<rparr>
        | Some known \<Rightarrow>
            (let rs = map (resolve_dependency known) declared;
                 unresolved = lefts rs;
                 blocked = (unresolved \<noteq> [])
             in \<lparr>ds_declared = declared, ds_resolved = rights rs, ds_unresolved = unresolved,
                 ds_blocked = blocked, ds_satisfied = Some (\<not> blocked), ds_unknown = False,
                 ds_blocked_reason = (if blocked
                   then Some (''blocked by '' @
                     join '', '' (map (\<lambda>u. py_str (ud_dependency u)) unresolved))
                   else None)\<rparr>)))"

text \<open>The dicts the code returns.\<close>

definition resolved_obj :: "resolved_dep \<Rightarrow> obj" where
  "resolved_obj r = [(''dependency'', rd_dependency r), (''task_key'', rd_task_key r),
     (''task_id'', rd_task_id r), (''status'', JStr (rd_status r))]"

definition unresolved_obj :: "unresolved_dep \<Rightarrow> obj" where
  "unresolved_obj u = [(''dependency'', ud_dependency u), (''matched_task_keys'', JList (ud_task_keys u)),
     (''matched_task_ids'', JList (ud_task_ids u)),
     (''matched_statuses'', JList (map JStr (ud_statuses u))), (''reason'', JStr (ud_reason u))]"

definition dep_status_obj :: "dep_status \<Rightarrow> obj" where
  "dep_status_obj s =
     [(''declared'', JList (ds_declared s)),
      (''resolved'', JList (map (\<lambda>r. JObj (resolved_obj r)) (ds_resolved s))),
      (''unresolved'', JList (map (\<lambda>u. JObj (unresolved_obj u)) (ds_unresolved s))),
      (''blocked'', JBool (ds_blocked s)),
      (''satisfied'', (case ds_satisfied s of Some b \<Rightarrow> JBool b | None \<Rightarrow> JNull)),
      (''unknown'', JBool (ds_unknown s)), (''blocked_reason'', opt_str (ds_blocked_reason s))]"

section \<open>Completeness\<close>

record completeness =
  cc_ok :: bool
  cc_issues :: "string list"
  cc_has_goal :: bool
  cc_has_acceptance :: bool
  cc_has_targets :: bool
  cc_has_deliverables :: bool
  cc_has_verification :: bool
  cc_has_subtasks :: bool
  cc_blocker_kind :: "string option"
  cc_blocker_message :: "string option"

definition task_contract_completeness :: "obj \<Rightarrow> completeness" where
  "task_contract_completeness task =
     (let contract = task_contract_payload task;
          title = normalize_text (dget task ''title'');
          description = normalize_text (dget task ''description'');
          has = (\<lambda>k. truthy (dget contract k));
          has_goal = (has ''program_goal'' \<or> has ''local_goal'' \<or> title \<noteq> [] \<or> description \<noteq> []);
          executable = (has ''acceptance_criteria'' \<or> has ''target_files'' \<or> has ''deliverables''
                        \<or> has ''verification_commands'' \<or> has ''subtasks'');
          issues = (if has_goal then [] else [''missing_goal''])
                 @ (if executable then [] else [''missing_execution_contract''])
      in \<lparr>cc_ok = (issues = []), cc_issues = issues, cc_has_goal = has_goal,
          cc_has_acceptance = has ''acceptance_criteria'', cc_has_targets = has ''target_files'',
          cc_has_deliverables = has ''deliverables'',
          cc_has_verification = has ''verification_commands'', cc_has_subtasks = has ''subtasks'',
          cc_blocker_kind = (if issues = [] then None else Some ''contract_incomplete''),
          cc_blocker_message = (if issues = [] then None
            else Some (''Task contract is incomplete: '' @ join '', '' issues))\<rparr>)"

definition completeness_obj :: "completeness \<Rightarrow> obj" where
  "completeness_obj c =
     [(''ok'', JBool (cc_ok c)), (''issues'', JList (map JStr (cc_issues c))),
      (''has_goal'', JBool (cc_has_goal c)), (''has_acceptance_criteria'', JBool (cc_has_acceptance c)),
      (''has_target_files'', JBool (cc_has_targets c)), (''has_deliverables'', JBool (cc_has_deliverables c)),
      (''has_verification_commands'', JBool (cc_has_verification c)),
      (''has_subtasks'', JBool (cc_has_subtasks c)), (''blocker_kind'', opt_str (cc_blocker_kind c)),
      (''blocker_message'', opt_str (cc_blocker_message c))]"

section \<open>Validation of a subtask plan\<close>

record plan_issue =
  pi_kind :: string
  pi_subtask :: string
  pi_detail :: string

record plan_validation =
  pv_ok :: bool
  pv_issues :: "plan_issue list"
  pv_blocker_kind :: "string option"
  pv_blocker_message :: "string option"

definition acceptance_fields :: "string list" where
  "acceptance_fields =
    [''acceptance_criteria'', ''acceptance'', ''acceptance_checklist'', ''validation'', ''required_work'',
     ''scope'', ''objective'', ''verification'', ''expected_verification'', ''instructions'', ''handoff'',
     ''deliverables'', ''deliverable'']"

text \<open>\<open>d.get(k1) or d.get(k2) or ...\<close>.\<close>

fun first_truthy :: "obj \<Rightarrow> string list \<Rightarrow> json" where
  "first_truthy d [] = JNull"
| "first_truthy d [k] = dget d k"
| "first_truthy d (k # j # ks) = py_or (dget d k) (first_truthy d (j # ks))"

definition path_in_scope :: "string list \<Rightarrow> string \<Rightarrow> bool" where
  "path_in_scope scopes file =
     (let p = normalize_repo_relative_text (strip file) in
      List.member scopes p \<or> list_ex (\<lambda>s. s \<noteq> [] \<and> starts_with p (s @ ''/'')) scopes)"

definition subtask_title :: "nat \<Rightarrow> obj \<Rightarrow> string" where
  "subtask_title i st =
     (let t = normalize_text (dget st ''title'') in if t = [] then ''Subtask '' @ nat_str i else t)"

definition subtask_files :: "obj \<Rightarrow> string list" where
  "subtask_files st = filter (\<lambda>t. t \<noteq> []) (map normalize_text (list_of (dget st ''files'')))"

definition subtask_issues :: "string list \<Rightarrow> bool \<Rightarrow> nat \<Rightarrow> obj \<Rightarrow> plan_issue list" where
  "subtask_issues out_of_scope requires_changes i st =
     (let title = subtask_title i st;
          goal = normalize_text (py_or (py_or (dget st ''goal'') (dget st ''description'')) (JStr title));
          files = subtask_files st;
          acceptance = coerce_text_list (first_truthy st acceptance_fields);
          absolute = filter (\<lambda>f. starts_with f ''/'') files
      in (if goal = [] then
            [\<lparr>pi_kind = ''missing_goal'', pi_subtask = title, pi_detail = ''Subtask goal is empty.''\<rparr>]
          else [])
       @ (if requires_changes \<and> acceptance = [] then
            [\<lparr>pi_kind = ''missing_acceptance_criteria'', pi_subtask = title,
              pi_detail = ''Nontrivial task requires acceptance criteria or checklist items.''\<rparr>]
          else [])
       @ (if absolute \<noteq> [] then
            [\<lparr>pi_kind = ''absolute_file_path'', pi_subtask = title, pi_detail = join '', '' absolute\<rparr>]
          else [])
       @ (case find (path_in_scope out_of_scope) files of
            Some f \<Rightarrow> [\<lparr>pi_kind = ''out_of_scope_conflict'', pi_subtask = title, pi_detail = f\<rparr>]
          | None \<Rightarrow> []))"

text \<open>Entries that are not mappings are skipped, but keep their index.\<close>

fun plan_issues :: "string list \<Rightarrow> bool \<Rightarrow> nat \<Rightarrow> json list \<Rightarrow> plan_issue list" where
  "plan_issues oos req i [] = []"
| "plan_issues oos req i (JObj st # sts) = subtask_issues oos req i st @ plan_issues oos req (Suc i) sts"
| "plan_issues oos req i (v # sts) = plan_issues oos req (Suc i) sts"

definition contract_out_of_scope :: "obj \<Rightarrow> string list" where
  "contract_out_of_scope contract =
     map normalize_repo_relative_path
       (filter (\<lambda>e. normalize_text e \<noteq> []) (list_of (dget contract ''out_of_scope'')))"

definition requires_changes :: "obj \<Rightarrow> bool" where
  "requires_changes contract =
     (truthy (dget contract ''target_files'') \<or> truthy (dget contract ''deliverables'')
      \<or> truthy (dget contract ''verification_commands''))"

definition task_plan_validation :: "obj \<Rightarrow> json list \<Rightarrow> plan_validation" where
  "task_plan_validation task subtasks =
     (let contract = task_contract_payload task;
          issues = plan_issues (contract_out_of_scope contract) (requires_changes contract) 1 subtasks
      in \<lparr>pv_ok = (issues = []), pv_issues = issues,
          pv_blocker_kind = (if issues = [] then None else Some ''contract_incomplete''),
          pv_blocker_message = (if issues = [] then None
            else Some (''Subtask plan is incomplete or unsafe: '' @
              join ''; '' (map (\<lambda>x. pi_kind x @ '' ('' @ pi_subtask x @ '')'') issues)))\<rparr>)"

section \<open>Lemmas\<close>

lemma lefts_eq_Nil_iff: "lefts ys = [] \<longleftrightarrow> (\<forall>y\<in>set ys. \<exists>b. y = Inr b)"
  by (induction ys rule: lefts.induct) auto

lemma length_lefts_rights: "length (lefts ys) + length (rights ys) = length ys"
  by (induction ys rule: lefts.induct) auto

lemma set_dependency_matches:
  "c \<in> set (dependency_matches known token) \<longleftrightarrow>
     c \<in> set known \<and> (\<exists>t\<in>set (task_reference_tokens c). normalize_dependency_text t = token)"
  by (auto simp: dependency_matches_def filter_empty_conv)

text \<open>What it means for a dependency to be met: a known, done task that answers to its token.\<close>

definition dependency_met :: "obj list \<Rightarrow> json \<Rightarrow> bool" where
  "dependency_met known dep =
     list_ex (\<lambda>c. task_is_done c \<and>
       list_ex (\<lambda>t. normalize_dependency_text t = normalize_dependency_token dep)
         (task_reference_tokens c)) known"

lemma find_Some_iff_ex: "(\<exists>x. find p xs = Some x) \<longleftrightarrow> (\<exists>x\<in>set xs. p x)"
  by (induction xs) auto

lemma resolve_dependency_Inr_iff:
  "(\<exists>r. resolve_dependency known dep = Inr r) \<longleftrightarrow> dependency_met known dep"
proof -
  let ?ms = "dependency_matches known (normalize_dependency_token dep)"
  have "(\<exists>r. resolve_dependency known dep = Inr r) \<longleftrightarrow> (\<exists>m. find task_is_done ?ms = Some m)"
    by (auto simp: resolve_dependency_def Let_def split: option.splits)
  also have "\<dots> \<longleftrightarrow> dependency_met known dep"
    unfolding find_Some_iff_ex
    by (auto simp: dependency_met_def list_ex_iff Bex_def set_dependency_matches)
  finally show ?thesis .
qed

lemma blocked_iff_unmet:
  "ds_blocked (dependency_status_for_task task (Some known)) \<longleftrightarrow>
     (\<exists>dep\<in>set (declared_dependencies task). \<not> dependency_met known dep)"
proof -
  have "lefts (map (resolve_dependency known) ds) \<noteq> [] \<longleftrightarrow> (\<exists>dep\<in>set ds. \<not> dependency_met known dep)"
    for ds
    by (simp add: lefts_eq_Nil_iff resolve_dependency_Inr_iff)
  then show ?thesis
    by (simp add: dependency_status_for_task_def Let_def)
qed

lemma plan_issues_Nil_iff:
  "plan_issues oos req i sts = [] \<longleftrightarrow>
     (\<forall>j < length sts. \<forall>st. sts ! j = JObj st \<longrightarrow> subtask_issues oos req (i + j) st = [])"
proof (induction oos req i sts rule: plan_issues.induct)
  case (1 oos req i)
  show ?case by simp
qed (simp_all add: All_less_Suc2)

end
