(* ===== verification/CoordSchema.thy ===== *)
theory CoordSchema imports TaskDependencies begin

text \<open>
  The tables of the coordination store (src/tandem_agents/core/coordination/schema.py and
  constants.py): one record per table row, the database as a record of tables, the constraints the
  schema declares, and the row serialisers of rows.py. A TEXT column that holds JSON
  (\<open>metadata_json\<close>, \<open>payload_json\<close>, ...) is modelled by the JSON value its text encodes;
  the writers sort the keys, so they store \<open>sort_keys v\<close>. A column
  that may be NULL is an option, unless every writer of the program stores a text in it
  (\<open>repo_slug\<close>, \<open>repo_path\<close> and \<open>board_path\<close> of a task). AUTOINCREMENT keys come from a counter
  per table that only grows.
\<close>

section \<open>Constants\<close>

definition DEFAULT_LEASE_TTL_SECONDS :: int where
  "DEFAULT_LEASE_TTL_SECONDS = 300"

definition DEFAULT_OUTBOX_STALE_AFTER_SECONDS :: int where
  "DEFAULT_OUTBOX_STALE_AFTER_SECONDS = 300"

definition DEFAULT_WORKER_STALE_AFTER_SECONDS :: int where
  "DEFAULT_WORKER_STALE_AFTER_SECONDS = 90"

definition TASK_STATES :: "string list" where
  "TASK_STATES = [''queued'', ''claimed'', ''active'', ''review'', ''blocked'', ''done'', ''stale'']"

text \<open>\<open>int(value or default)\<close> for an integer argument.\<close>

definition int_or :: "int \<Rightarrow> int \<Rightarrow> int" where
  "int_or v d = (if v = 0 then d else v)"

text \<open>The SQL and Python comparisons with this literal are exact.\<close>

abbreviation active :: string where
  "active \<equiv> ''active''"

section \<open>Rows\<close>

record task_row =
  t_key :: string
  t_task_id :: "string option"
  t_source_type :: string
  t_source_ref :: string
  t_title :: string
  t_repo_slug :: string
  t_repo_path :: string
  t_board_path :: string
  t_status :: string
  t_state :: string
  t_claimed_run_id :: "string option"
  t_claimed_lease_id :: "string option"
  t_claimed_by :: "string option"
  t_claimed_host_id :: "string option"
  t_lease_expires_at :: "int option"
  t_created_at :: int
  t_updated_at :: int
  t_metadata :: json

record run_row =
  r_run_id :: string
  r_task_key :: "string option"
  r_task_id :: "string option"
  r_repo_slug :: "string option"
  r_repo_path :: "string option"
  r_branch_name :: "string option"
  r_status :: string
  r_phase :: string
  r_worker_id :: "string option"
  r_host_id :: "string option"
  r_lease_id :: "string option"
  r_created_at :: int
  r_updated_at :: int
  r_started_at :: "int option"
  r_completed_at :: "int option"
  r_error :: "string option"
  r_metadata :: json

record worker_row =
  w_worker_id :: string
  w_host_id :: string
  w_role :: string
  w_status :: string
  w_capabilities :: json
  w_current_run_id :: "string option"
  w_current_lease_id :: "string option"
  w_last_seen_at :: int
  w_created_at :: int
  w_updated_at :: int

record lease_row =
  l_lease_id :: string
  l_task_key :: string
  l_task_id :: "string option"
  l_run_id :: string
  l_worker_id :: string
  l_host_id :: string
  l_role :: string
  l_status :: string
  l_attempt :: int
  l_acquired_at :: int
  l_heartbeat_at :: int
  l_expires_at :: int
  l_released_at :: "int option"
  l_release_reason :: "string option"
  l_metadata :: json

record outbox_row =
  o_id :: int
  o_kind :: string
  o_aggregate_type :: string
  o_aggregate_id :: string
  o_payload :: json
  o_status :: string
  o_attempts :: int
  o_next_attempt_at :: int
  o_last_error :: "string option"
  o_created_at :: int
  o_updated_at :: int
  o_dedupe_key :: "string option"

record approval_row =
  a_id :: int
  a_approval_id :: string
  a_run_id :: string
  a_task_id :: "string option"
  a_source_type :: string
  a_adapter :: string
  a_action_type :: string
  a_target :: json
  a_payload :: json
  a_risk_level :: string
  a_verification_marker :: "string option"
  a_status :: string
  a_requested_by :: "string option"
  a_decided_by :: "string option"
  a_decision_reason :: "string option"
  a_result :: json
  a_error :: "string option"
  a_created_at :: int
  a_updated_at :: int
  a_decided_at :: "int option"
  a_executed_at :: "int option"
  a_expires_at :: "int option"
  a_dedupe_key :: "string option"

record event_row =
  e_id :: int
  e_event_type :: string
  e_payload :: json
  e_created_at :: int

record db =
  db_tasks :: "task_row list"
  db_runs :: "run_row list"
  db_workers :: "worker_row list"
  db_leases :: "lease_row list"
  db_outbox :: "outbox_row list"
  db_outbox_seq :: int
  db_approvals :: "approval_row list"
  db_approvals_seq :: int
  db_events :: "event_row list"
  db_events_seq :: int

definition empty_db :: db where
  "empty_db = \<lparr>db_tasks = [], db_runs = [], db_workers = [], db_leases = [], db_outbox = [],
     db_outbox_seq = 0, db_approvals = [], db_approvals_seq = 0, db_events = [], db_events_seq = 0\<rparr>"

section \<open>Constraints\<close>

definition lease_active :: "lease_row \<Rightarrow> bool" where
  "lease_active l = (l_status l = active)"

definition active_leases :: "lease_row list \<Rightarrow> lease_row list" where
  "active_leases ls = filter lease_active ls"

text \<open>The partial unique index \<open>idx_leases_active_task_key\<close>.\<close>

definition unique_active :: "lease_row list \<Rightarrow> bool" where
  "unique_active ls = distinct (map l_task_key (active_leases ls))"

text \<open>A UNIQUE column that may be NULL: NULLs never conflict.\<close>

definition unique_opt :: "('r \<Rightarrow> string option) \<Rightarrow> 'r list \<Rightarrow> bool" where
  "unique_opt col t = distinct (map (\<lambda>r. the (col r)) (filter (\<lambda>r. col r \<noteq> None) t))"

definition leases_ok :: "lease_row list \<Rightarrow> bool" where
  "leases_ok ls = (keys_ok l_lease_id ls \<and> unique_active ls)"

definition outbox_ok :: "outbox_row list \<Rightarrow> int \<Rightarrow> bool" where
  "outbox_ok rows seq =
     (keys_ok o_id rows \<and> unique_opt o_dedupe_key rows \<and> list_all (\<lambda>r. o_id r \<le> seq) rows)"

definition approvals_ok :: "approval_row list \<Rightarrow> int \<Rightarrow> bool" where
  "approvals_ok rows seq =
     (keys_ok a_id rows \<and> keys_ok a_approval_id rows \<and> unique_opt a_dedupe_key rows
      \<and> list_all (\<lambda>r. a_id r \<le> seq) rows)"

definition events_ok :: "event_row list \<Rightarrow> int \<Rightarrow> bool" where
  "events_ok rows seq = (keys_ok e_id rows \<and> list_all (\<lambda>r. e_id r \<le> seq) rows)"

definition schema_ok :: "db \<Rightarrow> bool" where
  "schema_ok d =
     (keys_ok t_key (db_tasks d) \<and> keys_ok r_run_id (db_runs d) \<and> keys_ok w_worker_id (db_workers d)
      \<and> leases_ok (db_leases d) \<and> outbox_ok (db_outbox d) (db_outbox_seq d)
      \<and> approvals_ok (db_approvals d) (db_approvals_seq d) \<and> events_ok (db_events d) (db_events_seq d))"

section \<open>Serialised rows\<close>

definition row_to_task :: "task_row \<Rightarrow> obj" where
  "row_to_task row =
     (let metadata = t_metadata row;
          task = (case metadata of JObj m \<Rightarrow> obj_of (dget m ''task'') | _ \<Rightarrow> []);
          task = dupdate task
            [(''task_key'', JStr (t_key row)), (''task_id'', opt_str (t_task_id row)),
             (''source_type'', JStr (t_source_type row)), (''source_ref'', JStr (t_source_ref row)),
             (''title'', JStr (t_title row)), (''repo_slug'', JStr (t_repo_slug row)),
             (''repo_path'', JStr (t_repo_path row)), (''board_path'', JStr (t_board_path row)),
             (''status'', JStr (t_status row)), (''state'', JStr (t_state row)),
             (''claimed_run_id'', opt_str (t_claimed_run_id row)),
             (''claimed_lease_id'', opt_str (t_claimed_lease_id row)),
             (''claimed_by'', opt_str (t_claimed_by row)),
             (''claimed_host_id'', opt_str (t_claimed_host_id row)),
             (''lease_expires_at_ms'', opt_int (t_lease_expires_at row)),
             (''created_at_ms'', JInt (t_created_at row)), (''updated_at_ms'', JInt (t_updated_at row)),
             (''metadata'', metadata)];
          task = (case dget task ''source'' of JObj _ \<Rightarrow> task | _ \<Rightarrow> dset ''source'' (JObj []) task);
          task = (case dget task ''repo'' of JObj _ \<Rightarrow> task | _ \<Rightarrow> dset ''repo'' (JObj []) task);
          task = dsetdefault ''task_contract'' (JObj (obj_of (dget task ''task_contract''))) task
      in apply_task_contract task)"

section \<open>Lemmas\<close>

lemma schema_ok_empty: "schema_ok empty_db"
  by (simp add: schema_ok_def empty_db_def leases_ok_def unique_active_def active_leases_def
      outbox_ok_def approvals_ok_def events_ok_def unique_opt_def)

lemma unique_active_iff:
  assumes "keys_ok l_lease_id ls"
  shows "unique_active ls \<longleftrightarrow>
    (\<forall>a\<in>set ls. \<forall>b\<in>set ls. lease_active a \<and> lease_active b \<and> l_task_key a = l_task_key b \<longrightarrow> a = b)"
proof -
  have "distinct ls" using assms by (auto simp: keys_ok_def distinct_map)
  then show ?thesis
    by (auto simp: unique_active_def active_leases_def distinct_map inj_on_def)
qed

lemma unique_opt_upd_where:
  "(\<And>r. col (f r) = col r) \<Longrightarrow> unique_opt col t \<Longrightarrow> unique_opt col (upd_where p f t)"
proof -
  assume same: "\<And>r. col (f r) = col r"
  have "map (\<lambda>r. the (col r)) (filter (\<lambda>r. col r \<noteq> None) (upd_where p f t)) =
      map (\<lambda>r. the (col r)) (filter (\<lambda>r. col r \<noteq> None) t)"
    by (induction t) (simp_all add: same)
  then show "unique_opt col t \<Longrightarrow> unique_opt col (upd_where p f t)"
    by (simp add: unique_opt_def)
qed

lemma unique_opt_snoc:
  "unique_opt col (t @ [r]) \<longleftrightarrow>
     unique_opt col t \<and> (col r = None \<or> (\<forall>q\<in>set t. col q \<noteq> col r))"
  by (cases "col r") (auto simp: unique_opt_def image_iff)

text \<open>A status change that only deactivates leases keeps the partial index.\<close>

lemma unique_active_deactivate:
  assumes "\<And>l. l_task_key (f l) = l_task_key l" and "\<And>l. lease_active (f l) \<Longrightarrow> lease_active l"
    and "unique_active ls"
  shows "unique_active (upd_where p f ls)"
proof -
  have "map l_task_key (active_leases (upd_where p f ls)) =
      map l_task_key (filter (\<lambda>l. lease_active (if p l then f l else l)) ls)"
    by (induction ls) (auto simp: active_leases_def assms(1))
  moreover have "filter (\<lambda>l. lease_active (if p l then f l else l)) ls =
      filter (\<lambda>l. lease_active (if p l then f l else l)) (active_leases ls)"
    unfolding active_leases_def filter_filter
    by (rule filter_cong) (auto dest: assms(2) split: if_splits)
  ultimately show ?thesis
    using assms(3) by (simp add: unique_active_def distinct_map_filter)
qed

end
