(* ===== verification/CoordLeases.thy ===== *)
theory CoordLeases imports CoordSchema begin

text \<open>
  Leases of the coordination store (src/tandem_agents/core/coordination/leases.py) and the task
  helpers they call (tasks.py). An operation takes the clock reading \<open>now\<close> it begins with and the
  database and returns its result and the new database. The locale \<open>lease_update\<close> states what every
  UPDATE of the lease table promises: it keeps a lease's identity and never turns a lease active.
\<close>

section \<open>Task states\<close>

definition normalize_task_state :: "string \<Rightarrow> string" where
  "normalize_task_state state =
     (let n = lower (strip state) in if List.member TASK_STATES n then n else ''queued'')"

definition task_state_from_lease_status :: "string \<Rightarrow> string" where
  "task_state_from_lease_status status =
     (let n = lower (strip status) in
      if n = ''completed'' then ''done''
      else if n = ''blocked'' \<or> n = ''failed'' \<or> n = ''cancelled'' then ''blocked''
      else if n = ''stale'' then ''stale''
      else normalize_task_state n)"

section \<open>Statements that several operations share\<close>

text \<open>The claim columns are cleared only where they name the lease.\<close>

definition clear_claim_of :: "string \<Rightarrow> task_row \<Rightarrow> task_row" where
  "clear_claim_of lease_id t =
     (if t_claimed_lease_id t = Some lease_id
      then t\<lparr>t_claimed_run_id := None, t_claimed_lease_id := None, t_claimed_by := None,
             t_claimed_host_id := None, t_lease_expires_at := None\<rparr>
      else t)"

definition set_task_state :: "int \<Rightarrow> string \<Rightarrow> string \<Rightarrow> task_row \<Rightarrow> task_row" where
  "set_task_state now status state t = t\<lparr>t_status := status, t_state := state, t_updated_at := now\<rparr>"

definition clear_task_claim_for_lease ::
    "string \<Rightarrow> string \<Rightarrow> int \<Rightarrow> string \<Rightarrow> string option \<Rightarrow> task_row list \<Rightarrow> task_row list" where
  "clear_task_claim_for_lease task_key lease_id now state status ts =
     (let next_state = normalize_task_state state;
          next_status = (case status of Some s \<Rightarrow> if s = [] then next_state else s | None \<Rightarrow> next_state)
      in upd_where (\<lambda>t. t_key t = task_key)
           (\<lambda>t. set_task_state now next_status next_state (clear_claim_of lease_id t)) ts)"

definition idle_worker :: "int \<Rightarrow> worker_row \<Rightarrow> worker_row" where
  "idle_worker now w =
     w\<lparr>w_status := ''idle'', w_current_lease_id := None, w_current_run_id := None, w_updated_at := now\<rparr>"

definition stale_lease :: "int \<Rightarrow> string \<Rightarrow> lease_row \<Rightarrow> lease_row" where
  "stale_lease now reason l =
     l\<lparr>l_status := ''stale'', l_released_at := Some now, l_release_reason := Some reason\<rparr>"

section \<open>Lease operations\<close>

definition next_attempt :: "string \<Rightarrow> lease_row list \<Rightarrow> int" where
  "next_attempt task_key ls = int (length (filter (\<lambda>l. l_task_key l = task_key) ls)) + 1"

definition get_lease :: "string \<Rightarrow> db \<Rightarrow> lease_row option" where
  "get_lease lease_id d = row_by l_lease_id lease_id (db_leases d)"

definition list_leases ::
    "int \<Rightarrow> string option \<Rightarrow> string option \<Rightarrow> int \<Rightarrow> db \<Rightarrow> lease_row list" where
  "list_leases now status task_key limit d =
     (let st = lower (strip (case status of Some s \<Rightarrow> s | None \<Rightarrow> []));
          by_status = (\<lambda>l. if st = ''expired'' then lease_active l \<and> l_expires_at l \<le> now
                           else if st \<noteq> [] \<and> st \<noteq> ''all'' then l_status l = st else True);
          by_task = (\<lambda>l. case task_key of Some k \<Rightarrow> k = [] \<or> l_task_key l = k | None \<Rightarrow> True)
      in take (nat (max 1 limit))
           (order_desc l_heartbeat_at (filter (\<lambda>l. by_status l \<and> by_task l) (db_leases d))))"

definition ttl_ms :: "int \<Rightarrow> int" where
  "ttl_ms seconds = max 1 (int_or seconds DEFAULT_LEASE_TTL_SECONDS) * 1000"

definition refresh_lease :: "int \<Rightarrow> int \<Rightarrow> lease_row \<Rightarrow> lease_row" where
  "refresh_lease now expires l = l\<lparr>l_heartbeat_at := now, l_expires_at := expires\<rparr>"

definition heartbeat_lease :: "int \<Rightarrow> string \<Rightarrow> int \<Rightarrow> db \<Rightarrow> lease_row option \<times> db" where
  "heartbeat_lease now lease_id ttl_seconds d =
     (case get_lease lease_id d of
        None \<Rightarrow> (None, d)
      | Some row \<Rightarrow>
          if \<not> lease_active row then (None, d)
          else
            (let expires = now + ttl_ms ttl_seconds;
                 d' = d\<lparr>
                   db_leases := upd_where (\<lambda>l. l_lease_id l = lease_id \<and> lease_active l)
                     (refresh_lease now expires) (db_leases d),
                   db_tasks := upd_where (\<lambda>t. t_key t = l_task_key row)
                     (\<lambda>t. t\<lparr>t_lease_expires_at := Some expires, t_updated_at := now\<rparr>) (db_tasks d),
                   db_workers := upd_where (\<lambda>w. w_worker_id w = l_worker_id row)
                     (\<lambda>w. w\<lparr>w_last_seen_at := now, w_updated_at := now,
                            w_current_lease_id := Some lease_id\<rparr>) (db_workers d)\<rparr>
             in (get_lease lease_id d', d')))"

definition end_lease :: "int \<Rightarrow> string \<Rightarrow> string option \<Rightarrow> lease_row \<Rightarrow> lease_row" where
  "end_lease now status reason l =
     l\<lparr>l_status := status, l_released_at := Some now, l_release_reason := reason\<rparr>"

definition released_worker_status :: "string \<Rightarrow> string" where
  "released_worker_status status =
     (if List.member [''completed'', ''blocked'', ''failed''] status then ''idle'' else status)"

definition release_lease ::
    "int \<Rightarrow> string \<Rightarrow> string \<Rightarrow> string option \<Rightarrow> db \<Rightarrow> lease_row option \<times> db" where
  "release_lease now lease_id status reason d =
     (case get_lease lease_id d of
        None \<Rightarrow> (None, d)
      | Some row \<Rightarrow>
          if \<not> lease_active row then (get_lease lease_id d, d)
          else
            (let task_state = task_state_from_lease_status status;
                 d' = d\<lparr>
                   db_leases := upd_where (\<lambda>l. l_lease_id l = lease_id \<and> lease_active l)
                     (end_lease now status reason) (db_leases d),
                   db_tasks := upd_where (\<lambda>t. t_key t = l_task_key row)
                     (\<lambda>t. set_task_state now task_state task_state (clear_claim_of lease_id t)) (db_tasks d),
                   db_workers := upd_where (\<lambda>w. w_worker_id w = l_worker_id row)
                     (\<lambda>w. w\<lparr>w_status := released_worker_status status, w_current_lease_id := None,
                            w_current_run_id := None, w_updated_at := now\<rparr>) (db_workers d)\<rparr>
             in (get_lease lease_id d', d')))"

definition lease_expired :: "int \<Rightarrow> lease_row \<Rightarrow> bool" where
  "lease_expired now l = (lease_active l \<and> l_expires_at l \<le> now)"

definition reap_lease_row :: "int \<Rightarrow> lease_row \<Rightarrow> db \<Rightarrow> db" where
  "reap_lease_row now row d = d\<lparr>
     db_leases := upd_where (\<lambda>l. l_lease_id l = l_lease_id row) (stale_lease now ''expired'') (db_leases d),
     db_tasks := clear_task_claim_for_lease (l_task_key row) (l_lease_id row) now ''stale'' (Some ''stale'')
       (db_tasks d),
     db_workers := upd_where (\<lambda>w. w_worker_id w = l_worker_id row) (idle_worker now) (db_workers d)\<rparr>"

definition reap_expired_leases_locked :: "int \<Rightarrow> db \<Rightarrow> db" where
  "reap_expired_leases_locked now d =
     fold (reap_lease_row now) (filter (lease_expired now) (db_leases d)) d"

text \<open>The public operation: the rows it returns are read before the updates.\<close>

fun reap_rows :: "int \<Rightarrow> lease_row list \<Rightarrow> lease_row list \<Rightarrow> db \<Rightarrow> lease_row list \<times> db" where
  "reap_rows now [] expired d = (expired, d)"
| "reap_rows now (row # rows) expired d =
     reap_rows now rows (expired @ [row]) (reap_lease_row now row d)"

definition reap_expired_leases :: "int \<Rightarrow> db \<Rightarrow> lease_row list \<times> db" where
  "reap_expired_leases now d = reap_rows now (filter (lease_expired now) (db_leases d)) [] d"

section \<open>What an update of leases promises\<close>

locale lease_update =
  fixes f :: "lease_row \<Rightarrow> lease_row"
  assumes keeps_id: "l_lease_id (f l) = l_lease_id l"
    and keeps_task: "l_task_key (f l) = l_task_key l"
    and keeps_worker: "l_worker_id (f l) = l_worker_id l"
    and keeps_run: "l_run_id (f l) = l_run_id l"
    and keeps_attempt: "l_attempt (f l) = l_attempt l"
    and never_activates: "lease_active (f l) \<Longrightarrow> lease_active l"
begin

lemma leases_ok_update: "leases_ok ls \<Longrightarrow> leases_ok (upd_where p f ls)"
  unfolding leases_ok_def
  using keys_ok_upd_where [of l_lease_id f, OF keeps_id]
    unique_active_deactivate [of f, OF keeps_task never_activates]
  by blast

lemma row_by_update:
  "row_by l_lease_id i (upd_where p f ls) = map_option (\<lambda>l. if p l then f l else l) (row_by l_lease_id i ls)"
  by (rule row_by_upd_where) (rule keeps_id)

lemma inactive_stays_inactive:
  assumes "row_by l_lease_id i ls = Some l" and "\<not> lease_active l"
  shows "\<exists>l'. row_by l_lease_id i (upd_where p f ls) = Some l' \<and> \<not> lease_active l'"
  using assms never_activates by (auto simp: row_by_update)

lemma ids_update: "map l_lease_id (upd_where p f ls) = map l_lease_id ls"
  by (rule map_upd_where) (rule keeps_id)

lemma tasks_update: "map l_task_key (upd_where p f ls) = map l_task_key ls"
  by (rule map_upd_where) (rule keeps_task)

end

text \<open>An update that also ends the lease.\<close>

locale lease_ending = lease_update +
  assumes ends: "\<not> lease_active (f l)"
begin

lemma active_after: "active_leases (upd_where p f ls) = filter (\<lambda>l. \<not> p l) (active_leases ls)"
  by (induction ls) (auto simp: active_leases_def ends)

end

interpretation refresh: lease_update "refresh_lease now expires" for now expires
  by unfold_locales (auto simp: refresh_lease_def lease_active_def)

interpretation stale: lease_ending "stale_lease now reason" for now reason
  by unfold_locales (auto simp: stale_lease_def lease_active_def)

lemma end_lease_active_iff: "lease_active (end_lease now status reason l) \<longleftrightarrow> status = active"
  by (simp add: end_lease_def lease_active_def)

section \<open>Reaping as one update\<close>

lemma fold_upd_by_key:
  assumes "\<And>r. key (f r) = key r" and "\<And>r. f (f r) = f r"
  shows "fold (\<lambda>row. upd_where (\<lambda>r. key r = g row) f) rows t = upd_where (\<lambda>r. key r \<in> g ` set rows) f t"
proof (induction rows arbitrary: t)
  case Nil
  show ?case by (simp add: upd_where_none)
next
  case (Cons row rows)
  have "upd_where (\<lambda>r. key r \<in> g ` set rows) f (upd_where (\<lambda>r. key r = g row) f t) =
      upd_where (\<lambda>r. key r \<in> g ` set (row # rows)) f t"
    by (induction t) (auto simp: assms)
  with Cons show ?case by simp
qed

lemma db_leases_fold_reap:
  "db_leases (fold (reap_lease_row now) rows d) =
     fold (\<lambda>row. upd_where (\<lambda>l. l_lease_id l = l_lease_id row) (stale_lease now ''expired'')) rows (db_leases d)"
  by (induction rows arbitrary: d) (simp_all add: reap_lease_row_def)

lemma db_tasks_fold_reap:
  "db_tasks (fold (reap_lease_row now) rows d) =
     fold (\<lambda>row. clear_task_claim_for_lease (l_task_key row) (l_lease_id row) now ''stale'' (Some ''stale''))
       rows (db_tasks d)"
  by (induction rows arbitrary: d) (simp_all add: reap_lease_row_def)

lemma db_workers_fold_reap:
  "db_workers (fold (reap_lease_row now) rows d) =
     fold (\<lambda>row. upd_where (\<lambda>w. w_worker_id w = l_worker_id row) (idle_worker now)) rows (db_workers d)"
  by (induction rows arbitrary: d) (simp_all add: reap_lease_row_def)

lemma stale_lease_idem [simp]: "stale_lease now r (stale_lease now r l) = stale_lease now r l"
  by (simp add: stale_lease_def)

lemma idle_worker_idem [simp]: "idle_worker now (idle_worker now w) = idle_worker now w"
  by (simp add: idle_worker_def)

lemma idle_worker_id [simp]: "w_worker_id (idle_worker now w) = w_worker_id w"
  by (simp add: idle_worker_def)

lemma id_in_filter:
  assumes "keys_ok key t" and "r \<in> set t"
  shows "key r \<in> key ` set (filter p t) \<longleftrightarrow> p r"
  using assms by (induction t) (auto simp: keys_ok_def image_iff)

lemma reap_locked_leases:
  assumes "keys_ok l_lease_id (db_leases d)"
  shows "db_leases (reap_expired_leases_locked now d) =
    upd_where (lease_expired now) (stale_lease now ''expired'') (db_leases d)"
proof -
  have "db_leases (reap_expired_leases_locked now d) =
      upd_where (\<lambda>l. l_lease_id l \<in> l_lease_id ` set (filter (lease_expired now) (db_leases d)))
        (stale_lease now ''expired'') (db_leases d)"
    unfolding reap_expired_leases_locked_def db_leases_fold_reap
    by (rule fold_upd_by_key) (simp_all add: stale.keeps_id)
  also have "\<dots> = upd_where (lease_expired now) (stale_lease now ''expired'') (db_leases d)"
    unfolding upd_where_def
    by (rule map_cong [OF refl]) (metis assms id_in_filter)
  finally show ?thesis .
qed

lemma reap_locked_workers:
  "db_workers (reap_expired_leases_locked now d) =
     upd_where (\<lambda>w. w_worker_id w \<in> l_worker_id ` set (filter (lease_expired now) (db_leases d)))
       (idle_worker now) (db_workers d)"
  unfolding reap_expired_leases_locked_def db_workers_fold_reap
  by (rule fold_upd_by_key) simp_all

lemma reap_rows_fold:
  "reap_rows now rows expired d = (expired @ rows, fold (reap_lease_row now) rows d)"
  by (induction rows arbitrary: expired d) simp_all

lemma reap_expired_leases_eq:
  "reap_expired_leases now d =
     (filter (lease_expired now) (db_leases d), reap_expired_leases_locked now d)"
  by (simp add: reap_expired_leases_def reap_rows_fold reap_expired_leases_locked_def)

text \<open>The other tables are left alone.\<close>

lemma reap_lease_row_frame [simp]:
  "db_runs (reap_lease_row now row d) = db_runs d"
  "db_outbox (reap_lease_row now row d) = db_outbox d"
  "db_outbox_seq (reap_lease_row now row d) = db_outbox_seq d"
  "db_approvals (reap_lease_row now row d) = db_approvals d"
  "db_approvals_seq (reap_lease_row now row d) = db_approvals_seq d"
  "db_events (reap_lease_row now row d) = db_events d"
  "db_events_seq (reap_lease_row now row d) = db_events_seq d"
  by (simp_all add: reap_lease_row_def)

end
