(* ===== verification/CoordWorkers.thy ===== *)
theory CoordWorkers imports CoordLeases begin

text \<open>
  Workers of the coordination store (src/tandem_agents/core/coordination/workers.py): registration,
  heartbeats, and the reaping of workers that stopped reporting. A stale worker's lease is reaped
  only if the lease itself stopped beating or every leased worker of its host is stale; otherwise
  the worker row is left as it is.
\<close>

section \<open>Registration and heartbeat\<close>

definition register_worker ::
    "int \<Rightarrow> string \<Rightarrow> string \<Rightarrow> string \<Rightarrow> string \<Rightarrow> json \<Rightarrow> string option \<Rightarrow> string option \<Rightarrow> db \<Rightarrow> obj \<times> db" where
  "register_worker now worker_id host_id role status capabilities run_id lease_id d =
     (let caps = (if truthy capabilities then capabilities else JObj []);
          new = \<lparr>w_worker_id = worker_id, w_host_id = host_id, w_role = role, w_status = status,
                 w_capabilities = sort_keys caps, w_current_run_id = run_id, w_current_lease_id = lease_id,
                 w_last_seen_at = now, w_created_at = now, w_updated_at = now\<rparr>;
          merge = (\<lambda>w. w\<lparr>w_host_id := host_id, w_role := role, w_status := status,
                         w_capabilities := sort_keys caps, w_current_run_id := run_id,
                         w_current_lease_id := lease_id, w_last_seen_at := now, w_updated_at := now\<rparr>)
      in ([(''worker_id'', JStr worker_id), (''host_id'', JStr host_id), (''role'', JStr role),
           (''status'', JStr status), (''capabilities'', caps), (''current_run_id'', opt_str run_id),
           (''current_lease_id'', opt_str lease_id), (''last_seen_at_ms'', JInt now)],
          d\<lparr>db_workers := upsert w_worker_id new merge (db_workers d)\<rparr>))"

definition get_worker :: "string \<Rightarrow> db \<Rightarrow> worker_row option" where
  "get_worker worker_id d = row_by w_worker_id worker_id (db_workers d)"

text \<open>A column is written only when its argument is not None.\<close>

definition set_opt :: "'a option \<Rightarrow> ('a \<Rightarrow> 'r \<Rightarrow> 'r) \<Rightarrow> 'r \<Rightarrow> 'r" where
  "set_opt x f r = (case x of None \<Rightarrow> r | Some v \<Rightarrow> f v r)"

definition beat_worker ::
    "int \<Rightarrow> string option \<Rightarrow> string option \<Rightarrow> string option \<Rightarrow> json option \<Rightarrow> string option \<Rightarrow> string option
     \<Rightarrow> worker_row \<Rightarrow> worker_row" where
  "beat_worker now host_id role status capabilities run_id lease_id w =
     set_opt lease_id (\<lambda>v w. w\<lparr>w_current_lease_id := Some v\<rparr>)
      (set_opt run_id (\<lambda>v w. w\<lparr>w_current_run_id := Some v\<rparr>)
       (set_opt capabilities (\<lambda>v w. w\<lparr>w_capabilities := sort_keys v\<rparr>)
        (set_opt status (\<lambda>v w. w\<lparr>w_status := v\<rparr>)
         (set_opt role (\<lambda>v w. w\<lparr>w_role := v\<rparr>)
          (set_opt host_id (\<lambda>v w. w\<lparr>w_host_id := v\<rparr>)
           (w\<lparr>w_last_seen_at := now, w_updated_at := now\<rparr>))))))"

definition heartbeat_worker ::
    "int \<Rightarrow> string \<Rightarrow> string option \<Rightarrow> string option \<Rightarrow> string option \<Rightarrow> json option \<Rightarrow> string option
     \<Rightarrow> string option \<Rightarrow> db \<Rightarrow> worker_row option \<times> db" where
  "heartbeat_worker now worker_id host_id role status capabilities run_id lease_id d =
     (case get_worker worker_id d of
        None \<Rightarrow> (None, d)
      | Some row \<Rightarrow>
          (let d' = d\<lparr>db_workers := upd_where (\<lambda>w. w_worker_id w = worker_id)
                 (beat_worker now host_id role status capabilities run_id lease_id) (db_workers d)\<rparr>
           in (get_worker worker_id d', d')))"

definition list_workers :: "int \<Rightarrow> db \<Rightarrow> worker_row list" where
  "list_workers limit d = take (nat (max 1 (int_or limit 1))) (order_desc w_updated_at (db_workers d))"

section \<open>Stale workers\<close>

definition stale_ms :: "int \<Rightarrow> int" where
  "stale_ms seconds = max 1 (int_or seconds DEFAULT_WORKER_STALE_AFTER_SECONDS) * 1000"

definition worker_leased :: "worker_row \<Rightarrow> bool" where
  "worker_leased w = (w_current_lease_id w \<noteq> None)"

definition worker_stale :: "int \<Rightarrow> int \<Rightarrow> worker_row \<Rightarrow> bool" where
  "worker_stale now stale_after_ms w = (worker_leased w \<and> w_last_seen_at w \<le> now - stale_after_ms)"

text \<open>
  \<open>dead_hosts\<close>: the hosts, by their stripped names, with more than one leased worker, all of them
  stale. The count of leased workers compares the raw column with the stripped name, as the query does.
\<close>

definition dead_hosts :: "worker_row list \<Rightarrow> worker_row list \<Rightarrow> string list" where
  "dead_hosts rows workers =
     filter (\<lambda>h. let stale_count = length (filter (\<lambda>w. strip (w_host_id w) = h) rows);
                    active_count = length (filter (\<lambda>w. w_host_id w = h \<and> worker_leased w) workers)
                in active_count > 1 \<and> stale_count \<ge> active_count)
       (remdups (filter (\<lambda>h. h \<noteq> []) (map (\<lambda>w. strip (w_host_id w)) rows)))"

definition worker_lease_id :: "worker_row \<Rightarrow> string" where
  "worker_lease_id w = strip (case w_current_lease_id w of Some i \<Rightarrow> i | None \<Rightarrow> [])"

definition worker_lease :: "worker_row \<Rightarrow> lease_row list \<Rightarrow> lease_row option" where
  "worker_lease w ls = (if worker_lease_id w = [] then None else row_by l_lease_id (worker_lease_id w) ls)"

definition lease_held :: "worker_row \<Rightarrow> lease_row option \<Rightarrow> bool" where
  "lease_held w lease = (case lease of
      None \<Rightarrow> False
    | Some l \<Rightarrow> lower (strip (l_status l)) = active \<and> strip (l_worker_id l) = strip (w_worker_id w))"

definition should_reap :: "int \<Rightarrow> int \<Rightarrow> string list \<Rightarrow> worker_row \<Rightarrow> lease_row option \<Rightarrow> bool" where
  "should_reap now stale_after_ms dead w lease =
     (lease_held w lease \<and>
      ((case lease of Some l \<Rightarrow> l_heartbeat_at l | None \<Rightarrow> 0) \<le> now - stale_after_ms
       \<or> List.member dead (strip (w_host_id w))))"

definition reap_worker_lease :: "int \<Rightarrow> string \<Rightarrow> lease_row \<Rightarrow> db \<Rightarrow> db" where
  "reap_worker_lease now lease_id lease d = d\<lparr>
     db_leases := upd_where (\<lambda>l. l_lease_id l = lease_id) (stale_lease now ''worker stale'') (db_leases d),
     db_tasks := clear_task_claim_for_lease (l_task_key lease) lease_id now ''stale'' (Some ''stale'')
       (db_tasks d)\<rparr>"

definition idle_worker_row :: "int \<Rightarrow> string \<Rightarrow> db \<Rightarrow> db" where
  "idle_worker_row now worker_id d =
     d\<lparr>db_workers := upd_where (\<lambda>w. w_worker_id w = worker_id) (idle_worker now) (db_workers d)\<rparr>"

definition reap_stale_worker_row :: "int \<Rightarrow> int \<Rightarrow> string list \<Rightarrow> worker_row \<Rightarrow> db \<Rightarrow> db" where
  "reap_stale_worker_row now stale_after_ms dead row d =
     (let lease = worker_lease row (db_leases d) in
      if lease_held row lease \<and> \<not> should_reap now stale_after_ms dead row lease then d
      else
        (let d1 = (case lease of
              Some l \<Rightarrow> if should_reap now stale_after_ms dead row lease
                        then reap_worker_lease now (worker_lease_id row) l d else d
            | None \<Rightarrow> d)
         in idle_worker_row now (w_worker_id row) d1))"

definition reap_stale_workers_locked :: "int \<Rightarrow> int \<Rightarrow> db \<Rightarrow> db" where
  "reap_stale_workers_locked now stale_after_seconds d =
     (let ms = stale_ms stale_after_seconds;
          rows = filter (worker_stale now ms) (db_workers d);
          dead = dead_hosts rows (db_workers d)
      in fold (reap_stale_worker_row now ms dead) rows d)"

text \<open>The public operation returns what it read of each worker it idled, with the reaped lease.\<close>

record stale_worker =
  sw_worker :: worker_row
  sw_lease :: "lease_row option"

fun reap_stale_rows ::
    "int \<Rightarrow> int \<Rightarrow> string list \<Rightarrow> worker_row list \<Rightarrow> db \<Rightarrow> stale_worker list \<times> db" where
  "reap_stale_rows now ms dead [] d = ([], d)"
| "reap_stale_rows now ms dead (row # rows) d =
     (let lease = worker_lease row (db_leases d) in
      if lease_held row lease \<and> \<not> should_reap now ms dead row lease
      then reap_stale_rows now ms dead rows d
      else
        (let reported = \<lparr>sw_worker = row,
               sw_lease = (if should_reap now ms dead row lease then lease else None)\<rparr>;
             (more, d') = reap_stale_rows now ms dead rows (reap_stale_worker_row now ms dead row d)
         in (reported # more, d')))"

definition reap_stale_workers :: "int \<Rightarrow> int \<Rightarrow> db \<Rightarrow> stale_worker list \<times> db" where
  "reap_stale_workers now stale_after_seconds d =
     (let ms = stale_ms stale_after_seconds;
          rows = order_asc w_last_seen_at (filter (worker_stale now ms) (db_workers d));
          dead = dead_hosts rows (db_workers d)
      in reap_stale_rows now ms dead rows d)"

section \<open>The reaper\<close>

text \<open>src/tandem_agents/core/coordination/coordination_reaper.py.\<close>

definition coordination_worker_stale_interval :: "int \<Rightarrow> int" where
  "coordination_worker_stale_interval heartbeat_seconds = max 1 (max 1 (int_or heartbeat_seconds 1) * 3)"

definition coordination_reaper_interval :: "int \<Rightarrow> int \<Rightarrow> int" where
  "coordination_reaper_interval ttl_seconds heartbeat_seconds =
     (let ttl = max 1 (int_or ttl_seconds 1); heartbeat = max 1 (int_or heartbeat_seconds 1)
      in max 1 (min heartbeat (max 1 (ttl div 3))))"

text \<open>The tick reads the clock once per operation: \<open>now1\<close>, then \<open>now2\<close>.\<close>

definition coordination_reaper_tick ::
    "int \<Rightarrow> int \<Rightarrow> int \<Rightarrow> db \<Rightarrow> (lease_row list \<times> stale_worker list) \<times> db" where
  "coordination_reaper_tick heartbeat_seconds now1 now2 d =
     (let (expired, d1) = reap_expired_leases now1 d;
          (stale, d2) = reap_stale_workers now2 (coordination_worker_stale_interval heartbeat_seconds) d1
      in ((expired, stale), d2))"

section \<open>Lemmas\<close>

lemma lease_held_active:
  "lease_held w (Some l) \<Longrightarrow> lower (strip (l_status l)) = active"
  by (simp add: lease_held_def)

lemma reap_stale_worker_row_frame [simp]:
  "db_runs (reap_stale_worker_row now ms dead row d) = db_runs d"
  "db_outbox (reap_stale_worker_row now ms dead row d) = db_outbox d"
  "db_outbox_seq (reap_stale_worker_row now ms dead row d) = db_outbox_seq d"
  "db_approvals (reap_stale_worker_row now ms dead row d) = db_approvals d"
  "db_approvals_seq (reap_stale_worker_row now ms dead row d) = db_approvals_seq d"
  "db_events (reap_stale_worker_row now ms dead row d) = db_events d"
  "db_events_seq (reap_stale_worker_row now ms dead row d) = db_events_seq d"
  by (simp_all add: reap_stale_worker_row_def Let_def idle_worker_row_def reap_worker_lease_def
      split: option.splits)

text \<open>Every row of the lease table is either untouched or ended by the reaping of one worker.\<close>

lemma reap_stale_worker_row_leases:
  "\<exists>p. db_leases (reap_stale_worker_row now ms dead row d) =
     upd_where p (stale_lease now ''worker stale'') (db_leases d)"
proof (cases "worker_lease row (db_leases d)")
  case None
  then show ?thesis
    by (intro exI [of _ "\<lambda>_. False"])
      (simp add: reap_stale_worker_row_def Let_def idle_worker_row_def upd_where_none)
next
  case (Some l)
  show ?thesis
  proof (cases "should_reap now ms dead row (Some l)")
    case True
    with Some show ?thesis
      by (intro exI [of _ "\<lambda>l. l_lease_id l = worker_lease_id row"])
        (simp add: reap_stale_worker_row_def Let_def idle_worker_row_def reap_worker_lease_def)
  next
    case False
    with Some show ?thesis
      by (intro exI [of _ "\<lambda>_. False"])
        (simp add: reap_stale_worker_row_def Let_def idle_worker_row_def upd_where_none)
  qed
qed

lemma leases_ok_reap_stale_worker_row:
  assumes "leases_ok (db_leases d)"
  shows "leases_ok (db_leases (reap_stale_worker_row now ms dead row d))"
proof -
  obtain p where "db_leases (reap_stale_worker_row now ms dead row d) =
      upd_where p (stale_lease now ''worker stale'') (db_leases d)"
    using reap_stale_worker_row_leases by blast
  with assms show ?thesis by (simp add: stale.leases_ok_update)
qed

lemma leases_ok_fold_reap_stale:
  "leases_ok (db_leases d) \<Longrightarrow> leases_ok (db_leases (fold (reap_stale_worker_row now ms dead) rows d))"
  by (induction rows arbitrary: d) (simp_all add: leases_ok_reap_stale_worker_row)

lemma reap_stale_rows_db:
  "snd (reap_stale_rows now ms dead rows d) = fold (reap_stale_worker_row now ms dead) rows d"
proof (induction rows arbitrary: d)
  case Nil
  show ?case by simp
next
  case (Cons row rows)
  let ?l = "worker_lease row (db_leases d)"
  show ?case
  proof (cases "lease_held row ?l \<and> \<not> should_reap now ms dead row ?l")
    case True
    then have "reap_stale_worker_row now ms dead row d = d"
      by (simp add: reap_stale_worker_row_def Let_def)
    with True Cons show ?thesis by simp
  next
    case False
    with Cons [of "reap_stale_worker_row now ms dead row d"] show ?thesis
      by (auto simp: Let_def split_beta)
  qed
qed

end
