(* ===== verification/CoordTasks.thy ===== *)
theory CoordTasks imports CoordWorkers begin

text \<open>
  Tasks of the coordination store (src/tandem_agents/core/coordination/tasks.py): the key that
  identifies a task across intakes, registration, state transitions, and the claim, which reaps what
  is stale, checks the dependencies and the active lease, and writes the lease, run, task and worker
  rows. A claim that is refused or that raises returns without a commit, so its transaction is
  rolled back and the store is as it was. A fresh lease id is a parameter: the eight hexadecimal
  digits \<open>short_id\<close> draws.
\<close>

section \<open>Task keys and payloads\<close>

text \<open>\<open>slugify(task.get("title", "task"))\<close>: a title that is present and no text raises.\<close>

definition slug_title :: "obj \<Rightarrow> string res" where
  "slug_title task = (case map_of task ''title'' of
      None \<Rightarrow> Inr (slugify ''task'')
    | Some (JStr s) \<Rightarrow> Inr (slugify s)
    | Some _ \<Rightarrow> Inl TypeError)"

definition text_or_slug :: "string \<Rightarrow> obj \<Rightarrow> string res" where
  "text_or_slug s task = (if s \<noteq> [] then Inr s else slug_title task)"

definition prefixed :: "string \<Rightarrow> string res \<Rightarrow> string res" where
  "prefixed p r = bind_res r (\<lambda>s. Inr (p @ s))"

definition task_source :: "obj \<Rightarrow> obj" where
  "task_source task = obj_of (dget task ''source'')"

definition source_type_of :: "obj \<Rightarrow> string" where
  "source_type_of task = first_nonempty [nonempty (dget (task_source task) ''type''), ''unknown'']"

definition task_identifier :: "obj \<Rightarrow> string" where
  "task_identifier task =
     (let source = task_source task in
      first_nonempty [nonempty (dget task ''task_id''), nonempty (dget source ''card_id''),
        nonempty (dget source ''item''), nonempty (dget source ''project_item_id'')])"

definition task_source_ref :: "obj \<Rightarrow> string res" where
  "task_source_ref task =
     (let source = task_source task;
          f = (\<lambda>k. nonempty (dget source k));
          source_type = source_type_of task;
          task_id = task_identifier task
      in if source_type = ''github_project'' then
           prefixed (f ''owner'' @ ''/'' @ f ''project'' @ '':'')
             (text_or_slug (first_nonempty [f ''project_item_id'', f ''item_id'', f ''issue_number'', task_id]) task)
         else if source_type = ''linear'' then
           prefixed (f ''team'' @ ''/'' @ first_nonempty [f ''project'', f ''project_name'', ''issues''] @ '':'')
             (text_or_slug (first_nonempty [f ''issue_id'', f ''identifier'', task_id]) task)
         else if source_type = ''kanban_board'' then
           prefixed (first_nonempty [f ''board_path'', f ''path''] @ '':'') (text_or_slug task_id task)
         else if source_type = ''local_backlog'' then
           prefixed (f ''path'' @ '':'') (text_or_slug task_id task)
         else if source_type = ''manual'' then
           bind_res (if f ''prompt'' \<noteq> [] then Inr (slugify (f ''prompt'')) else slug_title task)
             (\<lambda>slug. prefixed (''manual:'' @ slug @ '':'') (text_or_slug task_id task))
         else
           prefixed (source_type @ '':'') (text_or_slug (first_nonempty [f ''source_name'', task_id]) task))"

text \<open>The key and the reference.\<close>

definition task_key :: "obj \<Rightarrow> (string \<times> string) res" where
  "task_key task = bind_res (task_source_ref task)
     (\<lambda>ref. Inr (source_type_of task @ '':'' @ ref, ref))"

record task_payload =
  tp_task_key :: string
  tp_task_id :: "string option"
  tp_source_type :: string
  tp_source_ref :: string
  tp_title :: string
  tp_repo_slug :: string
  tp_repo_path :: string
  tp_board_path :: string
  tp_metadata :: json

definition make_task_payload :: "obj \<Rightarrow> obj \<Rightarrow> task_payload res" where
  "make_task_payload task repo = bind_res (task_key task) (\<lambda>(key, ref).
     let task_repo = obj_of (dget task ''repo''); source = task_source task in
     Inr \<lparr>tp_task_key = key, tp_task_id = str_or_none (nonempty (dget task ''task_id'')),
          tp_source_type = source_type_of task, tp_source_ref = ref,
          tp_title = first_nonempty [nonempty (dget task ''title''), ''Untitled task''],
          tp_repo_slug = first_nonempty [nonempty (dget task_repo ''slug''), nonempty (dget repo ''slug'')],
          tp_repo_path = first_nonempty [nonempty (dget task_repo ''path''), nonempty (dget repo ''path'')],
          tp_board_path = nonempty (dget source ''board_path''),
          tp_metadata = sort_keys (JObj [(''task'', JObj task), (''repo'', JObj repo)])\<rparr>)"

text \<open>The payload as the dict it is in the code, with its JSON text.\<close>

definition payload_obj :: "task_payload \<Rightarrow> obj" where
  "payload_obj p =
     [(''task_key'', JStr (tp_task_key p)), (''task_id'', opt_str (tp_task_id p)),
      (''source_type'', JStr (tp_source_type p)), (''source_ref'', JStr (tp_source_ref p)),
      (''title'', JStr (tp_title p)), (''repo_slug'', JStr (tp_repo_slug p)),
      (''repo_path'', JStr (tp_repo_path p)), (''board_path'', JStr (tp_board_path p)),
      (''metadata_json'', JStr (dumps (tp_metadata p)))]"

section \<open>State transitions\<close>

definition release_claim :: "int \<Rightarrow> task_row \<Rightarrow> task_row" where
  "release_claim now t =
     t\<lparr>t_claimed_run_id := None, t_claimed_lease_id := None, t_claimed_by := None,
       t_claimed_host_id := None, t_lease_expires_at := None, t_updated_at := now\<rparr>"

definition clear_reclaimable_task_claim_locked :: "string \<Rightarrow> int \<Rightarrow> db \<Rightarrow> db" where
  "clear_reclaimable_task_claim_locked key now d =
     (case row_by t_key key (db_tasks d) of
        None \<Rightarrow> d
      | Some row \<Rightarrow>
          (let claimed = strip (case t_claimed_lease_id row of Some i \<Rightarrow> i | None \<Rightarrow> []) in
           if claimed = [] then d
           else if (case row_by l_lease_id claimed (db_leases d) of
                      Some l \<Rightarrow> lower (strip (l_status l)) = active | None \<Rightarrow> False) then d
           else d\<lparr>db_tasks := upd_where (\<lambda>t. t_key t = key) (release_claim now) (db_tasks d)\<rparr>))"

text \<open>The optional arguments of a transition.\<close>

record transition_args =
  ta_status :: "string option"
  ta_expires :: "int option"
  ta_run_id :: "string option"
  ta_lease_id :: "string option"
  ta_worker_id :: "string option"
  ta_host_id :: "string option"
  ta_reason :: "string option"
  ta_metadata :: obj
  ta_clear_claim :: bool

definition no_args :: transition_args where
  "no_args = \<lparr>ta_status = None, ta_expires = None, ta_run_id = None, ta_lease_id = None,
     ta_worker_id = None, ta_host_id = None, ta_reason = None, ta_metadata = [], ta_clear_claim = False\<rparr>"

text \<open>A text argument counts only if it is not empty.\<close>

definition text_arg :: "string option \<Rightarrow> string" where
  "text_arg x = (case x of Some s \<Rightarrow> s | None \<Rightarrow> [])"

definition coalesce :: "'a option \<Rightarrow> 'a option \<Rightarrow> 'a option" where
  "coalesce x y = (case x of Some v \<Rightarrow> Some v | None \<Rightarrow> y)"

definition transition_metadata :: "transition_args \<Rightarrow> json \<Rightarrow> json" where
  "transition_metadata a current =
     (let m = dupdate (obj_of current) (ta_metadata a);
          m = (if text_arg (ta_reason a) \<noteq> [] then dset ''state_reason'' (JStr (text_arg (ta_reason a))) m else m)
      in sort_keys (JObj m))"

definition transition_row :: "int \<Rightarrow> string \<Rightarrow> transition_args \<Rightarrow> json \<Rightarrow> task_row \<Rightarrow> task_row" where
  "transition_row now state a metadata t =
     t\<lparr>t_status := first_nonempty [text_arg (ta_status a), normalize_task_state state],
       t_state := normalize_task_state state,
       t_claimed_run_id := coalesce (ta_run_id a) (t_claimed_run_id t),
       t_claimed_lease_id := coalesce (ta_lease_id a) (t_claimed_lease_id t),
       t_claimed_by := coalesce (ta_worker_id a) (t_claimed_by t),
       t_claimed_host_id := coalesce (ta_host_id a) (t_claimed_host_id t),
       t_lease_expires_at := ta_expires a,
       t_updated_at := now,
       t_metadata := metadata\<rparr>"

text \<open>\<open>clear_claim=True\<close>: the task's active leases end, and their workers still on them go idle.\<close>

definition clear_claim_leases :: "int \<Rightarrow> string \<Rightarrow> string option \<Rightarrow> db \<Rightarrow> db" where
  "clear_claim_leases now key reason d =
     (let rows = filter (\<lambda>l. l_task_key l = key \<and> lease_active l) (db_leases d) in
      if rows = [] then d
      else d\<lparr>
        db_leases := upd_where (\<lambda>l. l_task_key l = key \<and> lease_active l)
          (stale_lease now (first_nonempty [text_arg reason, ''operator cleared task claim''])) (db_leases d),
        db_workers := fold (\<lambda>l. upd_where
            (\<lambda>w. w_worker_id w = l_worker_id l \<and> w_current_lease_id w = Some (l_lease_id l)) (idle_worker now))
          rows (db_workers d)\<rparr>)"

definition apply_task_state_locked :: "string \<Rightarrow> string \<Rightarrow> int \<Rightarrow> transition_args \<Rightarrow> db \<Rightarrow> db" where
  "apply_task_state_locked key state now a d =
     (case row_by t_key key (db_tasks d) of
        None \<Rightarrow> d
      | Some row \<Rightarrow>
          (let current_state = normalize_task_state (if t_state row \<noteq> [] then t_state row else t_status row);
               metadata = transition_metadata a (t_metadata row);
               d1 = d\<lparr>db_tasks := upd_where (\<lambda>t. t_key t = key) (transition_row now state a metadata) (db_tasks d)\<rparr>;
               d2 = (if current_state \<noteq> normalize_task_state state
                     then d1\<lparr>db_tasks := upd_where (\<lambda>t. t_key t = key) (\<lambda>t. t\<lparr>t_updated_at := now\<rparr>) (db_tasks d1)\<rparr>
                     else d1)
           in if ta_clear_claim a then
                (let d3 = clear_claim_leases now key (ta_reason a) d2
                 in d3\<lparr>db_tasks := upd_where (\<lambda>t. t_key t = key) (release_claim now) (db_tasks d3)\<rparr>)
              else d2))"

definition get_task :: "string \<Rightarrow> db \<Rightarrow> obj option" where
  "get_task key d = map_option row_to_task (row_by t_key key (db_tasks d))"

definition transition_task_state :: "int \<Rightarrow> string \<Rightarrow> string \<Rightarrow> transition_args \<Rightarrow> db \<Rightarrow> obj option \<times> db" where
  "transition_task_state now key state a d =
     (let d' = apply_task_state_locked key state now a d in (get_task key d', d'))"

text \<open>The transitions a worker makes, with the arguments each sets.\<close>

definition owner_args :: "string \<Rightarrow> string \<Rightarrow> string option \<Rightarrow> string option \<Rightarrow> string option
    \<Rightarrow> int option \<Rightarrow> string option \<Rightarrow> transition_args" where
  "owner_args status run_id lease_id worker_id host_id expires reason =
     no_args\<lparr>ta_status := Some status, ta_run_id := Some run_id, ta_lease_id := lease_id,
             ta_worker_id := worker_id, ta_host_id := host_id, ta_expires := expires, ta_reason := reason\<rparr>"

definition mark_task_claimed ::
    "int \<Rightarrow> string \<Rightarrow> string \<Rightarrow> string \<Rightarrow> string \<Rightarrow> string \<Rightarrow> int \<Rightarrow> string option \<Rightarrow> db \<Rightarrow> obj option \<times> db" where
  "mark_task_claimed now key run_id lease_id worker_id host_id expires reason =
     transition_task_state now key ''claimed''
       (owner_args ''claimed'' run_id (Some lease_id) (Some worker_id) (Some host_id) (Some expires) reason)"

definition mark_task_active ::
    "int \<Rightarrow> string \<Rightarrow> string \<Rightarrow> string \<Rightarrow> string \<Rightarrow> string \<Rightarrow> int \<Rightarrow> string option \<Rightarrow> db \<Rightarrow> obj option \<times> db" where
  "mark_task_active now key run_id lease_id worker_id host_id expires reason =
     transition_task_state now key ''active''
       (owner_args ''active'' run_id (Some lease_id) (Some worker_id) (Some host_id) (Some expires) reason)"

definition mark_task_review ::
    "int \<Rightarrow> string \<Rightarrow> string \<Rightarrow> string \<Rightarrow> string \<Rightarrow> string \<Rightarrow> int \<Rightarrow> string option \<Rightarrow> db \<Rightarrow> obj option \<times> db" where
  "mark_task_review now key run_id lease_id worker_id host_id expires reason =
     transition_task_state now key ''review''
       (owner_args ''review'' run_id (Some lease_id) (Some worker_id) (Some host_id) (Some expires) reason)"

definition mark_task_blocked ::
    "int \<Rightarrow> string \<Rightarrow> string \<Rightarrow> string option \<Rightarrow> string option \<Rightarrow> string option \<Rightarrow> string option \<Rightarrow> db
     \<Rightarrow> obj option \<times> db" where
  "mark_task_blocked now key run_id lease_id worker_id host_id reason =
     transition_task_state now key ''blocked'' (owner_args ''blocked'' run_id lease_id worker_id host_id None reason)"

definition mark_task_done ::
    "int \<Rightarrow> string \<Rightarrow> string \<Rightarrow> string option \<Rightarrow> string option \<Rightarrow> string option \<Rightarrow> string option \<Rightarrow> db
     \<Rightarrow> obj option \<times> db" where
  "mark_task_done now key run_id lease_id worker_id host_id reason =
     transition_task_state now key ''done'' (owner_args ''done'' run_id lease_id worker_id host_id None reason)"

section \<open>Registration and reading\<close>

definition task_row_of :: "task_payload \<Rightarrow> string \<Rightarrow> int \<Rightarrow> task_row" where
  "task_row_of p state now =
     \<lparr>t_key = tp_task_key p, t_task_id = tp_task_id p, t_source_type = tp_source_type p,
      t_source_ref = tp_source_ref p, t_title = tp_title p, t_repo_slug = tp_repo_slug p,
      t_repo_path = tp_repo_path p, t_board_path = tp_board_path p, t_status = state, t_state = state,
      t_claimed_run_id = None, t_claimed_lease_id = None, t_claimed_by = None, t_claimed_host_id = None,
      t_lease_expires_at = None, t_created_at = now, t_updated_at = now, t_metadata = tp_metadata p\<rparr>"

text \<open>The columns both upserts of a task overwrite.\<close>

definition merge_task :: "task_payload \<Rightarrow> string \<Rightarrow> int \<Rightarrow> task_row \<Rightarrow> task_row" where
  "merge_task p state now t =
     t\<lparr>t_task_id := tp_task_id p, t_source_type := tp_source_type p, t_source_ref := tp_source_ref p,
       t_title := tp_title p, t_repo_slug := tp_repo_slug p, t_repo_path := tp_repo_path p,
       t_board_path := tp_board_path p, t_status := state, t_state := state, t_updated_at := now,
       t_metadata := tp_metadata p\<rparr>"

definition register_task :: "int \<Rightarrow> obj \<Rightarrow> obj \<Rightarrow> string \<Rightarrow> db \<Rightarrow> (obj \<times> db) res" where
  "register_task now task repo status d = bind_res (make_task_payload task repo) (\<lambda>p.
     let state = normalize_task_state status;
         key = tp_task_key p;
         d1 = d\<lparr>db_tasks := upsert t_key (task_row_of p state now) (merge_task p state now) (db_tasks d)\<rparr>;
         d2 = clear_reclaimable_task_claim_locked key now d1
     in Inr ((case get_task key d2 of
                Some task \<Rightarrow> if task = [] then dupdate (payload_obj p) [(''status'', JStr state), (''state'', JStr state)]
                             else task
              | None \<Rightarrow> dupdate (payload_obj p) [(''status'', JStr state), (''state'', JStr state)]), d2))"

record ownership =
  ow_task_key :: string
  ow_task :: obj
  ow_lease :: "lease_row option"
  ow_run :: "run_row option"
  ow_worker :: "worker_row option"
  ow_task_state :: string
  ow_lease_state :: string
  ow_state :: string
  ow_is_current :: bool
  ow_reclaimable :: bool
  ow_blocked_reason :: "string option"

definition ownership_state :: "string \<Rightarrow> string \<Rightarrow> string" where
  "ownership_state task_state lease_state =
     (let working = [''claimed'', ''active'', ''review''] in
      if lease_state = ''active'' \<and> List.member working task_state then ''owned''
      else if lease_state = ''stale'' \<or> task_state = ''stale'' then ''reclaimable''
      else task_state)"

definition first_row :: "'r list \<Rightarrow> 'r option" where
  "first_row rows = (case rows of [] \<Rightarrow> None | r # _ \<Rightarrow> Some r)"

definition task_lease :: "string \<Rightarrow> obj \<Rightarrow> lease_row list \<Rightarrow> lease_row option" where
  "task_lease key task ls =
     (let claimed = nonempty (dget task ''claimed_lease_id'');
          by_claim = (if claimed = [] then None else row_by l_lease_id claimed ls)
      in coalesce by_claim (first_row (order_desc l_acquired_at (filter (\<lambda>l. l_task_key l = key) ls))))"

definition task_ownership :: "string \<Rightarrow> db \<Rightarrow> ownership option" where
  "task_ownership key d = map_option (\<lambda>row.
     let task = row_to_task row;
         lease = task_lease key task (db_leases d);
         lease_text = (\<lambda>f. case lease of Some l \<Rightarrow> JStr (f l) | None \<Rightarrow> JNull);
         run_id = nonempty (py_or (dget task ''claimed_run_id'') (lease_text l_run_id));
         run = (if run_id = [] then None else row_by r_run_id run_id (db_runs d));
         worker_id = nonempty (py_or (lease_text l_worker_id) (dget task ''claimed_by''));
         worker = (if worker_id = [] then None else row_by w_worker_id worker_id (db_workers d));
         task_state = normalize_task_state (str_or_empty (py_or (dget task ''state'') (dget task ''status'')));
         lease_state = normalize_task_state (str_or_empty (lease_text l_status));
         state = ownership_state task_state lease_state;
         reason = first_nonempty [nonempty (dget (obj_of (dget task ''metadata'')) ''state_reason''),
                    strip (case lease of Some l \<Rightarrow> text_arg (l_release_reason l) | None \<Rightarrow> [])]
     in \<lparr>ow_task_key = key, ow_task = task, ow_lease = lease, ow_run = run, ow_worker = worker,
         ow_task_state = task_state, ow_lease_state = lease_state, ow_state = state,
         ow_is_current = (case lease of Some l \<Rightarrow> lease_active l | None \<Rightarrow> False),
         ow_reclaimable = (state = ''reclaimable''), ow_blocked_reason = str_or_none reason\<rparr>)
     (row_by t_key key (db_tasks d))"

definition annotate_task :: "obj list \<Rightarrow> obj \<Rightarrow> obj" where
  "annotate_task known task =
     (let t = dset ''contract_completeness'' (JObj (completeness_obj (task_contract_completeness task))) task
      in dset ''dependency_status'' (JObj (dep_status_obj
           (dependency_status_for_task t (if known = [] then None else Some known)))) t)"

definition other_tasks :: "json \<Rightarrow> obj list \<Rightarrow> obj list" where
  "other_tasks key tasks = filter (\<lambda>c. dget c ''task_key'' \<noteq> key) tasks"

fun annotate_from :: "obj list \<Rightarrow> obj list \<Rightarrow> obj list" where
  "annotate_from before [] = before"
| "annotate_from before (task # after) =
     annotate_from (before @ [annotate_task (other_tasks (dget task ''task_key'') (before @ task # after)) task])
       after"

text \<open>A filter is applied when its argument is a non-empty text, to the stripped text.\<close>

definition matches_filter :: "string option \<Rightarrow> string \<Rightarrow> bool" where
  "matches_filter arg column = (text_arg arg = [] \<or> column = strip (text_arg arg))"

definition list_tasks ::
    "string option \<Rightarrow> string option \<Rightarrow> string option \<Rightarrow> string option \<Rightarrow> int \<Rightarrow> db \<Rightarrow> obj list" where
  "list_tasks state status source_type repo_slug limit d =
     (let rows = filter (\<lambda>t. matches_filter state (t_state t) \<and> matches_filter status (t_status t)
              \<and> matches_filter source_type (t_source_type t) \<and> matches_filter repo_slug (t_repo_slug t))
            (db_tasks d)
      in annotate_from [] (map row_to_task
           (take (nat (max 1 (int_or limit 1))) (order_desc t_updated_at rows))))"

section \<open>Claiming a task\<close>

record claim_args =
  ca_run_id :: string
  ca_worker_id :: string
  ca_host_id :: string
  ca_role :: string
  ca_ttl_seconds :: int
  ca_branch_name :: "string option"
  ca_repo :: obj

datatype claim_result =
    Claimed "lease_row option" "obj option"
  | DependencyBlocked dep_status obj
  | ActiveLeaseExists obj lease_row

text \<open>What the transaction does before it decides.\<close>

definition claim_reap :: "int \<Rightarrow> db \<Rightarrow> db" where
  "claim_reap now d =
     reap_stale_workers_locked now DEFAULT_WORKER_STALE_AFTER_SECONDS (reap_expired_leases_locked now d)"

definition claim_known_tasks :: "string \<Rightarrow> db \<Rightarrow> obj list option" where
  "claim_known_tasks key d =
     (let known = other_tasks (JStr key) (map row_to_task (db_tasks d))
      in if known = [] then None else Some known)"

definition claim_dependencies :: "obj \<Rightarrow> string \<Rightarrow> db \<Rightarrow> dep_status" where
  "claim_dependencies task key d = dependency_status_for_task task (claim_known_tasks key d)"

definition live_lease :: "string \<Rightarrow> int \<Rightarrow> db \<Rightarrow> lease_row option" where
  "live_lease key now d = first_row (order_desc l_expires_at
     (filter (\<lambda>l. l_task_key l = key \<and> lease_active l \<and> l_expires_at l > now) (db_leases d)))"

definition row_to_task_opt :: "task_row option \<Rightarrow> obj" where
  "row_to_task_opt row = (case row of Some r \<Rightarrow> row_to_task r | None \<Rightarrow> [])"

definition new_lease_id :: "string \<Rightarrow> string" where
  "new_lease_id token = ''lease-'' @ token"

text \<open>The statements of a granted claim.\<close>

definition claim_lease_row :: "int \<Rightarrow> string \<Rightarrow> obj \<Rightarrow> task_payload \<Rightarrow> claim_args \<Rightarrow> int \<Rightarrow> lease_row" where
  "claim_lease_row now lease_id task p a attempt =
     \<lparr>l_lease_id = lease_id, l_task_key = tp_task_key p, l_task_id = tp_task_id p,
      l_run_id = ca_run_id a, l_worker_id = ca_worker_id a, l_host_id = ca_host_id a, l_role = ca_role a,
      l_status = ''active'', l_attempt = attempt, l_acquired_at = now, l_heartbeat_at = now,
      l_expires_at = now + ttl_ms (ca_ttl_seconds a), l_released_at = None, l_release_reason = None,
      l_metadata = sort_keys (JObj [(''task'', JObj task), (''repo'', JObj (ca_repo a)),
                                    (''branch_name'', opt_str (ca_branch_name a))])\<rparr>"

definition insert_lease :: "lease_row \<Rightarrow> lease_row list \<Rightarrow> lease_row list res" where
  "insert_lease new ls =
     (let ls' = upsert l_lease_id new (\<lambda>_. new) ls
      in if unique_active ls' then Inr ls' else Inl IntegrityError)"

definition claim_run_row :: "int \<Rightarrow> string \<Rightarrow> obj \<Rightarrow> task_payload \<Rightarrow> claim_args \<Rightarrow> run_row" where
  "claim_run_row now lease_id task p a =
     \<lparr>r_run_id = ca_run_id a, r_task_key = Some (tp_task_key p), r_task_id = tp_task_id p,
      r_repo_slug = Some (tp_repo_slug p), r_repo_path = Some (tp_repo_path p),
      r_branch_name = ca_branch_name a, r_status = ''created'', r_phase = ''bootstrap'',
      r_worker_id = Some (ca_worker_id a), r_host_id = Some (ca_host_id a), r_lease_id = Some lease_id,
      r_created_at = now, r_updated_at = now, r_started_at = None, r_completed_at = None, r_error = None,
      r_metadata = sort_keys (JObj [(''task'', JObj task), (''repo'', JObj (ca_repo a))])\<rparr>"

definition merge_claim_run :: "run_row \<Rightarrow> run_row \<Rightarrow> run_row" where
  "merge_claim_run new r =
     r\<lparr>r_task_key := r_task_key new, r_task_id := r_task_id new, r_repo_slug := r_repo_slug new,
       r_repo_path := r_repo_path new, r_branch_name := r_branch_name new, r_worker_id := r_worker_id new,
       r_host_id := r_host_id new, r_lease_id := r_lease_id new, r_updated_at := r_updated_at new,
       r_metadata := r_metadata new\<rparr>"

definition claim_columns :: "int \<Rightarrow> string \<Rightarrow> claim_args \<Rightarrow> task_row \<Rightarrow> task_row" where
  "claim_columns now lease_id a t =
     t\<lparr>t_claimed_run_id := Some (ca_run_id a), t_claimed_lease_id := Some lease_id,
       t_claimed_by := Some (ca_worker_id a), t_claimed_host_id := Some (ca_host_id a),
       t_lease_expires_at := Some (now + ttl_ms (ca_ttl_seconds a))\<rparr>"

definition upsert_claim_task :: "int \<Rightarrow> string \<Rightarrow> task_payload \<Rightarrow> claim_args \<Rightarrow> task_row list \<Rightarrow> task_row list" where
  "upsert_claim_task now lease_id p a ts =
     upsert t_key (claim_columns now lease_id a (task_row_of p ''claimed'' now))
       (\<lambda>t. claim_columns now lease_id a (merge_task p ''claimed'' now t)) ts"

definition upsert_claim_worker :: "int \<Rightarrow> string \<Rightarrow> claim_args \<Rightarrow> worker_row list \<Rightarrow> worker_row list" where
  "upsert_claim_worker now lease_id a ws =
     upsert w_worker_id
       \<lparr>w_worker_id = ca_worker_id a, w_host_id = ca_host_id a, w_role = ca_role a, w_status = ''busy'',
        w_capabilities = JObj [], w_current_run_id = Some (ca_run_id a),
        w_current_lease_id = Some lease_id, w_last_seen_at = now, w_created_at = now, w_updated_at = now\<rparr>
       (\<lambda>w. w\<lparr>w_host_id := ca_host_id a, w_role := ca_role a, w_status := ''busy'',
              w_current_run_id := Some (ca_run_id a), w_current_lease_id := Some lease_id,
              w_last_seen_at := now, w_updated_at := now\<rparr>) ws"

definition claim_transition :: "int \<Rightarrow> string \<Rightarrow> obj \<Rightarrow> claim_args \<Rightarrow> transition_args" where
  "claim_transition now lease_id task a =
     (owner_args ''claimed'' (ca_run_id a) (Some lease_id) (Some (ca_worker_id a)) (Some (ca_host_id a))
        (Some (now + ttl_ms (ca_ttl_seconds a))) None)
       \<lparr>ta_metadata := [(''task'', JObj task), (''repo'', JObj (ca_repo a))]\<rparr>"

definition grant_claim :: "int \<Rightarrow> string \<Rightarrow> obj \<Rightarrow> task_payload \<Rightarrow> claim_args \<Rightarrow> db \<Rightarrow> db res" where
  "grant_claim now lease_id task p a d =
     (let key = tp_task_key p;
          lease = claim_lease_row now lease_id task p a (next_attempt key (db_leases d));
          run = claim_run_row now lease_id task p a
      in bind_res (insert_lease lease (db_leases d)) (\<lambda>leases.
           Inr (apply_task_state_locked key ''claimed'' now (claim_transition now lease_id task a)
             (d\<lparr>db_leases := leases,
                db_runs := upsert r_run_id run (merge_claim_run run) (db_runs d),
                db_tasks := upsert_claim_task now lease_id p a (db_tasks d),
                db_workers := upsert_claim_worker now lease_id a (db_workers d)\<rparr>))))"

text \<open>The result, and the store after the connection is closed.\<close>

definition claim_task :: "int \<Rightarrow> string \<Rightarrow> obj \<Rightarrow> claim_args \<Rightarrow> db \<Rightarrow> claim_result res \<times> db" where
  "claim_task now token task a d =
     (case make_task_payload task (ca_repo a) of
        Inl e \<Rightarrow> (Inl e, d)
      | Inr p \<Rightarrow>
          (let key = tp_task_key p;
               d1 = claim_reap now d;
               row = row_by t_key key (db_tasks d1);
               deps = claim_dependencies task key d1
           in if ds_blocked deps then
                (let t = (case row of Some r \<Rightarrow> row_to_task r | None \<Rightarrow> payload_obj p);
                     t = dset ''dependency_status'' (JObj (dep_status_obj deps)) t;
                     t = dset ''contract_completeness'' (JObj (completeness_obj (task_contract_completeness t))) t
                 in (Inr (DependencyBlocked deps t), d))
              else (case live_lease key now d1 of
                  Some lease \<Rightarrow> (Inr (ActiveLeaseExists (row_to_task_opt row) lease), d)
                | None \<Rightarrow>
                    (let lease_id = new_lease_id token in
                     case grant_claim now lease_id task p a d1 of
                       Inl e \<Rightarrow> (Inl e, d)
                     | Inr d2 \<Rightarrow> (Inr (Claimed (get_lease lease_id d2) (get_task key d2)), d2)))))"

section \<open>Lemmas\<close>

subsection \<open>Row updates keep the keys\<close>

lemma row_keys [simp]:
  "t_key (set_task_state now st s t) = t_key t"
  "t_key (clear_claim_of i t) = t_key t"
  "t_key (release_claim now t) = t_key t"
  "t_key (transition_row now st a m t) = t_key t"
  "t_key (merge_task p st now t) = t_key t"
  "t_key (claim_columns now i ca t) = t_key t"
  "t_key (task_row_of p st now) = tp_task_key p"
  "r_run_id (merge_claim_run new r) = r_run_id r"
  "l_task_key (claim_lease_row now i task p ca n) = tp_task_key p"
  "l_lease_id (claim_lease_row now i task p ca n) = i"
  by (simp_all add: set_task_state_def clear_claim_of_def release_claim_def transition_row_def
      merge_task_def claim_columns_def task_row_of_def merge_claim_run_def claim_lease_row_def)

lemma keys_ok_fold_upd:
  assumes "\<And>r. key (f r) = key r"
  shows "keys_ok key (fold (\<lambda>x. upd_where (p x) f) xs t) \<longleftrightarrow> keys_ok key t"
proof (induction xs arbitrary: t)
  case (Cons x xs)
  have "keys_ok key (upd_where (p x) f t) \<longleftrightarrow> keys_ok key t"
    by (simp add: keys_ok_def map_upd_where [of key f, OF assms])
  with Cons show ?case by simp
qed simp

lemma keys_ok_upd_task [simp]:
  "(\<And>r. t_key (f r) = t_key r) \<Longrightarrow> keys_ok t_key (upd_where p f ts) = keys_ok t_key ts"
  by (simp add: keys_ok_def map_upd_where [of t_key f])

lemma keys_ok_upd_worker [simp]:
  "(\<And>r. w_worker_id (f r) = w_worker_id r) \<Longrightarrow> keys_ok w_worker_id (upd_where p f ws) = keys_ok w_worker_id ws"
  by (simp add: keys_ok_def map_upd_where [of w_worker_id f])

lemma keys_ok_clear_task_claim [simp]:
  "keys_ok t_key (clear_task_claim_for_lease k i now st s ts) = keys_ok t_key ts"
  by (simp add: clear_task_claim_for_lease_def Let_def)

subsection \<open>Every operation keeps the schema's constraints\<close>

lemma schema_ok_reap_lease_row:
  "schema_ok d \<Longrightarrow> schema_ok (reap_lease_row now row d)"
  by (simp add: schema_ok_def reap_lease_row_def stale.leases_ok_update)

lemma schema_ok_reap_expired:
  "schema_ok d \<Longrightarrow> schema_ok (reap_expired_leases_locked now d)"
proof -
  have "schema_ok d \<Longrightarrow> schema_ok (fold (reap_lease_row now) rows d)" for rows
    by (induction rows arbitrary: d) (simp_all add: schema_ok_reap_lease_row)
  then show "schema_ok d \<Longrightarrow> schema_ok (reap_expired_leases_locked now d)"
    by (simp add: reap_expired_leases_locked_def)
qed

lemma schema_ok_reap_stale_worker_row:
  "schema_ok d \<Longrightarrow> schema_ok (reap_stale_worker_row now ms dead row d)"
  unfolding schema_ok_def
  by (auto simp: leases_ok_reap_stale_worker_row)
     (simp_all add: reap_stale_worker_row_def Let_def idle_worker_row_def reap_worker_lease_def
        split: option.splits)

lemma schema_ok_fold_reap_stale:
  "schema_ok d \<Longrightarrow> schema_ok (fold (reap_stale_worker_row now ms dead) rows d)"
  by (induction rows arbitrary: d) (simp_all add: schema_ok_reap_stale_worker_row)

lemma schema_ok_reap_stale_workers_locked:
  "schema_ok d \<Longrightarrow> schema_ok (reap_stale_workers_locked now s d)"
  by (simp add: reap_stale_workers_locked_def Let_def schema_ok_fold_reap_stale)

lemma schema_ok_claim_reap: "schema_ok d \<Longrightarrow> schema_ok (claim_reap now d)"
  by (simp add: claim_reap_def schema_ok_reap_expired schema_ok_reap_stale_workers_locked)

lemma schema_ok_clear_claim_leases:
  "schema_ok d \<Longrightarrow> schema_ok (clear_claim_leases now key reason d)"
  by (simp add: schema_ok_def clear_claim_leases_def Let_def stale.leases_ok_update keys_ok_fold_upd)

lemma schema_ok_tasks:
  "schema_ok d \<Longrightarrow> keys_ok t_key ts \<Longrightarrow> schema_ok (d\<lparr>db_tasks := ts\<rparr>)"
  by (simp add: schema_ok_def)

lemma schema_okD:
  assumes "schema_ok d"
  shows "keys_ok t_key (db_tasks d)" "keys_ok r_run_id (db_runs d)" "keys_ok w_worker_id (db_workers d)"
    "leases_ok (db_leases d)" "keys_ok l_lease_id (db_leases d)"
  using assms by (simp_all add: schema_ok_def leases_ok_def)

text \<open>The second UPDATE of a transition, of the time stamp, changes nothing.\<close>

definition transitioned :: "string \<Rightarrow> string \<Rightarrow> int \<Rightarrow> transition_args \<Rightarrow> task_row \<Rightarrow> db \<Rightarrow> db" where
  "transitioned key state now a row d = d\<lparr>db_tasks := upd_where (\<lambda>t. t_key t = key)
     (transition_row now state a (transition_metadata a (t_metadata row))) (db_tasks d)\<rparr>"

lemma upd_where_absorb:
  "(\<And>r. p r \<Longrightarrow> p (f r)) \<Longrightarrow> (\<And>r. g (f r) = f r) \<Longrightarrow> upd_where p g (upd_where p f t) = upd_where p f t"
  by (induction t) auto

lemma apply_task_state_eq:
  "apply_task_state_locked key state now a d =
     (case row_by t_key key (db_tasks d) of
        None \<Rightarrow> d
      | Some row \<Rightarrow>
          (if ta_clear_claim a then
             (let d3 = clear_claim_leases now key (ta_reason a) (transitioned key state now a row d)
              in d3\<lparr>db_tasks := upd_where (\<lambda>t. t_key t = key) (release_claim now) (db_tasks d3)\<rparr>)
           else transitioned key state now a row d))"
proof -
  have "upd_where (\<lambda>t. t_key t = key) (\<lambda>t. t\<lparr>t_updated_at := now\<rparr>)
      (upd_where (\<lambda>t. t_key t = key) (transition_row now state a m) ts) =
      upd_where (\<lambda>t. t_key t = key) (transition_row now state a m) ts" for m ts
    by (rule upd_where_absorb) (simp_all add: transition_row_def)
  then show ?thesis
    by (simp add: apply_task_state_locked_def transitioned_def Let_def split: option.split)
qed

lemma schema_ok_upd_tasks:
  "schema_ok d \<Longrightarrow> (\<And>t. t_key (f t) = t_key t) \<Longrightarrow> schema_ok (d\<lparr>db_tasks := upd_where p f (db_tasks d)\<rparr>)"
  by (simp add: schema_ok_def)

lemma schema_ok_transitioned: "schema_ok d \<Longrightarrow> schema_ok (transitioned key state now a row d)"
  by (simp add: transitioned_def schema_ok_upd_tasks)

lemma schema_ok_apply_task_state:
  "schema_ok d \<Longrightarrow> schema_ok (apply_task_state_locked key state now a d)"
  by (simp add: apply_task_state_eq Let_def schema_ok_transitioned schema_ok_clear_claim_leases
      schema_ok_upd_tasks split: option.split)

lemma schema_ok_clear_reclaimable:
  "schema_ok d \<Longrightarrow> schema_ok (clear_reclaimable_task_claim_locked key now d)"
  by (simp add: clear_reclaimable_task_claim_locked_def Let_def schema_ok_upd_tasks split: option.split)

lemma schema_ok_transition: "schema_ok d \<Longrightarrow> schema_ok (snd (transition_task_state now key state a d))"
  by (simp add: transition_task_state_def Let_def schema_ok_apply_task_state)

lemma schema_ok_register_task:
  "schema_ok d \<Longrightarrow> register_task now task repo status d = Inr (r, d') \<Longrightarrow> schema_ok d'"
  by (auto simp: register_task_def bind_res_Inr_iff Let_def
      intro!: schema_ok_clear_reclaimable schema_ok_tasks keys_ok_upsert dest: schema_okD)

subsection \<open>The leases after the reaping a claim starts with\<close>

lemma reap_stale_workers_leases:
  "\<exists>p. db_leases (reap_stale_workers_locked now s d) =
     upd_where p (stale_lease now ''worker stale'') (db_leases d)"
proof -
  have "\<exists>p. db_leases (fold (reap_stale_worker_row now ms dead) rows d) =
      upd_where p (stale_lease now ''worker stale'') (db_leases d)" for ms dead rows
  proof (induction rows arbitrary: d)
    case Nil
    show ?case by (intro exI [of _ "\<lambda>_. False"]) (simp add: upd_where_none)
  next
    case (Cons row rows)
    obtain p where p: "db_leases (reap_stale_worker_row now ms dead row d) =
        upd_where p (stale_lease now ''worker stale'') (db_leases d)"
      using reap_stale_worker_row_leases by blast
    obtain q where q: "db_leases (fold (reap_stale_worker_row now ms dead) rows
          (reap_stale_worker_row now ms dead row d)) =
        upd_where q (stale_lease now ''worker stale'') (db_leases (reap_stale_worker_row now ms dead row d))"
      using Cons by blast
    have "upd_where q (stale_lease now r) (upd_where p (stale_lease now r) ls) =
        upd_where (\<lambda>l. p l \<or> q (if p l then stale_lease now r l else l)) (stale_lease now r) ls" for r ls
      by (induction ls) simp_all
    with p q show ?case by (intro exI) simp
  qed
  then show ?thesis by (simp add: reap_stale_workers_locked_def Let_def)
qed

text \<open>A lease that is active after the reaping was active and unexpired before, and is unchanged.\<close>

lemma active_after_claim_reap:
  assumes "keys_ok l_lease_id (db_leases d)" and "l \<in> set (db_leases (claim_reap now d))" and "lease_active l"
  shows "l \<in> set (db_leases d) \<and> l_expires_at l > now"
proof -
  let ?d1 = "reap_expired_leases_locked now d"
  obtain p where p: "db_leases (claim_reap now d) = upd_where p (stale_lease now ''worker stale'') (db_leases ?d1)"
    using reap_stale_workers_leases unfolding claim_reap_def by blast
  have "l \<in> set (db_leases ?d1)"
    using assms(2,3) stale.ends unfolding p set_upd_where by (auto split: if_splits)
  then have l: "l \<in> set (upd_where (lease_expired now) (stale_lease now ''expired'') (db_leases d))"
    using reap_locked_leases [OF assms(1)] by simp
  then obtain m where m: "m \<in> set (db_leases d)"
      "l = (if lease_expired now m then stale_lease now ''expired'' m else m)"
    by (auto simp: set_upd_where)
  then have "\<not> lease_expired now m" "l = m"
    using assms(3) stale.ends by (auto split: if_splits)
  with m assms(3) show ?thesis by (auto simp: lease_expired_def)
qed

lemma first_row_None_iff [simp]: "first_row rows = None \<longleftrightarrow> rows = []"
  by (simp add: first_row_def split: list.split)

lemma first_row_SomeD: "first_row rows = Some r \<Longrightarrow> r \<in> set rows"
  by (cases rows) (simp_all add: first_row_def)

lemma order_desc_Nil_iff [simp]: "order_desc f t = [] \<longleftrightarrow> t = []"
  by (metis length_0_conv length_order_desc)

lemma live_lease_None_iff:
  "live_lease key now d = None \<longleftrightarrow>
     (\<forall>l\<in>set (db_leases d). \<not> (l_task_key l = key \<and> lease_active l \<and> l_expires_at l > now))"
  by (simp add: live_lease_def filter_empty_conv)

lemma no_live_lease_no_active:
  assumes "keys_ok l_lease_id (db_leases d)" and "live_lease key now (claim_reap now d) = None"
    and "l \<in> set (db_leases (claim_reap now d))" and "l_task_key l = key"
  shows "\<not> lease_active l"
  using assms active_after_claim_reap [of d l now] by (auto simp: live_lease_None_iff)

subsection \<open>Inserting the lease\<close>

lemma unique_active_snoc:
  assumes "unique_active ls" and "\<And>l. l \<in> set ls \<Longrightarrow> l_task_key l = l_task_key new \<Longrightarrow> \<not> lease_active l"
  shows "unique_active (ls @ [new])"
  using assms by (auto simp: unique_active_def active_leases_def)

lemma upd_where_other_keys:
  "\<not> has_key key k t \<Longrightarrow> upd_where (\<lambda>r. key r = k) f t = t"
  by (rule upd_where_none) (auto simp: has_key_def)

lemma unique_active_replace:
  assumes "keys_ok l_lease_id ls" and "unique_active ls"
    and "\<And>l. l \<in> set ls \<Longrightarrow> l_task_key l = l_task_key new \<Longrightarrow> \<not> lease_active l"
  shows "unique_active (upd_where (\<lambda>l. l_lease_id l = l_lease_id new) (\<lambda>_. new) ls)"
  using assms
proof (induction ls)
  case (Cons l ls)
  then have ok: "keys_ok l_lease_id ls" "unique_active ls"
    by (auto simp: keys_ok_def unique_active_def active_leases_def split: if_splits)
  show ?case
  proof (cases "l_lease_id l = l_lease_id new")
    case True
    then have "upd_where (\<lambda>l. l_lease_id l = l_lease_id new) (\<lambda>_. new) ls = ls"
      using Cons.prems(1) by (intro upd_where_none) (auto simp: keys_ok_def image_iff)
    with True ok Cons.prems show ?thesis
      by (auto simp: unique_active_def active_leases_def)
  next
    case False
    have "l_task_key l \<notin> l_task_key ` set (active_leases (upd_where (\<lambda>l. l_lease_id l = l_lease_id new) (\<lambda>_. new) ls))"
      if "lease_active l"
    proof
      assume "l_task_key l \<in> l_task_key ` set (active_leases (upd_where (\<lambda>l. l_lease_id l = l_lease_id new) (\<lambda>_. new) ls))"
      then obtain m where "m \<in> set ls"
          "l_task_key l = l_task_key new \<or> (lease_active m \<and> l_task_key l = l_task_key m)"
        by (auto simp: active_leases_def set_upd_where split: if_splits)
      with that Cons.prems show False by (auto simp: unique_active_def active_leases_def)
    qed
    with False ok Cons show ?thesis
      by (auto simp: unique_active_def active_leases_def)
  qed
qed (simp add: unique_active_def active_leases_def)

text \<open>When no lease of the task is active, the insertion cannot violate the partial index.\<close>

lemma insert_lease_ok:
  assumes "leases_ok ls" and "\<And>l. l \<in> set ls \<Longrightarrow> l_task_key l = l_task_key new \<Longrightarrow> \<not> lease_active l"
  shows "insert_lease new ls = Inr (upsert l_lease_id new (\<lambda>_. new) ls)"
proof -
  have "unique_active (upsert l_lease_id new (\<lambda>_. new) ls)"
    using assms unique_active_replace [of ls new] unique_active_snoc [of ls new]
    by (auto simp: upsert_def leases_ok_def)
  then show ?thesis by (simp add: insert_lease_def Let_def)
qed

lemma leases_ok_insert_lease:
  assumes "leases_ok ls" and "insert_lease new ls = Inr ls'"
  shows "leases_ok ls'"
proof -
  have ls': "ls' = upsert l_lease_id new (\<lambda>_. new) ls" "unique_active ls'"
    using assms(2) by (auto simp: insert_lease_def Let_def split: if_splits)
  have "map l_lease_id (upd_where (\<lambda>r. l_lease_id r = l_lease_id new) (\<lambda>_. new) ls) = map l_lease_id ls"
    by (induction ls) simp_all
  then have "keys_ok l_lease_id ls'"
    using assms(1) by (simp add: ls'(1) upsert_def leases_ok_def keys_ok_def has_key_def image_iff)
  with ls'(2) show ?thesis by (simp add: leases_ok_def)
qed

subsection \<open>The claim\<close>

lemma grant_claim_schema_ok:
  assumes "schema_ok d" and "grant_claim now i task p a d = Inr d'"
  shows "schema_ok d'"
proof -
  let ?lease = "claim_lease_row now i task p a (next_attempt (tp_task_key p) (db_leases d))"
  let ?run = "claim_run_row now i task p a"
  obtain ls where ls: "insert_lease ?lease (db_leases d) = Inr ls"
    and d': "d' = apply_task_state_locked (tp_task_key p) ''claimed'' now (claim_transition now i task a)
      (d\<lparr>db_leases := ls, db_runs := upsert r_run_id ?run (merge_claim_run ?run) (db_runs d),
         db_tasks := upsert_claim_task now i p a (db_tasks d),
         db_workers := upsert_claim_worker now i a (db_workers d)\<rparr>)"
    using assms(2) by (auto simp: grant_claim_def Let_def bind_res_Inr_iff)
  have "keys_ok r_run_id (upsert r_run_id ?run (merge_claim_run ?run) (db_runs d))"
    using assms(1) by (intro keys_ok_upsert) (simp_all add: schema_okD)
  moreover have "keys_ok t_key (upsert_claim_task now i p a (db_tasks d))"
    unfolding upsert_claim_task_def using assms(1) by (intro keys_ok_upsert) (simp_all add: schema_okD)
  moreover have "keys_ok w_worker_id (upsert_claim_worker now i a (db_workers d))"
    unfolding upsert_claim_worker_def using assms(1) by (intro keys_ok_upsert) (simp_all add: schema_okD)
  ultimately show ?thesis
    unfolding d' using assms(1) leases_ok_insert_lease [OF _ ls]
    by (intro schema_ok_apply_task_state) (simp add: schema_ok_def)
qed

lemma schema_ok_claim_task: "schema_ok d \<Longrightarrow> schema_ok (snd (claim_task now token task a d))"
  by (auto simp: claim_task_def Let_def dest: grant_claim_schema_ok [OF schema_ok_claim_reap]
      split: sum.split option.split)

lemma grant_claim_succeeds:
  assumes "schema_ok d" and "live_lease (tp_task_key p) now (claim_reap now d) = None"
  shows "\<exists>d'. grant_claim now i task p a (claim_reap now d) = Inr d'"
proof -
  have "insert_lease (claim_lease_row now i task p a n) (db_leases (claim_reap now d)) =
      Inr (upsert l_lease_id (claim_lease_row now i task p a n) (\<lambda>_. claim_lease_row now i task p a n)
        (db_leases (claim_reap now d)))" for n
    using assms no_live_lease_no_active [of d "tp_task_key p" now] schema_ok_claim_reap [of d now]
    by (intro insert_lease_ok) (auto simp: schema_okD)
  then show ?thesis by (simp add: grant_claim_def Let_def)
qed

text \<open>The row the claim leaves for its task.\<close>

definition claimed_row :: "int \<Rightarrow> string \<Rightarrow> obj \<Rightarrow> task_payload \<Rightarrow> claim_args \<Rightarrow> task_row option \<Rightarrow> task_row" where
  "claimed_row now i task p a old =
     (let t = claim_columns now i a (case old of None \<Rightarrow> task_row_of p ''claimed'' now
                                               | Some r \<Rightarrow> merge_task p ''claimed'' now r)
      in t\<lparr>t_metadata := transition_metadata (claim_transition now i task a) (tp_metadata p)\<rparr>)"

lemma normalize_claimed [simp]: "normalize_task_state ''claimed'' = ''claimed''"
  by code_simp

lemma transition_claimed_row:
  "transition_row now ''claimed'' (claim_transition now i task a) m
     (claim_columns now i a t) = (claim_columns now i a t)
       \<lparr>t_status := ''claimed'', t_state := ''claimed'', t_updated_at := now, t_metadata := m\<rparr>"
  by (simp add: transition_row_def claim_transition_def owner_args_def no_args_def text_arg_def
      coalesce_def claim_columns_def)

lemma grant_claim_result:
  assumes "\<not> has_key l_lease_id i (db_leases d)" and "grant_claim now i task p a d = Inr d'"
  shows "db_leases d' = db_leases d @ [claim_lease_row now i task p a (next_attempt (tp_task_key p) (db_leases d))]"
    and "db_workers d' = upsert_claim_worker now i a (db_workers d)"
    and "row_by t_key (tp_task_key p) (db_tasks d') =
      Some (claimed_row now i task p a (row_by t_key (tp_task_key p) (db_tasks d)))"
    and "\<And>k. k \<noteq> tp_task_key p \<Longrightarrow> row_by t_key k (db_tasks d') = row_by t_key k (db_tasks d)"
    and "\<And>k. row_by r_run_id k (db_runs d') = (let run = claim_run_row now i task p a in
      if k = ca_run_id a then Some (case row_by r_run_id k (db_runs d) of None \<Rightarrow> run | Some r \<Rightarrow> merge_claim_run run r)
      else row_by r_run_id k (db_runs d))"
proof -
  let ?key = "tp_task_key p"
  let ?lease = "claim_lease_row now i task p a (next_attempt ?key (db_leases d))"
  let ?run = "claim_run_row now i task p a"
  let ?d = "d\<lparr>db_leases := db_leases d @ [?lease],
         db_runs := upsert r_run_id ?run (merge_claim_run ?run) (db_runs d),
         db_tasks := upsert_claim_task now i p a (db_tasks d),
         db_workers := upsert_claim_worker now i a (db_workers d)\<rparr>"
  let ?tr = "claim_transition now i task a"
  have "insert_lease ?lease (db_leases d) = Inr ls \<Longrightarrow> ls = db_leases d @ [?lease]" for ls
    using assms(1) by (auto simp: insert_lease_def upsert_def Let_def split: if_splits)
  then have d': "d' = apply_task_state_locked ?key ''claimed'' now ?tr ?d"
    using assms(2) by (auto simp: grant_claim_def Let_def bind_res_Inr_iff)
  define old where "old = claim_columns now i a (case row_by t_key ?key (db_tasks d) of
      None \<Rightarrow> task_row_of p ''claimed'' now | Some r \<Rightarrow> merge_task p ''claimed'' now r)"
  have row: "row_by t_key k (upsert_claim_task now i p a (db_tasks d)) =
      (if k = ?key then Some old else row_by t_key k (db_tasks d))" for k
    unfolding upsert_claim_task_def old_def by (subst row_by_upsert) (auto split: option.split)
  have eq: "d' = transitioned ?key ''claimed'' now ?tr old ?d"
    using row [of ?key] unfolding d' apply_task_state_eq
    by (simp add: claim_transition_def owner_args_def no_args_def)
  then show "db_leases d' = db_leases d @ [?lease]" "db_workers d' = upsert_claim_worker now i a (db_workers d)"
    by (simp_all add: transitioned_def)
  have tasks: "row_by t_key k (db_tasks d') =
      (if k = ?key then Some (transition_row now ''claimed'' ?tr (transition_metadata ?tr (t_metadata old)) old)
       else row_by t_key k (db_tasks d))" for k
    using row [of k] unfolding eq transitioned_def by (cases "k = ?key") (simp_all add: row_by_upd_key)
  show "row_by t_key ?key (db_tasks d') = Some (claimed_row now i task p a (row_by t_key ?key (db_tasks d)))"
    using tasks [of ?key] transition_claimed_row
    by (simp add: claimed_row_def old_def Let_def claim_columns_def merge_task_def task_row_of_def
        split: option.split)
  show "\<And>k. k \<noteq> ?key \<Longrightarrow> row_by t_key k (db_tasks d') = row_by t_key k (db_tasks d)"
    using tasks by simp
  show "row_by r_run_id k (db_runs d') = (let run = ?run in
      if k = ca_run_id a then Some (case row_by r_run_id k (db_runs d) of None \<Rightarrow> run | Some r \<Rightarrow> merge_claim_run run r)
      else row_by r_run_id k (db_runs d))" for k
    unfolding eq by (simp add: transitioned_def row_by_upsert Let_def claim_run_row_def)
qed

subsection \<open>A lease that is kept through the reaping\<close>

lemma reap_stale_worker_row_spares:
  assumes "keys_ok l_lease_id (db_leases d)" and "l \<in> set (db_leases d)"
    and "worker_lease_id row = l_lease_id l \<Longrightarrow> \<not> should_reap now ms dead row (Some l)"
  shows "l \<in> set (db_leases (reap_stale_worker_row now ms dead row d))"
proof (cases "worker_lease row (db_leases d)")
  case None
  with assms(2) show ?thesis by (simp add: reap_stale_worker_row_def Let_def idle_worker_row_def)
next
  case (Some m)
  then have m: "row_by l_lease_id (worker_lease_id row) (db_leases d) = Some m"
    by (simp add: worker_lease_def split: if_splits)
  show ?thesis
  proof (cases "should_reap now ms dead row (Some m)")
    case True
    have "l_lease_id l \<noteq> worker_lease_id row"
      using True m assms row_by_eq_Some_iff [OF assms(1)] by metis
    with Some True assms(2) show ?thesis
      by (simp add: reap_stale_worker_row_def Let_def idle_worker_row_def reap_worker_lease_def
          set_upd_where image_iff)
  next
    case False
    with Some assms(2) show ?thesis by (simp add: reap_stale_worker_row_def Let_def idle_worker_row_def)
  qed
qed

lemma fold_reap_stale_spares:
  assumes "keys_ok l_lease_id (db_leases d)" and "l \<in> set (db_leases d)"
    and "\<And>row. row \<in> set rows \<Longrightarrow> worker_lease_id row = l_lease_id l \<Longrightarrow> \<not> should_reap now ms dead row (Some l)"
  shows "l \<in> set (db_leases (fold (reap_stale_worker_row now ms dead) rows d))"
  using assms
proof (induction rows arbitrary: d)
  case (Cons row rows)
  let ?d = "reap_stale_worker_row now ms dead row d"
  obtain p where "db_leases ?d = upd_where p (stale_lease now ''worker stale'') (db_leases d)"
    using reap_stale_worker_row_leases by blast
  then have "keys_ok l_lease_id (db_leases ?d)"
    using Cons.prems(1) by (simp add: keys_ok_def stale.ids_update)
  with Cons show ?case by (simp add: reap_stale_worker_row_spares)
qed simp

lemma reap_expired_spares:
  assumes "keys_ok l_lease_id (db_leases d)" and "l \<in> set (db_leases d)" and "\<not> lease_expired now l"
  shows "l \<in> set (db_leases (reap_expired_leases_locked now d))"
  unfolding reap_locked_leases [OF assms(1)] set_upd_where
  using assms(2,3) by (auto simp: image_iff intro!: bexI [of _ l])

lemma keys_ok_reap_expired:
  "keys_ok l_lease_id (db_leases d) \<Longrightarrow> keys_ok l_lease_id (db_leases (reap_expired_leases_locked now d))"
  by (simp add: reap_locked_leases keys_ok_def stale.ids_update)

text \<open>
  A lease survives the reaping of a claim when it has not expired and no stale worker row that points
  to it is judged dead.
\<close>

lemma claim_reap_spares:
  assumes "keys_ok l_lease_id (db_leases d)" and "l \<in> set (db_leases d)" and "\<not> lease_expired now l"
    and "\<And>w. w \<in> set (db_workers (reap_expired_leases_locked now d)) \<Longrightarrow> worker_lease_id w = l_lease_id l \<Longrightarrow>
      \<not> worker_stale now (stale_ms DEFAULT_WORKER_STALE_AFTER_SECONDS) w"
  shows "l \<in> set (db_leases (claim_reap now d))"
  unfolding claim_reap_def reap_stale_workers_locked_def Let_def
  using assms by (intro fold_reap_stale_spares keys_ok_reap_expired reap_expired_spares) auto

text \<open>A lease id that no row of the store mentions.\<close>

definition fresh_lease_id :: "string \<Rightarrow> db \<Rightarrow> bool" where
  "fresh_lease_id i d =
     (\<not> has_key l_lease_id i (db_leases d) \<and> list_all (\<lambda>w. worker_lease_id w \<noteq> i) (db_workers d))"

lemma reap_stale_worker_row_workers:
  "\<exists>p. db_workers (reap_stale_worker_row now ms dead row d) = upd_where p (idle_worker now) (db_workers d)"
  by (cases "lease_held row (worker_lease row (db_leases d)) \<and>
        \<not> should_reap now ms dead row (worker_lease row (db_leases d))")
    (auto simp: reap_stale_worker_row_def Let_def idle_worker_row_def reap_worker_lease_def
      split: option.split intro: exI [of _ "\<lambda>_. False"] simp: upd_where_none)

lemma idle_worker_lease_id: "worker_lease_id (idle_worker now w) = []"
  by (simp add: worker_lease_id_def idle_worker_def)

lemma claim_reap_workers:
  assumes "w \<in> set (db_workers (claim_reap now d))"
  shows "w \<in> set (db_workers d) \<or> worker_lease_id w = []"
proof -
  have fold: "w \<in> set (db_workers (fold (reap_stale_worker_row now ms dead) rows e)) \<Longrightarrow>
      w \<in> set (db_workers e) \<or> worker_lease_id w = []" for ms dead rows e
  proof (induction rows arbitrary: e)
    case (Cons row rows)
    obtain p where p: "db_workers (reap_stale_worker_row now ms dead row e) =
        upd_where p (idle_worker now) (db_workers e)"
      using reap_stale_worker_row_workers by blast
    have "w \<in> set (db_workers (reap_stale_worker_row now ms dead row e)) \<or> worker_lease_id w = []"
      using Cons.IH Cons.prems by simp
    then show ?case unfolding p by (auto simp: set_upd_where idle_worker_lease_id)
  qed simp
  have "w \<in> set (db_workers (reap_expired_leases_locked now d)) \<or> worker_lease_id w = []"
    using assms unfolding claim_reap_def reap_stale_workers_locked_def Let_def by (rule fold)
  then show ?thesis
    unfolding reap_locked_workers by (auto simp: set_upd_where idle_worker_lease_id)
qed

lemma claim_reap_lease_ids:
  assumes "keys_ok l_lease_id (db_leases d)"
  shows "map l_lease_id (db_leases (claim_reap now d)) = map l_lease_id (db_leases d)"
proof -
  obtain p where "db_leases (claim_reap now d) =
      upd_where p (stale_lease now ''worker stale'') (db_leases (reap_expired_leases_locked now d))"
    using reap_stale_workers_leases unfolding claim_reap_def by blast
  then show ?thesis by (simp add: reap_locked_leases [OF assms] stale.ids_update)
qed

lemma fresh_lease_id_claim_reap:
  assumes "keys_ok l_lease_id (db_leases d)" and "fresh_lease_id i d" and "i \<noteq> []"
  shows "fresh_lease_id i (claim_reap now d)"
proof -
  have "l_lease_id ` set (db_leases (claim_reap now d)) = l_lease_id ` set (db_leases d)"
    using claim_reap_lease_ids [OF assms(1), of now] by (metis set_map)
  then show ?thesis
    using assms(2,3) claim_reap_workers
    by (fastforce simp: fresh_lease_id_def has_key_def list_all_iff)
qed

end
