(* ===== verification/CoordClaims.thy ===== *)
theory CoordClaims imports CoordTasks begin

text \<open>
  What a claim promises (src/tandem_agents/core/coordination/tasks.py, \<open>claim_task\<close>): when it is
  granted, what a granted claim leaves behind, that a refused one leaves nothing behind, and that the
  holder of a fresh lease keeps other claimers out until the lease or the worker goes stale.
\<close>

section \<open>Lemmas\<close>

definition granted :: "claim_result res \<Rightarrow> bool" where
  "granted r = (case r of Inr (Claimed l t) \<Rightarrow> True | _ \<Rightarrow> False)"

lemma granted_simps [simp]:
  "granted (Inl e) = False" "granted (Inr (Claimed l t)) = True"
  "granted (Inr (DependencyBlocked s t')) = False" "granted (Inr (ActiveLeaseExists t' le)) = False"
  by (simp_all add: granted_def)

lemma claim_task_Inr_payload:
  assumes "make_task_payload task (ca_repo a) = Inr p"
  shows "claim_task now token task a d =
    (let key = tp_task_key p; d1 = claim_reap now d; deps = claim_dependencies task key d1 in
     if ds_blocked deps then
       (Inr (DependencyBlocked deps (let t = dset ''dependency_status'' (JObj (dep_status_obj deps))
            (case row_by t_key key (db_tasks d1) of Some r \<Rightarrow> row_to_task r | None \<Rightarrow> payload_obj p)
          in dset ''contract_completeness'' (JObj (completeness_obj (task_contract_completeness t))) t)), d)
     else (case live_lease key now d1 of
         Some lease \<Rightarrow> (Inr (ActiveLeaseExists (row_to_task_opt (row_by t_key key (db_tasks d1))) lease), d)
       | None \<Rightarrow> (case grant_claim now (new_lease_id token) task p a d1 of
           Inl e \<Rightarrow> (Inl e, d)
         | Inr d2 \<Rightarrow> (Inr (Claimed (get_lease (new_lease_id token) d2) (get_task key d2)), d2))))"
  by (simp add: claim_task_def assms Let_def split: option.split)

lemma claim_task_grantedD:
  assumes "claim_task now token task a d = (Inr (Claimed l t), d')"
  obtains p where "make_task_payload task (ca_repo a) = Inr p"
    and "\<not> ds_blocked (claim_dependencies task (tp_task_key p) (claim_reap now d))"
    and "live_lease (tp_task_key p) now (claim_reap now d) = None"
    and "grant_claim now (new_lease_id token) task p a (claim_reap now d) = Inr d'"
    and "l = get_lease (new_lease_id token) d'" and "t = get_task (tp_task_key p) d'"
proof -
  obtain p where p: "make_task_payload task (ca_repo a) = Inr p"
    using assms by (cases "make_task_payload task (ca_repo a)") (simp_all add: claim_task_def)
  show thesis
    using assms unfolding claim_task_Inr_payload [OF p] Let_def
    by (intro that [OF p]) (auto split: if_splits option.splits sum.splits)
qed

lemma has_key_map_cong: "map key t = map key u \<Longrightarrow> has_key key k t = has_key key k u"
  by (metis has_key_def list.set_map)

lemma next_attempt_claim_reap:
  assumes "keys_ok l_lease_id (db_leases d)"
  shows "next_attempt key (db_leases (claim_reap now d)) = next_attempt key (db_leases d)"
proof -
  have count: "next_attempt key ls = next_attempt key ms" if "map l_task_key ls = map l_task_key ms" for ls ms
  proof -
    have "length (filter (\<lambda>k. k = key) (map l_task_key ls)) = length (filter (\<lambda>k. k = key) (map l_task_key ms))"
      using that by simp
    then show ?thesis by (simp add: next_attempt_def filter_map o_def)
  qed
  obtain p where "db_leases (claim_reap now d) =
      upd_where p (stale_lease now ''worker stale'') (db_leases (reap_expired_leases_locked now d))"
    using reap_stale_workers_leases unfolding claim_reap_def by blast
  then show ?thesis
    by (intro count) (simp add: reap_locked_leases [OF assms] stale.tasks_update)
qed

lemma row_by_append_new:
  "\<not> has_key key (key r) t \<Longrightarrow> row_by key (key r) (t @ [r]) = Some r"
  by (simp add: row_by_append row_by_None_iff [symmetric])

lemma filter_none: "(\<And>x. x \<in> set xs \<Longrightarrow> \<not> p x) \<Longrightarrow> filter p xs = []"
  by simp

lemma claim_worker_last_seen:
  assumes "w \<in> set (upsert_claim_worker now i a ws)" and "list_all (\<lambda>w. worker_lease_id w \<noteq> i) ws"
    and "worker_lease_id w = i"
  shows "w_last_seen_at w = now"
  using in_upsertD [OF assms(1) [unfolded upsert_claim_worker_def]]
proof (elim disjE bexE conjE)
  assume "w \<in> set ws"
  with assms(2,3) show ?thesis by (simp add: list_all_iff)
qed simp_all

lemma reap_expired_workers_old:
  assumes "w \<in> set (db_workers (reap_expired_leases_locked now d))" and "worker_lease_id w \<noteq> []"
  shows "w \<in> set (db_workers d)"
  using assms unfolding reap_locked_workers by (auto simp: set_upd_where idle_worker_lease_id split: if_splits)

text \<open>The decision, in terms of what the transaction sees after its reaping.\<close>

lemma granted_iff:
  assumes "schema_ok d" and "make_task_payload task (ca_repo a) = Inr p"
  shows "granted (fst (claim_task now token task a d)) \<longleftrightarrow>
    \<not> ds_blocked (claim_dependencies task (tp_task_key p) (claim_reap now d)) \<and>
    live_lease (tp_task_key p) now (claim_reap now d) = None"
  using grant_claim_succeeds [OF assms(1), of p now "new_lease_id token" task a]
  by (auto simp: claim_task_Inr_payload [OF assms(2)] Let_def split: option.split)

lemma not_granted_unchanged: "\<not> granted (fst (claim_task now token task a d)) \<Longrightarrow> snd (claim_task now token task a d) = d"
  by (auto simp: claim_task_def Let_def split: sum.split option.split)

lemma granted_claimed:
  "granted (fst (claim_task now token task a d)) \<Longrightarrow>
     \<exists>l t. claim_task now token task a d = (Inr (Claimed l t), snd (claim_task now token task a d))"
  by (cases "claim_task now token task a d") (auto simp: granted_def split: sum.splits claim_result.splits)

lemma claim_blocked_iff:
  "ds_blocked (claim_dependencies task key d) \<longleftrightarrow>
     (\<exists>known. claim_known_tasks key d = Some known \<and>
        (\<exists>dep\<in>set (declared_dependencies task). \<not> dependency_met known dep))"
proof (cases "claim_known_tasks key d")
  case None
  then show ?thesis by (simp add: claim_dependencies_def dependency_status_for_task_def Let_def)
next
  case (Some known)
  then show ?thesis by (simp add: claim_dependencies_def blocked_iff_unmet)
qed

lemma live_lease_after_reap_iff:
  assumes "keys_ok l_lease_id (db_leases d)"
  shows "live_lease key now (claim_reap now d) = None \<longleftrightarrow>
    (\<forall>l\<in>set (db_leases (claim_reap now d)). l_task_key l = key \<longrightarrow> \<not> lease_active l)"
  using active_after_claim_reap [OF assms, of _ now] by (auto simp: live_lease_None_iff)

text \<open>The only error of a payload is a title that is no text.\<close>

lemma bind_res_Inl_iff: "bind_res m f = Inl e \<longleftrightarrow> m = Inl e \<or> (\<exists>x. m = Inr x \<and> f x = Inl e)"
  by (cases m) auto

lemma slug_error: "slug_title task = Inl e \<Longrightarrow> e = TypeError"
  by (auto simp: slug_title_def split: option.splits json.splits)

lemma text_or_slug_error: "text_or_slug s task = Inl e \<Longrightarrow> e = TypeError"
  by (auto simp: text_or_slug_def slug_error split: if_splits)

lemma prefixed_error: "prefixed s (text_or_slug s' task) = Inl e \<Longrightarrow> e = TypeError"
  by (simp add: prefixed_def bind_res_Inl_iff text_or_slug_error)

lemma manual_error:
  assumes "bind_res (if q then Inr x else slug_title task) (\<lambda>slug. prefixed (g slug) (text_or_slug s task)) = Inl e"
  shows "e = TypeError"
  using assms by (auto simp: bind_res_Inl_iff prefixed_error dest: slug_error split: if_splits)

lemma if_errorE: "(if c then x else y) = Inl e \<Longrightarrow> (x = Inl e \<Longrightarrow> P) \<Longrightarrow> (y = Inl e \<Longrightarrow> P) \<Longrightarrow> P"
  by (cases c) simp_all

lemma task_source_ref_error: "task_source_ref task = Inl e \<Longrightarrow> e = TypeError"
  unfolding task_source_ref_def Let_def
  by (elim if_errorE) (erule prefixed_error manual_error)+

lemma make_task_payload_error: "make_task_payload task repo = Inl e \<Longrightarrow> e = TypeError"
  by (auto simp: make_task_payload_def task_key_def bind_res_Inl_iff Let_def dest: task_source_ref_error)

section \<open>Concrete claims\<close>

definition demo_task :: obj where
  "demo_task = [(''task_id'', JStr ''T1''), (''title'', JStr ''Fix it''),
     (''source'', JObj [(''type'', JStr ''kanban_board''), (''board_path'', JStr ''b.yaml'')])]"

definition demo_key :: string where
  "demo_key = ''kanban_board:b.yaml:T1''"

definition demo_payload :: task_payload where
  "demo_payload = \<lparr>tp_task_key = demo_key, tp_task_id = Some ''T1'', tp_source_type = ''kanban_board'',
     tp_source_ref = ''b.yaml:T1'', tp_title = ''Fix it'', tp_repo_slug = [], tp_repo_path = [],
     tp_board_path = ''b.yaml'', tp_metadata = sort_keys (JObj [(''task'', JObj demo_task), (''repo'', JObj [])])\<rparr>"

definition demo_claim :: "string \<Rightarrow> string \<Rightarrow> claim_args" where
  "demo_claim run worker = \<lparr>ca_run_id = run, ca_worker_id = worker, ca_host_id = ''h'', ca_role = ''coder'',
     ca_ttl_seconds = 60, ca_branch_name = None, ca_repo = []\<rparr>"

text \<open>The store after one granted claim of that task at time 1000.\<close>

definition demo_db :: db where
  "demo_db = snd (claim_task 1000 ''00000001'' demo_task (demo_claim ''r1'' ''w1'') empty_db)"

lemma demo_make_payload: "make_task_payload demo_task [] = Inr demo_payload"
  by code_simp

lemma demo_claim_repo [simp]: "ca_repo (demo_claim r w) = []"
  by (simp add: demo_claim_def)

lemma claim_reap_empty: "claim_reap now empty_db = empty_db"
  by (simp add: claim_reap_def reap_expired_leases_locked_def reap_stale_workers_locked_def empty_db_def Let_def)

lemma claim_empty [simp]: "claim_known_tasks key empty_db = None" "live_lease key now empty_db = None"
  by (simp_all add: claim_known_tasks_def other_tasks_def live_lease_def empty_db_def)

lemma demo_granted: "granted (fst (claim_task now token demo_task (demo_claim r w) empty_db))"
  by (subst granted_iff [OF schema_ok_empty, of _ _ demo_payload])
    (simp_all add: demo_make_payload claim_reap_empty claim_blocked_iff)

lemma demo_claimed: "\<exists>l t. claim_task 1000 ''00000001'' demo_task (demo_claim ''r1'' ''w1'') empty_db = (Inr (Claimed l t), demo_db)"
  unfolding demo_db_def by (rule granted_claimed [OF demo_granted])

lemma schema_ok_demo: "schema_ok demo_db"
  unfolding demo_db_def by (intro schema_ok_claim_task schema_ok_empty)

section \<open>Properties\<close>

text \<open>
Granting a claim. When \<open>claim_task\<close> grants, the task has exactly one active lease, the new one: it
belongs to the claiming worker and run, expires one TTL from now and counts the attempt after all
earlier leases of the task; and the task row names that lease, run, worker, host and expiry in state
\<open>claimed\<close>.
\<close>

theorem claim_granted:
  assumes "schema_ok d" and "\<not> has_key l_lease_id (new_lease_id token) (db_leases d)"
    and "claim_task now token task a d = (Inr (Claimed l t), d')"
  shows "\<exists>p lease row. make_task_payload task (ca_repo a) = Inr p \<and> l = Some lease \<and>
    filter (\<lambda>x. l_task_key x = tp_task_key p \<and> lease_active x) (db_leases d') = [lease] \<and>
    l_lease_id lease = new_lease_id token \<and> l_run_id lease = ca_run_id a \<and> l_worker_id lease = ca_worker_id a \<and>
    l_expires_at lease = now + ttl_ms (ca_ttl_seconds a) \<and>
    l_attempt lease = next_attempt (tp_task_key p) (db_leases d) \<and>
    row_by t_key (tp_task_key p) (db_tasks d') = Some row \<and> t = Some (row_to_task row) \<and>
    t_state row = ''claimed'' \<and> t_status row = ''claimed'' \<and>
    t_claimed_lease_id row = Some (l_lease_id lease) \<and> t_claimed_run_id row = Some (ca_run_id a) \<and>
    t_claimed_by row = Some (ca_worker_id a) \<and> t_claimed_host_id row = Some (ca_host_id a) \<and>
    t_lease_expires_at row = Some (l_expires_at lease)"
proof -
  from assms(3) obtain p where p: "make_task_payload task (ca_repo a) = Inr p"
    and live: "live_lease (tp_task_key p) now (claim_reap now d) = None"
    and grant: "grant_claim now (new_lease_id token) task p a (claim_reap now d) = Inr d'"
    and l: "l = get_lease (new_lease_id token) d'" and t: "t = get_task (tp_task_key p) d'"
    by (rule claim_task_grantedD)
  let ?lease = "claim_lease_row now (new_lease_id token) task p a (next_attempt (tp_task_key p) (db_leases d))"
  have keys: "keys_ok l_lease_id (db_leases d)" using assms(1) by (rule schema_okD)
  have fresh: "\<not> has_key l_lease_id (new_lease_id token) (db_leases (claim_reap now d))"
    using assms(2) has_key_map_cong [OF claim_reap_lease_ids [OF keys]] by blast
  note res = grant_claim_result [OF fresh grant]
  have leases: "db_leases d' = db_leases (claim_reap now d) @ [?lease]"
    using res(1) by (simp add: next_attempt_claim_reap [OF keys])
  have "filter (\<lambda>x. l_task_key x = tp_task_key p \<and> lease_active x) (db_leases (claim_reap now d)) = []"
    by (rule filter_none) (use no_live_lease_no_active [OF keys live] in blast)
  then have one: "filter (\<lambda>x. l_task_key x = tp_task_key p \<and> lease_active x) (db_leases d') = [?lease]"
    unfolding leases by (simp add: claim_lease_row_def lease_active_def)
  have "l = Some ?lease"
    using row_by_append_new [of l_lease_id ?lease] fresh unfolding l get_lease_def leases by simp
  moreover have "t = Some (row_to_task (claimed_row now (new_lease_id token) task p a
      (row_by t_key (tp_task_key p) (db_tasks (claim_reap now d)))))"
    unfolding t get_task_def res(3) by simp
  ultimately show ?thesis
    using p one res(3)
    by (intro exI conjI) (auto simp: claim_lease_row_def claimed_row_def Let_def claim_columns_def
        task_row_of_def merge_task_def split: option.split)
qed

lemma claim_granted_witness:
  "\<exists>l t p lease row. claim_task 1000 ''00000001'' demo_task (demo_claim ''r1'' ''w1'') empty_db = (Inr (Claimed l t), demo_db)
     \<and> make_task_payload demo_task [] = Inr p \<and> l = Some lease \<and> l_expires_at lease = 61000
     \<and> row_by t_key (tp_task_key p) (db_tasks demo_db) = Some row \<and> t_claimed_by row = Some ''w1''"
proof -
  have none: "\<not> has_key l_lease_id (new_lease_id ''00000001'') (db_leases empty_db)"
    by (simp add: has_key_def empty_db_def)
  have ttl: "(1000::int) + ttl_ms 60 = 61000"
    by (simp add: ttl_ms_def int_or_def)
  obtain l t where c: "claim_task 1000 ''00000001'' demo_task (demo_claim ''r1'' ''w1'') empty_db = (Inr (Claimed l t), demo_db)"
    using demo_claimed by blast
  show ?thesis
    using claim_granted [OF schema_ok_empty none c] c ttl by (auto simp: demo_claim_def)
qed

text \<open>
C2. When a claim is granted. A well-formed task is granted exactly when, after the reaping the claim
starts with, no lease of the task is active, and every dependency the task declares is met by some
other known task that is done (with no other task known, dependencies do not block).
\<close>

theorem claim_granted_exactly_when:
  assumes "schema_ok d" and "make_task_payload task (ca_repo a) = Inr p"
  shows "granted (fst (claim_task now token task a d)) \<longleftrightarrow>
    (\<forall>l\<in>set (db_leases (claim_reap now d)). l_task_key l = tp_task_key p \<longrightarrow> \<not> lease_active l) \<and>
    (\<forall>known dep. claim_known_tasks (tp_task_key p) (claim_reap now d) = Some known \<longrightarrow>
       dep \<in> set (declared_dependencies task) \<longrightarrow> dependency_met known dep)"
  unfolding granted_iff [OF assms] claim_blocked_iff live_lease_after_reap_iff [OF schema_okD(5) [OF assms(1)]]
  by blast

lemma claim_granted_exactly_when_witness:
  "granted (fst (claim_task 1000 ''00000001'' demo_task (demo_claim ''r1'' ''w1'') empty_db)) \<and>
   filter (\<lambda>l. l_task_key l = demo_key \<and> lease_active l) (db_leases (claim_reap 1000 empty_db)) = []"
proof -
  have "make_task_payload demo_task (ca_repo (demo_claim ''r1'' ''w1'')) = Inr demo_payload"
    by (simp add: demo_make_payload)
  moreover have "tp_task_key demo_payload = demo_key" by (simp add: demo_payload_def)
  ultimately show ?thesis
    using claim_granted_exactly_when [OF schema_ok_empty] demo_granted by (auto simp: filter_empty_conv)
qed

text \<open>
Claims never race into the unique index. In a store whose constraints hold, the INSERT of the
new lease cannot violate the one-active-lease-per-task index, whatever id the claim draws.
\<close>

theorem claim_never_conflicts:
  assumes "schema_ok d"
  shows "fst (claim_task now token task a d) \<noteq> Inl IntegrityError"
proof (cases "make_task_payload task (ca_repo a)")
  case (Inl e)
  then have "e = TypeError" by (rule make_task_payload_error)
  with Inl show ?thesis by (simp add: claim_task_def)
next
  case (Inr p)
  show ?thesis
    using grant_claim_succeeds [OF assms, of p now "new_lease_id token" task a]
    by (auto simp: claim_task_Inr_payload [OF Inr] Let_def split: option.split)
qed

lemma claim_never_conflicts_witness:
  "fst (claim_task 1001 ''00000001'' demo_task (demo_claim ''r2'' ''w2'') demo_db) \<noteq> Inl IntegrityError"
  by (rule claim_never_conflicts [OF schema_ok_demo])

text \<open>
A refused claim has no effect: either the claim is granted, or the store is exactly as before,
its reaping included.
\<close>

theorem refused_claim_changes_nothing:
  "granted (fst (claim_task now token task a d)) \<or> snd (claim_task now token task a d) = d"
  using not_granted_unchanged by blast

text \<open>
C5. Mutual exclusion over time. After a granted claim at \<open>now\<close>, no claim of the same task is granted
at any \<open>now2\<close> before the lease expires and before the claiming worker counts as stale, and the store
is left as it is.
\<close>

theorem claim_excludes_others:
  assumes "schema_ok d" and "fresh_lease_id (new_lease_id token) d" and "strip (new_lease_id token) = new_lease_id token"
    and "claim_task now token task a d = (Inr (Claimed l t), d')"
    and "make_task_payload task (ca_repo a) = Inr p" and "make_task_payload task2 (ca_repo a2) = Inr p2"
    and "tp_task_key p2 = tp_task_key p"
    and "now2 < now + ttl_ms (ca_ttl_seconds a)" and "now2 < now + stale_ms DEFAULT_WORKER_STALE_AFTER_SECONDS"
  shows "\<not> granted (fst (claim_task now2 token2 task2 a2 d')) \<and> snd (claim_task now2 token2 task2 a2 d') = d'"
proof -
  let ?i = "new_lease_id token" and ?e = "claim_reap now d"
  let ?lease = "claim_lease_row now ?i task p a (next_attempt (tp_task_key p) (db_leases ?e))"
  have grant: "grant_claim now ?i task p a ?e = Inr d'"
    using assms(4,5) by (auto elim!: claim_task_grantedD)
  have i: "?i \<noteq> []" by (simp add: new_lease_id_def)
  have fresh: "fresh_lease_id ?i ?e"
    using assms(1,2) i by (intro fresh_lease_id_claim_reap schema_okD)
  then have res: "db_leases d' = db_leases ?e @ [?lease]" "db_workers d' = upsert_claim_worker now ?i a (db_workers ?e)"
    using grant_claim_result(1,2) [OF _ grant] by (simp_all add: fresh_lease_id_def)
  have ok: "schema_ok d'" using schema_ok_claim_task [OF assms(1), of now token task a] assms(4) by simp
  have held: "?lease \<in> set (db_leases (claim_reap now2 d'))"
  proof (rule claim_reap_spares)
    show "keys_ok l_lease_id (db_leases d')" using ok by (rule schema_okD)
    show "?lease \<in> set (db_leases d')" by (simp add: res(1))
    show "\<not> lease_expired now2 ?lease" using assms(8) by (simp add: lease_expired_def claim_lease_row_def)
    fix w assume w: "w \<in> set (db_workers (reap_expired_leases_locked now2 d'))"
      "worker_lease_id w = l_lease_id ?lease"
    then have "w \<in> set (upsert_claim_worker now ?i a (db_workers ?e))"
      using reap_expired_workers_old [OF w(1)] i res(2) by simp
    moreover have "list_all (\<lambda>w. worker_lease_id w \<noteq> ?i) (db_workers ?e)"
      using fresh by (simp add: fresh_lease_id_def)
    ultimately have "w_last_seen_at w = now"
      using w(2) by (intro claim_worker_last_seen [of w now ?i a]) simp_all
    with assms(9) show "\<not> worker_stale now2 (stale_ms DEFAULT_WORKER_STALE_AFTER_SECONDS) w"
      by (simp add: worker_stale_def)
  qed
  have "lease_active ?lease" by (simp add: claim_lease_row_def lease_active_def)
  with held assms(7) have "live_lease (tp_task_key p2) now2 (claim_reap now2 d') \<noteq> None"
    unfolding live_lease_after_reap_iff [OF schema_okD(5) [OF ok]]
    by (metis row_keys(9))
  then have "\<not> granted (fst (claim_task now2 token2 task2 a2 d'))"
    unfolding granted_iff [OF ok assms(6)] by simp
  then show ?thesis using not_granted_unchanged by blast
qed

lemma claim_excludes_others_witness:
  "\<not> granted (fst (claim_task 60999 ''00000002'' demo_task (demo_claim ''r2'' ''w2'') demo_db))"
proof -
  obtain l t where c: "claim_task 1000 ''00000001'' demo_task (demo_claim ''r1'' ''w1'') empty_db = (Inr (Claimed l t), demo_db)"
    using demo_claimed by blast
  have p: "make_task_payload demo_task (ca_repo (demo_claim r w)) = Inr demo_payload" for r w
    by (simp add: demo_make_payload)
  have fresh: "fresh_lease_id (new_lease_id ''00000001'') empty_db"
    by (simp add: fresh_lease_id_def has_key_def empty_db_def)
  have strip: "strip (new_lease_id ''00000001'') = new_lease_id ''00000001''"
    by code_simp
  show ?thesis
    by (rule claim_excludes_others [OF schema_ok_empty fresh strip c p p refl, THEN conjunct1])
      (simp_all add: demo_claim_def ttl_ms_def int_or_def stale_ms_def DEFAULT_WORKER_STALE_AFTER_SECONDS_def)
qed

end
