(* ===== verification/CoordRuns.thy ===== *)
theory CoordRuns imports CoordTasks begin

text \<open>
  Runs of the coordination store (src/tandem_agents/core/coordination/runners.py): the start of a run
  is an upsert that keeps the first start time, and an update writes exactly the columns whose
  arguments are given.
\<close>

section \<open>Operations\<close>

record run_start =
  rs_run_id :: string
  rs_worker_id :: string
  rs_host_id :: string
  rs_lease_id :: "string option"
  rs_branch_name :: "string option"
  rs_phase :: string
  rs_status :: string

definition started_run_row :: "int \<Rightarrow> obj \<Rightarrow> obj \<Rightarrow> task_payload \<Rightarrow> run_start \<Rightarrow> run_row" where
  "started_run_row now task repo p a =
     \<lparr>r_run_id = rs_run_id a, r_task_key = Some (tp_task_key p), r_task_id = tp_task_id p,
      r_repo_slug = Some (tp_repo_slug p), r_repo_path = Some (tp_repo_path p),
      r_branch_name = rs_branch_name a, r_status = rs_status a, r_phase = rs_phase a,
      r_worker_id = Some (rs_worker_id a), r_host_id = Some (rs_host_id a), r_lease_id = rs_lease_id a,
      r_created_at = now, r_updated_at = now, r_started_at = Some now, r_completed_at = None,
      r_error = None, r_metadata = sort_keys (JObj [(''task'', JObj task), (''repo'', JObj repo)])\<rparr>"

definition merge_started_run :: "run_row \<Rightarrow> run_row \<Rightarrow> run_row" where
  "merge_started_run new r =
     (merge_claim_run new r)\<lparr>r_status := r_status new, r_phase := r_phase new,
       r_started_at := coalesce (r_started_at r) (r_started_at new)\<rparr>"

definition get_run :: "string \<Rightarrow> db \<Rightarrow> run_row option" where
  "get_run run_id d = row_by r_run_id run_id (db_runs d)"

definition record_run_start :: "int \<Rightarrow> obj \<Rightarrow> obj \<Rightarrow> run_start \<Rightarrow> db \<Rightarrow> (run_row option \<times> db) res" where
  "record_run_start now task repo a d = bind_res (make_task_payload task repo) (\<lambda>p.
     let new = started_run_row now task repo p a;
         d' = d\<lparr>db_runs := upsert r_run_id new (merge_started_run new) (db_runs d)\<rparr>
     in Inr (get_run (rs_run_id a) d', d'))"

record run_changes =
  rc_status :: "string option"
  rc_phase :: "string option"
  rc_error :: "string option"
  rc_lease_id :: "string option"
  rc_branch_name :: "string option"
  rc_metadata :: "json option"
  rc_started :: bool
  rc_completed :: bool

definition no_changes :: run_changes where
  "no_changes = \<lparr>rc_status = None, rc_phase = None, rc_error = None, rc_lease_id = None,
     rc_branch_name = None, rc_metadata = None, rc_started = False, rc_completed = False\<rparr>"

definition change_run :: "int \<Rightarrow> run_changes \<Rightarrow> run_row \<Rightarrow> run_row" where
  "change_run now c r =
     set_opt (rc_metadata c) (\<lambda>v r. r\<lparr>r_metadata := sort_keys v\<rparr>)
      ((if rc_completed c then (\<lambda>r. r\<lparr>r_completed_at := Some now\<rparr>) else id)
       ((if rc_started c then (\<lambda>r. r\<lparr>r_started_at := coalesce (r_started_at r) (Some now)\<rparr>) else id)
        (set_opt (rc_branch_name c) (\<lambda>v r. r\<lparr>r_branch_name := Some v\<rparr>)
         (set_opt (rc_lease_id c) (\<lambda>v r. r\<lparr>r_lease_id := Some v\<rparr>)
          (set_opt (rc_error c) (\<lambda>v r. r\<lparr>r_error := Some v\<rparr>)
           (set_opt (rc_phase c) (\<lambda>v r. r\<lparr>r_phase := v\<rparr>)
            (set_opt (rc_status c) (\<lambda>v r. r\<lparr>r_status := v\<rparr>)
             (r\<lparr>r_updated_at := now\<rparr>))))))))"

definition update_run :: "int \<Rightarrow> string \<Rightarrow> run_changes \<Rightarrow> db \<Rightarrow> run_row option \<times> db" where
  "update_run now run_id c d =
     (case get_run run_id d of
        None \<Rightarrow> (None, d)
      | Some _ \<Rightarrow>
          (let d' = d\<lparr>db_runs := upd_where (\<lambda>r. r_run_id r = run_id) (change_run now c) (db_runs d)\<rparr>
           in (get_run run_id d', d')))"

section \<open>Lemmas\<close>

lemma set_opt_field:
  "(\<And>v r. g (f v r) = g r) \<Longrightarrow> g (set_opt x f r) = g r"
  by (cases x) (simp_all add: set_opt_def)

lemma change_run_id [simp]: "r_run_id (change_run now c r) = r_run_id r"
  by (simp add: change_run_def set_opt_field)

lemma merge_started_run_id [simp]: "r_run_id (merge_started_run new r) = r_run_id r"
  by (simp add: merge_started_run_def)

lemma started_run_row_id [simp]: "r_run_id (started_run_row now task repo p a) = rs_run_id a"
  by (simp add: started_run_row_def)

lemma schema_ok_runs:
  "schema_ok d \<Longrightarrow> keys_ok r_run_id rs \<Longrightarrow> schema_ok (d\<lparr>db_runs := rs\<rparr>)"
  by (simp add: schema_ok_def)

lemma schema_ok_record_run_start:
  assumes "schema_ok d" and "record_run_start now task repo a d = Inr (r, d')"
  shows "schema_ok d'"
proof -
  have "keys_ok r_run_id (upsert r_run_id new (merge_started_run new) (db_runs d))" for new
    using assms(1) by (intro keys_ok_upsert) (simp_all add: schema_okD)
  with assms show ?thesis
    by (auto simp: record_run_start_def bind_res_Inr_iff Let_def intro!: schema_ok_runs)
qed

lemma schema_ok_update_run: "schema_ok d \<Longrightarrow> schema_ok (snd (update_run now run_id c d))"
proof -
  assume ok: "schema_ok d"
  have "keys_ok r_run_id (upd_where p (change_run now c) (db_runs d))" for p
    using ok by (intro keys_ok_upd_where) (simp_all add: schema_okD)
  with ok show ?thesis by (simp add: update_run_def Let_def schema_ok_runs split: option.split)
qed

text \<open>A run keeps the time it was first started and its creation time through later starts.\<close>

lemma restart_keeps_start:
  assumes "get_run (rs_run_id a) d = Some r" and "r_started_at r = Some t"
    and "record_run_start now task repo a d = Inr (got, d')"
  shows "\<exists>r'. got = Some r' \<and> r_started_at r' = Some t \<and> r_created_at r' = r_created_at r"
proof -
  obtain p where "make_task_payload task repo = Inr p"
    and got: "got = row_by r_run_id (rs_run_id a) (upsert r_run_id (started_run_row now task repo p a)
      (merge_started_run (started_run_row now task repo p a)) (db_runs d))"
    using assms(3) by (auto simp: record_run_start_def bind_res_Inr_iff Let_def get_run_def)
  have "got = Some (merge_started_run (started_run_row now task repo p a) r)"
    using assms(1) unfolding got get_run_def by (subst row_by_upsert) simp_all
  then show ?thesis
    by (simp add: merge_started_run_def merge_claim_run_def coalesce_def assms(2))
qed

end
