(* ===== verification/CoordOutbox.thy ===== *)
theory CoordOutbox imports CoordTasks begin

text \<open>
  The outbox of the coordination store (src/tandem_agents/core/coordination/outbox.py): messages to
  external trackers, deduplicated by key, claimed in batches, completed, retried with a delay, or
  failed for good. The locale \<open>outbox_row_op\<close> states what every UPDATE of an outbox row promises.
\<close>

section \<open>Operations\<close>

record outbox_message =
  om_kind :: string
  om_aggregate_type :: string
  om_aggregate_id :: string
  om_payload :: json
  om_dedupe_key :: "string option"

definition new_outbox_row :: "int \<Rightarrow> int \<Rightarrow> outbox_message \<Rightarrow> outbox_row" where
  "new_outbox_row now i m =
     \<lparr>o_id = i, o_kind = om_kind m, o_aggregate_type = om_aggregate_type m,
      o_aggregate_id = om_aggregate_id m, o_payload = sort_keys (om_payload m), o_status = ''pending'',
      o_attempts = 0, o_next_attempt_at = now, o_last_error = None, o_created_at = now,
      o_updated_at = now, o_dedupe_key = om_dedupe_key m\<rparr>"

definition requeue :: "int \<Rightarrow> outbox_message \<Rightarrow> outbox_row \<Rightarrow> outbox_row" where
  "requeue now m r = r\<lparr>o_payload := sort_keys (om_payload m), o_status := ''pending'',
     o_next_attempt_at := now, o_updated_at := now, o_last_error := None\<rparr>"

text \<open>An update of a row with the same key takes no new AUTOINCREMENT id.\<close>

definition dedupe_conflict :: "outbox_message \<Rightarrow> outbox_row \<Rightarrow> bool" where
  "dedupe_conflict m r = (om_dedupe_key m \<noteq> None \<and> o_dedupe_key r = om_dedupe_key m)"

definition newest :: "('r \<Rightarrow> int) \<Rightarrow> 'r list \<Rightarrow> 'r option" where
  "newest key rows = first_row (order_desc key rows)"

definition enqueued_row :: "outbox_message \<Rightarrow> outbox_row list \<Rightarrow> outbox_row option" where
  "enqueued_row m rows =
     coalesce
       (newest o_id (filter (\<lambda>r. dedupe_conflict m r \<or>
          (o_dedupe_key r = None \<and> o_kind r = om_kind m \<and> o_aggregate_id r = om_aggregate_id m)) rows))
       (newest o_id rows)"

definition enqueue_outbox :: "int \<Rightarrow> outbox_message \<Rightarrow> db \<Rightarrow> outbox_row option \<times> db" where
  "enqueue_outbox now m d =
     (let d' = (if list_ex (dedupe_conflict m) (db_outbox d)
                then d\<lparr>db_outbox := upd_where (dedupe_conflict m) (requeue now m) (db_outbox d)\<rparr>
                else d\<lparr>db_outbox := db_outbox d @ [new_outbox_row now (db_outbox_seq d + 1) m],
                       db_outbox_seq := db_outbox_seq d + 1\<rparr>)
      in (enqueued_row m (db_outbox d'), d'))"

definition sent :: "int \<Rightarrow> outbox_row \<Rightarrow> outbox_row" where
  "sent now r = r\<lparr>o_status := ''dispatched'', o_updated_at := now, o_last_error := None\<rparr>"

definition mark_outbox_dispatched :: "int \<Rightarrow> int \<Rightarrow> db \<Rightarrow> db" where
  "mark_outbox_dispatched now i d = d\<lparr>db_outbox := upd_where (\<lambda>r. o_id r = i) (sent now) (db_outbox d)\<rparr>"

definition list_pending_outbox :: "db \<Rightarrow> outbox_row list" where
  "list_pending_outbox d = order_asc o_id (filter (\<lambda>r. o_status r = ''pending'') (db_outbox d))"

definition outbox_due :: "int \<Rightarrow> outbox_row \<Rightarrow> bool" where
  "outbox_due now r = (o_status r = ''pending'' \<and> o_next_attempt_at r \<le> now)"

definition processing :: "int \<Rightarrow> int \<Rightarrow> outbox_row \<Rightarrow> outbox_row" where
  "processing now attempts r =
     r\<lparr>o_status := ''processing'', o_attempts := attempts, o_updated_at := now, o_last_error := None\<rparr>"

definition due_batch :: "int \<Rightarrow> int \<Rightarrow> db \<Rightarrow> outbox_row list" where
  "due_batch now limit d =
     take (nat (max 1 (int_or limit 1))) (order_asc o_id (filter (outbox_due now) (db_outbox d)))"

text \<open>The claimed message is the row as read, with the three fields the claim reports.\<close>

definition claimed_message :: "int \<Rightarrow> outbox_row \<Rightarrow> outbox_row" where
  "claimed_message now r = r\<lparr>o_status := ''processing'', o_attempts := o_attempts r + 1, o_updated_at := now\<rparr>"

definition claim_pending_outbox :: "int \<Rightarrow> int \<Rightarrow> db \<Rightarrow> outbox_row list \<times> db" where
  "claim_pending_outbox now limit d =
     (let rows = due_batch now limit d in
      (map (claimed_message now) rows,
       d\<lparr>db_outbox := fold (\<lambda>row. upd_where (\<lambda>r. o_id r = o_id row) (processing now (o_attempts row + 1)))
           rows (db_outbox d)\<rparr>))"

definition complete_outbox :: "int \<Rightarrow> int \<Rightarrow> db \<Rightarrow> outbox_row option \<times> db" where
  "complete_outbox now i d =
     (case row_by o_id i (db_outbox d) of
        None \<Rightarrow> (None, d)
      | Some row \<Rightarrow> (Some row, d\<lparr>db_outbox := upd_where (\<lambda>r. o_id r = i) (sent now) (db_outbox d)\<rparr>))"

definition failed_row :: "int \<Rightarrow> string \<Rightarrow> outbox_row \<Rightarrow> outbox_row" where
  "failed_row now err r = r\<lparr>o_status := ''failed'', o_updated_at := now, o_last_error := Some err\<rparr>"

definition retry_row :: "int \<Rightarrow> int \<Rightarrow> string \<Rightarrow> outbox_row \<Rightarrow> outbox_row" where
  "retry_row now at err r =
     r\<lparr>o_status := ''pending'', o_next_attempt_at := at, o_updated_at := now, o_last_error := Some err\<rparr>"

definition retry_wait :: "int \<Rightarrow> int option \<Rightarrow> int" where
  "retry_wait attempts delay_seconds =
     max 1 (case delay_seconds of Some s \<Rightarrow> s | None \<Rightarrow> min 300 (max 5 (attempts * 5))) * 1000"

definition retry_outbox :: "int \<Rightarrow> int \<Rightarrow> string \<Rightarrow> bool \<Rightarrow> int option \<Rightarrow> db \<Rightarrow> outbox_row option \<times> db" where
  "retry_outbox now i err terminal delay_seconds d =
     (case row_by o_id i (db_outbox d) of
        None \<Rightarrow> (None, d)
      | Some row \<Rightarrow>
          (Some row, d\<lparr>db_outbox := upd_where (\<lambda>r. o_id r = i)
             (if terminal then failed_row now err
              else retry_row now (now + retry_wait (o_attempts row) delay_seconds) err) (db_outbox d)\<rparr>))"

definition outbox_stale_ms :: "int \<Rightarrow> int" where
  "outbox_stale_ms seconds = max 1 (int_or seconds DEFAULT_OUTBOX_STALE_AFTER_SECONDS) * 1000"

definition unclaim :: "int \<Rightarrow> outbox_row \<Rightarrow> outbox_row" where
  "unclaim now r = r\<lparr>o_status := ''pending'', o_next_attempt_at := now, o_updated_at := now,
     o_last_error := coalesce (o_last_error r) (Some ''processing claim expired'')\<rparr>"

definition reap_stale_outbox_claims :: "int \<Rightarrow> int \<Rightarrow> db \<Rightarrow> outbox_row list \<times> db" where
  "reap_stale_outbox_claims now stale_after_seconds d =
     (let rows = order_asc o_id (filter (\<lambda>r. o_status r = ''processing'' \<and>
            o_updated_at r \<le> now - outbox_stale_ms stale_after_seconds) (db_outbox d))
      in (rows, d\<lparr>db_outbox := fold (\<lambda>row. upd_where (\<lambda>r. o_id r = o_id row) (unclaim now)) rows (db_outbox d)\<rparr>))"

section \<open>What an update of an outbox row promises\<close>

locale outbox_row_op =
  fixes f :: "outbox_row \<Rightarrow> outbox_row"
  assumes keeps_oid: "o_id (f r) = o_id r"
    and keeps_dedupe: "o_dedupe_key (f r) = o_dedupe_key r"
begin

lemma outbox_ok_update: "outbox_ok rows seq \<Longrightarrow> outbox_ok (upd_where p f rows) seq"
  unfolding outbox_ok_def
  using keys_ok_upd_where [of o_id f, OF keeps_oid] unique_opt_upd_where [of o_dedupe_key f, OF keeps_dedupe]
  by (auto simp: list_all_iff set_upd_where keeps_oid)

lemma schema_ok_update: "schema_ok d \<Longrightarrow> schema_ok (d\<lparr>db_outbox := upd_where p f (db_outbox d)\<rparr>)"
  by (simp add: schema_ok_def outbox_ok_update)

lemma row_by_update: "row_by o_id i (upd_where (\<lambda>r. o_id r = j) f rows) =
    (if i = j then map_option f (row_by o_id i rows) else row_by o_id i rows)"
  by (rule row_by_upd_key) (rule keeps_oid)

end

interpretation requeue: outbox_row_op "requeue now m" for now m
  by unfold_locales (simp_all add: requeue_def)

interpretation sent: outbox_row_op "sent now" for now
  by unfold_locales (simp_all add: sent_def)

interpretation processing: outbox_row_op "processing now n" for now n
  by unfold_locales (simp_all add: processing_def)

interpretation failed_row: outbox_row_op "failed_row now err" for now err
  by unfold_locales (simp_all add: failed_row_def)

interpretation retry_row: outbox_row_op "retry_row now at err" for now at err
  by unfold_locales (simp_all add: retry_row_def)

interpretation unclaim: outbox_row_op "unclaim now" for now
  by unfold_locales (simp_all add: unclaim_def)

section \<open>A batch of updates as one pass over the table\<close>

lemma fold_upd_map:
  "fold (\<lambda>row. upd_where (p row) (g row)) rows t =
     map (\<lambda>r. fold (\<lambda>row r. if p row r then g row r else r) rows r) t"
  by (induction rows arbitrary: t) (simp_all add: upd_where_def)

lemma fold_rows_other:
  "key x \<notin> key ` set rows \<Longrightarrow>
     fold (\<lambda>row r. if key r = key row then g row r else r) rows x = x"
  by (induction rows) auto

lemma fold_rows_elem:
  assumes "\<And>row. row \<in> set rows \<Longrightarrow> key row = key x \<Longrightarrow> row = x"
    and "distinct rows" and "\<And>row r. key (g row r) = key r"
  shows "fold (\<lambda>row r. if key r = key row then g row r else r) rows x = (if x \<in> set rows then g x x else x)"
  using assms(1,2)
proof (induction rows)
  case (Cons row rows)
  show ?case
  proof (cases "row = x")
    case True
    have "key x \<notin> key ` set rows"
    proof
      assume "key x \<in> key ` set rows"
      then obtain r where r: "r \<in> set rows" "key r = key x" by (metis imageE)
      then have "r = x" using Cons.prems(1) by simp
      with True r Cons.prems(2) show False by simp
    qed
    then have "fold (\<lambda>row r. if key r = key row then g row r else r) rows (g x x) = g x x"
      by (intro fold_rows_other) (simp add: assms(3))
    with True show ?thesis by simp
  next
    case False
    then have "key x \<noteq> key row" using Cons.prems(1) by force
    with False Cons show ?thesis by auto
  qed
qed simp

lemma fold_upd_rows:
  assumes "keys_ok key t" and "set rows \<subseteq> set t" and "distinct rows" and "\<And>row r. key (g row r) = key r"
  shows "fold (\<lambda>row. upd_where (\<lambda>r. key r = key row) (g row)) rows t =
    map (\<lambda>r. if r \<in> set rows then g r r else r) t"
  unfolding fold_upd_map
proof (rule map_cong [OF refl])
  fix x assume "x \<in> set t"
  then have "\<And>row. row \<in> set rows \<Longrightarrow> key row = key x \<Longrightarrow> row = x"
    using assms(1,2) by (auto simp: keys_ok_def distinct_map inj_on_def)
  then show "fold (\<lambda>row r. if key r = key row then g row r else r) rows x = (if x \<in> set rows then g x x else x)"
    using assms(3,4) by (rule fold_rows_elem)
qed

lemma distinct_order_asc [simp]: "distinct (order_asc f t) = distinct t"
  by (simp add: order_asc_def)

lemma sorted_order_asc [simp]: "sorted (map f (order_asc f t))"
  by (simp add: order_asc_def)

lemma length_order_asc [simp]: "length (order_asc f t) = length t"
  by (simp add: order_asc_def)

lemma due_batch_sub: "set (due_batch now limit d) \<subseteq> {r \<in> set (db_outbox d). outbox_due now r}"
  by (auto simp: due_batch_def dest: in_set_takeD)

lemma keys_ok_distinct: "keys_ok key t \<Longrightarrow> distinct t"
  by (simp add: keys_ok_def distinct_map)

lemma distinct_due_batch: "keys_ok o_id (db_outbox d) \<Longrightarrow> distinct (due_batch now limit d)"
  by (simp add: due_batch_def keys_ok_distinct)

lemma claim_pending_rows:
  assumes "keys_ok o_id (db_outbox d)"
  shows "db_outbox (snd (claim_pending_outbox now limit d)) =
    map (\<lambda>r. if r \<in> set (due_batch now limit d) then processing now (o_attempts r + 1) r else r) (db_outbox d)"
  unfolding claim_pending_outbox_def Let_def
  using due_batch_sub distinct_due_batch [OF assms]
  by (simp, intro fold_upd_rows assms) (auto simp: processing.keeps_oid)

section \<open>Every operation keeps the constraints\<close>

lemma outbox_ok_snoc:
  assumes "outbox_ok rows seq" and "\<not> list_ex (dedupe_conflict m) rows"
  shows "outbox_ok (rows @ [new_outbox_row now (seq + 1) m]) (seq + 1)"
proof -
  have "\<not> has_key o_id (seq + 1) rows"
    using assms(1) by (auto simp: outbox_ok_def list_all_iff has_key_def)
  moreover have "unique_opt o_dedupe_key (rows @ [new_outbox_row now (seq + 1) m])"
    using assms by (auto simp: outbox_ok_def unique_opt_snoc new_outbox_row_def dedupe_conflict_def list_ex_iff)
  ultimately show ?thesis
    using assms(1) by (auto simp: outbox_ok_def list_all_iff new_outbox_row_def)
qed

lemma schema_ok_enqueue: "schema_ok d \<Longrightarrow> schema_ok (snd (enqueue_outbox now m d))"
proof (cases "list_ex (dedupe_conflict m) (db_outbox d)")
  case True
  then show "schema_ok d \<Longrightarrow> ?thesis"
    by (simp add: enqueue_outbox_def Let_def requeue.schema_ok_update)
next
  case False
  then show "schema_ok d \<Longrightarrow> ?thesis"
    by (simp add: enqueue_outbox_def Let_def schema_ok_def outbox_ok_snoc)
qed

lemma schema_ok_mark_dispatched: "schema_ok d \<Longrightarrow> schema_ok (mark_outbox_dispatched now i d)"
  by (simp add: mark_outbox_dispatched_def sent.schema_ok_update)

lemma schema_ok_complete_outbox: "schema_ok d \<Longrightarrow> schema_ok (snd (complete_outbox now i d))"
  by (simp add: complete_outbox_def sent.schema_ok_update split: option.split)

lemma schema_ok_retry_outbox: "schema_ok d \<Longrightarrow> schema_ok (snd (retry_outbox now i err terminal delay d))"
  by (simp add: retry_outbox_def failed_row.schema_ok_update retry_row.schema_ok_update split: option.split)

lemma outbox_ok_fold:
  "outbox_ok t seq \<Longrightarrow> (\<And>row. outbox_row_op (g row)) \<Longrightarrow>
     outbox_ok (fold (\<lambda>row. upd_where (p row) (g row)) rows t) seq"
  by (induction rows arbitrary: t) (simp_all add: outbox_row_op.outbox_ok_update)

lemma schema_ok_claim_pending: "schema_ok d \<Longrightarrow> schema_ok (snd (claim_pending_outbox now limit d))"
  by (simp add: claim_pending_outbox_def Let_def schema_ok_def outbox_ok_fold processing.outbox_row_op_axioms)

lemma schema_ok_reap_outbox: "schema_ok d \<Longrightarrow> schema_ok (snd (reap_stale_outbox_claims now s d))"
  by (simp add: reap_stale_outbox_claims_def Let_def schema_ok_def outbox_ok_fold unclaim.outbox_row_op_axioms)

section \<open>One row per deduplication key\<close>

lemma filter_unique:
  assumes "distinct (map f (filter p t))" and "r \<in> set t" and "p r" and "\<And>q. p q \<Longrightarrow> f q = f r"
  shows "filter p t = [r]"
proof (cases "filter p t")
  case Nil
  with assms(2,3) show ?thesis by (simp add: filter_empty_conv)
next
  case (Cons q qs)
  have p: "p x" if "x \<in> set (q # qs)" for x
    using that unfolding Cons [symmetric] by simp
  have "qs = []"
  proof (cases qs)
    case c: (Cons q' qs')
    have "f q' = f r" "f q = f r" using p c by (simp_all add: assms(4))
    with assms(1) c Cons show ?thesis by simp
  qed simp
  moreover have "r \<in> set (q # qs)" using assms(2,3) unfolding Cons [symmetric] by simp
  ultimately show ?thesis using Cons by simp
qed

lemma dedupe_row_unique:
  assumes "outbox_ok rows seq" and "r \<in> set rows" and "o_dedupe_key r = Some k"
  shows "filter (\<lambda>r. o_dedupe_key r = Some k) rows = [r]"
proof (rule filter_unique [where f = "\<lambda>r. the (o_dedupe_key r)"])
  have eq: "filter (\<lambda>r. o_dedupe_key r = Some k) rows =
      filter (\<lambda>r. o_dedupe_key r = Some k) (filter (\<lambda>r. o_dedupe_key r \<noteq> None) rows)"
    by (induction rows) auto
  show "distinct (map (\<lambda>r. the (o_dedupe_key r)) (filter (\<lambda>r. o_dedupe_key r = Some k) rows))"
    by (subst eq, rule distinct_map_filter) (use assms(1) in \<open>simp add: outbox_ok_def unique_opt_def\<close>)
qed (use assms(2,3) in simp_all)

lemma filter_dedupe_requeue:
  assumes "om_dedupe_key m = Some k"
  shows "filter (\<lambda>r. o_dedupe_key r = Some k) (upd_where (dedupe_conflict m) (requeue now m) rows) =
    map (requeue now m) (filter (\<lambda>r. o_dedupe_key r = Some k) rows)"
  by (induction rows) (auto simp: dedupe_conflict_def assms requeue.keeps_dedupe)

section \<open>Concrete messages\<close>

definition demo_message :: "string \<Rightarrow> outbox_message" where
  "demo_message k = \<lparr>om_kind = ''github_issue.comment'', om_aggregate_type = ''task'',
     om_aggregate_id = ''T1'', om_payload = JObj [], om_dedupe_key = Some k\<rparr>"

definition demo_outbox :: db where
  "demo_outbox = snd (enqueue_outbox 20 (demo_message ''b'') (snd (enqueue_outbox 10 (demo_message ''a'') empty_db)))"

lemma schema_ok_demo_outbox: "schema_ok demo_outbox"
  unfolding demo_outbox_def by (intro schema_ok_enqueue schema_ok_empty)

section \<open>Properties\<close>

text \<open>
C6. Claiming a batch. \<open>claim_pending_outbox\<close> returns at most the limit of messages, in id order, each
one due and reported as processing with one more attempt; in the store exactly these rows become
processing, every other row is untouched; and a later claim of the resulting store, at any time,
returns none of them.
\<close>

theorem claim_pending_batch:
  assumes "schema_ok d" and "claim_pending_outbox now limit d = (ms, d')"
  shows "int (length ms) \<le> max 1 (int_or limit 1) \<and> sorted (map o_id ms) \<and> distinct (map o_id ms) \<and>
    (\<forall>m\<in>set ms. \<exists>r\<in>set (db_outbox d). outbox_due now r \<and> m = claimed_message now r \<and>
       row_by o_id (o_id m) (db_outbox d') = Some (processing now (o_attempts r + 1) r)) \<and>
    (\<forall>i. i \<notin> o_id ` set ms \<longrightarrow> row_by o_id i (db_outbox d') = row_by o_id i (db_outbox d)) \<and>
    o_id ` set ms \<inter> o_id ` set (fst (claim_pending_outbox now2 limit2 d')) = {}"
proof -
  let ?b = "due_batch now limit d" and ?t = "db_outbox d"
  have keys: "keys_ok o_id ?t" using assms(1) by (simp add: schema_ok_def outbox_ok_def)
  have ms: "ms = map (claimed_message now) ?b" using assms(2) by (simp add: claim_pending_outbox_def Let_def)
  have ids: "map o_id ms = map o_id ?b" by (simp add: ms claimed_message_def)
  have rows: "db_outbox d' = map (\<lambda>r. if r \<in> set ?b then processing now (o_attempts r + 1) r else r) ?t"
    using claim_pending_rows [OF keys, of now limit] assms(2) by simp
  have keys': "keys_ok o_id (db_outbox d')"
    using schema_ok_claim_pending [OF assms(1), of now limit] assms(2) by (simp add: schema_ok_def outbox_ok_def)
  have inb: "r \<in> set ?b \<longleftrightarrow> o_id r \<in> o_id ` set ?b" if "r \<in> set ?t" for r
    using that keys due_batch_sub [of now limit d] by (auto simp: keys_ok_def distinct_map inj_on_def)
  have len: "int (length ms) \<le> max 1 (int_or limit 1)" by (simp add: ms due_batch_def)
  have sorted: "sorted (map o_id ms)"
    unfolding ids due_batch_def by (simp add: take_map [symmetric] sorted_wrt_take)
  have dist: "distinct (map o_id ms)"
  proof -
    have "inj_on o_id (set ?t)" using keys by (simp add: keys_ok_def distinct_map)
    moreover have "set ?b \<subseteq> set ?t" using due_batch_sub [of now limit d] by blast
    ultimately have "inj_on o_id (set ?b)" by (rule inj_on_subset)
    then show ?thesis unfolding ids by (simp add: distinct_map distinct_due_batch [OF keys])
  qed
  have each: "\<forall>m\<in>set ms. \<exists>r\<in>set ?t. outbox_due now r \<and> m = claimed_message now r \<and>
       row_by o_id (o_id m) (db_outbox d') = Some (processing now (o_attempts r + 1) r)"
  proof
    fix m assume "m \<in> set ms"
    then obtain r where r: "r \<in> set ?b" "m = claimed_message now r" by (auto simp: ms)
    then have "r \<in> set ?t" "outbox_due now r" using due_batch_sub by auto
    moreover have "row_by o_id (o_id m) (db_outbox d') = Some (processing now (o_attempts r + 1) r)"
      using r calculation
      by (subst row_by_eq_Some_iff [OF keys']) (auto simp: rows claimed_message_def processing.keeps_oid)
    ultimately show "\<exists>r\<in>set ?t. outbox_due now r \<and> m = claimed_message now r \<and>
       row_by o_id (o_id m) (db_outbox d') = Some (processing now (o_attempts r + 1) r)"
      using r by blast
  qed
  have others: "row_by o_id i (db_outbox d') = row_by o_id i ?t" if "i \<notin> o_id ` set ms" for i
  proof -
    have "i \<notin> o_id ` set ?b" using that ids by (metis set_map)
    then have "row_by o_id i (map (\<lambda>r. if r \<in> set ?b then processing now (o_attempts r + 1) r else r) t) =
        row_by o_id i t" for t
      by (induction t) (auto simp: processing.keeps_oid)
    then show ?thesis unfolding rows .
  qed
  have new: "o_id r \<notin> o_id ` set ?b" if due: "outbox_due now2 r" and mem: "r \<in> set (db_outbox d')" for r
  proof -
    obtain q where q: "q \<in> set ?t" "r = (if q \<in> set ?b then processing now (o_attempts q + 1) q else q)"
      using mem unfolding rows by auto
    have "q \<notin> set ?b"
    proof
      assume "q \<in> set ?b"
      with q(2) have "o_status r = ''processing''" by (simp add: processing_def)
      with due show False by (simp add: outbox_due_def)
    qed
    with q inb [OF q(1)] show ?thesis by simp
  qed
  have "o_id ` set (fst (claim_pending_outbox now2 limit2 d')) = o_id ` set (due_batch now2 limit2 d')"
    by (simp add: claim_pending_outbox_def Let_def image_image claimed_message_def)
  moreover have "o_id ` set ms = o_id ` set ?b" using ids by (metis list.set_map)
  moreover have "o_id ` set ?b \<inter> o_id ` set (due_batch now2 limit2 d') = {}"
  proof (rule equals0I)
    fix i assume "i \<in> o_id ` set ?b \<inter> o_id ` set (due_batch now2 limit2 d')"
    then obtain r where r: "r \<in> set (due_batch now2 limit2 d')" "o_id r \<in> o_id ` set ?b" by (metis IntE imageE)
    then show False using new [of r] due_batch_sub [of now2 limit2 d'] by (metis (mono_tags, lifting) mem_Collect_eq subsetD)
  qed
  ultimately have "o_id ` set ms \<inter> o_id ` set (fst (claim_pending_outbox now2 limit2 d')) = {}" by simp
  with len sorted dist each others show ?thesis by blast
qed

lemma claim_pending_batch_witness:
  "map o_id (fst (claim_pending_outbox 100 1 demo_outbox)) = [1] \<and>
   1 \<notin> o_id ` set (fst (claim_pending_outbox 200 5 (snd (claim_pending_outbox 100 1 demo_outbox))))"
proof -
  have c: "claim_pending_outbox 100 1 demo_outbox =
      (fst (claim_pending_outbox 100 1 demo_outbox), snd (claim_pending_outbox 100 1 demo_outbox))" by simp
  have ids: "map o_id (fst (claim_pending_outbox 100 1 demo_outbox)) = [1]" by code_simp
  then have "1 \<in> o_id ` set (fst (claim_pending_outbox 100 1 demo_outbox))"
    by (metis list.set_intros(1) list.set_map)
  with claim_pending_batch [OF schema_ok_demo_outbox c, of 200 5] ids show ?thesis by blast
qed

text \<open>
Deduplication. After a message with a key is enqueued, exactly one row has that key: it is
pending, due now and carries the new payload. If a row had the key before, the table has no new row
and that row keeps its id, its attempts and its creation time; otherwise one row was appended.
\<close>

theorem enqueue_deduplicates:
  assumes "schema_ok d" and "om_dedupe_key m = Some k" and "enqueue_outbox now m d = (got, d')"
  shows "\<exists>r. filter (\<lambda>q. o_dedupe_key q = Some k) (db_outbox d') = [r] \<and> outbox_due now r \<and>
    o_payload r = sort_keys (om_payload m) \<and> o_last_error r = None \<and>
    (case filter (\<lambda>q. o_dedupe_key q = Some k) (db_outbox d) of
       [] \<Rightarrow> db_outbox d' = db_outbox d @ [r] \<and> o_attempts r = 0
     | q # _ \<Rightarrow> map o_id (db_outbox d') = map o_id (db_outbox d) \<and> o_id r = o_id q \<and>
         o_attempts r = o_attempts q \<and> o_created_at r = o_created_at q)"
proof (cases "filter (\<lambda>q. o_dedupe_key q = Some k) (db_outbox d)")
  case Nil
  then have "\<not> list_ex (dedupe_conflict m) (db_outbox d)"
    using assms(2) by (auto simp: list_ex_iff dedupe_conflict_def filter_empty_conv)
  then have "db_outbox d' = db_outbox d @ [new_outbox_row now (db_outbox_seq d + 1) m]"
    using assms(3) by (auto simp: enqueue_outbox_def Let_def)
  with Nil assms(2) show ?thesis
    by (intro exI [of _ "new_outbox_row now (db_outbox_seq d + 1) m"]) (simp add: new_outbox_row_def outbox_due_def)
next
  case (Cons q qs)
  then have q: "q \<in> set (filter (\<lambda>q. o_dedupe_key q = Some k) (db_outbox d))" by simp
  then have one: "filter (\<lambda>q. o_dedupe_key q = Some k) (db_outbox d) = [q]"
    using assms(1) dedupe_row_unique [of "db_outbox d" "db_outbox_seq d" q k] by (simp add: schema_ok_def)
  have "list_ex (dedupe_conflict m) (db_outbox d)"
    using q assms(2) by (auto simp: list_ex_iff dedupe_conflict_def)
  then have d': "db_outbox d' = upd_where (dedupe_conflict m) (requeue now m) (db_outbox d)"
    using assms(3) by (auto simp: enqueue_outbox_def Let_def)
  have "map o_id (db_outbox d') = map o_id (db_outbox d)"
    unfolding d' by (rule map_upd_where) (rule requeue.keeps_oid)
  then show ?thesis
    using one filter_dedupe_requeue [OF assms(2), of now "db_outbox d"] unfolding d'
    by (intro exI [of _ "requeue now m q"]) (simp add: requeue_def outbox_due_def)
qed

lemma enqueue_deduplicates_witness:
  "\<exists>r. filter (\<lambda>q. o_dedupe_key q = Some ''a'') (db_outbox (snd (enqueue_outbox 30 (demo_message ''a'') demo_outbox))) = [r]
     \<and> outbox_due 30 r"
proof -
  have "enqueue_outbox 30 (demo_message ''a'') demo_outbox =
      (fst (enqueue_outbox 30 (demo_message ''a'') demo_outbox), snd (enqueue_outbox 30 (demo_message ''a'') demo_outbox))"
    by simp
  from enqueue_deduplicates [OF schema_ok_demo_outbox _ this, of "''a''"] show ?thesis
    by (auto simp: demo_message_def)
qed

text \<open>
Backoff. A non-terminal retry without an explicit delay leaves the message pending, with its
attempts unchanged and its next attempt between 5 and 300 seconds away, so that no claim within the
next 5 seconds takes it.
\<close>

theorem retry_backs_off:
  assumes "schema_ok d" and "row_by o_id i (db_outbox d) = Some r"
  shows "\<exists>r'. row_by o_id i (db_outbox (snd (retry_outbox now i err False None d))) = Some r' \<and>
    o_status r' = ''pending'' \<and> o_attempts r' = o_attempts r \<and> o_last_error r' = Some err \<and>
    now + 5000 \<le> o_next_attempt_at r' \<and> o_next_attempt_at r' \<le> now + 300000 \<and>
    (\<forall>now2 limit. now2 < now + 5000 \<longrightarrow>
       i \<notin> o_id ` set (fst (claim_pending_outbox now2 limit (snd (retry_outbox now i err False None d)))))"
proof -
  let ?d = "snd (retry_outbox now i err False None d)"
  let ?r = "retry_row now (now + retry_wait (o_attempts r) None) err r"
  have wait: "5000 \<le> retry_wait n None" "retry_wait n None \<le> 300000" for n
    by (simp_all add: retry_wait_def)
  have row: "row_by o_id i (db_outbox ?d) = Some ?r"
    using assms(2) by (simp add: retry_outbox_def retry_row.row_by_update)
  have keys: "keys_ok o_id (db_outbox ?d)"
    using schema_ok_retry_outbox [OF assms(1)] by (simp add: schema_ok_def outbox_ok_def)
  have "i \<notin> o_id ` set (fst (claim_pending_outbox now2 limit ?d))" if early: "now2 < now + 5000" for now2 limit
  proof
    assume "i \<in> o_id ` set (fst (claim_pending_outbox now2 limit ?d))"
    then obtain q where "q \<in> set (due_batch now2 limit ?d)" "o_id q = i"
      by (auto simp: claim_pending_outbox_def Let_def claimed_message_def)
    then have "row_by o_id i (db_outbox ?d) = Some q" "outbox_due now2 q"
      using due_batch_sub [of now2 limit ?d] row_by_eq_Some_iff [OF keys] by auto
    then show False using row early wait(1) [of "o_attempts r"] by (auto simp: outbox_due_def retry_row_def)
  qed
  with row wait [of "o_attempts r"] show ?thesis
    by (intro exI [of _ ?r]) (simp add: retry_row_def)
qed

lemma retry_backs_off_witness:
  "1 \<notin> o_id ` set (fst (claim_pending_outbox 4999 5 (snd (retry_outbox 0 1 ''e'' False None demo_outbox))))"
proof -
  obtain r where "row_by o_id 1 (db_outbox demo_outbox) = Some r"
    by (simp add: demo_outbox_def enqueue_outbox_def Let_def empty_db_def demo_message_def dedupe_conflict_def
        new_outbox_row_def)
  from retry_backs_off [OF schema_ok_demo_outbox this, of 0 "''e''"] show ?thesis
    by (elim exE conjE) (erule allE [of _ 4999], erule allE [of _ 5], simp)
qed

end
