(* ===== verification/CoordApprovals.thy ===== *)
theory CoordApprovals imports CoordOutbox begin

text \<open>
  The queue of external actions that wait for a human decision
  (src/tandem_agents/core/coordination/approvals.py). The life of an action is the step relation
  \<open>approval_step\<close>: it is decided only while pending, retried only after a failure, and only the two
  marks that report an execution are unguarded. The locale \<open>approval_row_op\<close> states what every
  UPDATE of an approval row promises.
\<close>

section \<open>Operations\<close>

record action_request =
  aq_run_id :: string
  aq_task_id :: string
  aq_source_type :: string
  aq_adapter :: string
  aq_action_type :: string
  aq_target :: json
  aq_payload :: json
  aq_risk_level :: string
  aq_marker :: string
  aq_requested_by :: string
  aq_expires_at :: "int option"
  aq_dedupe_key :: "string option"

text \<open>\<open>_json_dumps\<close> of this file writes an empty dict for None.\<close>

definition stored_json :: "json \<Rightarrow> json" where
  "stored_json v = (if v = JNull then JObj [] else sort_keys v)"

definition approval_id_of :: "string \<Rightarrow> string" where
  "approval_id_of token = ''approval-act'' @ token"

definition new_approval_row :: "int \<Rightarrow> int \<Rightarrow> string \<Rightarrow> action_request \<Rightarrow> approval_row" where
  "new_approval_row now i approval_id q =
     \<lparr>a_id = i, a_approval_id = approval_id, a_run_id = aq_run_id q, a_task_id = Some (aq_task_id q),
      a_source_type = aq_source_type q, a_adapter = aq_adapter q, a_action_type = aq_action_type q,
      a_target = stored_json (aq_target q), a_payload = stored_json (aq_payload q),
      a_risk_level = aq_risk_level q, a_verification_marker = Some (aq_marker q), a_status = ''pending'',
      a_requested_by = Some (aq_requested_by q), a_decided_by = None, a_decision_reason = None,
      a_result = JObj [], a_error = None, a_created_at = now, a_updated_at = now, a_decided_at = None,
      a_executed_at = None, a_expires_at = aq_expires_at q, a_dedupe_key = aq_dedupe_key q\<rparr>"

definition rerequest :: "int \<Rightarrow> action_request \<Rightarrow> approval_row \<Rightarrow> approval_row" where
  "rerequest now q r =
     r\<lparr>a_target := stored_json (aq_target q), a_payload := stored_json (aq_payload q),
       a_risk_level := aq_risk_level q, a_verification_marker := Some (aq_marker q),
       a_status := (if List.member [''executed'', ''approved''] (a_status r) then a_status r else ''pending''),
       a_updated_at := now, a_error := None\<rparr>"

definition action_conflict :: "action_request \<Rightarrow> approval_row \<Rightarrow> bool" where
  "action_conflict q r = (aq_dedupe_key q \<noteq> None \<and> a_dedupe_key r = aq_dedupe_key q)"

definition get_external_action_approval :: "string \<Rightarrow> db \<Rightarrow> approval_row option" where
  "get_external_action_approval approval_id d = row_by a_approval_id approval_id (db_approvals d)"

text \<open>A colliding approval id violates the UNIQUE column and raises.\<close>

definition enqueue_external_action_approval ::
    "int \<Rightarrow> string \<Rightarrow> action_request \<Rightarrow> db \<Rightarrow> approval_row option res \<times> db" where
  "enqueue_external_action_approval now token q d =
     (let approval_id = approval_id_of token;
          found = (\<lambda>d. if text_arg (aq_dedupe_key q) \<noteq> []
                      then find (\<lambda>r. a_dedupe_key r = aq_dedupe_key q) (db_approvals d)
                      else get_external_action_approval approval_id d)
      in if has_key a_approval_id approval_id (db_approvals d) then (Inl IntegrityError, d)
         else if list_ex (action_conflict q) (db_approvals d)
         then (let d' = d\<lparr>db_approvals := upd_where (action_conflict q) (rerequest now q) (db_approvals d)\<rparr>
               in (Inr (found d'), d'))
         else (let d' = d\<lparr>db_approvals := db_approvals d @ [new_approval_row now (db_approvals_seq d + 1) approval_id q],
                          db_approvals_seq := db_approvals_seq d + 1\<rparr>
               in (Inr (found d'), d')))"

definition list_external_action_approvals :: "string option \<Rightarrow> string option \<Rightarrow> int \<Rightarrow> db \<Rightarrow> approval_row list" where
  "list_external_action_approvals run_id status limit d =
     take (nat (max 1 (int_or limit 1))) (order_desc a_created_at
       (filter (\<lambda>r. (text_arg run_id = [] \<or> a_run_id r = text_arg run_id) \<and>
                    (text_arg status = [] \<or> a_status r = text_arg status)) (db_approvals d)))"

definition decided :: "int \<Rightarrow> string \<Rightarrow> string \<Rightarrow> string \<Rightarrow> approval_row \<Rightarrow> approval_row" where
  "decided now status actor reason r =
     r\<lparr>a_status := status, a_decided_by := Some actor, a_decision_reason := Some reason,
       a_decided_at := Some now, a_updated_at := now, a_error := None\<rparr>"

definition decision_status :: "string \<Rightarrow> string" where
  "decision_status decision = (if lower (strip decision) = ''approve'' then ''approved'' else ''rejected'')"

definition decide_external_action_approval ::
    "int \<Rightarrow> string \<Rightarrow> string \<Rightarrow> string \<Rightarrow> string \<Rightarrow> db \<Rightarrow> approval_row option \<times> db" where
  "decide_external_action_approval now approval_id decision actor reason d =
     (let d' = d\<lparr>db_approvals := upd_where (\<lambda>r. a_approval_id r = approval_id \<and> a_status r = ''pending'')
            (decided now (decision_status decision) actor reason) (db_approvals d)\<rparr>
      in (get_external_action_approval approval_id d', d'))"

definition approved_of_run :: "string \<Rightarrow> db \<Rightarrow> approval_row list" where
  "approved_of_run run_id d =
     order_asc a_created_at (filter (\<lambda>r. a_run_id r = run_id \<and> a_status r = ''approved'') (db_approvals d))"

definition approve_pending_external_action_approvals ::
    "int \<Rightarrow> string \<Rightarrow> string \<Rightarrow> string \<Rightarrow> db \<Rightarrow> approval_row list \<times> db" where
  "approve_pending_external_action_approvals now run_id actor reason d =
     (let d' = d\<lparr>db_approvals := upd_where (\<lambda>r. a_run_id r = run_id \<and> a_status r = ''pending'')
            (decided now ''approved'' actor reason) (db_approvals d)\<rparr>
      in (approved_of_run run_id d', d'))"

definition retried :: "int \<Rightarrow> string \<Rightarrow> string \<Rightarrow> approval_row \<Rightarrow> approval_row" where
  "retried now actor reason r =
     (decided now ''approved'' actor reason r)\<lparr>a_executed_at := None, a_result := JObj []\<rparr>"

definition retry_external_action_approval ::
    "int \<Rightarrow> string \<Rightarrow> string \<Rightarrow> string \<Rightarrow> db \<Rightarrow> approval_row option \<times> db" where
  "retry_external_action_approval now approval_id actor reason d =
     (let d' = d\<lparr>db_approvals := upd_where (\<lambda>r. a_approval_id r = approval_id \<and> a_status r = ''failed'')
            (retried now actor reason) (db_approvals d)\<rparr>
      in (get_external_action_approval approval_id d', d'))"

definition retry_failed_external_action_approvals ::
    "int \<Rightarrow> string \<Rightarrow> string \<Rightarrow> string \<Rightarrow> db \<Rightarrow> approval_row list \<times> db" where
  "retry_failed_external_action_approvals now run_id actor reason d =
     (let d' = d\<lparr>db_approvals := upd_where (\<lambda>r. a_run_id r = run_id \<and> a_status r = ''failed'')
            (retried now actor reason) (db_approvals d)\<rparr>
      in (approved_of_run run_id d', d'))"

definition executed :: "int \<Rightarrow> string \<Rightarrow> json \<Rightarrow> string option \<Rightarrow> approval_row \<Rightarrow> approval_row" where
  "executed now status result err r =
     r\<lparr>a_status := status, a_result := stored_json result, a_error := err, a_executed_at := Some now,
       a_updated_at := now\<rparr>"

definition mark_external_action_executed :: "int \<Rightarrow> string \<Rightarrow> json \<Rightarrow> db \<Rightarrow> approval_row option \<times> db" where
  "mark_external_action_executed now approval_id result d =
     (let d' = d\<lparr>db_approvals := upd_where (\<lambda>r. a_approval_id r = approval_id)
            (executed now ''executed'' result None) (db_approvals d)\<rparr>
      in (get_external_action_approval approval_id d', d'))"

definition mark_external_action_failed ::
    "int \<Rightarrow> string \<Rightarrow> string \<Rightarrow> json \<Rightarrow> db \<Rightarrow> approval_row option \<times> db" where
  "mark_external_action_failed now approval_id err result d =
     (let d' = d\<lparr>db_approvals := upd_where (\<lambda>r. a_approval_id r = approval_id)
            (executed now ''failed'' (py_or result (JObj [])) (Some err)) (db_approvals d)\<rparr>
      in (get_external_action_approval approval_id d', d'))"

section \<open>What an update of an approval row promises\<close>

locale approval_row_op =
  fixes f :: "approval_row \<Rightarrow> approval_row"
  assumes keeps_ids: "a_id (f r) = a_id r" "a_approval_id (f r) = a_approval_id r"
    and keeps_action_dedupe: "a_dedupe_key (f r) = a_dedupe_key r"
    and keeps_run: "a_run_id (f r) = a_run_id r"
begin

lemma approvals_ok_update: "approvals_ok rows seq \<Longrightarrow> approvals_ok (upd_where p f rows) seq"
  unfolding approvals_ok_def
  using keys_ok_upd_where [of a_id f, OF keeps_ids(1)] keys_ok_upd_where [of a_approval_id f, OF keeps_ids(2)]
    unique_opt_upd_where [of a_dedupe_key f, OF keeps_action_dedupe]
  by (auto simp: list_all_iff set_upd_where keeps_ids)

lemma schema_ok_update: "schema_ok d \<Longrightarrow> schema_ok (d\<lparr>db_approvals := upd_where p f (db_approvals d)\<rparr>)"
  by (simp add: schema_ok_def approvals_ok_update)

lemma row_by_update:
  "row_by a_approval_id i (upd_where p f rows) =
     map_option (\<lambda>r. if p r then f r else r) (row_by a_approval_id i rows)"
  by (rule row_by_upd_where) (rule keeps_ids)

end

interpretation rerequest: approval_row_op "rerequest now q" for now q
  by unfold_locales (simp_all add: rerequest_def)

interpretation decided: approval_row_op "decided now s actor reason" for now s actor reason
  by unfold_locales (simp_all add: decided_def)

interpretation retried: approval_row_op "retried now actor reason" for now actor reason
  by unfold_locales (simp_all add: retried_def decided_def)

interpretation executed: approval_row_op "executed now s result err" for now s result err
  by unfold_locales (simp_all add: executed_def)

section \<open>Every operation keeps the constraints\<close>

lemma approvals_ok_snoc:
  assumes "approvals_ok rows seq" and "\<not> list_ex (action_conflict q) rows" and "\<not> has_key a_approval_id i rows"
  shows "approvals_ok (rows @ [new_approval_row now (seq + 1) i q]) (seq + 1)"
proof -
  have "\<not> has_key a_id (seq + 1) rows"
    using assms(1) by (auto simp: approvals_ok_def list_all_iff has_key_def)
  moreover have "unique_opt a_dedupe_key (rows @ [new_approval_row now (seq + 1) i q])"
    using assms by (auto simp: approvals_ok_def unique_opt_snoc new_approval_row_def action_conflict_def list_ex_iff)
  ultimately show ?thesis
    using assms(1,3) by (auto simp: approvals_ok_def list_all_iff new_approval_row_def)
qed

lemma schema_ok_enqueue_approval:
  assumes "schema_ok d"
  shows "schema_ok (snd (enqueue_external_action_approval now token q d))"
proof -
  consider "has_key a_approval_id (approval_id_of token) (db_approvals d)"
    | "\<not> has_key a_approval_id (approval_id_of token) (db_approvals d)" "list_ex (action_conflict q) (db_approvals d)"
    | "\<not> has_key a_approval_id (approval_id_of token) (db_approvals d)" "\<not> list_ex (action_conflict q) (db_approvals d)"
    by blast
  then show ?thesis
  proof cases
    case 1
    with assms show ?thesis by (simp add: enqueue_external_action_approval_def Let_def)
  next
    case 2
    with assms show ?thesis
      by (simp add: enqueue_external_action_approval_def Let_def rerequest.schema_ok_update)
  next
    case 3
    with assms show ?thesis
      by (simp add: enqueue_external_action_approval_def Let_def schema_ok_def approvals_ok_snoc)
  qed
qed

lemma schema_ok_approval_updates:
  assumes "schema_ok d"
  shows "schema_ok (snd (decide_external_action_approval now i dec actor reason d))"
    and "schema_ok (snd (approve_pending_external_action_approvals now run actor reason d))"
    and "schema_ok (snd (retry_external_action_approval now i actor reason d))"
    and "schema_ok (snd (retry_failed_external_action_approvals now run actor reason d))"
    and "schema_ok (snd (mark_external_action_executed now i res d))"
    and "schema_ok (snd (mark_external_action_failed now i err res d))"
  using assms
  by (simp_all add: decide_external_action_approval_def approve_pending_external_action_approvals_def
      retry_external_action_approval_def retry_failed_external_action_approvals_def
      mark_external_action_executed_def mark_external_action_failed_def Let_def
      decided.schema_ok_update retried.schema_ok_update executed.schema_ok_update)

section \<open>The life of an action\<close>

datatype approval_op =
    Request action_request string
  | Decide string string string string
  | ApprovePending string string string
  | Retry string string string
  | RetryFailed string string string
  | MarkExecuted string json
  | MarkFailed string string json

fun run_approval_op :: "int \<Rightarrow> approval_op \<Rightarrow> db \<Rightarrow> db" where
  "run_approval_op now (Request q token) d = snd (enqueue_external_action_approval now token q d)"
| "run_approval_op now (Decide i dec actor reason) d = snd (decide_external_action_approval now i dec actor reason d)"
| "run_approval_op now (ApprovePending run actor reason) d =
     snd (approve_pending_external_action_approvals now run actor reason d)"
| "run_approval_op now (Retry i actor reason) d = snd (retry_external_action_approval now i actor reason d)"
| "run_approval_op now (RetryFailed run actor reason) d =
     snd (retry_failed_external_action_approvals now run actor reason d)"
| "run_approval_op now (MarkExecuted i res) d = snd (mark_external_action_executed now i res d)"
| "run_approval_op now (MarkFailed i err res) d = snd (mark_external_action_failed now i err res d)"

definition approval_status :: "string \<Rightarrow> db \<Rightarrow> string option" where
  "approval_status i d = map_option a_status (row_by a_approval_id i (db_approvals d))"

text \<open>Whether the operation is one of the two execution reports, for this action.\<close>

fun reports_execution :: "string \<Rightarrow> approval_op \<Rightarrow> bool" where
  "reports_execution i (MarkExecuted j res) = (i = j)"
| "reports_execution i (MarkFailed j err res) = (i = j)"
| "reports_execution i op = False"

text \<open>The steps an action can make without a report of its execution.\<close>

inductive approval_step :: "string \<Rightarrow> string \<Rightarrow> bool" where
  stay: "approval_step s s"
| decide: "s' = ''approved'' \<or> s' = ''rejected'' \<Longrightarrow> approval_step ''pending'' s'"
| retry: "approval_step ''failed'' ''approved''"
| again: "s \<noteq> ''executed'' \<Longrightarrow> s \<noteq> ''approved'' \<Longrightarrow> approval_step s ''pending''"

code_pred approval_step .

inductive_cases approval_step_executedE: "approval_step ''executed'' s"
inductive_cases approval_step_approvedE: "approval_step ''approved'' s"

inductive_simps approval_step_to_approved: "approval_step s ''approved''"

lemma row_by_snoc_old: "row_by key i t = Some r \<Longrightarrow> row_by key i (t @ u) = Some r"
  by (simp add: row_by_append)

lemma decision_status_cases: "decision_status d = ''approved'' \<or> decision_status d = ''rejected''"
  by (simp add: decision_status_def)

lemma approval_status_step:
  assumes "approval_status i d = Some s" and "\<not> reports_execution i op"
  shows "\<exists>s'. approval_status i (run_approval_op now op d) = Some s' \<and> approval_step s s'"
proof -
  obtain r where r: "row_by a_approval_id i (db_approvals d) = Some r" "a_status r = s"
    using assms(1) by (auto simp: approval_status_def)
  show ?thesis
  proof (cases op)
    case (Request q token)
    with r show ?thesis
      by (auto simp: approval_status_def enqueue_external_action_approval_def Let_def row_by_snoc_old
          rerequest.row_by_update rerequest_def intro: approval_step.intros)
  next
    case (Decide j dec actor reason)
    with r show ?thesis
      by (auto simp: approval_status_def decide_external_action_approval_def Let_def decided.row_by_update
          decided_def intro: approval_step.stay approval_step.decide [OF decision_status_cases])
  next
    case (ApprovePending run actor reason)
    with r show ?thesis
      by (auto simp: approval_status_def approve_pending_external_action_approvals_def Let_def
          decided.row_by_update decided_def intro: approval_step.intros)
  next
    case (Retry j actor reason)
    with r show ?thesis
      by (auto simp: approval_status_def retry_external_action_approval_def Let_def retried.row_by_update
          retried_def decided_def intro: approval_step.intros)
  next
    case (RetryFailed run actor reason)
    with r show ?thesis
      by (auto simp: approval_status_def retry_failed_external_action_approvals_def Let_def retried.row_by_update
          retried_def decided_def intro: approval_step.intros)
  next
    case (MarkExecuted j res)
    with r assms(2) show ?thesis
      by (auto simp: approval_status_def mark_external_action_executed_def Let_def executed.row_by_update
          dest: row_by_SomeD intro: approval_step.stay)
  next
    case (MarkFailed j err res)
    with r assms(2) show ?thesis
      by (auto simp: approval_status_def mark_external_action_failed_def Let_def executed.row_by_update
          dest: row_by_SomeD intro: approval_step.stay)
  qed
qed

lemma approval_row_status: "approval_status i d = Some s \<longleftrightarrow> (\<exists>r. row_by a_approval_id i (db_approvals d) = Some r \<and> a_status r = s)"
  by (auto simp: approval_status_def)

lemma schema_ok_approval_op: "schema_ok d \<Longrightarrow> schema_ok (run_approval_op now op d)"
  by (cases op) (simp_all add: schema_ok_enqueue_approval schema_ok_approval_updates)

fun run_approval_ops :: "(int \<times> approval_op) list \<Rightarrow> db \<Rightarrow> db" where
  "run_approval_ops [] d = d"
| "run_approval_ops ((now, op) # ops) d = run_approval_ops ops (run_approval_op now op d)"

lemma executed_stays:
  assumes "approval_status i d = Some s" and "list_all (\<lambda>(now, op). \<not> reports_execution i op) ops"
    and "s = ''executed'' \<or> s = ''approved''"
  shows "approval_status i (run_approval_ops ops d) = Some s"
  using assms
proof (induction ops arbitrary: d)
  case (Cons x ops)
  obtain now op where x: "x = (now, op)" by (cases x)
  then obtain s' where "approval_status i (run_approval_op now op d) = Some s'" "approval_step s s'"
    using Cons.prems approval_status_step [of i d s op now] by auto
  moreover from this Cons.prems(3) have "s' = s"
    by (auto elim: approval_step_executedE approval_step_approvedE)
  ultimately show ?case using Cons x by simp
qed simp

section \<open>Concrete actions\<close>

definition demo_request :: action_request where
  "demo_request = \<lparr>aq_run_id = ''r1'', aq_task_id = ''T1'', aq_source_type = ''linear'', aq_adapter = ''linear'',
     aq_action_type = ''comment'', aq_target = JObj [], aq_payload = JObj [], aq_risk_level = ''high'',
     aq_marker = ''m'', aq_requested_by = ''aca'', aq_expires_at = None, aq_dedupe_key = Some ''k''\<rparr>"

definition demo_approvals :: db where
  "demo_approvals = run_approval_ops
     [(1, Request demo_request ''00000001''), (2, Decide ''approval-act00000001'' ''approve'' ''ana'' ''ok''),
      (3, MarkExecuted ''approval-act00000001'' JNull)] empty_db"

lemma demo_approvals_status: "approval_status ''approval-act00000001'' demo_approvals = Some ''executed''"
  by code_simp

section \<open>Properties\<close>

text \<open>
C9. The life of an external action. Whatever operation of the queue runs, an action stays in the
table, and unless the operation reports its execution, its status moves only along
\<open>approval_step\<close>: in particular it becomes approved only from pending (a decision) or failed (a
retry), and an executed or approved action keeps its status.
\<close>

theorem approval_life_cycle:
  assumes "approval_status i d = Some s"
  shows "\<exists>s'. approval_status i (run_approval_op now op d) = Some s' \<and>
    (reports_execution i op \<or> approval_step s s')"
proof (cases "reports_execution i op")
  case True
  obtain r where r: "row_by a_approval_id i (db_approvals d) = Some r"
    using assms by (auto simp: approval_status_def)
  with True show ?thesis
    by (cases op) (auto simp: approval_status_def mark_external_action_executed_def mark_external_action_failed_def
        Let_def executed.row_by_update)
next
  case False
  then show ?thesis using approval_status_step [OF assms] by blast
qed

lemma approval_life_cycle_witness:
  "\<exists>s'. approval_status ''approval-act00000001'' (run_approval_op 9 (Decide ''approval-act00000001'' ''reject'' ''bo'' []) demo_approvals)
     = Some s'"
  using approval_life_cycle [OF demo_approvals_status] by blast

text \<open>
An action that was carried out is never offered again: as long as no operation reports another
execution of it, no sequence of requests (with any deduplication key), decisions and retries changes
its executed status.
\<close>

theorem executed_action_is_final:
  assumes "approval_status i d = Some ''executed''"
    and "list_all (\<lambda>(now, op). \<not> reports_execution i op) ops"
  shows "approval_status i (run_approval_ops ops d) = Some ''executed''"
  using executed_stays [OF assms] by simp

lemma executed_action_is_final_witness:
  "approval_status ''approval-act00000001'' (run_approval_ops [(4, Request demo_request ''00000002''),
      (5, Retry ''approval-act00000001'' ''ana'' [])] demo_approvals) = Some ''executed''"
  by (rule executed_action_is_final [OF demo_approvals_status]) simp

end
