(* ===== verification/CoordEvents.thy ===== *)
theory CoordEvents imports CoordRuns CoordApprovals begin

text \<open>
  The scheduler's event log (src/tandem_agents/core/coordination/scheduler.py), the dicts the rows are
  served as (rows.py) and the snapshot of the store (snapshot.py).
\<close>

section \<open>Serialised rows\<close>

definition row_to_run :: "run_row \<Rightarrow> obj" where
  "row_to_run r =
     [(''run_id'', JStr (r_run_id r)), (''task_key'', opt_str (r_task_key r)), (''task_id'', opt_str (r_task_id r)),
      (''repo_slug'', opt_str (r_repo_slug r)), (''repo_path'', opt_str (r_repo_path r)),
      (''branch_name'', opt_str (r_branch_name r)), (''status'', JStr (r_status r)), (''phase'', JStr (r_phase r)),
      (''worker_id'', opt_str (r_worker_id r)), (''host_id'', opt_str (r_host_id r)),
      (''lease_id'', opt_str (r_lease_id r)), (''created_at_ms'', JInt (r_created_at r)),
      (''updated_at_ms'', JInt (r_updated_at r)), (''started_at_ms'', opt_int (r_started_at r)),
      (''completed_at_ms'', opt_int (r_completed_at r)), (''error'', opt_str (r_error r)),
      (''metadata'', r_metadata r)]"

definition row_to_worker :: "worker_row \<Rightarrow> obj" where
  "row_to_worker w =
     [(''worker_id'', JStr (w_worker_id w)), (''host_id'', JStr (w_host_id w)), (''role'', JStr (w_role w)),
      (''status'', JStr (w_status w)), (''capabilities'', w_capabilities w),
      (''current_run_id'', opt_str (w_current_run_id w)), (''current_lease_id'', opt_str (w_current_lease_id w)),
      (''last_seen_at_ms'', JInt (w_last_seen_at w)), (''created_at_ms'', JInt (w_created_at w)),
      (''updated_at_ms'', JInt (w_updated_at w))]"

definition row_to_lease :: "lease_row \<Rightarrow> obj" where
  "row_to_lease l =
     [(''lease_id'', JStr (l_lease_id l)), (''task_key'', JStr (l_task_key l)), (''task_id'', opt_str (l_task_id l)),
      (''run_id'', JStr (l_run_id l)), (''worker_id'', JStr (l_worker_id l)), (''host_id'', JStr (l_host_id l)),
      (''role'', JStr (l_role l)), (''status'', JStr (l_status l)), (''attempt'', JInt (l_attempt l)),
      (''acquired_at_ms'', JInt (l_acquired_at l)), (''heartbeat_at_ms'', JInt (l_heartbeat_at l)),
      (''expires_at_ms'', JInt (l_expires_at l)), (''released_at_ms'', opt_int (l_released_at l)),
      (''release_reason'', opt_str (l_release_reason l)), (''metadata'', l_metadata l)]"

definition row_to_outbox :: "outbox_row \<Rightarrow> obj" where
  "row_to_outbox r =
     [(''id'', JInt (o_id r)), (''kind'', JStr (o_kind r)), (''aggregate_type'', JStr (o_aggregate_type r)),
      (''aggregate_id'', JStr (o_aggregate_id r)), (''payload'', o_payload r), (''status'', JStr (o_status r)),
      (''attempts'', JInt (o_attempts r)), (''next_attempt_at_ms'', JInt (o_next_attempt_at r)),
      (''last_error'', opt_str (o_last_error r)), (''created_at_ms'', JInt (o_created_at r)),
      (''updated_at_ms'', JInt (o_updated_at r)), (''dedupe_key'', opt_str (o_dedupe_key r))]"

definition row_to_external_action_approval :: "approval_row \<Rightarrow> obj" where
  "row_to_external_action_approval r =
     [(''id'', JInt (a_id r)), (''approval_id'', JStr (a_approval_id r)), (''run_id'', JStr (a_run_id r)),
      (''task_id'', opt_str (a_task_id r)), (''source_type'', JStr (a_source_type r)),
      (''adapter'', JStr (a_adapter r)), (''action_type'', JStr (a_action_type r)), (''target'', a_target r),
      (''payload'', a_payload r), (''risk_level'', JStr (a_risk_level r)),
      (''verification_marker'', opt_str (a_verification_marker r)), (''status'', JStr (a_status r)),
      (''requested_by'', opt_str (a_requested_by r)), (''decided_by'', opt_str (a_decided_by r)),
      (''decision_reason'', opt_str (a_decision_reason r)), (''result'', a_result r),
      (''error'', opt_str (a_error r)), (''created_at_ms'', JInt (a_created_at r)),
      (''updated_at_ms'', JInt (a_updated_at r)), (''decided_at_ms'', opt_int (a_decided_at r)),
      (''executed_at_ms'', opt_int (a_executed_at r)), (''expires_at_ms'', opt_int (a_expires_at r)),
      (''dedupe_key'', opt_str (a_dedupe_key r))]"

definition row_to_scheduler_event :: "event_row \<Rightarrow> obj" where
  "row_to_scheduler_event r =
     [(''id'', JInt (e_id r)), (''event_type'', JStr (e_event_type r)), (''payload'', e_payload r),
      (''created_at_ms'', JInt (e_created_at r))]"

section \<open>The event log\<close>

definition record_scheduler_event :: "int \<Rightarrow> string \<Rightarrow> json \<Rightarrow> db \<Rightarrow> obj \<times> db" where
  "record_scheduler_event now event_type payload d =
     (let i = db_events_seq d + 1;
          d' = d\<lparr>db_events := db_events d @ [\<lparr>e_id = i, e_event_type = event_type, e_payload = sort_keys payload,
                   e_created_at = now\<rparr>],
                 db_events_seq := i\<rparr>
      in ((case newest e_id (db_events d') of Some r \<Rightarrow> row_to_scheduler_event r | None \<Rightarrow> []), d'))"

definition list_scheduler_events :: "int \<Rightarrow> db \<Rightarrow> obj list" where
  "list_scheduler_events limit d =
     map row_to_scheduler_event (take (nat (max 1 (int_or limit 1))) (order_desc e_id (db_events d)))"

section \<open>The snapshot\<close>

text \<open>SQLite's LIMIT: a negative limit is no limit.\<close>

definition sql_limit :: "int \<Rightarrow> 'r list \<Rightarrow> 'r list" where
  "sql_limit n rows = (if n < 0 then rows else take (nat n) rows)"

definition count_if :: "('r \<Rightarrow> bool) \<Rightarrow> 'r list \<Rightarrow> int" where
  "count_if p rows = int (length (filter p rows))"

definition snapshot_summary :: "int \<Rightarrow> db \<Rightarrow> (string \<times> int) list" where
  "snapshot_summary limit d =
     (let outbox = sql_limit limit (order_desc o_id (db_outbox d));
          approvals = sql_limit limit (order_desc a_updated_at (db_approvals d))
      in [(''tasks'', int (length (list_tasks None None None None limit d))),
          (''queued_tasks'', count_if (\<lambda>t. t_state t = ''queued'') (db_tasks d)),
          (''active_tasks'', count_if (\<lambda>t. List.member [''claimed'', ''active'', ''review''] (t_state t)) (db_tasks d)),
          (''runs'', int (length (sql_limit limit (order_desc r_updated_at (db_runs d))))),
          (''leases'', int (length (sql_limit limit (order_desc l_heartbeat_at (db_leases d))))),
          (''workers'', int (length (sql_limit limit (order_desc w_updated_at (db_workers d))))),
          (''pending_outbox'', count_if (\<lambda>r. o_status r = ''pending'') outbox),
          (''processing_outbox'', count_if (\<lambda>r. o_status r = ''processing'') outbox),
          (''failed_outbox'', count_if (\<lambda>r. o_status r = ''failed'') outbox),
          (''dispatched_outbox'', count_if (\<lambda>r. o_status r = ''dispatched'') outbox),
          (''pending_external_approvals'', count_if (\<lambda>r. a_status r = ''pending'') approvals),
          (''failed_external_approvals'', count_if (\<lambda>r. a_status r = ''failed'') approvals),
          (''scheduler_events'', int (length (sql_limit limit (order_desc e_id (db_events d)))))])"

definition snapshot :: "string \<Rightarrow> string \<Rightarrow> int \<Rightarrow> db \<Rightarrow> obj" where
  "snapshot backend db_path limit d =
     [(''backend'', JStr backend), (''db_path'', JStr db_path),
      (''summary'', JObj (map (\<lambda>(k, n). (k, JInt n)) (snapshot_summary limit d))),
      (''tasks'', JList (map JObj (list_tasks None None None None limit d))),
      (''runs'', JList (map (\<lambda>r. JObj (row_to_run r)) (sql_limit limit (order_desc r_updated_at (db_runs d))))),
      (''leases'', JList (map (\<lambda>r. JObj (row_to_lease r)) (sql_limit limit (order_desc l_heartbeat_at (db_leases d))))),
      (''workers'', JList (map (\<lambda>r. JObj (row_to_worker r)) (sql_limit limit (order_desc w_updated_at (db_workers d))))),
      (''outbox'', JList (map (\<lambda>r. JObj (row_to_outbox r)) (sql_limit limit (order_desc o_id (db_outbox d))))),
      (''external_action_approvals'', JList (map (\<lambda>r. JObj (row_to_external_action_approval r))
         (sql_limit limit (order_desc a_updated_at (db_approvals d))))),
      (''scheduler_events'', JList (map (\<lambda>r. JObj (row_to_scheduler_event r))
         (sql_limit limit (order_desc e_id (db_events d)))))]"

section \<open>Lemmas\<close>

lemma events_ok_snoc:
  "events_ok rows seq \<Longrightarrow> e_id r = seq + 1 \<Longrightarrow> events_ok (rows @ [r]) (seq + 1)"
  by (auto simp: events_ok_def list_all_iff has_key_def)

lemma schema_ok_record_event: "schema_ok d \<Longrightarrow> schema_ok (snd (record_scheduler_event now ty payload d))"
  by (simp add: record_scheduler_event_def Let_def schema_ok_def events_ok_snoc)

end
