(* ===== verification/CoordSystem.thy ===== *)
theory CoordSystem imports CoordEvents CoordClaims begin

text \<open>
  The coordination store as a whole: every operation that changes it, as one step at a clock reading;
  the stores reachable from the empty one; and what holds in all of them. A step is one operation run
  to its end. The claims, outbox claims and reaping of outbox claims run in one transaction in the
  code; the other operations are sequences of single-row statements whose interleaving with another
  host's statements is not modelled here.
\<close>

section \<open>Operations and reachable stores\<close>

datatype store_op =
    RegisterTask obj obj string
  | Transition string string transition_args
  | ClaimTask string obj claim_args
  | HeartbeatLease string int
  | ReleaseLease string string "string option"
  | ReapLeases
  | RegisterWorker string string string string json "string option" "string option"
  | HeartbeatWorker string "string option" "string option" "string option" "json option" "string option" "string option"
  | ReapWorkers int
  | StartRun obj obj run_start
  | UpdateRun string run_changes
  | EnqueueOutbox outbox_message
  | MarkDispatched int
  | ClaimOutbox int
  | CompleteOutbox int
  | RetryOutbox int string bool "int option"
  | ReapOutbox int
  | ApprovalOp approval_op
  | RecordEvent string json

definition res_db :: "('a \<times> db) res \<Rightarrow> db \<Rightarrow> db" where
  "res_db r d = (case r of Inr (_, d') \<Rightarrow> d' | Inl _ \<Rightarrow> d)"

fun run_op :: "int \<Rightarrow> store_op \<Rightarrow> db \<Rightarrow> db" where
  "run_op now (RegisterTask task repo status) d = res_db (register_task now task repo status d) d"
| "run_op now (Transition key state a) d = snd (transition_task_state now key state a d)"
| "run_op now (ClaimTask token task a) d = snd (claim_task now token task a d)"
| "run_op now (HeartbeatLease i ttl) d = snd (heartbeat_lease now i ttl d)"
| "run_op now (ReleaseLease i status reason) d = snd (release_lease now i status reason d)"
| "run_op now ReapLeases d = snd (reap_expired_leases now d)"
| "run_op now (RegisterWorker w h role status caps run lease) d = snd (register_worker now w h role status caps run lease d)"
| "run_op now (HeartbeatWorker w h role status caps run lease) d = snd (heartbeat_worker now w h role status caps run lease d)"
| "run_op now (ReapWorkers s) d = snd (reap_stale_workers now s d)"
| "run_op now (StartRun task repo a) d = res_db (record_run_start now task repo a d) d"
| "run_op now (UpdateRun i c) d = snd (update_run now i c d)"
| "run_op now (EnqueueOutbox m) d = snd (enqueue_outbox now m d)"
| "run_op now (MarkDispatched i) d = mark_outbox_dispatched now i d"
| "run_op now (ClaimOutbox limit) d = snd (claim_pending_outbox now limit d)"
| "run_op now (CompleteOutbox i) d = snd (complete_outbox now i d)"
| "run_op now (RetryOutbox i err terminal delay) d = snd (retry_outbox now i err terminal delay d)"
| "run_op now (ReapOutbox s) d = snd (reap_stale_outbox_claims now s d)"
| "run_op now (ApprovalOp op) d = run_approval_op now op d"
| "run_op now (RecordEvent ty payload) d = snd (record_scheduler_event now ty payload d)"

text \<open>
  What callers keep to: a claim draws an id that no lease has, and a lease is released with a status
  other than \<open>active\<close>.
\<close>

fun op_ok :: "db \<Rightarrow> store_op \<Rightarrow> bool" where
  "op_ok d (ReleaseLease i status reason) = (status \<noteq> active)"
| "op_ok d (ClaimTask token task a) = (\<not> has_key l_lease_id (new_lease_id token) (db_leases d))"
| "op_ok d op = True"

inductive reachable :: "db \<Rightarrow> bool" where
  start: "reachable empty_db"
| step: "reachable d \<Longrightarrow> op_ok d op \<Longrightarrow> reachable (run_op now op d)"

section \<open>Every operation keeps the constraints\<close>

lemma schema_ok_heartbeat_lease: "schema_ok d \<Longrightarrow> schema_ok (snd (heartbeat_lease now i ttl d))"
  by (simp add: heartbeat_lease_def Let_def schema_ok_def refresh.leases_ok_update split: option.split)

text \<open>Ending the lease where it is active is an update of the lease.\<close>

definition end_if_active :: "int \<Rightarrow> string \<Rightarrow> string option \<Rightarrow> lease_row \<Rightarrow> lease_row" where
  "end_if_active now status reason l = (if lease_active l then end_lease now status reason l else l)"

interpretation end_active: lease_update "end_if_active now status reason" for now status reason
  by unfold_locales (auto simp: end_if_active_def end_lease_def split: if_splits)

lemma end_lease_update:
  "upd_where (\<lambda>l. l_lease_id l = i \<and> lease_active l) (end_lease now st r) ls =
     upd_where (\<lambda>l. l_lease_id l = i) (end_if_active now st r) ls"
  by (induction ls) (simp_all add: end_if_active_def)

lemma leases_ok_end_lease:
  "leases_ok ls \<Longrightarrow> leases_ok (upd_where (\<lambda>l. l_lease_id l = i \<and> lease_active l) (end_lease now st r) ls)"
  unfolding end_lease_update by (rule end_active.leases_ok_update)

lemma schema_ok_release_lease: "schema_ok d \<Longrightarrow> schema_ok (snd (release_lease now i status reason d))"
  by (simp add: release_lease_def Let_def schema_ok_def leases_ok_end_lease split: option.split)

lemma schema_ok_register_worker:
  "schema_ok d \<Longrightarrow> schema_ok (snd (register_worker now w h role status caps run lease d))"
proof -
  assume ok: "schema_ok d"
  have "keys_ok w_worker_id (upsert w_worker_id new (\<lambda>w. w\<lparr>w_host_id := h, w_role := role, w_status := status,
      w_capabilities := c, w_current_run_id := run, w_current_lease_id := lease, w_last_seen_at := now,
      w_updated_at := now\<rparr>) (db_workers d))" for new c
    using ok by (intro keys_ok_upsert) (simp_all add: schema_okD)
  with ok show ?thesis by (simp add: register_worker_def Let_def schema_ok_def)
qed

lemma beat_worker_id [simp]: "w_worker_id (beat_worker now h role status caps run lease w) = w_worker_id w"
  by (simp add: beat_worker_def set_opt_field)

lemma schema_ok_heartbeat_worker:
  "schema_ok d \<Longrightarrow> schema_ok (snd (heartbeat_worker now w h role status caps run lease d))"
  by (simp add: heartbeat_worker_def Let_def schema_ok_def split: option.split)

lemma schema_ok_reap_stale_workers: "schema_ok d \<Longrightarrow> schema_ok (snd (reap_stale_workers now s d))"
  by (simp add: reap_stale_workers_def Let_def reap_stale_rows_db schema_ok_fold_reap_stale)

lemma schema_ok_run_op: "schema_ok d \<Longrightarrow> schema_ok (run_op now op d)"
  by (cases op) (auto simp: res_db_def schema_ok_transition schema_ok_claim_task schema_ok_heartbeat_lease
      schema_ok_release_lease reap_expired_leases_eq schema_ok_reap_expired schema_ok_register_worker
      schema_ok_heartbeat_worker schema_ok_reap_stale_workers schema_ok_update_run schema_ok_enqueue
      schema_ok_mark_dispatched schema_ok_claim_pending schema_ok_complete_outbox schema_ok_retry_outbox
      schema_ok_reap_outbox schema_ok_approval_op schema_ok_record_event
      dest: schema_ok_register_task schema_ok_record_run_start split: sum.split)

lemma schema_ok_reachable: "reachable d \<Longrightarrow> schema_ok d"
  by (induction rule: reachable.induct) (simp_all add: schema_ok_empty schema_ok_run_op)

section \<open>What a step does to the leases\<close>

definition leases_kept :: "lease_row list \<Rightarrow> lease_row list \<Rightarrow> bool" where
  "leases_kept ls ls' \<longleftrightarrow> (\<exists>f. lease_update f \<and> ls' = map f ls)"

lemma lease_update_if: "lease_update f \<Longrightarrow> lease_update (\<lambda>l. if p l then f l else l)"
  by (simp add: lease_update_def)

lemma kept_refl [simp]: "leases_kept ls ls"
  unfolding leases_kept_def by (intro exI [of _ id]) (simp add: lease_update_def)

lemma kept_upd: "lease_update f \<Longrightarrow> leases_kept ls (upd_where p f ls)"
  unfolding leases_kept_def upd_where_def by (blast intro: lease_update_if)

lemma lease_update_comp:
  assumes "lease_update f" and "lease_update g"
  shows "lease_update (g o f)"
proof (rule lease_update.intro)
  fix l
  show "lease_active ((g o f) l) \<Longrightarrow> lease_active l"
    using lease_update.never_activates [OF assms(2), of "f l"] lease_update.never_activates [OF assms(1), of l]
    by simp
qed (simp_all add: lease_update.keeps_id [OF assms(1)] lease_update.keeps_id [OF assms(2)]
    lease_update.keeps_task [OF assms(1)] lease_update.keeps_task [OF assms(2)]
    lease_update.keeps_worker [OF assms(1)] lease_update.keeps_worker [OF assms(2)]
    lease_update.keeps_run [OF assms(1)] lease_update.keeps_run [OF assms(2)]
    lease_update.keeps_attempt [OF assms(1)] lease_update.keeps_attempt [OF assms(2)])

lemma kept_trans:
  assumes "leases_kept ls ms" and "leases_kept ms ns"
  shows "leases_kept ls ns"
proof -
  obtain f g where "lease_update f" "ms = map f ls" "lease_update g" "ns = map g ms"
    using assms by (auto simp: leases_kept_def)
  then show ?thesis
    unfolding leases_kept_def by (intro exI [of _ "g o f"] conjI lease_update_comp) simp_all
qed

lemma kept_end_lease: "leases_kept ls (upd_where (\<lambda>l. l_lease_id l = i \<and> lease_active l) (end_lease now st r) ls)"
  unfolding end_lease_update by (rule kept_upd) (rule end_active.lease_update_axioms)

lemma kept_reap_expired: "leases_kept (db_leases d) (db_leases (reap_expired_leases_locked now d))"
proof -
  have "leases_kept ls (fold (\<lambda>row. upd_where (\<lambda>l. l_lease_id l = l_lease_id row) (stale_lease now r)) rows ls)"
    for r rows ls
    by (induction rows arbitrary: ls) (auto intro: kept_trans [OF kept_upd [OF stale.lease_update_axioms]])
  then show ?thesis by (simp add: reap_expired_leases_locked_def db_leases_fold_reap)
qed

lemma kept_reap_stale: "leases_kept (db_leases d) (db_leases (reap_stale_workers_locked now s d))"
proof -
  obtain p where "db_leases (reap_stale_workers_locked now s d) =
      upd_where p (stale_lease now ''worker stale'') (db_leases d)"
    using reap_stale_workers_leases by blast
  then show ?thesis by (simp add: kept_upd stale.lease_update_axioms)
qed

lemma kept_fold_reap_stale:
  "leases_kept (db_leases d) (db_leases (fold (reap_stale_worker_row now ms dead) rows d))"
proof (induction rows arbitrary: d)
  case (Cons row rows)
  have "leases_kept (db_leases d) (db_leases (reap_stale_worker_row now ms dead row d))"
  proof -
    obtain p where "db_leases (reap_stale_worker_row now ms dead row d) =
        upd_where p (stale_lease now ''worker stale'') (db_leases d)"
      using reap_stale_worker_row_leases by blast
    then show ?thesis by (simp add: kept_upd stale.lease_update_axioms)
  qed
  with Cons [of "reap_stale_worker_row now ms dead row d"] show ?case by (simp add: kept_trans)
qed simp

lemma kept_claim_reap: "leases_kept (db_leases d) (db_leases (claim_reap now d))"
  unfolding claim_reap_def by (rule kept_trans [OF kept_reap_expired kept_reap_stale])

lemma kept_apply: "leases_kept (db_leases d) (db_leases (apply_task_state_locked key state now a d))"
  by (simp add: apply_task_state_eq transitioned_def clear_claim_leases_def Let_def
      kept_upd stale.lease_update_axioms split: option.split)

lemma kept_clear_reclaimable: "db_leases (clear_reclaimable_task_claim_locked key now d) = db_leases d"
  by (simp add: clear_reclaimable_task_claim_locked_def Let_def split: option.split)

lemma approval_op_leases: "db_leases (run_approval_op now op d) = db_leases d"
  by (cases op) (simp_all add: enqueue_external_action_approval_def decide_external_action_approval_def
      approve_pending_external_action_approvals_def retry_external_action_approval_def
      retry_failed_external_action_approvals_def mark_external_action_executed_def
      mark_external_action_failed_def Let_def)

text \<open>Every operation but a granted claim keeps the leases and activates none.\<close>

lemma kept_run_op:
  assumes "\<And>token task a. op \<noteq> ClaimTask token task a"
  shows "leases_kept (db_leases d) (db_leases (run_op now op d))"
proof (cases op)
  case (RegisterTask task repo status)
  then show ?thesis
    by (auto simp: res_db_def register_task_def bind_res_def Let_def kept_clear_reclaimable split: sum.splits)
next
  case (HeartbeatLease i ttl)
  then show ?thesis
    by (simp add: heartbeat_lease_def Let_def kept_upd refresh.lease_update_axioms split: option.split)
next
  case (ReleaseLease i st r)
  then show ?thesis by (simp add: release_lease_def Let_def kept_end_lease split: option.split)
next
  case (StartRun task repo a)
  then show ?thesis by (auto simp: res_db_def record_run_start_def bind_res_def Let_def split: sum.splits)
qed (use assms in \<open>simp_all add: transition_task_state_def kept_apply reap_expired_leases_eq kept_reap_expired
      register_worker_def heartbeat_worker_def reap_stale_workers_def reap_stale_rows_db kept_fold_reap_stale
      update_run_def enqueue_outbox_def mark_outbox_dispatched_def claim_pending_outbox_def complete_outbox_def
      retry_outbox_def reap_stale_outbox_claims_def approval_op_leases record_scheduler_event_def Let_def
      split: option.split\<close>)

lemma claim_leases:
  assumes "schema_ok d" and "\<not> has_key l_lease_id (new_lease_id token) (db_leases d)"
    and "granted (fst (claim_task now token task a d))"
  obtains mid lease where "leases_kept (db_leases d) mid"
    and "db_leases (snd (claim_task now token task a d)) = mid @ [lease]"
    and "l_attempt lease = next_attempt (l_task_key lease) mid"
    and "l_lease_id lease = new_lease_id token"
    and "\<And>l. l \<in> set mid \<Longrightarrow> l_task_key l = l_task_key lease \<Longrightarrow> \<not> lease_active l"
proof -
  let ?mid = "db_leases (claim_reap now d)"
  from granted_claimed [OF assms(3)] obtain l t
    where "claim_task now token task a d = (Inr (Claimed l t), snd (claim_task now token task a d))" by blast
  then obtain p where live: "live_lease (tp_task_key p) now (claim_reap now d) = None"
    and grant: "grant_claim now (new_lease_id token) task p a (claim_reap now d) = Inr (snd (claim_task now token task a d))"
    by (rule claim_task_grantedD)
  have keys: "keys_ok l_lease_id (db_leases d)" using assms(1) by (rule schema_okD)
  have fresh: "\<not> has_key l_lease_id (new_lease_id token) ?mid"
    using assms(2) has_key_map_cong [OF claim_reap_lease_ids [OF keys]] by blast
  show thesis
  proof (rule that [OF kept_claim_reap grant_claim_result(1) [OF fresh grant]])
    show "\<not> lease_active x" if "x \<in> set ?mid"
        "l_task_key x = l_task_key (claim_lease_row now (new_lease_id token) task p a (next_attempt (tp_task_key p) ?mid))"
      for x
      using no_live_lease_no_active [OF keys live that(1)] that(2) by simp
  qed (simp_all add: claim_lease_row_def)
qed

section \<open>The history of a task's leases\<close>

definition leases_of :: "string \<Rightarrow> lease_row list \<Rightarrow> lease_row list" where
  "leases_of key ls = filter (\<lambda>l. l_task_key l = key) ls"

definition history_ok :: "lease_row list \<Rightarrow> bool" where
  "history_ok ls \<longleftrightarrow>
     (\<forall>key. map l_attempt (leases_of key ls) = map int [1..<Suc (length (leases_of key ls))]) \<and>
     (\<forall>l\<in>set ls. lease_active l \<longrightarrow> l_attempt l = int (length (leases_of (l_task_key l) ls)))"

lemma leases_of_map:
  "lease_update f \<Longrightarrow> leases_of key (map f ls) = map f (leases_of key ls)"
  by (induction ls) (simp_all add: leases_of_def lease_update_def)

lemma history_ok_kept:
  assumes "leases_kept ls ls'" and "history_ok ls"
  shows "history_ok ls'"
proof -
  obtain f where f: "lease_update f" "ls' = map f ls"
    using assms(1) by (auto simp: leases_kept_def)
  have "map l_attempt (map f xs) = map l_attempt xs" for xs
    using f(1) by (simp add: lease_update_def)
  moreover have "l_task_key (f l) = l_task_key l" "l_attempt (f l) = l_attempt l" "lease_active (f l) \<Longrightarrow> lease_active l" for l
    using f(1) by (simp_all add: lease_update_def)
  ultimately show ?thesis
    using assms(2) unfolding f(2) history_ok_def leases_of_map [OF f(1)] by (auto simp: o_def simp del: upt_Suc)
qed

lemma history_ok_snoc:
  assumes "history_ok ls" and "l_attempt lease = next_attempt (l_task_key lease) ls"
    and "\<And>l. l \<in> set ls \<Longrightarrow> l_task_key l = l_task_key lease \<Longrightarrow> \<not> lease_active l"
  shows "history_ok (ls @ [lease])"
proof -
  have n: "l_attempt lease = int (Suc (length (leases_of (l_task_key lease) ls)))"
    using assms(2) by (simp add: next_attempt_def leases_of_def)
  have "map l_attempt (leases_of key (ls @ [lease])) = map int [1..<Suc (length (leases_of key (ls @ [lease])))]" for key
    using assms(1) n by (simp add: history_ok_def leases_of_def)
  moreover have "l_attempt l = int (length (leases_of (l_task_key l) (ls @ [lease])))"
    if "l \<in> set (ls @ [lease])" "lease_active l" for l
    using that assms(1,3) n by (auto simp: history_ok_def leases_of_def)
  ultimately show ?thesis by (simp add: history_ok_def)
qed

lemma history_ok_run_op:
  assumes "schema_ok d" and "history_ok (db_leases d)" and "op_ok d op"
  shows "history_ok (db_leases (run_op now op d))"
proof (cases "\<exists>token task a. op = ClaimTask token task a")
  case False
  with kept_run_op [of op d now] history_ok_kept assms(2) show ?thesis by blast
next
  case True
  then obtain token task a where op: "op = ClaimTask token task a" by blast
  show ?thesis
  proof (cases "granted (fst (claim_task now token task a d))")
    case False
    then show ?thesis using assms(2) by (simp add: op not_granted_unchanged)
  next
    case True
    then obtain mid lease where "leases_kept (db_leases d) mid"
      and "db_leases (snd (claim_task now token task a d)) = mid @ [lease]"
      and "l_attempt lease = next_attempt (l_task_key lease) mid"
      and "\<And>l. l \<in> set mid \<Longrightarrow> l_task_key l = l_task_key lease \<Longrightarrow> \<not> lease_active l"
      using assms(1,3) op by (auto elim!: claim_leases [of d token now task a])
    then show ?thesis using history_ok_snoc history_ok_kept assms(2) op by simp
  qed
qed

lemma history_ok_reachable: "reachable d \<Longrightarrow> history_ok (db_leases d)"
proof (induction rule: reachable.induct)
  case start
  show ?case by (simp add: history_ok_def leases_of_def empty_db_def)
next
  case (step d op now)
  then show ?case by (intro history_ok_run_op schema_ok_reachable)
qed

inductive evolves :: "db \<Rightarrow> db \<Rightarrow> bool" where
  none: "evolves d d"
| more: "evolves d e \<Longrightarrow> op_ok e op \<Longrightarrow> evolves d (run_op now op e)"

lemma evolves_reachable: "evolves d e \<Longrightarrow> reachable d \<Longrightarrow> reachable e"
  by (induction rule: evolves.induct) (auto intro: reachable.step)

text \<open>A lease keeps its identity, and an ended one stays ended.\<close>

definition same_lease :: "lease_row \<Rightarrow> lease_row \<Rightarrow> bool" where
  "same_lease l l' \<longleftrightarrow> l_lease_id l' = l_lease_id l \<and> l_task_key l' = l_task_key l \<and>
     l_worker_id l' = l_worker_id l \<and> l_run_id l' = l_run_id l \<and> l_attempt l' = l_attempt l \<and>
     (lease_active l' \<longrightarrow> lease_active l)"

lemma kept_same_lease: "leases_kept ls ls' \<Longrightarrow> l \<in> set ls \<Longrightarrow> \<exists>l'\<in>set ls'. same_lease l l'"
  by (auto simp: leases_kept_def same_lease_def lease_update_def)

lemma run_op_same_lease:
  assumes "schema_ok d" and "op_ok d op" and "l \<in> set (db_leases d)"
  shows "\<exists>l'\<in>set (db_leases (run_op now op d)). same_lease l l'"
proof (cases "\<exists>token task a. op = ClaimTask token task a")
  case False
  with kept_run_op [of op d now] kept_same_lease assms(3) show ?thesis by blast
next
  case True
  then obtain token task a where op: "op = ClaimTask token task a" by blast
  show ?thesis
  proof (cases "granted (fst (claim_task now token task a d))")
    case False
    then show ?thesis using assms(3) by (auto simp: op not_granted_unchanged same_lease_def)
  next
    case True
    then obtain mid lease where "leases_kept (db_leases d) mid"
      and "db_leases (snd (claim_task now token task a d)) = mid @ [lease]"
      using assms(1,2) op by (auto elim!: claim_leases [of d token now task a])
    then show ?thesis using kept_same_lease [OF _ assms(3)] op by auto
  qed
qed

lemma evolves_same_lease:
  assumes "evolves d e" and "reachable d" and "l \<in> set (db_leases d)"
  shows "\<exists>l'\<in>set (db_leases e). same_lease l l'"
  using assms
proof (induction rule: evolves.induct)
  case (none d)
  then show ?case by (auto simp: same_lease_def)
next
  case (more d e op now)
  then obtain l' where l': "l' \<in> set (db_leases e)" "same_lease l l'" by blast
  have "schema_ok e" using more evolves_reachable schema_ok_reachable by blast
  then obtain m where "m \<in> set (db_leases (run_op now op e))" "same_lease l' m"
    using run_op_same_lease more.hyps(2) l'(1) by blast
  with l'(2) show ?case by (auto simp: same_lease_def intro!: bexI [of _ m])
qed

section \<open>Concrete histories\<close>

lemma demo_db_reachable: "reachable demo_db"
proof -
  have "reachable (run_op 1000 (ClaimTask ''00000001'' demo_task (demo_claim ''r1'' ''w1'')) empty_db)"
    by (rule reachable.step [OF reachable.start]) (simp add: has_key_def empty_db_def)
  then show ?thesis by (simp add: demo_db_def)
qed

lemma demo_grant:
  "grant_claim 1000 (new_lease_id ''00000001'') demo_task demo_payload (demo_claim ''r1'' ''w1'') empty_db = Inr demo_db"
proof -
  obtain l t where "claim_task 1000 ''00000001'' demo_task (demo_claim ''r1'' ''w1'') empty_db = (Inr (Claimed l t), demo_db)"
    using demo_claimed by blast
  then obtain p where "make_task_payload demo_task (ca_repo (demo_claim ''r1'' ''w1'')) = Inr p"
      "grant_claim 1000 (new_lease_id ''00000001'') demo_task p (demo_claim ''r1'' ''w1'') (claim_reap 1000 empty_db) = Inr demo_db"
    by (rule claim_task_grantedD)
  then show ?thesis by (simp add: demo_make_payload claim_reap_empty)
qed

lemma demo_db_leases:
  "db_leases demo_db = [claim_lease_row 1000 (new_lease_id ''00000001'') demo_task demo_payload (demo_claim ''r1'' ''w1'') 1]"
  using grant_claim_result(1) [OF _ demo_grant] by (simp add: has_key_def empty_db_def next_attempt_def)

lemma demo_db_workers:
  "db_workers demo_db = upsert_claim_worker 1000 (new_lease_id ''00000001'') (demo_claim ''r1'' ''w1'') []"
  using grant_claim_result(2) [OF _ demo_grant] by (simp add: has_key_def empty_db_def)

section \<open>Properties\<close>

text \<open>
C11. One owner per task. In every store the program can reach, a task has at most one active lease,
and that lease is the latest of the task's attempts, which are numbered 1, 2, 3, ... in the order in
which they were granted.
\<close>

theorem reachable_one_owner:
  assumes "reachable d" and "l \<in> set (db_leases d)" and "lease_active l"
  shows "filter (\<lambda>x. l_task_key x = l_task_key l \<and> lease_active x) (db_leases d) = [l] \<and>
    map l_attempt (leases_of (l_task_key l) (db_leases d)) =
      map int [1..<Suc (length (leases_of (l_task_key l) (db_leases d)))] \<and>
    l_attempt l = int (length (leases_of (l_task_key l) (db_leases d)))"
proof -
  have ok: "leases_ok (db_leases d)" using schema_ok_reachable [OF assms(1)] by (rule schema_okD)
  have "filter (\<lambda>x. l_task_key x = l_task_key l \<and> lease_active x) (db_leases d) = [l]"
  proof (rule filter_unique [where f = l_task_key])
    have "filter (\<lambda>x. l_task_key x = l_task_key l \<and> lease_active x) ls =
        filter (\<lambda>x. l_task_key x = l_task_key l) (active_leases ls)" for ls
      by (induction ls) (auto simp: active_leases_def)
    then show "distinct (map l_task_key (filter (\<lambda>x. l_task_key x = l_task_key l \<and> lease_active x) (db_leases d)))"
      using ok by (simp add: leases_ok_def unique_active_def distinct_map_filter)
  qed (use assms in simp_all)
  then show ?thesis
    using history_ok_reachable [OF assms(1)] assms(2,3) by (auto simp: history_ok_def simp del: upt_Suc)
qed

lemma reachable_one_owner_witness:
  "\<exists>l. filter (\<lambda>x. l_task_key x = demo_key \<and> lease_active x) (db_leases demo_db) = [l] \<and> l_attempt l = 1"
proof -
  let ?l = "claim_lease_row 1000 (new_lease_id ''00000001'') demo_task demo_payload (demo_claim ''r1'' ''w1'') 1"
  have "?l \<in> set (db_leases demo_db)" "lease_active ?l" "l_task_key ?l = demo_key" "l_attempt ?l = 1"
    by (simp_all add: demo_db_leases lease_active_def claim_lease_row_def demo_payload_def)
  with reachable_one_owner [OF demo_db_reachable, of ?l] show ?thesis by auto
qed

text \<open>
Leases are never revived or reassigned. Through any sequence of operations a lease stays in the
table with its task, worker, run and attempt, and once it is no longer active it never is again.
\<close>

theorem lease_never_revived:
  assumes "reachable d" and "evolves d e" and "l \<in> set (db_leases d)"
  shows "\<exists>l'. row_by l_lease_id (l_lease_id l) (db_leases e) = Some l' \<and> l_task_key l' = l_task_key l \<and>
    l_worker_id l' = l_worker_id l \<and> l_run_id l' = l_run_id l \<and> l_attempt l' = l_attempt l \<and>
    (\<not> lease_active l \<longrightarrow> \<not> lease_active l')"
proof -
  obtain l' where l': "l' \<in> set (db_leases e)" "same_lease l l'"
    using evolves_same_lease [OF assms(2,1,3)] by blast
  have "keys_ok l_lease_id (db_leases e)"
    using schema_ok_reachable [OF evolves_reachable [OF assms(2,1)]] by (rule schema_okD)
  with l' show ?thesis by (auto simp: row_by_eq_Some_iff same_lease_def)
qed

lemma lease_never_revived_witness:
  "\<exists>l'. row_by l_lease_id (new_lease_id ''00000001'') (db_leases (run_op 2000 ReapLeases demo_db)) = Some l'
     \<and> l_worker_id l' = ''w1''"
proof -
  let ?l = "claim_lease_row 1000 (new_lease_id ''00000001'') demo_task demo_payload (demo_claim ''r1'' ''w1'') 1"
  have "evolves demo_db (run_op 2000 ReapLeases demo_db)"
    by (rule evolves.more [OF evolves.none]) simp
  from lease_never_revived [OF demo_db_reachable this, of ?l] show ?thesis
    by (auto simp: demo_db_leases claim_lease_row_def demo_claim_def)
qed

end
