(* ===== verification/CoordOwnership.thy ===== *)
theory CoordOwnership imports CoordSystem begin

text \<open>
  What the operations on leases do to the owners of tasks: heartbeats, releases, the reaping of expired
  leases and of stale workers, and the transitions a worker or an operator asks for.
\<close>

section \<open>Lemmas\<close>

lemma row_by_upd_in:
  assumes "keys_ok key t" and "\<And>r. key (f r) = key r" and "row_by key i t = Some r" and "p r"
  shows "row_by key i (upd_where p f t) = Some (f r)"
  using row_by_upd_where [of key f i p t, OF assms(2)] assms(3,4) by simp

lemma lease_row_in: "schema_ok d \<Longrightarrow> row_by l_lease_id i (db_leases d) = Some l \<longleftrightarrow> l \<in> set (db_leases d) \<and> l_lease_id l = i"
  by (rule row_by_eq_Some_iff) (rule schema_okD)

lemma upd_where_key_only:
  assumes "keys_ok key t" and "row_by key i t = Some r" and "p r"
  shows "upd_where (\<lambda>x. key x = i \<and> p x) f t = upd_where (\<lambda>x. key x = i) f t"
  unfolding upd_where_def
proof (rule map_cong [OF refl])
  fix x assume x: "x \<in> set t"
  have "p x" if "key x = i"
    using that x assms(2,3) row_by_eq_Some_iff [OF assms(1), of i x] by simp
  then show "(if key x = i \<and> p x then f x else x) = (if key x = i then f x else x)" by simp
qed

lemma heartbeat_active:
  assumes "schema_ok d" and "row_by l_lease_id i (db_leases d) = Some l" and "lease_active l"
  shows "fst (heartbeat_lease now i s d) = Some (refresh_lease now (now + ttl_ms s) l)"
    and "db_leases (snd (heartbeat_lease now i s d)) =
      upd_where (\<lambda>x. l_lease_id x = i) (refresh_lease now (now + ttl_ms s)) (db_leases d)"
    and "db_tasks (snd (heartbeat_lease now i s d)) = upd_where (\<lambda>t. t_key t = l_task_key l)
      (\<lambda>t. t\<lparr>t_lease_expires_at := Some (now + ttl_ms s), t_updated_at := now\<rparr>) (db_tasks d)"
proof -
  have keys: "keys_ok l_lease_id (db_leases d)" using assms(1) by (rule schema_okD)
  show leases: "db_leases (snd (heartbeat_lease now i s d)) =
      upd_where (\<lambda>x. l_lease_id x = i) (refresh_lease now (now + ttl_ms s)) (db_leases d)"
    using assms(2,3) upd_where_key_only [OF keys assms(2), of lease_active]
    by (simp add: heartbeat_lease_def get_lease_def Let_def)
  have "fst (heartbeat_lease now i s d) = get_lease i (snd (heartbeat_lease now i s d))"
    using assms(2,3) by (simp add: heartbeat_lease_def get_lease_def Let_def)
  then show "fst (heartbeat_lease now i s d) = Some (refresh_lease now (now + ttl_ms s) l)"
    using assms(2) lease_row_in [OF assms(1)] by (auto simp: get_lease_def leases refresh.row_by_update)
  show "db_tasks (snd (heartbeat_lease now i s d)) = upd_where (\<lambda>t. t_key t = l_task_key l)
      (\<lambda>t. t\<lparr>t_lease_expires_at := Some (now + ttl_ms s), t_updated_at := now\<rparr>) (db_tasks d)"
    using assms(2,3) by (simp add: heartbeat_lease_def get_lease_def Let_def)
qed

text \<open>What a run of clearing updates does to one task.\<close>

definition reap_task :: "int \<Rightarrow> string \<Rightarrow> lease_row \<Rightarrow> task_row \<Rightarrow> task_row" where
  "reap_task now key row t =
     (if l_task_key row = key then set_task_state now ''stale'' ''stale'' (clear_claim_of (l_lease_id row) t) else t)"

lemma normalize_stale [simp]: "normalize_task_state ''stale'' = ''stale''"
  by code_simp

lemma reap_task_key [simp]: "t_key (reap_task now key row t) = t_key t"
  by (simp add: reap_task_def)

lemma row_by_fold_clear:
  "row_by t_key key (fold (\<lambda>row. clear_task_claim_for_lease (l_task_key row) (l_lease_id row) now ''stale'' (Some ''stale'')) rows ts) =
     map_option (fold (reap_task now key) rows) (row_by t_key key ts)"
proof (induction rows arbitrary: ts)
  case (Cons row rows)
  have "row_by t_key key (clear_task_claim_for_lease (l_task_key row) (l_lease_id row) now ''stale'' (Some ''stale'') ts) =
      map_option (reap_task now key row) (row_by t_key key ts)"
  proof (cases "l_task_key row = key")
    case True
    then show ?thesis
      by (auto simp: clear_task_claim_for_lease_def Let_def row_by_upd_key reap_task_def intro: option.map_cong0)
  next
    case False
    then have "reap_task now key row = (\<lambda>t. t)" by (auto simp: reap_task_def)
    with False show ?thesis
      by (simp add: clear_task_claim_for_lease_def Let_def row_by_upd_key option.map_ident)
  qed
  then show ?case by (simp add: Cons option.map_comp o_def)
qed (simp add: option.map_ident id_def)

lemma fold_reap_task_other: "key \<notin> l_task_key ` set rows \<Longrightarrow> fold (reap_task now key) rows t = t"
  by (induction rows arbitrary: t) (auto simp: reap_task_def)

lemma fold_reap_task_state:
  "t_state t = ''stale'' \<and> t_status t = ''stale'' \<Longrightarrow>
     t_state (fold (reap_task now key) rows t) = ''stale'' \<and> t_status (fold (reap_task now key) rows t) = ''stale''"
  by (induction rows arbitrary: t) (auto simp: reap_task_def set_task_state_def)

lemma fold_reap_task_stale:
  "key \<in> l_task_key ` set rows \<Longrightarrow>
     t_state (fold (reap_task now key) rows t) = ''stale'' \<and> t_status (fold (reap_task now key) rows t) = ''stale''"
proof (induction rows arbitrary: t)
  case (Cons row rows)
  show ?case
  proof (cases "l_task_key row = key")
    case True
    then have "t_state (reap_task now key row t) = ''stale'' \<and> t_status (reap_task now key row t) = ''stale''"
      by (simp add: reap_task_def set_task_state_def)
    then show ?thesis by (simp add: fold_reap_task_state)
  next
    case False
    with Cons show ?thesis by simp
  qed
qed simp

lemma fold_reap_task_claim:
  "t_claimed_lease_id (fold (reap_task now key) rows t) =
     (if \<exists>row\<in>set rows. l_task_key row = key \<and> t_claimed_lease_id t = Some (l_lease_id row) then None
      else t_claimed_lease_id t)"
proof (induction rows arbitrary: t)
  case (Cons row rows)
  have "t_claimed_lease_id (reap_task now key row t) =
      (if l_task_key row = key \<and> t_claimed_lease_id t = Some (l_lease_id row) then None else t_claimed_lease_id t)"
    by (simp add: reap_task_def set_task_state_def clear_claim_of_def)
  then show ?case unfolding fold_simps o_apply Cons by auto
qed simp

text \<open>Reaping a stale worker that holds a dead lease ends the lease.\<close>

lemma fold_reap_stale_inactive:
  assumes "row_by l_lease_id i (db_leases d) = Some l" and "\<not> lease_active l"
  shows "\<exists>l'. row_by l_lease_id i (db_leases (fold (reap_stale_worker_row now ms dead) rows d)) = Some l' \<and> \<not> lease_active l'"
  using assms
proof (induction rows arbitrary: d l)
  case (Cons row rows)
  obtain p where p: "db_leases (reap_stale_worker_row now ms dead row d) =
      upd_where p (stale_lease now ''worker stale'') (db_leases d)"
    using reap_stale_worker_row_leases by blast
  obtain l' where "row_by l_lease_id i (db_leases (reap_stale_worker_row now ms dead row d)) = Some l'" "\<not> lease_active l'"
    using stale.inactive_stays_inactive [OF Cons.prems] unfolding p by blast
  then show ?case using Cons.IH by simp
qed simp

lemma fold_reap_stale_reaps:
  assumes "row_by l_lease_id i (db_leases d) = Some l" and "w \<in> set rows" and "worker_lease_id w = i" and "i \<noteq> []"
    and "should_reap now ms dead w (Some l)"
  shows "\<exists>l'. row_by l_lease_id i (db_leases (fold (reap_stale_worker_row now ms dead) rows d)) = Some l' \<and> \<not> lease_active l'"
  using assms(1,2)
proof (induction rows arbitrary: d)
  case (Cons row rows)
  let ?d = "reap_stale_worker_row now ms dead row d"
  obtain p where p: "db_leases ?d = upd_where p (stale_lease now ''worker stale'') (db_leases d)"
    using reap_stale_worker_row_leases by blast
  have after: "row_by l_lease_id i (db_leases ?d) = Some (if p l then stale_lease now ''worker stale'' l else l)"
    unfolding p stale.row_by_update using Cons.prems(1) by simp
  show ?case
  proof (cases "lease_active (if p l then stale_lease now ''worker stale'' l else l) \<and> w \<noteq> row")
    case True
    then have "row_by l_lease_id i (db_leases ?d) = Some l"
      using after stale.ends by (auto split: if_splits)
    with True Cons show ?thesis by simp
  next
    case False
    have "\<exists>l'. row_by l_lease_id i (db_leases ?d) = Some l' \<and> \<not> lease_active l'"
    proof (cases "w = row")
      case True
      then have "worker_lease row (db_leases d) = Some l"
        using assms(3,4) Cons.prems(1) by (simp add: worker_lease_def)
      then have "db_leases ?d = upd_where (\<lambda>l. l_lease_id l = i) (stale_lease now ''worker stale'') (db_leases d)"
        using True assms(3,5)
        by (simp add: reap_stale_worker_row_def Let_def idle_worker_row_def reap_worker_lease_def)
      then show ?thesis
        using Cons.prems(1) by (simp add: row_by_upd_key stale.keeps_id stale.ends)
    next
      case w: False
      with False after show ?thesis by auto
    qed
    then show ?thesis using fold_reap_stale_inactive by auto
  qed
qed simp

text \<open>An operator's clearing of the claim.\<close>

lemma fold_idle_workers:
  "map_option w_current_lease_id (row_by w_worker_id k (fold (\<lambda>l. upd_where
       (\<lambda>w. w_worker_id w = l_worker_id l \<and> w_current_lease_id w = Some (l_lease_id l)) (idle_worker now)) rows ws)) =
   map_option (\<lambda>w. if \<exists>l\<in>set rows. k = l_worker_id l \<and> w_current_lease_id w = Some (l_lease_id l) then None
                   else w_current_lease_id w) (row_by w_worker_id k ws)"
proof (induction rows arbitrary: ws)
  case (Cons l rows)
  let ?p = "\<lambda>w. w_worker_id w = l_worker_id l \<and> w_current_lease_id w = Some (l_lease_id l)"
  have "row_by w_worker_id k (upd_where ?p (idle_worker now) ws) =
      map_option (\<lambda>w. if ?p w then idle_worker now w else w) (row_by w_worker_id k ws)"
    by (rule row_by_upd_where) simp
  then show ?case
    unfolding fold_simps o_apply Cons
    by (cases "row_by w_worker_id k ws") (auto simp: idle_worker_def dest: row_by_SomeD)
qed (simp add: option.map_comp o_def)

lemma demo_task_row: "\<exists>t. row_by t_key demo_key (db_tasks demo_db) = Some t"
  using grant_claim_result(3) [OF _ demo_grant] by (simp add: has_key_def empty_db_def demo_payload_def)

section \<open>Properties\<close>

text \<open>
A heartbeat answers with the lease exactly when the lease is active; it then runs one
TTL from now, its task shows that expiry, no other lease changes, and no reaping of expired leases
before then ends it. Otherwise the heartbeat answers None and the store is unchanged.
\<close>

theorem heartbeat_extends:
  assumes "schema_ok d"
  shows "(case row_by l_lease_id i (db_leases d) of
      None \<Rightarrow> heartbeat_lease now i s d = (None, d)
    | Some l \<Rightarrow> if \<not> lease_active l then heartbeat_lease now i s d = (None, d)
        else (let l' = l\<lparr>l_heartbeat_at := now, l_expires_at := now + ttl_ms s\<rparr>; d' = snd (heartbeat_lease now i s d) in
          fst (heartbeat_lease now i s d) = Some l' \<and>
          map_option t_lease_expires_at (row_by t_key (l_task_key l) (db_tasks d')) =
            map_option (\<lambda>_. Some (now + ttl_ms s)) (row_by t_key (l_task_key l) (db_tasks d)) \<and>
          (\<forall>j. j \<noteq> i \<longrightarrow> row_by l_lease_id j (db_leases d') = row_by l_lease_id j (db_leases d)) \<and>
          (\<forall>now2. now2 < now + ttl_ms s \<longrightarrow> l' \<in> set (db_leases (snd (reap_expired_leases now2 d'))))))"
proof (cases "row_by l_lease_id i (db_leases d)")
  case None
  then show ?thesis by (simp add: heartbeat_lease_def get_lease_def)
next
  case (Some l)
  show ?thesis
  proof (cases "lease_active l")
    case False
    with Some show ?thesis by (simp add: heartbeat_lease_def get_lease_def)
  next
    case True
    let ?l = "refresh_lease now (now + ttl_ms s) l" and ?d = "snd (heartbeat_lease now i s d)"
    note hb = heartbeat_active [OF assms Some True, of now s]
    have l: "l \<in> set (db_leases d)" "l_lease_id l = i" using Some lease_row_in [OF assms] by auto
    have "?l \<in> set (db_leases ?d)" unfolding hb(2) set_upd_where using l by (auto intro!: image_eqI [of _ _ l])
    moreover have "keys_ok l_lease_id (db_leases ?d)"
      using schema_ok_heartbeat_lease [OF assms] by (rule schema_okD)
    ultimately have "?l \<in> set (db_leases (snd (reap_expired_leases now2 ?d)))" if "now2 < now + ttl_ms s" for now2
      using that by (auto simp: reap_expired_leases_eq lease_expired_def refresh_lease_def intro!: reap_expired_spares)
    moreover have "row_by l_lease_id j (db_leases ?d) = row_by l_lease_id j (db_leases d)" if "j \<noteq> i" for j
      unfolding hb(2) using that by (simp add: row_by_upd_key refresh.keeps_id)
    ultimately show ?thesis
      using Some True hb(1,3) by (simp add: Let_def refresh_lease_def row_by_upd_key option.map_comp o_def)
  qed
qed

lemma heartbeat_extends_witness:
  "\<exists>l. fst (heartbeat_lease 2000 (new_lease_id ''00000001'') 30 demo_db) = Some l \<and>
     l_expires_at l = 32000 \<and> l \<in> set (db_leases (snd (reap_expired_leases 31999
       (snd (heartbeat_lease 2000 (new_lease_id ''00000001'') 30 demo_db)))))"
proof -
  let ?l = "claim_lease_row 1000 (new_lease_id ''00000001'') demo_task demo_payload (demo_claim ''r1'' ''w1'') 1"
  have row: "row_by l_lease_id (new_lease_id ''00000001'') (db_leases demo_db) = Some ?l" and act: "lease_active ?l"
    by (simp_all add: demo_db_leases claim_lease_row_def lease_active_def)
  have ttl: "ttl_ms 30 = 30000" by (simp add: ttl_ms_def int_or_def)
  show ?thesis
    using heartbeat_extends [OF schema_ok_demo, where i = "new_lease_id ''00000001''" and now = 2000 and s = 30]
    unfolding row by (auto simp: act Let_def ttl)
qed

text \<open>
Reaping expired leases. The leases reported are exactly the active ones whose expiry has passed;
afterwards each of them is stale with reason \<open>expired\<close>, every other lease is untouched, and none is
expired. A task with such a lease becomes stale whatever its state was, and loses its claim if the
claim names one of them; a task without is untouched.
\<close>

theorem reap_expired_effect:
  assumes "schema_ok d"
  shows "fst (reap_expired_leases now d) = filter (lease_expired now) (db_leases d) \<and>
    (\<forall>i. row_by l_lease_id i (db_leases (snd (reap_expired_leases now d))) =
      map_option (\<lambda>l. if lease_expired now l then stale_lease now ''expired'' l else l) (row_by l_lease_id i (db_leases d))) \<and>
    (\<forall>l\<in>set (db_leases (snd (reap_expired_leases now d))). \<not> lease_expired now l) \<and>
    (\<forall>key t. row_by t_key key (db_tasks d) = Some t \<longrightarrow>
      (\<exists>t'. row_by t_key key (db_tasks (snd (reap_expired_leases now d))) = Some t' \<and>
        (if \<exists>l\<in>set (db_leases d). lease_expired now l \<and> l_task_key l = key
         then t_state t' = ''stale'' \<and> t_status t' = ''stale'' \<and>
           ((\<exists>l\<in>set (db_leases d). lease_expired now l \<and> l_task_key l = key \<and> t_claimed_lease_id t = Some (l_lease_id l)) \<longrightarrow>
              t_claimed_lease_id t' = None)
         else t' = t)))"
proof -
  let ?rows = "filter (lease_expired now) (db_leases d)" and ?d = "snd (reap_expired_leases now d)"
  have keys: "keys_ok l_lease_id (db_leases d)" using assms by (rule schema_okD)
  have leases: "db_leases ?d = upd_where (lease_expired now) (stale_lease now ''expired'') (db_leases d)"
    by (simp add: reap_expired_leases_eq reap_locked_leases [OF keys])
  have tasks: "row_by t_key key (db_tasks ?d) = map_option (fold (reap_task now key) ?rows) (row_by t_key key (db_tasks d))" for key
    by (simp add: reap_expired_leases_eq reap_expired_leases_locked_def db_tasks_fold_reap row_by_fold_clear)
  have none: "\<not> lease_expired now l" if "l \<in> set (db_leases ?d)" for l
    using that stale.ends by (auto simp: leases set_upd_where lease_expired_def split: if_splits)
  have task: "\<exists>t'. row_by t_key key (db_tasks ?d) = Some t' \<and>
        (if \<exists>l\<in>set (db_leases d). lease_expired now l \<and> l_task_key l = key
         then t_state t' = ''stale'' \<and> t_status t' = ''stale'' \<and>
           ((\<exists>l\<in>set (db_leases d). lease_expired now l \<and> l_task_key l = key \<and> t_claimed_lease_id t = Some (l_lease_id l)) \<longrightarrow>
              t_claimed_lease_id t' = None)
         else t' = t)" if "row_by t_key key (db_tasks d) = Some t" for key t
  proof (cases "\<exists>l\<in>set (db_leases d). lease_expired now l \<and> l_task_key l = key")
    case True
    then have "key \<in> l_task_key ` set ?rows" by auto
    note st = fold_reap_task_stale [OF this, of now t]
    have claim: "t_claimed_lease_id (fold (reap_task now key) ?rows t) = None"
      if "\<exists>l\<in>set (db_leases d). lease_expired now l \<and> l_task_key l = key \<and> t_claimed_lease_id t = Some (l_lease_id l)"
      using that by (auto simp: fold_reap_task_claim)
    have "row_by t_key key (db_tasks ?d) = Some (fold (reap_task now key) ?rows t)"
      using that by (simp add: tasks)
    with True st claim show ?thesis by auto
  next
    case False
    then have "key \<notin> l_task_key ` set ?rows" by auto
    with False that show ?thesis unfolding tasks by (auto simp: fold_reap_task_other)
  qed
  have "row_by l_lease_id i (db_leases ?d) =
      map_option (\<lambda>l. if lease_expired now l then stale_lease now ''expired'' l else l) (row_by l_lease_id i (db_leases d))" for i
    unfolding leases by (rule stale.row_by_update)
  with none task show ?thesis by (simp add: reap_expired_leases_eq)
qed

lemma reap_expired_effect_witness:
  "length (fst (reap_expired_leases 90000 demo_db)) = 1 \<and>
   filter (lease_expired 90000) (db_leases (snd (reap_expired_leases 90000 demo_db))) = []"
proof -
  have "length (filter (lease_expired 90000) (db_leases demo_db)) = 1"
    by (simp add: demo_db_leases lease_expired_def lease_active_def claim_lease_row_def demo_claim_def
        ttl_ms_def int_or_def)
  with reap_expired_effect [OF schema_ok_demo, of 90000] show ?thesis by (simp add: filter_empty_conv)
qed

text \<open>
Reaping stale workers. A lease is left as it is when it beats within the stale interval and no
stale worker row that points to it sits on a dead host. A lease is ended when some stale worker row
points to it and holds it, and the lease itself stopped beating or the worker's host is dead.
\<close>

theorem stale_worker_reaping:
  assumes "schema_ok d" and "l \<in> set (db_leases d)" and "l_lease_id l \<noteq> []"
  shows "let ms = stale_ms s;
      dead = dead_hosts (order_asc w_last_seen_at (filter (worker_stale now ms) (db_workers d))) (db_workers d) in
    ((l_heartbeat_at l > now - ms \<and>
       (\<forall>w\<in>set (db_workers d). worker_stale now ms w \<and> worker_lease_id w = l_lease_id l \<longrightarrow>
          strip (w_host_id w) \<notin> set dead)) \<longrightarrow>
      l \<in> set (db_leases (snd (reap_stale_workers now s d)))) \<and>
    ((\<exists>w\<in>set (db_workers d). worker_stale now ms w \<and> worker_lease_id w = l_lease_id l \<and> lease_held w (Some l) \<and>
       (l_heartbeat_at l \<le> now - ms \<or> strip (w_host_id w) \<in> set dead)) \<longrightarrow>
      (\<exists>l'. row_by l_lease_id (l_lease_id l) (db_leases (snd (reap_stale_workers now s d))) = Some l' \<and>
         \<not> lease_active l'))"
proof -
  define ms where "ms = stale_ms s"
  define dead where "dead = dead_hosts (order_asc w_last_seen_at (filter (worker_stale now ms) (db_workers d))) (db_workers d)"
  let ?rows = "order_asc w_last_seen_at (filter (worker_stale now ms) (db_workers d))"
  have d': "snd (reap_stale_workers now s d) = fold (reap_stale_worker_row now ms dead) ?rows d"
    by (simp add: reap_stale_workers_def Let_def reap_stale_rows_db ms_def dead_def)
  have row: "row_by l_lease_id (l_lease_id l) (db_leases d) = Some l"
    using lease_row_in [OF assms(1)] assms(2) by simp
  have "l \<in> set (db_leases (fold (reap_stale_worker_row now ms dead) ?rows d))"
    if "l_heartbeat_at l > now - ms" and "\<forall>w\<in>set (db_workers d). worker_stale now ms w \<and>
      worker_lease_id w = l_lease_id l \<longrightarrow> strip (w_host_id w) \<notin> set dead"
    using that assms(1,2) by (intro fold_reap_stale_spares) (auto simp: should_reap_def schema_okD)
  moreover have "\<exists>l'. row_by l_lease_id (l_lease_id l) (db_leases (fold (reap_stale_worker_row now ms dead) ?rows d)) = Some l' \<and>
      \<not> lease_active l'"
    if "w \<in> set (db_workers d)" "worker_stale now ms w" "worker_lease_id w = l_lease_id l" "lease_held w (Some l)"
      "l_heartbeat_at l \<le> now - ms \<or> strip (w_host_id w) \<in> set dead" for w
    using that assms(3) by (intro fold_reap_stale_reaps [OF row, of w]) (auto simp: should_reap_def)
  ultimately show ?thesis unfolding Let_def ms_def [symmetric] dead_def [symmetric] d' by blast
qed

lemma demo_lease_beat:
  "l \<in> set (db_leases demo_db) \<Longrightarrow> l_heartbeat_at l = 1000 \<and> l_lease_id l = new_lease_id ''00000001'' \<and> lease_active l
     \<and> l_task_key l = demo_key \<and> l_worker_id l = ''w1''"
  by (simp add: demo_db_leases claim_lease_row_def lease_active_def demo_payload_def demo_claim_def)

lemma stale_worker_reaping_witness:
  "\<exists>l'. row_by l_lease_id (new_lease_id ''00000001'') (db_leases (snd (reap_stale_workers 200000 90 demo_db))) = Some l' \<and>
     \<not> lease_active l'"
proof -
  let ?l = "claim_lease_row 1000 (new_lease_id ''00000001'') demo_task demo_payload (demo_claim ''r1'' ''w1'') 1"
  have l: "?l \<in> set (db_leases demo_db)" "l_lease_id ?l \<noteq> []" "l_lease_id ?l = new_lease_id ''00000001''"
    by (simp_all add: demo_db_leases new_lease_id_def claim_lease_row_def)
  have strip: "strip (new_lease_id ''00000001'') = new_lease_id ''00000001''" "lower (strip ''active'') = ''active''"
    by code_simp+
  obtain w where "db_workers demo_db = [w]" "w_current_lease_id w = Some (l_lease_id ?l)"
      "w_last_seen_at w = 1000" "w_worker_id w = l_worker_id ?l"
    by (simp add: demo_db_workers upsert_claim_worker_def upsert_def has_key_def claim_lease_row_def)
  then have w: "w \<in> set (db_workers demo_db)" "worker_stale 200000 (stale_ms 90) w" "worker_lease_id w = l_lease_id ?l"
      "lease_held w (Some ?l)" "l_heartbeat_at ?l \<le> 200000 - stale_ms 90"
    by (simp_all add: worker_stale_def worker_leased_def stale_ms_def int_or_def worker_lease_id_def lease_held_def
        strip claim_lease_row_def)
  from stale_worker_reaping [OF schema_ok_demo l(1,2), where s = 90 and now = 200000] w l(3)
  show ?thesis unfolding Let_def by metis
qed

lemma released_store:
  assumes "schema_ok d" and "row_by l_lease_id i (db_leases d) = Some l" and "lease_active l"
  shows "snd (release_lease now i status reason d) = d\<lparr>
    db_leases := upd_where (\<lambda>x. l_lease_id x = i) (end_lease now status reason) (db_leases d),
    db_tasks := upd_where (\<lambda>t. t_key t = l_task_key l)
      (\<lambda>t. set_task_state now (task_state_from_lease_status status) (task_state_from_lease_status status) (clear_claim_of i t))
      (db_tasks d),
    db_workers := upd_where (\<lambda>w. w_worker_id w = l_worker_id l)
      (\<lambda>w. w\<lparr>w_status := released_worker_status status, w_current_lease_id := None, w_current_run_id := None,
             w_updated_at := now\<rparr>) (db_workers d)\<rparr>"
  using assms(2,3) upd_where_key_only [OF schema_okD(5) [OF assms(1)] assms(2), of lease_active]
  by (simp add: release_lease_def get_lease_def Let_def)

lemma ended_lease_none_active:
  assumes "schema_ok d" and "row_by l_lease_id i (db_leases d) = Some l" and "lease_active l" and "status \<noteq> active"
    and "x \<in> set (upd_where (\<lambda>x. l_lease_id x = i) (end_lease now status reason) (db_leases d))"
    and "l_task_key x = l_task_key l"
  shows "\<not> lease_active x"
proof -
  have lid: "l \<in> set (db_leases d)" "l_lease_id l = i" using assms(2) lease_row_in [OF assms(1)] by auto
  have "y = l" if "y \<in> set (db_leases d)" "lease_active y" "l_task_key y = l_task_key l" for y
    using that lid(1) assms(3) unique_active_iff [OF schema_okD(5) [OF assms(1)]] schema_okD(4) [OF assms(1)]
    by (auto simp: leases_ok_def)
  with assms(4-6) lid show ?thesis
    unfolding set_upd_where by (auto simp: end_lease_active_iff split: if_splits)
qed

text \<open>
Releasing an active lease with a final status ends it with that status and
reason, so that its task has no active lease; the task takes the state the status stands for, and
drops its claim if the claim names the lease. Releasing it again changes nothing.
\<close>

theorem release_effect:
  assumes "reachable d" and "row_by l_lease_id i (db_leases d) = Some l" and "lease_active l" and "status \<noteq> active"
  shows "(let (got, d') = release_lease now i status reason d in
    got = Some (l\<lparr>l_status := status, l_released_at := Some now, l_release_reason := reason\<rparr>) \<and>
    (\<forall>x\<in>set (db_leases d'). l_task_key x = l_task_key l \<longrightarrow> \<not> lease_active x) \<and>
    (\<forall>t. row_by t_key (l_task_key l) (db_tasks d) = Some t \<longrightarrow>
       (\<exists>t'. row_by t_key (l_task_key l) (db_tasks d') = Some t' \<and> t_state t' = task_state_from_lease_status status \<and>
          t_claimed_lease_id t' = (if t_claimed_lease_id t = Some i then None else t_claimed_lease_id t))) \<and>
    release_lease now2 i status2 reason2 d' = (got, d'))"
proof -
  define d2 where "d2 = snd (release_lease now i status reason d)"
  have ok: "schema_ok d" using assms(1) by (rule schema_ok_reachable)
  note d2 = released_store [OF ok assms(2,3), of now status reason, folded d2_def]
  have row: "row_by l_lease_id i (db_leases d2) = Some (end_lease now status reason l)"
    unfolding d2 using assms(2) by (simp add: row_by_upd_key end_lease_def)
  have got: "release_lease now i status reason d = (Some (end_lease now status reason l), d2)"
    using assms(2,3) row by (simp add: d2_def release_lease_def get_lease_def Let_def)
  have none: "\<not> lease_active x" if "x \<in> set (db_leases d2)" "l_task_key x = l_task_key l" for x
    using ended_lease_none_active [OF ok assms(2-4)] that by (simp add: d2)
  have task: "\<exists>t'. row_by t_key (l_task_key l) (db_tasks d2) = Some t' \<and> t_state t' = task_state_from_lease_status status \<and>
      t_claimed_lease_id t' = (if t_claimed_lease_id t = Some i then None else t_claimed_lease_id t)"
    if "row_by t_key (l_task_key l) (db_tasks d) = Some t" for t
    using that by (simp add: d2 row_by_upd_key set_task_state_def clear_claim_of_def)
  have again: "release_lease now2 i status2 reason2 d2 = (Some (end_lease now status reason l), d2)"
    using row assms(4) by (simp add: release_lease_def get_lease_def end_lease_active_iff)
  show ?thesis
    unfolding got Let_def prod.case using none task again by (auto simp: end_lease_def)
qed

lemma release_effect_witness:
  "\<exists>l. row_by l_lease_id (new_lease_id ''00000001'') (db_leases demo_db) = Some l \<and>
     (let (got, d') = release_lease 3000 (new_lease_id ''00000001'') ''completed'' None demo_db
      in release_lease 4000 (new_lease_id ''00000001'') ''failed'' None d' = (got, d'))"
proof -
  let ?l = "claim_lease_row 1000 (new_lease_id ''00000001'') demo_task demo_payload (demo_claim ''r1'' ''w1'') 1"
  have row: "row_by l_lease_id (new_lease_id ''00000001'') (db_leases demo_db) = Some ?l" and act: "lease_active ?l"
    by (simp_all add: demo_db_leases claim_lease_row_def lease_active_def)
  have final: "''completed'' \<noteq> active" by simp
  show ?thesis
    using release_effect [OF demo_db_reachable row act final, of 3000 None 4000 "''failed''" None] row
    by (auto simp: Let_def split: prod.splits)
qed

text \<open>
An operator's reset. A transition with \<open>clear_claim\<close> leaves the task unclaimed in the requested
state with no active lease, takes the ended leases from the workers that were on them, and touches no
lease and no row of another task.
\<close>

theorem clear_claim_resets:
  assumes "schema_ok d" and "row_by t_key key (db_tasks d) = Some t" and "ta_clear_claim a"
  shows "(let d' = snd (transition_task_state now key state a d) in
    (\<forall>l\<in>set (db_leases d'). l_task_key l = key \<longrightarrow> \<not> lease_active l) \<and>
    (\<exists>t'. row_by t_key key (db_tasks d') = Some t' \<and> t_state t' = normalize_task_state state \<and>
       t_claimed_lease_id t' = None \<and> t_claimed_by t' = None \<and> t_claimed_run_id t' = None \<and>
       t_lease_expires_at t' = None) \<and>
    (\<forall>l w. l \<in> set (db_leases d) \<longrightarrow> l_task_key l = key \<longrightarrow> lease_active l \<longrightarrow>
       row_by w_worker_id (l_worker_id l) (db_workers d') = Some w \<longrightarrow> w_current_lease_id w \<noteq> Some (l_lease_id l)) \<and>
    (\<forall>l\<in>set (db_leases d). l_task_key l \<noteq> key \<longrightarrow> l \<in> set (db_leases d')) \<and>
    (\<forall>k. k \<noteq> key \<longrightarrow> row_by t_key k (db_tasks d') = row_by t_key k (db_tasks d)))"
proof -
  let ?d1 = "transitioned key state now a t d"
  let ?d3 = "clear_claim_leases now key (ta_reason a) ?d1"
  let ?d = "snd (transition_task_state now key state a d)"
  let ?rows = "filter (\<lambda>l. l_task_key l = key \<and> lease_active l) (db_leases d)"
  have eq: "?d = ?d3\<lparr>db_tasks := upd_where (\<lambda>t. t_key t = key) (release_claim now) (db_tasks ?d3)\<rparr>"
    using assms(2,3) by (simp add: transition_task_state_def apply_task_state_eq Let_def)
  have tasks3: "db_tasks (clear_claim_leases now key r e) = db_tasks e" for r e
    by (simp add: clear_claim_leases_def Let_def)
  have leases: "db_leases ?d = upd_where (\<lambda>l. l_task_key l = key \<and> lease_active l)
      (stale_lease now (first_nonempty [text_arg (ta_reason a), ''operator cleared task claim''])) (db_leases d)"
    unfolding eq by (auto simp: clear_claim_leases_def transitioned_def Let_def filter_empty_conv intro!: upd_where_none [symmetric])
  have workers: "db_workers ?d = fold (\<lambda>l. upd_where
       (\<lambda>w. w_worker_id w = l_worker_id l \<and> w_current_lease_id w = Some (l_lease_id l)) (idle_worker now)) ?rows (db_workers d)"
    unfolding eq by (simp add: clear_claim_leases_def transitioned_def Let_def)
  have task: "row_by t_key key (db_tasks ?d) = Some (release_claim now
      (transition_row now state a (transition_metadata a (t_metadata t)) t))"
    unfolding eq using assms(2) by (simp add: tasks3 transitioned_def row_by_upd_key)
  have "row_by t_key k (db_tasks ?d) = row_by t_key k (db_tasks d)" if "k \<noteq> key" for k
    unfolding eq using that by (simp add: tasks3 transitioned_def row_by_upd_key)
  moreover have "\<not> lease_active l" if "l \<in> set (db_leases ?d)" "l_task_key l = key" for l
    using that stale.ends unfolding leases set_upd_where by (auto split: if_splits)
  moreover have "l \<in> set (db_leases ?d)" if "l \<in> set (db_leases d)" "l_task_key l \<noteq> key" for l
    using that unfolding leases set_upd_where by (auto intro!: image_eqI [of _ _ l])
  moreover have "w_current_lease_id w \<noteq> Some (l_lease_id l)"
    if "l \<in> set (db_leases d)" "l_task_key l = key" "lease_active l"
      "row_by w_worker_id (l_worker_id l) (db_workers ?d) = Some w" for l w
    using fold_idle_workers [of "l_worker_id l" now ?rows "db_workers d"] that unfolding workers
    by (cases "row_by w_worker_id (l_worker_id l) (db_workers d)") (auto split: if_splits)
  ultimately show ?thesis
    using task by (auto simp: Let_def release_claim_def transition_row_def)
qed

lemma clear_claim_resets_witness:
  "\<exists>t. row_by t_key demo_key (db_tasks demo_db) = Some t \<and>
     (\<forall>l\<in>set (db_leases (snd (transition_task_state 5000 demo_key ''queued'' (no_args\<lparr>ta_clear_claim := True\<rparr>) demo_db))).
        l_task_key l = demo_key \<longrightarrow> \<not> lease_active l)"
proof -
  obtain t where t: "row_by t_key demo_key (db_tasks demo_db) = Some t"
    using demo_task_row by blast
  have "ta_clear_claim (no_args\<lparr>ta_clear_claim := True\<rparr>)" by simp
  from clear_claim_resets [OF schema_ok_demo t this, of 5000 "''queued''"] t show ?thesis
    by (auto simp: Let_def)
qed

text \<open>
Transitions are not fenced: \<open>mark_task_done\<close> looks at no lease: a worker that names a lease other
than the task's active one still moves the task to \<open>done\<close> and writes its own lease, run and identity
into the claim columns, while the active lease stays with its owner.
\<close>

theorem done_is_not_fenced:
  assumes "row_by t_key key (db_tasks d) = Some t" and "l \<in> set (db_leases d)" and "l_task_key l = key"
    and "lease_active l" and "l_lease_id l \<noteq> i"
  shows "(let d' = snd (mark_task_done now key run (Some i) (Some worker) host reason d) in
    \<exists>t'. row_by t_key key (db_tasks d') = Some t' \<and> t_state t' = ''done'' \<and>
      t_claimed_lease_id t' = Some i \<and> t_claimed_by t' = Some worker \<and>
      l \<in> set (db_leases d') \<and> t_claimed_lease_id t' \<noteq> Some (l_lease_id l))"
proof -
  have "normalize_task_state ''done'' = ''done''" by code_simp
  with assms show ?thesis
    by (simp add: mark_task_done_def transition_task_state_def apply_task_state_eq transitioned_def Let_def
        owner_args_def no_args_def row_by_upd_key transition_row_def coalesce_def)
qed

lemma done_is_not_fenced_witness:
  "\<exists>t t'. row_by t_key demo_key (db_tasks demo_db) = Some t \<and>
     row_by t_key demo_key (db_tasks (snd (mark_task_done 2000 demo_key ''r0'' (Some ''old'') (Some ''w0'') None None demo_db))) = Some t' \<and>
     t_claimed_by t' = Some ''w0''"
proof -
  obtain t where t: "row_by t_key demo_key (db_tasks demo_db) = Some t"
    using demo_task_row by blast
  let ?l = "claim_lease_row 1000 (new_lease_id ''00000001'') demo_task demo_payload (demo_claim ''r1'' ''w1'') 1"
  have l: "?l \<in> set (db_leases demo_db)" by (simp add: demo_db_leases)
  note f = demo_lease_beat [OF l]
  have ne: "l_lease_id ?l \<noteq> ''old''" by (simp add: new_lease_id_def)
  show ?thesis
    using done_is_not_fenced [OF t l _ _ ne, where now = 2000 and run = "''r0''" and worker = "''w0''" and host = None and reason = None] f t
    by (auto simp: Let_def)
qed

end
