(* ===== verification/CoordRefinement.thy ===== *)
theory CoordRefinement imports CoordOwnership begin

text \<open>
  What the store promises its workers, without its tables: a lock per task. The lock of a task is free or
  held by an owner, an owner ends or is prolonged, and a claim takes a free lock with a larger attempt.
  The tables implement this lock: every operation of the store is a step of it.
\<close>

section \<open>The lock\<close>

record owner =
  ow_lease :: string
  ow_worker :: string
  ow_run :: string
  ow_attempt :: int
  ow_expires :: int

type_synonym lock = "string \<Rightarrow> owner option"

definition held_by :: "(owner \<Rightarrow> bool) \<Rightarrow> lock \<Rightarrow> lock" where
  "held_by p s key = (case s key of Some w \<Rightarrow> if p w then Some w else None | None \<Rightarrow> None)"

definition prolong :: "string \<Rightarrow> int \<Rightarrow> lock \<Rightarrow> lock" where
  "prolong lease expires s key =
     map_option (\<lambda>w. if ow_lease w = lease then w\<lparr>ow_expires := expires\<rparr> else w) (s key)"

text \<open>The operations that can change an owner.\<close>

fun owner_op :: "store_op \<Rightarrow> bool" where
  "owner_op (HeartbeatLease i ttl) = True"
| "owner_op (ReleaseLease i status reason) = True"
| "owner_op ReapLeases = True"
| "owner_op (ReapWorkers s) = True"
| "owner_op (Transition key state a) = True"
| "owner_op (ClaimTask token task a) = True"
| "owner_op op = False"

inductive lock_step :: "int \<Rightarrow> store_op \<Rightarrow> lock \<Rightarrow> lock \<Rightarrow> bool" where
  beat: "lock_step now (HeartbeatLease i ttl) s (prolong i (now + ttl_ms ttl) s)"
| release: "lock_step now (ReleaseLease i status reason) s (held_by (\<lambda>w. ow_lease w \<noteq> i) s)"
| expire: "lock_step now ReapLeases s (held_by (\<lambda>w. ow_expires w > now) s)"
| dead: "s' \<subseteq>\<^sub>m s \<Longrightarrow> lock_step now (ReapWorkers seconds) s s'"
| moved: "lock_step now (Transition key state a) s s"
| reset: "ta_clear_claim a \<Longrightarrow> lock_step now (Transition key state a) s (s(key := None))"
| refused: "lock_step now (ClaimTask token task a) s s"
| granted: "make_task_payload task (ca_repo a) = Inr p \<Longrightarrow> s1 \<subseteq>\<^sub>m held_by (\<lambda>w. ow_expires w > now) s \<Longrightarrow>
    s1 (tp_task_key p) = None \<Longrightarrow>
    w = \<lparr>ow_lease = new_lease_id token, ow_worker = ca_worker_id a, ow_run = ca_run_id a, ow_attempt = n,
         ow_expires = now + ttl_ms (ca_ttl_seconds a)\<rparr> \<Longrightarrow>
    (\<And>w0. s (tp_task_key p) = Some w0 \<Longrightarrow> ow_attempt w0 < n) \<Longrightarrow>
    lock_step now (ClaimTask token task a) s (s1(tp_task_key p \<mapsto> w))"
| other: "\<not> owner_op op \<Longrightarrow> lock_step now op s s"

section \<open>The lock in the tables\<close>

definition owner_of :: "lease_row \<Rightarrow> owner" where
  "owner_of l = \<lparr>ow_lease = l_lease_id l, ow_worker = l_worker_id l, ow_run = l_run_id l, ow_attempt = l_attempt l,
     ow_expires = l_expires_at l\<rparr>"

definition holder :: "string \<Rightarrow> lease_row list \<Rightarrow> lease_row option" where
  "holder key ls = find (\<lambda>l. l_task_key l = key \<and> lease_active l) ls"

definition lock_in :: "lease_row list \<Rightarrow> lock" where
  "lock_in ls key = map_option owner_of (holder key ls)"

definition lock_of :: "db \<Rightarrow> lock" where
  "lock_of d = lock_in (db_leases d)"

section \<open>Lemmas\<close>

lemma find_holds: "find P xs = Some x \<Longrightarrow> x \<in> set xs \<and> P x"
  by (induction xs) (auto split: if_splits)

lemma find_only:
  assumes "x \<in> set xs" "P x" "\<forall>y\<in>set xs. P y \<longrightarrow> y = x"
  shows "find P xs = Some x"
proof (cases "find P xs")
  case None
  then show ?thesis using assms(1,2) by (simp add: find_None_iff)
next
  case (Some y)
  then show ?thesis using find_holds [OF Some] assms(3) by blast
qed

lemma holder_Some:
  assumes "leases_ok ls"
  shows "holder key ls = Some l \<longleftrightarrow> l \<in> set ls \<and> l_task_key l = key \<and> lease_active l"
proof
  assume "holder key ls = Some l"
  then show "l \<in> set ls \<and> l_task_key l = key \<and> lease_active l"
    by (auto simp: holder_def dest: find_holds)
next
  assume l: "l \<in> set ls \<and> l_task_key l = key \<and> lease_active l"
  have "keys_ok l_lease_id ls" "unique_active ls" using assms by (simp_all add: leases_ok_def)
  then have "\<forall>a\<in>set ls. \<forall>b\<in>set ls. lease_active a \<and> lease_active b \<and> l_task_key a = l_task_key b \<longrightarrow> a = b"
    using unique_active_iff by blast
  with l show "holder key ls = Some l" unfolding holder_def by (intro find_only) auto
qed

lemma holder_None: "holder key ls = None \<longleftrightarrow> (\<forall>l\<in>set ls. l_task_key l = key \<longrightarrow> \<not> lease_active l)"
  by (auto simp: holder_def find_None_iff)

text \<open>Updates of the leases, in the lock.\<close>

lemma leases_ok_map: "leases_ok ls \<Longrightarrow> lease_update f \<Longrightarrow> leases_ok (map f ls)"
  using lease_update.leases_ok_update [of f ls "\<lambda>_. True"] by (simp add: upd_where_def)

lemma holder_map:
  assumes "leases_ok ls" and "lease_update f"
  shows "holder key (map f ls) =
    (case holder key ls of Some l \<Rightarrow> if lease_active (f l) then Some (f l) else None | None \<Rightarrow> None)"
proof -
  note u = lease_update.keeps_task [OF assms(2)] lease_update.never_activates [OF assms(2)]
  note ok = leases_ok_map [OF assms]
  show ?thesis
  proof (cases "holder key ls")
    case None
    then have "holder key (map f ls) = None" using u by (auto simp: holder_None)
    with None show ?thesis by simp
  next
    case (Some l)
    then have l: "l \<in> set ls" "l_task_key l = key" "lease_active l" by (simp_all add: holder_Some [OF assms(1)])
    show ?thesis
    proof (cases "lease_active (f l)")
      case True
      then have "holder key (map f ls) = Some (f l)" using l u by (simp add: holder_Some [OF ok])
      with True Some show ?thesis by simp
    next
      case False
      have "\<not> lease_active (f x)" if x: "x \<in> set ls" "l_task_key x = key" for x
      proof
        assume act: "lease_active (f x)"
        then have "holder key ls = Some x" using x u by (simp add: holder_Some [OF assms(1)])
        with Some False act show False by simp
      qed
      then have "holder key (map f ls) = None" using u by (auto simp: holder_None)
      with Some False show ?thesis by simp
    qed
  qed
qed

lemma lock_map:
  assumes "leases_ok ls" and "lease_update f"
  shows "lock_in (map f ls) key =
    (case holder key ls of Some l \<Rightarrow> if lease_active (f l) then Some (owner_of (f l)) else None | None \<Rightarrow> None)"
  by (simp add: lock_in_def holder_map [OF assms] split: option.split)

lemma lock_upd:
  assumes "leases_ok ls" and "lease_update f"
  shows "lock_in (upd_where p f ls) key =
    (case holder key ls of
       Some l \<Rightarrow> if p l then if lease_active (f l) then Some (owner_of (f l)) else None else Some (owner_of l)
     | None \<Rightarrow> None)"
proof (cases "holder key ls")
  case (Some l)
  then have "lease_active l" by (simp add: holder_Some [OF assms(1)])
  with Some show ?thesis unfolding upd_where_def lock_map [OF assms(1) lease_update_if [OF assms(2)]] by simp
qed (simp add: upd_where_def lock_map [OF assms(1) lease_update_if [OF assms(2)]])

lemma lock_updI:
  assumes "leases_ok ls" and "lease_update f"
    and "\<And>l. l \<in> set ls \<Longrightarrow> lease_active l \<Longrightarrow> g (owner_of l) =
      (if p l then if lease_active (f l) then Some (owner_of (f l)) else None else Some (owner_of l))"
  shows "lock_in (upd_where p f ls) key = Option.bind (lock_in ls key) g"
proof (cases "holder key ls")
  case (Some l)
  then have "l \<in> set ls" "lease_active l" by (simp_all add: holder_Some [OF assms(1)])
  with Some show ?thesis unfolding lock_upd [OF assms(1,2)] by (simp add: lock_in_def assms(3))
next
  case None
  then show ?thesis unfolding lock_upd [OF assms(1,2)] by (simp add: lock_in_def)
qed

lemma lock_sameI:
  assumes "leases_ok ls" and "\<And>l. l \<in> set ls \<Longrightarrow> lease_active l \<Longrightarrow> g (owner_of l) = Some (owner_of l)"
  shows "Option.bind (lock_in ls key) g = lock_in ls key"
proof (cases "holder key ls")
  case (Some l)
  then have "l \<in> set ls" "lease_active l" by (simp_all add: holder_Some [OF assms(1)])
  with Some show ?thesis by (simp add: lock_in_def assms(2))
qed (simp add: lock_in_def)

lemma held_by_bind: "held_by p s key = Option.bind (s key) (\<lambda>w. if p w then Some w else None)"
  by (cases "s key") (simp_all add: held_by_def)

lemma prolong_bind:
  "prolong i e s key = Option.bind (s key) (\<lambda>w. Some (if ow_lease w = i then w\<lparr>ow_expires := e\<rparr> else w))"
  by (cases "s key") (simp_all add: prolong_def)

text \<open>Updates that end leases and leave the others as they are.\<close>

definition ends_some :: "lease_row list \<Rightarrow> lease_row list \<Rightarrow> bool" where
  "ends_some ls ls' \<longleftrightarrow> (\<exists>f. lease_update f \<and> ls' = map f ls \<and> (\<forall>l. lease_active (f l) \<longrightarrow> f l = l))"

lemma ends_some_refl: "ends_some ls ls"
  unfolding ends_some_def by (intro exI [of _ id]) (simp add: lease_update_def)

lemma ends_some_stale: "ends_some ls (upd_where p (stale_lease now reason) ls)"
  unfolding ends_some_def upd_where_def
  by (rule exI [of _ "\<lambda>l. if p l then stale_lease now reason l else l"])
    (simp add: stale.ends lease_update_if stale.lease_update_axioms)

lemma ends_some_trans:
  assumes "ends_some ls ms" and "ends_some ms ns"
  shows "ends_some ls ns"
proof -
  obtain f g where f: "lease_update f" "ms = map f ls" "\<forall>l. lease_active (f l) \<longrightarrow> f l = l"
    and g: "lease_update g" "ns = map g ms" "\<forall>l. lease_active (g l) \<longrightarrow> g l = l"
    using assms by (auto simp: ends_some_def)
  have "(g o f) l = l" if "lease_active ((g o f) l)" for l
  proof -
    have a: "lease_active (g (f l))" using that by simp
    then have "lease_active (f l)" by (rule lease_update.never_activates [OF g(1)])
    with f(3) g(3) a show ?thesis by (metis comp_apply)
  qed
  then show ?thesis unfolding ends_some_def
    using f g lease_update_comp [OF f(1) g(1)] by (intro exI [of _ "g o f"]) simp
qed

lemma ends_some_fold_reap_stale:
  "ends_some (db_leases d) (db_leases (fold (reap_stale_worker_row now ms dead) rows d))"
proof (induction rows arbitrary: d)
  case Nil
  show ?case by (simp add: ends_some_refl)
next
  case (Cons row rows)
  obtain p where "db_leases (reap_stale_worker_row now ms dead row d) =
      upd_where p (stale_lease now ''worker stale'') (db_leases d)"
    using reap_stale_worker_row_leases by blast
  then have "ends_some (db_leases d) (db_leases (reap_stale_worker_row now ms dead row d))"
    by (simp add: ends_some_stale)
  with Cons [of "reap_stale_worker_row now ms dead row d"] show ?case by (simp add: ends_some_trans)
qed

lemma lock_ends_some:
  assumes "leases_ok ls" and "ends_some ls ls'"
  shows "lock_in ls' \<subseteq>\<^sub>m lock_in ls"
proof -
  obtain f where f: "lease_update f" "ls' = map f ls" "\<forall>l. lease_active (f l) \<longrightarrow> f l = l"
    using assms(2) by (auto simp: ends_some_def)
  show ?thesis unfolding map_le_def f(2) lock_map [OF assms(1) f(1)]
    using f(3) by (auto simp: lock_in_def split: option.splits if_splits)
qed

lemma leases_ok_ends_some: "leases_ok ls \<Longrightarrow> ends_some ls ls' \<Longrightarrow> leases_ok ls'"
  by (auto simp: ends_some_def leases_ok_map)

text \<open>Each operation.\<close>

lemma lock_beat:
  assumes "schema_ok d"
  shows "lock_of (snd (heartbeat_lease now i ttl d)) = prolong i (now + ttl_ms ttl) (lock_of d)"
proof
  fix key
  have ok: "leases_ok (db_leases d)" using assms by (rule schema_okD)
  show "lock_of (snd (heartbeat_lease now i ttl d)) key = prolong i (now + ttl_ms ttl) (lock_of d) key"
  proof (cases "\<exists>l. row_by l_lease_id i (db_leases d) = Some l \<and> lease_active l")
    case True
    then obtain l where l: "row_by l_lease_id i (db_leases d) = Some l" "lease_active l" by blast
    show ?thesis unfolding lock_of_def heartbeat_active(2) [OF assms l] prolong_bind
      by (rule lock_updI [OF ok refresh.lease_update_axioms])
        (simp add: owner_of_def refresh_lease_def lease_active_def)
  next
    case False
    then have "snd (heartbeat_lease now i ttl d) = d"
      by (auto simp: heartbeat_lease_def get_lease_def split: option.split)
    moreover have "prolong i (now + ttl_ms ttl) (lock_in (db_leases d)) key = lock_in (db_leases d) key"
      unfolding prolong_bind
    proof (rule lock_sameI [OF ok])
      fix l assume "l \<in> set (db_leases d)" "lease_active l"
      then have "l_lease_id l \<noteq> i" using False lease_row_in [OF assms] by blast
      then show "Some (if ow_lease (owner_of l) = i then (owner_of l)\<lparr>ow_expires := now + ttl_ms ttl\<rparr> else owner_of l)
          = Some (owner_of l)" by (simp add: owner_of_def)
    qed
    ultimately show ?thesis by (simp add: lock_of_def)
  qed
qed

lemma lock_release:
  assumes "schema_ok d" and "status \<noteq> active"
  shows "lock_of (snd (release_lease now i status reason d)) = held_by (\<lambda>w. ow_lease w \<noteq> i) (lock_of d)"
proof
  fix key
  have ok: "leases_ok (db_leases d)" using assms(1) by (rule schema_okD)
  have ended: "lock_in (upd_where (\<lambda>l. l_lease_id l = i \<and> lease_active l) (end_lease now status reason) (db_leases d)) key
      = held_by (\<lambda>w. ow_lease w \<noteq> i) (lock_in (db_leases d)) key"
    unfolding end_lease_update held_by_bind
    by (rule lock_updI [OF ok end_active.lease_update_axioms])
      (simp add: owner_of_def end_if_active_def end_lease_active_iff assms(2))
  show "lock_of (snd (release_lease now i status reason d)) key = held_by (\<lambda>w. ow_lease w \<noteq> i) (lock_of d) key"
  proof (cases "\<exists>l. row_by l_lease_id i (db_leases d) = Some l \<and> lease_active l")
    case True
    then obtain l where "row_by l_lease_id i (db_leases d) = Some l" "lease_active l" by blast
    then show ?thesis using ended by (simp add: release_lease_def get_lease_def lock_of_def Let_def)
  next
    case False
    then have "snd (release_lease now i status reason d) = d"
      by (auto simp: release_lease_def get_lease_def split: option.split)
    moreover have "held_by (\<lambda>w. ow_lease w \<noteq> i) (lock_in (db_leases d)) key = lock_in (db_leases d) key"
      unfolding held_by_bind
    proof (rule lock_sameI [OF ok])
      fix l assume "l \<in> set (db_leases d)" "lease_active l"
      then have "l_lease_id l \<noteq> i" using False lease_row_in [OF assms(1)] by blast
      then show "(if ow_lease (owner_of l) \<noteq> i then Some (owner_of l) else None) = Some (owner_of l)"
        by (simp add: owner_of_def)
    qed
    ultimately show ?thesis by (simp add: lock_of_def)
  qed
qed

lemma lock_reap:
  assumes "schema_ok d"
  shows "lock_of (reap_expired_leases_locked now d) = held_by (\<lambda>w. ow_expires w > now) (lock_of d)"
proof
  fix key
  have ok: "leases_ok (db_leases d)" "keys_ok l_lease_id (db_leases d)" using assms by (auto dest: schema_okD)
  show "lock_of (reap_expired_leases_locked now d) key = held_by (\<lambda>w. ow_expires w > now) (lock_of d) key"
    unfolding lock_of_def reap_locked_leases [OF ok(2)] held_by_bind
    by (rule lock_updI [OF ok(1) stale.lease_update_axioms])
      (auto simp: owner_of_def lease_expired_def stale.ends)
qed

lemma lock_transition:
  assumes "schema_ok d"
  shows "lock_of (apply_task_state_locked key state now a d) = lock_of d
    \<or> (ta_clear_claim a \<and> lock_of (apply_task_state_locked key state now a d) = (lock_of d)(key := None))"
proof -
  have ok: "leases_ok (db_leases d)" using assms by (rule schema_okD)
  have "lock_in (upd_where (\<lambda>l. l_task_key l = key \<and> lease_active l) (stale_lease now r) (db_leases d)) =
      (lock_in (db_leases d))(key := None)" for r
  proof
    fix k
    have "holder k (db_leases d) = Some l \<Longrightarrow> l_task_key l = k \<and> lease_active l" for l
      by (simp add: holder_Some [OF ok])
    then show "lock_in (upd_where (\<lambda>l. l_task_key l = key \<and> lease_active l) (stale_lease now r) (db_leases d)) k =
        ((lock_in (db_leases d))(key := None)) k"
      unfolding lock_upd [OF ok stale.lease_update_axioms]
      by (cases "holder k (db_leases d)") (simp_all add: lock_in_def stale.ends)
  qed
  then show ?thesis
    by (auto simp: apply_task_state_eq transitioned_def clear_claim_leases_def lock_of_def Let_def split: option.split)
qed

lemma lock_snoc:
  assumes "\<And>l. l \<in> set ls \<Longrightarrow> l_task_key l = l_task_key new \<Longrightarrow> \<not> lease_active l" and "lease_active new"
  shows "lock_in (ls @ [new]) = (lock_in ls)(l_task_key new \<mapsto> owner_of new)"
proof
  fix key
  have "find P (xs @ ys) = (case find P xs of Some x \<Rightarrow> Some x | None \<Rightarrow> find P ys)" for P and xs ys :: "lease_row list"
    by (induction xs) auto
  moreover have "holder (l_task_key new) ls = None" using assms(1) by (auto simp: holder_None)
  ultimately show "lock_in (ls @ [new]) key = ((lock_in ls)(l_task_key new \<mapsto> owner_of new)) key"
    using assms(2) by (auto simp: lock_in_def holder_def split: option.splits)
qed

lemma other_op_leases: "\<not> owner_op op \<Longrightarrow> db_leases (run_op now op d) = db_leases d"
  by (cases op) (auto simp: res_db_def register_task_def bind_res_def Let_def kept_clear_reclaimable
      record_run_start_def register_worker_def heartbeat_worker_def update_run_def enqueue_outbox_def
      mark_outbox_dispatched_def claim_pending_outbox_def complete_outbox_def retry_outbox_def
      reap_stale_outbox_claims_def approval_op_leases record_scheduler_event_def split: sum.splits option.split)

lemma count_kept: "leases_kept ls ls' \<Longrightarrow> length (leases_of key ls') = length (leases_of key ls)"
  by (auto simp: leases_kept_def leases_of_map)

lemma lock_claim:
  assumes "reachable d" and "\<not> has_key l_lease_id (new_lease_id token) (db_leases d)"
  shows "lock_step now (ClaimTask token task a) (lock_of d) (lock_of (snd (claim_task now token task a d)))"
proof (cases "granted (fst (claim_task now token task a d))")
  case False
  then show ?thesis by (simp add: not_granted_unchanged lock_step.refused)
next
  case True
  have ok: "schema_ok d" using assms(1) by (rule schema_ok_reachable)
  have keys: "keys_ok l_lease_id (db_leases d)" using ok by (rule schema_okD)
  have lok: "leases_ok (db_leases d)" using ok by (rule schema_okD)
  let ?mid = "db_leases (claim_reap now d)" and ?d' = "snd (claim_task now token task a d)"
  from granted_claimed [OF True] obtain l t where "claim_task now token task a d = (Inr (Claimed l t), ?d')" by blast
  then obtain p where p: "make_task_payload task (ca_repo a) = Inr p"
    and live: "live_lease (tp_task_key p) now (claim_reap now d) = None"
    and grant: "grant_claim now (new_lease_id token) task p a (claim_reap now d) = Inr ?d'"
    by (rule claim_task_grantedD)
  have fresh: "\<not> has_key l_lease_id (new_lease_id token) ?mid"
    using assms(2) has_key_map_cong [OF claim_reap_lease_ids [OF keys]] by blast
  let ?key = "tp_task_key p"
  define n where "n = next_attempt ?key ?mid"
  define new where "new = claim_lease_row now (new_lease_id token) task p a n"
  have new: "l_task_key new = ?key" "lease_active new" by (simp_all add: new_def claim_lease_row_def lease_active_def)
  have free: "\<not> lease_active x" if "x \<in> set ?mid" "l_task_key x = ?key" for x
    using no_live_lease_no_active [OF keys live that] .
  have "db_leases ?d' = ?mid @ [new]" using grant_claim_result(1) [OF fresh grant] by (simp add: n_def new_def)
  moreover have "lock_in (?mid @ [new]) = (lock_in ?mid)(?key \<mapsto> owner_of new)"
    using lock_snoc [of ?mid new] free new by simp
  ultimately have after: "lock_of ?d' = (lock_in ?mid)(?key \<mapsto> owner_of new)" by (simp add: lock_of_def)
  have "schema_ok (reap_expired_leases_locked now d)" using ok by (rule schema_ok_reap_expired)
  then have "leases_ok (db_leases (reap_expired_leases_locked now d))" by (rule schema_okD)
  moreover have "ends_some (db_leases (reap_expired_leases_locked now d)) ?mid"
    unfolding claim_reap_def reap_stale_workers_locked_def Let_def by (rule ends_some_fold_reap_stale)
  ultimately have le: "lock_in ?mid \<subseteq>\<^sub>m held_by (\<lambda>w. ow_expires w > now) (lock_of d)"
    using lock_ends_some lock_reap [OF ok] by (metis lock_of_def)
  have attempts: "ow_attempt w0 < n" if "lock_of d ?key = Some w0" for w0
  proof -
    from that obtain l0 where l0: "holder ?key (db_leases d) = Some l0" "w0 = owner_of l0"
      by (auto simp: lock_of_def lock_in_def)
    then have "l0 \<in> set (db_leases d)" "lease_active l0" "l_task_key l0 = ?key" by (simp_all add: holder_Some [OF lok])
    then have "l_attempt l0 = int (length (leases_of ?key (db_leases d)))"
      using history_ok_reachable [OF assms(1)] by (auto simp: history_ok_def)
    also have "\<dots> = int (length (leases_of ?key ?mid))" using count_kept [OF kept_claim_reap] by simp
    finally show ?thesis by (simp add: n_def next_attempt_def leases_of_def l0(2) owner_of_def)
  qed
  have "lock_in ?mid ?key = None" using free by (auto simp: lock_in_def holder_None)
  then show ?thesis unfolding after
    by (rule lock_step.granted [OF p le _ _ attempts]) (simp_all add: owner_of_def new_def claim_lease_row_def)
qed

section \<open>Properties\<close>

text \<open>
C40. The store implements a lock per task. Seen through \<open>lock_of\<close>, which forgets the tables, every
operation on a store the program can reach is a step of \<open>lock_step\<close>: a heartbeat prolongs the owner with
its lease and touches no other, a release frees the lock of its lease and no other, a reaping frees
exactly the locks that expired, the reaping of workers and an operator's reset only free locks, and a
claim frees at least the expired locks and then takes the lock of its task, which must be free, with
a larger attempt than the owner it displaced. No other operation changes an owner.
\<close>

theorem store_implements_lock:
  assumes "reachable d" and "op_ok d op"
  shows "lock_step now op (lock_of d) (lock_of (run_op now op d))"
proof (cases "owner_op op")
  case False
  then show ?thesis using lock_step.other [OF False] by (simp add: lock_of_def other_op_leases)
next
  case True
  have ok: "schema_ok d" using assms(1) by (rule schema_ok_reachable)
  show ?thesis
  proof (cases op)
    case (Transition key state a)
    then show ?thesis using lock_transition [OF ok, of key state now a] lock_step.moved lock_step.reset
      by (auto simp: transition_task_state_def Let_def)
  next
    case (ClaimTask token task a)
    then show ?thesis using lock_claim [OF assms(1)] assms(2) by simp
  next
    case (HeartbeatLease i ttl)
    then show ?thesis using lock_beat [OF ok] lock_step.beat by simp
  next
    case (ReleaseLease i status reason)
    then show ?thesis using lock_release [OF ok] assms(2) lock_step.release by simp
  next
    case ReapLeases
    then show ?thesis using lock_reap [OF ok] lock_step.expire by (simp add: reap_expired_leases_eq)
  next
    case (ReapWorkers s)
    have "lock_in (db_leases (snd (reap_stale_workers now s d))) \<subseteq>\<^sub>m lock_in (db_leases d)"
      unfolding reap_stale_workers_def Let_def reap_stale_rows_db
      by (rule lock_ends_some [OF schema_okD(4) [OF ok] ends_some_fold_reap_stale])
    then show ?thesis using ReapWorkers lock_step.dead by (simp add: lock_of_def)
  qed (use True in simp_all)
qed

inductive_cases expire_stepE: "lock_step now ReapLeases s s'"

lemma store_implements_lock_witness:
  "(\<exists>w. lock_of demo_db demo_key = Some w \<and> ow_worker w = ''w1'')
   \<and> lock_of (run_op 90000 ReapLeases demo_db) demo_key = None"
proof -
  let ?l = "claim_lease_row 1000 (new_lease_id ''00000001'') demo_task demo_payload (demo_claim ''r1'' ''w1'') 1"
  have lock: "lock_of demo_db demo_key = Some (owner_of ?l)"
    by (simp add: lock_of_def lock_in_def holder_def demo_db_leases lease_active_def claim_lease_row_def demo_payload_def)
  have old: "ow_expires (owner_of ?l) \<le> 90000" "ow_worker (owner_of ?l) = ''w1''"
    by (simp_all add: owner_of_def claim_lease_row_def demo_claim_def ttl_ms_def int_or_def)
  have "lock_step 90000 ReapLeases (lock_of demo_db) (lock_of (run_op 90000 ReapLeases demo_db))"
    by (rule store_implements_lock [OF demo_db_reachable]) simp
  then have "lock_of (run_op 90000 ReapLeases demo_db) = held_by (\<lambda>w. ow_expires w > 90000) (lock_of demo_db)"
    by (rule expire_stepE) simp_all
  with lock old show ?thesis by (simp add: held_by_def)
qed

end
