(* ===== verification/OutboxDispatcher.thy ===== *)
theory OutboxDispatcher imports CoordEvents begin

text \<open>
  The dispatcher of the outbox (src/tandem_agents/core/scheduling/outbox_dispatcher.py): it reaps stale
  claims, claims a batch, connects the trackers the batch needs, sends every message, and completes,
  retries or fails each one. The calls to the trackers (github_mcp.py, linear_mcp.py, which talk to MCP
  servers) are the record \<open>connectors\<close>: what each call answers, or the text of the exception it
  raises. The locale \<open>settling\<close> states what the store promises a client that settles messages.
\<close>

section \<open>Connectors and results\<close>

text \<open>A warning is the text a tracker call returns; the empty text is success.\<close>

record connectors =
  cx_connect_github :: "string option"
  cx_connect_linear :: "string option"
  cx_status_update :: "obj \<Rightarrow> string \<Rightarrow> string + string"
  cx_issue_comment :: "obj \<Rightarrow> string \<Rightarrow> string + string"
  cx_issue_body :: "obj \<Rightarrow> string + string"
  cx_pull_request :: "obj \<Rightarrow> string \<Rightarrow> string \<Rightarrow> string \<Rightarrow> string + obj"
  cx_linear_update :: "obj \<Rightarrow> obj \<Rightarrow> string + string"
  cx_linear_comment :: "obj \<Rightarrow> string \<Rightarrow> string + string"
  cx_linear_body :: "obj \<Rightarrow> string + string"
  cx_linear_marker :: "obj \<Rightarrow> string \<Rightarrow> string + bool"

record dispatch_result =
  dr_outbox_id :: int
  dr_kind :: string
  dr_payload :: obj
  dr_status :: string
  dr_terminal :: bool
  dr_error :: string
  dr_extra :: obj

definition sent_result :: "outbox_row \<Rightarrow> obj \<Rightarrow> dispatch_result" where
  "sent_result r extra = \<lparr>dr_outbox_id = o_id r, dr_kind = o_kind r, dr_payload = obj_of (o_payload r),
     dr_status = ''dispatched'', dr_terminal = False, dr_error = [], dr_extra = extra\<rparr>"

definition failed_result :: "outbox_row \<Rightarrow> string \<Rightarrow> obj \<Rightarrow> dispatch_result" where
  "failed_result r err extra = \<lparr>dr_outbox_id = o_id r, dr_kind = o_kind r, dr_payload = obj_of (o_payload r),
     dr_status = ''failed'', dr_terminal = True, dr_error = err, dr_extra = extra\<rparr>"

text \<open>An exception passes through; a warning fails the message for good.\<close>

definition then_call :: "string + 'a \<Rightarrow> ('a \<Rightarrow> string + 'b) \<Rightarrow> string + 'b" where
  "then_call m f = (case m of Inl e \<Rightarrow> Inl e | Inr x \<Rightarrow> f x)"

definition of_warning :: "outbox_row \<Rightarrow> string \<Rightarrow> dispatch_result" where
  "of_warning r w = (if w \<noteq> [] then failed_result r w [] else sent_result r [])"

definition outbox_connector :: "string \<Rightarrow> string" where
  "outbox_connector kind =
     (if starts_with kind ''github_'' then ''github'' else if starts_with kind ''linear_'' then ''linear'' else [])"

definition message_task :: "obj \<Rightarrow> obj" where
  "message_task payload = obj_of (dget payload ''task'')"

text \<open>\<open>value in (None, "")\<close>.\<close>

definition missing :: "json \<Rightarrow> bool" where
  "missing v = (v = JNull \<or> v = JStr [])"

definition task_with_run :: "obj \<Rightarrow> obj" where
  "task_with_run payload =
     (let task = message_task payload in
      if \<not> missing (dget payload ''run_id'') \<and> missing (dget task ''run_id'')
      then dset ''run_id'' (dget payload ''run_id'') task else task)"

section \<open>Dispatching one message\<close>

definition dispatch_status_update :: "connectors \<Rightarrow> outbox_row \<Rightarrow> string + dispatch_result" where
  "dispatch_status_update cx r =
     (let payload = obj_of (o_payload r);
          target = nonempty (py_or (dget payload ''target_status'') (dget payload ''status_name''))
      in if target = [] then
           Inr (failed_result r ''Outbox payload missing target_status for GitHub Project status update.'' [])
         else then_call (cx_status_update cx (message_task payload) target) (\<lambda>w. Inr (of_warning r w)))"

definition dispatch_issue_comment :: "connectors \<Rightarrow> outbox_row \<Rightarrow> string + dispatch_result" where
  "dispatch_issue_comment cx r =
     (let payload = obj_of (o_payload r); given = nonempty (dget payload ''body'') in
      then_call (if given \<noteq> [] then Inr given else cx_issue_body cx payload) (\<lambda>body.
        if strip body = [] then Inr (failed_result r ''Outbox payload missing comment body.'' [])
        else then_call (cx_issue_comment cx (task_with_run payload) body) (\<lambda>w. Inr (of_warning r w))))"

definition dispatch_pull_request_create :: "connectors \<Rightarrow> outbox_row \<Rightarrow> string + dispatch_result" where
  "dispatch_pull_request_create cx r =
     (let payload = obj_of (o_payload r);
          head = nonempty (dget payload ''head_branch''); title = nonempty (dget payload ''title'')
      in if head = [] \<or> title = [] then
           Inr (failed_result r ''Outbox payload missing PR head branch or title.'' [])
         else then_call (cx_pull_request cx (task_with_run payload) head title (nonempty (dget payload ''body'')))
           (\<lambda>pr. let url = nonempty (dget pr ''url''); detail = nonempty (dget pr ''error'') in
              if url = [] then
                Inr (failed_result r (''Pull request creation returned no URL.'' @
                    (if detail \<noteq> [] then '' '' @ detail else [])) [(''pull_request'', JObj pr)])
              else Inr (sent_result r [(''pr_url'', JStr url), (''pull_request'', JObj pr)])))"

definition clean_labels :: "json \<Rightarrow> string list" where
  "clean_labels v = (case v of
      JList xs \<Rightarrow> filter (\<lambda>t. t \<noteq> []) (map (\<lambda>x. strip (py_str x)) xs) | _ \<Rightarrow> [])"

definition linear_fields :: "obj \<Rightarrow> obj" where
  "linear_fields payload =
     (let target = nonempty (py_or (dget payload ''target_status'') (dget payload ''status''));
          labels = JList (map JStr (clean_labels (dget payload ''labels'')))
      in (if target = [] then [] else
            [(''status'', JStr target), (''state'', JStr target), (''state_name'', JStr target)])
       @ (if clean_labels (dget payload ''labels'') = [] then [] else
            [(''labels'', labels), (''label_names'', labels)]))"

definition dispatch_linear_status_update :: "connectors \<Rightarrow> outbox_row \<Rightarrow> string + dispatch_result" where
  "dispatch_linear_status_update cx r =
     (let payload = obj_of (o_payload r); fields = linear_fields payload in
      if fields = [] then
        Inr (failed_result r ''Outbox payload missing target_status or labels for Linear issue update.'' [])
      else then_call (cx_linear_update cx (message_task payload) fields) (\<lambda>w. Inr (of_warning r w)))"

definition dispatch_linear_comment :: "connectors \<Rightarrow> outbox_row \<Rightarrow> string + dispatch_result" where
  "dispatch_linear_comment cx r =
     (let payload = obj_of (o_payload r); given = nonempty (dget payload ''body'');
          task = task_with_run payload; marker = nonempty (dget payload ''run_id'') in
      then_call (if given \<noteq> [] then Inr given else cx_linear_body cx payload) (\<lambda>body.
        if strip body = [] then Inr (failed_result r ''Outbox payload missing Linear comment body.'' [])
        else then_call (cx_linear_comment cx task body) (\<lambda>w.
          if w \<noteq> [] then Inr (failed_result r w [])
          else if marker = [] then Inr (sent_result r [])
          else then_call (cx_linear_marker cx task marker) (\<lambda>present.
            if present then Inr (sent_result r [])
            else Inr (failed_result r
              ''Linear comment creation could not be verified by reading the run marker back from Linear.'' [])))))"

definition dispatch_outbox_item :: "connectors \<Rightarrow> outbox_row \<Rightarrow> string + dispatch_result" where
  "dispatch_outbox_item cx r =
     (let kind = strip (o_kind r) in
      if kind = ''github_project.status_update'' then dispatch_status_update cx r
      else if kind = ''github_issue.comment'' then dispatch_issue_comment cx r
      else if kind = ''github_pull_request.create'' then dispatch_pull_request_create cx r
      else if kind = ''linear_issue.status_update'' then dispatch_linear_status_update cx r
      else if kind = ''linear_issue.comment'' then dispatch_linear_comment cx r
      else Inr \<lparr>dr_outbox_id = o_id r, dr_kind = kind, dr_payload = obj_of (o_payload r),
                dr_status = ''failed'', dr_terminal = True,
                dr_error = ''Unsupported outbox kind: '' @ first_nonempty [kind, ''unknown''], dr_extra = []\<rparr>)"

section \<open>One tick\<close>

definition DEFAULT_OUTBOX_BATCH_LIMIT :: int where
  "DEFAULT_OUTBOX_BATCH_LIMIT = 25"

definition DEFAULT_OUTBOX_MAX_ATTEMPTS :: int where
  "DEFAULT_OUTBOX_MAX_ATTEMPTS = 5"

text \<open>What the tick does with a message: complete it, or retry it with an error, for good or not.\<close>

datatype verdict = Complete int | Again int string bool

fun verdict_id :: "verdict \<Rightarrow> int" where
  "verdict_id (Complete i) = i"
| "verdict_id (Again i err terminal) = i"

definition retry_claimed_outbox :: "outbox_row \<Rightarrow> string \<Rightarrow> verdict \<times> dispatch_result" where
  "retry_claimed_outbox r err =
     (let terminal = o_attempts r \<ge> DEFAULT_OUTBOX_MAX_ATTEMPTS in
      (Again (o_id r) err terminal,
       \<lparr>dr_outbox_id = o_id r, dr_kind = o_kind r, dr_payload = obj_of (o_payload r),
        dr_status = (if terminal then ''failed'' else ''retry''), dr_terminal = terminal, dr_error = err,
        dr_extra = []\<rparr>))"

definition connector_error :: "connectors \<Rightarrow> outbox_row list \<Rightarrow> string \<Rightarrow> string" where
  "connector_error cx claimed connector =
     (let needed = list_ex (\<lambda>r. outbox_connector (o_kind r) = connector) claimed;
          answer = (\<lambda>e fallback. case e of None \<Rightarrow> [] | Some text \<Rightarrow> first_nonempty [strip text, fallback])
      in if \<not> needed then []
         else if connector = ''github'' then answer (cx_connect_github cx) ''Failed to connect GitHub MCP server''
         else if connector = ''linear'' then answer (cx_connect_linear cx) ''Failed to connect Linear MCP server''
         else [])"

definition judge_item :: "connectors \<Rightarrow> outbox_row list \<Rightarrow> outbox_row \<Rightarrow> verdict \<times> dispatch_result" where
  "judge_item cx claimed r =
     (let cerr = connector_error cx claimed (outbox_connector (o_kind r)) in
      if cerr \<noteq> [] then retry_claimed_outbox r cerr
      else (case dispatch_outbox_item cx r of
          Inl text \<Rightarrow> retry_claimed_outbox r (first_nonempty [strip text, ''outbox dispatch raised an exception''])
        | Inr res \<Rightarrow>
            (if lower (strip (dr_status res)) = ''dispatched'' then (Complete (dr_outbox_id res), res)
             else (Again (dr_outbox_id res) (first_nonempty [strip (dr_error res), ''outbox dispatch failed''])
                     (dr_terminal res), res))))"

text \<open>Settling a batch, over the two operations that settle a message. The k-th reads the clock once.\<close>

fun settle_all :: "(int \<Rightarrow> int \<Rightarrow> 'q \<Rightarrow> 'q) \<Rightarrow> (int \<Rightarrow> int \<Rightarrow> string \<Rightarrow> bool \<Rightarrow> 'q \<Rightarrow> 'q) \<Rightarrow> (nat \<Rightarrow> int)
    \<Rightarrow> nat \<Rightarrow> verdict list \<Rightarrow> 'q \<Rightarrow> 'q" where
  "settle_all complete retry clock k [] q = q"
| "settle_all complete retry clock k (Complete i # vs) q =
     settle_all complete retry clock (Suc k) vs (complete (clock k) i q)"
| "settle_all complete retry clock k (Again i err terminal # vs) q =
     settle_all complete retry clock (Suc k) vs (retry (clock k) i err terminal q)"

definition store_complete :: "int \<Rightarrow> int \<Rightarrow> db \<Rightarrow> db" where
  "store_complete now i d = snd (complete_outbox now i d)"

definition store_retry :: "int \<Rightarrow> int \<Rightarrow> string \<Rightarrow> bool \<Rightarrow> db \<Rightarrow> db" where
  "store_retry now i err terminal d = snd (retry_outbox now i err terminal None d)"

record tick_summary =
  ts_reaped :: int
  ts_claimed :: int
  ts_dispatched :: int
  ts_retried :: int
  ts_failed :: int
  ts_items :: "dispatch_result list"

fun is_complete :: "verdict \<Rightarrow> bool" where
  "is_complete (Complete i) = True"
| "is_complete (Again i err terminal) = False"

fun is_terminal :: "verdict \<Rightarrow> bool" where
  "is_terminal (Complete i) = False"
| "is_terminal (Again i err terminal) = terminal"

definition summarize_tick :: "outbox_row list \<Rightarrow> outbox_row list \<Rightarrow> (verdict \<times> dispatch_result) list \<Rightarrow> tick_summary" where
  "summarize_tick reaped claimed judged =
     (let verdicts = map fst judged in
      \<lparr>ts_reaped = int (length reaped), ts_claimed = int (length claimed),
       ts_dispatched = int (length (filter is_complete verdicts)),
       ts_retried = int (length (filter (\<lambda>v. \<not> is_complete v \<and> \<not> is_terminal v) verdicts)),
       ts_failed = int (length (filter is_terminal verdicts)), ts_items = map snd judged\<rparr>)"

definition dispatch_outbox_tick :: "connectors \<Rightarrow> (nat \<Rightarrow> int) \<Rightarrow> int \<Rightarrow> db \<Rightarrow> tick_summary \<times> db" where
  "dispatch_outbox_tick cx clock limit d =
     (let (reaped, d1) = reap_stale_outbox_claims (clock 0) DEFAULT_OUTBOX_STALE_AFTER_SECONDS d;
          (claimed, d2) = claim_pending_outbox (clock 1) limit d1;
          judged = map (judge_item cx claimed) claimed
      in (summarize_tick reaped claimed judged,
          settle_all store_complete store_retry clock 2 (map fst judged) d2))"

section \<open>What a client that settles messages needs\<close>

locale settling =
  fixes complete :: "int \<Rightarrow> int \<Rightarrow> 'q \<Rightarrow> 'q"
    and retry :: "int \<Rightarrow> int \<Rightarrow> string \<Rightarrow> bool \<Rightarrow> 'q \<Rightarrow> 'q"
    and status :: "'q \<Rightarrow> int \<Rightarrow> string option"
  assumes complete_status:
      "status (complete now i q) j = (if j = i then map_option (\<lambda>_. ''dispatched'') (status q j) else status q j)"
    and retry_status:
      "status (retry now i err terminal q) j =
        (if j = i then map_option (\<lambda>_. if terminal then ''failed'' else ''pending'') (status q j) else status q j)"
begin

fun outcome :: "verdict \<Rightarrow> string" where
  "outcome (Complete i) = ''dispatched''"
| "outcome (Again i err terminal) = (if terminal then ''failed'' else ''pending'')"

lemma settle_other:
  "j \<notin> verdict_id ` set vs \<Longrightarrow> status (settle_all complete retry clock k vs q) j = status q j"
proof (induction vs arbitrary: k q)
  case (Cons v vs)
  then show ?case by (cases v) (simp_all add: complete_status retry_status)
qed simp

lemma settle_status:
  assumes "distinct (map verdict_id vs)" and "v \<in> set vs"
  shows "status (settle_all complete retry clock k vs q) (verdict_id v) =
    map_option (\<lambda>_. outcome v) (status q (verdict_id v))"
  using assms
proof (induction vs arbitrary: k q)
  case (Cons w vs)
  show ?case
  proof (cases "v = w")
    case True
    with Cons.prems(1) have "verdict_id v \<notin> verdict_id ` set vs" by simp
    with True show ?thesis by (cases w) (simp_all add: settle_other complete_status retry_status)
  next
    case False
    with Cons.prems have v: "v \<in> set vs" by simp
    then have "verdict_id v \<in> verdict_id ` set vs" by (rule imageI)
    with Cons.prems(1) have "verdict_id v \<noteq> verdict_id w" by auto
    with v Cons show ?thesis by (cases w) (simp_all add: complete_status retry_status)
  qed
qed simp

end

definition outbox_status :: "db \<Rightarrow> int \<Rightarrow> string option" where
  "outbox_status d i = map_option o_status (row_by o_id i (db_outbox d))"

interpretation outbox: settling store_complete store_retry outbox_status
proof (unfold_locales, goal_cases)
  case (1 now i q j)
  show ?case
    by (cases "row_by o_id i (db_outbox q)")
      (auto simp: outbox_status_def store_complete_def complete_outbox_def sent.row_by_update sent_def)
next
  case (2 now i err terminal q j)
  show ?case
    by (cases "row_by o_id i (db_outbox q)")
      (auto simp: outbox_status_def store_retry_def retry_outbox_def failed_row.row_by_update
        retry_row.row_by_update failed_row_def retry_row_def)
qed

section \<open>Lemmas\<close>

lemma then_call_Inr_iff: "then_call m f = Inr y \<longleftrightarrow> (\<exists>x. m = Inr x \<and> f x = Inr y)"
  by (cases m) (auto simp: then_call_def)

text \<open>A result carries the id of its message, and is either sent or failed for good.\<close>

definition settled_result :: "outbox_row \<Rightarrow> dispatch_result \<Rightarrow> bool" where
  "settled_result r res \<longleftrightarrow> dr_outbox_id res = o_id r \<and>
     (dr_status res = ''dispatched'' \<and> \<not> dr_terminal res \<or> dr_status res = ''failed'' \<and> dr_terminal res)"

lemma settled_results [simp]:
  "settled_result r (sent_result r x)" "settled_result r (failed_result r err x)" "settled_result r (of_warning r w)"
  by (simp_all add: settled_result_def sent_result_def failed_result_def of_warning_def)

lemma dispatch_settled:
  assumes "dispatch_outbox_item cx r = Inr res"
  shows "settled_result r res"
proof -
  have "dispatch_status_update cx r = Inr res \<Longrightarrow> ?thesis" "dispatch_issue_comment cx r = Inr res \<Longrightarrow> ?thesis"
    "dispatch_pull_request_create cx r = Inr res \<Longrightarrow> ?thesis" "dispatch_linear_status_update cx r = Inr res \<Longrightarrow> ?thesis"
    "dispatch_linear_comment cx r = Inr res \<Longrightarrow> ?thesis"
    by (auto simp: dispatch_status_update_def dispatch_issue_comment_def dispatch_pull_request_create_def
        dispatch_linear_status_update_def dispatch_linear_comment_def Let_def then_call_Inr_iff split: if_splits)
  with assms show ?thesis
    by (auto simp: dispatch_outbox_item_def Let_def settled_result_def split: if_splits)
qed

lemma lower_status: "lower (strip ''dispatched'') = ''dispatched''" "lower (strip ''failed'') = ''failed''"
  by code_simp+

text \<open>The verdict on a message, by what its dispatch did.\<close>

lemma judge_item_cases:
  obtains (sent) res where "dispatch_outbox_item cx r = Inr res" "connector_error cx claimed (outbox_connector (o_kind r)) = []"
      "dr_status res = ''dispatched''" "fst (judge_item cx claimed r) = Complete (o_id r)"
  | (refused) res err where "dispatch_outbox_item cx r = Inr res" "connector_error cx claimed (outbox_connector (o_kind r)) = []"
      "dr_status res = ''failed''" "fst (judge_item cx claimed r) = Again (o_id r) err True"
  | (raised) err where "connector_error cx claimed (outbox_connector (o_kind r)) \<noteq> [] \<or> (\<exists>e. dispatch_outbox_item cx r = Inl e)"
      "fst (judge_item cx claimed r) = Again (o_id r) err (o_attempts r \<ge> DEFAULT_OUTBOX_MAX_ATTEMPTS)"
proof (cases "connector_error cx claimed (outbox_connector (o_kind r)) \<noteq> [] \<or> (\<exists>e. dispatch_outbox_item cx r = Inl e)")
  case True
  then have "\<exists>err. fst (judge_item cx claimed r) = Again (o_id r) err (o_attempts r \<ge> DEFAULT_OUTBOX_MAX_ATTEMPTS)"
    by (auto simp: judge_item_def retry_claimed_outbox_def Let_def)
  with True raised show thesis by blast
next
  case False
  then obtain res where res: "dispatch_outbox_item cx r = Inr res" by (cases "dispatch_outbox_item cx r") auto
  with False dispatch_settled [OF res] sent refused show thesis
    by (auto simp: judge_item_def Let_def settled_result_def lower_status)
qed

lemma judge_item_id: "verdict_id (fst (judge_item cx claimed r)) = o_id r"
  by (rule judge_item_cases [of cx r claimed]) simp_all

lemma tick_statuses:
  assumes "schema_ok d" and "(claimed, d2) = claim_pending_outbox (clock 1) limit
      (snd (reap_stale_outbox_claims (clock 0) DEFAULT_OUTBOX_STALE_AFTER_SECONDS d))" and "r \<in> set claimed"
  shows "outbox_status (snd (dispatch_outbox_tick cx clock limit d)) (o_id r) =
    Some (outbox.outcome (fst (judge_item cx claimed r)))"
proof -
  let ?d1 = "snd (reap_stale_outbox_claims (clock 0) DEFAULT_OUTBOX_STALE_AFTER_SECONDS d)"
  let ?vs = "map fst (map (judge_item cx claimed) claimed)"
  have ok: "schema_ok ?d1" by (rule schema_ok_reap_outbox [OF assms(1)])
  then have keys: "keys_ok o_id (db_outbox ?d1)" by (simp add: schema_ok_def outbox_ok_def)
  have ids: "map verdict_id ?vs = map o_id claimed" by (simp add: judge_item_id)
  have claimed: "claimed = map (claimed_message (clock 1)) (due_batch (clock 1) limit ?d1)"
      "d2 = snd (claim_pending_outbox (clock 1) limit ?d1)"
    using assms(2) by (simp_all add: claim_pending_outbox_def Let_def)
  obtain q where q: "q \<in> set (due_batch (clock 1) limit ?d1)" "r = claimed_message (clock 1) q"
    using assms(3) claimed(1) by auto
  have "q \<in> set (db_outbox ?d1)" using q(1) due_batch_sub by blast
  moreover have "keys_ok o_id (db_outbox d2)"
    using schema_ok_claim_pending [OF ok] claimed(2) by (simp add: schema_ok_def outbox_ok_def)
  ultimately have "outbox_status d2 (o_id r) = Some ''processing''"
    using q row_by_eq_Some_iff [of o_id "db_outbox d2" "o_id q" "processing (clock 1) (o_attempts q + 1) q"]
    by (auto simp: outbox_status_def claimed(2) claim_pending_rows [OF keys] claimed_message_def processing_def)
  moreover have "distinct (map verdict_id ?vs)"
  proof -
    have "inj_on o_id (set (db_outbox ?d1))" using keys by (simp add: keys_ok_def distinct_map)
    moreover have "set (due_batch (clock 1) limit ?d1) \<subseteq> set (db_outbox ?d1)" using due_batch_sub by blast
    ultimately have "inj_on o_id (set (due_batch (clock 1) limit ?d1))" by (rule inj_on_subset)
    then have "distinct (map o_id (due_batch (clock 1) limit ?d1))"
      by (simp add: distinct_map distinct_due_batch [OF keys])
    moreover have "map o_id claimed = map o_id (due_batch (clock 1) limit ?d1)"
      by (simp add: claimed(1) claimed_message_def)
    ultimately show ?thesis unfolding ids by simp
  qed
  moreover have "fst (judge_item cx claimed r) \<in> set ?vs" using assms(3) by simp
  ultimately have "outbox_status (settle_all store_complete store_retry clock 2 ?vs d2) (o_id r) =
      Some (outbox.outcome (fst (judge_item cx claimed r)))"
    using outbox.settle_status [of ?vs "fst (judge_item cx claimed r)" clock 2 d2] by (simp add: judge_item_id)
  then show ?thesis
    using assms(2) by (simp add: dispatch_outbox_tick_def Let_def split_beta flip: assms(2)) (metis fst_conv snd_conv)
qed

lemma verdict_counts:
  "int (length vs) = int (length (filter is_complete vs))
     + int (length (filter (\<lambda>v. \<not> is_complete v \<and> \<not> is_terminal v) vs)) + int (length (filter is_terminal vs))"
proof (induction vs)
  case (Cons v vs)
  then show ?case by (cases v) auto
qed simp

lemma summarize_tick_counts:
  "length judged = length claimed \<Longrightarrow> ts_claimed (summarize_tick reaped claimed judged) =
     ts_dispatched (summarize_tick reaped claimed judged) + ts_retried (summarize_tick reaped claimed judged)
     + ts_failed (summarize_tick reaped claimed judged)"
  using verdict_counts [of "map fst judged"] by (simp add: summarize_tick_def Let_def)

section \<open>Properties\<close>

definition tick_claimed :: "(nat \<Rightarrow> int) \<Rightarrow> int \<Rightarrow> db \<Rightarrow> outbox_row list" where
  "tick_claimed clock limit d = fst (claim_pending_outbox (clock 1) limit
     (snd (reap_stale_outbox_claims (clock 0) DEFAULT_OUTBOX_STALE_AFTER_SECONDS d)))"

text \<open>
C19. A tick settles what it claims. After a tick no claimed message is left processing: it is
dispatched exactly when its connector came up and its dispatch answered without a warning; if the
connector or the dispatch raised, it is pending again, or failed once it has been attempted five
times; in the remaining case it is failed. The counts of the summary add up to the batch.
\<close>

theorem tick_settles_batch:
  assumes "schema_ok d" and "r \<in> set (tick_claimed clock limit d)"
  shows "(let (summary, d') = dispatch_outbox_tick cx clock limit d;
        raised = (connector_error cx (tick_claimed clock limit d) (outbox_connector (o_kind r)) \<noteq> [] \<or>
                  (\<exists>e. dispatch_outbox_item cx r = Inl e));
        sent = (\<exists>res. dispatch_outbox_item cx r = Inr res \<and> dr_status res = ''dispatched'')
    in outbox_status d' (o_id r) =
         Some (if raised then (if o_attempts r \<ge> 5 then ''failed'' else ''pending'')
               else if sent then ''dispatched'' else ''failed'') \<and>
       ts_claimed summary = ts_dispatched summary + ts_retried summary + ts_failed summary)"
proof -
  let ?claimed = "tick_claimed clock limit d"
  obtain summary d' where tick: "dispatch_outbox_tick cx clock limit d = (summary, d')"
    by (cases "dispatch_outbox_tick cx clock limit d")
  have pair: "(?claimed, snd (claim_pending_outbox (clock 1) limit
      (snd (reap_stale_outbox_claims (clock 0) DEFAULT_OUTBOX_STALE_AFTER_SECONDS d)))) =
    claim_pending_outbox (clock 1) limit (snd (reap_stale_outbox_claims (clock 0) DEFAULT_OUTBOX_STALE_AFTER_SECONDS d))"
    by (simp add: tick_claimed_def)
  have status: "outbox_status d' (o_id r) = Some (outbox.outcome (fst (judge_item cx ?claimed r)))"
    using tick_statuses [OF assms(1) pair assms(2), of cx] tick by simp
  have counts: "ts_claimed summary = ts_dispatched summary + ts_retried summary + ts_failed summary"
    using tick by (auto simp: dispatch_outbox_tick_def Let_def split_beta intro!: summarize_tick_counts)
  show ?thesis
  proof (cases rule: judge_item_cases [of cx r ?claimed])
    case (sent res)
    then show ?thesis using status counts unfolding tick Let_def by simp
  next
    case (refused res err)
    then show ?thesis using status counts unfolding tick Let_def by simp
  next
    case (raised err)
    then show ?thesis
      using status counts unfolding tick Let_def prod.case
      by (simp only: if_True outbox.outcome.simps DEFAULT_OUTBOX_MAX_ATTEMPTS_def simp_thms)
  qed
qed

definition demo_connectors :: connectors where
  "demo_connectors = \<lparr>cx_connect_github = None, cx_connect_linear = None,
     cx_status_update = (\<lambda>t s. Inr []), cx_issue_comment = (\<lambda>t b. Inr []), cx_issue_body = (\<lambda>p. Inr ''Done.''),
     cx_pull_request = (\<lambda>t h ti b. Inr []), cx_linear_update = (\<lambda>t f. Inr []), cx_linear_comment = (\<lambda>t b. Inr []),
     cx_linear_body = (\<lambda>p. Inr []), cx_linear_marker = (\<lambda>t m. Inr True)\<rparr>"

lemma demo_tick_claims: "map o_id (tick_claimed (\<lambda>_. 100) 5 demo_outbox) = [1, 2]"
  by code_simp

lemma tick_settles_batch_witness:
  "\<exists>r::outbox_row. outbox_status (snd (dispatch_outbox_tick demo_connectors (\<lambda>_. 100) 5 demo_outbox)) (o_id r) \<noteq> Some ''processing''
     \<and> o_id r = 1"
proof -
  have "1 \<in> set (map o_id (tick_claimed (\<lambda>_. 100) 5 demo_outbox))" unfolding demo_tick_claims by simp
  then obtain r where r: "r \<in> set (tick_claimed (\<lambda>_. 100) 5 demo_outbox)" "o_id r = 1" by auto
  have "\<exists>a b c. outbox_status (snd (dispatch_outbox_tick demo_connectors (\<lambda>_. 100) 5 demo_outbox)) (o_id r) =
      Some (if a then (if b then ''failed'' else ''pending'') else if c then ''dispatched'' else ''failed'')"
    using tick_settles_batch [OF schema_ok_demo_outbox r(1), of demo_connectors]
    unfolding Let_def split_beta by blast
  then obtain a b c where "outbox_status (snd (dispatch_outbox_tick demo_connectors (\<lambda>_. 100) 5 demo_outbox)) (o_id r) =
      Some (if a then (if b then ''failed'' else ''pending'') else if c then ''dispatched'' else ''failed'')"
    by blast
  then have "outbox_status (snd (dispatch_outbox_tick demo_connectors (\<lambda>_. 100) 5 demo_outbox)) (o_id r) \<noteq> Some ''processing''"
    by (cases a; cases b; cases c) (simp_all only: if_True if_False, simp_all)
  with r(2) show ?thesis by blast
qed

end
