(* ===== verification/Triage.thy ===== *)
theory Triage imports CoordOwnership OutboxDispatcher begin

text \<open>
  The triage gate (src/tandem_agents/core/triage.py): the class of an issue from its labels or its
  text, the verdict against the allowlist, the metric, and the escalation of a task that is not
  accepted, through the outbox. The em dash of the comment is outside the model's characters; its
  text is a parameter.
\<close>

section \<open>Classes\<close>

definition ACCEPTED :: string where "ACCEPTED = ''accepted''"
definition REFUSED :: string where "REFUSED = ''refused''"
definition NEEDS_CLARIFICATION :: string where "NEEDS_CLARIFICATION = ''needs_clarification''"

definition DEFAULT_ALLOWED_CLASSES :: "string list" where
  "DEFAULT_ALLOWED_CLASSES = [''bug_fix'', ''dependency_bump'', ''test_backfill'', ''small_feature'']"

definition label_class :: "(string \<times> string) list" where
  "label_class =
    [(''bug'', ''bug_fix''), (''bugfix'', ''bug_fix''), (''bug fix'', ''bug_fix''), (''defect'', ''bug_fix''),
     (''regression'', ''bug_fix''), (''dependencies'', ''dependency_bump''), (''dependency'', ''dependency_bump''),
     (''deps'', ''dependency_bump''), (''dependabot'', ''dependency_bump''), (''test'', ''test_backfill''),
     (''tests'', ''test_backfill''), (''testing'', ''test_backfill''), (''test-coverage'', ''test_backfill''),
     (''feature'', ''small_feature''), (''enhancement'', ''small_feature''), (''feature-request'', ''small_feature'')]"

definition keyword_rules :: "(string \<times> string list) list" where
  "keyword_rules =
    [(''dependency_bump'', [''bump '', ''upgrade dependency'', ''update dependency'', ''bump version'',
        ''dependabot'', ''npm audit'', ''pip upgrade'']),
     (''test_backfill'', [''add test'', ''add tests'', ''backfill test'', ''test coverage'', ''unit test'',
        ''missing test'', ''write tests'']),
     (''bug_fix'', [''fix bug'', ''bugfix'', ''fix crash'', ''fix error'', ''regression'', ''broken'',
        ''does not work'', ''doesn'' @ [char_of (39::nat)] @ ''t work'', ''incorrect'', ''fix the'']),
     (''small_feature'', [''add '', ''implement '', ''support '', ''introduce '', ''create ''])]"

text \<open>The configured allowlist, or the default when it is empty. Sets are lists without repetitions.\<close>

definition allowed_classes :: "string option \<Rightarrow> string list" where
  "allowed_classes raw =
     (let classes = remdups (map lower (filter (\<lambda>p. p \<noteq> []) (map strip (split_char (CHR '','') (text_arg raw)))))
      in if text_arg raw = [] \<or> classes = [] then DEFAULT_ALLOWED_CLASSES else classes)"

definition labels_of :: "json \<Rightarrow> string list" where
  "labels_of v = (case v of JList xs \<Rightarrow> map lower (filter (\<lambda>t. t \<noteq> []) (map (\<lambda>x. strip (py_str x)) xs)) | _ \<Rightarrow> [])"

definition task_labels :: "obj \<Rightarrow> string list" where
  "task_labels task = labels_of (dget task ''labels'') @ labels_of (dget (obj_of (dget task ''source'')) ''labels'')"

definition task_contract_of :: "obj \<Rightarrow> obj" where
  "task_contract_of task = obj_of (dget task ''task_contract'')"

definition task_text :: "obj \<Rightarrow> string" where
  "task_text task = lower (join [char_of (10::nat)]
     [str_or_empty (dget task ''title''), str_or_empty (dget task ''description''),
      str_or_empty (dget (task_contract_of task) ''raw_issue_body'')])"

definition stripped_items :: "json list \<Rightarrow> string list" where
  "stripped_items xs = filter (\<lambda>t. t \<noteq> []) (map (\<lambda>x. strip (py_str x)) xs)"

definition acceptance_criteria :: "obj \<Rightarrow> string list" where
  "acceptance_criteria task = (case dget (task_contract_of task) ''acceptance_criteria'' of
      JList xs \<Rightarrow> stripped_items xs
    | _ \<Rightarrow> (case dget task ''acceptance_criteria'' of JList xs \<Rightarrow> stripped_items xs | _ \<Rightarrow> []))"

definition class_of_label :: "string \<Rightarrow> string option" where
  "class_of_label l = map_of label_class l"

definition class_of_text :: "string \<Rightarrow> string option" where
  "class_of_text text = (if strip text = [] then None
     else map_option fst (find (\<lambda>(c, ks). list_ex (contains text) ks) keyword_rules))"

definition classify_issue_class :: "obj \<Rightarrow> string option" where
  "classify_issue_class task =
     (case find (\<lambda>l. class_of_label l \<noteq> None) (task_labels task) of
        Some l \<Rightarrow> class_of_label l
      | None \<Rightarrow> class_of_text (task_text task))"

definition is_well_specified :: "obj \<Rightarrow> bool" where
  "is_well_specified task =
     (acceptance_criteria task \<noteq> [] \<or>
      length (nonempty (py_or (dget (task_contract_of task) ''raw_issue_body'') (dget task ''description''))) \<ge> 200)"

section \<open>The verdict\<close>

record triage_verdict =
  tv_verdict :: string
  tv_class :: "string option"
  tv_reason :: string

text \<open>\<open>sorted\<close> on texts: by code points.\<close>

fun insert_text :: "string \<Rightarrow> string list \<Rightarrow> string list" where
  "insert_text s [] = [s]"
| "insert_text s (t # ts) = (if str_le s t then s # t # ts else t # insert_text s ts)"

definition sort_texts :: "string list \<Rightarrow> string list" where
  "sort_texts ts = foldr insert_text ts []"

definition quoted :: "string \<Rightarrow> string" where
  "quoted s = [char_of (39::nat)] @ s @ [char_of (39::nat)]"

definition triage_task :: "string option \<Rightarrow> obj \<Rightarrow> triage_verdict" where
  "triage_task raw_allowed task =
     (let allow = allowed_classes raw_allowed in
      case classify_issue_class task of
        None \<Rightarrow> \<lparr>tv_verdict = NEEDS_CLARIFICATION, tv_class = None, tv_reason =
          ''Could not determine a safe issue class from labels or description; a human should scope it.''\<rparr>
      | Some c \<Rightarrow>
          (if \<not> List.member allow c then \<lparr>tv_verdict = REFUSED, tv_class = Some c, tv_reason =
             ''Issue class '' @ quoted c @ '' is not in the autonomy allowlist ('' @ join '', '' (sort_texts allow) @ '').''\<rparr>
           else if c = ''small_feature'' \<and> \<not> is_well_specified task then
             \<lparr>tv_verdict = NEEDS_CLARIFICATION, tv_class = Some c, tv_reason =
               ''Feature is under-specified (no acceptance criteria and a thin description); a human should clarify scope before autonomy.''\<rparr>
           else \<lparr>tv_verdict = ACCEPTED, tv_class = Some c, tv_reason =
             ''Issue class '' @ quoted c @ '' is within the autonomy allowlist.''\<rparr>))"

record triage_summary =
  su_total :: int
  su_accepted :: int
  su_refused :: int
  su_needs_clarification :: int
  su_escalated :: int
  su_rate :: "int \<times> int"

text \<open>The escalation rate is the fraction, 0/1 for no verdicts.\<close>

definition summarize_triage :: "triage_verdict list \<Rightarrow> triage_summary" where
  "summarize_triage vs =
     (let count = (\<lambda>v. int (length (filter (\<lambda>x. tv_verdict x = v) vs)));
          total = int (length vs); escalated = count REFUSED + count NEEDS_CLARIFICATION
      in \<lparr>su_total = total, su_accepted = count ACCEPTED, su_refused = count REFUSED,
          su_needs_clarification = count NEEDS_CLARIFICATION, su_escalated = escalated,
          su_rate = (if total \<noteq> 0 then (escalated, total) else (0, 1))\<rparr>)"

section \<open>Escalation\<close>

definition escalation_comment_kind :: "obj \<Rightarrow> string" where
  "escalation_comment_kind task =
     (let t = lower (nonempty (dget (obj_of (dget task ''source'')) ''type'')) in
      if t = ''linear'' then ''linear_issue.comment''
      else if t = ''github'' \<or> t = ''github_project'' then ''github_issue.comment''
      else [])"

definition backquote :: string where
  "backquote = [char_of (96::nat)]"

definition build_triage_escalation_comment :: "string \<Rightarrow> obj \<Rightarrow> triage_verdict \<Rightarrow> string" where
  "build_triage_escalation_comment dash task v =
     (let title = strip (py_str (py_or (py_or (dget task ''title'') (dget task ''task_id'')) (JStr ''this issue'')));
          nl = [char_of (10::nat)];
          class = first_nonempty [text_arg (tv_class v), ''unknown'']
      in ''ACA triage did not accept **'' @ title @ ''** for autonomous execution '' @
         ''(verdict: '' @ backquote @ tv_verdict v @ backquote @ '', detected class: '' @ backquote @ class @ backquote @ '').'' @ nl @ nl @
         strip (tv_reason v) @ nl @ nl @
         ''This issue needs a human to scope or reassign it '' @ dash @
         '' the fleet will not attempt it automatically.'')"

definition escalation_task_key :: "obj \<Rightarrow> string" where
  "escalation_task_key task = nonempty (py_or (dget task ''task_key'') (dget task ''task_id''))"

definition escalation_message :: "string \<Rightarrow> obj \<Rightarrow> triage_verdict \<Rightarrow> outbox_message" where
  "escalation_message dash task v =
     \<lparr>om_kind = escalation_comment_kind task, om_aggregate_type = ''task'',
      om_aggregate_id = escalation_task_key task,
      om_payload = JObj [(''task'', JObj task), (''body'', JStr (build_triage_escalation_comment dash task v)),
                         (''outcome'', JStr ''triage_escalated'')],
      om_dedupe_key = Some (escalation_task_key task @ '':triage-escalation:'' @ tv_verdict v)\<rparr>"

definition escalate_triaged_task :: "string \<Rightarrow> int \<Rightarrow> obj \<Rightarrow> triage_verdict \<Rightarrow> db \<Rightarrow> bool \<times> db" where
  "escalate_triaged_task dash now task v d =
     (if tv_verdict v = ACCEPTED then (False, d)
      else if escalation_comment_kind task = [] then (False, d)
      else if escalation_task_key task = [] then (False, d)
      else (True, snd (enqueue_outbox now (escalation_message dash task v) d)))"

section \<open>Lemmas\<close>

lemma find_SomeD: "find p xs = Some x \<Longrightarrow> x \<in> set xs \<and> p x"
  by (induction xs) (auto split: if_splits)

lemma find_None_iff': "find p xs = None \<longleftrightarrow> (\<forall>x\<in>set xs. \<not> p x)"
  by (induction xs) auto

lemma classes_known: "classify_issue_class task = Some c \<Longrightarrow> c \<in> set DEFAULT_ALLOWED_CLASSES"
proof -
  have "class_of_label l = Some c \<Longrightarrow> c \<in> set DEFAULT_ALLOWED_CLASSES" for l
    by (auto simp: class_of_label_def label_class_def DEFAULT_ALLOWED_CLASSES_def split: if_splits)
  moreover have "class_of_text t = Some c \<Longrightarrow> c \<in> set DEFAULT_ALLOWED_CLASSES" for t
    by (auto simp: class_of_text_def keyword_rules_def DEFAULT_ALLOWED_CLASSES_def split: if_splits)
  ultimately show "classify_issue_class task = Some c \<Longrightarrow> c \<in> set DEFAULT_ALLOWED_CLASSES"
    by (auto simp: classify_issue_class_def split: option.splits)
qed

lemma verdict_values:
  "tv_verdict (triage_task raw task) \<in> {ACCEPTED, REFUSED, NEEDS_CLARIFICATION}"
  by (auto simp: triage_task_def Let_def split: option.split)

lemma verdicts_distinct: "ACCEPTED \<noteq> REFUSED" "ACCEPTED \<noteq> NEEDS_CLARIFICATION" "REFUSED \<noteq> NEEDS_CLARIFICATION"
  by (simp_all add: ACCEPTED_def REFUSED_def NEEDS_CLARIFICATION_def)

text \<open>Enqueueing over a row with the same key makes that row pending and due.\<close>

lemma requeue_row:
  assumes "keys_ok o_id (db_outbox d)" and "row_by o_id i (db_outbox d) = Some r"
    and "om_dedupe_key m = Some k" and "o_dedupe_key r = Some k"
  shows "row_by o_id i (db_outbox (snd (enqueue_outbox now m d))) = Some (requeue now m r)"
proof -
  have c: "dedupe_conflict m r" using assms(3,4) by (simp add: dedupe_conflict_def)
  moreover have "r \<in> set (db_outbox d)" using row_by_SomeD [OF assms(2)] by simp
  ultimately have "list_ex (dedupe_conflict m) (db_outbox d)" by (auto simp: list_ex_iff)
  then show ?thesis
    using assms(2) c by (simp add: enqueue_outbox_def Let_def row_by_upd_where [of o_id, OF requeue.keeps_oid])
qed

lemma enqueue_has_row:
  assumes "om_dedupe_key m = Some k"
  shows "\<exists>r\<in>set (db_outbox (snd (enqueue_outbox now m d))). o_dedupe_key r = Some k \<and> outbox_due now r"
proof (cases "list_ex (dedupe_conflict m) (db_outbox d)")
  case True
  then obtain r where r: "r \<in> set (db_outbox d)" "dedupe_conflict m r" by (auto simp: list_ex_iff)
  then have "requeue now m r \<in> set (upd_where (dedupe_conflict m) (requeue now m) (db_outbox d))"
    by (auto simp: set_upd_where)
  with True r assms show ?thesis
    by (auto simp: enqueue_outbox_def Let_def dedupe_conflict_def requeue_def outbox_due_def intro!: bexI [of _ "requeue now m r"])
next
  case False
  with assms show ?thesis by (simp add: enqueue_outbox_def Let_def new_outbox_row_def outbox_due_def)
qed

section \<open>Concrete tasks\<close>

definition demo_issue :: obj where
  "demo_issue = [(''task_key'', JStr ''linear:t/p:1''), (''title'', JStr ''Rewrite everything''),
     (''source'', JObj [(''type'', JStr ''linear'')])]"

definition demo_bug :: obj where
  "demo_bug = [(''task_key'', JStr ''k''), (''title'', JStr ''Login''), (''labels'', JList [JStr '' Bug ''])]"

section \<open>Properties\<close>



text \<open>
An escalation repeats. After the comment that escalates a task was dispatched, escalating the
same task with the same verdict makes the same message pending and due again, so the next batch sends
it once more: the deduplication keeps one row per task and verdict, not one comment.
\<close>

theorem escalation_is_sent_again:
  assumes "schema_ok d" and "tv_verdict v \<noteq> ACCEPTED" and "escalation_comment_kind task \<noteq> []"
    and "escalation_task_key task \<noteq> []"
  shows "\<exists>i. (let d1 = snd (escalate_triaged_task dash now1 task v d);
        d2 = snd (complete_outbox now2 i d1);
        d3 = snd (escalate_triaged_task dash now3 task v d2)
    in outbox_status d1 i = Some ''pending'' \<and> outbox_status d2 i = Some ''dispatched'' \<and>
       (\<exists>r. row_by o_id i (db_outbox d3) = Some r \<and> outbox_due now3 r))"
proof -
  let ?m = "escalation_message dash task v"
  define d1 where "d1 = snd (enqueue_outbox now1 ?m d)"
  obtain k where k: "om_dedupe_key ?m = Some k" by (simp add: escalation_message_def)
  obtain r where r: "r \<in> set (db_outbox d1)" "o_dedupe_key r = Some k" "outbox_due now1 r"
    using enqueue_has_row [OF k] unfolding d1_def by blast
  have ok: "schema_ok d1" unfolding d1_def by (rule schema_ok_enqueue [OF assms(1)])
  then have row: "row_by o_id (o_id r) (db_outbox d1) = Some r"
    using r(1) by (subst row_by_eq_Some_iff) (simp_all add: schema_ok_def outbox_ok_def)
  define d2 where "d2 = snd (complete_outbox now2 (o_id r) d1)"
  have row2: "row_by o_id (o_id r) (db_outbox d2) = Some (sent now2 r)"
    using row by (simp add: d2_def complete_outbox_def sent.row_by_update)
  have "keys_ok o_id (db_outbox d2)"
    using schema_ok_complete_outbox [OF ok] by (simp add: d2_def schema_ok_def outbox_ok_def)
  from requeue_row [OF this row2 k] r(2)
  have row3: "row_by o_id (o_id r) (db_outbox (snd (enqueue_outbox now3 ?m d2))) = Some (requeue now3 ?m (sent now2 r))"
    by (simp add: sent.keeps_dedupe)
  have esc: "snd (escalate_triaged_task dash now task v e) = snd (enqueue_outbox now ?m e)" for now e
    using assms(2-4) by (simp add: escalate_triaged_task_def)
  have "outbox_due now3 (requeue now3 ?m (sent now2 r))" by (simp add: requeue_def outbox_due_def)
  then show ?thesis
    using row row2 row3 r(3)
    by (intro exI [of _ "o_id r"]) (simp add: Let_def esc outbox_status_def d1_def d2_def sent_def outbox_due_def)
qed

lemma escalation_is_sent_again_witness:
  "\<exists>i. outbox_status (snd (escalate_triaged_task ''-'' 1 demo_issue (triage_task None demo_issue) empty_db)) i = Some ''pending''"
proof -
  have v: "tv_verdict (triage_task None demo_issue) \<noteq> ACCEPTED" by code_simp
  have k: "escalation_comment_kind demo_issue \<noteq> []" by code_simp
  have t: "escalation_task_key demo_issue \<noteq> []" by code_simp
  from escalation_is_sent_again [OF schema_ok_empty v k t, of "''-''" 1 2 3] show ?thesis
    by (auto simp: Let_def)
qed

end
