(* ===== verification/Scheduler.thy ===== *)
theory Scheduler imports Triage begin

text \<open>
  The admission planner (src/tandem_agents/core/scheduling/scheduler.py): the project, repository and
  file scopes of a task; the filtering of the queue (triage, connector, dependencies, running coder);
  and the round-robin loop that admits tasks under the capacity, per-project, per-repository and
  file-overlap limits. What the planner asks of the outside (the Linear connector's state, the coder
  runs in flight, the backend a task runs on) is the record \<open>plan_env\<close>.
\<close>

section \<open>Where a task belongs\<close>

definition source_task :: "obj \<Rightarrow> obj" where
  "source_task task = obj_of (dget (obj_of (dget task ''metadata'')) ''task'')"

definition effective_source :: "obj \<Rightarrow> obj" where
  "effective_source task = obj_of (py_or (dget task ''source'') (dget (source_task task) ''source''))"

definition effective_repo :: "obj \<Rightarrow> obj" where
  "effective_repo task = obj_of (py_or (dget task ''repo'') (dget (source_task task) ''repo''))"

definition repo_or_ref_key :: "obj \<Rightarrow> string \<Rightarrow> string" where
  "repo_or_ref_key task source_type =
     (let source = effective_source task;
          repo_slug = first_nonempty [nonempty (dget (effective_repo task) ''slug''), nonempty (dget task ''repo_slug'')]
      in if repo_slug \<noteq> [] then source_type @ '':'' @ repo_slug
         else source_type @ '':'' @ first_nonempty [nonempty (dget task ''source_ref''), nonempty (dget source ''item''),
                nonempty (dget source ''url''), nonempty (dget task ''task_key''), ''task''])"

definition task_project_key :: "obj \<Rightarrow> string" where
  "task_project_key task =
     (let source = effective_source task;
          f = (\<lambda>k. nonempty (dget source k));
          source_type = first_nonempty [f ''type'', nonempty (dget task ''source_type''), ''unknown''];
          project = first_nonempty [f ''project'', f ''project_name''];
          path = first_nonempty [f ''board_path'', f ''path''];
          name = first_nonempty [f ''source_name'', nonempty (dget task ''project_name'')];
          fallback = repo_or_ref_key task source_type
      in if source_type = ''github_project'' \<and> (f ''owner'' \<noteq> [] \<or> project \<noteq> []) then
           strip (''github_project:'' @ f ''owner'' @ ''/'' @ project)
         else if source_type = ''linear'' \<and> (f ''team'' \<noteq> [] \<or> project \<noteq> []) then
           strip (''linear:'' @ f ''team'' @ ''/'' @ first_nonempty [project, ''issues''])
         else if List.member [''kanban_board'', ''local_backlog''] source_type \<and> path \<noteq> [] then source_type @ '':'' @ path
         else if source_type = ''manual'' \<and> name \<noteq> [] then ''manual:'' @ name
         else if source_type = ''custom'' \<and> name \<noteq> [] then ''custom:'' @ name
         else fallback)"

text \<open>The filter's keys; no keys, no filter.\<close>

definition filter_project_tasks :: "string list \<Rightarrow> obj list \<Rightarrow> obj list" where
  "filter_project_tasks keys tasks =
     (let ks = filter (\<lambda>k. k \<noteq> []) (map strip keys) in
      if ks = [] then tasks else filter (\<lambda>t. List.member ks (task_project_key t)) tasks)"

definition task_repo_key :: "obj \<Rightarrow> string" where
  "task_repo_key task =
     (let repo = effective_repo task; source = effective_source task in
      first_nonempty
        [first_nonempty [nonempty (dget repo ''slug''), nonempty (dget task ''repo_slug'')],
         first_nonempty [nonempty (dget repo ''path''), nonempty (dget task ''repo_path'')],
         nonempty (dget source ''repo_name''), nonempty (dget source ''repo''), nonempty (dget task ''task_key''), ''repo''])"

definition normalize_scope_path :: "json \<Rightarrow> string" where
  "normalize_scope_path v =
     lstrip_by (\<lambda>c. c = CHR ''/'') (drop_dot_slash (replace_char (char_of (92::nat)) (CHR ''/'') (nonempty v)))"

text \<open>\<open>PurePosixPath(p).parts\<close> of a relative path.\<close>

definition path_parts :: "string \<Rightarrow> string list" where
  "path_parts p = filter (\<lambda>s. s \<noteq> [] \<and> s \<noteq> ''.'') (split_char (CHR ''/'') p)"

definition container_paths :: "obj \<Rightarrow> json list" where
  "container_paths c = concat (map (\<lambda>k. case dget c k of JList xs \<Rightarrow> xs | _ \<Rightarrow> []) [''files'', ''target_files''])"

type_synonym scope = "string list"

fun add_scopes :: "scope list \<Rightarrow> json list \<Rightarrow> scope list" where
  "add_scopes scopes [] = scopes"
| "add_scopes scopes (raw # paths) =
     (let parts = path_parts (normalize_scope_path raw) in
      if parts = [] \<or> List.member scopes parts then add_scopes scopes paths
      else add_scopes (scopes @ [parts]) paths)"

definition task_file_scopes :: "obj \<Rightarrow> scope list" where
  "task_file_scopes task =
     fold (\<lambda>c scopes. add_scopes scopes (container_paths c))
       [task, obj_of (dget task ''metadata''), source_task task] []"

definition paths_overlap :: "scope \<Rightarrow> scope \<Rightarrow> bool" where
  "paths_overlap l r =
     (l \<noteq> [] \<and> r \<noteq> [] \<and> (let n = min (length l) (length r) in take n l = take n r))"

definition scope_mode :: "obj \<Rightarrow> string" where
  "scope_mode task = (if task_file_scopes task \<noteq> [] then ''files'' else ''repo'')"

definition task_state_text :: "obj \<Rightarrow> string" where
  "task_state_text task = lower (strip (str_or_empty (py_or (dget task ''state'') (dget task ''status''))))"

definition active_state :: "obj \<Rightarrow> bool" where
  "active_state task = List.member [''claimed'', ''active'', ''review''] (task_state_text task)"

definition task_source_type :: "obj \<Rightarrow> string" where
  "task_source_type task =
     lower (first_nonempty [nonempty (dget (effective_source task) ''type''), nonempty (dget task ''source_type'')])"

definition task_execution_backend :: "(obj \<Rightarrow> string) \<Rightarrow> obj \<Rightarrow> string" where
  "task_execution_backend backend_mode task =
     (let kind = classify_task_execution_kind task in
      if kind = ''linear_comment'' \<or> kind = ''github_pr_action'' then kind else backend_mode task)"

section \<open>Configuration and environment\<close>

record sched_cfg =
  sc_policy :: string
  sc_max_active_tasks :: int
  sc_max_per_project :: int
  sc_max_per_repo :: int
  sc_queue_depth_limit :: int
  sc_max_worker_runs :: int
  sc_triage_enabled :: bool
  sc_triage_enforce :: bool
  sc_allowed_classes :: "string option"

record linear_blocker =
  lb_reason :: string
  lb_blocked_reason :: json
  lb_authorization_url :: json

record plan_env =
  pe_linear :: "linear_blocker option"
  pe_coder_runs :: "(json \<times> json) list"
  pe_backend_mode :: "obj \<Rightarrow> string"
  pe_dash :: string

record admission =
  ad_project :: string
  ad_repo :: string
  ad_backend :: string
  ad_scope_mode :: string
  ad_scopes :: "scope list"
  ad_triage :: "triage_verdict option"
  ad_task :: obj

text \<open>A blocked entry: its reason, the task it is about, and the dict the code records.\<close>

record blocked_entry =
  bl_reason :: string
  bl_task :: obj
  bl_dict :: obj

definition blocked_base :: "string \<Rightarrow> obj \<Rightarrow> string \<Rightarrow> obj" where
  "blocked_base project task reason =
     [(''task_key'', dget task ''task_key''), (''project_key'', JStr project),
      (''repo_key'', JStr (task_repo_key task)), (''reason'', JStr reason)]"

definition scope_paths :: "obj \<Rightarrow> json" where
  "scope_paths task = JList (map (\<lambda>parts. JStr (join ''/'' parts)) (task_file_scopes task))"

section \<open>The queue filter\<close>

record intake =
  in_groups :: "(string \<times> obj list) list"
  in_blocked :: "blocked_entry list"
  in_verdicts :: "triage_verdict list"
  in_by_key :: "(string \<times> triage_verdict) list"

text \<open>The entries of the filter carry extra fields, the scope mode and the task itself.\<close>

definition blocked_of :: "obj \<Rightarrow> string \<Rightarrow> obj \<Rightarrow> blocked_entry" where
  "blocked_of task reason extra =
     \<lparr>bl_reason = reason, bl_task = task,
      bl_dict = blocked_base (task_project_key task) task reason @ extra @
        [(''scope_mode'', JStr (scope_mode task)), (''task'', JObj task)]\<rparr>"

definition verdict_obj :: "triage_verdict \<Rightarrow> obj" where
  "verdict_obj v = [(''verdict'', JStr (tv_verdict v)), (''issue_class'', opt_str (tv_class v)),
     (''reason'', JStr (tv_reason v))]"

definition triage_of :: "sched_cfg \<Rightarrow> obj \<Rightarrow> triage_verdict option" where
  "triage_of cfg task = (if sc_triage_enabled cfg then Some (triage_task (sc_allowed_classes cfg) task) else None)"

definition withheld_by_triage :: "sched_cfg \<Rightarrow> obj \<Rightarrow> bool" where
  "withheld_by_triage cfg task = (case triage_of cfg task of
      Some v \<Rightarrow> sc_triage_enforce cfg \<and> tv_verdict v \<noteq> ACCEPTED | None \<Rightarrow> False)"

definition dependency_dict :: "obj \<Rightarrow> obj" where
  "dependency_dict task = obj_of (dget task ''dependency_status'')"

definition coder_active :: "plan_env \<Rightarrow> obj \<Rightarrow> bool" where
  "coder_active env task =
     (let keys = filter (\<lambda>k. k \<noteq> []) (map (\<lambda>(k, i). nonempty k) (pe_coder_runs env));
          ids = filter (\<lambda>k. k \<noteq> []) (map (\<lambda>(k, i). nonempty i) (pe_coder_runs env));
          key = nonempty (dget task ''task_key''); tid = nonempty (dget task ''task_id'')
      in (key \<noteq> [] \<and> List.member keys key) \<or> (tid \<noteq> [] \<and> List.member ids tid))"

text \<open>The blocker of the Linear connector applies only if some queued task comes from Linear.\<close>

definition linear_blocked :: "plan_env \<Rightarrow> obj list \<Rightarrow> linear_blocker option" where
  "linear_blocked env queued =
     (if list_ex (\<lambda>t. task_source_type t = ''linear'') queued then pe_linear env else None)"

definition intake_blocks :: "sched_cfg \<Rightarrow> plan_env \<Rightarrow> linear_blocker option \<Rightarrow> obj \<Rightarrow> blocked_entry option" where
  "intake_blocks cfg env lb task =
     (if withheld_by_triage cfg task then
        (case triage_of cfg task of
           Some v \<Rightarrow> Some (blocked_of task (''triage_'' @ tv_verdict v) [(''triage'', JObj (verdict_obj v))])
         | None \<Rightarrow> None)
      else (case (if task_source_type task = ''linear'' then lb else None) of
          Some b \<Rightarrow> Some (blocked_of task (lb_reason b) [(''blocked_reason'', lb_blocked_reason b),
                       (''authorization_url'', lb_authorization_url b)])
        | None \<Rightarrow>
            (if truthy (dget (dependency_dict task) ''blocked'') then
               Some (blocked_of task ''dependency_blocked''
                 [(''blocked_reason'', dget (dependency_dict task) ''blocked_reason'')])
             else if coder_active env task then Some (blocked_of task ''coder_run_active'' [])
             else None)))"

text \<open>\<open>grouped.setdefault(key, deque()).append(task)\<close>.\<close>

fun add_to_group :: "string \<Rightarrow> obj \<Rightarrow> (string \<times> obj list) list \<Rightarrow> (string \<times> obj list) list" where
  "add_to_group k t [] = [(k, [t])]"
| "add_to_group k t ((j, q) # gs) = (if j = k then (j, q @ [t]) # gs else (j, q) # add_to_group k t gs)"

definition intake_task :: "sched_cfg \<Rightarrow> plan_env \<Rightarrow> linear_blocker option \<Rightarrow> obj \<Rightarrow> intake \<Rightarrow> intake" where
  "intake_task cfg env lb task s =
     (let s1 = (case triage_of cfg task of None \<Rightarrow> s
                | Some v \<Rightarrow> s\<lparr>in_verdicts := in_verdicts s @ [v],
                     in_by_key := (let k = nonempty (dget task ''task_key'') in
                                   if k = [] then in_by_key s else AList.update k v (in_by_key s))\<rparr>)
      in case intake_blocks cfg env lb task of
           Some b \<Rightarrow> s1\<lparr>in_blocked := in_blocked s1 @ [b]\<rparr>
         | None \<Rightarrow> s1\<lparr>in_groups := add_to_group (task_project_key task) task (in_groups s1)\<rparr>)"

definition intake_queue :: "sched_cfg \<Rightarrow> plan_env \<Rightarrow> obj list \<Rightarrow> intake" where
  "intake_queue cfg env queued =
     fold (intake_task cfg env (linear_blocked env queued)) queued
       \<lparr>in_groups = [], in_blocked = [], in_verdicts = [], in_by_key = []\<rparr>"

section \<open>The admission loop\<close>

record plan_state =
  ps_groups :: "(string \<times> obj list) list"
  ps_admitted :: "admission list"
  ps_blocked :: "blocked_entry list"
  ps_by_project :: "string \<Rightarrow> int"
  ps_by_repo :: "string \<Rightarrow> int"
  ps_locked :: "string \<Rightarrow> bool"
  ps_scopes :: "string \<Rightarrow> scope list"

definition bump :: "string \<Rightarrow> (string \<Rightarrow> int) \<Rightarrow> string \<Rightarrow> int" where
  "bump k f = f(k := f k + 1)"

text \<open>What an active or admitted task takes up.\<close>

definition occupy :: "string \<Rightarrow> obj \<Rightarrow> plan_state \<Rightarrow> plan_state" where
  "occupy project task s =
     (let repo = task_repo_key task; scopes = task_file_scopes task in
      s\<lparr>ps_by_project := bump project (ps_by_project s), ps_by_repo := bump repo (ps_by_repo s),
        ps_scopes := (if scopes \<noteq> [] then (ps_scopes s)(repo := ps_scopes s repo @ scopes) else ps_scopes s),
        ps_locked := (if scopes \<noteq> [] then ps_locked s else (ps_locked s)(repo := True))\<rparr>)"

record plan_limits =
  pl_max_total :: int
  pl_max_per_project :: int
  pl_max_per_repo :: int

definition scopes_overlap :: "scope list \<Rightarrow> scope list \<Rightarrow> bool" where
  "scopes_overlap xs ys = list_ex (\<lambda>y. list_ex (\<lambda>x. paths_overlap x y) xs) ys"

text \<open>The reason a candidate cannot be admitted now, if there is one.\<close>

definition admission_block :: "plan_limits \<Rightarrow> string \<Rightarrow> obj \<Rightarrow> plan_state \<Rightarrow> string option" where
  "admission_block lim project task s =
     (let repo = task_repo_key task; scopes = task_file_scopes task in
      if ps_by_project s project \<ge> pl_max_per_project lim then Some ''project_capacity_reached''
      else if ps_by_repo s repo \<ge> pl_max_per_repo lim then Some ''repo_capacity_reached''
      else if ps_locked s repo then Some ''repo_overlap_reached''
      else if scopes = [] \<and> ps_scopes s repo \<noteq> [] then Some ''repo_overlap_reached''
      else if scopes \<noteq> [] \<and> scopes_overlap scopes (ps_scopes s repo) then Some ''file_overlap_reached''
      else None)"

definition queue_of :: "string \<Rightarrow> plan_state \<Rightarrow> obj list" where
  "queue_of k s = (case map_of (ps_groups s) k of Some q \<Rightarrow> q | None \<Rightarrow> [])"

definition pop_queue :: "string \<Rightarrow> plan_state \<Rightarrow> plan_state" where
  "pop_queue k s = s\<lparr>ps_groups := map (\<lambda>(j, q). (j, if j = k then tl q else q)) (ps_groups s)\<rparr>"

definition make_admission :: "(obj \<Rightarrow> string) \<Rightarrow> (string \<times> triage_verdict) list \<Rightarrow> string \<Rightarrow> obj \<Rightarrow> admission" where
  "make_admission backend_mode by_key project task =
     \<lparr>ad_project = project, ad_repo = task_repo_key task,
      ad_backend = task_execution_backend backend_mode task, ad_scope_mode = scope_mode task,
      ad_scopes = task_file_scopes task, ad_triage = map_of by_key (nonempty (dget task ''task_key'')),
      ad_task = task\<rparr>"

definition refusal_dict :: "string \<Rightarrow> obj \<Rightarrow> string \<Rightarrow> obj" where
  "refusal_dict project task reason = blocked_base project task reason @
     (if List.member [''project_capacity_reached'', ''repo_capacity_reached''] reason then []
      else if reason = ''repo_overlap_reached'' then [(''scope_mode'', JStr (scope_mode task))]
      else [(''scope_mode'', JStr ''files''), (''scope_paths'', scope_paths task)])"

text \<open>One candidate: blocked or admitted, and popped.\<close>

definition consider_candidate ::
    "plan_limits \<Rightarrow> (obj \<Rightarrow> string) \<Rightarrow> (string \<times> triage_verdict) list \<Rightarrow> string \<Rightarrow> obj \<Rightarrow> plan_state \<Rightarrow> plan_state" where
  "consider_candidate lim mode by_key project task s =
     (case admission_block lim project task s of
        Some reason \<Rightarrow> pop_queue project (s\<lparr>ps_blocked := ps_blocked s @
          [\<lparr>bl_reason = reason, bl_task = task, bl_dict = refusal_dict project task reason\<rparr>]\<rparr>)
      | None \<Rightarrow> pop_queue project (occupy project task
          (s\<lparr>ps_admitted := ps_admitted s @ [make_admission mode by_key project task]\<rparr>)))"

text \<open>One round over the projects, which an admission that reaches the total ends; and whether it made progress.\<close>

fun sweep ::
    "plan_limits \<Rightarrow> (obj \<Rightarrow> string) \<Rightarrow> (string \<times> triage_verdict) list \<Rightarrow> string list \<Rightarrow> plan_state \<Rightarrow> bool \<times> plan_state" where
  "sweep lim mode by_key [] s = (False, s)"
| "sweep lim mode by_key (p # ps) s =
     (case queue_of p s of
        [] \<Rightarrow> sweep lim mode by_key ps s
      | task # rest \<Rightarrow>
          (let s' = consider_candidate lim mode by_key p task s in
           if admission_block lim p task s = None \<and> int (length (ps_admitted s')) \<ge> pl_max_total lim then (True, s')
           else (True, snd (sweep lim mode by_key ps s'))))"

definition pending_total :: "plan_state \<Rightarrow> nat" where
  "pending_total s = sum_list (map (\<lambda>(k, q). length q) (ps_groups s))"

text \<open>Popping a non-empty queue makes the total smaller, so the loop ends.\<close>

lemma consider_groups:
  "ps_groups (consider_candidate lim mode by_key p task s) = ps_groups (pop_queue p s)"
  by (simp add: consider_candidate_def pop_queue_def occupy_def Let_def split: option.split)

lemma pending_total_groups: "ps_groups s = ps_groups s' \<Longrightarrow> pending_total s = pending_total s'"
  by (simp add: pending_total_def)

lemma pop_total_le: "pending_total (pop_queue p s) \<le> pending_total s"
proof -
  have "sum_list (map (\<lambda>(k, q). length q) (map (\<lambda>(j, q). (j, if j = p then tl q else q)) gs))
      \<le> sum_list (map (\<lambda>(k, q). length q) gs)" for gs :: "(string \<times> obj list) list"
    by (induction gs) (auto simp: add_mono)
  then show ?thesis by (simp add: pending_total_def pop_queue_def)
qed

lemma pop_total_less: "queue_of p s \<noteq> [] \<Longrightarrow> pending_total (pop_queue p s) < pending_total s"
proof -
  have le: "sum_list (map (\<lambda>(k, q). length q) (map (\<lambda>(j, q). (j, if j = p then tl q else q)) gs))
      \<le> sum_list (map (\<lambda>(k, q). length q) gs)" for gs :: "(string \<times> obj list) list"
    by (induction gs) (auto simp: add_mono)
  have "(case map_of gs p of Some q \<Rightarrow> q | None \<Rightarrow> []) \<noteq> [] \<Longrightarrow>
      sum_list (map (\<lambda>(k, q). length q) (map (\<lambda>(j, q). (j, if j = p then tl q else q)) gs))
      < sum_list (map (\<lambda>(k, q). length q) gs)" for gs :: "(string \<times> obj list) list"
  proof (induction gs)
    case (Cons g gs)
    obtain j q where g: "g = (j, q)" by (cases g)
    show ?case
    proof (cases "j = p")
      case True
      with Cons.prems g have "length (tl q) < length q" by (cases q) simp_all
      then have "length (tl q) + sum_list (map (\<lambda>(k, q). length q) (map (\<lambda>(j, q). (j, if j = p then tl q else q)) gs))
          < length q + sum_list (map (\<lambda>(k, q). length q) gs)"
        using le [of gs] by (rule add_less_le_mono)
      with True g show ?thesis by simp
    next
      case False
      with Cons g show ?thesis by simp
    qed
  qed simp
  then show "queue_of p s \<noteq> [] \<Longrightarrow> ?thesis" by (simp add: pending_total_def pop_queue_def queue_of_def)
qed

lemma sweep_total_le: "pending_total (snd (sweep lim mode by_key ps s)) \<le> pending_total s"
proof (induction ps arbitrary: s)
  case (Cons p ps)
  have "pending_total (consider_candidate lim mode by_key p t s) \<le> pending_total s" for t
    using pop_total_le [of p s] by (simp add: pending_total_def consider_groups)
  then show ?case using Cons by (auto simp: Let_def split: list.split intro: le_trans)
qed simp

lemma sweep_progress:
  "fst (sweep lim mode by_key ps s) \<Longrightarrow> pending_total (snd (sweep lim mode by_key ps s)) < pending_total s"
proof (induction ps arbitrary: s)
  case (Cons p ps)
  show ?case
  proof (cases "queue_of p s")
    case Nil
    with Cons show ?thesis by simp
  next
    case q: (Cons t rest)
    have "pending_total (consider_candidate lim mode by_key p t s) < pending_total s"
      using pop_total_less [of p s] q by (simp add: pending_total_def consider_groups)
    then show ?thesis
      using q sweep_total_le [of lim mode by_key ps "consider_candidate lim mode by_key p t s"]
      by (auto simp: Let_def)
  qed
qed simp

function admission_loop ::
    "plan_limits \<Rightarrow> (obj \<Rightarrow> string) \<Rightarrow> (string \<times> triage_verdict) list \<Rightarrow> string list \<Rightarrow> plan_state \<Rightarrow> plan_state" where
  "admission_loop lim mode by_key projects s =
     (if int (length (ps_admitted s)) < pl_max_total lim \<and> list_ex (\<lambda>(k, q). q \<noteq> []) (ps_groups s) then
        (let (progressed, s') = sweep lim mode by_key projects s in
         if progressed then admission_loop lim mode by_key projects s' else s')
      else s)"
  by pat_completeness auto
termination
  by (relation "measure (\<lambda>(lim, mode, by_key, projects, s). pending_total s)")
    (auto dest: sweep_progress simp: prod_eq_iff)

declare admission_loop.simps [simp del]

section \<open>The plan\<close>

definition start_state :: "obj list \<Rightarrow> intake \<Rightarrow> plan_state" where
  "start_state active_tasks i =
     fold (\<lambda>t. occupy (task_project_key t) t) active_tasks
       \<lparr>ps_groups = in_groups i, ps_admitted = [], ps_blocked = in_blocked i, ps_by_project = (\<lambda>_. 0),
        ps_by_repo = (\<lambda>_. 0), ps_locked = (\<lambda>_. False), ps_scopes = (\<lambda>_. [])\<rparr>"

record plan_slots =
  sl_max_active :: int
  sl_max_workers :: int
  sl_worker_count :: int
  sl_remaining_active :: int
  sl_remaining_workers :: int

definition compute_slots :: "sched_cfg \<Rightarrow> int \<Rightarrow> int \<Rightarrow> plan_slots" where
  "compute_slots cfg active_count coder_count =
     (let max_active = max 1 (sc_max_active_tasks cfg);
          max_workers = max 0 (sc_max_worker_runs cfg);
          worker_count = max active_count coder_count;
          remaining_active = max 0 (max_active - active_count)
      in \<lparr>sl_max_active = max_active, sl_max_workers = max_workers, sl_worker_count = worker_count,
          sl_remaining_active = remaining_active,
          sl_remaining_workers = (if max_workers > 0 then max 0 (max_workers - worker_count) else remaining_active)\<rparr>)"

definition plan_limits_of :: "sched_cfg \<Rightarrow> plan_slots \<Rightarrow> plan_limits" where
  "plan_limits_of cfg sl =
     \<lparr>pl_max_total = min (sl_remaining_active sl) (sl_remaining_workers sl),
      pl_max_per_project = max 1 (sc_max_per_project cfg), pl_max_per_repo = max 1 (sc_max_per_repo cfg)\<rparr>"

definition capacity_reason :: "plan_slots \<Rightarrow> int \<Rightarrow> int \<Rightarrow> string" where
  "capacity_reason sl active_count admitted =
     (if sl_max_workers sl > 0 \<and> sl_worker_count sl + admitted \<ge> sl_max_workers sl then ''worker_concurrency_reached''
      else if active_count + admitted \<ge> sl_max_active sl then ''active_capacity_reached''
      else [])"

definition capacity_blocked :: "string \<Rightarrow> obj \<Rightarrow> blocked_entry" where
  "capacity_blocked reason task =
     \<lparr>bl_reason = reason, bl_task = task,
      bl_dict = blocked_base (task_project_key task) task reason @
        [(''scope_mode'', JStr (scope_mode task)), (''scope_paths'', scope_paths task)]\<rparr>"

text \<open>When the capacity is used up, what is left in the queues is blocked for that reason.\<close>

definition close_plan :: "plan_slots \<Rightarrow> int \<Rightarrow> plan_state \<Rightarrow> plan_state" where
  "close_plan sl active_count s =
     (let reason = capacity_reason sl active_count (int (length (ps_admitted s))) in
      if reason = [] then s
      else s\<lparr>ps_blocked := ps_blocked s @ map (capacity_blocked reason) (concat (map snd (ps_groups s))),
             ps_groups := map (\<lambda>(k, q). (k, [])) (ps_groups s)\<rparr>)"

definition make_plan :: "sched_cfg \<Rightarrow> plan_env \<Rightarrow> obj list \<Rightarrow> obj list \<Rightarrow> plan_state" where
  "make_plan cfg env queued active_tasks =
     (let i = intake_queue cfg env queued;
          active_count = int (length active_tasks);
          sl = compute_slots cfg active_count (int (length (pe_coder_runs env)))
      in close_plan sl active_count
           (admission_loop (plan_limits_of cfg sl) (pe_backend_mode env) (in_by_key i)
              (sort_texts (map fst (in_groups i))) (start_state active_tasks i)))"

text \<open>What the planner reads of the store, and what it writes: the escalations and the event.\<close>

definition fetch_limit :: "sched_cfg \<Rightarrow> string list \<Rightarrow> int \<Rightarrow> int" where
  "fetch_limit cfg keys requested =
     (if filter (\<lambda>k. k \<noteq> []) (map strip keys) = [] then requested
      else max requested (max (sc_queue_depth_limit cfg) 1000))"

definition requested_limit :: "sched_cfg \<Rightarrow> int option \<Rightarrow> int" where
  "requested_limit cfg limit =
     max 1 (case limit of Some n \<Rightarrow> int_or n (sc_queue_depth_limit cfg) | None \<Rightarrow> sc_queue_depth_limit cfg)"

definition queued_for_plan :: "sched_cfg \<Rightarrow> int option \<Rightarrow> string list \<Rightarrow> db \<Rightarrow> obj list" where
  "queued_for_plan cfg limit keys d =
     (let n = requested_limit cfg limit in
      take (nat n) (filter_project_tasks keys (list_tasks (Some ''queued'') None None None (fetch_limit cfg keys n) d)))"

definition active_for_capacity :: "sched_cfg \<Rightarrow> int option \<Rightarrow> string list \<Rightarrow> db \<Rightarrow> obj list" where
  "active_for_capacity cfg limit keys d =
     filter active_state (list_tasks None None None None (fetch_limit cfg keys (requested_limit cfg limit)) d)"

definition escalate_withheld :: "sched_cfg \<Rightarrow> plan_env \<Rightarrow> int \<Rightarrow> obj list \<Rightarrow> db \<Rightarrow> db" where
  "escalate_withheld cfg env now queued d =
     fold (\<lambda>t d. case triage_of cfg t of
         Some v \<Rightarrow> if withheld_by_triage cfg t then snd (escalate_triaged_task (pe_dash env) now t v d) else d
       | None \<Rightarrow> d) queued d"

definition admission_event :: "admission \<Rightarrow> json" where
  "admission_event a = JObj [(''task_key'', dget (ad_task a) ''task_key''), (''project_key'', JStr (ad_project a)),
     (''repo_key'', JStr (ad_repo a)), (''execution_backend'', JStr (ad_backend a)), (''scope_mode'', JStr (ad_scope_mode a))]"

definition plan_event :: "sched_cfg \<Rightarrow> plan_slots \<Rightarrow> int \<Rightarrow> int \<Rightarrow> plan_state \<Rightarrow> json" where
  "plan_event cfg sl queued_count active_count plan =
     JObj [(''policy'', JStr (sc_policy cfg)),
       (''limits'', JObj [(''max_active_tasks'', JInt (sl_max_active sl)),
          (''max_concurrent_worker_runs'', JInt (sl_max_workers sl)),
          (''remaining_active_slots'', JInt (sl_remaining_active sl)),
          (''remaining_worker_slots'', JInt (sl_remaining_workers sl)),
          (''max_active_tasks_per_project'', JInt (max 1 (sc_max_per_project cfg))),
          (''max_active_tasks_per_repo'', JInt (max 1 (sc_max_per_repo cfg))),
          (''queue_depth_limit'', JInt (sc_queue_depth_limit cfg))]),
       (''queued_tasks'', JInt queued_count), (''active_tasks'', JInt active_count),
       (''admitted'', JList (map admission_event (ps_admitted plan))),
       (''blocked'', JList (map (\<lambda>b. JObj (bl_dict b)) (ps_blocked plan)))]"

definition plan_task_admissions ::
    "sched_cfg \<Rightarrow> plan_env \<Rightarrow> int \<Rightarrow> int option \<Rightarrow> string list \<Rightarrow> db \<Rightarrow> plan_state \<times> db" where
  "plan_task_admissions cfg env now limit keys d =
     (let queued = queued_for_plan cfg limit keys d;
          busy = active_for_capacity cfg limit keys d;
          shown = take (nat (requested_limit cfg limit)) (filter_project_tasks keys busy);
          sl = compute_slots cfg (int (length busy)) (int (length (pe_coder_runs env)));
          plan = make_plan cfg env queued busy;
          d1 = escalate_withheld cfg env now queued d
      in (plan, snd (record_scheduler_event now ''scheduler.plan''
            (plan_event cfg sl (int (length queued)) (int (length shown)) plan) d1)))"

section \<open>Lemmas\<close>

subsection \<open>Invariants of the loop\<close>

lemma consider_admitted:
  "ps_admitted (consider_candidate lim mode by_key p t s) =
     (if admission_block lim p t s = None then ps_admitted s @ [make_admission mode by_key p t] else ps_admitted s)"
  by (auto simp: consider_candidate_def pop_queue_def occupy_def Let_def split: option.split)

text \<open>
  An invariant that every step of the loop keeps, in a state below the total and with its candidate at
  the head of the project's queue, holds at the end.
\<close>

lemma sweep_keeps:
  assumes step: "\<And>p t rest s. P s \<Longrightarrow> int (length (ps_admitted s)) < pl_max_total lim \<Longrightarrow> queue_of p s = t # rest \<Longrightarrow>
      P (consider_candidate lim mode by_key p t s)"
    and "P s" and "int (length (ps_admitted s)) < pl_max_total lim"
  shows "P (snd (sweep lim mode by_key ps s))"
  using assms(2,3)
proof (induction ps arbitrary: s)
  case (Cons p ps)
  show ?case
  proof (cases "queue_of p s")
    case Nil
    with Cons show ?thesis by simp
  next
    case q: (Cons t rest)
    let ?s = "consider_candidate lim mode by_key p t s"
    have P: "P ?s" using Cons.prems q by (intro step)
    show ?thesis
    proof (cases "admission_block lim p t s = None \<and> int (length (ps_admitted ?s)) \<ge> pl_max_total lim")
      case True
      with P q show ?thesis by (simp add: Let_def)
    next
      case False
      then have "int (length (ps_admitted ?s)) < pl_max_total lim"
        using Cons.prems(2) by (auto simp: consider_admitted split: if_splits)
      with Cons.IH [OF P] q False show ?thesis by (simp add: Let_def)
    qed
  qed
qed simp

lemma loop_keeps:
  assumes step: "\<And>p t rest s. P s \<Longrightarrow> int (length (ps_admitted s)) < pl_max_total lim \<Longrightarrow> queue_of p s = t # rest \<Longrightarrow>
      P (consider_candidate lim mode by_key p t s)"
    and "P s"
  shows "P (admission_loop lim mode by_key projects s)"
  using assms(2)
proof (induction "pending_total s" arbitrary: s rule: less_induct)
  case less
  show ?case
  proof (cases "int (length (ps_admitted s)) < pl_max_total lim \<and> list_ex (\<lambda>(k, q). q \<noteq> []) (ps_groups s)")
    case False
    with less.prems show ?thesis by (auto simp: admission_loop.simps [of lim mode by_key projects s])
  next
    case True
    obtain b s' where sw: "sweep lim mode by_key projects s = (b, s')" by (cases "sweep lim mode by_key projects s")
    have P: "P s'"
      using sweep_keeps [of P lim mode by_key s projects] step less.prems True sw by auto
    show ?thesis
    proof (cases b)
      case True
      then have "pending_total s' < pending_total s"
        using sweep_progress [of lim mode by_key projects s] sw by simp
      from less.hyps [OF this P] True sw \<open>int (length (ps_admitted s)) < pl_max_total lim \<and> _\<close> show ?thesis
        by (simp add: admission_loop.simps [of lim mode by_key projects s])
    next
      case False
      with P sw \<open>int (length (ps_admitted s)) < pl_max_total lim \<and> _\<close> show ?thesis
        by (simp add: admission_loop.simps [of lim mode by_key projects s])
    qed
  qed
qed

lemma sweep_stuck:
  "\<not> fst (sweep lim mode by_key ps s) \<Longrightarrow> snd (sweep lim mode by_key ps s) = s \<and> (\<forall>p\<in>set ps. queue_of p s = [])"
  by (induction ps arbitrary: s) (auto simp: Let_def split: list.splits if_splits)

text \<open>The loop ends only at the total or with empty queues.\<close>

lemma loop_end:
  assumes "fst ` set (ps_groups s) \<subseteq> set projects" and "distinct (map fst (ps_groups s))"
  shows "int (length (ps_admitted (admission_loop lim mode by_key projects s))) \<ge> pl_max_total lim \<or>
    concat (map snd (ps_groups (admission_loop lim mode by_key projects s))) = []"
  using assms
proof (induction "pending_total s" arbitrary: s rule: less_induct)
  case less
  have sim: "map fst (ps_groups (snd (sweep lim mode by_key ps s))) = map fst (ps_groups s)" for ps s
  proof (induction ps arbitrary: s)
    case (Cons p ps)
    have "map fst (ps_groups (consider_candidate lim mode by_key p t s)) = map fst (ps_groups s)" for t s
      by (simp add: consider_groups pop_queue_def comp_def split_beta)
    with Cons show ?case by (auto simp: Let_def split: list.split)
  qed simp
  show ?case
  proof (cases "int (length (ps_admitted s)) < pl_max_total lim \<and> list_ex (\<lambda>(k, q). q \<noteq> []) (ps_groups s)")
    case False
    then show ?thesis by (auto simp: admission_loop.simps [of lim mode by_key projects s] list_ex_iff)
  next
    case go: True
    obtain b s' where sw: "sweep lim mode by_key projects s = (b, s')" by (cases "sweep lim mode by_key projects s")
    have keys: "map fst (ps_groups s') = map fst (ps_groups s)" using sim [of projects s] sw by simp
    show ?thesis
    proof (cases b)
      case True
      have "pending_total s' < pending_total s"
        using sweep_progress [of lim mode by_key projects s] sw True by simp
      moreover have "fst ` set (ps_groups s') \<subseteq> set projects" "distinct (map fst (ps_groups s'))"
        using less.prems keys by (metis list.set_map)+
      ultimately show ?thesis
        using less.hyps go sw True by (simp add: admission_loop.simps [of lim mode by_key projects s])
    next
      case False
      from go obtain k q where kq: "(k, q) \<in> set (ps_groups s)" "q \<noteq> []" by (auto simp: list_ex_iff)
      then have "queue_of k s = q" using less.prems(2) by (simp add: queue_of_def)
      moreover have "k \<in> set projects" using kq(1) less.prems(1) by force
      ultimately show ?thesis using sweep_stuck [of lim mode by_key projects s] sw False kq(2) by auto
    qed
  qed
qed

subsection \<open>Capacity\<close>

definition count_in :: "('a \<Rightarrow> string) \<Rightarrow> string \<Rightarrow> 'a list \<Rightarrow> int" where
  "count_in f k xs = int (length (filter (\<lambda>x. f x = k) xs))"

lemma count_in_simps [simp]:
  "count_in f k [] = 0"
  "count_in f k (xs @ ys) = count_in f k xs + count_in f k ys"
  "count_in f k (x # xs) = (if f x = k then 1 else 0) + count_in f k xs"
  by (simp_all add: count_in_def)

lemma count_in_nonneg: "0 \<le> count_in f k xs"
  by (simp add: count_in_def)

lemma occupy_frame [simp]:
  "ps_groups (occupy p t s) = ps_groups s" "ps_admitted (occupy p t s) = ps_admitted s"
  "ps_blocked (occupy p t s) = ps_blocked s"
  "ps_by_project (occupy p t s) q = ps_by_project s q + (if q = p then 1 else 0)"
  "ps_by_repo (occupy p t s) r = ps_by_repo s r + (if r = task_repo_key t then 1 else 0)"
  by (simp_all add: occupy_def Let_def bump_def)

lemma pop_frame [simp]:
  "ps_admitted (pop_queue k s) = ps_admitted s" "ps_blocked (pop_queue k s) = ps_blocked s"
  "ps_by_project (pop_queue k s) = ps_by_project s" "ps_by_repo (pop_queue k s) = ps_by_repo s"
  "ps_locked (pop_queue k s) = ps_locked s" "ps_scopes (pop_queue k s) = ps_scopes s"
  by (simp_all add: pop_queue_def)

lemma start_state_fields:
  "ps_groups (start_state ts i) = in_groups i" "ps_admitted (start_state ts i) = []"
  "ps_blocked (start_state ts i) = in_blocked i"
  "ps_by_project (start_state ts i) p = count_in task_project_key p ts"
  "ps_by_repo (start_state ts i) r = count_in task_repo_key r ts"
proof -
  have "ps_groups (fold (\<lambda>t. occupy (task_project_key t) t) ts s) = ps_groups s \<and>
      ps_admitted (fold (\<lambda>t. occupy (task_project_key t) t) ts s) = ps_admitted s \<and>
      ps_blocked (fold (\<lambda>t. occupy (task_project_key t) t) ts s) = ps_blocked s \<and>
      ps_by_project (fold (\<lambda>t. occupy (task_project_key t) t) ts s) p = ps_by_project s p + count_in task_project_key p ts \<and>
      ps_by_repo (fold (\<lambda>t. occupy (task_project_key t) t) ts s) r = ps_by_repo s r + count_in task_repo_key r ts" for s
    by (induction ts arbitrary: s) auto
  then show "ps_groups (start_state ts i) = in_groups i" "ps_admitted (start_state ts i) = []"
    "ps_blocked (start_state ts i) = in_blocked i"
    "ps_by_project (start_state ts i) p = count_in task_project_key p ts"
    "ps_by_repo (start_state ts i) r = count_in task_repo_key r ts"
    by (simp_all add: start_state_def)
qed

definition cap_inv :: "plan_limits \<Rightarrow> obj list \<Rightarrow> plan_state \<Rightarrow> bool" where
  "cap_inv lim busy s \<longleftrightarrow>
     int (length (ps_admitted s)) \<le> max 0 (pl_max_total lim) \<and>
     (\<forall>p. ps_by_project s p = count_in task_project_key p busy + count_in ad_project p (ps_admitted s)) \<and>
     (\<forall>r. ps_by_repo s r = count_in task_repo_key r busy + count_in ad_repo r (ps_admitted s)) \<and>
     (\<forall>a\<in>set (ps_admitted s). ps_by_project s (ad_project a) \<le> pl_max_per_project lim \<and>
        ps_by_repo s (ad_repo a) \<le> pl_max_per_repo lim)"

lemma admission_block_None:
  "admission_block lim p t s = None \<longleftrightarrow>
     ps_by_project s p < pl_max_per_project lim \<and> ps_by_repo s (task_repo_key t) < pl_max_per_repo lim \<and>
     \<not> ps_locked s (task_repo_key t) \<and> (task_file_scopes t = [] \<longrightarrow> ps_scopes s (task_repo_key t) = []) \<and>
     (task_file_scopes t \<noteq> [] \<longrightarrow> \<not> scopes_overlap (task_file_scopes t) (ps_scopes s (task_repo_key t)))"
  by (auto simp: admission_block_def Let_def)

lemma make_admission_fields [simp]:
  "ad_project (make_admission m b p t) = p" "ad_repo (make_admission m b p t) = task_repo_key t"
  "ad_scopes (make_admission m b p t) = task_file_scopes t" "ad_task (make_admission m b p t) = t"
  by (simp_all add: make_admission_def)

lemma cap_inv_step:
  assumes "cap_inv lim busy s" and "int (length (ps_admitted s)) < pl_max_total lim"
  shows "cap_inv lim busy (consider_candidate lim mode by_key p t s)"
proof (cases "admission_block lim p t s")
  case (Some reason)
  with assms(1) show ?thesis by (auto simp: cap_inv_def consider_candidate_def)
next
  case None
  then have "ps_by_project s p < pl_max_per_project lim" "ps_by_repo s (task_repo_key t) < pl_max_per_repo lim"
    by (simp_all add: admission_block_None)
  with None assms show ?thesis by (auto simp: cap_inv_def consider_candidate_def)
qed

lemma cap_inv_start: "cap_inv lim busy (start_state busy i)"
  by (simp add: cap_inv_def start_state_fields)

lemma cap_inv_loop: "cap_inv lim busy (admission_loop lim mode by_key projects (start_state busy i))"
  by (rule loop_keeps) (simp_all add: cap_inv_step cap_inv_start)

subsection \<open>Scopes\<close>

definition occupied :: "plan_state \<Rightarrow> string \<Rightarrow> scope list \<Rightarrow> bool" where
  "occupied s repo sc = (if sc = [] then ps_locked s repo else set sc \<subseteq> set (ps_scopes s repo))"

text \<open>Two tasks of a repository may run together if both name their files and no two of them overlap.\<close>

definition compatible :: "scope list \<Rightarrow> scope list \<Rightarrow> bool" where
  "compatible x y \<longleftrightarrow> x \<noteq> [] \<and> y \<noteq> [] \<and> \<not> scopes_overlap x y"

definition scope_inv :: "obj list \<Rightarrow> plan_state \<Rightarrow> bool" where
  "scope_inv busy s \<longleftrightarrow>
     (\<forall>t\<in>set busy. occupied s (task_repo_key t) (task_file_scopes t)) \<and>
     (\<forall>a\<in>set (ps_admitted s). occupied s (ad_repo a) (ad_scopes a) \<and>
        (\<forall>t\<in>set busy. task_repo_key t = ad_repo a \<longrightarrow> compatible (ad_scopes a) (task_file_scopes t))) \<and>
     sorted_wrt (\<lambda>a b. ad_repo a = ad_repo b \<longrightarrow> compatible (ad_scopes b) (ad_scopes a)) (ps_admitted s)"

lemma scopes_overlap_mono: "scopes_overlap x y \<Longrightarrow> set y \<subseteq> set z \<Longrightarrow> scopes_overlap x z"
  by (auto simp: scopes_overlap_def list_ex_iff)

lemma admitted_compatible:
  assumes "admission_block lim p t s = None" and "occupied s (task_repo_key t) sc"
  shows "compatible (task_file_scopes t) sc"
proof -
  have sc: "sc \<noteq> []" "set sc \<subseteq> set (ps_scopes s (task_repo_key t))"
    using assms by (auto simp: occupied_def admission_block_None split: if_splits)
  then have "ps_scopes s (task_repo_key t) \<noteq> []" by auto
  then have "task_file_scopes t \<noteq> []" "\<not> scopes_overlap (task_file_scopes t) (ps_scopes s (task_repo_key t))"
    using assms(1) by (auto simp: admission_block_None)
  with sc show ?thesis by (auto simp: compatible_def dest: scopes_overlap_mono)
qed

lemma occupied_occupy:
  "occupied s repo sc \<Longrightarrow> occupied (occupy p t s) repo sc"
  "occupied (occupy p t s) (task_repo_key t) (task_file_scopes t)"
  by (auto simp: occupied_def occupy_def Let_def)

lemma occupied_cong:
  "ps_locked s = ps_locked s' \<Longrightarrow> ps_scopes s = ps_scopes s' \<Longrightarrow> occupied s repo sc = occupied s' repo sc"
  by (simp add: occupied_def)

lemma scope_inv_step:
  assumes "scope_inv busy s"
  shows "scope_inv busy (consider_candidate lim mode by_key p t s)"
proof (cases "admission_block lim p t s")
  case (Some reason)
  let ?s = "consider_candidate lim mode by_key p t s"
  have "occupied ?s = occupied s"
    using Some by (intro ext) (simp add: consider_candidate_def occupied_def)
  with Some assms show ?thesis by (simp add: scope_inv_def consider_candidate_def)
next
  case None
  let ?a = "make_admission mode by_key p t"
  let ?s = "consider_candidate lim mode by_key p t s"
  have occ: "occupied ?s r sc = occupied (occupy p t s) r sc" for r sc
    using None by (simp add: consider_candidate_def occupied_def occupy_def Let_def)
  have adm: "ps_admitted ?s = ps_admitted s @ [?a]" using None by (simp add: consider_admitted)
  have new: "compatible (task_file_scopes t) sc" if "occupied s (task_repo_key t) sc" for sc
    using admitted_compatible [OF None that] .
  show ?thesis
    using assms new unfolding scope_inv_def adm occ by (auto simp: sorted_wrt_append occupied_occupy)
qed

lemma scope_inv_start: "scope_inv busy (start_state busy i)"
proof -
  have "occupied s r sc \<Longrightarrow> occupied (fold (\<lambda>t. occupy (task_project_key t) t) ts s) r sc" for ts s r sc
    by (induction ts arbitrary: s) (simp_all add: occupied_occupy)
  then have "\<forall>t\<in>set ts. occupied (fold (\<lambda>t. occupy (task_project_key t) t) ts s) (task_repo_key t) (task_file_scopes t)" for ts s
    by (induction ts arbitrary: s) (auto simp: occupied_occupy)
  then show ?thesis by (simp add: scope_inv_def start_state_fields) (simp add: start_state_def)
qed

lemma scope_inv_loop: "scope_inv busy (admission_loop lim mode by_key projects (start_state busy i))"
  by (rule loop_keeps) (simp_all add: scope_inv_step scope_inv_start)

subsection \<open>No task is lost\<close>

definition accounted :: "plan_state \<Rightarrow> obj multiset" where
  "accounted s = mset (map ad_task (ps_admitted s)) + mset (map bl_task (ps_blocked s)) + mset (concat (map snd (ps_groups s)))"

lemma pop_mset:
  assumes "distinct (map fst gs)" and "map_of gs p = Some (t # rest)"
  shows "mset (concat (map snd gs)) = add_mset t (mset (concat (map snd (map (\<lambda>(j, q). (j, if j = p then tl q else q)) gs))))"
  using assms
proof (induction gs)
  case (Cons g gs)
  obtain j q where g: "g = (j, q)" by (cases g)
  show ?case
  proof (cases "j = p")
    case True
    have "map (\<lambda>(j, q). (j, if j = p then tl q else q)) gs = gs"
      using Cons.prems(1) g True by (intro map_idI) force
    with Cons.prems g True show ?thesis by simp
  next
    case False
    with Cons g show ?thesis by simp
  qed
qed simp

lemma accounted_step:
  assumes "accounted s = M \<and> distinct (map fst (ps_groups s))" and "queue_of p s = t # rest"
  shows "accounted (consider_candidate lim mode by_key p t s) = M \<and>
    distinct (map fst (ps_groups (consider_candidate lim mode by_key p t s)))"
proof -
  have "map_of (ps_groups s) p = Some (t # rest)" using assms(2) by (auto simp: queue_of_def split: option.splits)
  note pm = pop_mset [OF conjunct2 [OF assms(1)] this]
  have "fst \<circ> (\<lambda>(j, q). (j, if j = p then tl q else q)) = (fst :: string \<times> obj list \<Rightarrow> string)"
    by (auto simp: fun_eq_iff)
  moreover have "ps_groups (consider_candidate lim mode by_key p t s) =
      map (\<lambda>(j, q). (j, if j = p then tl q else q)) (ps_groups s)"
    by (simp add: consider_groups pop_queue_def)
  ultimately show ?thesis
    using assms(1) pm
    by (cases "admission_block lim p t s") (simp_all add: accounted_def consider_candidate_def pop_queue_def occupy_def Let_def)
qed

lemma accounted_loop:
  assumes "distinct (map fst (ps_groups s))"
  shows "accounted (admission_loop lim mode by_key projects s) = accounted s \<and>
    distinct (map fst (ps_groups (admission_loop lim mode by_key projects s)))"
  by (rule loop_keeps [where P = "\<lambda>x. accounted x = accounted s \<and> distinct (map fst (ps_groups x))"])
    (use accounted_step assms in auto)

lemma add_to_group_mset: "mset (concat (map snd (add_to_group k t gs))) = add_mset t (mset (concat (map snd gs)))"
  by (induction k t gs rule: add_to_group.induct) auto

lemma add_to_group_keys: "fst ` set (add_to_group k t gs) = insert k (fst ` set gs)"
  by (induction k t gs rule: add_to_group.induct) auto

lemma add_to_group_distinct: "distinct (map fst gs) \<Longrightarrow> distinct (map fst (add_to_group k t gs))"
proof (induction k t gs rule: add_to_group.induct)
  case (2 k t j q gs)
  then show ?case by (auto simp: add_to_group_keys)
qed simp

text \<open>What the filter keeps: every task once, in its own project's queue unless it is blocked.\<close>

definition intake_inv :: "(obj \<Rightarrow> bool) \<Rightarrow> obj list \<Rightarrow> intake \<Rightarrow> bool" where
  "intake_inv ok seen i \<longleftrightarrow>
     mset seen = mset (map bl_task (in_blocked i)) + mset (concat (map snd (in_groups i))) \<and>
     distinct (map fst (in_groups i)) \<and>
     (\<forall>(k, q)\<in>set (in_groups i). \<forall>t\<in>set q. task_project_key t = k \<and> ok t)"

lemma intake_blocks_task: "intake_blocks cfg env lb t = Some b \<Longrightarrow> bl_task b = t"
  by (auto simp: intake_blocks_def blocked_of_def split: if_splits option.splits)

lemma in_add_to_group:
  "(k, q) \<in> set (add_to_group j t gs) \<Longrightarrow> x \<in> set q \<Longrightarrow>
     (x = t \<and> k = j) \<or> (\<exists>q'. (k, q') \<in> set gs \<and> x \<in> set q')"
  by (induction j t gs rule: add_to_group.induct) (auto split: if_splits)

lemma intake_inv_step:
  assumes "intake_inv ok seen i" and "intake_blocks cfg env lb t = None \<Longrightarrow> ok t"
  shows "intake_inv ok (seen @ [t]) (intake_task cfg env lb t i)"
proof (cases "intake_blocks cfg env lb t")
  case (Some b)
  then show ?thesis
    using assms(1) intake_blocks_task [OF Some]
    by (simp add: intake_inv_def intake_task_def Let_def split: option.split)
next
  case None
  have groups: "in_groups (intake_task cfg env lb t i) = add_to_group (task_project_key t) t (in_groups i)"
      "in_blocked (intake_task cfg env lb t i) = in_blocked i"
    using None by (simp_all add: intake_task_def Let_def split: option.split)
  show ?thesis
    unfolding intake_inv_def groups
  proof (intro conjI ballI)
    show "mset (seen @ [t]) = mset (map bl_task (in_blocked i)) +
        mset (concat (map snd (add_to_group (task_project_key t) t (in_groups i))))"
      using assms(1) by (simp add: intake_inv_def add_to_group_mset)
    show "distinct (map fst (add_to_group (task_project_key t) t (in_groups i)))"
      using assms(1) by (intro add_to_group_distinct) (simp add: intake_inv_def)
  next
    fix kq assume kq: "kq \<in> set (add_to_group (task_project_key t) t (in_groups i))"
    then show "case kq of (k, q) \<Rightarrow> \<forall>t\<in>set q. task_project_key t = k \<and> ok t"
    proof -
      obtain k q where Pair: "kq = (k, q)" by (cases kq)
      have "task_project_key x = k \<and> ok x" if "x \<in> set q" for x
      proof -
        have "(x = t \<and> k = task_project_key t) \<or> (\<exists>q'. (k, q') \<in> set (in_groups i) \<and> x \<in> set q')"
          using in_add_to_group kq that Pair by blast
        then show ?thesis using assms None by (auto simp: intake_inv_def)
      qed
      with Pair show ?thesis by simp
    qed
  qed
qed

lemma intake_inv_queue:
  "intake_inv (\<lambda>t. intake_blocks cfg env (linear_blocked env queued) t = None) queued (intake_queue cfg env queued)"
proof -
  let ?lb = "linear_blocked env queued"
  have "intake_inv (\<lambda>t. intake_blocks cfg env ?lb t = None) seen i \<Longrightarrow>
      intake_inv (\<lambda>t. intake_blocks cfg env ?lb t = None) (seen @ ts) (fold (intake_task cfg env ?lb) ts i)" for seen ts i
  proof (induction ts arbitrary: seen i)
    case (Cons t ts)
    from Cons.IH [of "seen @ [t]" "intake_task cfg env ?lb t i"] Cons.prems show ?case
      by (simp add: intake_inv_step)
  qed simp
  moreover have "intake_inv (\<lambda>t. intake_blocks cfg env ?lb t = None) []
      \<lparr>in_groups = [], in_blocked = [], in_verdicts = [], in_by_key = []\<rparr>" by (simp add: intake_inv_def)
  ultimately show ?thesis unfolding intake_queue_def by fastforce
qed

text \<open>Admitted tasks come from the queues of the filter.\<close>

definition from_queue :: "(string \<Rightarrow> obj \<Rightarrow> bool) \<Rightarrow> plan_state \<Rightarrow> bool" where
  "from_queue ok s \<longleftrightarrow> (\<forall>(k, q)\<in>set (ps_groups s). \<forall>t\<in>set q. ok k t) \<and>
     (\<forall>a\<in>set (ps_admitted s). ok (ad_project a) (ad_task a))"

lemma from_queue_step:
  assumes "from_queue ok s" and "queue_of p s = t # rest"
  shows "from_queue ok (consider_candidate lim mode by_key p t s)"
proof -
  have "ok p t" using assms by (force simp: from_queue_def queue_of_def dest: map_of_SomeD split: option.splits)
  moreover have "\<forall>(k, q)\<in>set (ps_groups (consider_candidate lim mode by_key p t s)). \<forall>t\<in>set q. ok k t"
  proof -
    have old: "ok k x" if "(k, q) \<in> set (ps_groups s)" "x \<in> set q" for k q x
      using assms(1) that by (auto simp: from_queue_def)
    have tl: "x \<in> set (tl q) \<Longrightarrow> x \<in> set q" for x :: obj and q by (cases q) simp_all
    show ?thesis unfolding consider_groups by (auto simp: pop_queue_def split: if_splits) (blast intro: old tl)+
  qed
  ultimately show ?thesis using assms(1) by (auto simp: from_queue_def consider_admitted)
qed

lemma set_sort_texts: "set (sort_texts ts) = set ts"
proof -
  have "set (insert_text s us) = insert s (set us)" for s us
    by (induction s us rule: insert_text.induct) auto
  then show ?thesis by (induction ts) (simp_all add: sort_texts_def)
qed

lemma concat_cleared [simp]: "concat (map (snd \<circ> (\<lambda>(k, q). (k, []))) gs) = []"
  by (induction gs) auto

lemma capacity_blocked_tasks [simp]: "image_mset bl_task (image_mset (capacity_blocked r) m) = m"
  by (simp add: image_mset.compositionality comp_def capacity_blocked_def)

lemma close_plan_fields:
  "ps_admitted (close_plan sl n s) = ps_admitted s" "accounted (close_plan sl n s) = accounted s"
  by (simp_all add: close_plan_def Let_def accounted_def)

lemma capacity_reason_reached:
  assumes "sl = compute_slots cfg n c" and "m \<ge> min (sl_remaining_active sl) (sl_remaining_workers sl)"
  shows "capacity_reason sl n m \<noteq> []"
  using assms by (auto simp: capacity_reason_def compute_slots_def Let_def min_def max_def split: if_splits)

definition plan_loop :: "sched_cfg \<Rightarrow> plan_env \<Rightarrow> obj list \<Rightarrow> obj list \<Rightarrow> plan_state" where
  "plan_loop cfg env queued busy =
     admission_loop (plan_limits_of cfg (compute_slots cfg (int (length busy)) (int (length (pe_coder_runs env)))))
       (pe_backend_mode env) (in_by_key (intake_queue cfg env queued))
       (sort_texts (map fst (in_groups (intake_queue cfg env queued)))) (start_state busy (intake_queue cfg env queued))"

lemma make_plan_eq:
  "make_plan cfg env queued busy =
     close_plan (compute_slots cfg (int (length busy)) (int (length (pe_coder_runs env)))) (int (length busy))
       (plan_loop cfg env queued busy)"
  by (simp add: make_plan_def plan_loop_def Let_def)

lemma plan_remaining_empty: "concat (map snd (ps_groups (make_plan cfg env queued busy))) = []"
proof -
  let ?sl = "compute_slots cfg (int (length busy)) (int (length (pe_coder_runs env)))"
  let ?i = "intake_queue cfg env queued"
  have "distinct (map fst (in_groups ?i))" using intake_inv_queue [of cfg env queued] by (simp add: intake_inv_def)
  then have "int (length (ps_admitted (plan_loop cfg env queued busy))) \<ge> pl_max_total (plan_limits_of cfg ?sl) \<or>
      concat (map snd (ps_groups (plan_loop cfg env queued busy))) = []"
    unfolding plan_loop_def by (intro loop_end) (simp_all add: start_state_fields set_sort_texts)
  then show ?thesis
    using capacity_reason_reached [OF refl, of cfg "int (length busy)" "int (length (pe_coder_runs env))"
        "int (length (ps_admitted (plan_loop cfg env queued busy)))"]
    by (auto simp: make_plan_eq close_plan_def Let_def plan_limits_of_def)
qed

lemma plan_accounted: "accounted (make_plan cfg env queued busy) = mset queued"
proof -
  let ?i = "intake_queue cfg env queued"
  have i: "mset queued = mset (map bl_task (in_blocked ?i)) + mset (concat (map snd (in_groups ?i)))" "distinct (map fst (in_groups ?i))"
    using intake_inv_queue [of cfg env queued] by (simp_all add: intake_inv_def)
  have "accounted (plan_loop cfg env queued busy) = accounted (start_state busy ?i)"
    unfolding plan_loop_def using accounted_loop [of "start_state busy ?i"] i(2) by (simp add: start_state_fields)
  also have "\<dots> = mset queued" by (simp add: accounted_def start_state_fields i(1))
  finally show ?thesis by (simp add: make_plan_eq close_plan_fields)
qed

lemma plan_from_queue:
  "from_queue (\<lambda>k t. task_project_key t = k \<and> intake_blocks cfg env (linear_blocked env queued) t = None)
     (plan_loop cfg env queued busy)"
  unfolding plan_loop_def
proof (rule loop_keeps)
  show "from_queue (\<lambda>k t. task_project_key t = k \<and> intake_blocks cfg env (linear_blocked env queued) t = None)
      (start_state busy (intake_queue cfg env queued))"
    using intake_inv_queue [of cfg env queued] by (simp add: from_queue_def start_state_fields intake_inv_def)
qed (rule from_queue_step)

lemma length_annotate: "length (annotate_from before after) = length before + length after"
  by (induction before after rule: annotate_from.induct) simp_all

lemma capacity_view_is_bounded_by_limit:
  assumes "filter (\<lambda>k. k \<noteq> []) (map strip keys) = []"
  shows "int (length (active_for_capacity cfg limit keys d)) \<le> requested_limit cfg limit"
proof -
  have "length (active_for_capacity cfg limit keys d) \<le> nat (max 1 (int_or (requested_limit cfg limit) 1))"
    using assms by (simp add: active_for_capacity_def list_tasks_def Let_def length_annotate fetch_limit_def
        le_trans [OF length_filter_le])
  moreover have "max 1 (int_or (requested_limit cfg limit) 1) = requested_limit cfg limit"
    by (simp add: requested_limit_def int_or_def)
  moreover have "requested_limit cfg limit \<ge> 1" by (simp add: requested_limit_def)
  ultimately show ?thesis by simp
qed

section \<open>A concrete plan\<close>

definition demo_cfg :: sched_cfg where
  "demo_cfg = \<lparr>sc_policy = ''fair'', sc_max_active_tasks = 2, sc_max_per_project = 2, sc_max_per_repo = 2,
     sc_queue_depth_limit = 10, sc_max_worker_runs = 0, sc_triage_enabled = False, sc_triage_enforce = False,
     sc_allowed_classes = None\<rparr>"

definition demo_env :: plan_env where
  "demo_env = \<lparr>pe_linear = None, pe_coder_runs = [], pe_backend_mode = (\<lambda>_. ''coder''), pe_dash = ''-''\<rparr>"

definition demo_item :: "string \<Rightarrow> string \<Rightarrow> obj" where
  "demo_item k f = [(''task_key'', JStr k), (''repo_slug'', JStr ''r''), (''files'', JList [JStr f]),
     (''source'', JObj [(''type'', JStr ''manual'')])]"

definition demo_queue :: "obj list" where
  "demo_queue = [demo_item ''a'' ''src/x.py'', demo_item ''b'' ''src'', demo_item ''c'' ''doc/y'', demo_item ''d'' ''z'']"

lemma demo_plan_admitted:
  "map (\<lambda>a. dget (ad_task a) ''task_key'') (ps_admitted (make_plan demo_cfg demo_env demo_queue [])) = [JStr ''a'', JStr ''c'']"
  by code_simp

text \<open>One task is being worked on, another one was queued after it.\<close>

definition demo_row :: "string \<Rightarrow> string \<Rightarrow> int \<Rightarrow> task_row" where
  "demo_row k st now = \<lparr>t_key = k, t_task_id = None, t_source_type = ''manual'', t_source_ref = k, t_title = k,
     t_repo_slug = k, t_repo_path = [], t_board_path = [], t_status = st, t_state = st, t_claimed_run_id = None,
     t_claimed_lease_id = None, t_claimed_by = None, t_claimed_host_id = None, t_lease_expires_at = None,
     t_created_at = now, t_updated_at = now, t_metadata = JObj []\<rparr>"

definition crowded_db :: db where
  "crowded_db = empty_db\<lparr>db_tasks := [demo_row ''a'' ''active'' 1, demo_row ''b'' ''queued'' 2]\<rparr>"

definition demo_planned :: "int \<Rightarrow> json list" where
  "demo_planned limit = map (\<lambda>a. dget (ad_task a) ''task_key'')
     (ps_admitted (fst (plan_task_admissions (demo_cfg\<lparr>sc_max_active_tasks := 1\<rparr>) demo_env 5 (Some limit) [] crowded_db)))"

section \<open>Properties\<close>

text \<open>
C22. Capacity. A plan admits no more tasks than the free slots (and, with a worker limit, the free
worker slots); and wherever it admits a task, the active and admitted tasks of that project together
stay within the per-project limit, and those of that repository within the per-repository limit.
\<close>

theorem plan_respects_capacity:
  "int (length (ps_admitted (make_plan cfg env queued busy))) \<le> max 0 (max 1 (sc_max_active_tasks cfg) - int (length busy)) \<and>
   (sc_max_worker_runs cfg > 0 \<longrightarrow>
      int (length (ps_admitted (make_plan cfg env queued busy))) \<le>
        max 0 (sc_max_worker_runs cfg - max (int (length busy)) (int (length (pe_coder_runs env))))) \<and>
   (\<forall>a\<in>set (ps_admitted (make_plan cfg env queued busy)).
      count_in task_project_key (ad_project a) busy + count_in ad_project (ad_project a) (ps_admitted (make_plan cfg env queued busy))
        \<le> max 1 (sc_max_per_project cfg) \<and>
      count_in task_repo_key (ad_repo a) busy + count_in ad_repo (ad_repo a) (ps_admitted (make_plan cfg env queued busy))
        \<le> max 1 (sc_max_per_repo cfg))"
proof -
  let ?sl = "compute_slots cfg (int (length busy)) (int (length (pe_coder_runs env)))"
  have inv: "cap_inv (plan_limits_of cfg ?sl) busy (plan_loop cfg env queued busy)"
    unfolding plan_loop_def by (rule cap_inv_loop)
  have adm: "ps_admitted (make_plan cfg env queued busy) = ps_admitted (plan_loop cfg env queued busy)"
    by (simp add: make_plan_eq close_plan_fields)
  have n: "int (length (ps_admitted (plan_loop cfg env queued busy))) \<le> max 0 (pl_max_total (plan_limits_of cfg ?sl))"
    using inv by (simp add: cap_inv_def)
  have active: "max 0 (pl_max_total (plan_limits_of cfg ?sl)) \<le> max 0 (max 1 (sc_max_active_tasks cfg) - int (length busy))"
    by (simp add: plan_limits_of_def compute_slots_def Let_def)
  have workers: "max 0 (pl_max_total (plan_limits_of cfg ?sl)) \<le>
      max 0 (sc_max_worker_runs cfg - max (int (length busy)) (int (length (pe_coder_runs env))))"
    if "sc_max_worker_runs cfg > 0"
    using that by (simp add: plan_limits_of_def compute_slots_def Let_def)
  have "\<forall>a\<in>set (ps_admitted (plan_loop cfg env queued busy)).
      count_in task_project_key (ad_project a) busy + count_in ad_project (ad_project a) (ps_admitted (plan_loop cfg env queued busy))
        \<le> max 1 (sc_max_per_project cfg) \<and>
      count_in task_repo_key (ad_repo a) busy + count_in ad_repo (ad_repo a) (ps_admitted (plan_loop cfg env queued busy))
        \<le> max 1 (sc_max_per_repo cfg)"
    using inv by (auto simp: cap_inv_def plan_limits_of_def)
  then show ?thesis unfolding adm using order_trans [OF n active] order_trans [OF n workers] by blast
qed

lemma plan_respects_capacity_witness:
  "int (length (ps_admitted (make_plan demo_cfg demo_env demo_queue [demo_item ''e'' ''w'']))) \<le> 1"
  using plan_respects_capacity [of demo_cfg demo_env demo_queue "[demo_item ''e'' ''w'']"]
  by (simp add: demo_cfg_def)

text \<open>
C23. No overlapping work. Two tasks admitted in one repository, or one admitted and one already
active there, both name their files and no path of one is a prefix of a path of the other; so a task
that names no files is admitted only into a repository nobody works in, and locks it.
\<close>

theorem plan_no_overlap:
  "sorted_wrt (\<lambda>a b. ad_repo a = ad_repo b \<longrightarrow> compatible (ad_scopes b) (ad_scopes a))
     (ps_admitted (make_plan cfg env queued busy)) \<and>
   (\<forall>a\<in>set (ps_admitted (make_plan cfg env queued busy)). \<forall>t\<in>set busy. task_repo_key t = ad_repo a \<longrightarrow>
      compatible (ad_scopes a) (task_file_scopes t))"
proof -
  have "scope_inv busy (plan_loop cfg env queued busy)"
    unfolding plan_loop_def by (rule scope_inv_loop)
  then show ?thesis by (simp add: make_plan_eq close_plan_fields scope_inv_def)
qed

lemma plan_no_overlap_witness:
  "map (\<lambda>a. dget (ad_task a) ''task_key'') (ps_admitted (make_plan demo_cfg demo_env demo_queue [demo_item ''e'' ''src''])) = [JStr ''c''] \<and>
   filter (\<lambda>a. ad_repo a = ''r'' \<and> \<not> compatible (ad_scopes a) (task_file_scopes (demo_item ''e'' ''src'')))
     (ps_admitted (make_plan demo_cfg demo_env demo_queue [demo_item ''e'' ''src''])) = []"
proof -
  have "task_repo_key (demo_item ''e'' ''src'') = ''r''" by code_simp
  then have "filter (\<lambda>a. ad_repo a = ''r'' \<and> \<not> compatible (ad_scopes a) (task_file_scopes (demo_item ''e'' ''src'')))
     (ps_admitted (make_plan demo_cfg demo_env demo_queue [demo_item ''e'' ''src''])) = []"
    using plan_no_overlap [of demo_cfg demo_env demo_queue "[demo_item ''e'' ''src'']"] by (auto simp: filter_empty_conv)
  moreover have "map (\<lambda>a. dget (ad_task a) ''task_key'')
      (ps_admitted (make_plan demo_cfg demo_env demo_queue [demo_item ''e'' ''src''])) = [JStr ''c'']" by code_simp
  ultimately show ?thesis by simp
qed

text \<open>
C24. Every queued task is decided. The plan's loop ends, its queues end up empty, and each queued
task is admitted or blocked exactly as often as it was queued; an admitted task passed the filter
(triage, connector, dependencies, no coder running) and is filed under its own project.
\<close>

theorem plan_decides_every_task:
  "mset queued = mset (map ad_task (ps_admitted (make_plan cfg env queued busy))) +
     mset (map bl_task (ps_blocked (make_plan cfg env queued busy))) \<and>
   concat (map snd (ps_groups (make_plan cfg env queued busy))) = [] \<and>
   (\<forall>a\<in>set (ps_admitted (make_plan cfg env queued busy)).
      intake_blocks cfg env (linear_blocked env queued) (ad_task a) = None \<and> ad_project a = task_project_key (ad_task a))"
proof -
  have "accounted (make_plan cfg env queued busy) = mset queued" by (rule plan_accounted)
  then have "mset queued = mset (map ad_task (ps_admitted (make_plan cfg env queued busy))) +
     mset (map bl_task (ps_blocked (make_plan cfg env queued busy)))"
    by (simp only: accounted_def plan_remaining_empty mset.simps add_0_right)
  moreover have "\<forall>a\<in>set (ps_admitted (make_plan cfg env queued busy)).
      intake_blocks cfg env (linear_blocked env queued) (ad_task a) = None \<and> ad_project a = task_project_key (ad_task a)"
    using plan_from_queue [of cfg env queued busy] by (auto simp: from_queue_def make_plan_eq close_plan_fields)
  ultimately show ?thesis using plan_remaining_empty [of cfg env queued busy] by blast
qed

lemma plan_decides_every_task_witness:
  "size (mset demo_queue) = length (ps_admitted (make_plan demo_cfg demo_env demo_queue [])) +
     length (ps_blocked (make_plan demo_cfg demo_env demo_queue []))"
  using plan_decides_every_task [of demo_queue demo_cfg demo_env "[]"] by (metis size_mset size_union length_map)

text \<open>
What the planner overlooks. With a limit of one active task and one task active in the store, a plan
asked for two tasks admits none, but a plan asked for one task admits the queued one: it looks for
active tasks only among the most recently updated tasks, as many as it was asked to plan.
\<close>

theorem planner_overlooks_active_tasks:
  "schema_ok crowded_db \<and> sc_max_active_tasks (demo_cfg\<lparr>sc_max_active_tasks := 1\<rparr>) = 1 \<and>
   length (filter (\<lambda>t. t_state t = ''active'') (db_tasks crowded_db)) = 1 \<and>
   demo_planned 2 = [] \<and> demo_planned 1 = [JStr ''b'']"
proof -
  have "schema_ok crowded_db"
    using schema_ok_empty by (simp add: schema_ok_def crowded_db_def demo_row_def empty_db_def keys_ok_def)
  moreover have "length (filter (\<lambda>t. t_state t = ''active'') (db_tasks crowded_db)) = 1" by code_simp
  moreover have "demo_planned 2 = []" by code_simp
  moreover have "demo_planned 1 = [JStr ''b'']" by code_simp
  ultimately show ?thesis by simp
qed

end
