(* ===== verification/JsonRoundTrip.thy ===== *)
theory JsonRoundTrip imports PyJson begin

text \<open>
  The store's JSON columns: \<open>_json_dumps\<close> writes them and \<open>_json_loads\<close> reads them back. The theory
  shows that the printer and the parser of PyJson are inverse up to the order of the keys, which the
  printer sorts, and that the text does not depend on the order in which a dict was built.
\<close>

section \<open>Reading a column\<close>

definition json_loads :: "string \<Rightarrow> json" where
  "json_loads s = (if s = [] then JObj [] else (case loads s of None \<Rightarrow> JObj [] | Some v \<Rightarrow> v))"

section \<open>The values a column can hold\<close>

text \<open>No key twice in a dict, and floats as the parser reads them.\<close>

definition float_text :: "string \<Rightarrow> bool" where
  "float_text s = (List.member [''nan'', ''inf'', ''-inf''] s \<or> parse_number s = Some (JFloat s, []))"

fun json_wf :: "json \<Rightarrow> bool"
and json_wf_items :: "json list \<Rightarrow> bool"
and json_wf_pairs :: "obj \<Rightarrow> bool" where
  "json_wf (JFloat s) = float_text s"
| "json_wf (JList xs) = json_wf_items xs"
| "json_wf (JObj kvs) = (distinct (map fst kvs) \<and> json_wf_pairs kvs)"
| "json_wf v = True"
| "json_wf_items [] = True"
| "json_wf_items (x # xs) = (json_wf x \<and> json_wf_items xs)"
| "json_wf_pairs [] = True"
| "json_wf_pairs ((k, v) # kvs) = (json_wf v \<and> json_wf_pairs kvs)"

section \<open>Printing, then parsing\<close>

subsection \<open>Strings\<close>

lemma code_eq_iff: "code c = n \<longleftrightarrow> n < 256 \<and> c = char_of n"
  using code_less [of c] by (auto simp: code_def)

lemma hex_value_digit: "n < 16 \<Longrightarrow> hex_value (hex_digit n) = Some n"
  by (auto simp: hex_value_def hex_digit_def Let_def code_char_of)

lemma unicode_value_code:
  "unicode_value (CHR ''0'') (CHR ''0'') (hex_digit (code c div 16)) (hex_digit (code c mod 16)) = Some c"
proof -
  have "hex_value (CHR ''0'') = Some 0" by (simp add: hex_value_def code_def)
  moreover have "char_of (16 * (code c div 16) + code c mod 16) = c" by (simp add: code_def)
  ultimately show ?thesis
    using code_less [of c] by (simp add: unicode_value_def hex_value_digit)
qed

lemma parse_plain:
  "c \<noteq> char_of (34::nat) \<Longrightarrow> c \<noteq> char_of (92::nat) \<Longrightarrow> 32 \<le> code c \<Longrightarrow>
     parse_chars (c # s) = map_option (\<lambda>(t, r). (c # t, r)) (parse_chars s)"
  by (subst parse_chars.simps) simp

lemma parse_escape:
  assumes "escape_value e = Some c" and "e \<noteq> CHR ''u''"
  shows "parse_chars (char_of (92::nat) # e # s) = map_option (\<lambda>(t, r). (c # t, r)) (parse_chars s)"
  using assms by (subst parse_chars.simps) simp

lemma parse_unicode:
  "parse_chars (char_of (92::nat) # CHR ''u'' # CHR ''0'' # CHR ''0'' # hex_digit (code c div 16) #
      hex_digit (code c mod 16) # s) = map_option (\<lambda>(t, r). (c # t, r)) (parse_chars s)"
  by (subst parse_chars.simps) (simp add: unicode_value_code)

lemma escape_values:
  "escape_value (CHR ''b'') = Some (char_of (8::nat))" "escape_value (CHR ''t'') = Some (char_of (9::nat))"
  "escape_value (CHR ''n'') = Some (char_of (10::nat))" "escape_value (CHR ''f'') = Some (char_of (12::nat))"
  "escape_value (CHR ''r'') = Some (char_of (13::nat))"
  by code_simp+

lemma char_u_neq: "CHR ''u'' \<noteq> char_of (34::nat)" "CHR ''u'' \<noteq> char_of (92::nat)"
  by code_simp+

lemma parse_json_char:
  "parse_chars (json_char c @ s) = map_option (\<lambda>(t, r). (c # t, r)) (parse_chars s)"
proof -
  let ?bs = "char_of (92::nat)"
  consider (quote) "c = char_of (34::nat) \<or> c = ?bs" | (b) "code c = 8" | (t) "code c = 9" | (n) "code c = 10"
    | (f) "code c = 12" | (r) "code c = 13"
    | (plain) "c \<noteq> char_of (34::nat)" "c \<noteq> ?bs" "32 \<le> code c" "code c \<le> 126" "json_char c = [c]"
    | (hex) "json_char c = [?bs, CHR ''u'', CHR ''0'', CHR ''0'', hex_digit (code c div 16), hex_digit (code c mod 16)]"
    by (cases "c = char_of (34::nat) \<or> c = ?bs"; cases "code c = 8"; cases "code c = 9"; cases "code c = 10";
        cases "code c = 12"; cases "code c = 13"; cases "32 \<le> code c \<and> code c \<le> 126"; simp add: json_char_def)
  then show ?thesis
  proof cases
    case quote
    then have "escape_value c = Some c" "c \<noteq> CHR ''u''" "json_char c = [?bs, c]"
      using char_u_neq by (auto simp: escape_value_def json_char_def)
    then show ?thesis by (simp add: parse_escape del: parse_chars.simps)
  next
    case b
    then have "c = char_of (8::nat)" by (simp add: code_eq_iff)
    then show ?thesis by (simp add: json_char_def code_char_of parse_escape escape_values del: parse_chars.simps)
  next
    case t
    then have "c = char_of (9::nat)" by (simp add: code_eq_iff)
    then show ?thesis by (simp add: json_char_def code_char_of parse_escape escape_values del: parse_chars.simps)
  next
    case n
    then have "c = char_of (10::nat)" by (simp add: code_eq_iff)
    then show ?thesis by (simp add: json_char_def code_char_of parse_escape escape_values del: parse_chars.simps)
  next
    case f
    then have "c = char_of (12::nat)" by (simp add: code_eq_iff)
    then show ?thesis by (simp add: json_char_def code_char_of parse_escape escape_values del: parse_chars.simps)
  next
    case r
    then have "c = char_of (13::nat)" by (simp add: code_eq_iff)
    then show ?thesis by (simp add: json_char_def code_char_of parse_escape escape_values del: parse_chars.simps)
  next
    case plain
    then show ?thesis by (simp add: parse_plain del: parse_chars.simps)
  next
    case hex
    then show ?thesis by (simp add: parse_unicode del: parse_chars.simps)
  qed
qed

lemma parse_json_string:
  "parse_chars (concat (map json_char s) @ char_of (34::nat) # r) = Some (s, r)"
  by (induction s) (simp_all add: parse_json_char del: parse_chars.simps(2), simp)

subsection \<open>Numbers\<close>

text \<open>What may follow a value inside a text.\<close>

definition json_end :: "string \<Rightarrow> bool" where
  "json_end r = (case r of [] \<Rightarrow> True | c # _ \<Rightarrow> c = CHR '','' \<or> c = CHR '']'' \<or> c = CHR ''}'')"

lemma json_end_simps [simp]:
  "json_end []" "json_end (CHR '','' # r)" "json_end (CHR '']'' # r)" "json_end (CHR ''}'' # r)"
  by (simp_all add: json_end_def)

lemma takeWhile_digit_end: "json_end r \<Longrightarrow> takeWhile is_digit (s @ r) = takeWhile is_digit s"
  by (induction s) (auto simp: json_end_def is_digit_def code_def split: list.splits)

lemma int_part_end: "json_end r \<Longrightarrow> int_part (s @ r) = int_part s"
  using takeWhile_digit_end [of r s]
  by (cases s) (auto simp: int_part_def json_end_def is_digit_def code_def split: list.splits)

lemma frac_part_end: "json_end r \<Longrightarrow> frac_part (s @ r) = frac_part s"
  by (cases s; cases "tl s")
    (auto simp: frac_part_def json_end_def is_digit_def code_def takeWhile_digit_end split: list.splits)

lemma exp_part_end: "json_end r \<Longrightarrow> exp_part (s @ r) = exp_part s"
  by (cases s; cases "tl s")
    (auto simp: exp_part_def json_end_def is_digit_def code_def takeWhile_digit_end split: list.splits)

lemma int_part_le: "length (int_part s) \<le> length s"
  by (auto simp: int_part_def length_takeWhile_le split: list.splits)

lemma frac_part_le: "length (frac_part s) \<le> length s"
  by (auto simp: frac_part_def length_takeWhile_le split: list.splits)

lemma exp_part_le: "length (exp_part s) \<le> length s"
  by (auto simp: exp_part_def length_takeWhile_le le_SucI split: list.splits)

lemma parse_number_end:
  assumes "parse_number s = Some (v, t)" and "json_end r"
  shows "parse_number (s @ r) = Some (v, t @ r)"
proof -
  let ?neg = "starts_with s ''-''"
  let ?s1 = "if ?neg then tl s else s"
  have neg: "starts_with (s @ r) ''-'' = ?neg"
    using assms(2) by (cases s) (auto simp: starts_with_def json_end_def split: list.splits)
  have s1: "(if ?neg then tl (s @ r) else s @ r) = ?s1 @ r"
    by (cases s) (auto simp: starts_with_def)
  have drops: "drop (length (int_part x)) (x @ r) = drop (length (int_part x)) x @ r"
    "drop (length (frac_part x)) (x @ r) = drop (length (frac_part x)) x @ r"
    "drop (length (exp_part x)) (x @ r) = drop (length (exp_part x)) x @ r" for x
    using int_part_le frac_part_le exp_part_le by simp_all
  define a where "a = int_part ?s1"
  define s2 where "s2 = drop (length a) ?s1"
  define b where "b = frac_part s2"
  define s3 where "s3 = drop (length b) s2"
  define c where "c = exp_part s3"
  have parts: "int_part (?s1 @ r) = a" "drop (length a) (?s1 @ r) = s2 @ r" "frac_part (s2 @ r) = b"
    "drop (length b) (s2 @ r) = s3 @ r" "exp_part (s3 @ r) = c" "drop (length c) (s3 @ r) = drop (length c) s3 @ r"
    unfolding a_def s2_def b_def s3_def c_def drops int_part_end [OF assms(2)] frac_part_end [OF assms(2)]
      exp_part_end [OF assms(2)] by (rule refl)+
  have num: "parse_number s = (if a = [] then None else if b = [] \<and> c = []
      then Some (JInt (if ?neg then - int (digits_value a) else int (digits_value a)), s2)
      else Some (JFloat ((if ?neg then ''-'' else []) @ a @ b @ c), drop (length c) s3))"
    unfolding parse_number_def Let_def a_def [symmetric] s2_def [symmetric] b_def [symmetric] s3_def [symmetric]
      c_def [symmetric] by (rule refl)
  have "parse_number (s @ r) = (if a = [] then None else if b = [] \<and> c = []
      then Some (JInt (if ?neg then - int (digits_value a) else int (digits_value a)), s2 @ r)
      else Some (JFloat ((if ?neg then ''-'' else []) @ a @ b @ c), drop (length c) s3 @ r))"
    unfolding parse_number_def Let_def neg s1 parts by (rule refl)
  with num assms(1) show ?thesis by (auto split: if_splits)
qed

lemma nat_str_digits: "\<forall>c\<in>set (nat_str n). is_digit c"
proof (induction n rule: nat_str.induct)
  case (1 n)
  have "is_digit (char_of (48 + m))" if "m < 10" for m :: nat
    using that by (simp add: is_digit_def code_char_of)
  with 1 show ?case by (subst nat_str.simps) auto
qed

lemma nat_str_not_Nil [simp]: "nat_str n \<noteq> []"
  by (subst nat_str.simps) simp

lemma digits_value_snoc: "digits_value (ds @ [c]) = 10 * digits_value ds + (code c - 48)"
  by (simp add: digits_value_def)

lemma digits_value_nat_str: "digits_value (nat_str n) = n"
proof (induction n rule: nat_str.induct)
  case (1 n)
  show ?case
  proof (cases "n < 10")
    case True
    then show ?thesis by (subst nat_str.simps) (simp add: digits_value_def code_char_of)
  next
    case False
    with 1 show ?thesis by (subst nat_str.simps) (simp add: digits_value_snoc code_char_of)
  qed
qed

lemma nat_str_hd: "0 < n \<Longrightarrow> hd (nat_str n) \<noteq> CHR ''0''"
proof (induction n rule: nat_str.induct)
  case (1 n)
  show ?case
  proof (cases "n < 10")
    case True
    with 1 have "code (char_of (48 + n)) \<noteq> code (CHR ''0'')"
      by (simp add: code_char_of) (simp add: code_def)
    with True show ?thesis by (subst nat_str.simps) auto
  next
    case False
    with 1 show ?thesis by (subst nat_str.simps) (simp add: hd_append)
  qed
qed

lemma int_part_nat_str: "int_part (nat_str n) = nat_str n"
proof (cases "n = 0")
  case True
  then show ?thesis by simp code_simp
next
  case False
  then obtain c s where cs: "nat_str n = c # s" "c \<noteq> CHR ''0''"
    using nat_str_hd [of n] by (cases "nat_str n") auto
  then show ?thesis
    using nat_str_digits [of n] by (simp add: int_part_def takeWhile_eq_all_conv)
qed

lemma starts_with_minus: "starts_with (c # s) ''-'' \<longleftrightarrow> c = CHR ''-''"
  by (simp add: starts_with_def)

lemma not_digit_minus: "\<not> is_digit (CHR ''-'')"
  by (simp add: is_digit_def code_def)

lemma parse_number_int: "parse_number (int_str i) = Some (JInt i, [])"
proof -
  have minus: "\<not> starts_with (nat_str n) ''-''" for n
    using nat_str_digits [of n] not_digit_minus by (cases "nat_str n") (auto simp: starts_with_minus)
  have "frac_part [] = []" "exp_part [] = []" by (simp_all add: frac_part_def exp_part_def)
  then show ?thesis
    by (simp add: int_str_def parse_number_def minus starts_with_minus int_part_nat_str digits_value_nat_str)
qed

lemma int_str_first: "\<exists>c s. int_str i = c # s \<and> (c = CHR ''-'' \<and> (\<exists>d t. s = d # t \<and> is_digit d) \<or> is_digit c)"
proof -
  have "\<exists>c s. nat_str n = c # s \<and> is_digit c" for n
    using nat_str_digits [of n] by (cases "nat_str n") auto
  then show ?thesis by (cases "i < 0") (simp add: int_str_def, metis int_str_def)
qed

subsection \<open>Literals and floats\<close>

text \<open>The first character of a value tells what it is.\<close>

lemma code_quote: "code (char_of (34::nat)) = 34"
  by (simp add: code_char_of)

lemma starts_with_Cons: "starts_with (c # s) (d # p) \<longleftrightarrow> c = d \<and> starts_with s p"
  by (auto simp: starts_with_def)

lemma digit_codes: "is_digit c \<longleftrightarrow> 48 \<le> code c \<and> code c \<le> 57"
  by (simp add: is_digit_def)

lemma parse_literal_number:
  assumes "is_digit c \<or> (c = CHR ''-'' \<and> (\<exists>d t. s = d # t \<and> is_digit d))"
  shows "parse_literal (c # s) = parse_number (c # s)"
proof -
  have "c \<noteq> CHR ''n''" "c \<noteq> CHR ''t''" "c \<noteq> CHR ''f''" "c \<noteq> CHR ''N''" "c \<noteq> CHR ''I''"
    using assms by (auto simp: digit_codes code_def)
  moreover have "\<not> starts_with s ''Infinity'' \<or> c \<noteq> CHR ''-''"
    using assms by (auto simp: digit_codes code_def starts_with_Cons)
  ultimately show ?thesis
    by (auto simp: parse_literal_def starts_with_Cons)
qed

lemma parse_number_first:
  assumes "parse_number s = Some (v, r)"
  shows "\<exists>c t. s = c # t \<and> (is_digit c \<or> (c = CHR ''-'' \<and> (\<exists>d u. t = d # u \<and> is_digit d)))"
proof -
  have ip: "\<exists>d u. x = d # u \<and> is_digit d" if "int_part x \<noteq> []" for x
    using that by (cases x) (auto simp: int_part_def is_digit_def code_def split: if_splits)
  have "int_part (if starts_with s ''-'' then tl s else s) \<noteq> []"
    using assms by (auto simp: parse_number_def Let_def split: if_splits)
  from ip [OF this] show ?thesis
    by (cases s) (auto simp: starts_with_minus starts_with_def split: if_splits)
qed

lemma parse_float_text:
  assumes "float_text s" and "json_end r"
  shows "parse_literal (json_float s @ r) = Some (JFloat s, r)"
proof (cases "List.member [''nan'', ''inf'', ''-inf''] s")
  case True
  then consider "s = ''nan''" | "s = ''inf''" | "s = ''-inf''" by auto
  then show ?thesis
    by cases (simp_all add: json_float_def parse_literal_def starts_with_Cons, simp_all add: starts_with_def)
next
  case False
  then have n: "parse_number s = Some (JFloat s, [])" and f: "json_float s = s"
    using assms(1) by (auto simp: float_text_def json_float_def)
  from parse_number_first [OF n] obtain c t where s: "s = c # t"
    and ct: "is_digit c \<or> (c = CHR ''-'' \<and> (\<exists>d u. t = d # u \<and> is_digit d))" by blast
  have "parse_literal (c # (t @ r)) = parse_number (c # (t @ r))"
    by (rule parse_literal_number) (use ct in auto)
  then have "parse_literal (s @ r) = Some (JFloat s, r)"
    using parse_number_end [OF n assms(2)] by (simp add: s)
  then show ?thesis unfolding f .
qed

lemma parse_int_text: "json_end r \<Longrightarrow> parse_literal (int_str i @ r) = Some (JInt i, r)"
  using int_str_first [of i] parse_number_end [OF parse_number_int, of r i] parse_literal_number
  by (metis append_Cons append_Nil)

text \<open>How a printed value begins.\<close>

definition value_start :: "char \<Rightarrow> bool" where
  "value_start c = (\<not> json_ws c \<and> c \<noteq> CHR '']'')"

lemma digit_value_start: "is_digit c \<Longrightarrow> value_start c"
  by (auto simp: value_start_def json_ws_def digit_codes code_def)

lemma minus_value_start: "value_start (CHR ''-'')"
  by code_simp

lemma dumps_raw_start:
  assumes "json_wf v"
  shows "\<exists>c s. dumps_raw v = c # s \<and> value_start c"
proof (cases v)
  case (JInt i)
  then show ?thesis using int_str_first [of i] digit_value_start minus_value_start by auto
next
  case (JFloat f)
  show ?thesis
  proof (cases "json_float f = f")
    case True
    with assms JFloat have "parse_number f = Some (JFloat f, [])"
      by (auto simp: float_text_def json_float_def)
    from parse_number_first [OF this] show ?thesis
      using digit_value_start minus_value_start JFloat True by auto
  next
    case False
    then have "json_float f \<in> {''NaN'', ''Infinity'', ''-Infinity''}" by (auto simp: json_float_def)
    moreover have "value_start (CHR ''N'')" "value_start (CHR ''I'')" by code_simp+
    ultimately show ?thesis using minus_value_start JFloat by auto
  qed
next
  case (JStr s)
  have "value_start (char_of (34::nat))" by code_simp
  with JStr show ?thesis by (simp add: json_string_def)
next
  case (JBool b)
  have "value_start (CHR ''t'')" "value_start (CHR ''f'')" by code_simp+
  with JBool show ?thesis by simp
next
  case JNull
  have "value_start (CHR ''n'')" by code_simp
  with JNull show ?thesis by simp
next
  case (JList xs)
  have "value_start (CHR ''['')" by code_simp
  with JList show ?thesis by simp
next
  case (JObj kvs)
  have "value_start (CHR ''{'')" by code_simp
  with JObj show ?thesis by simp
qed

lemma skip_ws_start: "value_start c \<Longrightarrow> skip_ws (c # s) = c # s"
  by (simp add: skip_ws_def value_start_def)

lemma skip_ws_dumps: "json_wf v \<Longrightarrow> skip_ws (dumps_raw v @ r) = dumps_raw v @ r"
  using dumps_raw_start [of v] by (auto simp: skip_ws_start)

subsection \<open>Values\<close>

definition literal_start :: "char \<Rightarrow> bool" where
  "literal_start c = (c \<noteq> char_of (34::nat) \<and> c \<noteq> CHR ''['' \<and> c \<noteq> CHR ''{'')"

lemma parse_value_literal:
  "literal_start c \<Longrightarrow> parse_value (Suc n) (c # s) = parse_literal (c # s)"
  by (simp add: literal_start_def)

lemma digit_literal_start: "is_digit c \<Longrightarrow> literal_start c"
  by (auto simp: literal_start_def digit_codes code_def)

lemma literal_starts:
  "literal_start (CHR ''-'')" "literal_start (CHR ''n'')" "literal_start (CHR ''t'')"
  "literal_start (CHR ''f'')" "literal_start (CHR ''N'')" "literal_start (CHR ''I'')"
  by code_simp+

lemma bracket_neq: "CHR ''['' \<noteq> char_of (34::nat)" "CHR ''{'' \<noteq> char_of (34::nat)"
  by code_simp+

lemma parse_int_value: "json_end r \<Longrightarrow> parse_value (Suc n) (int_str i @ r) = Some (JInt i, r)"
  using int_str_first [of i] parse_int_text [of r i] digit_literal_start literal_starts(1)
    parse_value_literal by fastforce

lemma float_text_start:
  assumes "float_text s"
  shows "\<exists>c t. json_float s = c # t \<and> literal_start c"
proof (cases "json_float s = s")
  case True
  with assms have "parse_number s = Some (JFloat s, [])" by (auto simp: float_text_def json_float_def)
  from parse_number_first [OF this] True show ?thesis
    using digit_literal_start literal_starts(1) by auto
next
  case False
  then have "json_float s \<in> {''NaN'', ''Infinity'', ''-Infinity''}" by (auto simp: json_float_def)
  then show ?thesis using literal_starts by auto
qed

lemma parse_float_value:
  "float_text s \<Longrightarrow> json_end r \<Longrightarrow> parse_value (Suc n) (json_float s @ r) = Some (JFloat s, r)"
  using float_text_start [of s] parse_float_text [of s r] parse_value_literal by fastforce

lemma parse_word_value:
  "parse_value (Suc n) (''null'' @ r) = Some (JNull, r)"
  "parse_value (Suc n) (''true'' @ r) = Some (JBool True, r)"
  "parse_value (Suc n) (''false'' @ r) = Some (JBool False, r)"
  using literal_starts by (simp_all add: parse_value_literal parse_literal_def starts_with_def literal_start_def)

lemma parse_string_value:
  "parse_value (Suc n) (json_string s @ r) = Some (JStr s, r)"
  using parse_json_string [of s r] by (simp add: json_string_def)

lemma skip_ws_simps [simp]:
  "skip_ws (CHR '','' # s) = CHR '','' # s" "skip_ws (CHR '']'' # s) = CHR '']'' # s"
  "skip_ws (CHR ''}'' # s) = CHR ''}'' # s" "skip_ws (CHR '':'' # s) = CHR '':'' # s"
  "skip_ws (char_of (34::nat) # s) = char_of (34::nat) # s" "skip_ws [] = []"
  by (simp_all add: skip_ws_def json_ws_def code_def)

lemma dupdate_distinct: "distinct (map fst (d @ e)) \<Longrightarrow> dupdate d e = d @ e"
proof (induction e arbitrary: d)
  case (Cons x e)
  obtain k v where x: "x = (k, v)" by (cases x)
  have "k \<notin> fst ` set d" using Cons.prems x by auto
  then have "dset k v d = d @ [(k, v)]"
    unfolding dset_def by (induction d) auto
  with Cons.IH [of "d @ [(k, v)]"] Cons.prems show ?case by (simp add: x)
qed simp

lemma parse_list_value:
  assumes "parse_items n (t @ CHR '']'' # r) = Some (xs, r)" and "t = c # u" and "value_start c"
  shows "parse_value (Suc n) (CHR ''['' # t @ CHR '']'' # r) = Some (JList xs, r)"
  using assms bracket_neq by (simp add: skip_ws_start) (auto simp: value_start_def)

lemma parse_obj_value:
  assumes "parse_pairs n (t @ CHR ''}'' # r) = Some (kvs, r)" and "t = char_of (34::nat) # u"
    and "distinct (map fst kvs)"
  shows "parse_value (Suc n) (CHR ''{'' # t @ CHR ''}'' # r) = Some (JObj kvs, r)"
proof -
  have "char_of (34::nat) \<noteq> CHR ''}''" by code_simp
  with assms bracket_neq show ?thesis by (simp add: dupdate_distinct [of "[]", simplified])
qed

lemma parse_empty_values:
  "parse_value (Suc n) (CHR ''['' # CHR '']'' # r) = Some (JList [], r)"
  "parse_value (Suc n) (CHR ''{'' # CHR ''}'' # r) = Some (JObj [], r)"
  using bracket_neq by simp_all

lemma dumps_items_start:
  "json_wf_items xs \<Longrightarrow> xs \<noteq> [] \<Longrightarrow> \<exists>c s. dumps_items xs = c # s \<and> value_start c"
  using dumps_raw_start by (cases xs) fastforce+

lemma dumps_pairs_start: "kvs \<noteq> [] \<Longrightarrow> \<exists>u. dumps_pairs kvs = char_of (34::nat) # u"
  by (cases kvs) (auto simp: json_string_def)

lemma parse_items_step:
  assumes "parse_value n (dumps_raw x @ s) = Some (x, s)"
  shows "s = CHR '']'' # r \<Longrightarrow> parse_items (Suc n) (dumps_raw x @ s) = Some ([x], r)"
    and "s = CHR '','' # t \<Longrightarrow> skip_ws t = t \<Longrightarrow> parse_items n t = Some (xs, r) \<Longrightarrow>
      parse_items (Suc n) (dumps_raw x @ s) = Some (x # xs, r)"
  using assms by simp_all

lemma parse_pairs_step:
  assumes "parse_value n (dumps_raw v @ s) = Some (v, s)" and "json_wf v"
  shows "s = CHR ''}'' # r \<Longrightarrow> parse_pairs (Suc n) (json_string k @ CHR '':'' # dumps_raw v @ s) = Some ([(k, v)], r)"
    and "s = CHR '','' # t \<Longrightarrow> skip_ws t = t \<Longrightarrow> parse_pairs n t = Some (kvs, r) \<Longrightarrow>
      parse_pairs (Suc n) (json_string k @ CHR '':'' # dumps_raw v @ s) = Some ((k, v) # kvs, r)"
  using assms parse_json_string [of k "CHR '':'' # dumps_raw v @ s"]
  by (simp_all add: json_string_def skip_ws_dumps)

lemma parse_dumps:
  "json_wf v \<Longrightarrow> json_end r \<Longrightarrow> 2 * length (dumps_raw v) \<le> n \<Longrightarrow>
     parse_value n (dumps_raw v @ r) = Some (v, r)"
  "json_wf_items xs \<Longrightarrow> xs \<noteq> [] \<Longrightarrow> 2 * length (dumps_items xs) < n \<Longrightarrow>
     parse_items n (dumps_items xs @ CHR '']'' # r) = Some (xs, r)"
  "json_wf_pairs kvs \<Longrightarrow> kvs \<noteq> [] \<Longrightarrow> 2 * length (dumps_pairs kvs) < n \<Longrightarrow>
     parse_pairs n (dumps_pairs kvs @ CHR ''}'' # r) = Some (kvs, r)"
proof (induction v and xs and kvs arbitrary: n r and n r and n r rule: dumps_raw_dumps_items_dumps_pairs.induct)
  case 1
  then show ?case using parse_word_value(1) by (cases n) simp_all
next
  case (2 b)
  then show ?case using parse_word_value(2,3) by (cases n; cases b) simp_all
next
  case (3 i)
  then show ?case using int_str_first [of i] by (cases n) (auto simp: parse_int_value simp del: parse_value.simps)
next
  case (4 s)
  then show ?case using float_text_start [of s] by (cases n) (auto simp: parse_float_value simp del: parse_value.simps)
next
  case (5 s)
  then obtain m where "n = Suc m" by (cases n) (auto simp: json_string_def)
  then show ?case by (simp only: dumps_raw.simps parse_string_value)
next
  case (6 xs)
  then obtain m where n: "n = Suc m" by (cases n) auto
  show ?case
  proof (cases "xs = []")
    case True
    then show ?thesis using parse_empty_values by (simp add: n del: parse_value.simps)
  next
    case False
    have wf: "json_wf_items xs" using 6(2) by simp
    obtain c u where cu: "dumps_items xs = c # u" "value_start c"
      using dumps_items_start [OF wf False] by blast
    have "parse_items m (dumps_items xs @ CHR '']'' # r) = Some (xs, r)"
      using 6 False n wf by simp
    from parse_list_value [OF this cu] show ?thesis by (simp add: n del: parse_value.simps)
  qed
next
  case (7 kvs)
  then obtain m where n: "n = Suc m" by (cases n) auto
  show ?case
  proof (cases "kvs = []")
    case True
    then show ?thesis using parse_empty_values by (simp add: n del: parse_value.simps)
  next
    case False
    have wf: "json_wf_pairs kvs" "distinct (map fst kvs)" using 7(2) by simp_all
    obtain u where u: "dumps_pairs kvs = char_of (34::nat) # u"
      using dumps_pairs_start [OF False] by blast
    have "parse_pairs m (dumps_pairs kvs @ CHR ''}'' # r) = Some (kvs, r)"
      using 7 False n wf by simp
    from parse_obj_value [OF this u wf(2)] show ?thesis by (simp add: n del: parse_value.simps)
  qed
next
  case 8
  then show ?case by simp
next
  case (9 x xs)
  then obtain m where n: "n = Suc m" by (cases n) auto
  have wf: "json_wf x" "json_wf_items xs" using 9(3) by simp_all
  show ?case
  proof (cases "xs = []")
    case True
    have "parse_value m (dumps_raw x @ CHR '']'' # r) = Some (x, CHR '']'' # r)"
      using 9(1) [OF wf(1)] 9(5) n by simp
    from parse_items_step(1) [OF this refl] True show ?thesis by (simp add: n del: parse_items.simps)
  next
    case False
    let ?t = "dumps_items xs @ CHR '']'' # r"
    have v: "parse_value m (dumps_raw x @ CHR '','' # ?t) = Some (x, CHR '','' # ?t)"
      using 9(1) [OF wf(1)] 9(5) n by simp
    have "parse_items m ?t = Some (xs, r)" using 9(2) [OF False wf(2) False] 9(5) n False by simp
    moreover have "skip_ws ?t = ?t"
      using dumps_items_start [OF wf(2) False] by (auto simp: skip_ws_start)
    ultimately show ?thesis using parse_items_step(2) [OF v refl] False by (simp add: n del: parse_items.simps)
  qed
next
  case 10
  then show ?case by simp
next
  case (11 k v kvs)
  then obtain m where n: "n = Suc m" by (cases n) auto
  have wf: "json_wf v" "json_wf_pairs kvs" using 11(3) by simp_all
  show ?case
  proof (cases "kvs = []")
    case True
    have "parse_value m (dumps_raw v @ CHR ''}'' # r) = Some (v, CHR ''}'' # r)"
      using 11(1) [OF wf(1)] 11(5) n by simp
    from parse_pairs_step(1) [OF this wf(1) refl] True show ?thesis by (simp add: n del: parse_pairs.simps)
  next
    case False
    let ?t = "dumps_pairs kvs @ CHR ''}'' # r"
    have v: "parse_value m (dumps_raw v @ CHR '','' # ?t) = Some (v, CHR '','' # ?t)"
      using 11(1) [OF wf(1)] 11(5) n by simp
    have "parse_pairs m ?t = Some (kvs, r)" using 11(2) [OF False wf(2) False] 11(5) n False by simp
    moreover have "skip_ws ?t = ?t"
      using dumps_pairs_start [OF False] by auto
    ultimately show ?thesis using parse_pairs_step(2) [OF v wf(1) refl] False by (simp add: n del: parse_pairs.simps)
  qed
qed


subsection \<open>Sorted dicts\<close>

lemma set_insert_key [simp]: "set (insert_key kv kvs) = insert kv (set kvs)"
  by (induction kvs) auto

lemma distinct_insert_key:
  "distinct (map fst (insert_key kv kvs)) \<longleftrightarrow> fst kv \<notin> fst ` set kvs \<and> distinct (map fst kvs)"
  by (induction kvs) auto

lemma json_wf_insert_key: "json_wf_pairs (insert_key (k, v) kvs) \<longleftrightarrow> json_wf v \<and> json_wf_pairs kvs"
  by (induction kvs) auto

lemma keys_sort_pairs: "fst ` set (sort_keys_pairs kvs) = fst ` set kvs"
proof (induction kvs)
  case (Cons x kvs)
  then show ?case by (cases x) simp
qed simp

lemma json_wf_sort_keys:
  "json_wf v \<Longrightarrow> json_wf (sort_keys v)"
  "json_wf_items xs \<Longrightarrow> json_wf_items (sort_keys_items xs)"
  "json_wf_pairs kvs \<Longrightarrow> json_wf_pairs (sort_keys_pairs kvs) \<and>
     (distinct (map fst kvs) \<longrightarrow> distinct (map fst (sort_keys_pairs kvs)))"
  by (induction v and xs and kvs rule: json_wf_json_wf_items_json_wf_pairs.induct)
    (auto simp: json_wf_insert_key distinct_insert_key keys_sort_pairs)

text \<open>Keys are compared as strings, so the order of a sorted dict does not depend on insertion.\<close>

lemma str_le_refl: "str_le s s"
  by (induction s) auto

lemma code_inj: "code c = code d \<longleftrightarrow> c = d"
  by (simp add: code_def)

lemma str_le_total: "str_le s t \<or> str_le t s"
proof (induction s t rule: str_le.induct)
  case (3 c s d t)
  then show ?case using code_inj [of c d] by (auto simp: not_less le_less)
qed auto

lemma str_le_trans: "str_le s t \<Longrightarrow> str_le t u \<Longrightarrow> str_le s u"
proof (induction s arbitrary: t u)
  case (Cons c s)
  then show ?case by (cases t; cases u) auto
qed simp

lemma str_le_antisym: "str_le s t \<Longrightarrow> str_le t s \<Longrightarrow> s = t"
  by (induction s t rule: str_le.induct) (auto elim: str_le.elims)

definition key_sorted :: "obj \<Rightarrow> bool" where
  "key_sorted kvs = sorted_wrt (\<lambda>a b. str_le (fst a) (fst b)) kvs"

lemma key_sorted_insert: "key_sorted (insert_key kv kvs) = key_sorted kvs"
proof (induction kvs)
  case (Cons x kvs)
  then show ?case using str_le_total [of "fst kv" "fst x"] str_le_trans
    by (auto simp: key_sorted_def)
qed (simp add: key_sorted_def)

lemma key_sorted_pairs: "key_sorted (sort_keys_pairs kvs)"
  by (induction kvs) (auto simp: key_sorted_insert, simp add: key_sorted_def)

lemma insert_key_commute:
  "fst a \<noteq> fst b \<Longrightarrow> insert_key a (insert_key b kvs) = insert_key b (insert_key a kvs)"
proof (induction kvs)
  case Nil
  then show ?case using str_le_total str_le_antisym by auto
next
  case (Cons x kvs)
  then show ?case
    using str_le_total [of "fst a" "fst b"] str_le_antisym [of "fst a" "fst b"]
      str_le_trans [of "fst a" "fst b" "fst x"] str_le_trans [of "fst b" "fst a" "fst x"]
      str_le_total [of "fst a" "fst x"] str_le_total [of "fst b" "fst x"]
      str_le_trans [of "fst a" "fst x" "fst b"] str_le_trans [of "fst b" "fst x" "fst a"]
    by auto
qed

text \<open>A value and its sorted form hold the same fields.\<close>

lemma map_of_insert_key:
  "k \<notin> fst ` set kvs \<Longrightarrow> map_of (insert_key (k, v) kvs) = (map_of kvs)(k \<mapsto> v)"
  by (induction kvs) (auto simp: fun_eq_iff)

lemma map_of_sort_pairs:
  "distinct (map fst kvs) \<Longrightarrow> map_of (sort_keys_pairs kvs) = map_option sort_keys \<circ> map_of kvs"
  by (induction kvs) (auto simp: map_of_insert_key keys_sort_pairs fun_eq_iff)


lemma sort_pairs_sorted:
  "key_sorted kvs \<Longrightarrow> \<forall>(k, v)\<in>set kvs. sort_keys v = v \<Longrightarrow> sort_keys_pairs kvs = kvs"
proof (induction kvs)
  case (Cons x kvs)
  obtain k v where x: "x = (k, v)" by (cases x)
  have "sort_keys_pairs kvs = kvs" "sort_keys v = v"
    using Cons x by (auto simp: key_sorted_def)
  with Cons.prems x show ?case by (cases kvs) (auto simp: key_sorted_def)
qed simp

lemma sort_keys_idem:
  "sort_keys (sort_keys v) = sort_keys v"
  "sort_keys_items (sort_keys_items xs) = sort_keys_items xs"
  "\<forall>(k, v)\<in>set (sort_keys_pairs kvs). sort_keys v = v"
  by (induction v and xs and kvs rule: sort_keys_sort_keys_items_sort_keys_pairs.induct)
    (auto simp: sort_pairs_sorted key_sorted_pairs)

text \<open>Two dicts with the same items have the same sorted form, whatever order they were built in.\<close>

lemma sort_pairs_unique:
  "key_sorted a \<Longrightarrow> key_sorted b \<Longrightarrow> distinct (map fst a) \<Longrightarrow> distinct (map fst b) \<Longrightarrow> set a = set b \<Longrightarrow> a = b"
proof (induction a arbitrary: b)
  case (Cons x a)
  then obtain y b' where b: "b = y # b'" by (cases b) auto
  have "y \<in> set (x # a)" "x \<in> set b" using Cons.prems(5) b by auto
  then have "str_le (fst x) (fst y)" "str_le (fst y) (fst x)"
    using Cons.prems(1,2) b str_le_refl by (auto simp: key_sorted_def)
  then have "fst x = fst y" by (rule str_le_antisym)
  then have xy: "x = y"
    using Cons.prems(3,4,5) b by (metis eq_key_imp_eq_value list.set_intros(1) prod.collapse)
  have "set a = set b'"
    using Cons.prems(3,4,5) b xy by (metis distinct.simps(2) distinct_map insert_ident list.simps(15))
  with Cons xy b show ?case by (auto simp: key_sorted_def)
qed simp

lemma set_sort_pairs: "set (sort_keys_pairs kvs) = (\<lambda>(k, v). (k, sort_keys v)) ` set kvs"
  by (induction kvs) auto

lemma sort_pairs_same_items:
  assumes "distinct (map fst kvs)" and "distinct (map fst kvs')" and "set kvs = set kvs'"
  shows "sort_keys_pairs kvs = sort_keys_pairs kvs'"
proof -
  have d: "distinct (map fst (sort_keys_pairs ps))" if "distinct (map fst ps)" for ps
    using that by (induction ps) (auto simp: distinct_insert_key keys_sort_pairs)
  show ?thesis
    by (rule sort_pairs_unique) (use assms d in \<open>auto simp: key_sorted_pairs set_sort_pairs\<close>)
qed

section \<open>Reading back what was written\<close>

lemma loads_dumps:
  assumes "json_wf v"
  shows "loads (dumps v) = Some (sort_keys v)"
proof -
  have wf: "json_wf (sort_keys v)" using assms by (rule json_wf_sort_keys(1))
  have "parse_value (2 * length (dumps v) + 2) (dumps v @ []) = Some (sort_keys v, [])"
    unfolding dumps_def by (rule parse_dumps(1) [OF wf]) simp_all
  moreover have "skip_ws (dumps v) = dumps v"
    using skip_ws_dumps [OF wf, of "[]"] by (simp add: dumps_def)
  ultimately show ?thesis by (simp add: loads_def)
qed

lemma json_loads_dumps: "json_wf v \<Longrightarrow> json_loads (dumps v) = sort_keys v"
  using dumps_raw_start [OF json_wf_sort_keys(1), of v] loads_dumps [of v]
  by (auto simp: json_loads_def dumps_def)


definition column_a :: obj where
  "column_a = [(''phase'', JStr (''a'' @ [char_of (10::nat), char_of (233::nat)])), (''attempt'', JInt (- 20)), (''cost'', JFloat ''0.5''),
     (''extra'', JObj [(''y'', JList [JNull, JBool True]), (''x'', JList [])])]"

definition column_b :: obj where
  "column_b = rev column_a"


end
