(* ===== verification/PyDynamic.thy ===== *)
theory PyDynamic imports PyJson begin

text \<open>
  Operations on values whose type nothing guarantees, such as the JSON a language model prints: the
  ones that raise return a result, with the error Python raises. The file also holds \<open>int(text)\<close> and
  \<open>json.dumps\<close> with its default separators.
\<close>

section \<open>Lists, joins and lookups\<close>

text \<open>\<open>list(value or [])\<close>: a truthy number or boolean raises.\<close>

definition py_list :: "json \<Rightarrow> json list res" where
  "py_list v = (if \<not> truthy v then Inr [] else case v of
      JList xs \<Rightarrow> Inr xs
    | JObj kvs \<Rightarrow> Inr (map (\<lambda>(k, _). JStr k) kvs)
    | JStr s \<Rightarrow> Inr (map (\<lambda>c. JStr [c]) s)
    | _ \<Rightarrow> Inl TypeError)"

text \<open>\<open>d.get(k1) or d.get(k2) or ...\<close>.\<close>

fun dget_or :: "obj \<Rightarrow> string list \<Rightarrow> json" where
  "dget_or d [] = JNull"
| "dget_or d [k] = dget d k"
| "dget_or d (k # ks) = py_or (dget d k) (dget_or d ks)"

definition is_obj :: "json \<Rightarrow> bool" where
  "is_obj v = (case v of JObj _ \<Rightarrow> True | _ \<Rightarrow> False)"

definition is_str :: "json \<Rightarrow> bool" where
  "is_str v = (case v of JStr _ \<Rightarrow> True | _ \<Rightarrow> False)"

definition str_of :: "json \<Rightarrow> string" where
  "str_of v = (case v of JStr s \<Rightarrow> s | _ \<Rightarrow> [])"

text \<open>\<open>sep.join(items)\<close> raises unless every item is a string.\<close>

definition join_strs :: "string \<Rightarrow> json list \<Rightarrow> string res" where
  "join_strs sep xs = (if list_all is_str xs then Inr (join sep (map str_of xs)) else Inl TypeError)"

text \<open>The text with a back quote on each side.\<close>

definition nlc :: string where
  "nlc = [CHR 0x0A]"

text \<open>\<open>str(exc)\<close>; the texts of Python's own errors are outside the model.\<close>

definition err_text :: "py_error \<Rightarrow> string" where
  "err_text e = (case e of RuntimeError s \<Rightarrow> s | ValueError s \<Rightarrow> s | _ \<Rightarrow> [])"

definition ticked :: "string \<Rightarrow> string" where
  "ticked s = [CHR 0x60] @ s @ [CHR 0x60]"

section \<open>Numbers from text\<close>

text \<open>\<open>int(text)\<close>: an optional sign, then groups of digits separated by single underscores.\<close>

definition digits_num :: "string \<Rightarrow> int option" where
  "digits_num s =
     (let groups = split_char (CHR ''_'') s in
      if list_all (\<lambda>g. g \<noteq> [] \<and> list_all is_digit g) groups
      then Some (int (digits_value (concat groups))) else None)"

definition py_int :: "string \<Rightarrow> int option" where
  "py_int text =
     (case strip text of
        [] \<Rightarrow> None
      | c # s \<Rightarrow>
          if c = CHR ''-'' then map_option uminus (digits_num s)
          else if c = CHR ''+'' then digits_num s
          else digits_num (c # s))"

section \<open>JSON text with the default separators\<close>

fun dumps_spaced :: "json \<Rightarrow> string"
and dumps_spaced_items :: "json list \<Rightarrow> string"
and dumps_spaced_pairs :: "(string \<times> json) list \<Rightarrow> string" where
  "dumps_spaced (JList xs) = CHR ''['' # dumps_spaced_items xs @ '']''"
| "dumps_spaced (JObj kvs) = CHR ''{'' # dumps_spaced_pairs kvs @ ''}''"
| "dumps_spaced v = dumps_raw v"
| "dumps_spaced_items [] = []"
| "dumps_spaced_items (x # xs) = dumps_spaced x @ (if xs = [] then [] else '', '' @ dumps_spaced_items xs)"
| "dumps_spaced_pairs [] = []"
| "dumps_spaced_pairs ((k, v) # kvs) =
     json_string k @ '': '' @ dumps_spaced v @ (if kvs = [] then [] else '', '' @ dumps_spaced_pairs kvs)"

section \<open>Lemmas\<close>

lemma py_list_simps [simp]:
  "py_list (JList xs) = Inr xs" "py_list JNull = Inr []" "py_list (JObj kvs) = Inr (map (\<lambda>(k, _). JStr k) kvs)"
  "py_list (JStr s) = Inr (map (\<lambda>c. JStr [c]) s)"
  by (simp_all add: py_list_def)

lemma py_list_falsy: "\<not> truthy v \<Longrightarrow> py_list v = Inr []"
  by (simp add: py_list_def)

lemma py_list_empty_iff: "py_list v = Inr [] \<longleftrightarrow> \<not> truthy v"
  by (cases v) (auto simp: py_list_def)

lemma truthy_py_or [simp]: "truthy (py_or a b) \<longleftrightarrow> truthy a \<or> truthy b"
  by (simp add: py_or_def)

lemma is_obj_iff: "is_obj v \<longleftrightarrow> (\<exists>d. v = JObj d)"
  by (cases v) (auto simp: is_obj_def)

end
