(* ===== verification/RepoTruth.thy ===== *)
theory RepoTruth imports PyDynamic begin

text \<open>
  src/tandem_agents/core/repository/repo_truth.py: which files a plan is expected to touch, which
  commands check it, and the deterministic validation of a checkout. The file system is three
  predicates on relative paths and the shell a function from a command and a world to its outcome
  and the next world. A validation is the dict the code builds, with the values it may hold.
\<close>

section \<open>Paths\<close>

text \<open>\<open>str(raw or "").strip().replace("\", "/")\<close>, then the leading \<open>./\<close> removed.\<close>

definition slash_text :: "json \<Rightarrow> string" where
  "slash_text raw = replace_char (char_of (92::nat)) (CHR ''/'') (nonempty raw)"

definition rel_text :: "json \<Rightarrow> string" where
  "rel_text raw = drop_dot_slash (slash_text raw)"

definition path_escapes :: "string \<Rightarrow> bool" where
  "path_escapes p \<longleftrightarrow> starts_with p ''/'' \<or> p = ''..'' \<or> starts_with p ''../''
     \<or> contains (CHR ''/'' # p @ ''/'') ''/../''"

definition safe_rel_path :: "json \<Rightarrow> string" where
  "safe_rel_path raw = (let p = rel_text raw in if p = [] \<or> path_escapes p then [] else p)"

section \<open>The files a plan is expected to touch\<close>

definition ignored_paths :: "obj \<Rightarrow> string list" where
  "ignored_paths subtask =
     map slash_text (filter (\<lambda>raw. nonempty raw \<noteq> []) (list_of (dget subtask ''ignored_target_files'')))"

fun collect_paths :: "string list \<Rightarrow> json list \<Rightarrow> string list \<Rightarrow> string list" where
  "collect_paths ignored [] files = files"
| "collect_paths ignored (raw # raws) files =
     (let p = rel_text raw in
      if List.member ignored p then collect_paths ignored raws files
      else if path_escapes p then collect_paths ignored raws files
      else if p = [] \<or> List.member files p then collect_paths ignored raws files
      else collect_paths ignored raws (files @ [p]))"

definition subtask_paths :: "obj \<Rightarrow> json list" where
  "subtask_paths subtask = list_of (dget subtask ''files'') @ list_of (dget subtask ''target_files'')"

fun collect_expected :: "obj list \<Rightarrow> string list \<Rightarrow> string list" where
  "collect_expected [] files = files"
| "collect_expected (st # sts) files =
     collect_expected sts (collect_paths (ignored_paths st) (subtask_paths st) files)"

definition collect_expected_repo_files :: "obj list \<Rightarrow> string list" where
  "collect_expected_repo_files subtasks = collect_expected subtasks []"

section \<open>The commands of a plan\<close>

definition safe_prefixes :: "string list" where
  "safe_prefixes = [''ls '', ''cat '', ''grep '', ''test '', ''find '', ''wc '', ''head '', ''tail '',
     ''sed '', ''git diff'', ''cargo check '', ''cargo test '', ''cargo fmt '', ''cargo clippy '']"

definition unsafe_tokens :: "string list" where
  "unsafe_tokens = [''npm start'', ''npm run'', ''curl http://'', ''curl https://'', ''localhost:'',
     ''serve '', ''&'']"

definition entry_command :: "json \<Rightarrow> string" where
  "entry_command entry = (case entry of JObj d \<Rightarrow> nonempty (dget d ''command'') | _ \<Rightarrow> nonempty entry)"

definition command_allowed :: "string \<Rightarrow> bool" where
  "command_allowed command =
     (let l = lower command in
      command \<noteq> []
      \<and> \<not> (contains l ''manual'' \<or> contains l ''visual'' \<or> contains l ''browser check'')
      \<and> \<not> list_ex (contains l) unsafe_tokens
      \<and> list_ex (starts_with l) safe_prefixes)"

definition extract_command_checks :: "obj \<Rightarrow> string list" where
  "extract_command_checks plan =
     filter command_allowed (map entry_command (list_of (dget plan ''tests'')))"

section \<open>Running the commands\<close>

datatype cmd_outcome = Exited int string string | Timed_out string string

type_synonym 'w shell = "string \<Rightarrow> 'w \<Rightarrow> cmd_outcome \<times> 'w"

definition command_check_attempt_count :: "string option \<Rightarrow> nat" where
  "command_check_attempt_count env =
     (case py_int (case env of None \<Rightarrow> [] | Some s \<Rightarrow> s) of
        Some n \<Rightarrow> nat (max 1 (min 5 n))
      | None \<Rightarrow> 2)"

definition run_single_command_check :: "'w shell \<Rightarrow> string \<Rightarrow> 'w \<Rightarrow> obj \<times> 'w" where
  "run_single_command_check exec command w =
     (case exec command w of
        (Exited rc out err, w') \<Rightarrow>
          ([(''command'', JStr command), (''returncode'', JInt rc), (''stdout'', JStr (strip out)),
            (''stderr'', JStr (strip err)), (''status'', JStr (if rc = 0 then ''pass'' else ''fail''))], w')
      | (Timed_out out err, w') \<Rightarrow>
          ([(''command'', JStr command), (''returncode'', JNull), (''stdout'', JStr (strip out)),
            (''stderr'', JStr (if strip err = [] then ''timed out'' else strip err)),
            (''status'', JStr ''fail'')], w'))"

definition check_passed :: "obj \<Rightarrow> bool" where
  "check_passed r = (dget r ''status'' = JStr ''pass'')"

text \<open>The attempts of one command, from number \<open>k\<close> on, \<open>n\<close> at most.\<close>

fun command_attempts :: "'w shell \<Rightarrow> string \<Rightarrow> nat \<Rightarrow> nat \<Rightarrow> 'w \<Rightarrow> obj list \<times> 'w" where
  "command_attempts exec command k 0 w = ([], w)"
| "command_attempts exec command k (Suc n) w =
     (let (r, w1) = run_single_command_check exec command w;
          r = dset ''attempt'' (JInt (int k)) r
      in if check_passed r then ([r], w1)
         else let (rs, w2) = command_attempts exec command (Suc k) n w1 in (r # rs, w2))"

definition summarise_attempts :: "obj list \<Rightarrow> obj" where
  "summarise_attempts attempts =
     (let r = dset ''attempt_count'' (JInt (int (length attempts))) (last attempts)
      in if 1 < length attempts then dset ''attempts'' (JList (map JObj attempts)) r else r)"

fun run_command_checks :: "'w shell \<Rightarrow> nat \<Rightarrow> string list \<Rightarrow> 'w \<Rightarrow> obj list \<times> 'w" where
  "run_command_checks exec tries [] w = ([], w)"
| "run_command_checks exec tries (command # commands) w =
     (let (attempts, w1) = command_attempts exec command 1 tries w;
          (results, w2) = run_command_checks exec tries commands w1
      in (if attempts = [] then results else summarise_attempts attempts # results, w2))"

section \<open>Validation\<close>

record file_system =
  fs_exists :: "string \<Rightarrow> bool"
  fs_is_file :: "string \<Rightarrow> bool"
  fs_readable :: "string \<Rightarrow> bool"

definition file_present :: "file_system \<Rightarrow> string \<Rightarrow> bool" where
  "file_present fs p = (fs_exists fs p \<and> fs_is_file fs p)"

definition str_list :: "string list \<Rightarrow> json" where
  "str_list xs = JList (map JStr xs)"

definition deterministic_repo_validation ::
  "file_system \<Rightarrow> 'w shell \<Rightarrow> nat \<Rightarrow> string list \<Rightarrow> string list \<Rightarrow> 'w \<Rightarrow> obj \<times> 'w" where
  "deterministic_repo_validation fs exec tries expected commands w =
     (let missing = filter (\<lambda>p. \<not> file_present fs p) expected;
          present = filter (file_present fs) expected;
          unreadable = filter (\<lambda>p. \<not> fs_readable fs p) present;
          checked = filter (fs_readable fs) present;
          (results, w') = run_command_checks exec tries commands w;
          failures = filter (\<lambda>r. \<not> check_passed r) results
      in ([(''expected_files'', str_list expected), (''present_files'', str_list present),
           (''checked_files'', str_list checked), (''missing_files'', str_list missing),
           (''unreadable_files'', str_list unreadable), (''command_checks'', JList (map JObj results)),
           (''command_failures'', JList (map JObj failures)),
           (''ok'', JBool (missing = [] \<and> unreadable = [] \<and> failures = []))], w'))"

definition first_command :: "json list \<Rightarrow> string res" where
  "first_command failures = (case hd failures of
      JObj d \<Rightarrow> Inr (nonempty (dget d ''command''))
    | _ \<Rightarrow> Inl AttributeError)"

definition repo_validation_blocker_message :: "obj \<Rightarrow> string option res" where
  "repo_validation_blocker_message rv =
     (if truthy (dget rv ''verification_missing'') then Inr (Some ''Verification commands are missing.'')
      else bind_res (py_list (dget rv ''unexpected_files'')) (\<lambda>unexpected.
           bind_res (py_list (dget rv ''missing_files'')) (\<lambda>missing.
           bind_res (py_list (dget rv ''unreadable_files'')) (\<lambda>unreadable.
           bind_res (py_list (dget rv ''command_failures'')) (\<lambda>failures.
             if unexpected \<noteq> [] then
               bind_res (join_strs '', '' unexpected) (\<lambda>s. Inr (Some (''Unexpected repository files changed: '' @ s)))
             else if missing \<noteq> [] then
               bind_res (join_strs '', '' missing) (\<lambda>s. Inr (Some (''Expected repository files are missing: '' @ s)))
             else if unreadable \<noteq> [] then
               bind_res (join_strs '', '' unreadable)
                 (\<lambda>s. Inr (Some (''Expected repository files are unreadable: '' @ s)))
             else if failures \<noteq> [] then
               bind_res (first_command failures)
                 (\<lambda>s. Inr (Some (''Repository validation command failed: '' @ s)))
             else Inr None)))))"

definition repo_validation_blocker_kind :: "obj \<Rightarrow> string option" where
  "repo_validation_blocker_kind rv =
     (if truthy (dget rv ''verification_missing'') then Some ''verification_missing''
      else if truthy (dget rv ''unexpected_files'') then Some ''unexpected_repo_changes''
      else if truthy (dget rv ''missing_files'') then Some ''expected_files_missing''
      else if truthy (dget rv ''unreadable_files'') then Some ''expected_files_unreadable''
      else if truthy (dget rv ''command_failures'') then Some ''verification_failed''
      else None)"

section \<open>Lemmas\<close>

subsection \<open>Paths stay inside the checkout\<close>

lemma split_char_not_Nil [simp]: "split_char d s \<noteq> []"
  by (induction s) (auto split: list.splits)

lemma split_char_hd: "\<exists>b. s @ [d] = hd (split_char d s) @ [d] @ b"
proof (induction s)
  case (Cons c s)
  show ?case
  proof (cases "c = d")
    case False
    obtain w ws where w: "split_char d s = w # ws" by (cases "split_char d s") auto
    with Cons False show ?thesis by auto
  qed simp
qed simp

lemma split_char_tl:
  "w \<in> set (tl (split_char d s)) \<Longrightarrow> \<exists>a b. s @ [d] = a @ d # w @ [d] @ b"
proof (induction s)
  case (Cons c s)
  obtain v vs where v: "split_char d s = v # vs" by (cases "split_char d s") auto
  have step: "\<exists>a b. (c # s) @ [d] = a @ d # w @ [d] @ b" if "w \<in> set vs"
    using Cons.IH v that by (metis append_Cons list.sel(3))
  show ?case
  proof (cases "c = d \<and> w = v")
    case True
    then show ?thesis using split_char_hd [of s d] v by (metis append_Cons append_Nil list.sel(1))
  next
    case False
    with Cons.prems v have "w \<in> set vs" by (auto split: if_splits)
    then show ?thesis by (rule step)
  qed
qed simp

lemma split_char_component:
  assumes "w \<in> set (split_char d s)"
  shows "sublist (d # w @ [d]) (d # s @ [d])"
proof -
  obtain v vs where v: "split_char d s = v # vs" by (cases "split_char d s") auto
  consider "w = v" | "w \<in> set vs" using assms v by auto
  then show ?thesis
  proof cases
    case 1
    then show ?thesis using split_char_hd [of s d] v by (metis append.left_neutral append_Cons list.sel(1) sublist_append_rightI append_assoc)
  next
    case 2
    then obtain a b where "s @ [d] = a @ d # w @ [d] @ b" using split_char_tl [of w d s] v by auto
    then have "d # s @ [d] = (d # a) @ (d # w @ [d]) @ b" by simp
    then show ?thesis unfolding sublist_def by blast
  qed
qed

lemma escapes_if_dotdot: "''..'' \<in> set (split_char (CHR ''/'') p) \<Longrightarrow> path_escapes p"
  using split_char_component [of "''..''" "CHR ''/''" p] by (simp add: path_escapes_def contains_sublist)

definition path_inside :: "string \<Rightarrow> bool" where
  "path_inside p = (p \<noteq> [] \<and> hd p \<noteq> CHR ''/'' \<and> \<not> starts_with p ''./''
     \<and> \<not> List.member (split_char (CHR ''/'') p) ''..'')"

lemma starts_with_slash: "p \<noteq> [] \<Longrightarrow> starts_with p ''/'' \<longleftrightarrow> hd p = CHR ''/''"
  by (cases p) (auto simp: starts_with_def)

lemma rel_text_inside: "rel_text raw \<noteq> [] \<Longrightarrow> \<not> path_escapes (rel_text raw) \<Longrightarrow> path_inside (rel_text raw)"
  using escapes_if_dotdot [of "rel_text raw"] drop_dot_slash_result [of "slash_text raw"] starts_with_slash
  by (auto simp: path_inside_def rel_text_def path_escapes_def)

lemma collect_paths_set:
  "set (collect_paths ignored raws files) = set files \<union>
     {p. \<exists>raw\<in>set raws. p = rel_text raw \<and> p \<notin> set ignored \<and> \<not> path_escapes p \<and> p \<noteq> []}"
  by (induction ignored raws files rule: collect_paths.induct) (auto simp: Let_def)

lemma collect_paths_distinct: "distinct files \<Longrightarrow> distinct (collect_paths ignored raws files)"
  by (induction ignored raws files rule: collect_paths.induct) (auto simp: Let_def)

lemma collect_expected_set:
  "set (collect_expected sts files) = set files \<union>
     {p. \<exists>st\<in>set sts. \<exists>raw\<in>set (subtask_paths st). p = rel_text raw \<and> p \<notin> set (ignored_paths st)
         \<and> \<not> path_escapes p \<and> p \<noteq> []}"
  by (induction sts files rule: collect_expected.induct) (auto simp: collect_paths_set)

lemma collect_expected_distinct: "distinct files \<Longrightarrow> distinct (collect_expected sts files)"
  by (induction sts files rule: collect_expected.induct) (auto simp: collect_paths_distinct)

subsection \<open>Commands\<close>

lemma attempt_count_bounds: "1 \<le> command_check_attempt_count env \<and> command_check_attempt_count env \<le> 5"
  by (auto simp: command_check_attempt_count_def split: option.splits)

lemma run_single_simps:
  "dget (fst (run_single_command_check exec command w)) ''command'' = JStr command"
  by (auto simp: run_single_command_check_def split: prod.splits cmd_outcome.splits)

lemma check_passed_dset [simp]: "k \<noteq> ''status'' \<Longrightarrow> check_passed (dset k v r) = check_passed r"
  by (simp add: check_passed_def)

lemma command_attempts_props:
  "command_attempts exec command k n w = (rs, w') \<Longrightarrow>
     length rs \<le> n \<and> (rs = [] \<longleftrightarrow> n = 0)
     \<and> (\<forall>r\<in>set rs. dget r ''command'' = JStr command)
     \<and> (\<forall>r\<in>set (butlast rs). \<not> check_passed r)
     \<and> (length rs < n \<longrightarrow> check_passed (last rs))"
proof (induction exec command k n w arbitrary: rs w' rule: command_attempts.induct)
  case (2 exec command k n w)
  obtain r w1 where r: "run_single_command_check exec command w = (r, w1)" by (cases "run_single_command_check exec command w") auto
  have cmd: "dget r ''command'' = JStr command" using run_single_simps [of exec command w] r by simp
  show ?case
  proof (cases "check_passed r")
    case True
    with 2 r cmd show ?thesis by (auto simp: Let_def)
  next
    case False
    obtain rs1 w2 where rs1: "command_attempts exec command (Suc k) n w1 = (rs1, w2)"
      by (cases "command_attempts exec command (Suc k) n w1") auto
    have rs: "rs = dset ''attempt'' (JInt (int k)) r # rs1" using 2(2) r False rs1 by (simp add: Let_def)
    have "\<not> check_passed (dset ''attempt'' (JInt (int k)) r)" using False by simp
    note IH = 2(1) [OF r [symmetric] refl refl this rs1]
    show ?thesis
    proof (cases "rs1 = []")
      case True
      with IH False cmd rs show ?thesis by simp
    next
      case rest: False
      with IH False cmd rs show ?thesis by simp
    qed
  qed
qed simp

lemma summarise_dget:
  "j \<notin> {''attempt_count'', ''attempts''} \<Longrightarrow> dget (summarise_attempts rs) j = dget (last rs) j"
  by (simp add: summarise_attempts_def Let_def)

lemma summarise_count: "dget (summarise_attempts rs) ''attempt_count'' = JInt (int (length rs))"
  by (simp add: summarise_attempts_def Let_def)

lemma run_command_checks_props:
  assumes "0 < tries"
  shows "run_command_checks exec tries commands w = (results, w') \<Longrightarrow>
     map (\<lambda>r. dget r ''command'') results = map JStr commands
     \<and> (\<forall>r\<in>set results. \<exists>n. 1 \<le> n \<and> n \<le> tries \<and> dget r ''attempt_count'' = JInt (int n)
          \<and> (n < tries \<longrightarrow> check_passed r))"
proof (induction commands arbitrary: w results w')
  case (Cons command commands)
  obtain rs w1 where rs: "command_attempts exec command 1 tries w = (rs, w1)"
    by (cases "command_attempts exec command 1 tries w") auto
  obtain res w2 where res: "run_command_checks exec tries commands w1 = (res, w2)"
    by (cases "run_command_checks exec tries commands w1") auto
  note props = command_attempts_props [OF rs]
  have ne: "rs \<noteq> []" using props assms by simp
  then have results: "results = summarise_attempts rs # res" using Cons.prems rs res by simp
  have "dget (summarise_attempts rs) ''command'' = JStr command"
    using props ne by (simp add: summarise_dget)
  moreover have "1 \<le> length rs" "length rs \<le> tries" "length rs < tries \<longrightarrow> check_passed (summarise_attempts rs)"
    using props ne by (simp_all add: Suc_leI check_passed_def summarise_dget)
  ultimately show ?case
    using Cons.IH [OF res] summarise_count [of rs] results by auto
qed simp

subsection \<open>Blockers\<close>

lemma py_list_str_list [simp]: "py_list (str_list xs) = Inr (map JStr xs)"
  by (simp add: str_list_def)

lemma truthy_str_list [simp]: "truthy (str_list xs) \<longleftrightarrow> xs \<noteq> []"
  by (simp add: str_list_def)

lemma join_strs_map_JStr [simp]: "join_strs sep (map JStr xs) = Inr (join sep xs)"
  by (simp add: join_strs_def list_all_iff is_str_def comp_def str_of_def)

lemma first_command_objs: "rs \<noteq> [] \<Longrightarrow> first_command (map JObj rs) = Inr (nonempty (dget (hd rs) ''command''))"
  by (simp add: first_command_def list.map_sel(1))

text \<open>A blocker has a kind, and a kind has a blocker.\<close>

lemma blocker_message_kind:
  "repo_validation_blocker_message rv = Inr m \<Longrightarrow> (m = None \<longleftrightarrow> repo_validation_blocker_kind rv = None)"
  using py_list_empty_iff [of "dget rv ''unexpected_files''"] py_list_empty_iff [of "dget rv ''missing_files''"]
    py_list_empty_iff [of "dget rv ''unreadable_files''"] py_list_empty_iff [of "dget rv ''command_failures''"]
  by (auto simp: repo_validation_blocker_message_def repo_validation_blocker_kind_def bind_res_Inr_iff
      split: if_splits)

lemma blocker_kind_None_iff:
  "repo_validation_blocker_kind rv = None \<longleftrightarrow> \<not> truthy (dget rv ''verification_missing'')
     \<and> \<not> truthy (dget rv ''unexpected_files'') \<and> \<not> truthy (dget rv ''missing_files'')
     \<and> \<not> truthy (dget rv ''unreadable_files'') \<and> \<not> truthy (dget rv ''command_failures'')"
  by (auto simp: repo_validation_blocker_kind_def)

section \<open>Properties\<close>

text \<open>C27. The files a plan is expected to touch lie inside the checkout: every collected path is
  relative, not empty, does not start with \<open>./\<close> and has no \<open>..\<close> component. No path is collected twice,
  and a path is collected exactly when some subtask names it and does not ignore it and it does not
  leave the checkout.\<close>
theorem expected_files_stay_inside:
  "distinct (collect_expected_repo_files subtasks)
   \<and> (p \<in> set (collect_expected_repo_files subtasks) \<longrightarrow> path_inside p)
   \<and> (p \<in> set (collect_expected_repo_files subtasks) \<longleftrightarrow>
        (\<exists>st\<in>set subtasks. \<exists>raw\<in>set (subtask_paths st).
           p = rel_text raw \<and> p \<notin> set (ignored_paths st) \<and> \<not> path_escapes p \<and> p \<noteq> []))"
  unfolding collect_expected_repo_files_def collect_expected_set
  using collect_expected_distinct [of "[]" subtasks] rel_text_inside by auto

definition sample_subtasks :: "obj list" where
  "sample_subtasks =
     [[(''files'', JList [JStr ''./src/a.py'', JStr ''../etc/passwd'', JStr ''src/../../x'', JStr ''/etc/hosts'']),
       (''target_files'', JList [JStr ''src/a.py'', JStr ''docs/b.md'', JStr ''skip.txt'']),
       (''ignored_target_files'', JList [JStr ''skip.txt''])]]"

theorem expected_files_stay_inside_witness:
  "collect_expected_repo_files sample_subtasks = [''src/a.py'', ''docs/b.md'']
   \<and> path_inside ''src/a.py'' \<and> path_inside ''docs/b.md''"
proof -
  have "collect_expected_repo_files sample_subtasks = [''src/a.py'', ''docs/b.md'']" by code_simp
  then show ?thesis
    using expected_files_stay_inside [of sample_subtasks "''src/a.py''"]
      expected_files_stay_inside [of sample_subtasks "''docs/b.md''"] by simp
qed

text \<open>C28. The deterministic validation of a checkout is exact: it is \<open>ok\<close> exactly when every expected
  file is there, is a file and can be read and every command passed; every command is run, in order,
  between one and the allowed number of times, and fewer times only when it passed; the blocker message
  never raises, and there is a message, and a kind, exactly when the validation is not \<open>ok\<close>.\<close>
theorem repo_validation_exact:
  assumes "deterministic_repo_validation fs exec tries expected commands w = (v, w')" and "0 < tries"
    and "run_command_checks exec tries commands w = (results, w'')"
  shows "(truthy (dget v ''ok'') \<longleftrightarrow>
            (\<forall>p\<in>set expected. file_present fs p \<and> fs_readable fs p) \<and> (\<forall>r\<in>set results. check_passed r))
    \<and> map (\<lambda>r. dget r ''command'') results = map JStr commands
    \<and> (\<forall>r\<in>set results. \<exists>n. 1 \<le> n \<and> n \<le> tries \<and> dget r ''attempt_count'' = JInt (int n)
         \<and> (n < tries \<longrightarrow> check_passed r))
    \<and> (\<exists>m. repo_validation_blocker_message v = Inr m \<and> (m = None \<longleftrightarrow> truthy (dget v ''ok'')))
    \<and> (repo_validation_blocker_kind v = None \<longleftrightarrow> truthy (dget v ''ok''))"
proof -
  define failures where "failures = filter (\<lambda>r. \<not> check_passed r) results"
  define missing where "missing = filter (\<lambda>p. \<not> file_present fs p) expected"
  define unreadable where "unreadable = filter (\<lambda>p. \<not> fs_readable fs p) (filter (file_present fs) expected)"
  have v: "dget v ''ok'' = JBool (missing = [] \<and> unreadable = [] \<and> failures = [])"
    "dget v ''missing_files'' = str_list missing" "dget v ''unreadable_files'' = str_list unreadable"
    "dget v ''command_failures'' = JList (map JObj failures)"
    "dget v ''verification_missing'' = JNull" "dget v ''unexpected_files'' = JNull"
    using assms(1,3)
    by (auto simp: deterministic_repo_validation_def Let_def missing_def unreadable_def failures_def)
  have ok: "truthy (dget v ''ok'') \<longleftrightarrow>
      (\<forall>p\<in>set expected. file_present fs p \<and> fs_readable fs p) \<and> (\<forall>r\<in>set results. check_passed r)"
    by (auto simp: v missing_def unreadable_def failures_def filter_empty_conv)
  have kind: "repo_validation_blocker_kind v = None \<longleftrightarrow> truthy (dget v ''ok'')"
    by (auto simp: blocker_kind_None_iff v)
  have "\<exists>m. repo_validation_blocker_message v = Inr m"
    by (simp add: repo_validation_blocker_message_def v first_command_objs)
  then obtain m where m: "repo_validation_blocker_message v = Inr m" ..
  have "m = None \<longleftrightarrow> truthy (dget v ''ok'')"
    using blocker_message_kind [OF m] kind by simp
  with m have "\<exists>m. repo_validation_blocker_message v = Inr m \<and> (m = None \<longleftrightarrow> truthy (dget v ''ok''))"
    by auto
  with ok kind run_command_checks_props [OF assms(2,3)] show ?thesis by (intro conjI) simp_all
qed

text \<open>A shell in which a command fails as often as the world says and passes from then on.\<close>

definition flaky_shell :: "nat shell" where
  "flaky_shell command w =
     (if w = 0 then (Exited 0 ''ok'' [], 0) else (Exited 1 [] ''boom'', w - 1))"

definition open_fs :: file_system where
  "open_fs = \<lparr>fs_exists = (\<lambda>p. True), fs_is_file = (\<lambda>p. True), fs_readable = (\<lambda>p. True)\<rparr>"

theorem repo_validation_exact_witness:
  "truthy (dget (fst (deterministic_repo_validation open_fs flaky_shell 2 [''a.py''] [''cargo test ''] 1)) ''ok'')
   \<and> repo_validation_blocker_kind
       (fst (deterministic_repo_validation open_fs flaky_shell 2 [''a.py''] [''cargo test ''] 2)) \<noteq> None"
proof -
  have ran: "snd (deterministic_repo_validation open_fs flaky_shell 2 [''a.py''] [''cargo test ''] 1) = 0"
    "list_all check_passed (fst (run_command_checks flaky_shell 2 [''cargo test ''] 1))"
    "\<not> list_all check_passed (fst (run_command_checks flaky_shell 2 [''cargo test ''] 2))"
    by code_simp+
  have files: "file_present open_fs p" "fs_readable open_fs p" for p
    by (simp_all add: open_fs_def file_present_def)
  obtain v1 x1 v2 x2 where v:
    "deterministic_repo_validation open_fs flaky_shell 2 [''a.py''] [''cargo test ''] 1 = (v1, x1)"
    "deterministic_repo_validation open_fs flaky_shell 2 [''a.py''] [''cargo test ''] 2 = (v2, x2)"
    by (meson surj_pair)
  obtain r1 y1 r2 y2 where r: "run_command_checks flaky_shell 2 [''cargo test ''] 1 = (r1, y1)"
    "run_command_checks flaky_shell 2 [''cargo test ''] 2 = (r2, y2)"
    by (meson surj_pair)
  have "\<forall>r\<in>set r1. check_passed r" "\<not> (\<forall>r\<in>set r2. check_passed r)"
    using ran(2,3) unfolding r by (simp_all add: list_all_iff)
  then show ?thesis
    using repo_validation_exact [OF v(1) zero_less_numeral r(1)]
      repo_validation_exact [OF v(2) zero_less_numeral r(2)]
    unfolding v fst_conv by (simp add: files)
qed

end
