(* ===== verification/VerificationPolicy.thy ===== *)
theory VerificationPolicy imports RepoTruth JsonRoundTrip begin

text \<open>
  src/tandem_agents/core/verification/verification_policy.py: what a run concludes from the text of its
  reviewer, the text of its tester and the validation of the checkout. The agents' texts are arbitrary,
  so reading a field can raise, and the operations return a result.
\<close>

section \<open>Reading an agent's answer\<close>

definition REPAIR_ACTIONS :: "string list" where
  "REPAIR_ACTIONS = [''repair_needed'', ''repair'', ''retry'', ''needs_changes'', ''changes_requested'',
     ''fix_required'', ''revise'', ''fail'', ''failed'']"

definition HUMAN_REVIEW_ACTIONS :: "string list" where
  "HUMAN_REVIEW_ACTIONS = [''human_review_needed'', ''human_review'', ''human_review_required'',
     ''manual_review'', ''needs_human_review'', ''review_inconclusive_verification_required'']"

definition BLOCKED_ACTIONS :: "string list" where
  "BLOCKED_ACTIONS = [''blocked'', ''pending'', ''in_progress'', ''error'', ''incomplete'', ''unknown'']"

record agent_result =
  ar_returncode :: "int option"
  ar_stdout :: string

text \<open>The text from the first opening brace to the last closing one, when it comes later.\<close>

definition brace_span :: "string \<Rightarrow> string" where
  "brace_span text = rstrip_by (\<lambda>c. c \<noteq> CHR ''}'') (dropWhile (\<lambda>c. c \<noteq> CHR ''{'') text)"

fun first_dict :: "string list \<Rightarrow> obj option" where
  "first_dict [] = None"
| "first_dict (t # ts) = (case loads t of Some (JObj d) \<Rightarrow> Some d | _ \<Rightarrow> first_dict ts)"

definition extract_json :: "string \<Rightarrow> obj option" where
  "extract_json text =
     (if strip text = [] then None
      else first_dict (strip text # (if brace_span text = [] then [] else [strip (brace_span text)])))"

definition agent_payload :: "agent_result \<Rightarrow> obj" where
  "agent_payload r = (case extract_json (ar_stdout r) of Some d \<Rightarrow> d | None \<Rightarrow> [])"

definition normalized_text :: "json \<Rightarrow> string" where
  "normalized_text v = lower (nonempty v)"

definition normalized_action :: "json \<Rightarrow> string" where
  "normalized_action v = replace_char (CHR ''-'') (CHR ''_'') (normalized_text v)"

section \<open>When a tester only misses a validation that did run\<close>

text \<open>\<open>isinstance(check, dict) and _normalized_action(check.get(key)) in values\<close>.\<close>

definition entry_in :: "string \<Rightarrow> string list \<Rightarrow> json \<Rightarrow> bool" where
  "entry_in key values v = (case v of JObj d \<Rightarrow> List.member values (normalized_action (dget d key)) | _ \<Rightarrow> False)"

definition repo_validation_passed_command_checks :: "obj \<Rightarrow> bool res" where
  "repo_validation_passed_command_checks rv =
     (if \<not> truthy (dget rv ''ok'') then Inr False
      else bind_res (py_list (dget rv ''command_checks'')) (\<lambda>checks.
        if checks = [] then Inr False
        else bind_res (py_list (dget rv ''command_failures'')) (\<lambda>failures.
          if failures \<noteq> [] then Inr False
          else Inr (list_all (entry_in ''status'' [''pass'']) checks))))"

definition gap_markers :: "string list" where
  "gap_markers = [''missing_validation'', ''missing validation'', ''not successfully run'', ''not run'',
     ''not executed'', ''no validation'', ''validation is inconclusive'', ''could not run'',
     ''unable to run'', ''commands were not'', ''checks were not'']"

definition tester_outcome_is_only_missing_validation :: "obj \<Rightarrow> obj \<Rightarrow> bool res" where
  "tester_outcome_is_only_missing_validation payload rv =
     bind_res (repo_validation_passed_command_checks rv) (\<lambda>passed.
       if \<not> passed then Inr False
       else if truthy (dget payload ''findings'') \<or> truthy (dget payload ''required_fixes'') then Inr False
       else Inr (list_ex (contains (lower (dumps_spaced (sort_keys (JObj payload))))) gap_markers))"

section \<open>The severity of an answer\<close>

definition SEVERE :: "string list" where
  "SEVERE = [''critical'', ''high'', ''error'', ''blocking'', ''blocker'', ''fatal'']"

definition action_of :: "obj \<Rightarrow> string" where
  "action_of payload = normalized_action (dget_or payload [''next_action'', ''action'', ''outcome''])"

definition asks :: "string list \<Rightarrow> string \<Rightarrow> obj \<Rightarrow> bool" where
  "asks actions status payload =
     (List.member actions (action_of payload) \<or> List.member actions (normalized_action (JStr status)))"

definition review_severity :: "string \<Rightarrow> obj \<Rightarrow> bool \<Rightarrow> string \<times> string option" where
  "review_severity status payload severe =
     (let next_action = action_of payload in
      if asks HUMAN_REVIEW_ACTIONS status payload then
        (''human_review_needed'',
         Some (''Reviewer status is '' @ ticked (first_nonempty [status, next_action, ''unknown'']) @ ''.''))
      else if asks REPAIR_ACTIONS status payload then
        (''repair_needed'', Some ''Reviewer reported required fixes.'')
      else if severe then (''repair_needed'', Some ''Reviewer reported high-severity findings.'')
      else if truthy (dget payload ''required_fixes'') then
        (''repair_needed'', Some ''Reviewer reported required fixes.'')
      else if asks BLOCKED_ACTIONS status payload then
        (''blocked'',
         Some (''Reviewer status is '' @ ticked (first_nonempty [status, next_action, ''blocked'']) @ ''.''))
      else (''pass'', None))"

definition results_status :: "obj \<Rightarrow> string" where
  "results_status payload =
     (case dget payload ''results'' of
        JStr s \<Rightarrow> normalized_action (JStr s)
      | JList rs \<Rightarrow>
          (if list_ex (entry_in ''status'' [''fail'', ''failed'', ''error'']) rs then ''failed''
           else if list_ex (entry_in ''status'' [''blocked'', ''pending'', ''in_progress'']) rs then ''blocked''
           else ''pass'')
      | _ \<Rightarrow> normalized_action (dget payload ''overall_status''))"

definition tester_severity :: "string \<Rightarrow> obj \<Rightarrow> string \<times> string option" where
  "tester_severity status payload =
     (let next_action = action_of payload; results = results_status payload in
      if asks HUMAN_REVIEW_ACTIONS status payload then
        (''human_review_needed'',
         Some (''Tester status is '' @ ticked (first_nonempty [status, next_action, ''unknown'']) @ ''.''))
      else if asks REPAIR_ACTIONS status payload \<or> results = ''failed'' then
        (''repair_needed'',
         Some (''Tester results are '' @ ticked (first_nonempty [results, status, next_action, ''failed'']) @ ''.''))
      else if asks BLOCKED_ACTIONS status payload
          \<or> List.member [''blocked'', ''pending'', ''in_progress''] results then
        (''blocked'',
         Some (''Tester results are '' @ ticked (first_nonempty [results, status, next_action, ''blocked'']) @ ''.''))
      else (''pass'', None))"

definition severe_findings :: "obj \<Rightarrow> json list res" where
  "severe_findings payload =
     bind_res (py_list (dget payload ''findings'')) (\<lambda>findings.
       Inr (filter (entry_in ''severity'' SEVERE) findings))"

datatype source = Review | Test

definition severity_label :: "string \<Rightarrow> obj \<Rightarrow> source \<Rightarrow> (string \<times> string option) res" where
  "severity_label status payload src =
     bind_res (severe_findings payload) (\<lambda>severe.
       Inr (case src of
              Review \<Rightarrow> review_severity status payload (severe \<noteq> [])
            | Test \<Rightarrow> tester_severity status payload))"

section \<open>Blockers\<close>

definition review_status_of :: "obj \<Rightarrow> string" where
  "review_status_of payload =
     normalized_text (dget_or payload [''review_status'', ''status'', ''overall_status'', ''verdict''])"

definition test_status_of :: "obj \<Rightarrow> string" where
  "test_status_of payload = normalized_text (dget_or payload [''status'', ''overall_status'', ''verdict''])"

definition fix_entries :: "json list \<Rightarrow> json list" where
  "fix_entries vs =
     map (\<lambda>v. JObj [(''description'', JStr (py_str v))]) (filter (\<lambda>v. strip (py_str v) \<noteq> []) vs)"

definition readable_fixes :: "json \<Rightarrow> json list" where
  "readable_fixes v = (case v of JObj d \<Rightarrow> fix_entries (map snd d) | JList xs \<Rightarrow> xs | _ \<Rightarrow> [])"

definition known_review_keys :: "string list" where
  "known_review_keys = [''review_status'', ''status'', ''overall_status'', ''verdict'', ''next_action'',
     ''action'', ''outcome'', ''findings'', ''required_fixes'', ''tests'', ''validation'', ''results'']"

text \<open>
  The payload the blocker message is computed from: its \<open>required_fixes\<close> become a list, and a payload
  without a known key whose values are all texts adds them as fixes.
\<close>

definition review_blocker_payload :: "obj \<Rightarrow> obj" where
  "review_blocker_payload payload =
     (let fixes = readable_fixes (dget payload ''required_fixes'');
          payload = dset ''required_fixes'' (JList fixes) payload;
          has_known_keys = list_ex (dhas payload) known_review_keys
      in if \<not> has_known_keys \<and> payload \<noteq> [] \<and> list_all is_str (map snd payload)
         then dset ''required_fixes'' (JList (fixes @ fix_entries (map snd payload))) payload
         else payload)"

definition review_blocker_message :: "agent_result \<Rightarrow> string option res" where
  "review_blocker_message r =
     (let payload = review_blocker_payload (agent_payload r);
          review_status = review_status_of payload
      in bind_res (severe_findings payload) (\<lambda>severe.
         bind_res (severity_label review_status payload Review) (\<lambda>(outcome, message). Inr (
           if outcome = ''pass'' then None
           else if outcome = ''human_review_needed'' then message
           else if outcome = ''repair_needed'' then
             (if severe \<noteq> [] then Some ''Reviewer reported high-severity findings.''
              else if truthy (dget payload ''required_fixes'') then Some ''Reviewer reported required fixes.''
              else message)
           else if review_status \<noteq> [] then Some (''Reviewer status is '' @ ticked review_status @ ''.'')
           else message))))"

text \<open>\<open>test_outcome in {human_review_needed, blocked} and ...only_missing_validation(...)\<close>.\<close>

definition tester_excused :: "string \<Rightarrow> obj \<Rightarrow> obj \<Rightarrow> bool res" where
  "tester_excused outcome payload rv =
     (if outcome = ''human_review_needed'' \<or> outcome = ''blocked''
      then tester_outcome_is_only_missing_validation payload rv else Inr False)"

definition test_blocker_message :: "agent_result \<Rightarrow> obj \<Rightarrow> string option res" where
  "test_blocker_message r rv =
     (let payload = agent_payload r in
      bind_res (severity_label (test_status_of payload) payload Test) (\<lambda>(outcome, message).
      bind_res (tester_excused outcome payload rv) (\<lambda>excused.
        Inr (if excused \<or> outcome = ''pass'' then None else message))))"

section \<open>The decision\<close>

record policy_decision =
  vp_outcome :: string
  vp_failure_category :: "string option"
  vp_review_blocker :: "string option"
  vp_test_blocker :: "string option"
  vp_repo_blocker :: "string option"
  vp_validation_blocker :: "string option"
  vp_should_retry :: bool
  vp_review_returncode :: "int option"
  vp_test_returncode :: "int option"
  vp_review_outcome :: string
  vp_test_outcome :: string

definition msg_or :: "string option \<Rightarrow> string option \<Rightarrow> string option" where
  "msg_or a b = (case a of Some (c # s) \<Rightarrow> a | _ \<Rightarrow> b)"

text \<open>The truth of an optional message.\<close>

definition has_text :: "string option \<Rightarrow> bool" where
  "has_text m \<longleftrightarrow> m \<noteq> None \<and> m \<noteq> Some []"

definition policy_outcome :: "string \<Rightarrow> string \<Rightarrow> bool \<Rightarrow> string" where
  "policy_outcome review_outcome test_outcome repo_blocked =
     (if review_outcome = ''human_review_needed'' \<or> test_outcome = ''human_review_needed''
      then ''human_review_needed''
      else if review_outcome = ''blocked'' \<or> test_outcome = ''blocked'' \<or> repo_blocked then ''blocked''
      else if review_outcome = ''repair_needed'' \<or> test_outcome = ''repair_needed'' then ''repair_needed''
      else ''pass'')"

definition blocker_and_category ::
  "string \<Rightarrow> string \<Rightarrow> string option \<Rightarrow> string option \<Rightarrow> string option \<Rightarrow> obj \<Rightarrow> string option \<times> string option" where
  "blocker_and_category review_outcome test_outcome rb tb repo_b rv =
     (let review_first = msg_or rb (msg_or tb repo_b); test_first = msg_or tb (msg_or rb repo_b) in
      if review_outcome = ''human_review_needed'' then (review_first, Some ''review_human_review_needed'')
      else if test_outcome = ''human_review_needed'' then (test_first, Some ''test_human_review_needed'')
      else if review_outcome = ''repair_needed'' then (review_first, Some ''review_repair_needed'')
      else if test_outcome = ''repair_needed'' then (test_first, Some ''test_repair_needed'')
      else if review_outcome = ''blocked'' then (review_first, Some ''review_blocked'')
      else if test_outcome = ''blocked'' then (test_first, Some ''test_blocked'')
      else (msg_or repo_b (msg_or rb tb),
            if has_text repo_b \<or> truthy (dget rv ''verification_missing'')
            then repo_validation_blocker_kind rv else None))"

definition policy_decision_of ::
  "agent_result \<Rightarrow> agent_result \<Rightarrow> obj \<Rightarrow> string option \<Rightarrow> string option \<Rightarrow> string option \<Rightarrow> string \<Rightarrow> string
     \<Rightarrow> policy_decision" where
  "policy_decision_of r t rv rb tb repo_b review_outcome test_outcome =
     (let bc = blocker_and_category review_outcome test_outcome rb tb repo_b rv;
          repair_requested = (review_outcome = ''repair_needed'' \<or> test_outcome = ''repair_needed'');
          success = (\<lambda>rc. rc = None \<or> rc = Some 0)
      in \<lparr>vp_outcome = policy_outcome review_outcome test_outcome (has_text repo_b),
          vp_failure_category = snd bc, vp_review_blocker = rb, vp_test_blocker = tb,
          vp_repo_blocker = repo_b, vp_validation_blocker = fst bc,
          vp_should_retry = (repair_requested \<and> (success (ar_returncode r) \<or> success (ar_returncode t)
            \<or> has_text (fst bc) \<or> has_text repo_b)),
          vp_review_returncode = ar_returncode r, vp_test_returncode = ar_returncode t,
          vp_review_outcome = review_outcome, vp_test_outcome = test_outcome\<rparr>)"

definition evaluate_verification_policy :: "agent_result \<Rightarrow> agent_result \<Rightarrow> obj \<Rightarrow> policy_decision res" where
  "evaluate_verification_policy review_result test_result rv =
     bind_res (review_blocker_message review_result) (\<lambda>rb.
     bind_res (test_blocker_message test_result rv) (\<lambda>tb.
     bind_res (repo_validation_blocker_message rv) (\<lambda>repo_b.
       let review_payload = agent_payload review_result; test_payload = agent_payload test_result in
       bind_res (severity_label (review_status_of review_payload) review_payload Review) (\<lambda>review_label.
       bind_res (severity_label (test_status_of test_payload) test_payload Test) (\<lambda>test_label.
       bind_res (tester_excused (fst test_label) test_payload rv) (\<lambda>excused.
         Inr (policy_decision_of review_result test_result rv rb tb repo_b (fst review_label)
                (if excused then ''pass'' else fst test_label))))))))"

section \<open>Lemmas\<close>

lemma has_text_simps [simp]: "\<not> has_text None" "has_text (Some (c # s))" "\<not> has_text (Some [])"
  by (simp_all add: has_text_def)

lemma msg_or_simps [simp]: "msg_or None b = b" "msg_or (Some (c # s)) b = Some (c # s)"
  by (simp_all add: msg_or_def)

lemma msg_or_has_text: "has_text a \<or> has_text b \<Longrightarrow> has_text (msg_or a b)"
  by (auto simp: has_text_def msg_or_def split: option.splits list.splits)

lemma has_text_not_None: "has_text m \<Longrightarrow> m \<noteq> None"
  by (auto simp: has_text_def)

subsection \<open>What an accepting answer is\<close>

definition reviewer_accepts :: "obj \<Rightarrow> bool" where
  "reviewer_accepts p \<longleftrightarrow>
     \<not> asks HUMAN_REVIEW_ACTIONS (review_status_of p) p \<and> \<not> asks REPAIR_ACTIONS (review_status_of p) p
     \<and> \<not> asks BLOCKED_ACTIONS (review_status_of p) p \<and> severe_findings p = Inr []
     \<and> \<not> truthy (dget p ''required_fixes'')"

definition tester_accepts :: "obj \<Rightarrow> bool" where
  "tester_accepts p \<longleftrightarrow>
     \<not> asks HUMAN_REVIEW_ACTIONS (test_status_of p) p \<and> \<not> asks REPAIR_ACTIONS (test_status_of p) p
     \<and> \<not> asks BLOCKED_ACTIONS (test_status_of p) p
     \<and> \<not> List.member [''failed'', ''blocked'', ''pending'', ''in_progress''] (results_status p)"

definition tester_wants_repair :: "obj \<Rightarrow> bool" where
  "tester_wants_repair p \<longleftrightarrow> \<not> asks HUMAN_REVIEW_ACTIONS (test_status_of p) p
     \<and> (asks REPAIR_ACTIONS (test_status_of p) p \<or> results_status p = ''failed'')"

lemma review_severity_pass:
  "fst (review_severity (review_status_of p) p (severe \<noteq> [])) = ''pass'' \<and> severe_findings p = Inr severe
     \<longleftrightarrow> reviewer_accepts p \<and> severe = []"
  by (auto simp: review_severity_def reviewer_accepts_def Let_def)

lemma tester_severity_pass: "fst (tester_severity (test_status_of p) p) = ''pass'' \<longleftrightarrow> tester_accepts p"
  by (auto simp: tester_severity_def tester_accepts_def Let_def)

lemma tester_severity_repair:
  "fst (tester_severity (test_status_of p) p) = ''repair_needed'' \<longleftrightarrow> tester_wants_repair p"
  by (auto simp: tester_severity_def tester_wants_repair_def Let_def)

lemma review_severity_cases:
  "fst (review_severity st p sev) \<in> {''pass'', ''human_review_needed'', ''repair_needed'', ''blocked''}"
  by (simp add: review_severity_def Let_def)

lemma tester_severity_cases:
  "fst (tester_severity st p) \<in> {''pass'', ''human_review_needed'', ''repair_needed'', ''blocked''}"
  by (simp add: tester_severity_def Let_def)

lemma review_message: "fst (review_severity st p sev) \<noteq> ''pass'' \<Longrightarrow> has_text (snd (review_severity st p sev))"
  by (simp add: review_severity_def Let_def split: if_splits)

lemma tester_message: "fst (tester_severity st p) \<noteq> ''pass'' \<Longrightarrow> has_text (snd (tester_severity st p))"
  by (simp add: tester_severity_def Let_def split: if_splits)

subsection \<open>The decision, unfolded\<close>

lemma evaluate_elim:
  assumes "evaluate_verification_policy r t rv = Inr d"
  obtains severe excused rb tb repo_b
  where "severe_findings (agent_payload r) = Inr severe"
    and "tester_excused (fst (tester_severity (test_status_of (agent_payload t)) (agent_payload t))) (agent_payload t) rv
           = Inr excused"
    and "review_blocker_message r = Inr rb" and "test_blocker_message t rv = Inr tb"
    and "repo_validation_blocker_message rv = Inr repo_b"
    and "d = policy_decision_of r t rv rb tb repo_b
           (fst (review_severity (review_status_of (agent_payload r)) (agent_payload r) (severe \<noteq> [])))
           (if excused then ''pass''
            else fst (tester_severity (test_status_of (agent_payload t)) (agent_payload t)))"
proof -
  from assms obtain rb tb repo_b sr st excused
    where "review_blocker_message r = Inr rb" "test_blocker_message t rv = Inr tb"
      "repo_validation_blocker_message rv = Inr repo_b"
      "severe_findings (agent_payload r) = Inr sr" "severe_findings (agent_payload t) = Inr st"
      "tester_excused (fst (tester_severity (test_status_of (agent_payload t)) (agent_payload t))) (agent_payload t) rv
         = Inr excused"
      "d = policy_decision_of r t rv rb tb repo_b
           (fst (review_severity (review_status_of (agent_payload r)) (agent_payload r) (sr \<noteq> [])))
           (if excused then ''pass''
            else fst (tester_severity (test_status_of (agent_payload t)) (agent_payload t)))"
    by (auto simp: evaluate_verification_policy_def severity_label_def bind_res_Inr_iff Let_def)
  then show thesis using that by blast
qed

lemma decision_simps [simp]:
  "vp_outcome (policy_decision_of r t rv rb tb repo_b ro to) = policy_outcome ro to (has_text repo_b)"
  "vp_validation_blocker (policy_decision_of r t rv rb tb repo_b ro to) =
     fst (blocker_and_category ro to rb tb repo_b rv)"
  "vp_failure_category (policy_decision_of r t rv rb tb repo_b ro to) =
     snd (blocker_and_category ro to rb tb repo_b rv)"
  by (simp_all add: policy_decision_of_def Let_def)

lemma decision_retry:
  "vp_should_retry (policy_decision_of r t rv rb tb repo_b ro to) \<Longrightarrow> ro = ''repair_needed'' \<or> to = ''repair_needed''"
  by (simp add: policy_decision_of_def Let_def)

lemma policy_outcome_pass:
  "policy_outcome ro to b = ''pass'' \<longleftrightarrow>
     ro \<notin> {''human_review_needed'', ''blocked'', ''repair_needed''}
     \<and> to \<notin> {''human_review_needed'', ''blocked'', ''repair_needed''} \<and> \<not> b"
  by (auto simp: policy_outcome_def)

text \<open>The excuse in full.\<close>

lemma excused_iff:
  "tester_excused (fst (tester_severity (test_status_of p) p)) p rv = Inr True \<longleftrightarrow>
     \<not> tester_accepts p \<and> \<not> tester_wants_repair p \<and> tester_outcome_is_only_missing_validation p rv = Inr True"
  using tester_severity_cases [of "test_status_of p" p] tester_severity_pass [of p] tester_severity_repair [of p]
  by (auto simp: tester_excused_def)

subsection \<open>Blockers\<close>

text \<open>A blocker message is a text: every message of the module starts with a letter.\<close>

lemma repo_message_text: "repo_validation_blocker_message rv = Inr (Some m) \<Longrightarrow> m \<noteq> []"
  by (auto simp: repo_validation_blocker_message_def bind_res_Inr_iff split: if_splits)

lemma has_text_repo:
  "repo_validation_blocker_message rv = Inr m \<Longrightarrow> has_text m \<longleftrightarrow> repo_validation_blocker_kind rv \<noteq> None"
  using blocker_message_kind [of rv m] repo_message_text [of rv] by (auto simp: has_text_def)

text \<open>The payload the message is computed from always knows the key \<open>required_fixes\<close>.\<close>

lemma review_blocker_payload_eq:
  "review_blocker_payload p = dset ''required_fixes'' (JList (readable_fixes (dget p ''required_fixes''))) p"
  by (simp add: review_blocker_payload_def Let_def known_review_keys_def)

lemma review_status_dset: "review_status_of (dset ''required_fixes'' v p) = review_status_of p"
  by (simp add: review_status_of_def)

lemma asks_dset: "asks acts st (dset ''required_fixes'' v p) = asks acts st p"
  by (simp add: asks_def action_of_def)

lemma severe_dset: "severe_findings (dset ''required_fixes'' v p) = severe_findings p"
  by (simp add: severe_findings_def)

definition fixes_readable :: "obj \<Rightarrow> bool" where
  "fixes_readable p \<longleftrightarrow> \<not> truthy (dget p ''required_fixes'') \<or> readable_fixes (dget p ''required_fixes'') \<noteq> []"

lemma readable_fixes_truthy: "readable_fixes v \<noteq> [] \<Longrightarrow> truthy v"
  by (cases v) (auto simp: readable_fixes_def fix_entries_def)

lemma review_severity_dset:
  assumes "fixes_readable p"
  shows "review_severity st (dset ''required_fixes'' (JList (readable_fixes (dget p ''required_fixes''))) p) sev =
    review_severity st p sev"
proof -
  have "readable_fixes (dget p ''required_fixes'') \<noteq> [] \<longleftrightarrow> truthy (dget p ''required_fixes'')"
    using assms readable_fixes_truthy by (auto simp: fixes_readable_def)
  then show ?thesis by (simp add: review_severity_def asks_dset action_of_def Let_def)
qed

lemma review_blocker_text:
  assumes "review_blocker_message r = Inr m" and "severe_findings (agent_payload r) = Inr severe"
    and "fixes_readable (agent_payload r)"
    and "fst (review_severity (review_status_of (agent_payload r)) (agent_payload r) (severe \<noteq> [])) \<noteq> ''pass''"
  shows "has_text m"
  using assms review_message [OF assms(4)]
  by (auto simp: review_blocker_message_def review_blocker_payload_eq review_status_dset severe_dset
      severity_label_def review_severity_dset Let_def split: prod.splits if_splits)

lemma test_blocker_text:
  assumes "test_blocker_message t rv = Inr m"
    and "tester_excused (fst (tester_severity (test_status_of (agent_payload t)) (agent_payload t))) (agent_payload t) rv
           = Inr False"
    and "fst (tester_severity (test_status_of (agent_payload t)) (agent_payload t)) \<noteq> ''pass''"
  shows "has_text m"
  using assms tester_message [OF assms(3)]
  by (auto simp: test_blocker_message_def severity_label_def bind_res_Inr_iff Let_def split: prod.splits)

lemma blocker_chain:
  "has_text rb \<or> has_text tb \<or> has_text b \<Longrightarrow>
     has_text (msg_or rb (msg_or tb b)) \<and> has_text (msg_or tb (msg_or rb b)) \<and> has_text (msg_or b (msg_or rb tb))"
  by (auto intro: msg_or_has_text)

lemma blocker_explained:
  assumes "has_text rb \<or> has_text tb \<or> has_text b"
    and "ro \<in> {''human_review_needed'', ''blocked'', ''repair_needed''}
      \<or> to \<in> {''human_review_needed'', ''blocked'', ''repair_needed''}
      \<or> (has_text b \<and> repo_validation_blocker_kind rv \<noteq> None)"
  shows "has_text (fst (blocker_and_category ro to rb tb b rv)) \<and> snd (blocker_and_category ro to rb tb b rv) \<noteq> None"
  using blocker_chain [OF assms(1)] assms(2) by (simp add: blocker_and_category_def Let_def) (elim disjE; simp)

section \<open>Properties\<close>

lemma reviewer_pass_iff:
  assumes "severe_findings p = Inr severe"
  shows "fst (review_severity (review_status_of p) p (severe \<noteq> [])) \<notin>
      {''human_review_needed'', ''blocked'', ''repair_needed''} \<longleftrightarrow> reviewer_accepts p"
  using review_severity_pass [of p severe] review_severity_cases [of "review_status_of p" p "severe \<noteq> []"] assms
  by (auto simp: reviewer_accepts_def)

lemma tester_pass_iff:
  assumes "tester_excused (fst (tester_severity (test_status_of p) p)) p rv = Inr excused"
  shows "(if excused then ''pass'' else fst (tester_severity (test_status_of p) p)) \<notin>
      {''human_review_needed'', ''blocked'', ''repair_needed''} \<longleftrightarrow>
    tester_accepts p \<or> (\<not> tester_wants_repair p \<and> tester_outcome_is_only_missing_validation p rv = Inr True)"
proof (cases excused)
  case True
  then show ?thesis using excused_iff [of p rv] assms by simp
next
  case False
  then have "tester_accepts p \<or> tester_wants_repair p \<or> tester_outcome_is_only_missing_validation p rv \<noteq> Inr True"
    using excused_iff [of p rv] assms by auto
  with False show ?thesis
    using tester_severity_pass [of p] tester_severity_cases [of "test_status_of p" p] by auto
qed

lemma verification_pass_iff:
  assumes "evaluate_verification_policy review_result test_result rv = Inr d"
  shows "vp_outcome d = ''pass'' \<longleftrightarrow>
     reviewer_accepts (agent_payload review_result)
     \<and> (tester_accepts (agent_payload test_result)
        \<or> (\<not> tester_wants_repair (agent_payload test_result)
           \<and> tester_outcome_is_only_missing_validation (agent_payload test_result) rv = Inr True))
     \<and> \<not> truthy (dget rv ''verification_missing'') \<and> \<not> truthy (dget rv ''unexpected_files'')
     \<and> \<not> truthy (dget rv ''missing_files'') \<and> \<not> truthy (dget rv ''unreadable_files'')
     \<and> \<not> truthy (dget rv ''command_failures'')"
  using assms
proof (rule evaluate_elim)
  fix severe :: "json list" and excused :: bool and rb tb repo_b :: "string option"
  assume sev: "severe_findings (agent_payload review_result) = Inr severe"
    and exc: "tester_excused (fst (tester_severity (test_status_of (agent_payload test_result))
        (agent_payload test_result))) (agent_payload test_result) rv = Inr excused"
    and repo: "repo_validation_blocker_message rv = Inr repo_b"
    and d: "d = policy_decision_of review_result test_result rv rb tb repo_b
        (fst (review_severity (review_status_of (agent_payload review_result)) (agent_payload review_result)
          (severe \<noteq> [])))
        (if excused then ''pass''
         else fst (tester_severity (test_status_of (agent_payload test_result)) (agent_payload test_result)))"
  have repo_iff: "\<not> has_text repo_b \<longleftrightarrow> repo_validation_blocker_kind rv = None"
    using has_text_repo [OF repo] by simp
  show ?thesis
    unfolding d decision_simps policy_outcome_pass reviewer_pass_iff [OF sev] tester_pass_iff [OF exc] repo_iff
      blocker_kind_None_iff by (rule refl)
qed

text \<open>C29. A verification passes exactly when the reviewer accepts (neither its next action nor its status
  asks for a human, for a repair or reports a block, none of its findings is severe, it names no required
  fix), the tester accepts (the same, and no failed or unfinished result) or only misses a validation that
  the commands of the checkout did pass, and the checkout has no blocker: no verification missing, no
  unexpected, missing or unreadable file, no failed command.\<close>
theorem verification_passes_exactly_when:
  assumes "evaluate_verification_policy review_result test_result rv = Inr d"
  shows "vp_outcome d = ''pass'' \<longleftrightarrow>
     reviewer_accepts (agent_payload review_result)
     \<and> (tester_accepts (agent_payload test_result)
        \<or> (\<not> tester_wants_repair (agent_payload test_result)
           \<and> tester_outcome_is_only_missing_validation (agent_payload test_result) rv = Inr True))
     \<and> \<not> truthy (dget rv ''verification_missing'') \<and> \<not> truthy (dget rv ''unexpected_files'')
     \<and> \<not> truthy (dget rv ''missing_files'') \<and> \<not> truthy (dget rv ''unreadable_files'')
     \<and> \<not> truthy (dget rv ''command_failures'')"
  using assms by (rule verification_pass_iff)

definition answer :: "obj \<Rightarrow> agent_result" where
  "answer payload = \<lparr>ar_returncode = Some 0, ar_stdout = dumps (JObj payload)\<rparr>"

lemma printed_object:
  assumes "json_wf (JObj p)" and "sort_keys_pairs p = p"
  shows "strip (dumps (JObj p)) = dumps (JObj p)" and "dumps (JObj p) \<noteq> []" and "loads (dumps (JObj p)) = Some (JObj p)"
proof -
  have shape: "dumps (JObj p) = CHR ''{'' # dumps_pairs p @ [CHR ''}'']"
    using assms(2) by (simp add: dumps_def)
  have "\<not> is_space (CHR ''{'')" "\<not> is_space (CHR ''}'')" by code_simp+
  then show "strip (dumps (JObj p)) = dumps (JObj p)"
    unfolding shape strip_def by (intro strip_by_fixed) simp
  show "dumps (JObj p) \<noteq> []" by (simp add: shape)
  show "loads (dumps (JObj p)) = Some (JObj p)" using loads_dumps [OF assms(1)] assms(2) by simp
qed

lemma agent_payload_answer:
  assumes "json_wf (JObj p)" and "sort_keys_pairs p = p"
  shows "agent_payload (answer p) = p"
  using printed_object [OF assms] by (simp add: agent_payload_def answer_def extract_json_def)

definition returns :: "'a res \<Rightarrow> bool" where
  "returns m = (case m of Inr _ \<Rightarrow> True | Inl _ \<Rightarrow> False)"

lemma returnsD: "returns m \<Longrightarrow> \<exists>x. m = Inr x"
  by (cases m) (auto simp: returns_def)

definition good_payload :: obj where
  "good_payload = [(''findings'', JList [JObj [(''severity'', JStr ''low'')]]), (''status'', JStr ''Approved'')]"

definition unrun_payload :: obj where
  "unrun_payload = [(''notes'', JStr ''not run''), (''status'', JStr ''blocked'')]"

definition bad_payload :: obj where
  "bad_payload = [(''required_fixes'', JObj [(''a'', JStr ''add a test'')]), (''verdict'', JStr ''needs-changes'')]"

definition green_checkout :: obj where
  "green_checkout = [(''command_checks'', JList [JObj [(''status'', JStr ''pass'')]]), (''ok'', JBool True)]"

lemma sample_answers [simp]:
  "agent_payload (answer good_payload) = good_payload"
  "agent_payload (answer unrun_payload) = unrun_payload"
  "agent_payload (answer bad_payload) = bad_payload"
  by (rule agent_payload_answer; code_simp)+

text \<open>Only an unreadable list of findings, or a broken validation, makes the policy raise.\<close>

lemma evaluate_returns:
  assumes "returns (severe_findings (agent_payload r))" and "returns (severe_findings (agent_payload t))"
    and "returns (repo_validation_blocker_message rv)"
    and "returns (tester_outcome_is_only_missing_validation (agent_payload t) rv)"
  shows "\<exists>d. evaluate_verification_policy r t rv = Inr d"
proof -
  obtain sr st m b where eqs: "severe_findings (agent_payload r) = Inr sr" "severe_findings (agent_payload t) = Inr st"
    "repo_validation_blocker_message rv = Inr m"
    "tester_outcome_is_only_missing_validation (agent_payload t) rv = Inr b"
    using assms by (auto dest!: returnsD)
  have "\<exists>x. tester_excused out (agent_payload t) rv = Inr x" for out
    unfolding tester_excused_def eqs by (cases "out = ''human_review_needed'' \<or> out = ''blocked''") auto
  then obtain ex where ex: "\<And>out. tester_excused out (agent_payload t) rv = Inr (ex out)" by metis
  obtain rb where "review_blocker_message r = Inr rb"
    by (simp add: review_blocker_message_def review_blocker_payload_eq severity_label_def severe_dset eqs Let_def
        split_beta)
  moreover obtain tb where "test_blocker_message t rv = Inr tb"
    by (simp add: test_blocker_message_def severity_label_def eqs ex Let_def split_beta)
  ultimately show ?thesis
    by (simp add: evaluate_verification_policy_def severity_label_def eqs ex Let_def)
qed

theorem verification_passes_exactly_when_witness:
  "\<exists>d. evaluate_verification_policy (answer good_payload) (answer unrun_payload) green_checkout = Inr d
     \<and> vp_outcome d = ''pass''"
proof -
  have missing: "tester_outcome_is_only_missing_validation unrun_payload green_checkout = Inr True" by code_simp
  have "returns (severe_findings good_payload)" "returns (severe_findings unrun_payload)"
    "returns (repo_validation_blocker_message green_checkout)" by code_simp+
  then obtain d where d: "evaluate_verification_policy (answer good_payload) (answer unrun_payload) green_checkout = Inr d"
    using evaluate_returns [of "answer good_payload" "answer unrun_payload" green_checkout] missing
    by (auto simp: returns_def)
  have "reviewer_accepts good_payload" "\<not> tester_wants_repair unrun_payload" by code_simp+
  then show ?thesis
    using verification_passes_exactly_when [OF d] d missing by (simp add: green_checkout_def)
qed

text \<open>C30. A run that does not pass says why: unless the reviewer named its required fixes in a form the
  blocker message cannot read (a text, a number, a dict of blank texts), every other outcome comes with a
  failure category and a blocker that is not empty. A retry is only asked for when the outcome is not
  \<open>pass\<close>.\<close>
theorem verification_failure_is_explained:
  assumes "evaluate_verification_policy review_result test_result rv = Inr d"
    and "fixes_readable (agent_payload review_result)"
  shows "(vp_outcome d \<noteq> ''pass'' \<longrightarrow> has_text (vp_validation_blocker d) \<and> vp_failure_category d \<noteq> None)
    \<and> (vp_should_retry d \<longrightarrow> vp_outcome d \<noteq> ''pass'')"
  using assms(1)
proof (rule evaluate_elim)
  fix severe :: "json list" and excused :: bool and rb tb repo_b :: "string option"
  let ?ro = "fst (review_severity (review_status_of (agent_payload review_result)) (agent_payload review_result)
          (severe \<noteq> []))"
  let ?tl = "fst (tester_severity (test_status_of (agent_payload test_result)) (agent_payload test_result))"
  assume sev: "severe_findings (agent_payload review_result) = Inr severe"
    and exc: "tester_excused ?tl (agent_payload test_result) rv = Inr excused"
    and rb: "review_blocker_message review_result = Inr rb"
    and tb: "test_blocker_message test_result rv = Inr tb"
    and repo: "repo_validation_blocker_message rv = Inr repo_b"
    and d: "d = policy_decision_of review_result test_result rv rb tb repo_b ?ro
        (if excused then ''pass'' else ?tl)"
  define ro where "ro = ?ro"
  define to where "to = (if excused then ''pass'' else ?tl)"
  have d': "d = policy_decision_of review_result test_result rv rb tb repo_b ro to"
    unfolding d ro_def to_def ..
  have r: "ro \<noteq> ''pass'' \<Longrightarrow> has_text rb"
    unfolding ro_def by (rule review_blocker_text [OF rb sev assms(2)])
  have t: "has_text tb" if "to \<noteq> ''pass''"
  proof -
    from that have "\<not> excused" "?tl \<noteq> ''pass''" by (auto simp: to_def split: if_splits)
    with exc show ?thesis using test_blocker_text [OF tb] by simp
  qed
  have k: "has_text repo_b \<longleftrightarrow> repo_validation_blocker_kind rv \<noteq> None" by (rule has_text_repo [OF repo])
  have "has_text (fst (blocker_and_category ro to rb tb repo_b rv))
      \<and> snd (blocker_and_category ro to rb tb repo_b rv) \<noteq> None"
    if "policy_outcome ro to (has_text repo_b) \<noteq> ''pass''"
  proof (rule blocker_explained)
    have failing: "ro \<in> {''human_review_needed'', ''blocked'', ''repair_needed''}
        \<or> to \<in> {''human_review_needed'', ''blocked'', ''repair_needed''} \<or> has_text repo_b"
      using that unfolding policy_outcome_pass by blast
    then show "ro \<in> {''human_review_needed'', ''blocked'', ''repair_needed''}
        \<or> to \<in> {''human_review_needed'', ''blocked'', ''repair_needed''}
        \<or> (has_text repo_b \<and> repo_validation_blocker_kind rv \<noteq> None)"
      using k by blast
    have "ro \<noteq> ''pass''" if "ro \<in> {''human_review_needed'', ''blocked'', ''repair_needed''}"
      using that by auto
    moreover have "to \<noteq> ''pass''" if "to \<in> {''human_review_needed'', ''blocked'', ''repair_needed''}"
      using that by auto
    ultimately show "has_text rb \<or> has_text tb \<or> has_text repo_b" using failing r t by blast
  qed
  moreover have "policy_outcome ro to (has_text repo_b) \<noteq> ''pass''"
    if "vp_should_retry d"
    using decision_retry [OF that [unfolded d']] by (auto simp: policy_outcome_pass)
  ultimately show ?thesis by (simp add: d')
qed

theorem verification_failure_is_explained_witness:
  "\<exists>d. evaluate_verification_policy (answer bad_payload) (answer good_payload) green_checkout = Inr d
     \<and> has_text (vp_validation_blocker d) \<and> vp_failure_category d \<noteq> None"
proof -
  have "returns (severe_findings good_payload)" "returns (severe_findings bad_payload)"
    "returns (repo_validation_blocker_message green_checkout)"
    "returns (tester_outcome_is_only_missing_validation good_payload green_checkout)" by code_simp+
  then obtain d where d: "evaluate_verification_policy (answer bad_payload) (answer good_payload) green_checkout = Inr d"
    using evaluate_returns [of "answer bad_payload" "answer good_payload" green_checkout] by auto
  have bad: "\<not> reviewer_accepts bad_payload" "fixes_readable bad_payload" by code_simp+
  have "vp_outcome d \<noteq> ''pass''" using verification_pass_iff [OF d] bad(1) by simp
  with d bad(2) show ?thesis using verification_failure_is_explained [OF d] by simp
qed

text \<open>The verification fails open: when neither answer holds a key the policy reads (the reviewer and
  the tester crashed, printed no JSON, or answered with free text only), a checkout without a blocker
  passes, with no blocker reported, whatever the two return codes are.\<close>
theorem silent_agents_pass:
  assumes "\<forall>k\<in>set known_review_keys. \<not> dhas (agent_payload review_result) k"
    and "\<forall>k\<in>set known_review_keys. \<not> dhas (agent_payload test_result) k"
    and "repo_validation_blocker_message rv = Inr None"
  shows "\<exists>d. evaluate_verification_policy review_result test_result rv = Inr d \<and> vp_outcome d = ''pass''
     \<and> vp_review_blocker d = None \<and> vp_test_blocker d = None \<and> vp_failure_category d = None
     \<and> \<not> vp_should_retry d"
proof -
  have get: "dget p k = JNull" if "\<forall>k\<in>set known_review_keys. \<not> dhas p k" "k \<in> set known_review_keys" for p k
    using that by (auto simp: dhas_def dget_def split: option.splits)
  have silent: "review_status_of p = []" "test_status_of p = []" "action_of p = []" "results_status p = []"
      "severe_findings p = Inr []" "dget p ''required_fixes'' = JNull" "fixes_readable p"
    if p: "\<forall>k\<in>set known_review_keys. \<not> dhas p k" for p
    using get [OF p]
    by (simp_all add: known_review_keys_def review_status_of_def test_status_of_def action_of_def
        results_status_def severe_findings_def fixes_readable_def py_or_def normalized_action_def normalized_text_def
        replace_char_def)
  note r = silent [OF assms(1)] and t = silent [OF assms(2)]
  have none: "\<not> asks HUMAN_REVIEW_ACTIONS [] p" "\<not> asks REPAIR_ACTIONS [] p" "\<not> asks BLOCKED_ACTIONS [] p"
    if "action_of p = []" for p
    using that by (simp_all add: asks_def HUMAN_REVIEW_ACTIONS_def REPAIR_ACTIONS_def BLOCKED_ACTIONS_def
        normalized_action_def normalized_text_def replace_char_def)
  have rs: "review_severity [] (agent_payload review_result) False = (''pass'', None)"
    using none [OF r(3)] r by (simp add: review_severity_def Let_def)
  have ts: "tester_severity [] (agent_payload test_result) = (''pass'', None)"
    using none [OF t(3)] t by (simp add: tester_severity_def Let_def)
  have p: "review_blocker_payload (agent_payload review_result) =
      dset ''required_fixes'' (JList []) (agent_payload review_result)"
    by (simp add: review_blocker_payload_eq r readable_fixes_def)
  have "review_severity [] (dset ''required_fixes'' (JList []) (agent_payload review_result)) False = (''pass'', None)"
    using review_severity_dset [OF r(7), of "[]" False] rs by (simp add: r readable_fixes_def)
  then have rb: "review_blocker_message review_result = Inr None"
    by (simp add: review_blocker_message_def p review_status_dset severe_dset severity_label_def r)
  have tb: "test_blocker_message test_result rv = Inr None"
    using t ts by (simp add: test_blocker_message_def severity_label_def tester_excused_def)
  have kind: "repo_validation_blocker_kind rv = None" using blocker_message_kind [OF assms(3)] by simp
  then have "\<not> truthy (dget rv ''verification_missing'')" by (simp add: blocker_kind_None_iff)
  then show ?thesis
    using r t rs ts rb tb assms(3)
    by (simp add: evaluate_verification_policy_def severity_label_def tester_excused_def policy_decision_of_def
        policy_outcome_def blocker_and_category_def)
qed

definition crashed_answer :: agent_result where
  "crashed_answer = \<lparr>ar_returncode = Some 1, ar_stdout = ''boom''\<rparr>"

definition prose_payload :: obj where
  "prose_payload = [(''summary'', JStr ''The change is wrong and must not be merged.'')]"

theorem silent_agents_pass_witness:
  "\<exists>d. evaluate_verification_policy (answer prose_payload) crashed_answer green_checkout = Inr d
     \<and> vp_outcome d = ''pass''"
proof -
  have "agent_payload (answer prose_payload) = prose_payload" by (rule agent_payload_answer; code_simp)
  moreover have "agent_payload crashed_answer = []" by code_simp
  moreover have "list_all (\<lambda>k. \<not> dhas prose_payload k) known_review_keys"
    "list_all (\<lambda>k. \<not> dhas [] k) known_review_keys"
    "repo_validation_blocker_message green_checkout = Inr None" by code_simp+
  ultimately show ?thesis using silent_agents_pass [of "answer prose_payload" crashed_answer green_checkout]
    by (auto simp: list_all_iff)
qed

end
