(* ===== verification/PrLifecycle.thy ===== *)
theory PrLifecycle imports PyDynamic begin

text \<open>
  The pull request half of src/tandem_agents/core/integrations/github_mcp.py: reading the many shapes in
  which GitHub describes a pull request, the state of its life the supervisor acts on, the feedback a
  repair is built from, and the gates of the automatic merge. What a GitHub tool answers is an input.
\<close>

section \<open>Reading a pull request\<close>

definition status_key_char :: "char \<Rightarrow> bool" where
  "status_key_char c = (is_lower_az c \<or> is_digit c)"

definition is_underscore :: "char \<Rightarrow> bool" where
  "is_underscore c = (c = CHR ''_'')"

definition normalize_status_key :: "string \<Rightarrow> string" where
  "normalize_status_key value =
     strip_by is_underscore (sub_runs (\<lambda>c. \<not> status_key_char c) (CHR ''_'') False (lower (strip value)))"

text \<open>\<open>normalize_status_key(str(d.get(k1) or d.get(k2) or ... or ""))\<close>.\<close>

definition status_key :: "obj \<Rightarrow> string list \<Rightarrow> string" where
  "status_key d ks = normalize_status_key (str_or_empty (dget_or d ks))"

definition dict_entries :: "json list \<Rightarrow> obj list" where
  "dict_entries xs = map obj_of (filter is_obj xs)"

text \<open>The four \<open>_flatten_..._entries\<close> of lists and GraphQL connections, which differ in their keys.\<close>

definition nodes_entries :: "json \<Rightarrow> obj list" where
  "nodes_entries v = (case v of
      JList xs \<Rightarrow> dict_entries xs
    | JObj d \<Rightarrow> (case dget d ''nodes'' of JList xs \<Rightarrow> dict_entries xs | _ \<Rightarrow> [])
    | _ \<Rightarrow> [])"

definition flatten_entries :: "string list \<Rightarrow> json \<Rightarrow> obj list" where
  "flatten_entries ks payload = (case payload of
      JList xs \<Rightarrow> dict_entries xs
    | JObj d \<Rightarrow> concat (map (\<lambda>k. nodes_entries (dget d k)) ks)
    | _ \<Rightarrow> [])"

definition flatten_pull_request_entries :: "json \<Rightarrow> obj list" where
  "flatten_pull_request_entries = flatten_entries [''pullRequests'', ''pull_requests'', ''items'', ''nodes'', ''data'']"

definition flatten_pull_request_file_entries :: "json \<Rightarrow> obj list" where
  "flatten_pull_request_file_entries =
     flatten_entries [''files'', ''pullRequestFiles'', ''pull_request_files'', ''items'', ''nodes'', ''data'']"

definition flatten_review_entries :: "json \<Rightarrow> obj list" where
  "flatten_review_entries =
     flatten_entries [''reviews'', ''pullRequestReviews'', ''pull_request_reviews'', ''items'', ''nodes'', ''data'']"

definition flatten_review_comment_entries :: "json \<Rightarrow> obj list" where
  "flatten_review_comment_entries =
     flatten_entries [''comments'', ''reviewComments'', ''pull_request_review_comments'', ''items'', ''nodes'', ''data'']"

text \<open>The first of some fields that is a text with more than blanks.\<close>

fun first_text :: "obj \<Rightarrow> string list \<Rightarrow> string" where
  "first_text d [] = []"
| "first_text d (k # ks) =
     (case dget d k of JStr s \<Rightarrow> if strip s \<noteq> [] then strip s else first_text d ks | _ \<Rightarrow> first_text d ks)"

definition pull_request_head_ref :: "obj \<Rightarrow> string" where
  "pull_request_head_ref pr =
     (let inner = (case dget pr ''head'' of JObj h \<Rightarrow> first_text h [''ref'', ''name'', ''branch''] | _ \<Rightarrow> [])
      in if inner \<noteq> [] then inner
         else first_text pr [''headRefName'', ''head_ref_name'', ''head_branch'', ''ref''])"

definition pull_request_url :: "obj \<Rightarrow> string" where
  "pull_request_url pr = first_text pr [''html_url'', ''url'', ''web_url'']"

text \<open>\<open>int(value)\<close>, None when it raises. A float's lexeme with an exponent is outside the model.\<close>

definition json_int :: "json \<Rightarrow> int option" where
  "json_int v = (case v of
      JInt i \<Rightarrow> Some i
    | JBool b \<Rightarrow> Some (if b then 1 else 0)
    | JStr s \<Rightarrow> py_int s
    | JFloat s \<Rightarrow> (if mantissa s = s then py_int (takeWhile (\<lambda>c. c \<noteq> CHR ''.'') s) else None)
    | _ \<Rightarrow> None)"

fun first_int :: "obj \<Rightarrow> string list \<Rightarrow> int option" where
  "first_int d [] = None"
| "first_int d (k # ks) = (case json_int (dget d k) of Some i \<Rightarrow> Some i | None \<Rightarrow> first_int d ks)"

text \<open>The search for \<open>/pull/\<close>, digits, and no digit after them.\<close>

fun search_pull :: "string \<Rightarrow> int option" where
  "search_pull [] = None"
| "search_pull (c # s) =
     (let rest = drop 6 (c # s); ds = takeWhile is_digit rest in
      if starts_with (c # s) ''/pull/'' \<and> ds \<noteq> [] \<and> \<not> list_ex is_digit (dropWhile is_digit rest)
      then Some (int (digits_value ds)) else search_pull s)"

definition pull_request_number :: "obj \<Rightarrow> int option" where
  "pull_request_number pr =
     (case first_int pr [''number'', ''pull_number'', ''pullNumber''] of
        Some i \<Rightarrow> Some i | None \<Rightarrow> search_pull (pull_request_url pr))"

definition pull_request_base_ref :: "obj \<Rightarrow> string" where
  "pull_request_base_ref pr =
     (let inner = (case dget pr ''base'' of JObj h \<Rightarrow> first_text h [''ref'', ''name'', ''branch''] | _ \<Rightarrow> [])
      in if inner \<noteq> [] then inner
         else first_text pr [''baseRefName'', ''base_ref_name'', ''base_branch'', ''base''])"

definition nested_repo_name :: "obj \<Rightarrow> string" where
  "nested_repo_name repo =
     (let full = first_text repo [''full_name'', ''nameWithOwner'', ''name_with_owner''];
          owner = (case dget repo ''owner'' of JObj o' \<Rightarrow> nonempty (dget_or o' [''login'', ''name'']) | _ \<Rightarrow> []);
          name = nonempty (dget repo ''name'')
      in if full \<noteq> [] then full
         else if owner \<noteq> [] \<and> name \<noteq> [] then owner @ ''/'' @ name else [])"

definition pull_request_base_repo :: "obj \<Rightarrow> string \<Rightarrow> string" where
  "pull_request_base_repo pr fallback =
     (let nested = (case dget pr ''base'' of
            JObj b \<Rightarrow> (case dget b ''repo'' of JObj repo \<Rightarrow> nested_repo_name repo | _ \<Rightarrow> [])
          | _ \<Rightarrow> [])
      in first_nonempty [nested, first_text pr [''base_repo'', ''baseRepo'', ''repository'', ''repo''], fallback])"

section \<open>Answers of the GitHub tools\<close>

text \<open>The dict under \<open>metadata.result\<close> of an answer.\<close>

definition inner_result :: "obj \<Rightarrow> obj option" where
  "inner_result result = (case dget result ''metadata'' of
      JObj m \<Rightarrow> (case dget m ''result'' of JObj r \<Rightarrow> Some r | _ \<Rightarrow> None)
    | _ \<Rightarrow> None)"

definition tool_failed :: "obj \<Rightarrow> bool" where
  "tool_failed result =
     (let is_error = (case inner_result result of Some r \<Rightarrow> dget r ''isError'' = JBool True | None \<Rightarrow> False);
          output = lower (nonempty (dget result ''output''))
      in is_error \<or> list_ex (starts_with output) [''failed'', ''unknown method'', ''unknown tool'', ''missing required''])"

definition inner_texts :: "obj \<Rightarrow> string list" where
  "inner_texts result = (case inner_result result of
      Some r \<Rightarrow> (case dget r ''content'' of
          JList xs \<Rightarrow> filter (\<lambda>t. strip t \<noteq> []) (map (\<lambda>d. str_of (dget d ''text'')) (dict_entries xs))
        | _ \<Rightarrow> [])
    | None \<Rightarrow> [])"

definition tool_error_message :: "obj \<Rightarrow> string" where
  "tool_error_message result =
     first_nonempty (nonempty (dget result ''output'') # map strip (inner_texts result) @ [''unknown GitHub MCP error''])"

definition is_container :: "json \<Rightarrow> bool" where
  "is_container v = (case v of JObj _ \<Rightarrow> True | JList _ \<Rightarrow> True | _ \<Rightarrow> False)"

fun first_container :: "string list \<Rightarrow> json" where
  "first_container [] = JObj []"
| "first_container (t # ts) =
     (case loads t of Some v \<Rightarrow> if is_container v then v else first_container ts | None \<Rightarrow> first_container ts)"

definition parse_json_output :: "obj \<Rightarrow> json" where
  "parse_json_output result =
     first_container ((case dget result ''output'' of JStr s \<Rightarrow> if strip s \<noteq> [] then [s] else [] | _ \<Rightarrow> [])
       @ inner_texts result)"

section \<open>Reviews and checks\<close>

fun first_status_key :: "obj \<Rightarrow> string list \<Rightarrow> string" where
  "first_status_key d [] = []"
| "first_status_key d (k # ks) = (if status_key d [k] \<noteq> [] then status_key d [k] else first_status_key d ks)"

definition REQUESTED :: "string list" where
  "REQUESTED = [''changes_requested'', ''requested_changes'']"

definition APPROVED :: "string list" where
  "APPROVED = [''approved'', ''approve'']"

definition pull_request_reviews_state :: "obj \<Rightarrow> string" where
  "pull_request_reviews_state pr =
     (let v = first_status_key pr [''reviewDecision'', ''review_decision'', ''review_state'', ''reviewState''];
          reviews = py_or (dget pr ''reviews'') (dget pr ''reviewThreads'');
          reviews = (case reviews of JObj d \<Rightarrow> dget_or d [''nodes'', ''items''] | _ \<Rightarrow> reviews);
          states = (case reviews of
              JList xs \<Rightarrow> filter (\<lambda>s. s \<noteq> []) (map (\<lambda>r. status_key r [''state'', ''status'']) (dict_entries xs))
            | _ \<Rightarrow> [])
      in if v \<noteq> [] then
           (if List.member REQUESTED v then ''changes_requested''
            else if List.member APPROVED v then ''approved''
            else if List.member [''review_required'', ''requires_review''] v then ''review_required''
            else v)
         else if list_ex (List.member REQUESTED) states then ''changes_requested''
         else if list_ex (List.member APPROVED) states then ''approved''
         else ''review_required'')"

definition check_keys :: "string list" where
  "check_keys = [''checks'', ''check_runs'', ''checkRuns'', ''checkSuites'', ''statusCheckRollup'',
     ''status_check_rollup'', ''nodes'', ''items'']"

lemma dget_size: "dget d k = JObj e \<Longrightarrow> size (JObj e) < size (JObj d)"
proof -
  assume "dget d k = JObj e"
  then have "(k, JObj e) \<in> set d"
    by (auto simp: dget_def split: option.splits dest: map_of_SomeD)
  then have "size (JObj e) \<le> size_list (size_prod (\<lambda>x. 0) size) d"
    by (induction d) auto
  then show ?thesis by simp
qed

lemmas json_case_fundef_cong [fundef_cong] = json.case_cong

function flatten_check_entries :: "json \<Rightarrow> obj list" where
  "flatten_check_entries v = (case v of
      JList xs \<Rightarrow> dict_entries xs
    | JObj d \<Rightarrow> concat (map (\<lambda>k. case dget d k of
          JList xs \<Rightarrow> dict_entries xs
        | JObj e \<Rightarrow> flatten_check_entries (JObj e)
        | _ \<Rightarrow> []) check_keys)
    | _ \<Rightarrow> [])"
  by pat_completeness auto
termination
  by (relation "measure size") (use dget_size in auto)

declare flatten_check_entries.simps [simp del]

text \<open>The check nodes of GitHub's GraphQL answer, the commit statuses in the shape of check runs.\<close>

definition normalize_graphql_check_nodes :: "json \<Rightarrow> obj list" where
  "normalize_graphql_check_nodes nodes = (case nodes of
      JList xs \<Rightarrow> map (\<lambda>node.
          if dget node ''__typename'' = JStr ''StatusContext''
          then [(''name'', dget node ''context''), (''status'', dget node ''state''),
                (''conclusion'', dget node ''state''), (''detailsUrl'', dget node ''targetUrl'')]
          else node) (dict_entries xs)
    | _ \<Rightarrow> [])"

definition check_name :: "obj \<Rightarrow> string" where
  "check_name e = nonempty (dget_or e [''name'', ''context'', ''title''])"

definition check_url :: "obj \<Rightarrow> string" where
  "check_url e = nonempty (dget_or e [''detailsUrl'', ''details_url'', ''url''])"

fun dedupe_checks :: "(string \<times> string) list \<Rightarrow> obj list \<Rightarrow> obj list" where
  "dedupe_checks seen [] = []"
| "dedupe_checks seen (e # es) =
     (if List.member seen (check_name e, check_url e) then dedupe_checks seen es
      else e # dedupe_checks ((check_name e, check_url e) # seen) es)"

definition pull_request_check_entries :: "obj \<Rightarrow> obj list" where
  "pull_request_check_entries pr =
     dedupe_checks [] (concat (map (\<lambda>k. flatten_check_entries (dget pr k))
       [''checks'', ''check_runs'', ''checkSuites'', ''statusCheckRollup'', ''status_check_rollup'',
        ''combined_status'']))"

definition CHECK_SUCCESS :: "string list" where
  "CHECK_SUCCESS = [''success'', ''successful'', ''passed'', ''pass'']"

definition CHECK_FAILURE :: "string list" where
  "CHECK_FAILURE = [''failure'', ''failed'', ''error'', ''cancelled'', ''canceled'', ''timed_out'']"

definition CHECK_PENDING :: "string list" where
  "CHECK_PENDING = [''pending'', ''queued'', ''in_progress'', ''running'', ''waiting'']"

definition check_state :: "obj \<Rightarrow> string" where
  "check_state c = status_key c [''conclusion'', ''status'']"

definition checks_of_entries :: "obj list \<Rightarrow> string" where
  "checks_of_entries checks =
     (let states = map check_state checks; known = filter (\<lambda>s. s \<noteq> []) states in
      if list_ex (List.member CHECK_FAILURE) states then ''failure''
      else if list_ex (List.member (CHECK_PENDING @ [''expected'', ''requested''])) states then ''pending''
      else if known \<noteq> [] \<and> list_all
          (List.member [''success'', ''successful'', ''passed'', ''completed'', ''neutral'', ''skipped'']) known
      then ''success'' else ''pending'')"

definition pull_request_checks_state :: "obj \<Rightarrow> string" where
  "pull_request_checks_state pr =
     (let v = first_status_key pr [''checks_status'', ''check_status'', ''checksState'', ''checks_state''];
          roll = (case dget_or pr [''statusCheckRollup'', ''status_check_rollup'', ''combined_status''] of
              JObj d \<Rightarrow> status_key d [''state'', ''status'', ''conclusion''] | _ \<Rightarrow> []);
          checks = pull_request_check_entries pr
      in if v \<noteq> [] then
           (if List.member CHECK_SUCCESS v then ''success''
            else if List.member CHECK_FAILURE v then ''failure''
            else if List.member CHECK_PENDING v then ''pending'' else v)
         else if List.member CHECK_SUCCESS roll then ''success''
         else if List.member CHECK_FAILURE roll then ''failure''
         else if List.member (CHECK_PENDING @ [''expected'']) roll then ''pending''
         else if checks \<noteq> [] then checks_of_entries checks
         else ''unknown'')"

definition pull_request_mergeable_state :: "obj \<Rightarrow> string" where
  "pull_request_mergeable_state pr =
     (let raw = normalize_status_key (if dget pr ''mergeable'' = JNull then [] else py_str (dget pr ''mergeable''));
          merge_state = status_key pr [''mergeStateStatus'', ''merge_state_status'', ''mergeable_state'']
      in if raw = ''conflicting'' then ''conflicting''
         else if merge_state = ''dirty'' then ''conflicting''
         else if merge_state = ''behind'' then ''behind''
         else if merge_state = ''clean'' then ''clean''
         else if List.member [''blocked'', ''draft'', ''has_hooks''] merge_state then ''blocked''
         else if merge_state = ''unstable'' then ''unstable''
         else if dget pr ''mergeable'' = JBool False \<and> merge_state = [] then ''conflicting''
         else [])"

section \<open>The life of a pull request\<close>

definition is_merged :: "obj \<Rightarrow> bool" where
  "is_merged pr = (truthy (dget pr ''merged'') \<or> truthy (dget pr ''merged_at'') \<or> truthy (dget pr ''mergedAt''))"

definition is_draft :: "obj \<Rightarrow> bool" where
  "is_draft pr = (truthy (dget pr ''draft'') \<or> truthy (dget pr ''isDraft''))"

definition open_or :: "obj \<Rightarrow> string" where
  "open_or pr = (if truthy (dget pr ''state'') then py_str (dget pr ''state'') else ''open'')"

definition pull_request_lifecycle_state :: "obj \<Rightarrow> string" where
  "pull_request_lifecycle_state pr =
     (let state = normalize_status_key (open_or pr);
          review_state = pull_request_reviews_state pr;
          checks_state = pull_request_checks_state pr;
          mergeable_state = pull_request_mergeable_state pr
      in if is_merged pr then ''merged''
         else if List.member [''closed'', ''cancelled'', ''canceled''] state then ''blocked''
         else if mergeable_state = ''conflicting'' then ''conflicted''
         else if review_state = ''changes_requested'' \<or> checks_state = ''failure'' then ''needs-repair''
         else if is_draft pr \<or> checks_state = ''pending'' then ''running''
         else if mergeable_state = ''behind'' then ''needs-rebase''
         else if review_state = ''approved'' \<and> checks_state = ''success'' then ''ready-to-merge''
         else ''waiting-for-review'')"

definition normalize_pull_request_metadata :: "string \<Rightarrow> string \<Rightarrow> string \<Rightarrow> obj \<Rightarrow> obj" where
  "normalize_pull_request_metadata head_branch base_repo base_branch pr =
     (let state = lower (strip (open_or pr)); life = pull_request_lifecycle_state pr in
      [(''url'', JStr (pull_request_url pr)), (''number'', opt_int (pull_request_number pr)),
       (''head_branch'', JStr (first_nonempty [pull_request_head_ref pr, head_branch])),
       (''base_branch'', JStr (first_nonempty [pull_request_base_ref pr, base_branch])),
       (''base_repo'', JStr (pull_request_base_repo pr base_repo)),
       (''state'', JStr (if state = [] then ''open'' else state)), (''draft'', JBool (is_draft pr)),
       (''merged'', JBool (is_merged pr)), (''review_state'', JStr (pull_request_reviews_state pr)),
       (''checks_state'', JStr (pull_request_checks_state pr)),
       (''mergeable_state'', JStr (pull_request_mergeable_state pr)), (''lifecycle_state'', JStr life),
       (''terminal'', JBool (List.member [''merged'', ''blocked''] life))])"

section \<open>The feedback of a repair\<close>

fun first_nonempty_field :: "obj \<Rightarrow> string list \<Rightarrow> string" where
  "first_nonempty_field d [] = []"
| "first_nonempty_field d (k # ks) =
     (if nonempty (dget d k) \<noteq> [] then nonempty (dget d k) else first_nonempty_field d ks)"

definition github_actor_name :: "json \<Rightarrow> string" where
  "github_actor_name v = (case v of
      JObj d \<Rightarrow> first_nonempty [first_nonempty_field d [''login'', ''name'', ''email''], nonempty v]
    | _ \<Rightarrow> nonempty v)"

definition review_body :: "obj \<Rightarrow> string" where
  "review_body r = first_nonempty_field r [''body'', ''bodyText'', ''summary'', ''text'']"

definition review_comment_body :: "obj \<Rightarrow> string" where
  "review_comment_body c = first_nonempty_field c [''body'', ''bodyText'', ''text'']"

definition review_comment_is_stale :: "obj \<Rightarrow> bool" where
  "review_comment_is_stale c =
     (list_ex (\<lambda>k. dget c k = JBool True) [''isResolved'', ''resolved'', ''outdated'', ''isOutdated'', ''stale'', ''isStale'']
      \<or> List.member [''resolved'', ''outdated'', ''stale'', ''dismissed''] (status_key c [''state'', ''status'']))"

definition review_comment_path :: "obj \<Rightarrow> string" where
  "review_comment_path c = first_nonempty_field c [''path'', ''file'', ''filePath'']"

definition review_comment_line :: "obj \<Rightarrow> int option" where
  "review_comment_line c = first_int c [''line'', ''original_line'', ''originalLine'', ''position'']"

definition review_comment_url :: "obj \<Rightarrow> string" where
  "review_comment_url c = first_nonempty_field c [''html_url'', ''url'', ''web_url'']"

definition failed_check :: "obj \<Rightarrow> obj" where
  "failed_check c =
     [(''kind'', JStr ''check_failure''),
      (''name'', JStr (strip (first_nonempty [str_or_empty (dget_or c [''name'', ''context'', ''title'']), ''check'']))),
      (''state'', JStr (check_state c)), (''workflow'', JStr (nonempty (dget_or c [''workflowName'', ''workflow'']))),
      (''summary'', JStr (nonempty (dget_or c [''summary'', ''details'', ''output'']))),
      (''url'', JStr (check_url c))]"

definition failed_checks_from_pr :: "obj \<Rightarrow> obj list" where
  "failed_checks_from_pr pr =
     map failed_check (filter (\<lambda>c. List.member CHECK_FAILURE (check_state c)) (pull_request_check_entries pr))"

definition review_items :: "obj list \<Rightarrow> obj list" where
  "review_items reviews =
     map (\<lambda>r. [(''kind'', JStr ''requested_changes''),
             (''author'', JStr (github_actor_name (dget_or r [''user'', ''author'']))),
             (''body'', JStr (review_body r)), (''url'', JStr (review_comment_url r))])
       (filter (\<lambda>r. List.member REQUESTED (status_key r [''state'', ''status'']) \<and> review_body r \<noteq> []) reviews)"

definition comment_items :: "obj list \<Rightarrow> obj list" where
  "comment_items comments =
     map (\<lambda>c. [(''kind'', JStr ''review_comment''),
             (''author'', JStr (github_actor_name (dget_or c [''user'', ''author'']))),
             (''body'', JStr (review_comment_body c)), (''path'', JStr (review_comment_path c)),
             (''line'', opt_int (review_comment_line c)), (''url'', JStr (review_comment_url c))])
       (filter (\<lambda>c. \<not> review_comment_is_stale c \<and> review_comment_body c \<noteq> []) comments)"

text \<open>The slug of a repository split at its first slash.\<close>

definition has_slash :: "string \<Rightarrow> bool" where
  "has_slash s = List.member s (CHR ''/'')"

definition missing_number :: "json \<Rightarrow> bool" where
  "missing_number v = (v = JNull \<or> v = JStr [])"

text \<open>
  \<open>fetched\<close> is the pull request, its reviews and its comments as GitHub gives them for the repository
  and the number.
\<close>

definition collect_pull_request_repair_context ::
  "string \<Rightarrow> int \<Rightarrow> (string \<Rightarrow> json \<Rightarrow> obj \<times> obj list \<times> obj list) \<Rightarrow> obj \<Rightarrow> obj" where
  "collect_pull_request_repair_context slug limit fetched pull_request =
     (let base_repo = strip (first_nonempty [str_or_empty (dget pull_request ''base_repo''), slug]);
          number = dget pull_request ''number''
      in if base_repo = [] \<or> \<not> has_slash base_repo \<or> missing_number number then
           [(''actionable'', JBool False), (''reason'', JStr ''missing_pull_request_identity''),
            (''feedback_items'', JList []), (''pull_request'', JObj pull_request)]
         else
           (let (pr, reviews, comments) = fetched base_repo number;
                life = normalize_pull_request_metadata (str_or_empty (dget pull_request ''head_branch'')) base_repo
                  (str_or_empty (dget pull_request ''base_branch'')) pr;
                items = review_items reviews @ comment_items comments @ failed_checks_from_pr pr;
                bounded = take (nat (max 1 limit)) items
            in [(''actionable'', JBool (bounded \<noteq> [])),
                (''reason'', JStr (if bounded \<noteq> [] then [] else ''no_actionable_review_feedback'')),
                (''pull_request'', JObj life), (''feedback_items'', JList (map JObj bounded)),
                (''truncated'', JBool (length items > length bounded))]))"

section \<open>The gates of the automatic merge\<close>

record review_config =
  rv_policy :: string
  rv_strategy :: string
  rv_allowed_strategies :: string
  rv_merge_requires_approval :: bool
  rv_delete_branch :: bool
  rv_delete_requires_approval :: bool
  rv_slug :: string

definition allowed_merge_strategies :: "review_config \<Rightarrow> string list" where
  "allowed_merge_strategies cfg =
     map (\<lambda>s. lower (strip s)) (filter (\<lambda>s. strip s \<noteq> []) (split_char (CHR '','') (rv_allowed_strategies cfg)))"

definition approval_granted :: "json \<Rightarrow> string \<Rightarrow> bool" where
  "approval_granted approvals key = (case approvals of
      JObj a \<Rightarrow>
        (let v = (case dget a key of JObj d \<Rightarrow> dget_or d [''approved'', ''status''] | x \<Rightarrow> x)
         in case v of JBool b \<Rightarrow> b
            | _ \<Rightarrow> List.member [''approved'', ''approve'', ''granted'', ''true'', ''yes'', ''1''] (lower (nonempty v)))
    | _ \<Rightarrow> False)"

definition merge_strategy :: "review_config \<Rightarrow> string" where
  "merge_strategy cfg = lower (strip (if rv_strategy cfg = [] then ''squash'' else rv_strategy cfg))"

definition deny_if :: "bool \<Rightarrow> string \<Rightarrow> string list" where
  "deny_if b s = (if b then [s] else [])"

definition merge_denials :: "review_config \<Rightarrow> obj \<Rightarrow> string list" where
  "merge_denials cfg pr =
     (let strategy = merge_strategy cfg;
          base_repo = nonempty (dget pr ''base_repo'');
          head_branch = nonempty (dget pr ''head_branch'');
          expected = strip (rv_slug cfg)
      in deny_if (lower (strip (rv_policy cfg)) \<noteq> ''auto_merge'') ''review.policy is not auto_merge''
         @ deny_if (\<not> List.member [''merge'', ''squash'', ''rebase''] strategy)
             (''merge strategy '' @ ticked strategy @ '' is not supported'')
         @ deny_if (\<not> List.member (allowed_merge_strategies cfg) strategy)
             (''merge strategy '' @ ticked strategy @ '' is not allowed by policy'')
         @ deny_if (\<not> starts_with head_branch ''aca/'') ''head branch is not ACA-created''
         @ deny_if (expected \<noteq> [] \<and> base_repo \<noteq> [] \<and> base_repo \<noteq> expected)
             (''PR base repo '' @ ticked base_repo @ '' does not match configured repo '' @ ticked expected)
         @ deny_if (nonempty (dget pr ''lifecycle_state'') \<noteq> ''ready-to-merge'') ''PR lifecycle state is not ready-to-merge''
         @ deny_if (nonempty (dget pr ''checks_state'') \<noteq> ''success'') ''PR checks are not proven clean''
         @ deny_if (nonempty (dget pr ''review_state'') \<noteq> ''approved'') ''PR review state is not approved''
         @ deny_if (truthy (dget pr ''terminal'') \<or> truthy (dget pr ''merged'')) ''PR is already terminal''
         @ deny_if (missing_number (dget pr ''number'')) ''PR number is missing''
         @ deny_if (base_repo = [] \<or> \<not> has_slash base_repo) ''PR base repo is missing'')"

record gates =
  ga_denials :: "string list"
  ga_merge_pending :: bool
  ga_delete_pending :: bool
  ga_strategy :: string

text \<open>The pending approvals are the ones with key \<open>merge\<close> and \<open>branch_delete\<close>.\<close>

definition evaluate_auto_merge_gates :: "review_config \<Rightarrow> json \<Rightarrow> obj \<Rightarrow> gates" where
  "evaluate_auto_merge_gates cfg approvals pr =
     (let denials = merge_denials cfg pr in
      \<lparr>ga_denials = denials,
       ga_merge_pending = (denials = [] \<and> rv_merge_requires_approval cfg \<and> \<not> approval_granted approvals ''merge''),
       ga_delete_pending = (denials = [] \<and> rv_delete_branch cfg \<and> rv_delete_requires_approval cfg
          \<and> \<not> approval_granted approvals ''branch_delete''),
       ga_strategy = merge_strategy cfg\<rparr>)"

datatype github_call = MergeCall string json string | DeleteCall string string | UpdateCall string json

record merge_report =
  mr_status :: string
  mr_merged :: bool
  mr_branch_deleted :: bool
  mr_denials :: "string list"
  mr_merge_pending :: bool
  mr_delete_pending :: bool
  mr_strategy :: string

text \<open>
  \<open>merge_tool\<close> is \<open>Inl\<close> the error a failed merge raises, or the data of the answer; \<open>delete_tool\<close> is
  what the deletion attempts report. The calls made are returned with the report.
\<close>

definition repo_of :: "review_config \<Rightarrow> obj \<Rightarrow> string" where
  "repo_of cfg pr = strip (first_nonempty [str_or_empty (dget pr ''base_repo''), rv_slug cfg])"

text \<open>
  The answer of the merge tool, and the first usable answer of several attempts, in which \<open>None\<close> is an
  attempt that raised.
\<close>

definition merge_answer :: "py_error + obj \<Rightarrow> py_error + obj" where
  "merge_answer raw = (case raw of
      Inl e \<Rightarrow> Inl e
    | Inr result \<Rightarrow> if tool_failed result then Inl (RuntimeError (tool_error_message result))
        else Inr (case parse_json_output result of JObj d \<Rightarrow> d | _ \<Rightarrow> [(''merged'', JBool True)]))"

fun attempts_answer :: "string \<Rightarrow> obj option list \<Rightarrow> obj option" where
  "attempts_answer key [] = None"
| "attempts_answer key (None # attempts) = attempts_answer key attempts"
| "attempts_answer key (Some result # attempts) =
     (if tool_failed result then attempts_answer key attempts
      else Some (case parse_json_output result of JObj d \<Rightarrow> d | _ \<Rightarrow> [(key, JBool True)]))"

definition delete_remote_branch :: "review_config \<Rightarrow> obj \<Rightarrow> obj option \<Rightarrow> obj \<times> github_call list" where
  "delete_remote_branch cfg pr delete_tool =
     (let base_repo = repo_of cfg pr; head_branch = nonempty (dget pr ''head_branch'') in
      if base_repo = [] \<or> \<not> has_slash base_repo \<or> head_branch = [] then
        ([(''deleted'', JBool False), (''error'', JStr ''Missing base repo or head branch.'')], [])
      else (case delete_tool of
          Some data \<Rightarrow> (data, [DeleteCall base_repo head_branch])
        | None \<Rightarrow> ([(''deleted'', JBool False),
             (''error'', JStr ''Could not delete remote branch through GitHub MCP.'')], [DeleteCall base_repo head_branch])))"

definition guarded_auto_merge ::
  "review_config \<Rightarrow> json \<Rightarrow> (py_error + obj) \<Rightarrow> obj option \<Rightarrow> obj \<Rightarrow> merge_report res \<times> github_call list" where
  "guarded_auto_merge cfg approvals merge_tool delete_tool pr =
     (let g = evaluate_auto_merge_gates cfg approvals pr;
          report = (\<lambda>status merged deleted. \<lparr>mr_status = status, mr_merged = merged, mr_branch_deleted = deleted,
            mr_denials = ga_denials g, mr_merge_pending = False, mr_delete_pending = False,
            mr_strategy = ga_strategy g\<rparr>);
          call = MergeCall (repo_of cfg pr) (dget pr ''number'') (ga_strategy g)
      in if ga_denials g \<noteq> [] then (Inr (report ''denied'' False False), [])
         else if ga_merge_pending g then
           (Inr ((report ''pending_approval'' False False)\<lparr>mr_merge_pending := True\<rparr>), [])
         else if json_int (dget pr ''number'') = None then (Inl (ValueError []), [])
         else (case merge_tool of
             Inl e \<Rightarrow> (Inl e, [call])
           | Inr data \<Rightarrow>
               if ga_delete_pending g then
                 (Inr ((report ''merged'' True False)\<lparr>mr_delete_pending := True\<rparr>), [call])
               else if rv_delete_branch cfg then
                 (let (result, calls) = delete_remote_branch cfg pr delete_tool
                  in (Inr (report ''merged'' True (truthy (dget result ''deleted''))), call # calls))
               else (Inr (report ''merged'' True False), [call])))"

text \<open>The dictionary of the report; \<open>merge_result\<close> is the data of the merge's answer.\<close>

definition pending_merge :: obj where
  "pending_merge = [(''action'', JStr ''merge_pull_request''), (''key'', JStr ''merge''),
     (''reason'', JStr ''Policy requires explicit approval before ACA merges the pull request.'')]"

definition pending_delete :: obj where
  "pending_delete = [(''action'', JStr ''delete_remote_branch''), (''key'', JStr ''branch_delete''),
     (''reason'', JStr ''Policy requires separate approval before ACA deletes the remote branch.'')]"

definition delete_result_of :: "review_config \<Rightarrow> obj option \<Rightarrow> obj \<Rightarrow> merge_report \<Rightarrow> obj" where
  "delete_result_of cfg delete_tool pr r =
     (if mr_delete_pending r then
        [(''deleted'', JBool False), (''skipped'', JBool True), (''pending_approvals'', JList [JObj pending_delete]),
         (''reason'', JStr ''branch_delete_requires_approval is enabled and approval was not granted'')]
      else if rv_delete_branch cfg then fst (delete_remote_branch cfg pr delete_tool)
      else [(''deleted'', JBool False), (''skipped'', JBool True),
         (''reason'', JStr ''delete_branch_after_merge is disabled'')])"

definition merge_report_obj :: "review_config \<Rightarrow> obj \<Rightarrow> obj option \<Rightarrow> obj \<Rightarrow> merge_report \<Rightarrow> obj" where
  "merge_report_obj cfg merge_result delete_tool pr r =
     [(''status'', JStr (mr_status r)), (''merged'', JBool (mr_merged r)), (''branch_deleted'', JBool (mr_branch_deleted r)),
      (''strategy'', JStr (mr_strategy r)), (''pull_request'', JObj pr),
      (''pending_approvals'', JList (if mr_merge_pending r then [JObj pending_merge]
         else if mr_delete_pending r then [JObj pending_delete] else []))]
     @ (if mr_merged r then [(''merge_result'', JObj merge_result),
          (''delete_result'', JObj (delete_result_of cfg delete_tool pr r))]
        else [(''denials'', JList (map JStr (mr_denials r)))])"

section \<open>A branch behind its base\<close>

definition update_pull_request_branch :: "string \<Rightarrow> obj option \<Rightarrow> obj \<Rightarrow> obj res \<times> github_call list" where
  "update_pull_request_branch slug update_tool pr =
     (let base_repo = strip (first_nonempty [str_or_empty (dget pr ''base_repo''), slug]);
          number = dget pr ''number''
      in if base_repo = [] \<or> \<not> has_slash base_repo \<or> missing_number number then
           (Inr [(''updated'', JBool False), (''error'', JStr ''Missing base repo or PR number.'')], [])
         else if json_int number = None then (Inl (ValueError []), [])
         else (Inr (case update_tool of Some data \<Rightarrow> data
             | None \<Rightarrow> [(''updated'', JBool False), (''error'', JStr ''Could not update PR branch through GitHub MCP.'')]),
           [UpdateCall base_repo number]))"

section \<open>The prompt of a repair\<close>

definition feedback_lines :: "int \<Rightarrow> obj \<Rightarrow> string list" where
  "feedback_lines index item =
     (let path = py_str (dget item ''path'');
          location = (if \<not> truthy (dget item ''path'') then []
            else if dget item ''line'' \<noteq> JNull then path @ '':'' @ py_str (dget item ''line'') else path);
          prefix = int_str index @ ''. '' @ py_str (py_or (dget item ''kind'') (JStr ''feedback''));
          labelled = (\<lambda>k label. if truthy (dget item k) then [label @ py_str (dget item k)] else []);
          body = nonempty (py_or (dget item ''body'') (dget item ''summary''))
      in [if location \<noteq> [] then prefix @ '' ('' @ location @ '')'' else prefix]
         @ labelled ''name'' ''Check: '' @ labelled ''workflow'' ''Workflow: '' @ labelled ''state'' ''State: ''
         @ labelled ''author'' ''Author: '' @ (if body \<noteq> [] then [take 1200 body] else [])
         @ labelled ''url'' ''URL: '' @ [[]])"

definition build_pull_request_repair_prompt :: "obj \<Rightarrow> string" where
  "build_pull_request_repair_prompt context =
     (let pr = obj_of (dget context ''pull_request'');
          items = list_of (dget context ''feedback_items'')
      in strip (join nlc ([''Repair the existing pull request branch using the bounded feedback below.'', [],
           ''Pull request: '' @ str_or_empty (dget pr ''url''), ''Branch: '' @ str_or_empty (dget pr ''head_branch''),
           ''Lifecycle: '' @ str_or_empty (dget pr ''lifecycle_state''), [], ''Feedback:'']
         @ concat (map (\<lambda>(i, v). case v of JObj item \<Rightarrow> feedback_lines i item | _ \<Rightarrow> [])
             (zip (map int [1..<length items + 1]) items))
         @ (if truthy (dget context ''truncated'')
            then [''Additional feedback existed but was truncated for bounded repair context.''] else []))))"

section \<open>Lemmas\<close>

lemma deny_if_Nil [simp]: "deny_if b s = [] \<longleftrightarrow> \<not> b"
  by (simp add: deny_if_def)

lemma merge_denials_Nil:
  "merge_denials cfg pr = [] \<longleftrightarrow>
     lower (strip (rv_policy cfg)) = ''auto_merge''
     \<and> List.member [''merge'', ''squash'', ''rebase''] (merge_strategy cfg)
     \<and> List.member (allowed_merge_strategies cfg) (merge_strategy cfg)
     \<and> starts_with (nonempty (dget pr ''head_branch'')) ''aca/''
     \<and> (strip (rv_slug cfg) = [] \<or> nonempty (dget pr ''base_repo'') = strip (rv_slug cfg))
     \<and> nonempty (dget pr ''lifecycle_state'') = ''ready-to-merge''
     \<and> nonempty (dget pr ''checks_state'') = ''success'' \<and> nonempty (dget pr ''review_state'') = ''approved''
     \<and> \<not> truthy (dget pr ''terminal'') \<and> \<not> truthy (dget pr ''merged'') \<and> \<not> missing_number (dget pr ''number'')
     \<and> nonempty (dget pr ''base_repo'') \<noteq> [] \<and> has_slash (nonempty (dget pr ''base_repo''))"
  unfolding merge_denials_def Let_def append_is_Nil_conv deny_if_Nil by blast

definition merge_allowed :: "review_config \<Rightarrow> json \<Rightarrow> obj \<Rightarrow> bool" where
  "merge_allowed cfg approvals pr \<longleftrightarrow> merge_denials cfg pr = []
     \<and> (rv_merge_requires_approval cfg \<longrightarrow> approval_granted approvals ''merge'')
     \<and> json_int (dget pr ''number'') \<noteq> None"

lemma delete_calls: "set (snd (delete_remote_branch cfg pr tool)) \<subseteq> {DeleteCall (repo_of cfg pr) (nonempty (dget pr ''head_branch''))}"
  by (simp add: delete_remote_branch_def Let_def split: option.split)

lemma merge_calls:
  assumes "guarded_auto_merge cfg approvals merge_tool delete_tool pr = (r, calls)"
  shows "(if merge_allowed cfg approvals pr
      then \<exists>rest. calls = MergeCall (repo_of cfg pr) (dget pr ''number'') (merge_strategy cfg) # rest
        \<and> set rest \<subseteq> {DeleteCall (repo_of cfg pr) (nonempty (dget pr ''head_branch''))}
        \<and> (rest \<noteq> [] \<longrightarrow> (\<exists>data. merge_tool = Inr data) \<and> rv_delete_branch cfg
             \<and> (rv_delete_requires_approval cfg \<longrightarrow> approval_granted approvals ''branch_delete''))
        \<and> (case merge_tool of Inl e \<Rightarrow> r = Inl e | Inr _ \<Rightarrow> \<exists>x. r = Inr x \<and> mr_merged x)
      else calls = [] \<and> (\<forall>x. r = Inr x \<longrightarrow> \<not> mr_merged x))"
proof -
  define g where "g = evaluate_auto_merge_gates cfg approvals pr"
  have g: "ga_denials g = merge_denials cfg pr" "ga_strategy g = merge_strategy cfg"
    "ga_merge_pending g \<longleftrightarrow> merge_denials cfg pr = [] \<and> rv_merge_requires_approval cfg \<and> \<not> approval_granted approvals ''merge''"
    "ga_delete_pending g \<longleftrightarrow> merge_denials cfg pr = [] \<and> rv_delete_branch cfg \<and> rv_delete_requires_approval cfg
      \<and> \<not> approval_granted approvals ''branch_delete''"
    by (auto simp: g_def evaluate_auto_merge_gates_def Let_def)
  note unfolded = guarded_auto_merge_def Let_def g_def [symmetric] g
  show ?thesis
  proof (cases "merge_allowed cfg approvals pr")
    case False
    then show ?thesis using assms unfolding unfolded merge_allowed_def by (auto split: if_splits)
  next
    case True
    then have open_gate: "merge_denials cfg pr = []" "json_int (dget pr ''number'') \<noteq> None"
      "\<not> (rv_merge_requires_approval cfg \<and> \<not> approval_granted approvals ''merge'')"
      by (auto simp: merge_allowed_def)
    obtain res dc where d: "delete_remote_branch cfg pr delete_tool = (res, dc)" by (cases "delete_remote_branch cfg pr delete_tool")
    have dc: "set dc \<subseteq> {DeleteCall (repo_of cfg pr) (nonempty (dget pr ''head_branch''))}"
      using delete_calls [of cfg pr delete_tool] d by simp
    show ?thesis
    proof (cases merge_tool)
      case (Inl e)
      then show ?thesis using assms True open_gate unfolding unfolded by simp
    next
      case (Inr data)
      have go: "(r, calls) = guarded_auto_merge cfg approvals merge_tool delete_tool pr" by (rule assms [symmetric])
      consider (pend) "rv_delete_branch cfg" "rv_delete_requires_approval cfg" "\<not> approval_granted approvals ''branch_delete''"
        | (free) "rv_delete_branch cfg" "\<not> rv_delete_requires_approval cfg"
        | (granted) "rv_delete_branch cfg" "approval_granted approvals ''branch_delete''"
        | (keep) "\<not> rv_delete_branch cfg" by blast
      then have "\<exists>rest. calls = MergeCall (repo_of cfg pr) (dget pr ''number'') (merge_strategy cfg) # rest
          \<and> set rest \<subseteq> {DeleteCall (repo_of cfg pr) (nonempty (dget pr ''head_branch''))}
          \<and> (rest \<noteq> [] \<longrightarrow> rv_delete_branch cfg
               \<and> (rv_delete_requires_approval cfg \<longrightarrow> approval_granted approvals ''branch_delete''))
          \<and> (\<exists>x. r = Inr x \<and> mr_merged x)"
      proof cases
        case pend
        then show ?thesis using go unfolding unfolded Inr by (simp add: open_gate)
      next
        case free
        then show ?thesis using go dc unfolding unfolded Inr by (simp add: open_gate d)
      next
        case granted
        then show ?thesis using go dc unfolding unfolded Inr by (simp add: open_gate d)
      next
        case keep
        then show ?thesis using go unfolding unfolded Inr by (simp add: open_gate)
      qed
      with True Inr show ?thesis by simp
    qed
  qed
qed

text \<open>What the state of a life says.\<close>

lemma ready_iff:
  "pull_request_lifecycle_state pr = ''ready-to-merge'' \<longleftrightarrow>
     \<not> is_merged pr \<and> \<not> List.member [''closed'', ''cancelled'', ''canceled''] (normalize_status_key (open_or pr))
     \<and> pull_request_mergeable_state pr \<noteq> ''conflicting'' \<and> pull_request_mergeable_state pr \<noteq> ''behind''
     \<and> \<not> is_draft pr \<and> pull_request_reviews_state pr = ''approved'' \<and> pull_request_checks_state pr = ''success''"
  unfolding pull_request_lifecycle_state_def Let_def by simp

lemma normalized_fields:
  "dget (normalize_pull_request_metadata h r b pr) ''lifecycle_state'' = JStr (pull_request_lifecycle_state pr)"
  "dget (normalize_pull_request_metadata h r b pr) ''head_branch'' = JStr (first_nonempty [pull_request_head_ref pr, h])"
  by (simp_all add: normalize_pull_request_metadata_def Let_def)

lemma strip_lifecycle: "strip (pull_request_lifecycle_state pr) = pull_request_lifecycle_state pr"
proof -
  have "strip ''merged'' = ''merged''" "strip ''blocked'' = ''blocked''" "strip ''conflicted'' = ''conflicted''"
    "strip ''needs-repair'' = ''needs-repair''" "strip ''running'' = ''running''" "strip ''needs-rebase'' = ''needs-rebase''"
    "strip ''ready-to-merge'' = ''ready-to-merge''" "strip ''waiting-for-review'' = ''waiting-for-review''"
    by code_simp+
  then show ?thesis by (simp add: pull_request_lifecycle_state_def Let_def)
qed

text \<open>A check without a conclusion and a status.\<close>

lemma member_Nil_states:
  "[] \<notin> set CHECK_FAILURE" "[] \<notin> set (CHECK_PENDING @ [''expected'', ''requested''])"
  by (simp_all add: CHECK_FAILURE_def CHECK_PENDING_def)

lemma stateless_check_ignored:
  assumes "check_state e = []"
  shows "checks_of_entries (xs @ e # ys) = checks_of_entries (xs @ ys)"
proof -
  have "list_ex (List.member vs) (map check_state (xs @ e # ys)) = list_ex (List.member vs) (map check_state (xs @ ys))"
    if "[] \<notin> set vs" for vs
    using that assms by (simp add: list_ex_append)
  moreover have "filter (\<lambda>s. s \<noteq> []) (map check_state (xs @ e # ys)) = filter (\<lambda>s. s \<noteq> []) (map check_state (xs @ ys))"
    using assms by simp
  ultimately show ?thesis unfolding checks_of_entries_def Let_def by (simp only: member_Nil_states not_False_eq_True)
qed

section \<open>Properties\<close>

text \<open>C35. The automatic merge is gated. For the metadata of any pull request as GitHub describes it: the
  merge tool is called only when the policy is \<open>auto_merge\<close>, the strategy is one GitHub has and the policy
  allows, the head branch is one ACA created, the repository is the configured one, the pull request is
  open, no draft, neither in conflict nor behind its base, approved and its checks a success, and the
  merge approval was granted when it is required; a branch is deleted only after a merge that did not
  fail, when deletion is enabled and granted when that is required; and a report of a merge means the merge
  tool was called and returned. The same gates are sufficient for a merge call.\<close>
theorem auto_merge_is_gated:
  assumes "guarded_auto_merge cfg approvals merge_tool delete_tool (normalize_pull_request_metadata h r b pr)
      = (res, calls)"
  shows "(\<forall>repo n strategy. MergeCall repo n strategy \<in> set calls \<longrightarrow>
        lower (strip (rv_policy cfg)) = ''auto_merge'' \<and> List.member [''merge'', ''squash'', ''rebase''] strategy
        \<and> List.member (allowed_merge_strategies cfg) strategy
        \<and> starts_with (strip (first_nonempty [pull_request_head_ref pr, h])) ''aca/''
        \<and> (strip (rv_slug cfg) = [] \<or> repo = strip (rv_slug cfg))
        \<and> \<not> is_merged pr \<and> \<not> List.member [''closed'', ''cancelled'', ''canceled''] (normalize_status_key (open_or pr))
        \<and> \<not> is_draft pr \<and> pull_request_mergeable_state pr \<noteq> ''conflicting''
        \<and> pull_request_mergeable_state pr \<noteq> ''behind''
        \<and> pull_request_reviews_state pr = ''approved'' \<and> pull_request_checks_state pr = ''success''
        \<and> (rv_merge_requires_approval cfg \<longrightarrow> approval_granted approvals ''merge''))
    \<and> (\<forall>repo branch. DeleteCall repo branch \<in> set calls \<longrightarrow>
        (\<exists>data. merge_tool = Inr data) \<and> rv_delete_branch cfg
        \<and> (rv_delete_requires_approval cfg \<longrightarrow> approval_granted approvals ''branch_delete''))
    \<and> (\<forall>x. res = Inr x \<and> mr_merged x \<longrightarrow>
        (\<exists>data. merge_tool = Inr data) \<and> (\<exists>repo n strategy rest. calls = MergeCall repo n strategy # rest))
    \<and> (merge_allowed cfg approvals (normalize_pull_request_metadata h r b pr) \<longrightarrow>
        (\<exists>repo n strategy rest. calls = MergeCall repo n strategy # rest))"
proof -
  let ?m = "normalize_pull_request_metadata h r b pr"
  note mc = merge_calls [OF assms]
  show ?thesis
  proof (cases "merge_allowed cfg approvals ?m")
    case False
    then show ?thesis using mc by auto
  next
    case True
    then obtain rest where calls: "calls = MergeCall (repo_of cfg ?m) (dget ?m ''number'') (merge_strategy cfg) # rest"
      and rest: "set rest \<subseteq> {DeleteCall (repo_of cfg ?m) (nonempty (dget ?m ''head_branch''))}"
      and del: "rest \<noteq> [] \<longrightarrow> (\<exists>data. merge_tool = Inr data) \<and> rv_delete_branch cfg
             \<and> (rv_delete_requires_approval cfg \<longrightarrow> approval_granted approvals ''branch_delete'')"
      and tool: "case merge_tool of Inl e \<Rightarrow> res = Inl e | Inr _ \<Rightarrow> \<exists>x. res = Inr x \<and> mr_merged x"
      using mc by auto
    from True have open_gate: "merge_denials cfg ?m = []"
      "rv_merge_requires_approval cfg \<longrightarrow> approval_granted approvals ''merge''"
      by (simp_all add: merge_allowed_def)
    note gate = open_gate(1) [unfolded merge_denials_Nil]
    have "pull_request_lifecycle_state pr = ''ready-to-merge''"
      using gate strip_lifecycle [of pr] by (simp add: normalized_fields)
    note ready = this [unfolded ready_iff]
    have head: "starts_with (strip (first_nonempty [pull_request_head_ref pr, h])) ''aca/''"
      using gate by (simp add: normalized_fields)
    have repo: "strip (rv_slug cfg) = [] \<or> repo_of cfg ?m = strip (rv_slug cfg)"
    proof -
      have "str_or_empty (dget ?m ''base_repo'') \<noteq> []" using gate by (auto simp: nonempty_def)
      then have "repo_of cfg ?m = nonempty (dget ?m ''base_repo'')" by (simp add: repo_of_def nonempty_def)
      with gate show ?thesis by simp
    qed
    have merges: "(repo', n, s) = (repo_of cfg ?m, dget ?m ''number'', merge_strategy cfg)"
      if "MergeCall repo' n s \<in> set calls" for repo' n s
      using that rest by (auto simp: calls)
    have deletes: "(\<exists>data. merge_tool = Inr data) \<and> rv_delete_branch cfg
        \<and> (rv_delete_requires_approval cfg \<longrightarrow> approval_granted approvals ''branch_delete'')"
      if "DeleteCall repo' branch \<in> set calls" for repo' branch
      using that del by (cases rest) (auto simp: calls)
    have reported: "\<exists>data. merge_tool = Inr data" if "res = Inr x" for x
      using that tool by (cases merge_tool) auto
    show ?thesis
      apply (intro conjI)
      subgoal
        apply (intro allI impI)
        apply (drule merges)
        using gate ready head repo open_gate(2) apply simp
        done
      subgoal using deletes by blast
      subgoal using reported calls by blast
      subgoal using calls by blast
      done
  qed
qed

definition merge_policy :: review_config where
  "merge_policy = \<lparr>rv_policy = ''auto_merge'', rv_strategy = ''squash'', rv_allowed_strategies = ''squash, rebase'',
     rv_merge_requires_approval = True, rv_delete_branch = True, rv_delete_requires_approval = True, rv_slug = ''o/r''\<rparr>"

definition green_pr :: obj where
  "green_pr = [(''number'', JInt 7), (''headRefName'', JStr ''aca/fix''), (''base_repo'', JStr ''o/r''),
     (''reviewDecision'', JStr ''APPROVED''), (''checks_status'', JStr ''success'')]"

theorem auto_merge_is_gated_witness:
  "\<exists>repo n strategy rest. snd (guarded_auto_merge merge_policy (JObj [(''merge'', JStr ''approved'')]) (Inr []) None
       (normalize_pull_request_metadata [] [] [] green_pr)) = MergeCall repo n strategy # rest
     \<and> pull_request_checks_state green_pr = ''success''"
proof -
  have "merge_allowed merge_policy (JObj [(''merge'', JStr ''approved'')]) (normalize_pull_request_metadata [] [] [] green_pr)"
    by code_simp
  then show ?thesis
    using auto_merge_is_gated [OF prod.collapse [symmetric], of merge_policy "JObj [(''merge'', JStr ''approved'')]"
        "Inr []" None "[]" "[]" "[]" green_pr] by auto
qed

text \<open>A check that reports its result as \<open>state\<close> only, as a commit status does when the pull request was
  read through the \<open>gh\<close> command line, is ignored: whatever its state, a failure included, the list of
  checks has the state it has without it.\<close>
theorem commit_status_is_ignored:
  assumes "\<not> truthy (dget e ''conclusion'')" and "\<not> truthy (dget e ''status'')"
  shows "checks_of_entries (xs @ e # ys) = checks_of_entries (xs @ ys)"
proof (rule stateless_check_ignored)
  have "str_or_empty (py_or (dget e ''conclusion'') (dget e ''status'')) = []"
    using assms by (simp add: str_or_empty_def)
  moreover have "normalize_status_key [] = []" by code_simp
  ultimately show "check_state e = []" by (simp add: check_state_def status_key_def)
qed

definition failed_status :: obj where
  "failed_status = [(''context'', JStr ''ci''), (''state'', JStr ''FAILURE'')]"

definition passed_check :: obj where
  "passed_check = [(''name'', JStr ''lint''), (''status'', JStr ''COMPLETED''), (''conclusion'', JStr ''SUCCESS'')]"

theorem commit_status_is_ignored_witness:
  "checks_of_entries [passed_check, failed_status] = ''success''
   \<and> pull_request_lifecycle_state
        [(''reviewDecision'', JStr ''APPROVED''), (''statusCheckRollup'', JList [JObj passed_check, JObj failed_status])]
      = ''ready-to-merge''"
proof -
  have "checks_of_entries [passed_check, failed_status] = checks_of_entries [passed_check]"
    using commit_status_is_ignored [of failed_status "[passed_check]" "[]"] by (simp add: failed_status_def)
  moreover have "checks_of_entries [passed_check] = ''success''" by code_simp
  moreover have "pull_request_lifecycle_state
        [(''reviewDecision'', JStr ''APPROVED''), (''statusCheckRollup'', JList [JObj passed_check, JObj failed_status])]
      = ''ready-to-merge''" by code_simp
  ultimately show ?thesis by simp
qed

end
