(* ===== verification/PrSupervisor.thy ===== *)
theory PrSupervisor imports Triage PrLifecycle begin

text \<open>
  The pull request half of src/tandem_agents/core/scheduling/coder_supervisor.py: each tick of the
  supervisor refreshes the pull request of a finished run and repairs, updates or merges it, under the
  circuit breaker of \<open>_repair_gate_decision\<close> and the budget of core/budget.py. A tick acts on the run's
  \<open>status.json\<close>, its blackboard and its metadata in the store; what GitHub, Linear and the Tandem
  engine answer are inputs of the tick, what the tick asks them to do is its log. A tick reads the
  clock once.
\<close>

section \<open>Statuses\<close>

definition NON_TERMINAL_RUN_STATUSES :: "string list" where
  "NON_TERMINAL_RUN_STATUSES = [''created'', ''running'']"

definition TERMINAL_CODER_STATUSES :: "string list" where
  "TERMINAL_CODER_STATUSES = [''completed'', ''failed'', ''blocked'', ''cancelled'', ''canceled'']"

definition normalize_status :: "json \<Rightarrow> string" where
  "normalize_status v = (let s = lower (nonempty v) in if s = ''canceled'' then ''cancelled'' else s)"

definition coder_run_id :: "string \<Rightarrow> obj \<Rightarrow> string" where
  "coder_run_id run_id blackboard =
     (case dget blackboard ''coder_run'' of
        JObj d \<Rightarrow> first_nonempty [nonempty (dget d ''coder_run_id''), nonempty (dget d ''coderRunId''),
          nonempty (dget d ''id''), run_id]
      | _ \<Rightarrow> run_id)"

definition is_coder_execution :: "obj \<Rightarrow> obj \<Rightarrow> bool" where
  "is_coder_execution status blackboard =
     (case (dget status ''run'', dget status ''phase'') of
        (JObj run, JObj phase) \<Rightarrow>
          List.member NON_TERMINAL_RUN_STATUSES (normalize_status (dget run ''status''))
          \<and> nonempty (dget phase ''name'') = ''coder_execution''
          \<and> (nonempty (dget blackboard ''execution_backend'') = ''coder'' \<or> is_obj (dget blackboard ''coder_run''))
      | _ \<Rightarrow> False)"

definition is_retryable_pr_lifecycle_error :: "obj \<Rightarrow> bool" where
  "is_retryable_pr_lifecycle_error lifecycle =
     (let err = nonempty (dget lifecycle ''error'') in
      contains err ''Could not read GitHub pull request'' \<or> contains err ''GitHub MCP'')"

definition supervisable_states :: "string list" where
  "supervisable_states = [''running'', ''waiting-for-review'', ''needs-repair'', ''ready-to-merge'']"

definition is_pr_lifecycle_supervisable :: "obj \<Rightarrow> obj \<Rightarrow> bool" where
  "is_pr_lifecycle_supervisable status blackboard =
     (case (dget status ''run'', dget blackboard ''pull_request_lifecycle'') of
        (JObj run, JObj lifecycle) \<Rightarrow>
          (let state = nonempty (dget lifecycle ''lifecycle_state'') in
           List.member [''completed'', ''running''] (normalize_status (dget run ''status''))
           \<and> ((truthy (dget lifecycle ''number'') \<and> List.member supervisable_states state)
              \<or> (state = ''blocked'' \<and> is_retryable_pr_lifecycle_error lifecycle)))
      | _ \<Rightarrow> False)"

definition source_task_terminal :: "obj \<Rightarrow> bool" where
  "source_task_terminal task =
     (let text = (\<lambda>d k. lower (nonempty (dget d k)));
          own = [text task ''state'', text task ''status''];
          source = (case dget task ''source'' of JObj d \<Rightarrow> [text d ''state'', text d ''status''] | _ \<Rightarrow> [])
      in list_ex (List.member [''done'', ''completed'', ''closed'', ''cancelled'', ''canceled'']) (own @ source))"

section \<open>The circuit breaker\<close>

definition REPAIR_MAX_ATTEMPTS_DEFAULT :: int where
  "REPAIR_MAX_ATTEMPTS_DEFAULT = 5"

definition REPAIR_COOLDOWN_BASE_MS_DEFAULT :: int where
  "REPAIR_COOLDOWN_BASE_MS_DEFAULT = 60000"

definition REPAIR_COOLDOWN_MAX_SHIFT :: int where
  "REPAIR_COOLDOWN_MAX_SHIFT = 6"

text \<open>A configured number that is missing, unreadable or not positive gives the default.\<close>

definition repair_max_attempts :: "int option \<Rightarrow> int" where
  "repair_max_attempts value =
     (case value of Some n \<Rightarrow> if n > 0 then n else REPAIR_MAX_ATTEMPTS_DEFAULT
      | None \<Rightarrow> REPAIR_MAX_ATTEMPTS_DEFAULT)"

definition repair_cooldown_base_ms :: "int option \<Rightarrow> int" where
  "repair_cooldown_base_ms value =
     (case value of Some n \<Rightarrow> if n > 0 then n else REPAIR_COOLDOWN_BASE_MS_DEFAULT
      | None \<Rightarrow> REPAIR_COOLDOWN_BASE_MS_DEFAULT)"

text \<open>The fingerprint of the feedback; \<open>sha1\<close> and \<open>sha256\<close> are \<open>hashlib\<close>'s digests of a text.\<close>

definition feedback_part :: "(string \<Rightarrow> string) \<Rightarrow> obj \<Rightarrow> string" where
  "feedback_part sha1 item =
     join ''|'' [str_or_empty (dget item ''kind''), str_or_empty (dget item ''url''),
       str_or_empty (dget item ''path''), str_or_empty (dget item ''line''),
       sha1 (str_or_empty (dget item ''body''))]"

definition repair_signature :: "(string \<Rightarrow> string) \<Rightarrow> (string \<Rightarrow> string) \<Rightarrow> obj \<Rightarrow> string" where
  "repair_signature sha1 sha256 context =
     (let parts = map (\<lambda>v. feedback_part sha1 (obj_of v)) (filter is_obj (list_of (dget context ''feedback_items'')));
          head = str_or_empty (dget (obj_of (dget context ''pull_request'')) ''head_branch'')
      in sha256 (head @ [CHR 0x0A] @ join [CHR 0x0A] (sort_texts parts)))"

record breaker =
  br_attempts :: int
  br_last_attempt_ms :: int
  br_last_signature :: string
  br_escalated :: bool
  br_reason :: string

text \<open>The breaker as the run's metadata keeps it; its numbers are the integers the supervisor wrote.\<close>

definition int_field :: "json \<Rightarrow> int" where
  "int_field v = (case v of JInt i \<Rightarrow> i | JBool b \<Rightarrow> (if b then 1 else 0) | _ \<Rightarrow> 0)"

definition breaker_of :: "obj \<Rightarrow> breaker" where
  "breaker_of d = \<lparr>br_attempts = int_field (dget d ''attempts''),
     br_last_attempt_ms = int_field (dget d ''last_attempt_ms''),
     br_last_signature = str_or_empty (dget d ''last_signature''),
     br_escalated = truthy (dget d ''escalated''), br_reason = str_or_empty (dget d ''reason'')\<rparr>"

definition breaker_obj :: "breaker \<Rightarrow> obj" where
  "breaker_obj b = [(''attempts'', JInt (br_attempts b)), (''last_attempt_ms'', JInt (br_last_attempt_ms b)),
     (''last_signature'', JStr (br_last_signature b)), (''escalated'', JBool (br_escalated b)),
     (''reason'', JStr (br_reason b))]"

datatype decision = Proceed | Defer | Escalate | Skip

definition repair_cooldown :: "int \<Rightarrow> int \<Rightarrow> int" where
  "repair_cooldown base attempts = base * 2 ^ nat (min (attempts - 1) REPAIR_COOLDOWN_MAX_SHIFT)"

definition repair_gate_decision ::
  "breaker \<Rightarrow> string \<Rightarrow> int \<Rightarrow> int \<Rightarrow> int \<Rightarrow> decision \<times> breaker \<times> string" where
  "repair_gate_decision state signature now max_attempts cooldown_base =
     (let attempts = br_attempts state;
          pass = state\<lparr>br_attempts := attempts + 1, br_last_attempt_ms := now, br_last_signature := signature\<rparr>
      in if br_escalated state then (Skip, state, first_nonempty [br_reason state, ''already_escalated''])
         else if attempts \<ge> max_attempts then
           (Escalate, state\<lparr>br_escalated := True, br_reason := ''max_attempts''\<rparr>, ''max_attempts'')
         else if attempts > 0 \<and> now - br_last_attempt_ms state < repair_cooldown cooldown_base attempts then
           (Defer, state, ''cooldown'')
         else if attempts > 0 \<and> signature \<noteq> [] \<and> signature = br_last_signature state then
           (Escalate, state\<lparr>br_escalated := True, br_reason := ''no_new_feedback''\<rparr>, ''no_new_feedback'')
         else (Proceed, pass, []))"

section \<open>The budget of an issue\<close>

text \<open>
  The ledger holds tokens, cost and executions. Costs are floats: whether the cost axis is exhausted,
  and the text that says so, is an input.
\<close>

definition spend_tokens :: "obj \<Rightarrow> int" where
  "spend_tokens spend = int_field (dget spend ''total_tokens'')"

definition spend_executions :: "obj \<Rightarrow> int" where
  "spend_executions spend = int_field (dget spend ''coder_executions'')"

definition budget_reasons :: "int \<Rightarrow> int \<Rightarrow> string option \<Rightarrow> obj \<Rightarrow> string list" where
  "budget_reasons max_tokens max_executions cost_reason spend =
     (if max_tokens > 0 \<and> spend_tokens spend \<ge> max_tokens
      then [''tokens '' @ int_str (spend_tokens spend) @ ''>='' @ int_str max_tokens] else [])
     @ (case cost_reason of Some r \<Rightarrow> [r] | None \<Rightarrow> [])
     @ (if max_executions > 0 \<and> spend_executions spend \<ge> max_executions
        then [''coder_executions '' @ int_str (spend_executions spend) @ ''>='' @ int_str max_executions] else [])"

definition budget_status :: "int \<Rightarrow> int \<Rightarrow> string option \<Rightarrow> obj \<Rightarrow> bool \<times> string" where
  "budget_status max_tokens max_executions cost_reason spend =
     (let reasons = budget_reasons max_tokens max_executions cost_reason spend
      in (reasons \<noteq> [], join ''; '' reasons))"

section \<open>A tick\<close>

datatype effect =
    LinearComment string
  | Dispatch obj
  | UpdateBranch "github_call list"
  | MergeEvaluated "github_call list"
  | Enqueue outbox_message
  | Event string obj

record supervised =
  su_run_id :: string
  su_status :: obj
  su_blackboard :: obj
  su_metadata :: obj
  su_log :: "effect list"

record sup_config =
  sc_max_repair_attempts :: "int option"
  sc_repair_cooldown_base_ms :: "int option"
  sc_review :: review_config
  sc_default_branch :: string
  sc_max_tokens :: int
  sc_max_executions :: int
  sc_source_type :: string
  sc_linear_sync :: string
  sc_linear_scope :: string
  sc_done_status :: string
  sc_done_label :: string
  sc_sha1 :: "string \<Rightarrow> string"
  sc_sha256 :: "string \<Rightarrow> string"

text \<open>
  The inputs: what refreshing the pull request and collecting its repair context return, what creating and
  executing a coder run returns, the tokens and the cost the ledger has after it, and what GitHub answers to
  the attempts to update the branch, to the merge and to the attempts to delete the branch.
\<close>

record tick =
  ti_now :: int
  ti_refresh :: "string + obj"
  ti_context :: obj
  ti_cost_reason :: "string option"
  ti_dispatch :: "string + obj"
  ti_usage_tokens :: int
  ti_cost_usd :: json
  ti_update_tool :: "obj option list"
  ti_merge_tool :: "py_error + obj"
  ti_delete_tool :: "obj option list"

definition log_effect :: "effect \<Rightarrow> supervised \<Rightarrow> supervised" where
  "log_effect e s = s\<lparr>su_log := su_log s @ [e]\<rparr>"

definition set_blackboard :: "string \<Rightarrow> json \<Rightarrow> supervised \<Rightarrow> supervised" where
  "set_blackboard k v s = s\<lparr>su_blackboard := dset k v (su_blackboard s)\<rparr>"

definition set_status_field :: "string \<Rightarrow> json \<Rightarrow> supervised \<Rightarrow> supervised" where
  "set_status_field k v s = s\<lparr>su_status := dset k v (su_status s)\<rparr>"

definition set_metadata :: "string \<Rightarrow> json \<Rightarrow> supervised \<Rightarrow> supervised" where
  "set_metadata k v s = s\<lparr>su_metadata := dset k v (su_metadata s)\<rparr>"

definition run_source_type :: "sup_config \<Rightarrow> obj \<Rightarrow> string" where
  "run_source_type cfg task =
     (case dget task ''source'' of
        JObj d \<Rightarrow> lower (strip (if truthy (dget d ''type'') then py_str (dget d ''type'') else sc_source_type cfg))
      | _ \<Rightarrow> lower (strip (sc_source_type cfg)))"

definition maybe_add_linear_repair_comment :: "sup_config \<Rightarrow> obj \<Rightarrow> string \<Rightarrow> supervised \<Rightarrow> supervised" where
  "maybe_add_linear_repair_comment cfg task body s =
     (if run_source_type cfg task = ''linear'' then log_effect (LinearComment body) s else s)"

definition persist_pull_request_lifecycle :: "obj \<Rightarrow> supervised \<Rightarrow> supervised" where
  "persist_pull_request_lifecycle pr s =
     (let url = JStr (strip (first_nonempty [str_or_empty (dget pr ''url''),
            str_or_empty (dget (su_blackboard s) ''pull_request''), str_or_empty (dget (su_status s) ''pull_request'')]));
          task = (case dget (su_status s) ''task'' of JObj d \<Rightarrow> d | _ \<Rightarrow> []);
          task = dset ''pull_request_lifecycle'' (JObj pr) (dset ''pull_request'' url task)
      in set_metadata ''pull_request_lifecycle'' (JObj pr) (set_metadata ''pull_request'' url
           (set_status_field ''task'' (JObj task) (set_status_field ''pull_request_lifecycle'' (JObj pr)
             (set_status_field ''pull_request'' url (set_blackboard ''pull_request_lifecycle'' (JObj pr)
               (set_blackboard ''pull_request'' url s)))))))"

definition persist_repair :: "obj \<Rightarrow> breaker option \<Rightarrow> supervised \<Rightarrow> supervised" where
  "persist_repair repair b s =
     (let s = set_metadata ''pull_request_repair'' (JObj repair)
            (set_status_field ''pull_request_repair'' (JObj repair) (set_blackboard ''pull_request_repair'' (JObj repair) s))
      in case b of Some x \<Rightarrow> set_metadata ''pull_request_repair_state'' (JObj (breaker_obj x)) s | None \<Rightarrow> s)"

definition load_issue_spend :: "supervised \<Rightarrow> obj" where
  "load_issue_spend s =
     (let empty = [(''total_tokens'', JInt 0), (''cost_usd'', JFloat ''0.0''), (''coder_executions'', JInt 0)]
      in case dget (su_metadata s) ''issue_spend'' of JObj d \<Rightarrow> dupdate empty d | _ \<Rightarrow> empty)"

definition record_coder_spend :: "tick \<Rightarrow> supervised \<Rightarrow> obj \<times> supervised" where
  "record_coder_spend t s =
     (let old = load_issue_spend s;
          spend = [(''total_tokens'', JInt (spend_tokens old + ti_usage_tokens t)), (''cost_usd'', ti_cost_usd t),
            (''coder_executions'', JInt (spend_executions old + 1))]
      in (spend, set_metadata ''issue_spend'' (JObj spend) s))"

definition first_obj :: "json \<Rightarrow> json \<Rightarrow> json \<Rightarrow> obj" where
  "first_obj a b c = obj_of (py_or a (py_or b c))"

definition current_breaker :: "supervised \<Rightarrow> breaker" where
  "current_breaker s = breaker_of (obj_of (dget (su_metadata s) ''pull_request_repair_state''))"

definition signature_of :: "sup_config \<Rightarrow> tick \<Rightarrow> string" where
  "signature_of cfg t = repair_signature (sc_sha1 cfg) (sc_sha256 cfg) (ti_context t)"

text \<open>The budget first, then the gate.\<close>

definition decide_repair :: "sup_config \<Rightarrow> tick \<Rightarrow> supervised \<Rightarrow> decision \<times> breaker \<times> string" where
  "decide_repair cfg t s =
     (let b = current_breaker s;
          (over, why) = budget_status (sc_max_tokens cfg) (sc_max_executions cfg) (ti_cost_reason t)
            (load_issue_spend s);
          reason = ''budget_exhausted ('' @ why @ '')''
      in if over then (if br_escalated b then Skip else Escalate, b\<lparr>br_escalated := True, br_reason := reason\<rparr>, reason)
         else repair_gate_decision b (signature_of cfg t) (ti_now t) (repair_max_attempts (sc_max_repair_attempts cfg))
                (repair_cooldown_base_ms (sc_repair_cooldown_base_ms cfg)))"

definition pr_label :: "obj \<Rightarrow> string" where
  "pr_label pr = (if truthy (dget pr ''url'') then py_str (dget pr ''url'') else ''the linked PR'')"

definition repair_record :: "tick \<Rightarrow> obj \<Rightarrow> supervised \<Rightarrow> obj" where
  "repair_record t pr s =
     [(''run_id'', JStr (su_run_id s)),
      (''repair_run_id'', JStr (su_run_id s @ ''-repair-'' @ int_str (ti_now t))), (''status'', JStr ''no_action''),
      (''pull_request'', py_or (dget (ti_context t) ''pull_request'') (JObj pr)), (''context'', JObj (ti_context t)),
      (''prompt'', JStr (build_pull_request_repair_prompt (ti_context t))), (''started_at_ms'', JInt (ti_now t)), (''completed_at_ms'', JNull),
      (''summary'', JStr [])]"

definition close_repair :: "string \<Rightarrow> string \<Rightarrow> breaker \<Rightarrow> tick \<Rightarrow> obj \<Rightarrow> obj" where
  "close_repair status summary b t repair =
     dset ''breaker'' (JObj (breaker_obj b)) (dset ''summary'' (JStr summary)
       (dset ''completed_at_ms'' (JInt (ti_now t)) (dset ''status'' (JStr status) repair)))"

definition escalate_repair ::
  "sup_config \<Rightarrow> tick \<Rightarrow> obj \<Rightarrow> obj \<Rightarrow> bool \<Rightarrow> breaker \<Rightarrow> string \<Rightarrow> supervised \<Rightarrow> supervised" where
  "escalate_repair cfg t pr task first b reason s =
     (let escalated = dset ''last_checked_at_ms'' (JInt (ti_now t)) (dset ''repair_escalation_reason'' (JStr reason)
            (dset ''repair_escalated'' (JBool True) (dset ''terminal'' (JBool False)
              (dset ''lifecycle_state'' (JStr ''needs-human'')
                (obj_of (py_or (dget (ti_context t) ''pull_request'') (JObj pr)))))));
          summary = ''Escalated to human after '' @ int_str (br_attempts b) @ '' repair attempt(s): '' @ reason @ ''.'';
          repair = close_repair ''escalated'' summary b t (repair_record t pr s);
          s1 = persist_repair repair (Some b) (persist_pull_request_lifecycle escalated s)
      in if first then
           log_effect (Event ''github_pull_request.repair_escalated'' repair)
             (maybe_add_linear_repair_comment cfg task
               (''ACA attempted '' @ int_str (br_attempts b) @ '' repair pass(es) on '' @ pr_label pr
                @ '' without resolving the feedback (reason: '' @ reason
                @ ''). Pausing automated repairs and escalating for human review.'') s1)
         else s1)"

definition repair_payload :: "sup_config \<Rightarrow> tick \<Rightarrow> obj \<Rightarrow> supervised \<Rightarrow> obj" where
  "repair_payload cfg t pr s =
     (let repo = obj_of (dget (su_status s) ''repo'') in
      [(''coder_run_id'', JStr (su_run_id s @ ''-repair-'' @ int_str (ti_now t))), (''workflow_mode'', JStr ''pr_repair''),
       (''repo_binding'', JObj [(''workspace_id'', JStr ''aca''), (''workspace_root'', JStr (str_or_empty (dget repo ''path''))),
         (''repo_slug'', JStr (first_nonempty [str_or_empty (dget repo ''slug''), rv_slug (sc_review cfg)])),
         (''default_branch'', JStr (first_nonempty [str_or_empty (dget pr ''base_branch''), sc_default_branch cfg, ''main'']))]),
       (''github_ref'', JObj [(''kind'', JStr ''pull_request''), (''number'', dget pr ''number''), (''url'', dget pr ''url''),
         (''head_branch'', dget pr ''head_branch'')]),
       (''objective'', JStr (build_pull_request_repair_prompt (ti_context t))), (''source_client'', JStr ''aca''),
       (''repair_context'', JObj (ti_context t))])"

definition dispatch_repair :: "sup_config \<Rightarrow> tick \<Rightarrow> obj \<Rightarrow> obj \<Rightarrow> breaker \<Rightarrow> supervised \<Rightarrow> supervised" where
  "dispatch_repair cfg t pr task b s =
     (let max_attempts = repair_max_attempts (sc_max_repair_attempts cfg);
          s1 = (if br_attempts b \<le> 1 then
                  maybe_add_linear_repair_comment cfg task
                    (''ACA is starting repair passes for PR feedback on '' @ pr_label pr @ '' (up to ''
                     @ int_str max_attempts @ '' attempts).'') s
                else s);
          s2 = log_effect (Dispatch (repair_payload cfg t pr s)) s1;
          repair = (case ti_dispatch t of
              Inr responses \<Rightarrow> dupdate (close_repair ''dispatched''
                (''Repair pass '' @ int_str (br_attempts b) @ ''/'' @ int_str max_attempts
                 @ '' dispatched to Tandem coder; outcome verified on next lifecycle refresh.'') b t
                (repair_record t pr s)) responses
            | Inl err \<Rightarrow> close_repair ''blocked'' err b t (repair_record t pr s));
          (spend, s3) = record_coder_spend t s2;
          repair = dset ''issue_spend'' (JObj spend) repair
      in log_effect (Event ''github_pull_request.repair_pass_completed'' repair) (persist_repair repair (Some b) s3))"

definition start_pr_repair_pass :: "sup_config \<Rightarrow> tick \<Rightarrow> obj \<Rightarrow> supervised \<Rightarrow> supervised" where
  "start_pr_repair_pass cfg t pr s =
     (let task = first_obj (dget (su_status s) ''task'') (dget (su_blackboard s) ''task'') JNull;
          repair = repair_record t pr s
      in if \<not> truthy (dget (ti_context t) ''actionable'') then
           persist_repair (dset ''summary'' (JStr (first_nonempty [str_or_empty (dget (ti_context t) ''reason''),
             ''No actionable PR feedback.''])) repair) None s
         else (case decide_repair cfg t s of
             (Defer, b, reason) \<Rightarrow>
               (let repair = close_repair ''deferred''
                  (''Repair pass deferred (cooldown) after attempt '' @ int_str (br_attempts b) @ ''.'') b t repair
                in log_effect (Event ''github_pull_request.repair_pass_deferred'' repair) (persist_repair repair (Some b) s))
           | (Escalate, b, reason) \<Rightarrow> escalate_repair cfg t pr task True b reason s
           | (Skip, b, reason) \<Rightarrow> escalate_repair cfg t pr task False b reason s
           | (Proceed, b, reason) \<Rightarrow> dispatch_repair cfg t pr task b s))"

definition update_pr_branch_for_run :: "sup_config \<Rightarrow> tick \<Rightarrow> obj \<Rightarrow> supervised \<Rightarrow> supervised" where
  "update_pr_branch_for_run cfg t pr s =
     (let (answer, calls) = update_pull_request_branch (rv_slug (sc_review cfg)) (attempts_answer ''updated'' (ti_update_tool t)) pr;
          result = (case answer of
            Inr d \<Rightarrow> d | Inl e \<Rightarrow> [(''updated'', JBool False), (''error'', JStr (strip (err_text e)))]);
          result = dset ''completed_at_ms'' (JInt (ti_now t)) result
      in log_effect (Event ''github_pull_request.branch_update'' result) (set_metadata ''pull_request_rebase'' (JObj result)
           (set_status_field ''pull_request_rebase'' (JObj result) (set_blackboard ''pull_request_rebase'' (JObj result)
             (log_effect (UpdateBranch calls) s)))))"

definition linear_finalize_enabled :: "sup_config \<Rightarrow> obj \<Rightarrow> bool" where
  "linear_finalize_enabled cfg task =
     (run_source_type cfg task = ''linear'' \<and> sc_linear_sync cfg \<noteq> ''off''
      \<and> List.member [''intake_finalize'', ''always''] (lower (strip (sc_linear_scope cfg))))"

definition linear_task_with_run_id :: "obj \<Rightarrow> string \<Rightarrow> obj" where
  "linear_task_with_run_id task run_id =
     (if List.member [JNull, JStr []] (dget task ''run_id'') then dset ''run_id'' (JStr run_id) task else task)"

definition merge_summary :: string where
  "merge_summary = ''Pull request merged by ACA guarded auto-merge.''"

definition merge_comment :: "string \<Rightarrow> string \<Rightarrow> obj \<Rightarrow> obj \<Rightarrow> string" where
  "merge_comment run_id target_status pr merge =
     strip (join nlc [''ACA merged the pull request for run '' @ ticked run_id @ '' and moved this issue to ''
         @ ticked target_status @ ''.'', [],
       ''Pull request: '' @ first_nonempty [nonempty (dget pr ''url''), ''unknown''],
       ''Merge strategy: '' @ ticked (first_nonempty [nonempty (dget merge ''strategy''), ''unknown'']),
       ''Remote branch deleted: '' @ ticked (if truthy (dget merge ''branch_deleted'') then ''yes'' else ''no''), [],
       ''<!-- aca:linear-merge:'' @ run_id @ '' -->''])"

definition merge_message :: "string \<Rightarrow> string \<Rightarrow> string \<Rightarrow> obj \<Rightarrow> obj \<Rightarrow> obj \<Rightarrow> obj \<Rightarrow> outbox_message" where
  "merge_message run_id kind key task pr merge special =
     \<lparr>om_kind = kind, om_aggregate_type = ''task'',
      om_aggregate_id = first_nonempty [str_or_empty (dget task ''task_id''), run_id],
      om_payload = JObj ([(''run_id'', JStr run_id), (''outcome'', JStr ''merged''), (''summary'', JStr merge_summary)]
        @ special @ [(''task'', JObj (linear_task_with_run_id task run_id)), (''pull_request'', JObj pr), (''merge'', JObj merge)]),
      om_dedupe_key = Some (run_id @ key)\<rparr>"

definition enqueue_linear_merge_finalize :: "sup_config \<Rightarrow> obj \<Rightarrow> obj \<Rightarrow> obj \<Rightarrow> supervised \<Rightarrow> supervised" where
  "enqueue_linear_merge_finalize cfg task pr merge s =
     (let target_status = first_nonempty [sc_done_status cfg, ''Done''];
          labels = (if strip (sc_done_label cfg) \<noteq> [] then [JStr (sc_done_label cfg)] else []);
          status = merge_message (su_run_id s) ''linear_issue.status_update'' '':linear:merge-status'' task pr merge
            [(''target_status'', JStr target_status), (''labels'', JList labels)];
          comment = merge_message (su_run_id s) ''linear_issue.comment'' '':linear:merge-comment'' task pr merge
            [(''body'', JStr (merge_comment (su_run_id s) target_status pr merge))]
      in if \<not> linear_finalize_enabled cfg task \<or> \<not> truthy (dget merge ''merged'') then s
         else if List.member [''status_comment'', ''rich''] (sc_linear_sync cfg)
         then log_effect (Enqueue comment) (log_effect (Enqueue status) s)
         else log_effect (Enqueue status) s)"

text \<open>The approvals recorded for the run, and the guarded merge under them.\<close>

definition finalization_approvals :: "supervised \<Rightarrow> obj" where
  "finalization_approvals s = (case dget (su_blackboard s) ''finalization_approvals'' of
      JObj d \<Rightarrow> d | _ \<Rightarrow> obj_of (dget (su_status s) ''finalization_approvals''))"

definition guarded_merge_dict :: "sup_config \<Rightarrow> tick \<Rightarrow> obj \<Rightarrow> obj \<Rightarrow> obj \<times> github_call list" where
  "guarded_merge_dict cfg t approvals pr =
     (let deletion = attempts_answer ''deleted'' (ti_delete_tool t);
          (answer, calls) = guarded_auto_merge (sc_review cfg) (JObj approvals) (merge_answer (ti_merge_tool t)) deletion pr;
          data = (case merge_answer (ti_merge_tool t) of Inr d \<Rightarrow> d | Inl _ \<Rightarrow> [])
      in (case answer of
            Inr r \<Rightarrow> merge_report_obj (sc_review cfg) data deletion pr r
          | Inl e \<Rightarrow> [(''status'', JStr ''blocked''), (''merged'', JBool False), (''branch_deleted'', JBool False),
              (''strategy'', JStr (lower (strip (rv_strategy (sc_review cfg))))), (''pull_request'', JObj pr),
              (''error'', JStr (strip (err_text e)))], calls))"

definition maybe_auto_merge_pr :: "sup_config \<Rightarrow> tick \<Rightarrow> obj \<Rightarrow> supervised \<Rightarrow> supervised" where
  "maybe_auto_merge_pr cfg t pr s =
     (if lower (strip (rv_policy (sc_review cfg))) \<noteq> ''auto_merge'' then s
      else
        (let (merge, calls) = guarded_merge_dict cfg t (finalization_approvals s) pr;
             merge = dset ''completed_at_ms'' (JInt (ti_now t)) merge;
             s1 = log_effect (Event ''github_pull_request.auto_merge_evaluated'' merge)
               (set_metadata ''pull_request_merge'' (JObj merge) (set_status_field ''pull_request_merge'' (JObj merge)
                 (set_blackboard ''pull_request_merge'' (JObj merge) (log_effect (MergeEvaluated calls) s))));
             merged = dset ''last_checked_at_ms'' (JInt (ti_now t)) (dset ''branch_deleted'' (dget merge ''branch_deleted'')
               (dset ''merge_strategy'' (dget merge ''strategy'') (dset ''merged'' (JBool True)
                 (dset ''terminal'' (JBool True) (dset ''lifecycle_state'' (JStr ''merged'') pr)))))
         in if truthy (dget merge ''merged'')
            then enqueue_linear_merge_finalize cfg
                   (first_obj (dget (su_status s1) ''task'') (dget (su_blackboard s1) ''task'') JNull) merged merge
                   (persist_pull_request_lifecycle merged s1)
            else s1))"

definition retryable_states :: "string list" where
  "retryable_states = [''running'', ''waiting-for-review'', ''needs-repair'', ''needs-rebase'', ''conflicted'',
     ''ready-to-merge'']"

definition refresh_pr_lifecycle_for_run :: "sup_config \<Rightarrow> tick \<Rightarrow> supervised \<Rightarrow> supervised" where
  "refresh_pr_lifecycle_for_run cfg t s =
     (let existing = first_obj (dget (su_blackboard s) ''pull_request_lifecycle'')
            (dget (su_status s) ''pull_request_lifecycle'') JNull
      in if existing = [] then s
         else (case ti_refresh t of
           Inl message \<Rightarrow>
             (let state = nonempty (dget existing ''lifecycle_state'');
                  retry = (if List.member retryable_states state then state else ''waiting-for-review'');
                  failed = dset ''last_checked_at_ms'' (JInt (ti_now t)) (dset ''error'' (JStr message)
                    (dset ''terminal'' (JBool False) (dset ''lifecycle_state'' (JStr retry) existing)))
              in log_effect (Event ''github_pull_request.lifecycle_refresh_failed'' failed)
                   (persist_pull_request_lifecycle failed s))
         | Inr pr \<Rightarrow>
             (let pr = dset ''last_checked_at_ms'' (JInt (ti_now t)) pr;
                  state = nonempty (dget pr ''lifecycle_state'');
                  s1 = persist_pull_request_lifecycle pr s;
                  s2 = (if state = ''needs-rebase'' then update_pr_branch_for_run cfg t pr s1 else s1);
                  s3 = (if state = ''needs-repair'' \<or> state = ''conflicted''
                        then start_pr_repair_pass cfg t pr s2 else s2);
                  s4 = (if state = ''ready-to-merge'' then maybe_auto_merge_pr cfg t pr s3 else s3)
              in log_effect (Event ''github_pull_request.lifecycle_refreshed'' pr) s4)))"

text \<open>\<open>reconcile_coder_run\<close> without a cancel reason, for a run that is not executing a coder workflow.\<close>

definition supervise :: "sup_config \<Rightarrow> tick \<Rightarrow> supervised \<Rightarrow> supervised" where
  "supervise cfg t s =
     (if \<not> is_coder_execution (su_status s) (su_blackboard s)
         \<and> is_pr_lifecycle_supervisable (su_status s) (su_blackboard s)
      then refresh_pr_lifecycle_for_run cfg t s else s)"

definition supervise_all :: "sup_config \<Rightarrow> tick list \<Rightarrow> supervised \<Rightarrow> supervised" where
  "supervise_all cfg ts s = fold (supervise cfg) ts s"

section \<open>Lemmas\<close>

subsection \<open>What an operation of a tick leaves alone\<close>

definition is_dispatch :: "effect \<Rightarrow> bool" where
  "is_dispatch e = (case e of Dispatch _ \<Rightarrow> True | _ \<Rightarrow> False)"

definition dispatches :: "supervised \<Rightarrow> nat" where
  "dispatches s = length (filter is_dispatch (su_log s))"

definition is_escalation :: "effect \<Rightarrow> bool" where
  "is_escalation e = (case e of Event kind _ \<Rightarrow> kind = ''github_pull_request.repair_escalated'' | _ \<Rightarrow> False)"

definition escalations :: "supervised \<Rightarrow> nat" where
  "escalations s = length (filter is_escalation (su_log s))"

definition executions :: "supervised \<Rightarrow> int" where
  "executions s = spend_executions (load_issue_spend s)"

definition lifecycle_of :: "supervised \<Rightarrow> json" where
  "lifecycle_of s = dget (su_blackboard s) ''pull_request_lifecycle''"

text \<open>The part of the state the breaker and the supervision depend on.\<close>

definition view ::
  "supervised \<Rightarrow> breaker \<times> int \<times> nat \<times> nat \<times> json \<times> json" where
  "view s = (current_breaker s, executions s, dispatches s, escalations s, lifecycle_of s, dget (su_status s) ''run'')"

lemma view_eqs:
  "view s = (b, x, n, m, l, r) \<longleftrightarrow> current_breaker s = b \<and> executions s = x \<and> dispatches s = n
     \<and> escalations s = m \<and> lifecycle_of s = l \<and> dget (su_status s) ''run'' = r"
  by (simp add: view_def)

lemmas view_defs = view_def current_breaker_def executions_def dispatches_def escalations_def lifecycle_of_def
  load_issue_spend_def

lemma view_set_blackboard [simp]: "k \<noteq> ''pull_request_lifecycle'' \<Longrightarrow> view (set_blackboard k v s) = view s"
  by (simp add: view_defs set_blackboard_def)

lemma view_set_status [simp]: "k \<noteq> ''run'' \<Longrightarrow> view (set_status_field k v s) = view s"
  by (simp add: view_defs set_status_field_def)

lemma view_set_metadata [simp]:
  "k \<noteq> ''pull_request_repair_state'' \<Longrightarrow> k \<noteq> ''issue_spend'' \<Longrightarrow> view (set_metadata k v s) = view s"
  by (simp add: view_defs set_metadata_def)

lemma view_log [simp]:
  "\<not> is_dispatch e \<Longrightarrow> \<not> is_escalation e \<Longrightarrow> view (log_effect e s) = view s"
  by (simp add: view_defs log_effect_def)

lemma quiet_effects [simp]:
  "\<not> is_dispatch (LinearComment c)" "\<not> is_dispatch (UpdateBranch g)" "\<not> is_dispatch (MergeEvaluated g)"
  "\<not> is_dispatch (Event c d)" "\<not> is_dispatch (Enqueue q)" "is_dispatch (Dispatch d)"
  "\<not> is_escalation (LinearComment c)" "\<not> is_escalation (UpdateBranch g)" "\<not> is_escalation (MergeEvaluated g)"
  "\<not> is_escalation (Enqueue q)" "\<not> is_escalation (Dispatch d)"
  "is_escalation (Event c d) \<longleftrightarrow> c = ''github_pull_request.repair_escalated''"
  by (simp_all add: is_dispatch_def is_escalation_def)

lemma view_comment [simp]: "view (maybe_add_linear_repair_comment cfg task body s) = view s"
  by (simp add: maybe_add_linear_repair_comment_def)

lemma breaker_round_trip [simp]: "breaker_of (breaker_obj b) = b"
  by (simp add: breaker_of_def breaker_obj_def int_field_def str_or_empty_def)

definition with_breaker :: "breaker \<Rightarrow> breaker \<times> 'a \<Rightarrow> breaker \<times> 'a" where
  "with_breaker b v = (b, snd v)"

definition with_lifecycle :: "json \<Rightarrow> 'a \<times> 'b \<times> 'c \<times> 'd \<times> json \<times> 'e \<Rightarrow> 'a \<times> 'b \<times> 'c \<times> 'd \<times> json \<times> 'e" where
  "with_lifecycle l v = (case v of (b, x, n, m, _, r) \<Rightarrow> (b, x, n, m, l, r))"

definition with_log :: "nat \<Rightarrow> nat \<Rightarrow> 'a \<times> 'b \<times> nat \<times> nat \<times> 'e \<Rightarrow> 'a \<times> 'b \<times> nat \<times> nat \<times> 'e" where
  "with_log i j v = (case v of (b, x, n, m, y) \<Rightarrow> (b, x, n + i, m + j, y))"

lemma view_log_dispatch [simp]: "view (log_effect (Dispatch c) s) = with_log 1 0 (view s)"
  by (simp add: view_defs log_effect_def with_log_def)

lemma view_log_escalation [simp]:
  "view (log_effect (Event ''github_pull_request.repair_escalated'' d) s) = with_log 0 1 (view s)"
  by (simp add: view_defs log_effect_def with_log_def)

lemma view_set_breaker:
  "view (set_metadata ''pull_request_repair_state'' (JObj (breaker_obj b)) s) = with_breaker b (view s)"
  by (simp add: view_defs set_metadata_def with_breaker_def)

lemma view_set_lifecycle:
  "view (set_blackboard ''pull_request_lifecycle'' v s) = with_lifecycle v (view s)"
  by (simp add: view_defs set_blackboard_def with_lifecycle_def)

lemma view_persist_lifecycle [simp]:
  "view (persist_pull_request_lifecycle pr s) = with_lifecycle (JObj pr) (view s)"
  by (simp add: persist_pull_request_lifecycle_def Let_def view_set_lifecycle)

lemma view_persist_repair [simp]:
  "view (persist_repair repair b s) = (case b of Some x \<Rightarrow> with_breaker x (view s) | None \<Rightarrow> view s)"
  by (simp add: persist_repair_def Let_def view_set_breaker split: option.split)

lemma view_with_simps [simp]:
  "with_breaker b (b0, y) = (b, y)"
  "with_lifecycle l (b, x, n, m, l0, r) = (b, x, n, m, l, r)"
  "with_log i j (b, x, n, m, l, r) = (b, x, n + i, m + j, l, r)"
  by (simp_all add: with_breaker_def with_lifecycle_def with_log_def)

lemma view_update_branch [simp]: "view (update_pr_branch_for_run cfg t pr s) = view s"
  by (simp add: update_pr_branch_for_run_def Let_def split_beta)

lemma view_enqueue_merge [simp]: "view (enqueue_linear_merge_finalize cfg task pr merge s) = view s"
  by (simp add: enqueue_linear_merge_finalize_def Let_def)

lemma view_auto_merge:
  assumes "view s = (b, x, n, m, l, r)"
  shows "\<exists>l'. view (maybe_auto_merge_pr cfg t pr s) = (b, x, n, m, l', r)"
  using assms by (simp add: maybe_auto_merge_pr_def Let_def split_beta)

lemma view_escalate:
  assumes "view s = (b0, x, n, m, l, r)"
  shows "\<exists>d. view (escalate_repair cfg t pr task first b reason s) =
      (b, x, n, m + (if first then 1 else 0), JObj d, r) \<and> dget d ''lifecycle_state'' = JStr ''needs-human''"
  using assms by (simp add: escalate_repair_def Let_def)

lemma executions_after_spend:
  "executions (set_metadata ''issue_spend'' (JObj [(''total_tokens'', a), (''cost_usd'', c), (''coder_executions'', JInt k)]) s)
     = k"
  by (simp add: executions_def load_issue_spend_def Let_def set_metadata_def spend_executions_def int_field_def)

lemma view_record_spend [simp]:
  "view (snd (record_coder_spend t s)) = (case view s of (b, x, y) \<Rightarrow> (b, x + 1, y))"
  using executions_after_spend
  by (simp add: record_coder_spend_def Let_def view_def current_breaker_def dispatches_def escalations_def
      lifecycle_of_def set_metadata_def executions_def)

lemma view_dispatch:
  assumes "view s = (b0, x, n, m, l, r)"
  shows "view (dispatch_repair cfg t pr task b s) = (b, x + 1, n + 1, m, l, r)"
  using assms by (simp add: dispatch_repair_def Let_def split_beta split: sum.split)

subsection \<open>One tick\<close>

definition limit :: "sup_config \<Rightarrow> int" where
  "limit cfg = repair_max_attempts (sc_max_repair_attempts cfg)"

text \<open>What a tick does to the breaker, the ledger and the log.\<close>

inductive breaker_step :: "sup_config \<Rightarrow> breaker \<times> int \<times> nat \<times> nat \<Rightarrow> breaker \<times> int \<times> nat \<times> nat \<Rightarrow> bool"
  for cfg :: sup_config where
  quiet: "breaker_step cfg (b, x, n, m) (b, x, n, m)"
| again: "br_escalated b \<Longrightarrow> br_escalated b' \<Longrightarrow> br_attempts b' = br_attempts b \<Longrightarrow>
    breaker_step cfg (b, x, n, m) (b', x, n, m)"
| escalate: "\<not> br_escalated b \<Longrightarrow> br_escalated b' \<Longrightarrow> br_attempts b' = br_attempts b \<Longrightarrow>
    breaker_step cfg (b, x, n, m) (b', x, n, m + 1)"
| dispatch: "\<not> br_escalated b \<Longrightarrow> \<not> br_escalated b' \<Longrightarrow> br_attempts b < limit cfg \<Longrightarrow>
    br_attempts b' = br_attempts b + 1 \<Longrightarrow> (sc_max_executions cfg > 0 \<Longrightarrow> x < sc_max_executions cfg) \<Longrightarrow>
    breaker_step cfg (b, x, n, m) (b', x + 1, n + 1, m)"

definition counters :: "supervised \<Rightarrow> breaker \<times> int \<times> nat \<times> nat" where
  "counters s = (current_breaker s, executions s, dispatches s, escalations s)"

lemma counters_view: "view s = (b, x, n, m, l, r) \<Longrightarrow> counters s = (b, x, n, m)"
  by (simp add: view_def counters_def)

lemma gate_cases:
  assumes "repair_gate_decision b sig now max_attempts base = (dec, b', why)"
  shows "(dec = Skip \<and> br_escalated b \<and> b' = b)
    \<or> (dec = Defer \<and> \<not> br_escalated b \<and> b' = b)
    \<or> (dec = Escalate \<and> \<not> br_escalated b \<and> br_escalated b' \<and> br_attempts b' = br_attempts b)
    \<or> (dec = Proceed \<and> \<not> br_escalated b \<and> \<not> br_escalated b' \<and> br_attempts b < max_attempts
        \<and> br_attempts b' = br_attempts b + 1 \<and> br_last_attempt_ms b' = now)"
  using assms by (auto simp: repair_gate_decision_def Let_def split: if_splits)

lemma budget_within:
  "\<not> fst (budget_status mt me c spend) \<Longrightarrow> me > 0 \<Longrightarrow> spend_executions spend < me"
  by (auto simp: budget_status_def budget_reasons_def Let_def split: if_splits)

lemma decide_cases:
  assumes "decide_repair cfg t s = (dec, b', why)"
  shows "(dec = Skip \<and> br_escalated (current_breaker s) \<and> br_escalated b'
          \<and> br_attempts b' = br_attempts (current_breaker s))
    \<or> (dec = Defer \<and> \<not> br_escalated (current_breaker s) \<and> b' = current_breaker s)
    \<or> (dec = Escalate \<and> \<not> br_escalated (current_breaker s) \<and> br_escalated b'
          \<and> br_attempts b' = br_attempts (current_breaker s))
    \<or> (dec = Proceed \<and> \<not> br_escalated (current_breaker s) \<and> \<not> br_escalated b'
          \<and> br_attempts (current_breaker s) < limit cfg \<and> br_attempts b' = br_attempts (current_breaker s) + 1
          \<and> br_last_attempt_ms b' = ti_now t
          \<and> (sc_max_executions cfg > 0 \<longrightarrow> executions s < sc_max_executions cfg))"
proof (cases "fst (budget_status (sc_max_tokens cfg) (sc_max_executions cfg) (ti_cost_reason t) (load_issue_spend s))")
  case True
  then show ?thesis using assms by (auto simp: decide_repair_def Let_def split_beta split: if_splits)
next
  case False
  then have "repair_gate_decision (current_breaker s) (signature_of cfg t) (ti_now t) (limit cfg)
      (repair_cooldown_base_ms (sc_repair_cooldown_base_ms cfg)) = (dec, b', why)"
    using assms by (simp add: decide_repair_def Let_def split_beta limit_def)
  from gate_cases [OF this] show ?thesis
    using budget_within [OF False] by (auto simp: executions_def)
qed

lemma repair_pass_step:
  assumes "view s = (b, x, n, m, l, r)"
  shows "\<exists>b' x' n' m' l'. view (start_pr_repair_pass cfg t pr s) = (b', x', n', m', l', r)
      \<and> breaker_step cfg (b, x, n, m) (b', x', n', m')"
proof (cases "truthy (dget (ti_context t) ''actionable'')")
  case False
  then show ?thesis using assms by (auto simp: start_pr_repair_pass_def Let_def intro: breaker_step.quiet)
next
  case True
  obtain dec b' why where d: "decide_repair cfg t s = (dec, b', why)" by (cases "decide_repair cfg t s") auto
  have cur: "current_breaker s = b" "executions s = x" using assms by (simp_all add: view_def)
  note dc = decide_cases [OF d, unfolded cur]
  let ?task = "first_obj (dget (su_status s) ''task'') (dget (su_blackboard s) ''task'') JNull"
  show ?thesis
  proof (cases dec)
    case Proceed
    then have "view (start_pr_repair_pass cfg t pr s) = (b', x + 1, n + 1, m, l, r)"
      using True d view_dispatch [OF assms] by (simp add: start_pr_repair_pass_def Let_def)
    moreover have "breaker_step cfg (b, x, n, m) (b', x + 1, n + 1, m)"
      using dc Proceed by (intro breaker_step.dispatch) auto
    ultimately show ?thesis by blast
  next
    case Defer
    then have "view (start_pr_repair_pass cfg t pr s) = (b, x, n, m, l, r)"
      using True d assms dc by (auto simp: start_pr_repair_pass_def Let_def)
    then show ?thesis using breaker_step.quiet by blast
  next
    case Escalate
    then obtain l' where "view (start_pr_repair_pass cfg t pr s) = (b', x, n, m + 1, l', r)"
      using True d view_escalate [OF assms, of cfg t pr ?task True b' why]
      by (auto simp: start_pr_repair_pass_def Let_def)
    moreover have "breaker_step cfg (b, x, n, m) (b', x, n, m + 1)"
      using dc Escalate by (intro breaker_step.escalate) auto
    ultimately show ?thesis by blast
  next
    case Skip
    then obtain l' where "view (start_pr_repair_pass cfg t pr s) = (b', x, n, m, l', r)"
      using True d view_escalate [OF assms, of cfg t pr ?task False b' why]
      by (auto simp: start_pr_repair_pass_def Let_def)
    moreover have "breaker_step cfg (b, x, n, m) (b', x, n, m)"
      using dc Skip by (intro breaker_step.again) auto
    ultimately show ?thesis by blast
  qed
qed

lemma supervise_step:
  assumes "view s = (b, x, n, m, l, r)"
  shows "\<exists>b' x' n' m' l'. view (supervise cfg t s) = (b', x', n', m', l', r)
      \<and> breaker_step cfg (b, x, n, m) (b', x', n', m')"
proof -
  have same: ?thesis if "\<exists>l'. view (supervise cfg t s) = (b, x, n, m, l', r)"
    using that breaker_step.quiet by blast
  show ?thesis
  proof (cases "supervise cfg t s = s \<or> (\<exists>e. ti_refresh t = Inl e)")
    case True
    then show ?thesis
    proof
      assume "supervise cfg t s = s"
      with assms show ?thesis by (intro same) simp
    next
      assume "\<exists>e. ti_refresh t = Inl e"
      with assms show ?thesis
        by (intro same) (auto simp: supervise_def refresh_pr_lifecycle_for_run_def Let_def)
    qed
  next
    case False
    then obtain pr0 where pr0: "ti_refresh t = Inr pr0" by (cases "ti_refresh t") auto
    define pr where "pr = dset ''last_checked_at_ms'' (JInt (ti_now t)) pr0"
    define st where "st = nonempty (dget pr ''lifecycle_state'')"
    define s1 where "s1 = persist_pull_request_lifecycle pr s"
    define s2 where "s2 = (if st = ''needs-rebase'' then update_pr_branch_for_run cfg t pr s1 else s1)"
    have sup: "supervise cfg t s = log_effect (Event ''github_pull_request.lifecycle_refreshed'' pr)
        (if st = ''ready-to-merge'' then maybe_auto_merge_pr cfg t pr s2
         else if st = ''needs-repair'' \<or> st = ''conflicted'' then start_pr_repair_pass cfg t pr s2 else s2)"
      using False pr0
      by (cases "st = ''ready-to-merge''"; cases "st = ''needs-rebase''")
        (auto simp: supervise_def refresh_pr_lifecycle_for_run_def Let_def pr_def [symmetric] st_def [symmetric]
          s1_def [symmetric] s2_def split: if_splits)
    have v2: "view s2 = (b, x, n, m, JObj pr, r)" using assms by (simp add: s2_def s1_def)
    show ?thesis
    proof (cases "st = ''needs-repair'' \<or> st = ''conflicted''")
      case True
      then show ?thesis using repair_pass_step [OF v2, of cfg t pr] by (auto simp: sup)
    next
      case False
      with v2 view_auto_merge [OF v2, of cfg t pr] show ?thesis by (intro same) (auto simp: sup)
    qed
  qed
qed

lemma supervise_counters: "breaker_step cfg (counters s) (counters (supervise cfg t s))"
proof -
  obtain b x n m l r where v: "view s = (b, x, n, m, l, r)" by (cases "view s") auto
  from supervise_step [OF v, of cfg t] show ?thesis
    using counters_view v by metis
qed

text \<open>What every tick keeps.\<close>

definition breaker_inv :: "sup_config \<Rightarrow> breaker \<times> int \<times> nat \<times> nat \<Rightarrow> bool" where
  "breaker_inv cfg c = (case c of (b, x, n, m) \<Rightarrow>
     br_attempts b = int n \<and> int n \<le> limit cfg \<and> x = int n
     \<and> (sc_max_executions cfg > 0 \<longrightarrow> int n \<le> sc_max_executions cfg) \<and> m = (if br_escalated b then 1 else 0))"

lemma breaker_inv_step: "breaker_step cfg c c' \<Longrightarrow> breaker_inv cfg c \<Longrightarrow> breaker_inv cfg c'"
  by (induction rule: breaker_step.induct) (auto simp: breaker_inv_def)

lemma escalated_step:
  "breaker_step cfg c c' \<Longrightarrow> br_escalated (fst c) \<Longrightarrow> br_escalated (fst c') \<and> snd c' = snd c"
  by (induction rule: breaker_step.induct) auto

lemma supervise_all_inv: "breaker_inv cfg (counters s) \<Longrightarrow> breaker_inv cfg (counters (supervise_all cfg ts s))"
  unfolding supervise_all_def
  by (induction ts arbitrary: s) (simp_all add: breaker_inv_step [OF supervise_counters])

lemma supervise_all_escalated:
  "br_escalated (current_breaker s) \<Longrightarrow> dispatches (supervise_all cfg ts s) = dispatches s"
proof (induction ts arbitrary: s)
  case (Cons t ts)
  have "br_escalated (current_breaker (supervise cfg t s)) \<and> dispatches (supervise cfg t s) = dispatches s"
    using escalated_step [OF supervise_counters, of s cfg t] Cons.prems by (simp add: counters_def)
  with Cons.IH [of "supervise cfg t s"] show ?case by (simp add: supervise_all_def)
qed (simp add: supervise_all_def)

definition fresh_run :: "supervised \<Rightarrow> bool" where
  "fresh_run s \<longleftrightarrow> dget (su_metadata s) ''pull_request_repair_state'' = JNull
     \<and> dget (su_metadata s) ''issue_spend'' = JNull \<and> su_log s = []"

lemma limit_pos: "0 < limit cfg"
  by (simp add: limit_def repair_max_attempts_def REPAIR_MAX_ATTEMPTS_DEFAULT_def split: option.split)

lemma fresh_counters:
  assumes "fresh_run s"
  shows "counters s = (breaker_of [], 0, 0, 0)"
  using assms
  by (simp add: counters_def fresh_run_def current_breaker_def executions_def load_issue_spend_def Let_def
      spend_executions_def int_field_def dispatches_def escalations_def)

lemma fresh_breaker: "br_attempts (breaker_of []) = 0" "\<not> br_escalated (breaker_of [])"
  by (simp_all add: breaker_of_def int_field_def)

lemma fresh_inv: "fresh_run s \<Longrightarrow> breaker_inv cfg (counters s)"
  using limit_pos [of cfg] by (simp add: fresh_counters breaker_inv_def fresh_breaker)

subsection \<open>States the supervisor drops\<close>

lemma not_supervisable:
  assumes "lifecycle_of s = JObj l"
    and "List.member [''conflicted'', ''needs-rebase'', ''needs-human''] (nonempty (dget l ''lifecycle_state''))"
  shows "supervise_all cfg ts s = s"
proof -
  have "\<not> is_pr_lifecycle_supervisable (su_status s) (su_blackboard s)"
    using assms by (auto simp: is_pr_lifecycle_supervisable_def lifecycle_of_def supervisable_states_def Let_def
        split: json.splits)
  then have "supervise cfg t s = s" for t by (simp add: supervise_def)
  then show ?thesis unfolding supervise_all_def by (induction ts) simp_all
qed

subsection \<open>A pull request that stays broken\<close>

definition stuck_tick :: "tick \<Rightarrow> bool" where
  "stuck_tick t \<longleftrightarrow> truthy (dget (ti_context t) ''actionable'')
     \<and> (case ti_refresh t of
          Inr pr \<Rightarrow> dget pr ''lifecycle_state'' = JStr ''needs-repair'' \<and> truthy (dget pr ''number'')
        | Inl _ \<Rightarrow> False)"

definition max_cooldown :: "sup_config \<Rightarrow> int" where
  "max_cooldown cfg = repair_cooldown_base_ms (sc_repair_cooldown_base_ms cfg) * 2 ^ nat REPAIR_COOLDOWN_MAX_SHIFT"

fun spaced :: "int \<Rightarrow> tick list \<Rightarrow> bool" where
  "spaced gap (t # u # ts) = (ti_now u - ti_now t \<ge> gap \<and> spaced gap (u # ts))"
| "spaced gap ts = True"

lemma cooldown_le: "repair_cooldown (repair_cooldown_base_ms c) a \<le> repair_cooldown_base_ms c * 2 ^ nat REPAIR_COOLDOWN_MAX_SHIFT"
proof -
  have "0 < repair_cooldown_base_ms c"
    by (simp add: repair_cooldown_base_ms_def REPAIR_COOLDOWN_BASE_MS_DEFAULT_def split: option.split)
  moreover have "(2::int) ^ nat (min (a - 1) REPAIR_COOLDOWN_MAX_SHIFT) \<le> 2 ^ nat REPAIR_COOLDOWN_MAX_SHIFT"
    by (intro power_increasing) (auto simp: nat_mono)
  ultimately show ?thesis by (simp add: repair_cooldown_def)
qed

lemma decide_not_defer:
  assumes "decide_repair cfg t s = (dec, b', why)"
    and "br_attempts (current_breaker s) > 0 \<longrightarrow> ti_now t - br_last_attempt_ms (current_breaker s) \<ge> max_cooldown cfg"
  shows "dec \<noteq> Defer"
  using assms cooldown_le [of "sc_repair_cooldown_base_ms cfg" "br_attempts (current_breaker s)"]
  by (auto simp: decide_repair_def repair_gate_decision_def Let_def max_cooldown_def split_beta split: if_splits)

lemma stuck_pass:
  assumes "view s = (b, x, n, m, l, r)" and "truthy (dget (ti_context t) ''actionable'')" and "\<not> br_escalated b"
    and "br_attempts b > 0 \<longrightarrow> ti_now t - br_last_attempt_ms b \<ge> max_cooldown cfg"
  shows "(\<exists>b' d. view (start_pr_repair_pass cfg t pr s) = (b', x, n, m + 1, JObj d, r)
            \<and> br_escalated b' \<and> dget d ''lifecycle_state'' = JStr ''needs-human'')
    \<or> (\<exists>b'. view (start_pr_repair_pass cfg t pr s) = (b', x + 1, n + 1, m, l, r) \<and> \<not> br_escalated b'
            \<and> br_attempts b < limit cfg \<and> br_attempts b' = br_attempts b + 1 \<and> br_last_attempt_ms b' = ti_now t)"
proof -
  obtain dec b' why where d: "decide_repair cfg t s = (dec, b', why)" by (cases "decide_repair cfg t s") auto
  have cur: "current_breaker s = b" "executions s = x" using assms(1) by (simp_all add: view_def)
  note dc = decide_cases [OF d, unfolded cur]
  have nd: "dec \<noteq> Defer" using decide_not_defer [OF d] assms(4) by (simp add: cur)
  let ?task = "first_obj (dget (su_status s) ''task'') (dget (su_blackboard s) ''task'') JNull"
  from dc nd assms(3) consider (escalate) "dec = Escalate" "br_escalated b'" | (proceed) "dec = Proceed"
    by auto
  then show ?thesis
  proof cases
    case escalate
    then show ?thesis using assms(2) d view_escalate [OF assms(1), of cfg t pr ?task True b' why]
      by (auto simp: start_pr_repair_pass_def Let_def)
  next
    case proceed
    then show ?thesis using dc assms(2) d view_dispatch [OF assms(1)] by (simp add: start_pr_repair_pass_def Let_def)
  qed
qed

definition watched :: "supervised \<Rightarrow> bool" where
  "watched s \<longleftrightarrow> is_pr_lifecycle_supervisable (su_status s) (su_blackboard s)
     \<and> (case dget (su_status s) ''run'' of JObj run \<Rightarrow> normalize_status (dget run ''status'') = ''completed'' | _ \<Rightarrow> False)"

definition handed_over :: "supervised \<Rightarrow> bool" where
  "handed_over s \<longleftrightarrow> br_escalated (current_breaker s)
     \<and> (case lifecycle_of s of JObj l \<Rightarrow> dget l ''lifecycle_state'' = JStr ''needs-human'' | _ \<Rightarrow> False)"

lemma watched_not_executing: "watched s \<Longrightarrow> \<not> is_coder_execution (su_status s) (su_blackboard s)"
  by (auto simp: watched_def is_coder_execution_def NON_TERMINAL_RUN_STATUSES_def split: json.splits)

lemma supervised_lifecycle:
  assumes "is_pr_lifecycle_supervisable (su_status s) (su_blackboard s)"
  shows "first_obj (dget (su_blackboard s) ''pull_request_lifecycle'')
      (dget (su_status s) ''pull_request_lifecycle'') JNull \<noteq> []"
proof -
  from assms obtain d where "dget (su_blackboard s) ''pull_request_lifecycle'' = JObj d" "d \<noteq> []"
    by (force simp: is_pr_lifecycle_supervisable_def supervisable_states_def Let_def split: json.splits)
  then show ?thesis by (simp add: first_obj_def py_or_def)
qed

text \<open>A repair pass leaves the lifecycle as it is, or hands the pull request over.\<close>

lemma repair_pass_lifecycle:
  assumes "view s = (b, x, n, m, JObj l, r)"
  shows "\<exists>d. lifecycle_of (start_pr_repair_pass cfg t pr s) = JObj d
     \<and> (d = l \<or> dget d ''lifecycle_state'' = JStr ''needs-human'')"
proof (cases "truthy (dget (ti_context t) ''actionable'')")
  case False
  then have "view (start_pr_repair_pass cfg t pr s) = view s" by (simp add: start_pr_repair_pass_def Let_def)
  with assms show ?thesis by (simp add: view_def)
next
  case True
  obtain dec b' why where d: "decide_repair cfg t s = (dec, b', why)" by (cases "decide_repair cfg t s") auto
  let ?task = "first_obj (dget (su_status s) ''task'') (dget (su_blackboard s) ''task'') JNull"
  show ?thesis
  proof (cases dec)
    case Proceed
    then show ?thesis using True d view_dispatch [OF assms, of cfg t pr ?task b']
      by (simp add: start_pr_repair_pass_def Let_def view_def)
  next
    case Defer
    then have "view (start_pr_repair_pass cfg t pr s) = with_breaker b' (view s)"
      using True d by (simp add: start_pr_repair_pass_def Let_def)
    with assms show ?thesis by (simp add: view_def)
  next
    case Escalate
    then show ?thesis using True d view_escalate [OF assms, of cfg t pr ?task True b' why]
      by (auto simp: start_pr_repair_pass_def Let_def view_def)
  next
    case Skip
    then show ?thesis using True d view_escalate [OF assms, of cfg t pr ?task False b' why]
      by (auto simp: start_pr_repair_pass_def Let_def view_def)
  qed
qed

lemma stuck_tick_step:
  assumes "watched s" and "stuck_tick t" and "\<not> br_escalated (current_breaker s)"
    and "br_attempts (current_breaker s) > 0 \<longrightarrow>
      ti_now t - br_last_attempt_ms (current_breaker s) \<ge> max_cooldown cfg"
  shows "handed_over (supervise cfg t s)
    \<or> (watched (supervise cfg t s) \<and> \<not> br_escalated (current_breaker (supervise cfg t s))
       \<and> br_attempts (current_breaker s) < limit cfg
       \<and> br_attempts (current_breaker (supervise cfg t s)) = br_attempts (current_breaker s) + 1
       \<and> br_last_attempt_ms (current_breaker (supervise cfg t s)) = ti_now t)"
proof -
  obtain b x n m l r where v: "view s = (b, x, n, m, l, r)" by (cases "view s") auto
  have cur: "current_breaker s = b" "lifecycle_of s = l" "dget (su_status s) ''run'' = r"
    using v by (simp_all add: view_def)
  obtain run where run: "r = JObj run" "normalize_status (dget run ''status'') = ''completed''"
    using assms(1) cur(3) by (auto simp: watched_def split: json.splits)
  obtain pr0 where pr0: "ti_refresh t = Inr pr0" "dget pr0 ''lifecycle_state'' = JStr ''needs-repair''"
      "truthy (dget pr0 ''number'')" "truthy (dget (ti_context t) ''actionable'')"
    using assms(2) by (auto simp: stuck_tick_def split: sum.splits)
  define pr where "pr = dset ''last_checked_at_ms'' (JInt (ti_now t)) pr0"
  have strip: "strip ''needs-repair'' = ''needs-repair''" by code_simp
  then have st: "nonempty (dget pr ''lifecycle_state'') = ''needs-repair''"
    by (simp add: pr_def pr0)
  have sup: "is_pr_lifecycle_supervisable (su_status s) (su_blackboard s)" using assms(1) by (simp add: watched_def)
  have ne: "first_obj (dget (su_blackboard s) ''pull_request_lifecycle'')
      (dget (su_status s) ''pull_request_lifecycle'') JNull \<noteq> []"
    using sup by (rule supervised_lifecycle)
  define s1 where "s1 = persist_pull_request_lifecycle pr s"
  have eq: "supervise cfg t s =
      log_effect (Event ''github_pull_request.lifecycle_refreshed'' pr) (start_pr_repair_pass cfg t pr s1)"
    using watched_not_executing [OF assms(1)] sup ne pr0(1) st
    by (simp add: supervise_def refresh_pr_lifecycle_for_run_def Let_def pr_def [symmetric] s1_def [symmetric])
  have v1: "view s1 = (b, x, n, m, JObj pr, r)" using v by (simp add: s1_def)
  have e: "\<not> br_escalated b" "br_attempts b > 0 \<longrightarrow> ti_now t - br_last_attempt_ms b \<ge> max_cooldown cfg"
    using assms(3,4) by (simp_all add: cur)
  from stuck_pass [OF v1 pr0(4) e, of pr]
  consider (over) b' d where "view (supervise cfg t s) = (b', x, n, m + 1, JObj d, r)" "br_escalated b'"
      "dget d ''lifecycle_state'' = JStr ''needs-human''"
    | (more) b' where "view (supervise cfg t s) = (b', x + 1, n + 1, m, JObj pr, r)" "\<not> br_escalated b'"
      "br_attempts b < limit cfg" "br_attempts b' = br_attempts b + 1" "br_last_attempt_ms b' = ti_now t"
    by (auto simp: eq)
  then show ?thesis
  proof cases
    case over
    then show ?thesis by (simp add: view_def handed_over_def)
  next
    case more
    then have "watched (supervise cfg t s)"
      using run st pr0 by (simp add: view_def watched_def is_pr_lifecycle_supervisable_def lifecycle_of_def
          supervisable_states_def Let_def pr_def)
    with more cur show ?thesis by (simp add: view_def)
  qed
qed

lemma handed_over_stays: "handed_over s \<Longrightarrow> supervise_all cfg ts s = s"
proof -
  assume h: "handed_over s"
  then obtain l where l: "lifecycle_of s = JObj l" "dget l ''lifecycle_state'' = JStr ''needs-human''"
    by (auto simp: handed_over_def split: json.splits)
  have "strip ''needs-human'' = ''needs-human''" by code_simp
  then have "nonempty (dget l ''lifecycle_state'') = ''needs-human''" by (simp add: l(2))
  then show ?thesis by (intro not_supervisable [OF l(1)]) simp
qed

lemma stuck_ticks:
  assumes "watched s" and "\<not> br_escalated (current_breaker s)" and "list_all stuck_tick ts"
    and "spaced (max_cooldown cfg) ts"
    and "br_attempts (current_breaker s) > 0 \<longrightarrow>
      ts \<noteq> [] \<longrightarrow> ti_now (hd ts) - br_last_attempt_ms (current_breaker s) \<ge> max_cooldown cfg"
    and "br_attempts (current_breaker s) + int (length ts) > limit cfg"
    and "br_attempts (current_breaker s) \<le> limit cfg"
  shows "handed_over (supervise_all cfg ts s)"
  using assms
proof (induction ts arbitrary: s)
  case (Cons t ts)
  let ?s = "supervise cfg t s"
  have step: "supervise_all cfg (t # ts) s = supervise_all cfg ts ?s" by (simp add: supervise_all_def)
  from stuck_tick_step [of s t cfg] Cons.prems
  consider "handed_over ?s" | (more) "watched ?s" "\<not> br_escalated (current_breaker ?s)"
      "br_attempts (current_breaker s) < limit cfg"
      "br_attempts (current_breaker ?s) = br_attempts (current_breaker s) + 1"
      "br_last_attempt_ms (current_breaker ?s) = ti_now t"
    by auto
  then show ?case
  proof cases
    case 1
    then show ?thesis using handed_over_stays step by simp
  next
    case more
    have sp: "spaced (max_cooldown cfg) ts" "ts \<noteq> [] \<longrightarrow> ti_now (hd ts) - ti_now t \<ge> max_cooldown cfg"
      using Cons.prems(4) by (cases ts; simp)+
    show ?thesis unfolding step
      by (rule Cons.IH) (use more sp Cons.prems in auto)
  qed
qed simp

text \<open>After a tick that found the pull request conflicted or behind, its state is that, or a human's.\<close>

lemma dropped_state:
  assumes sup: "is_pr_lifecycle_supervisable (su_status s) (su_blackboard s)"
    and exe: "\<not> is_coder_execution (su_status s) (su_blackboard s)"
    and pr0: "ti_refresh t = Inr pr0"
    and st0: "nonempty (dget pr0 ''lifecycle_state'') = ''conflicted'' \<or> nonempty (dget pr0 ''lifecycle_state'') = ''needs-rebase''"
  obtains l where "lifecycle_of (supervise cfg t s) = JObj l"
    and "List.member [''conflicted'', ''needs-rebase'', ''needs-human''] (nonempty (dget l ''lifecycle_state''))"
proof -
  define pr where "pr = dset ''last_checked_at_ms'' (JInt (ti_now t)) pr0"
  have st: "nonempty (dget pr ''lifecycle_state'') = nonempty (dget pr0 ''lifecycle_state'')" by (simp add: pr_def)
  define s1 where "s1 = persist_pull_request_lifecycle pr s"
  have ne: "first_obj (dget (su_blackboard s) ''pull_request_lifecycle'')
      (dget (su_status s) ''pull_request_lifecycle'') JNull \<noteq> []"
    using sup by (rule supervised_lifecycle)
  obtain b x n m l r where v: "view s1 = (b, x, n, m, JObj pr, r)"
    by (cases "view s") (auto simp: s1_def)
  show thesis
  proof (cases "nonempty (dget pr0 ''lifecycle_state'') = ''conflicted''")
    case True
    then have eq: "supervise cfg t s =
        log_effect (Event ''github_pull_request.lifecycle_refreshed'' pr) (start_pr_repair_pass cfg t pr s1)"
      using sup exe ne pr0 st
      by (simp add: supervise_def refresh_pr_lifecycle_for_run_def Let_def pr_def [symmetric] s1_def [symmetric])
    have human: "nonempty (JStr ''needs-human'') = ''needs-human''" by code_simp
    from repair_pass_lifecycle [OF v, of cfg t pr] obtain d
      where "lifecycle_of (start_pr_repair_pass cfg t pr s1) = JObj d"
        and "d = pr \<or> dget d ''lifecycle_state'' = JStr ''needs-human''" by blast
    with that [of d] show thesis using True st human
      by (auto simp: eq lifecycle_of_def log_effect_def)
  next
    case False
    then have eq: "supervise cfg t s =
        log_effect (Event ''github_pull_request.lifecycle_refreshed'' pr) (update_pr_branch_for_run cfg t pr s1)"
      using sup exe ne pr0 st st0
      by (simp add: supervise_def refresh_pr_lifecycle_for_run_def Let_def pr_def [symmetric] s1_def [symmetric])
    have "view (supervise cfg t s) = view s1" by (simp add: eq)
    then have "lifecycle_of (supervise cfg t s) = JObj pr" using v by (simp add: view_def)
    with that [of pr] show thesis using False st st0 by simp
  qed
qed

section \<open>Properties\<close>

text \<open>C32. The circuit breaker bounds the repair passes of a pull request. Whatever GitHub, the engine and
  the clock answer, over any sequence of ticks of a run that starts without a breaker and a ledger: the
  dispatched passes are exactly the breaker's attempts, at most the configured (or default) maximum, and
  at most the budget's executions when that axis is enabled; the hand-over to a human is announced at most
  once; and once the breaker has escalated no later tick dispatches a pass.\<close>
theorem repair_passes_bounded:
  assumes "fresh_run s" and "s' = supervise_all cfg ts s"
  shows "br_attempts (current_breaker s') = int (dispatches s')
    \<and> int (dispatches s') \<le> repair_max_attempts (sc_max_repair_attempts cfg)
    \<and> (sc_max_executions cfg > 0 \<longrightarrow> int (dispatches s') \<le> sc_max_executions cfg)
    \<and> escalations s' \<le> 1
    \<and> (br_escalated (current_breaker s') \<longrightarrow> dispatches (supervise_all cfg us s') = dispatches s')"
proof -
  have "breaker_inv cfg (counters s')"
    unfolding assms(2) by (rule supervise_all_inv [OF fresh_inv [OF assms(1)]])
  then show ?thesis
    using supervise_all_escalated by (auto simp: breaker_inv_def counters_def limit_def)
qed

definition demo_pr :: "string \<Rightarrow> obj" where
  "demo_pr state = [(''number'', JInt 7), (''lifecycle_state'', JStr state), (''url'', JStr ''u'')]"

definition demo_run :: supervised where
  "demo_run = \<lparr>su_run_id = ''r'', su_status = [(''run'', JObj [(''status'', JStr ''completed'')])],
     su_blackboard = [(''pull_request_lifecycle'', JObj (demo_pr ''running''))], su_metadata = [], su_log = []\<rparr>"

definition watch_cfg :: sup_config where
  "watch_cfg = \<lparr>sc_max_repair_attempts = Some 2, sc_repair_cooldown_base_ms = Some 10,
     sc_review = \<lparr>rv_policy = ''human_review'', rv_strategy = [], rv_allowed_strategies = [], rv_merge_requires_approval = True,
       rv_delete_branch = False, rv_delete_requires_approval = False, rv_slug = ''o/r''\<rparr>, sc_default_branch = ''main'',
     sc_max_tokens = 0, sc_max_executions = 0, sc_source_type = ''linear'', sc_linear_sync = ''rich'',
     sc_linear_scope = ''always'', sc_done_status = [], sc_done_label = [], sc_sha1 = (\<lambda>s. s), sc_sha256 = (\<lambda>s. s)\<rparr>"

definition demo_tick :: "string \<Rightarrow> string \<Rightarrow> int \<Rightarrow> tick" where
  "demo_tick state feedback now = \<lparr>ti_now = now, ti_refresh = Inr (demo_pr state),
     ti_context = [(''actionable'', JBool True), (''feedback_items'', JList [JObj [(''body'', JStr feedback)]])],
     ti_cost_reason = None, ti_dispatch = Inr [], ti_usage_tokens = 10, ti_cost_usd = JInt 0, ti_update_tool = [],
     ti_merge_tool = Inr [], ti_delete_tool = []\<rparr>"

definition stuck_run_ticks :: "tick list" where
  "stuck_run_ticks = [demo_tick ''needs-repair'' ''a'' 1000, demo_tick ''needs-repair'' ''b'' 2000,
     demo_tick ''needs-repair'' ''c'' 3000]"

theorem repair_passes_bounded_witness:
  "dispatches (supervise_all watch_cfg stuck_run_ticks demo_run) \<le> 2
   \<and> escalations (supervise_all watch_cfg stuck_run_ticks demo_run) \<le> 1"
proof -
  have "fresh_run demo_run" by (simp add: fresh_run_def demo_run_def)
  from repair_passes_bounded [OF this refl, of watch_cfg stuck_run_ticks "[]"] show ?thesis
    by (simp add: repair_max_attempts_def watch_cfg_def)
qed

text \<open>C33. A pull request that stays broken reaches a human: when every refresh of a completed run finds the
  pull request in need of repair with feedback to act on, at ticks at least the longest cool-down apart,
  then after one tick more than the maximum number of attempts the breaker has escalated and the pull
  request is in state \<open>needs-human\<close>, and no later tick changes anything.\<close>
theorem stuck_pr_reaches_human:
  assumes "fresh_run s" and "watched s" and "list_all stuck_tick ts" and "spaced (max_cooldown cfg) ts"
    and "int (length ts) > repair_max_attempts (sc_max_repair_attempts cfg)"
  shows "handed_over (supervise_all cfg ts s) \<and> supervise_all cfg us (supervise_all cfg ts s) = supervise_all cfg ts s"
proof -
  have c: "current_breaker s = breaker_of []" using fresh_counters [OF assms(1)] by (simp add: counters_def)
  have "handed_over (supervise_all cfg ts s)"
    by (rule stuck_ticks) (use assms limit_pos [of cfg] in \<open>simp_all add: c fresh_breaker limit_def\<close>)
  then show ?thesis using handed_over_stays by blast
qed

theorem stuck_pr_reaches_human_witness:
  "handed_over (supervise_all watch_cfg stuck_run_ticks demo_run)"
proof -
  have "fresh_run demo_run" by (simp add: fresh_run_def demo_run_def)
  moreover have "watched demo_run" by code_simp
  moreover have "list_all stuck_tick stuck_run_ticks" by code_simp
  moreover have "spaced (max_cooldown watch_cfg) stuck_run_ticks"
    by (simp add: stuck_run_ticks_def demo_tick_def watch_cfg_def max_cooldown_def repair_cooldown_base_ms_def
        REPAIR_COOLDOWN_MAX_SHIFT_def)
  moreover have "int (length stuck_run_ticks) > repair_max_attempts (sc_max_repair_attempts watch_cfg)"
    by (simp add: stuck_run_ticks_def watch_cfg_def repair_max_attempts_def)
  ultimately show ?thesis using stuck_pr_reaches_human [of demo_run stuck_run_ticks watch_cfg "[]"] by blast
qed

text \<open>C34. A conflicted pull request, and one behind its base, is dropped: once a tick has found it in state
  \<open>conflicted\<close> or \<open>needs-rebase\<close>, no later tick refreshes, repairs, updates, merges or escalates it, though
  the code means to go on repairing it under the breaker and to evaluate it again after the update. The
  breaker's later passes and its hand-over to a human are never reached from these states.\<close>
theorem conflicted_pr_is_dropped:
  assumes "ti_refresh t = Inr pr"
    and "nonempty (dget pr ''lifecycle_state'') = ''conflicted'' \<or> nonempty (dget pr ''lifecycle_state'') = ''needs-rebase''"
  shows "supervise_all cfg ts (supervise cfg t s) = supervise cfg t s"
proof (cases "supervise cfg t s = s \<and> (\<forall>t'. supervise cfg t' s = s)")
  case True
  then show ?thesis unfolding supervise_all_def by (induction ts) simp_all
next
  case False
  then have sup: "is_pr_lifecycle_supervisable (su_status s) (su_blackboard s)"
    "\<not> is_coder_execution (su_status s) (su_blackboard s)"
    by (auto simp: supervise_def split: if_splits)
  obtain l where "lifecycle_of (supervise cfg t s) = JObj l"
    and "List.member [''conflicted'', ''needs-rebase'', ''needs-human''] (nonempty (dget l ''lifecycle_state''))"
    by (rule dropped_state [OF sup assms])
  then show ?thesis by (rule not_supervisable)
qed

theorem conflicted_pr_is_dropped_witness:
  "supervise_all watch_cfg stuck_run_ticks (supervise watch_cfg (demo_tick ''conflicted'' ''a'' 1000) demo_run)
     = supervise watch_cfg (demo_tick ''conflicted'' ''a'' 1000) demo_run
   \<and> dispatches (supervise watch_cfg (demo_tick ''conflicted'' ''a'' 1000) demo_run) = 1"
proof -
  have "nonempty (dget (demo_pr ''conflicted'') ''lifecycle_state'') = ''conflicted''" by code_simp
  moreover have "dispatches (supervise watch_cfg (demo_tick ''conflicted'' ''a'' 1000) demo_run) = 1" by code_simp
  moreover have "ti_refresh (demo_tick ''conflicted'' ''a'' 1000) = Inr (demo_pr ''conflicted'')"
    by (simp add: demo_tick_def)
  ultimately show ?thesis using conflicted_pr_is_dropped by blast
qed

end
