(* ===== verification/PrMerges.thy ===== *)
theory PrMerges imports PrSupervisor begin

text \<open>
  The supervisor and the guarded merge together: which effects a tick of the supervisor can add to the log
  of a run, and under which gates one of them is a merge.
\<close>

section \<open>What a tick adds to the log\<close>

text \<open>\<open>s'\<close> has the log of \<open>s\<close> and then effects with \<open>P\<close>.\<close>

definition adds :: "(effect \<Rightarrow> bool) \<Rightarrow> supervised \<Rightarrow> supervised \<Rightarrow> bool" where
  "adds P s s' \<longleftrightarrow> (\<exists>es. su_log s' = su_log s @ es \<and> list_all P es)"

lemma adds_same: "su_log s' = su_log s \<Longrightarrow> adds P s s'"
  by (simp add: adds_def)

lemma adds_log: "adds P s s' \<Longrightarrow> P e \<Longrightarrow> adds P s (log_effect e s')"
  by (auto simp: adds_def log_effect_def)

lemma adds_trans: "adds P s s' \<Longrightarrow> adds P s' s'' \<Longrightarrow> adds P s s''"
  by (auto simp: adds_def)

lemma adds_weaken: "adds P s s' \<Longrightarrow> (\<And>e. P e \<Longrightarrow> Q e) \<Longrightarrow> adds Q s s'"
  by (auto simp: adds_def list_all_iff)

lemma log_unchanged [simp]:
  "su_log (set_blackboard k v s) = su_log s" "su_log (set_status_field k v s) = su_log s"
  "su_log (set_metadata k v s) = su_log s" "su_log (persist_pull_request_lifecycle pr s) = su_log s"
  "su_log (persist_repair r b s) = su_log s" "su_log (snd (record_coder_spend t s)) = su_log s"
  by (simp_all add: set_blackboard_def set_status_field_def set_metadata_def persist_pull_request_lifecycle_def
      persist_repair_def record_coder_spend_def Let_def split: option.split)

text \<open>The effects that are no merge and no message.\<close>

definition ordinary :: "effect \<Rightarrow> bool" where
  "ordinary e = (case e of MergeEvaluated _ \<Rightarrow> False | Enqueue _ \<Rightarrow> False | _ \<Rightarrow> True)"

lemma ordinary_simps [simp]:
  "ordinary (LinearComment c)" "ordinary (Dispatch d)" "ordinary (UpdateBranch g)" "ordinary (Event k d)"
  "\<not> ordinary (MergeEvaluated g)" "\<not> ordinary (Enqueue m)"
  by (simp_all add: ordinary_def)

lemma adds_comment: "adds ordinary s (maybe_add_linear_repair_comment cfg task body s)"
  by (simp add: maybe_add_linear_repair_comment_def adds_log adds_same)

lemma log_of_persisted: "adds P s s' \<Longrightarrow> su_log s'' = su_log s' \<Longrightarrow> adds P s s''"
  by (simp add: adds_def)

lemma adds_escalate: "adds ordinary s (escalate_repair cfg t pr task first b reason s)"
proof -
  have "adds ordinary s s'" if "su_log s' = su_log s" for s' using that by (rule adds_same)
  moreover have "adds ordinary s (maybe_add_linear_repair_comment cfg task body s')" if "su_log s' = su_log s" for s' body
    using adds_trans [OF adds_same [OF that] adds_comment] .
  ultimately show ?thesis by (simp add: escalate_repair_def Let_def adds_log)
qed

lemma adds_dispatch: "adds ordinary s (dispatch_repair cfg t pr task b s)"
proof -
  have 1: "adds ordinary s (if br_attempts b \<le> 1 then maybe_add_linear_repair_comment cfg task body s else s)" for body
    using adds_comment by (simp add: adds_same)
  show ?thesis unfolding dispatch_repair_def Let_def split_beta
    by (intro adds_log log_of_persisted [OF adds_log [OF 1]]) simp_all
qed

lemma adds_repair_pass: "adds ordinary s (start_pr_repair_pass cfg t pr s)"
proof (cases "truthy (dget (ti_context t) ''actionable'')")
  case False
  then show ?thesis by (simp add: start_pr_repair_pass_def Let_def adds_same)
next
  case True
  obtain dec b' why where d: "decide_repair cfg t s = (dec, b', why)" by (cases "decide_repair cfg t s") auto
  show ?thesis using True d adds_escalate adds_dispatch
    by (cases dec) (simp_all add: start_pr_repair_pass_def Let_def adds_log adds_same)
qed

lemma adds_update_branch: "adds ordinary s (update_pr_branch_for_run cfg t pr s)"
  unfolding update_pr_branch_for_run_def Let_def split_beta
  by (intro adds_log log_of_persisted [OF adds_log [OF adds_same]]) simp_all

text \<open>A tick adds ordinary effects only, or it is the evaluation of a merge.\<close>

lemma approvals_unchanged [simp]:
  "k \<noteq> ''finalization_approvals'' \<Longrightarrow> finalization_approvals (set_blackboard k v s) = finalization_approvals s"
  "k \<noteq> ''finalization_approvals'' \<Longrightarrow> finalization_approvals (set_status_field k v s) = finalization_approvals s"
  "finalization_approvals (set_metadata k v s) = finalization_approvals s"
  by (simp_all add: finalization_approvals_def set_blackboard_def set_status_field_def set_metadata_def
      split: json.split)

lemma approvals_persisted [simp]:
  "finalization_approvals (persist_pull_request_lifecycle pr s) = finalization_approvals s"
  by (simp add: persist_pull_request_lifecycle_def Let_def)

lemma tick_cases:
  "adds ordinary s (supervise cfg t s)
   \<or> (\<exists>pr0 pr. ti_refresh t = Inr pr0 \<and> pr = dset ''last_checked_at_ms'' (JInt (ti_now t)) pr0
       \<and> supervise cfg t s = log_effect (Event ''github_pull_request.lifecycle_refreshed'' pr)
           (maybe_auto_merge_pr cfg t pr (persist_pull_request_lifecycle pr s)))"
proof (cases "supervise cfg t s = s \<or> (\<exists>e. ti_refresh t = Inl e)")
  case True
  then show ?thesis
  proof
    assume "supervise cfg t s = s"
    then show ?thesis by (simp add: adds_same)
  next
    assume "\<exists>e. ti_refresh t = Inl e"
    then show ?thesis
      by (auto simp: supervise_def refresh_pr_lifecycle_for_run_def Let_def adds_same intro!: adds_log)
  qed
next
  case False
  then obtain pr0 where pr0: "ti_refresh t = Inr pr0" by (cases "ti_refresh t") auto
  define pr where "pr = dset ''last_checked_at_ms'' (JInt (ti_now t)) pr0"
  define st where "st = nonempty (dget pr ''lifecycle_state'')"
  define s1 where "s1 = persist_pull_request_lifecycle pr s"
  define s2 where "s2 = (if st = ''needs-rebase'' then update_pr_branch_for_run cfg t pr s1 else s1)"
  have sup: "supervise cfg t s = log_effect (Event ''github_pull_request.lifecycle_refreshed'' pr)
      (if st = ''ready-to-merge'' then maybe_auto_merge_pr cfg t pr s1
       else if st = ''needs-repair'' \<or> st = ''conflicted'' then start_pr_repair_pass cfg t pr s2 else s2)"
    using False pr0
    by (cases "st = ''ready-to-merge''"; cases "st = ''needs-rebase''")
      (auto simp: supervise_def refresh_pr_lifecycle_for_run_def Let_def pr_def [symmetric] st_def [symmetric]
        s1_def [symmetric] s2_def split: if_splits)
  show ?thesis
  proof (cases "st = ''ready-to-merge''")
    case True
    then show ?thesis using pr0 pr_def s1_def sup by auto
  next
    case False
    have s1: "adds ordinary s s1" by (simp add: s1_def adds_same)
    have s2: "adds ordinary s s2" using adds_trans [OF s1 adds_update_branch] s1 by (simp add: s2_def)
    have "adds ordinary s (start_pr_repair_pass cfg t pr s2)" by (rule adds_trans [OF s2 adds_repair_pass])
    with s2 have "adds ordinary s (supervise cfg t s)" using False by (auto simp: sup intro!: adds_log)
    then show ?thesis ..
  qed
qed

text \<open>The gates do not read when the pull request was checked.\<close>

lemma merge_allowed_checked [simp]:
  "merge_allowed cfg a (dset ''last_checked_at_ms'' v pr) = merge_allowed cfg a pr"
  by (simp add: merge_allowed_def merge_denials_def)

definition approved_merge :: "sup_config \<Rightarrow> tick \<Rightarrow> supervised \<Rightarrow> bool" where
  "approved_merge cfg t s \<longleftrightarrow> (\<exists>pr. ti_refresh t = Inr pr
     \<and> merge_allowed (sc_review cfg) (JObj (finalization_approvals s)) pr)"

definition merging :: "effect \<Rightarrow> bool" where
  "merging e = (case e of MergeEvaluated calls \<Rightarrow> calls \<noteq> [] | _ \<Rightarrow> False)"

definition announces :: "effect \<Rightarrow> bool" where
  "announces e = (case e of Enqueue _ \<Rightarrow> True | _ \<Rightarrow> False)"

lemma ordinary_silent: "ordinary e \<Longrightarrow> \<not> merging e \<and> \<not> announces e"
  by (simp add: ordinary_def merging_def announces_def split: effect.splits)

lemma guarded_dict:
  assumes "guarded_merge_dict cfg t (finalization_approvals s) pr = (merge, calls)"
  shows "calls \<noteq> [] \<longleftrightarrow> merge_allowed (sc_review cfg) (JObj (finalization_approvals s)) pr"
    and "truthy (dget merge ''merged'') \<Longrightarrow> calls \<noteq> [] \<and> (\<exists>d. merge_answer (ti_merge_tool t) = Inr d)"
proof -
  obtain answer calls' where g: "guarded_auto_merge (sc_review cfg) (JObj (finalization_approvals s)) (merge_answer (ti_merge_tool t))
      (attempts_answer ''deleted'' (ti_delete_tool t)) pr = (answer, calls')"
    by (cases "guarded_auto_merge (sc_review cfg) (JObj (finalization_approvals s)) (merge_answer (ti_merge_tool t)) (attempts_answer ''deleted'' (ti_delete_tool t)) pr")
  note mc = merge_calls [OF g]
  have c: "calls' = calls" using assms g by (simp add: guarded_merge_dict_def Let_def)
  show "calls \<noteq> [] \<longleftrightarrow> merge_allowed (sc_review cfg) (JObj (finalization_approvals s)) pr"
    using mc by (auto simp: c split: if_splits)
  assume "truthy (dget merge ''merged'')"
  then obtain r where "answer = Inr r" "mr_merged r"
    using assms g by (cases answer) (auto simp: guarded_merge_dict_def Let_def merge_report_obj_def)
  then show "calls \<noteq> [] \<and> (\<exists>d. merge_answer (ti_merge_tool t) = Inr d)"
    using mc by (auto simp: c split: if_splits sum.splits)
qed

lemma auto_merge_effects:
  assumes "finalization_approvals s = a"
  shows "\<exists>es. su_log (maybe_auto_merge_pr cfg t pr s) = su_log s @ es
    \<and> (list_ex merging es \<longrightarrow> merge_allowed (sc_review cfg) (JObj a) pr)
    \<and> (list_ex announces es \<longrightarrow> list_ex merging es \<and> (\<exists>d. merge_answer (ti_merge_tool t) = Inr d))"
proof -
  obtain merge calls where g: "guarded_merge_dict cfg t (finalization_approvals s) pr = (merge, calls)"
    by (cases "guarded_merge_dict cfg t (finalization_approvals s) pr")
  note gd = guarded_dict [OF g]
  have queue: "\<exists>ms. su_log (enqueue_linear_merge_finalize cfg task p m s') = su_log s' @ ms
      \<and> \<not> list_ex merging ms" for task p m s'
    by (simp add: enqueue_linear_merge_finalize_def Let_def log_effect_def merging_def)
  define m where "m = dset ''completed_at_ms'' (JInt (ti_now t)) merge"
  have mm: "dget m ''merged'' = dget merge ''merged''" by (simp add: m_def)
  show ?thesis
  proof (cases "lower (strip (rv_policy (sc_review cfg))) = ''auto_merge''")
    case False
    then show ?thesis by (simp add: maybe_auto_merge_pr_def)
  next
    case True
    show ?thesis
    proof (cases "truthy (dget merge ''merged'')")
      case False
      then have "su_log (maybe_auto_merge_pr cfg t pr s) =
          su_log s @ [MergeEvaluated calls, Event ''github_pull_request.auto_merge_evaluated'' m]"
        using True g by (simp add: maybe_auto_merge_pr_def Let_def m_def [symmetric] mm log_effect_def)
      then show ?thesis using gd(1) assms by (auto simp: merging_def announces_def)
    next
      case merged: True
      have "\<exists>task p s2. maybe_auto_merge_pr cfg t pr s = enqueue_linear_merge_finalize cfg task p m s2
          \<and> su_log s2 = su_log s @ [MergeEvaluated calls, Event ''github_pull_request.auto_merge_evaluated'' m]"
        using True merged g
        apply (simp add: maybe_auto_merge_pr_def Let_def m_def [symmetric] mm)
        apply (intro exI conjI, rule refl)
        apply (simp add: log_effect_def)
        done
      then obtain task p s2 where e: "maybe_auto_merge_pr cfg t pr s = enqueue_linear_merge_finalize cfg task p m s2"
        and l: "su_log s2 = su_log s @ [MergeEvaluated calls, Event ''github_pull_request.auto_merge_evaluated'' m]"
        by blast
      from queue [of task p m s2] obtain ms where
        "su_log (maybe_auto_merge_pr cfg t pr s) =
          su_log s @ [MergeEvaluated calls, Event ''github_pull_request.auto_merge_evaluated'' m] @ ms"
        "\<not> list_ex merging ms"
        by (auto simp: e l)
      then show ?thesis using gd(1) gd(2) [OF merged] assms by (auto simp: merging_def announces_def)
    qed
  qed
qed

section \<open>Properties\<close>

text \<open>C39. The supervisor merges only through the gates, and announces only merges that happened. Whatever a tick
  adds to a run's log: if it contains a merge request to GitHub, then the refresh of this tick returned a
  pull request that passes every gate of the merge policy under the approvals recorded for the run; and
  if it contains a message to the tracker, then the same tick sent that request and GitHub accepted it.\<close>

theorem supervised_merge_is_gated:
  "\<exists>es. su_log (supervise cfg t s) = su_log s @ es
     \<and> (list_ex merging es \<longrightarrow> approved_merge cfg t s)
     \<and> (list_ex announces es \<longrightarrow> list_ex merging es \<and> (\<exists>d. merge_answer (ti_merge_tool t) = Inr d))"
  using tick_cases [of s cfg t]
proof
  assume "adds ordinary s (supervise cfg t s)"
  then obtain es where "su_log (supervise cfg t s) = su_log s @ es" "list_all ordinary es" by (auto simp: adds_def)
  moreover from this(2) have "\<not> list_ex merging es" "\<not> list_ex announces es"
    using ordinary_silent by (auto simp: list_all_iff list_ex_iff)
  ultimately show ?thesis by blast
next
  assume "\<exists>pr0 pr. ti_refresh t = Inr pr0 \<and> pr = dset ''last_checked_at_ms'' (JInt (ti_now t)) pr0
       \<and> supervise cfg t s = log_effect (Event ''github_pull_request.lifecycle_refreshed'' pr)
           (maybe_auto_merge_pr cfg t pr (persist_pull_request_lifecycle pr s))"
  then obtain pr0 pr where pr0: "ti_refresh t = Inr pr0" "pr = dset ''last_checked_at_ms'' (JInt (ti_now t)) pr0"
    and sup: "supervise cfg t s = log_effect (Event ''github_pull_request.lifecycle_refreshed'' pr)
           (maybe_auto_merge_pr cfg t pr (persist_pull_request_lifecycle pr s))" by blast
  from auto_merge_effects [OF approvals_persisted, of cfg t pr pr s] obtain es where
    es: "su_log (maybe_auto_merge_pr cfg t pr (persist_pull_request_lifecycle pr s)) = su_log s @ es"
      "list_ex merging es \<longrightarrow> merge_allowed (sc_review cfg) (JObj (finalization_approvals s)) pr"
      "list_ex announces es \<longrightarrow> list_ex merging es \<and> (\<exists>d. merge_answer (ti_merge_tool t) = Inr d)"
    by auto
  have "su_log (supervise cfg t s) = su_log s @ es @ [Event ''github_pull_request.lifecycle_refreshed'' pr]"
    by (simp add: sup log_effect_def es(1))
  moreover have "list_ex merging es \<longrightarrow> approved_merge cfg t s"
    using es(2) pr0 by (auto simp: approved_merge_def)
  ultimately show ?thesis using es(3)
    by (intro exI [of _ "es @ [Event ''github_pull_request.lifecycle_refreshed'' pr]"]) (simp add: merging_def announces_def)
qed

definition merge_cfg :: sup_config where
  "merge_cfg = watch_cfg\<lparr>sc_review := merge_policy\<rparr>"

definition merge_run :: supervised where
  "merge_run = \<lparr>su_run_id = ''r'',
     su_status = [(''run'', JObj [(''status'', JStr ''completed'')]), (''task'', JObj [(''source'', JObj [(''type'', JStr ''linear'')])])],
     su_blackboard = [(''pull_request_lifecycle'', JObj (demo_pr ''ready-to-merge'')),
       (''finalization_approvals'', JObj [(''merge'', JStr ''approved'')])], su_metadata = [], su_log = []\<rparr>"

definition merge_tick :: tick where
  "merge_tick = (demo_tick [] [] 5)\<lparr>ti_refresh := Inr (normalize_pull_request_metadata [] [] [] green_pr)\<rparr>"

lemma merge_tick_announces: "list_ex announces (su_log (supervise merge_cfg merge_tick merge_run))"
  by code_simp

lemma supervised_merge_is_gated_witness:
  "approved_merge merge_cfg merge_tick merge_run
   \<and> list_ex merging (su_log (supervise merge_cfg merge_tick merge_run))"
proof -
  have "su_log merge_run = []" by (simp add: merge_run_def)
  with supervised_merge_is_gated [of merge_cfg merge_tick merge_run] merge_tick_announces show ?thesis by auto
qed

end
