(* ===== verification/ExternalActions.thy ===== *)
theory ExternalActions imports CoordApprovals PyDynamic PrLifecycle begin

text \<open>
  src/tandem_agents/core/external_actions/github_pr.py: the plan of external actions for the pull
  requests a task names, its approvals in the store, and the execution of the approved ones. The engine's
  tools, GitHub's pull request reads and Linear are operations on a world, given as arguments.
\<close>

section \<open>The pull requests a task names\<close>

text \<open>\<open>re.findall(r"#(\d+)", text)\<close>.\<close>

fun find_refs :: "string \<Rightarrow> bool \<Rightarrow> string \<Rightarrow> string list" where
  "find_refs ds open_ref [] = (if ds \<noteq> [] then [rev ds] else [])"
| "find_refs ds open_ref (c # s) =
     (if open_ref \<and> is_digit c then find_refs (c # ds) True s
      else (if ds \<noteq> [] then [rev ds] else []) @ find_refs [] (c = CHR ''#'') s)"

fun unique_ints :: "int list \<Rightarrow> int list \<Rightarrow> int list" where
  "unique_ints seen [] = []"
| "unique_ints seen (n # ns) = (if List.member seen n then unique_ints seen ns else n # unique_ints (n # seen) ns)"

definition extract_pr_numbers :: "obj \<Rightarrow> int list" where
  "extract_pr_numbers task =
     (let text = join nlc [str_or_empty (dget task ''title''), str_or_empty (dget task ''description''),
            join nlc (map str_or_empty (list_of (dget task ''acceptance_criteria''))),
            str_or_empty (dget (obj_of (dget task ''task_contract'')) ''raw_issue_body'')]
      in unique_ints [] (map (\<lambda>ds. int (digits_value ds)) (find_refs [] False text)))"

text \<open>\<open>slug.split("/", 1)\<close>.\<close>

definition split_repo :: "string \<Rightarrow> (string \<times> string) res" where
  "split_repo slug =
     (if has_slash slug
      then Inr (takeWhile (\<lambda>c. c \<noteq> CHR ''/'') slug, tl (dropWhile (\<lambda>c. c \<noteq> CHR ''/'') slug))
      else Inl (RuntimeError (''Invalid GitHub repository slug: '' @ slug)))"

definition repo_owner_name :: "string \<Rightarrow> obj \<Rightarrow> (string \<times> string) res" where
  "repo_owner_name cfg_slug task =
     (let source = obj_of (dget task ''source'');
          slug = strip (first_nonempty [str_or_empty (dget (obj_of (dget task ''repo'')) ''slug''), cfg_slug]);
          owner = nonempty (dget source ''owner'');
          name = nonempty (dget source ''repo_name'');
          (owner, name) = (if (owner = [] \<or> name = []) \<and> has_slash slug
            then (takeWhile (\<lambda>c. c \<noteq> CHR ''/'') slug, tl (dropWhile (\<lambda>c. c \<noteq> CHR ''/'') slug)) else (owner, name))
      in if owner = [] \<or> name = [] then Inl (RuntimeError ''GitHub PR actions require a repository owner/name.'')
         else Inr (owner, name))"

section \<open>The plan\<close>

definition pr_number_of :: "obj \<Rightarrow> int" where
  "pr_number_of pr = (case json_int (dget pr ''number'') of Some i \<Rightarrow> i | None \<Rightarrow> 0)"

definition pr_marker :: "string \<Rightarrow> int \<Rightarrow> string" where
  "pr_marker run_id number = ''aca:github-pr-action:'' @ run_id @ '':pr-'' @ int_str number"

definition comment_body :: "string \<Rightarrow> obj \<Rightarrow> obj \<Rightarrow> string \<Rightarrow> string" where
  "comment_body run_id task pr decision =
     (let title = strip (if truthy (dget task ''title'') then py_str (dget task ''title'') else ''ACA PR action'') in
      strip (join nlc [''ACA reviewed this PR from '' @ ticked title @ ''.'', [],
        ''Decision: **'' @ decision @ ''**.'', [],
        ''This action was proposed by ACA and executed only after operator approval.'', [],
        ''<!-- '' @ pr_marker run_id (pr_number_of pr) @ '' -->'']))"

text \<open>The numbers of the list that \<open>int\<close> reads; the others are skipped.\<close>

definition close_opt_in :: "obj \<Rightarrow> bool \<times> int list" where
  "close_opt_in task = (case dget task ''external_action'' of
      JObj policy \<Rightarrow> (truthy (dget policy ''allow_close_pr''),
        List.map_filter json_int (list_of (dget policy ''close_pr_numbers'')))
    | _ \<Rightarrow> (False, []))"

definition close_requested :: "obj \<Rightarrow> int \<Rightarrow> bool" where
  "close_requested task number =
     (let (allow, numbers) = close_opt_in task in allow \<and> (numbers = [] \<or> List.member numbers number))"

definition action :: "string \<Rightarrow> obj \<Rightarrow> obj \<Rightarrow> string \<Rightarrow> string \<Rightarrow> obj" where
  "action kind target payload risk marker =
     [(''action_type'', JStr kind), (''target'', JObj target), (''payload'', JObj payload),
      (''risk_level'', JStr risk), (''verification_marker'', JStr marker)]"

definition pr_actions :: "string \<Rightarrow> obj \<Rightarrow> obj \<Rightarrow> obj list" where
  "pr_actions run_id task pr =
     (let number = pr_number_of pr;
          marker = pr_marker run_id number;
          target = [(''pr_number'', JInt number), (''base_repo'', dget pr ''base_repo'')];
          closing = close_requested task number;
          decision = (if closing then ''close as duplicate/stale generated PR''
            else ''reviewed; leaving open for operator decision'')
      in if number \<le> 0 then []
         else [action ''comment_pr'' target [(''body'', JStr (comment_body run_id task pr decision))] ''medium'' marker,
               if closing then action ''close_pr'' target [(''state'', JStr ''closed'')] ''high'' marker
               else action ''leave_open'' target
                 [(''reason'', JStr ''close_pr not opted in; leaving open for operator decision.'')] ''low'' []])"

definition targets_of :: "string \<Rightarrow> obj list \<Rightarrow> string" where
  "targets_of kind actions =
     (let ts = map (\<lambda>a. CHR ''#'' # py_str (dget (obj_of (dget a ''target'')) ''pr_number''))
            (filter (\<lambda>a. dget a ''action_type'' = JStr kind) actions)
      in if ts = [] then ''none'' else join '', '' ts)"

definition build_linear_summary :: "string \<Rightarrow> obj \<Rightarrow> obj list \<Rightarrow> string" where
  "build_linear_summary run_id task actions =
     strip (join nlc [''ACA external-action plan for '' @ ticked run_id @ ''.'', [],
       ''Task: '' @ py_str (py_or (dget_or task [''title'', ''task_id'']) (JStr ''GitHub PR action'')), [],
       ''Approved close targets: '' @ targets_of ''close_pr'' actions,
       ''Left open / manual review: '' @ targets_of ''leave_open'' actions, [],
       ''All GitHub writes are approval-gated and verified after execution.'', [],
       ''<!-- aca:linear-external-action:'' @ run_id @ '' -->''])"

definition default_action_plan :: "string \<Rightarrow> obj \<Rightarrow> obj list \<Rightarrow> obj list" where
  "default_action_plan run_id task contexts =
     (let actions = concat (map (pr_actions run_id task) contexts) in
      actions @ [action ''post_linear_summary''
        [(''identifier'', py_or (dget (obj_of (dget task ''source'')) ''identifier'') (dget task ''task_id''))]
        [(''body'', JStr (build_linear_summary run_id task actions))] ''medium''
        (''aca:linear-external-action:'' @ run_id)])"

section \<open>Approvals for a plan\<close>

definition WRITE_ACTIONS :: "string list" where
  "WRITE_ACTIONS = [''comment_pr'', ''close_pr'', ''update_branch'', ''request_review'', ''merge_pr'', ''delete_branch'',
     ''post_linear_summary'']"

definition READ_ACTIONS :: "string list" where
  "READ_ACTIONS = [''leave_open'']"

record valid_action =
  va_type :: string
  va_target :: obj
  va_payload :: obj
  va_risk :: string
  va_marker :: string

definition validate_action :: "obj \<Rightarrow> valid_action res" where
  "validate_action a =
     (let kind = nonempty (dget_or a [''action_type'', ''type'']);
          target = obj_of (dget a ''target'')
      in if \<not> List.member (WRITE_ACTIONS @ READ_ACTIONS) kind
         then Inl (RuntimeError (''Unsupported external action type: '' @ first_nonempty [kind, ''unknown'']))
         else if List.member WRITE_ACTIONS kind \<and> target = []
         then Inl (RuntimeError (''External action '' @ kind @ '' is missing target metadata.''))
         else Inr \<lparr>va_type = kind, va_target = target, va_payload = obj_of (dget a ''payload''),
           va_risk = strip (first_nonempty [str_or_empty (dget a ''risk_level''),
             if List.member READ_ACTIONS kind then ''low'' else ''medium'']),
           va_marker = nonempty (dget a ''verification_marker'')\<rparr>)"

definition action_request_of :: "string \<Rightarrow> obj \<Rightarrow> valid_action \<Rightarrow> action_request" where
  "action_request_of run_id task v =
     (let source = obj_of (dget task ''source'') in
      \<lparr>aq_run_id = run_id,
       aq_task_id = nonempty (py_or (dget task ''task_id'') (dget source ''identifier'')),
       aq_source_type = str_or_empty (dget source ''type''), aq_adapter = ''github_pr'', aq_action_type = va_type v,
       aq_target = JObj (va_target v), aq_payload = JObj (va_payload v), aq_risk_level = va_risk v,
       aq_marker = va_marker v, aq_requested_by = ''aca'', aq_expires_at = None,
       aq_dedupe_key = Some (run_id @ '':'' @ va_type v @ '':'' @ dumps_spaced (sort_keys (JObj (va_target v))))\<rparr>)"

text \<open>One token per enqueued action; an action that cannot be validated stops the loop.\<close>

fun enqueue_approvals_for_plan ::
  "int \<Rightarrow> string list \<Rightarrow> string \<Rightarrow> obj \<Rightarrow> obj list \<Rightarrow> db \<Rightarrow> approval_row option list res \<times> db" where
  "enqueue_approvals_for_plan now tokens run_id task [] d = (Inr [], d)"
| "enqueue_approvals_for_plan now tokens run_id task (a # as) d =
     (case validate_action a of
        Inl e \<Rightarrow> (Inl e, d)
      | Inr v \<Rightarrow>
          if List.member READ_ACTIONS (va_type v) then enqueue_approvals_for_plan now tokens run_id task as d
          else (case enqueue_external_action_approval now (hd (tokens @ [[]])) (action_request_of run_id task v) d of
              (Inl e, d') \<Rightarrow> (Inl e, d')
            | (Inr row, d') \<Rightarrow>
                (case enqueue_approvals_for_plan now (tl tokens) run_id task as d' of
                   (Inl e, d'') \<Rightarrow> (Inl e, d'')
                 | (Inr rows, d'') \<Rightarrow> (Inr (row # rows), d''))))"

section \<open>Executing an approved action\<close>

text \<open>An operation on the world that can raise, and their sequence.\<close>

type_synonym ('w, 'a) io = "'w \<Rightarrow> 'a res \<times> 'w"

definition io_bind :: "('w, 'a) io \<Rightarrow> ('a \<Rightarrow> ('w, 'b) io) \<Rightarrow> ('w, 'b) io" where
  "io_bind m f w = (case m w of (Inl e, w') \<Rightarrow> (Inl e, w') | (Inr x, w') \<Rightarrow> f x w')"

definition io_ret :: "'a \<Rightarrow> ('w, 'a) io" where
  "io_ret x w = (Inr x, w)"

definition io_res :: "'a res \<Rightarrow> ('w, 'a) io" where
  "io_res r w = (r, w)"

definition io_fail :: "string \<Rightarrow> ('w, 'a) io" where
  "io_fail message = io_res (Inl (RuntimeError message))"

text \<open>
  What the execution uses of the outside: the engine's tools, the connection check, GitHub's pull request
  read, the guarded merge and the branch deletion on a pull request's metadata, a Linear comment (a warning
  or nothing) and whether a Linear comment with a marker is there.
\<close>

record 'w outside =
  ou_tool :: "string \<Rightarrow> obj \<Rightarrow> ('w, obj) io"
  ou_connect :: "('w, obj) io"
  ou_get_pr :: "string \<Rightarrow> string \<Rightarrow> int \<Rightarrow> ('w, obj) io"
  ou_merge :: "obj \<Rightarrow> ('w, obj) io"
  ou_delete_branch :: "obj \<Rightarrow> ('w, obj) io"
  ou_linear_comment :: "json \<Rightarrow> string \<Rightarrow> ('w, string option) io"
  ou_linear_marker :: "json \<Rightarrow> string \<Rightarrow> ('w, bool) io"

text \<open>\<open>_parse_tool_json\<close>: the output as JSON, or the first text of the content, or the metadata.\<close>

definition text_or_json :: "string \<Rightarrow> json" where
  "text_or_json t = (case loads t of Some v \<Rightarrow> v | None \<Rightarrow> JObj [(''output'', JStr t)])"

definition content_texts :: "json \<Rightarrow> string list" where
  "content_texts content = (case content of
      JList xs \<Rightarrow> filter (\<lambda>t. t \<noteq> []) (map (\<lambda>v. case v of JObj d \<Rightarrow> nonempty (dget d ''text'') | _ \<Rightarrow> []) xs)
    | _ \<Rightarrow> [])"

definition parse_tool_json :: "obj \<Rightarrow> json" where
  "parse_tool_json result =
     (let output = nonempty (dget result ''output'') in
      if output \<noteq> [] then text_or_json output
      else (case inner_result result of
          Some inner \<Rightarrow> (case content_texts (dget inner ''content'') of t # _ \<Rightarrow> text_or_json t | [] \<Rightarrow> JObj inner)
        | None \<Rightarrow> py_or (dget result ''metadata'') (JObj result)))"

definition execute_tool :: "'w outside \<Rightarrow> string \<Rightarrow> obj \<Rightarrow> ('w, json) io" where
  "execute_tool ou tool args = io_bind (ou_tool ou tool args) (\<lambda>result.
     if tool_failed result
     then io_fail (if truthy (dget result ''output'') then py_str (dget result ''output'') else ''GitHub MCP action failed'')
     else io_ret (parse_tool_json result))"

definition repo_args :: "string \<Rightarrow> string \<Rightarrow> obj" where
  "repo_args owner repo = [(''owner'', JStr owner), (''repo'', JStr repo)]"

definition verify_pr_comment :: "'w outside \<Rightarrow> string \<Rightarrow> int \<Rightarrow> string \<Rightarrow> ('w, bool) io" where
  "verify_pr_comment ou base_repo pr_number marker = io_bind (io_res (split_repo base_repo)) (\<lambda>(owner, repo).
     io_bind (execute_tool ou ''mcp.github.issue_read''
         (repo_args owner repo @ [(''issue_number'', JInt pr_number), (''method'', JStr ''get_comments'')])) (\<lambda>result.
       let comments = (case result of JList xs \<Rightarrow> xs | JObj d \<Rightarrow> list_of (dget d ''comments'') | _ \<Rightarrow> [])
       in io_ret (marker \<noteq> [] \<and> list_ex (\<lambda>c. contains (str_or_empty (dget_or (obj_of c) [''body'', ''text''])) marker)
            comments)))"

definition verified :: "string \<Rightarrow> obj \<Rightarrow> json" where
  "verified kind extra = JObj ([(''verified'', JBool True), (''action_type'', JStr kind)] @ extra)"

definition plain_tool_action :: "'w outside \<Rightarrow> string \<Rightarrow> string \<Rightarrow> string \<Rightarrow> int \<Rightarrow> ('w, json) io" where
  "plain_tool_action ou kind tool base_repo pr_number = io_bind (io_res (split_repo base_repo)) (\<lambda>(owner, repo).
     io_bind (execute_tool ou tool (repo_args owner repo @ [(''pullNumber'', JInt pr_number)])) (\<lambda>result.
       io_ret (verified kind [(''result'', result)])))"

definition run_action :: "'w outside \<Rightarrow> string \<Rightarrow> obj \<Rightarrow> obj \<Rightarrow> string \<Rightarrow> string \<Rightarrow> int \<Rightarrow> ('w, json) io" where
  "run_action ou kind target payload marker base_repo pr_number =
     (if kind = ''comment_pr'' then
        (let body = nonempty (dget payload ''body'') in
         if body = [] then io_fail ''comment_pr requires payload.body''
         else io_bind (io_res (split_repo base_repo)) (\<lambda>(owner, repo).
           io_bind (execute_tool ou ''mcp.github.add_issue_comment''
               (repo_args owner repo @ [(''issue_number'', JInt pr_number), (''body'', JStr body)])) (\<lambda>_.
           io_bind (verify_pr_comment ou base_repo pr_number marker) (\<lambda>found.
             if found then io_ret (verified kind []) else io_fail ''GitHub PR comment could not be verified.''))))
      else if kind = ''close_pr'' then
        io_bind (io_res (split_repo base_repo)) (\<lambda>(owner, repo).
          io_bind (execute_tool ou ''mcp.github.update_pull_request''
              (repo_args owner repo @ [(''pullNumber'', JInt pr_number), (''state'', JStr ''closed'')])) (\<lambda>_.
          io_bind (ou_get_pr ou owner repo pr_number) (\<lambda>pr.
            let state = lower (str_or_empty (dget pr ''state'')) in
            if state \<noteq> ''closed'' then
              io_fail (''GitHub PR close could not be verified; state='' @ first_nonempty [state, ''unknown''] @ ''.'')
            else io_ret (verified kind [(''state'', JStr state)]))))
      else if kind = ''update_branch'' then
        plain_tool_action ou kind ''mcp.github.update_pull_request_branch'' base_repo pr_number
      else if kind = ''request_review'' then
        plain_tool_action ou kind ''mcp.github.request_copilot_review'' base_repo pr_number
      else if kind = ''merge_pr'' then
        io_bind (io_res (split_repo base_repo)) (\<lambda>(owner, repo).
          io_bind (ou_get_pr ou owner repo pr_number) (\<lambda>pr.
          io_bind (ou_merge ou (normalize_pull_request_metadata [] base_repo [] pr)) (\<lambda>result.
            if \<not> truthy (dget result ''merged'') then
              io_fail (py_str (py_or (dget_or result [''reason'', ''error'']) (JStr ''GitHub PR merge was not verified.'')))
            else io_ret (verified kind [(''result'', JObj result)]))))
      else if kind = ''delete_branch'' then
        io_bind (io_res (split_repo base_repo)) (\<lambda>(owner, repo).
          io_bind (ou_get_pr ou owner repo pr_number) (\<lambda>pr.
          io_bind (ou_delete_branch ou (normalize_pull_request_metadata [] base_repo [] pr)) (\<lambda>result.
            if \<not> truthy (dget result ''deleted'') then
              io_fail (py_str (py_or (dget_or result [''error'', ''reason''])
                (JStr ''Remote branch deletion was not verified.'')))
            else io_ret (verified kind [(''result'', JObj result)]))))
      else if kind = ''post_linear_summary'' then
        io_bind (ou_linear_comment ou (dget target ''identifier'') (nonempty (dget payload ''body''))) (\<lambda>warning.
              let message = (case warning of Some m \<Rightarrow> m | None \<Rightarrow> []) in
              if message \<noteq> [] then io_fail message
              else if marker = [] then io_ret (verified kind [])
              else io_bind (ou_linear_marker ou (dget target ''identifier'') marker) (\<lambda>found.
                if found then io_ret (verified kind []) else io_fail ''Linear summary comment could not be verified.''))
      else io_fail (''Unsupported approved action: '' @ kind))"

definition execute_approved_action :: "string \<Rightarrow> 'w outside \<Rightarrow> approval_row \<Rightarrow> ('w, json) io" where
  "execute_approved_action cfg_slug ou row =
     (let target = obj_of (a_target row);
          base_repo = first_nonempty [str_or_empty (dget target ''base_repo''), cfg_slug]
      in case (if truthy (dget target ''pr_number'') then json_int (dget target ''pr_number'') else Some 0) of
           None \<Rightarrow> io_res (Inl (ValueError []))
         | Some pr_number \<Rightarrow> io_bind (ou_connect ou) (\<lambda>_.
             run_action ou (a_action_type row) target (obj_of (a_payload row))
               (case a_verification_marker row of Some m \<Rightarrow> m | None \<Rightarrow> []) base_repo pr_number))"

definition settle_action :: "int \<Rightarrow> string \<Rightarrow> 'w outside \<Rightarrow> approval_row \<Rightarrow> db \<times> 'w \<Rightarrow> approval_row option \<times> db \<times> 'w" where
  "settle_action now cfg_slug ou row dw =
     (case execute_approved_action cfg_slug ou row (snd dw) of
        (Inr result, w) \<Rightarrow>
          (case mark_external_action_executed now (a_approval_id row) result (fst dw) of (r, d) \<Rightarrow> (r, d, w))
      | (Inl e, w) \<Rightarrow>
          (case mark_external_action_failed now (a_approval_id row) (err_text e) JNull (fst dw) of (r, d) \<Rightarrow> (r, d, w)))"

fun settle_actions ::
  "int \<Rightarrow> string \<Rightarrow> 'w outside \<Rightarrow> approval_row list \<Rightarrow> db \<times> 'w \<Rightarrow> approval_row option list \<times> db \<times> 'w" where
  "settle_actions now cfg_slug ou [] dw = ([], dw)"
| "settle_actions now cfg_slug ou (row # rows) dw =
     (let (r, dw1) = settle_action now cfg_slug ou row dw;
          (rs, dw2) = settle_actions now cfg_slug ou rows dw1
      in (r # rs, dw2))"

record execution_report =
  er_results :: "approval_row option list"
  er_failed_count :: nat
  er_pending_count :: nat
  er_complete :: bool

definition approved_batch :: "string \<Rightarrow> db \<Rightarrow> approval_row list" where
  "approved_batch run_id d =
     order_asc a_created_at (list_external_action_approvals (Some run_id) (Some ''approved'') 250 d)"

definition execute_approved_actions ::
  "int \<Rightarrow> string \<Rightarrow> 'w outside \<Rightarrow> string \<Rightarrow> db \<times> 'w \<Rightarrow> execution_report \<times> db \<times> 'w" where
  "execute_approved_actions now cfg_slug ou run_id dw =
     (let (results, d, w) = settle_actions now cfg_slug ou (approved_batch run_id (fst dw)) dw;
          pending = list_external_action_approvals (Some run_id) (Some ''pending'') 250 d;
          failed = list_external_action_approvals (Some run_id) (Some ''failed'') 250 d;
          executed = list_external_action_approvals (Some run_id) (Some ''executed'') 250 d
      in (\<lparr>er_results = results, er_failed_count = length failed, er_pending_count = length pending,
           er_complete = (pending = [] \<and> failed = [] \<and> executed \<noteq> [])\<rparr>, d, w))"

section \<open>Lemmas\<close>

lemma io_bind_Inr:
  "io_bind m f w = (Inr v, w') \<longleftrightarrow> (\<exists>x w1. m w = (Inr x, w1) \<and> f x w1 = (Inr v, w'))"
  by (auto simp: io_bind_def split: prod.splits sum.splits)

lemma io_simps [simp]:
  "io_ret x w = (Inr v, w') \<longleftrightarrow> v = x \<and> w' = w"
  "io_fail s w = (r, w') \<longleftrightarrow> r = Inl (RuntimeError s) \<and> w' = w"
  "io_res r w = (r', w') \<longleftrightarrow> r' = r \<and> w' = w"
  by (auto simp: io_ret_def io_fail_def io_res_def)

text \<open>An action that returns was verified.\<close>

lemma run_action_verified:
  assumes "run_action ou kind target payload marker base_repo n w = (Inr v, w')"
  shows "\<exists>extra. v = verified kind extra"
proof -
  have plain: "\<exists>extra. v = verified kind extra" if "plain_tool_action ou kind tool base_repo n w = (Inr v, w')" for tool
    using that by (auto simp: plain_tool_action_def io_bind_Inr)
  consider "kind = ''comment_pr''" | "kind = ''close_pr''" | "kind = ''update_branch''" | "kind = ''request_review''"
    | "kind = ''merge_pr''" | "kind = ''delete_branch''" | "kind = ''post_linear_summary''"
    | "kind \<notin> set WRITE_ACTIONS" by (auto simp: WRITE_ACTIONS_def)
  then show ?thesis
  proof cases
    case 1
    then show ?thesis using assms by (auto simp: run_action_def Let_def io_bind_Inr split: if_splits)
  next
    case 2
    then show ?thesis using assms by (auto simp: run_action_def Let_def io_bind_Inr split: if_splits)
  next
    case 3
    then show ?thesis using assms plain by (simp add: run_action_def)
  next
    case 4
    then show ?thesis using assms plain by (simp add: run_action_def)
  next
    case 5
    then show ?thesis using assms by (auto simp: run_action_def Let_def io_bind_Inr split: if_splits)
  next
    case 6
    then show ?thesis using assms by (auto simp: run_action_def Let_def io_bind_Inr split: if_splits)
  next
    case 7
    then show ?thesis using assms by (auto simp: run_action_def Let_def io_bind_Inr split: if_splits)
  next
    case 8
    then show ?thesis using assms by (simp add: run_action_def WRITE_ACTIONS_def)
  qed
qed

lemma execute_verified:
  "execute_approved_action slug ou row w = (Inr v, w') \<Longrightarrow> \<exists>extra. v = verified (a_action_type row) extra"
  by (auto simp: execute_approved_action_def Let_def io_bind_Inr split: option.splits dest!: run_action_verified)

definition settled :: "approval_row \<Rightarrow> approval_row \<Rightarrow> bool" where
  "settled r r' \<longleftrightarrow> (a_status r' = ''executed'' \<and> (\<exists>extra. a_result r' = stored_json (verified (a_action_type r) extra)))
     \<or> (a_status r' = ''failed'' \<and> a_error r' \<noteq> None)"

abbreviation approval_row_at :: "string \<Rightarrow> approval_row list \<Rightarrow> approval_row option" where
  "approval_row_at i rows \<equiv> row_by a_approval_id i rows"

abbreviation approval_at :: "string \<Rightarrow> db \<Rightarrow> approval_row option" where
  "approval_at i d \<equiv> row_by a_approval_id i (db_approvals d)"

lemma executed_row_at:
  "approval_row_at i (upd_where (\<lambda>r. a_approval_id r = j) (executed now s res err) rows) =
     (if i = j then map_option (executed now s res err) (approval_row_at j rows) else approval_row_at i rows)"
  unfolding executed.row_by_update by (cases "approval_row_at i rows") (auto dest: row_by_SomeD)

lemma settle_action_row:
  assumes "settle_action now slug ou row (d, w) = (r, d', w')"
  shows "(i \<noteq> a_approval_id row \<longrightarrow> approval_at i d' = approval_at i d)
    \<and> (approval_at (a_approval_id row) d \<noteq> None \<longrightarrow>
        (\<exists>r'. approval_at (a_approval_id row) d' = Some r' \<and> settled row r'))"
proof (cases "execute_approved_action slug ou row w")
  case (Pair res w1)
  show ?thesis
  proof (cases res)
    case (Inl e)
    with assms Pair have d': "db_approvals d' = upd_where (\<lambda>r. a_approval_id r = a_approval_id row)
        (executed now ''failed'' (py_or JNull (JObj [])) (Some (err_text e))) (db_approvals d)"
      by (auto simp: settle_action_def mark_external_action_failed_def Let_def)
    show ?thesis unfolding d' executed_row_at by (auto simp: executed_def settled_def)
  next
    case (Inr v)
    with Pair have "execute_approved_action slug ou row w = (Inr v, w1)" by simp
    from execute_verified [OF this] obtain extra where v: "v = verified (a_action_type row) extra" by blast
    with assms Pair Inr have d': "db_approvals d' = upd_where (\<lambda>r. a_approval_id r = a_approval_id row)
        (executed now ''executed'' v None) (db_approvals d)"
      by (auto simp: settle_action_def mark_external_action_executed_def Let_def)
    show ?thesis unfolding d' executed_row_at by (auto simp: executed_def settled_def v)
  qed
qed

lemma settle_actions_rows:
  "settle_actions now slug ou rows (d, w) = (rs, d', w') \<Longrightarrow> distinct (map a_approval_id rows) \<Longrightarrow>
     (\<forall>r\<in>set rows. approval_at (a_approval_id r) d \<noteq> None) \<Longrightarrow>
     (\<forall>i. i \<notin> a_approval_id ` set rows \<longrightarrow> approval_at i d' = approval_at i d)
     \<and> (\<forall>r\<in>set rows. \<exists>r'. approval_at (a_approval_id r) d' = Some r' \<and> settled r r')"
proof (induction rows arbitrary: d w rs)
  case (Cons row rows)
  obtain r d1 w1 where one: "settle_action now slug ou row (d, w) = (r, d1, w1)"
    by (cases "settle_action now slug ou row (d, w)") auto
  obtain rs1 where rest: "settle_actions now slug ou rows (d1, w1) = (rs1, d', w')"
    using Cons.prems(1) one by (auto split: prod.splits)
  note s = settle_action_row [OF one]
  have there: "\<forall>r\<in>set rows. approval_at (a_approval_id r) d1 \<noteq> None"
  proof
    fix r assume r: "r \<in> set rows"
    then have "a_approval_id r \<noteq> a_approval_id row" using Cons.prems(2) by (metis distinct.simps(2) image_eqI list.simps(9) set_map)
    then show "approval_at (a_approval_id r) d1 \<noteq> None" using Cons.prems(3) r s by auto
  qed
  note IH = Cons.IH [OF rest _ there]
  have notin: "a_approval_id row \<notin> a_approval_id ` set rows" using Cons.prems(2) by simp
  have "approval_at (a_approval_id row) d' = approval_at (a_approval_id row) d1"
    using IH Cons.prems(2) notin by simp
  then show ?case using IH s Cons.prems(2,3) by auto
qed simp

lemma approved_batch_iff:
  "r \<in> set (approved_batch run_id d) \<Longrightarrow> run_id \<noteq> [] \<Longrightarrow>
     r \<in> set (db_approvals d) \<and> a_run_id r = run_id \<and> a_status r = ''approved''"
  by (auto simp: approved_batch_def list_external_action_approvals_def text_arg_def dest!: in_set_takeD)

lemma approved_batch_distinct:
  assumes "schema_ok d"
  shows "distinct (map a_approval_id (approved_batch run_id d))"
proof -
  have "distinct (map a_approval_id (db_approvals d))"
    using assms by (simp add: schema_ok_def approvals_ok_def keys_ok_def)
  then have inj: "inj_on a_approval_id (set (db_approvals d))" "distinct (db_approvals d)"
    by (simp_all add: distinct_map)
  have "distinct (approved_batch run_id d)" "set (approved_batch run_id d) \<subseteq> set (db_approvals d)"
    using inj(2) by (auto simp: approved_batch_def list_external_action_approvals_def order_asc_def order_desc_def
        dest!: in_set_takeD intro!: distinct_take)
  then show ?thesis using inj(1) by (simp add: distinct_map inj_on_subset)
qed

lemma listed_Nil:
  "run_id \<noteq> [] \<Longrightarrow> st \<noteq> [] \<Longrightarrow>
     list_external_action_approvals (Some run_id) (Some st) 250 d = [] \<longleftrightarrow>
     \<not> (\<exists>r\<in>set (db_approvals d). a_run_id r = run_id \<and> a_status r = st)"
proof -
  have "take (nat (max 1 (int_or 250 1))) xs = [] \<longleftrightarrow> xs = []" for xs :: "'a list"
    by (simp add: int_or_def)
  moreover have "order_desc a_created_at xs = [] \<longleftrightarrow> xs = []" for xs
    using length_order_desc [of a_created_at xs] by (metis length_0_conv)
  ultimately show "run_id \<noteq> [] \<Longrightarrow> st \<noteq> [] \<Longrightarrow> ?thesis"
    unfolding list_external_action_approvals_def by (auto simp: text_arg_def filter_empty_conv)
qed

lemma approved_batch_all:
  assumes "length (filter (\<lambda>r. a_run_id r = run_id \<and> a_status r = ''approved'') (db_approvals d)) \<le> 250"
    and "run_id \<noteq> []" "r \<in> set (db_approvals d)" "a_run_id r = run_id" "a_status r = ''approved''"
  shows "r \<in> set (approved_batch run_id d)"
proof -
  let ?rows = "filter (\<lambda>r. a_run_id r = run_id \<and> a_status r = ''approved'') (db_approvals d)"
  have "take (nat (max 1 (int_or 250 1))) (order_desc a_created_at ?rows) = order_desc a_created_at ?rows"
    using assms(1) by (simp add: int_or_def)
  then show ?thesis using assms
    by (auto simp: approved_batch_def list_external_action_approvals_def text_arg_def conj_commute)
qed

lemma planned_action:
  "a \<in> set (default_action_plan run_id task contexts) \<Longrightarrow> dget a ''action_type'' = JStr ''close_pr'' \<Longrightarrow>
     \<exists>pr\<in>set contexts. a \<in> set (pr_actions run_id task pr)"
  by (auto simp: default_action_plan_def action_def Let_def)

definition plans_close :: "obj list \<Rightarrow> int \<Rightarrow> bool" where
  "plans_close plan n \<longleftrightarrow> (\<exists>a\<in>set plan. dget a ''action_type'' = JStr ''close_pr''
     \<and> dget (obj_of (dget a ''target'')) ''pr_number'' = JInt n)"

lemma pr_actions_close:
  "plans_close (pr_actions run_id task pr) n \<longleftrightarrow> pr_number_of pr = n \<and> 0 < n \<and> close_requested task n"
  by (auto simp: plans_close_def pr_actions_def action_def Let_def)

lemma plans_close_append [simp]: "plans_close (xs @ ys) n \<longleftrightarrow> plans_close xs n \<or> plans_close ys n"
  by (auto simp: plans_close_def)

lemma plans_close_concat: "plans_close (concat (map f xs)) n \<longleftrightarrow> (\<exists>x\<in>set xs. plans_close (f x) n)"
  by (auto simp: plans_close_def)

lemma plans_close_summary: "\<not> plans_close [action ''post_linear_summary'' t p r m] n"
  by (simp add: plans_close_def action_def)

section \<open>Properties\<close>

text \<open>C37. Executing a run's approved actions settles the whole batch it read and nothing else: every
  other approval row is as before, every row of the batch ends executed with a result that says it was
  verified, or failed with an error, and a report that says complete means that the run has an executed
  action and none pending or failed. The batch is every approved action of the run when at most 250 are.\<close>

theorem execution_settles_the_batch:
  assumes "schema_ok d" "run_id \<noteq> []"
    and "execute_approved_actions now slug ou run_id (d, w) = (report, d', w')"
  shows "(\<forall>i. i \<notin> a_approval_id ` set (approved_batch run_id d) \<longrightarrow> approval_at i d' = approval_at i d)
    \<and> (\<forall>r\<in>set (approved_batch run_id d). \<exists>r'. approval_at (a_approval_id r) d' = Some r' \<and> settled r r')
    \<and> (er_complete report \<longleftrightarrow>
         (\<exists>r\<in>set (db_approvals d'). a_run_id r = run_id \<and> a_status r = ''executed'')
         \<and> (\<forall>r\<in>set (db_approvals d'). a_run_id r = run_id \<longrightarrow> a_status r \<notin> {''pending'', ''failed''}))
    \<and> (length (filter (\<lambda>r. a_run_id r = run_id \<and> a_status r = ''approved'') (db_approvals d)) \<le> 250 \<longrightarrow>
         set (approved_batch run_id d) = {r \<in> set (db_approvals d). a_run_id r = run_id \<and> a_status r = ''approved''})"
proof -
  obtain rs where run: "settle_actions now slug ou (approved_batch run_id d) (d, w) = (rs, d', w')"
    and complete: "er_complete report \<longleftrightarrow>
        list_external_action_approvals (Some run_id) (Some ''pending'') 250 d' = []
      \<and> list_external_action_approvals (Some run_id) (Some ''failed'') 250 d' = []
      \<and> list_external_action_approvals (Some run_id) (Some ''executed'') 250 d' \<noteq> []"
    using assms(3) by (auto simp: execute_approved_actions_def Let_def split: prod.splits)
  have there: "\<forall>r\<in>set (approved_batch run_id d). approval_at (a_approval_id r) d \<noteq> None"
  proof
    fix r assume "r \<in> set (approved_batch run_id d)"
    then have "r \<in> set (db_approvals d)" using approved_batch_iff [OF _ assms(2)] by simp
    then show "approval_at (a_approval_id r) d \<noteq> None" by (auto simp: row_by_None_iff has_key_def list_ex_iff)
  qed
  note rows = settle_actions_rows [OF run approved_batch_distinct [OF assms(1)] there]
  have whole: "set (approved_batch run_id d) = {r \<in> set (db_approvals d). a_run_id r = run_id \<and> a_status r = ''approved''}"
    if "length (filter (\<lambda>r. a_run_id r = run_id \<and> a_status r = ''approved'') (db_approvals d)) \<le> 250"
    using approved_batch_all [OF that assms(2)] approved_batch_iff [OF _ assms(2)] by blast
  show ?thesis using rows whole unfolding complete by (simp add: listed_Nil assms(2)) blast
qed

text \<open>A run with one approved comment, and a GitHub that stores and returns it.\<close>

definition demo_pr_actions :: db where
  "demo_pr_actions = run_approval_ops
     [(1, Request \<lparr>aq_run_id = ''r1'', aq_task_id = ''T1'', aq_source_type = ''linear'', aq_adapter = ''github_pr'',
         aq_action_type = ''comment_pr'', aq_target = JObj [(''pr_number'', JInt 7), (''base_repo'', JStr ''a/b'')],
         aq_payload = JObj [(''body'', JStr ''hi m'')], aq_risk_level = ''medium'', aq_marker = ''m'',
         aq_requested_by = ''aca'', aq_expires_at = None, aq_dedupe_key = Some ''k''\<rparr> ''00000001''),
      (2, Decide ''approval-act00000001'' ''approve'' ''ana'' ''ok'')] empty_db"

definition demo_github :: "json list outside" where
  "demo_github = \<lparr>
     ou_tool = (\<lambda>tool args bodies. if tool = ''mcp.github.add_issue_comment''
       then (Inr [], JObj [(''body'', dget args ''body'')] # bodies)
       else (Inr [(''metadata'', JObj [(''comments'', JList bodies)])], bodies)),
     ou_connect = (\<lambda>w. (Inr [], w)), ou_get_pr = (\<lambda>_ _ _ w. (Inr [], w)), ou_merge = (\<lambda>_ w. (Inr [], w)),
     ou_delete_branch = (\<lambda>_ w. (Inr [], w)), ou_linear_comment = (\<lambda>_ _ w. (Inr None, w)),
     ou_linear_marker = (\<lambda>_ _ w. (Inr True, w))\<rparr>"

lemma demo_pr_actions_ok: "schema_ok demo_pr_actions"
  unfolding demo_pr_actions_def run_approval_ops.simps by (intro schema_ok_approval_op schema_ok_empty)

definition demo_execution :: "execution_report \<times> db \<times> json list" where
  "demo_execution = execute_approved_actions 3 [] demo_github ''r1'' (demo_pr_actions, [])"

lemma demo_execution_complete: "er_complete (fst demo_execution)"
  by code_simp

lemma execution_settles_the_batch_witness:
  "\<exists>r\<in>set (db_approvals (fst (snd demo_execution))). a_run_id r = ''r1'' \<and> a_status r = ''executed''"
proof -
  obtain report d' w' where run: "demo_execution = (report, d', w')" by (cases demo_execution) auto
  then have "execute_approved_actions 3 [] demo_github ''r1'' (demo_pr_actions, []) = (report, d', w')"
    by (simp add: demo_execution_def)
  note C = execution_settles_the_batch [OF demo_pr_actions_ok _ this]
  have "er_complete report" using demo_execution_complete unfolding run by simp
  then show ?thesis using C by (simp add: run)
qed

text \<open>C38. The default plan closes pull request n exactly when n is positive and referenced and the task
  opts in: closing is allowed and the numbers that can be read from its list are none at all, or contain n.
  A list whose every entry is unreadable so allows every referenced pull request to be closed.\<close>

theorem default_plan_closes_exactly:
  "plans_close (default_action_plan run_id task contexts) n \<longleftrightarrow>
     0 < n \<and> n \<in> pr_number_of ` set contexts \<and>
     (\<exists>policy. dget task ''external_action'' = JObj policy \<and> truthy (dget policy ''allow_close_pr'') \<and>
        (set (List.map_filter json_int (list_of (dget policy ''close_pr_numbers''))) = {}
         \<or> n \<in> set (List.map_filter json_int (list_of (dget policy ''close_pr_numbers'')))))"
  by (auto simp: default_action_plan_def Let_def plans_close_concat plans_close_summary pr_actions_close
      close_requested_def close_opt_in_def split: json.splits)

end
