(* ===== verification/RunState.thy ===== *)
theory RunState imports PyDynamic begin

text \<open>
  The files of a run (src/tandem_agents/runtime/runstate.py and run_output.py): the documents
  \<open>status.json\<close> and \<open>blackboard.yaml\<close> a run starts with, the updates of the status, the append-only
  event log, the blackboard as Markdown, and the summaries. A file is the value its text encodes, except
  the event log, which is the list of its lines. An operation reads the clock once, as \<open>now\<close>. Mirroring
  to the artifact store and broadcasting to the user interface are outside the model.
\<close>

section \<open>Reading with a default\<close>

text \<open>\<open>d.get(key, default)\<close>: unlike \<open>d.get(key) or default\<close>, a present null stays null.\<close>

definition dget_def :: "obj \<Rightarrow> string \<Rightarrow> json \<Rightarrow> json" where
  "dget_def d k v = (if dhas d k then dget d k else v)"

definition field_str :: "obj \<Rightarrow> string \<Rightarrow> string \<Rightarrow> string" where
  "field_str d k text0 = py_str (dget_def d k (JStr text0))"

text \<open>\<open>_as_list\<close>: a single value is a list of one.\<close>

definition value_list :: "json \<Rightarrow> json list" where
  "value_list v = (case v of JNull \<Rightarrow> [] | JList xs \<Rightarrow> xs
    | JStr s \<Rightarrow> (if s = [] then [] else [v]) | JObj kvs \<Rightarrow> (if kvs = [] then [] else [v]) | _ \<Rightarrow> [v])"

definition stripped_entries :: "json \<Rightarrow> string list" where
  "stripped_entries v = filter (\<lambda>s. s \<noteq> []) (map (\<lambda>x. strip (py_str x)) (value_list v))"

section \<open>The status document\<close>

definition run_file_names :: "(string \<times> string) list" where
  "run_file_names = [(''status_json'', ''status.json''), (''events_jsonl'', ''events.jsonl''),
     (''summary_md'', ''summary.md''), (''board_yaml'', ''board.yaml''), (''blackboard_yaml'', ''blackboard.yaml''),
     (''logs_dir'', ''logs''), (''worktrees_dir'', ''worktrees''), (''diffs_dir'', ''diffs'')]"

definition initial_status ::
  "int \<Rightarrow> string \<Rightarrow> obj \<Rightarrow> obj \<Rightarrow> obj \<Rightarrow> obj \<Rightarrow> obj \<Rightarrow> string \<Rightarrow> obj" where
  "initial_status now run_id task repo engine provider swarm run_dir =
     [(''run'', JObj [(''run_id'', JStr run_id), (''status'', JStr ''created''), (''created_at_ms'', JInt now),
        (''updated_at_ms'', JInt now), (''started_at_ms'', JNull), (''completed_at_ms'', JNull),
        (''owner'', JNull), (''source'', JNull)]),
      (''task'', JObj task), (''repo'', JObj repo), (''engine'', JObj engine), (''provider'', JObj provider),
      (''swarm'', JObj swarm),
      (''phase'', JObj [(''name'', JStr ''bootstrap''), (''updated_at_ms'', JInt now), (''detail'', JNull), (''role'', JNull)]),
      (''blocker'', JObj [(''active'', JBool False), (''kind'', JNull), (''message'', JNull), (''owner_role'', JNull)]),
      (''artifacts'', JObj ((''run_dir'', JStr run_dir)
         # map (\<lambda>(k, f). (k, JStr (run_dir @ ''/'' @ f))) run_file_names)),
      (''timestamps'', JObj [(''created_at_ms'', JInt now), (''updated_at_ms'', JInt now), (''started_at_ms'', JNull),
         (''completed_at_ms'', JNull)]),
      (''metrics'', JObj [(''planned_workers'', JInt 0), (''completed_workers'', JInt 0), (''failed_workers'', JInt 0),
         (''skipped_workers'', JInt 0), (''tolerated_workers'', JInt 0), (''tests_passed'', JNull)])]"

text \<open>
  The changes \<open>set_status\<close> can ask for. A \<open>blocker\<close> is the four fields active, kind, message and owner.
  The run and the other sections of the document are objects, as \<open>initial_status\<close> writes them.
\<close>

record status_changes =
  sg_phase :: "string option"
  sg_phase_detail :: "string option"
  sg_phase_role :: "string option"
  sg_run_status :: "string option"
  sg_blocker :: "(bool \<times> string option \<times> string option \<times> string option) option"
  sg_metrics :: "obj option"
  sg_run_started :: bool
  sg_run_completed :: bool

definition no_status_changes :: status_changes where
  "no_status_changes = \<lparr>sg_phase = None, sg_phase_detail = None, sg_phase_role = None, sg_run_status = None,
     sg_blocker = None, sg_metrics = None, sg_run_started = False, sg_run_completed = False\<rparr>"

definition section_of :: "obj \<Rightarrow> string \<Rightarrow> obj" where
  "section_of status k = obj_of (dget status k)"

definition put_opt :: "string \<Rightarrow> string option \<Rightarrow> obj \<Rightarrow> obj" where
  "put_opt k x d = (case x of Some v \<Rightarrow> dset k (JStr v) d | None \<Rightarrow> d)"

definition put_if :: "bool \<Rightarrow> string \<Rightarrow> json \<Rightarrow> obj \<Rightarrow> obj" where
  "put_if b k v d = (if b then dset k v d else d)"

definition updated_run :: "int \<Rightarrow> status_changes \<Rightarrow> obj \<Rightarrow> obj" where
  "updated_run now c run =
     dset ''updated_at_ms'' (JInt now)
       (put_if (sg_run_completed c) ''completed_at_ms'' (JInt now)
         (put_if (sg_run_started c) ''started_at_ms'' (py_or (dget run ''started_at_ms'') (JInt now))
           (put_opt ''status'' (sg_run_status c) run)))"

definition updated_timestamps :: "int \<Rightarrow> status_changes \<Rightarrow> obj \<Rightarrow> obj" where
  "updated_timestamps now c ts =
     dset ''updated_at_ms'' (JInt now)
       (put_if (sg_run_completed c) ''completed_at_ms'' (JInt now)
         (put_if (sg_run_started c) ''started_at_ms'' (py_or (dget ts ''started_at_ms'') (JInt now)) ts))"

definition updated_phase :: "int \<Rightarrow> status_changes \<Rightarrow> obj \<Rightarrow> obj" where
  "updated_phase now c phase =
     (let p = put_opt ''role'' (sg_phase_role c) (put_opt ''detail'' (sg_phase_detail c) (put_opt ''name'' (sg_phase c) phase))
      in put_if (sg_phase c \<noteq> None \<or> sg_phase_detail c \<noteq> None \<or> sg_phase_role c \<noteq> None) ''updated_at_ms'' (JInt now) p)"

definition updated_blocker :: "status_changes \<Rightarrow> obj \<Rightarrow> obj" where
  "updated_blocker c b =
     (case sg_blocker c of
        None \<Rightarrow> b
      | Some (is_active, kind, message, owner) \<Rightarrow>
          dset ''owner_role'' (opt_str owner) (dset ''message'' (opt_str message) (dset ''kind'' (opt_str kind)
            (dset ''active'' (JBool is_active) b))))"

definition update_status :: "int \<Rightarrow> status_changes \<Rightarrow> obj \<Rightarrow> obj" where
  "update_status now c status =
     dset ''metrics'' (JObj (case sg_metrics c of Some m \<Rightarrow> dupdate (section_of status ''metrics'') m
                             | None \<Rightarrow> section_of status ''metrics''))
       (dset ''blocker'' (JObj (updated_blocker c (section_of status ''blocker'')))
         (dset ''phase'' (JObj (updated_phase now c (section_of status ''phase'')))
           (dset ''timestamps'' (JObj (updated_timestamps now c (section_of status ''timestamps'')))
             (dset ''run'' (JObj (updated_run now c (section_of status ''run''))) status))))"

section \<open>The event log\<close>

definition event_obj ::
  "int \<Rightarrow> string \<Rightarrow> int \<Rightarrow> string \<Rightarrow> string \<Rightarrow> obj \<Rightarrow> string option \<Rightarrow> string option \<Rightarrow> obj option \<Rightarrow> obj" where
  "event_obj seq kind now iso_now run_id payload task_id role repo =
     [(''seq'', JInt seq), (''type'', JStr kind), (''timestamp_ms'', JInt now), (''timestamp'', JStr iso_now),
      (''run_id'', JStr run_id)]
     @ (case task_id of Some t \<Rightarrow> [(''task_id'', JStr t)] | None \<Rightarrow> [])
     @ (case role of Some r \<Rightarrow> [(''role'', JStr r)] | None \<Rightarrow> [])
     @ (case repo of Some r \<Rightarrow> [(''repo'', JObj r)] | None \<Rightarrow> [])
     @ (if payload \<noteq> [] then [(''payload'', JObj payload)] else [])"

text \<open>
  The next sequence number: one more than the number in the last line, and the number of lines plus one
  when the last line is not an object with an integer there. The log has numbers only where the program
  wrote them, so a float never stands there.
\<close>

definition next_seq :: "string list \<Rightarrow> int" where
  "next_seq lines =
     (if lines = [] then 1
      else case loads (last lines) of
        Some (JObj e) \<Rightarrow>
          (case dget_def e ''seq'' (JInt 0) of JInt i \<Rightarrow> i + 1 | JBool b \<Rightarrow> (if b then 2 else 1)
           | _ \<Rightarrow> int (length lines) + 1)
      | _ \<Rightarrow> int (length lines) + 1)"

definition append_event ::
  "int \<Rightarrow> string \<Rightarrow> string \<Rightarrow> string \<Rightarrow> obj \<Rightarrow> string option \<Rightarrow> string option \<Rightarrow> obj option \<Rightarrow> string list
   \<Rightarrow> obj \<times> string list" where
  "append_event now iso_now kind run_id payload task_id role repo lines =
     (let e = event_obj (next_seq lines) kind now iso_now run_id payload task_id role repo
      in (e, lines @ [dumps_spaced (JObj e)]))"

section \<open>The blackboard\<close>

definition str_entries :: "obj \<Rightarrow> string \<Rightarrow> json" where
  "str_entries d k = JList (map JStr (stripped_entries (dget d k)))"

definition initial_blackboard :: "int \<Rightarrow> string \<Rightarrow> obj \<Rightarrow> obj \<Rightarrow> obj \<Rightarrow> obj \<Rightarrow> obj \<Rightarrow> obj" where
  "initial_blackboard now run_id task repo provider engine swarm =
     [(''run_id'', JStr run_id), (''task'', JObj task), (''repo'', JObj repo), (''provider'', JObj provider),
      (''engine'', JObj engine), (''swarm'', JObj swarm),
      (''task_contract'', py_or (dget task ''task_contract'') (JObj [])),
      (''program_goal'', py_or (dget task ''program_goal'') JNull),
      (''local_goal'', py_or (dget task ''local_goal'') JNull),
      (''dependency_status'', py_or (dget task ''dependency_status'') (JObj [])),
      (''contract_completeness'', py_or (dget task ''contract_completeness'') (JObj [])),
      (''verification_plan'', JObj [(''commands'', str_entries task ''verification_commands'')]),
      (''expected_deliverables'', JObj [(''deliverables'', str_entries task ''deliverables''),
        (''target_files'', str_entries task ''target_files''),
        (''acceptance_criteria'', str_entries task ''acceptance_criteria'')]),
      (''manager_plan'', JNull), (''subtasks'', JList []), (''workers'', JList []), (''blockers'', JList []),
      (''notes'', JList []), (''artifacts'', JList []), (''updated_at_ms'', JInt now)]"

text \<open>\<open>save_blackboard\<close>: the copy on disk carries the time, the value in memory does not.\<close>

definition saved_blackboard :: "int \<Rightarrow> obj \<Rightarrow> obj" where
  "saved_blackboard now b = dset ''updated_at_ms'' (JInt now) b"

subsection \<open>As Markdown\<close>

definition inline_items :: "json \<Rightarrow> string" where
  "inline_items v = (let items = stripped_entries v in
     if items = [] then ''_none_'' else join '', '' (map ticked items))"

text \<open>\<open>contract.get(key) or task.get(key) or []\<close>.\<close>

definition either_list :: "json \<Rightarrow> json \<Rightarrow> json" where
  "either_list a b = py_or a (py_or b (JList []))"

definition line_if :: "string \<Rightarrow> string \<Rightarrow> string list" where
  "line_if label v = (if v = [] then [] else [label @ v])"

definition contract_lines :: "obj \<Rightarrow> string list" where
  "contract_lines bb =
     (let task = obj_of (dget bb ''task''); tc = obj_of (dget bb ''task_contract'');
          item = (\<lambda>k. inline_items (either_list (dget tc k) (dget task k)))
      in if tc = [] \<and> \<not> truthy (dget bb ''program_goal'') \<and> \<not> truthy (dget bb ''local_goal'') then []
         else [''## Task Contract'']
           @ line_if ''- Program goal: '' (nonempty (py_or (dget bb ''program_goal'') (dget tc ''program_goal'')))
           @ line_if ''- Local goal: '' (nonempty (py_or (dget bb ''local_goal'') (dget tc ''local_goal'')))
           @ [''- In scope: '' @ item ''in_scope'', ''- Out of scope: '' @ item ''out_of_scope'',
              ''- Dependencies: '' @ item ''dependencies'', ''- Deliverables: '' @ item ''deliverables'',
              ''- Target files: '' @ item ''target_files'',
              ''- Verification commands: '' @ inline_items (either_list
                 (dget (section_of bb ''verification_plan'') ''commands'') (dget task ''verification_commands'')),
              ''- Acceptance criteria: '' @ item ''acceptance_criteria'']
           @ line_if ''- Notes for agent: '' (nonempty (py_or (dget tc ''notes_for_agent'') (dget task ''notes_for_agent'')))
           @ [[]])"

definition dependency_lines :: "obj \<Rightarrow> string list" where
  "dependency_lines bb =
     (let ds = section_of bb ''dependency_status'';
          names = (\<lambda>k. JList (map (\<lambda>i. dget (obj_of i) ''dependency'') (list_of (dget ds k))))
      in if ds = [] then []
         else [''## Dependency Status'', ''- Declared: '' @ inline_items (py_or (dget ds ''declared'') (JList [])),
               ''- Resolved: '' @ inline_items (names ''resolved''), ''- Unresolved: '' @ inline_items (names ''unresolved''),
               ''- Blocked: '' @ ticked (py_str (dget_def ds ''blocked'' (JBool False)))]
           @ line_if ''- Reason: '' (nonempty (dget ds ''blocked_reason'')) @ [[]])"

definition verification_plan_lines :: "obj \<Rightarrow> string list" where
  "verification_plan_lines bb =
     (let vp = section_of bb ''verification_plan''; ed = section_of bb ''expected_deliverables'';
          item = (\<lambda>d k. inline_items (py_or (dget d k) (JList [])))
      in if vp = [] then []
         else [''## Verification Plan'', ''- Commands: '' @ item vp ''commands'',
               ''- Expected deliverables: '' @ item ed ''deliverables'', ''- Expected files: '' @ item ed ''target_files'', []])"

definition counted_section :: "string \<Rightarrow> string list \<Rightarrow> string list" where
  "counted_section title entries =
     (''## '' @ title @ '' ('' @ nat_str (length entries) @ '')'')
     # (if entries = [] then [''- _none_''] else entries)"

definition subtask_line :: "obj \<Rightarrow> string" where
  "subtask_line s = ''- '' @ ticked (field_str s ''id'' []) @ '' '' @ field_str s ''title'' [] @ '' - ''
     @ field_str s ''status'' ''pending''"

definition worker_line :: "obj \<Rightarrow> string" where
  "worker_line w = ''- '' @ ticked (field_str w ''worker_id'' []) @ '' '' @ field_str w ''role'' [] @ '' - ''
     @ field_str w ''status'' ''pending''"

definition blocker_line :: "obj \<Rightarrow> string" where
  "blocker_line b = ''- '' @ field_str b ''kind'' ''blocker'' @ '': '' @ field_str b ''message'' []"

definition flag_line :: "obj \<Rightarrow> string \<Rightarrow> string \<Rightarrow> string" where
  "flag_line d label k = ''- '' @ label @ '': '' @ ticked (py_str (dget_def d k (JBool False)))"

definition review_lines :: "obj \<Rightarrow> string list" where
  "review_lines bb =
     (let rp = section_of bb ''review_policy'' in
      if rp = [] then []
      else [''## Review Policy'', ''- Mode: '' @ ticked (field_str rp ''policy'' []),
            flag_line rp ''Human review required'' ''human_review_required'',
            flag_line rp ''Auto-merge requested'' ''auto_merge_requested'',
            flag_line rp ''Merge approval required'' ''merge_requires_approval'',
            flag_line rp ''Branch deletion approval required'' ''branch_delete_requires_approval'',
            flag_line rp ''Delete branch after merge'' ''delete_branch_after_merge'']
        @ line_if ''- Blocker: '' (nonempty (dget rp ''blocker'')) @ [[]])"

definition verification_lines :: "obj \<Rightarrow> string list" where
  "verification_lines bb =
     (let v = section_of bb ''verification'' in
      if v = [] then []
      else [''## Verification'', ''- Outcome: '' @ ticked (field_str v ''outcome'' []),
            ''- Review outcome: '' @ ticked (field_str v ''review_outcome'' []),
            ''- Test outcome: '' @ ticked (field_str v ''test_outcome'' []),
            flag_line v ''Retry suggested'' ''should_retry'']
        @ line_if ''- Blocker: '' (nonempty (dget v ''validation_blocker'')) @ [[]])"

definition blackboard_lines :: "int \<Rightarrow> obj \<Rightarrow> string list" where
  "blackboard_lines now bb =
     (let entries = (\<lambda>line k. map (\<lambda>x. line (obj_of x)) (list_of (dget bb k))) in
      [''# Run Blackboard '' @ ticked (field_str bb ''run_id'' []), [],
       ''- Task: '' @ field_str (section_of bb ''task'') ''title'' ''Untitled task'',
       ''- Updated: '' @ ticked (py_str (dget_def bb ''updated_at_ms'' (JInt now))), []]
      @ contract_lines bb @ dependency_lines bb @ verification_plan_lines bb
      @ (if truthy (dget bb ''manager_plan'') then [''## Manager Plan'', strip (py_str (dget bb ''manager_plan'')), []] else [])
      @ counted_section ''Subtasks'' (entries subtask_line ''subtasks'') @ [[]]
      @ counted_section ''Workers'' (entries worker_line ''workers'') @ [[]]
      @ review_lines bb @ verification_lines bb
      @ counted_section ''Blockers'' (entries blocker_line ''blockers''))"

definition blackboard_markdown :: "int \<Rightarrow> obj \<Rightarrow> string" where
  "blackboard_markdown now bb = rstrip_by is_space (join nlc (blackboard_lines now bb)) @ nlc"

section \<open>Summaries\<close>

text \<open>\<open>save_run_text\<close> ends the text with a line end.\<close>

definition run_text :: "string \<Rightarrow> string" where
  "run_text content = (if content \<noteq> [] \<and> last content = CHR 0x0A then content else content @ nlc)"

definition worker_summary_line :: "obj \<Rightarrow> string res" where
  "worker_summary_line w =
     (if dhas w ''worker_id'' \<and> dhas w ''title'' \<and> dhas w ''status''
      then Inr (''- '' @ ticked (py_str (dget w ''worker_id'')) @ '' '' @ py_str (dget w ''title'') @ '' - ''
             @ py_str (dget w ''status''))
      else Inl (KeyError (first_nonempty [if dhas w ''worker_id'' then [] else ''worker_id'', if dhas w ''title'' then [] else ''title'', ''status''])))"

fun map_res :: "('a \<Rightarrow> 'b res) \<Rightarrow> 'a list \<Rightarrow> 'b list res" where
  "map_res f [] = Inr []"
| "map_res f (x # xs) = bind_res (f x) (\<lambda>y. bind_res (map_res f xs) (\<lambda>ys. Inr (y # ys)))"

definition build_blocked_summary :: "json \<Rightarrow> string \<Rightarrow> obj list \<Rightarrow> string res" where
  "build_blocked_summary task_title message worker_results =
     bind_res (map_res worker_summary_line worker_results) (\<lambda>ws.
       Inr (join nlc ([''# Run blocked'', []]
         @ (if truthy task_title then [''Task: '' @ py_str task_title, []] else [])
         @ [message] @ (if worker_results = [] then [] else [[], ''## Workers'', []] @ ws))))"

definition build_completed_summary ::
  "string \<Rightarrow> string \<Rightarrow> string \<Rightarrow> string \<Rightarrow> string \<Rightarrow> string \<Rightarrow> obj list \<Rightarrow> json \<Rightarrow> json \<Rightarrow> string option \<Rightarrow> string res" where
  "build_completed_summary run_id task_title repo_path engine_label provider_id provider_model worker_results
       review_returncode test_returncode diff_snapshot =
     bind_res (map_res worker_summary_line worker_results) (\<lambda>ws.
       Inr (join nlc ([''# Run completed'', [], ''- Run ID: '' @ ticked run_id, ''- Task: '' @ task_title,
           ''- Repo: '' @ ticked repo_path, ''- Engine: '' @ ticked engine_label,
           ''- Provider: '' @ ticked provider_id @ '' / '' @ ticked provider_model, [], ''## Workers'', []]
         @ ws
         @ [[], ''## Validation'', [], ''- Review return code: '' @ ticked (py_str review_returncode),
            ''- Test return code: '' @ ticked (py_str test_returncode), [], ''## Diff Snapshot'', [],
            replicate 3 (CHR 0x60) @ ''text'',
            first_nonempty [case diff_snapshot of Some s \<Rightarrow> s | None \<Rightarrow> [], ''(clean)''], replicate 3 (CHR 0x60), [],
            ''## Next Steps'', [],
            ''- If the repository still needs a commit or push, do that from the integrated repo checkout.''])))"

section \<open>Lemmas\<close>

lemma dget_put [simp]:
  "dget (put_opt k x d) j = (if j = k then (case x of Some v \<Rightarrow> JStr v | None \<Rightarrow> dget d j) else dget d j)"
  "dget (put_if b k v d) j = (if b \<and> j = k then v else dget d j)"
  by (simp_all add: put_opt_def put_if_def split: option.split)

lemma section_of_dset [simp]:
  "section_of (dset k v d) j = (if j = k then obj_of v else section_of d j)"
  by (simp add: section_of_def)

text \<open>An update touches five sections of the document and no other key.\<close>

lemma update_status_frame:
  "k \<notin> {''run'', ''timestamps'', ''phase'', ''blocker'', ''metrics''} \<Longrightarrow>
     dget (update_status now c status) k = dget status k"
  by (simp add: update_status_def)

lemma update_status_sections [simp]:
  "dget (update_status now c status) ''run'' = JObj (updated_run now c (section_of status ''run''))"
  "dget (update_status now c status) ''phase'' = JObj (updated_phase now c (section_of status ''phase''))"
  "dget (update_status now c status) ''blocker'' = JObj (updated_blocker c (section_of status ''blocker''))"
  "dget (update_status now c status) ''timestamps'' = JObj (updated_timestamps now c (section_of status ''timestamps''))"
  by (simp_all add: update_status_def)

lemma updated_run_fields:
  "dget (updated_run now c run) ''status'' = (case sg_run_status c of Some s \<Rightarrow> JStr s | None \<Rightarrow> dget run ''status'')"
  "dget (updated_run now c run) ''completed_at_ms'' = (if sg_run_completed c then JInt now else dget run ''completed_at_ms'')"
  "dget (updated_run now c run) ''updated_at_ms'' = JInt now"
  "dget (updated_run now c run) ''run_id'' = dget run ''run_id''"
  by (simp_all add: updated_run_def)

lemma updated_phase_fields:
  "dget (updated_phase now c phase) ''name'' = (case sg_phase c of Some s \<Rightarrow> JStr s | None \<Rightarrow> dget phase ''name'')"
  "dget (updated_phase now c phase) ''detail'' = (case sg_phase_detail c of Some s \<Rightarrow> JStr s | None \<Rightarrow> dget phase ''detail'')"
  by (simp_all add: updated_phase_def Let_def split: option.split)

text \<open>A run keeps the time it was first marked started.\<close>

lemma start_is_kept:
  assumes "truthy (dget (section_of status ''run'') ''started_at_ms'')"
  shows "dget (section_of (update_status now c status) ''run'') ''started_at_ms''
    = dget (section_of status ''run'') ''started_at_ms''"
  using assms by (simp add: section_of_def updated_run_def py_or_def)

lemma blocker_fields:
  assumes "sg_blocker c = Some (a, k, m, w)"
  shows "dget (updated_blocker c b) ''active'' = JBool a" and "dget (updated_blocker c b) ''message'' = opt_str m"
  using assms by (simp_all add: updated_blocker_def)

lemma next_seq_fresh [simp]: "next_seq [] = 1"
  by (simp add: next_seq_def)

lemma append_event_grows:
  "append_event now iso_now kind run_id payload task_id role repo lines = (e, lines') \<Longrightarrow>
     length lines' = Suc (length lines) \<and> take (length lines) lines' = lines \<and> dget e ''seq'' = JInt (next_seq lines)"
  by (auto simp: append_event_def Let_def event_obj_def)

lemma map_res_all: "list_all (\<lambda>x. \<exists>y. f x = Inr y) xs \<Longrightarrow> \<exists>ys. map_res f xs = Inr ys \<and> length ys = length xs"
  by (induction xs) auto

lemma blocked_summary_no_workers:
  "build_blocked_summary title message [] = Inr (join nlc ([''# Run blocked'', []]
     @ (if truthy title then [''Task: '' @ py_str title, []] else []) @ [message]))"
  by (simp add: build_blocked_summary_def)

lemma markdown_ends_the_line: "\<exists>s. blackboard_markdown now bb = s @ [CHR 0x0A]"
  by (simp add: blackboard_markdown_def nlc_def)

end
