(* ===== verification/TrackerStatus.thy ===== *)
theory TrackerStatus imports PrLifecycle RunState begin

text \<open>
  How a run is reported to its tracker (src/tandem_agents/core/integrations/github_mcp.py and
  linear_mcp.py): the names of the tracker's columns for a task state and a run outcome, which columns
  hand out work, the scope and sync mode of each integration, the bodies of the comments, and the cache
  of GitHub Project statuses with its baseline and its observations.
\<close>

section \<open>Column names\<close>

definition GITHUB_PROJECT_ACTIONABLE_STATUS_KEYS :: "string list" where
  "GITHUB_PROJECT_ACTIONABLE_STATUS_KEYS = [''ready'', ''backlog'', ''todo'', ''todos'']"

definition GITHUB_PROJECT_STATUS_BY_TASK_STATE :: "(string \<times> string) list" where
  "GITHUB_PROJECT_STATUS_BY_TASK_STATE =
     [(''ready'', ''Ready''), (''queued'', ''Ready''), (''backlog'', ''Backlog''), (''todo'', ''Todo''),
      (''claimed'', ''In progress''), (''active'', ''In progress''), (''running'', ''In progress''),
      (''in_progress'', ''In progress''), (''planning'', ''In progress''), (''worker_execution'', ''In progress''),
      (''coder_execution'', ''In progress''), (''review'', ''In review''), (''testing'', ''Testing''),
      (''blocked'', ''Blocked''), (''stale'', ''Blocked''), (''failed'', ''Blocked''), (''cancelled'', ''Blocked''),
      (''done'', ''Done'')]"

definition lookup_text :: "(string \<times> string) list \<Rightarrow> string \<Rightarrow> string \<Rightarrow> string" where
  "lookup_text table k otherwise = (case map_of table k of Some v \<Rightarrow> v | None \<Rightarrow> otherwise)"

definition github_project_status_name_for_task_state :: "string \<Rightarrow> string" where
  "github_project_status_name_for_task_state task_state =
     lookup_text GITHUB_PROJECT_STATUS_BY_TASK_STATE (normalize_status_key task_state) ''Backlog''"

definition github_project_status_name_for_outcome :: "string \<Rightarrow> string" where
  "github_project_status_name_for_outcome outcome =
     (let key = normalize_status_key outcome in
      if key = ''completed'' then ''Review''
      else if List.member [''blocked'', ''failed'', ''cancelled''] key then ''Blocked''
      else if key = ''done'' then ''Done''
      else github_project_status_name_for_task_state key)"

definition github_project_status_key_is_actionable :: "string \<Rightarrow> bool" where
  "github_project_status_key_is_actionable status_name =
     List.member GITHUB_PROJECT_ACTIONABLE_STATUS_KEYS (normalize_status_key status_name)"

section \<open>Configuration\<close>

record tracker_config =
  tk_github_enabled :: bool
  tk_github_scope :: string
  tk_github_sync :: string
  tk_linear_enabled :: bool
  tk_linear_scope :: string
  tk_linear_sync :: string
  tk_claim_status :: string
  tk_review_status :: string
  tk_blocked_status :: string
  tk_done_status :: string
  tk_blocked_label :: string

definition github_mcp_scope :: "tracker_config \<Rightarrow> string \<Rightarrow> string" where
  "github_mcp_scope cfg source_type =
     (let scope = lower (strip (first_nonempty [tk_github_scope cfg, ''none''])) in
      if \<not> tk_github_enabled cfg then ''none''
      else if source_type \<noteq> ''github_project'' \<and> scope \<noteq> ''always'' then ''none'' else scope)"

definition github_remote_sync_mode :: "tracker_config \<Rightarrow> string \<Rightarrow> string" where
  "github_remote_sync_mode cfg source_type =
     (if github_mcp_scope cfg source_type = ''none'' then ''off''
      else if source_type \<noteq> ''github_project'' then ''off''
      else lower (strip (first_nonempty [tk_github_sync cfg, ''off''])))"

definition linear_mcp_scope :: "tracker_config \<Rightarrow> string \<Rightarrow> string" where
  "linear_mcp_scope cfg source_type =
     (let scope = lower (strip (first_nonempty [tk_linear_scope cfg, ''none''])) in
      if \<not> tk_linear_enabled cfg then ''none''
      else if source_type \<noteq> ''linear'' \<and> scope \<noteq> ''always'' then ''none'' else scope)"

definition linear_remote_sync_mode :: "tracker_config \<Rightarrow> string \<Rightarrow> string" where
  "linear_remote_sync_mode cfg source_type =
     (if linear_mcp_scope cfg source_type = ''none'' then ''off''
      else if source_type \<noteq> ''linear'' then ''off''
      else lower (strip (first_nonempty [tk_linear_sync cfg, ''off''])))"

definition linear_status_name_for_task_state :: "tracker_config \<Rightarrow> string \<Rightarrow> string" where
  "linear_status_name_for_task_state cfg task_state =
     (let key = normalize_status_key task_state in
      if List.member [''claimed'', ''active'', ''running'', ''in_progress'', ''planning'', ''worker_execution'',
           ''coder_execution''] key then first_nonempty [tk_claim_status cfg, ''In Progress'']
      else if List.member [''review'', ''testing''] key
      then first_nonempty [tk_review_status cfg, tk_claim_status cfg, ''In Review'']
      else if List.member [''blocked'', ''stale'', ''failed'', ''cancelled'', ''canceled''] key
      then first_nonempty [tk_blocked_status cfg, ''Blocked'']
      else if List.member [''done'', ''completed''] key then first_nonempty [tk_done_status cfg, ''Done'']
      else first_nonempty [tk_claim_status cfg, ''In Progress''])"

definition linear_status_name_for_outcome :: "tracker_config \<Rightarrow> string \<Rightarrow> string" where
  "linear_status_name_for_outcome cfg outcome =
     (let key = normalize_status_key outcome in
      if key = ''completed'' then first_nonempty [tk_review_status cfg, tk_done_status cfg, ''In Review'']
      else if List.member [''blocked'', ''failed'', ''cancelled'', ''canceled''] key
      then first_nonempty [tk_blocked_status cfg, ''Blocked'']
      else linear_status_name_for_task_state cfg outcome)"

definition LINEAR_ACTIONABLE_STATUS_KEYS :: "string list" where
  "LINEAR_ACTIONABLE_STATUS_KEYS = [''backlog'', ''todo'', ''to_do'', ''ready'', ''unstarted'', ''triage'']"

text \<open>The type of a Linear state decides when it is a known one; otherwise the name does.\<close>

definition linear_status_key_is_actionable :: "string \<Rightarrow> string \<Rightarrow> bool" where
  "linear_status_key_is_actionable status_name state_type =
     (let key = normalize_status_key status_name; type_key = normalize_status_key state_type in
      if List.member [''backlog'', ''unstarted'', ''triage''] type_key then True
      else if List.member [''started'', ''completed'', ''canceled'', ''cancelled''] type_key then False
      else List.member LINEAR_ACTIONABLE_STATUS_KEYS key)"

section \<open>Comments\<close>

definition issue_comment_marker :: "string \<Rightarrow> string" where
  "issue_comment_marker run_id =
     (let t = strip run_id in if t = [] then [] else ''<!-- aca:issue-comment:'' @ t @ '' -->'')"

definition linear_comment_marker :: "string \<Rightarrow> string" where
  "linear_comment_marker run_id =
     (let t = strip run_id in if t = [] then [] else ''<!-- aca:linear-comment:'' @ t @ '' -->'')"

definition code_text :: "int option \<Rightarrow> string" where
  "code_text x = (case x of Some n \<Rightarrow> int_str n | None \<Rightarrow> ''n/a'')"

definition fence :: string where
  "fence = replicate 3 (CHR 0x60)"

definition run_comment_body ::
  "string \<Rightarrow> string \<Rightarrow> string \<Rightarrow> string \<Rightarrow> string \<Rightarrow> string option \<Rightarrow> int option \<Rightarrow> int option \<Rightarrow> string" where
  "run_comment_body marker run_id task_title outcome summary diff_snapshot review_code test_code =
     (let diff = (case diff_snapshot of Some s \<Rightarrow> s | None \<Rightarrow> []);
          excerpt = take 10 (split_lines (strip diff))
      in strip (join nlc
        ([''ACA run '' @ ticked run_id @ '' finished with status: **'' @ outcome @ ''**.'', [], ''Task: '' @ task_title]
         @ (if strip summary \<noteq> [] then [[], strip summary] else [])
         @ (if review_code \<noteq> None \<or> test_code \<noteq> None
            then [[], ''Validation:'', ''- review: '' @ ticked (code_text review_code),
                  ''- test: '' @ ticked (code_text test_code)] else [])
         @ (if diff \<noteq> [] \<and> excerpt \<noteq> [] then [[], ''Diff snapshot:'', fence @ ''text'', join nlc excerpt, fence] else [])
         @ (if marker \<noteq> [] then [[], marker] else []))))"

definition build_issue_comment_body ::
  "string \<Rightarrow> string \<Rightarrow> string \<Rightarrow> string \<Rightarrow> string option \<Rightarrow> int option \<Rightarrow> int option \<Rightarrow> string" where
  "build_issue_comment_body run_id = run_comment_body (issue_comment_marker run_id) run_id"

definition build_linear_comment_body ::
  "string \<Rightarrow> string \<Rightarrow> string \<Rightarrow> string \<Rightarrow> string option \<Rightarrow> int option \<Rightarrow> int option \<Rightarrow> string" where
  "build_linear_comment_body run_id = run_comment_body (linear_comment_marker run_id) run_id"

section \<open>The cache of GitHub Project statuses\<close>

text \<open>
  The cache file as the dictionary it holds, empty when it is missing or unreadable. Its keys are looked
  up and set, so the order in which the writer sorts them does not show. Project and item numbers are
  integers or texts; \<open>int(value)\<close> of anything else raises.
\<close>

definition int_id :: "json \<Rightarrow> int res" where
  "int_id v = (case v of
      JInt i \<Rightarrow> Inr i
    | JBool b \<Rightarrow> Inr (if b then 1 else 0)
    | JStr s \<Rightarrow> (case py_int s of Some i \<Rightarrow> Inr i | None \<Rightarrow> Inl (ValueError ''invalid literal for int()''))
    | _ \<Rightarrow> Inl TypeError)"

definition no_id :: "json \<Rightarrow> bool" where
  "no_id v = (v = JNull \<or> v = JStr [])"

definition github_project_cache_key :: "string \<Rightarrow> int \<Rightarrow> int \<Rightarrow> string" where
  "github_project_cache_key owner project item = lower (strip owner) @ '':'' @ int_str project @ '':'' @ int_str item"

definition source_is_observation :: "string \<Rightarrow> bool" where
  "source_is_observation source =
     (starts_with (strip source) ''github_project.intake.'' \<or> starts_with (strip source) ''github_project.board_snapshot.'')"

subsection \<open>Rebuilding it from the runs\<close>

record run_history =
  rh_name :: string
  rh_status :: obj
  rh_events :: "string list option"

text \<open>
  The last status an event log reports. Reading stops at the first line that is not JSON; a line that is
  JSON but not an object raises. An unreadable log reports nothing.
\<close>

fun latest_reported :: "string list \<Rightarrow> string \<Rightarrow> string res" where
  "latest_reported [] latest = Inr latest"
| "latest_reported (raw # rest) latest =
     (if strip raw = [] then latest_reported rest latest
      else case loads (strip raw) of
        None \<Rightarrow> Inr latest
      | Some (JObj row) \<Rightarrow>
          (case (dget row ''type'' = JStr ''github_project.status_updated'', dget row ''payload'') of
             (True, JObj p) \<Rightarrow>
               latest_reported rest (strip (if truthy (dget p ''status'') then py_str (dget p ''status'') else latest))
           | _ \<Rightarrow> latest_reported rest latest)
      | Some _ \<Rightarrow> Inl AttributeError)"

definition confidence_of :: "run_history \<Rightarrow> int" where
  "confidence_of h =
     (if lower (nonempty (py_or (dget (section_of (rh_status h) ''run'') ''status'') (dget (rh_status h) ''status''))) = ''completed''
      then 2 else 1)"

definition bootstrap_run :: "run_history \<Rightarrow> obj \<Rightarrow> obj res" where
  "bootstrap_run h cache =
     (let source = section_of (section_of (rh_status h) ''task'') ''source'';
          owner = nonempty (dget source ''owner'');
          project = dget source ''project''; item = dget source ''project_item_id''
      in if str_or_empty (dget source ''type'') \<noteq> ''github_project'' then Inr cache
         else if owner = [] \<or> no_id project \<or> no_id item then Inr cache
         else bind_res (case rh_events h of Some lines \<Rightarrow> latest_reported lines [] | None \<Rightarrow> Inr []) (\<lambda>reported.
           let latest = (if reported \<noteq> [] then reported
                         else nonempty (py_or (dget source ''status'') (dget source ''initial_status_name'')))
           in if latest = [] then Inr cache
              else bind_res (int_id project) (\<lambda>p. bind_res (int_id item) (\<lambda>i.
                let key = github_project_cache_key owner p i;
                    known = (case dget cache key of
                        JObj r \<Rightarrow> (case dget r ''_confidence'' of JInt n \<Rightarrow> n | _ \<Rightarrow> 0) | _ \<Rightarrow> 0)
                in if known > confidence_of h then Inr cache
                   else Inr (dset key (JObj [(''owner'', JStr owner), (''project'', JInt p), (''project_item_id'', JInt i),
                     (''status_name'', JStr latest), (''status_key'', JStr (normalize_status_key latest)),
                     (''source'', JStr (''bootstrap:'' @ rh_name h)), (''_confidence'', JInt (confidence_of h))]) cache)))))"

text \<open>The runs come in the order of their directory names.\<close>

fun bootstrap_runs :: "run_history list \<Rightarrow> obj \<Rightarrow> obj res" where
  "bootstrap_runs [] cache = Inr cache"
| "bootstrap_runs (h # hs) cache = bind_res (bootstrap_run h cache) (bootstrap_runs hs)"

definition load_project_status_cache :: "run_history list \<Rightarrow> obj \<Rightarrow> (obj \<times> obj) res" where
  "load_project_status_cache runs file =
     (if file \<noteq> [] then Inr (file, file)
      else bind_res (bootstrap_runs runs []) (\<lambda>b. Inr (b, if b \<noteq> [] then b else file)))"

subsection \<open>Writing and reading it\<close>

definition status_fields :: "string \<Rightarrow> string \<Rightarrow> int \<Rightarrow> obj" where
  "status_fields text0 source now = [(''status_name'', JStr text0), (''status_key'', JStr (normalize_status_key text0)),
     (''source'', JStr source), (''updated_at_epoch_ms'', JInt now)]"

definition observed_fields :: "string \<Rightarrow> string \<Rightarrow> int \<Rightarrow> obj" where
  "observed_fields text0 source now = [(''observed_status_name'', JStr text0),
     (''observed_status_key'', JStr (normalize_status_key text0)), (''observed_source'', JStr source),
     (''observed_at_epoch_ms'', JInt now)]"

definition remembered :: "obj \<Rightarrow> string \<Rightarrow> string \<Rightarrow> int \<Rightarrow> obj \<Rightarrow> obj" where
  "remembered base text0 source now existing =
     (if source_is_observation source then
        (let r = dupdate (dupdate existing base) (observed_fields text0 source now)
         in if truthy (dget r ''status_name'') then r else dupdate r (status_fields text0 source now))
      else base @ status_fields text0 source now @ observed_fields text0 source now)"

definition remember_project_item_status ::
  "int \<Rightarrow> run_history list \<Rightarrow> string \<Rightarrow> json \<Rightarrow> json \<Rightarrow> string \<Rightarrow> string \<Rightarrow> obj \<Rightarrow> obj res" where
  "remember_project_item_status now runs owner project item status_name source file =
     (let owner_text = strip owner; text0 = strip status_name in
      if owner_text = [] \<or> no_id project \<or> no_id item \<or> text0 = [] then Inr file
      else bind_res (load_project_status_cache runs file) (\<lambda>(cache, _).
        bind_res (int_id project) (\<lambda>p. bind_res (int_id item) (\<lambda>i.
          let key = github_project_cache_key owner_text p i;
              base = [(''owner'', JStr owner_text), (''project'', JInt p), (''project_item_id'', JInt i)]
          in Inr (dset key (JObj (remembered base text0 source now (obj_of (dget cache key)))) cache)))))"

definition cached_project_item_status ::
  "run_history list \<Rightarrow> string \<Rightarrow> json \<Rightarrow> json \<Rightarrow> bool \<Rightarrow> obj \<Rightarrow> (string \<times> obj) res" where
  "cached_project_item_status runs owner project item baseline_only file =
     (let owner_text = strip owner in
      if owner_text = [] \<or> no_id project \<or> no_id item then Inr ([], file)
      else bind_res (load_project_status_cache runs file) (\<lambda>(cache, file').
        bind_res (int_id project) (\<lambda>p. bind_res (int_id item) (\<lambda>i.
          case dget cache (github_project_cache_key owner_text p i) of
            JObj r \<Rightarrow> Inr (let baseline = nonempty (dget r ''status_name''); observed = nonempty (dget r ''observed_status_name'')
                          in if baseline_only then baseline else first_nonempty [observed, baseline], file')
          | _ \<Rightarrow> Inr ([], file')))))"

section \<open>Lemmas\<close>

lemma outcome_names:
  "github_project_status_name_for_outcome ''completed'' = ''Review''"
  "github_project_status_name_for_outcome ''blocked'' = ''Blocked''"
  by code_simp+

lemma sync_needs_its_source:
  "source_type \<noteq> ''github_project'' \<Longrightarrow> github_remote_sync_mode cfg source_type = ''off''"
  "source_type \<noteq> ''linear'' \<Longrightarrow> linear_remote_sync_mode cfg source_type = ''off''"
  by (simp_all add: github_remote_sync_mode_def linear_remote_sync_mode_def)

lemma load_nonempty_cache: "file \<noteq> [] \<Longrightarrow> load_project_status_cache runs file = Inr (file, file)"
  by (simp add: load_project_status_cache_def)

lemma dset_not_Nil [simp]: "dset k v d \<noteq> []"
  by (cases d) (auto simp: dset_def split: prod.splits)

lemma nonempty_stripped: "nonempty (JStr (strip s)) = strip s"
  by simp

text \<open>
  What a write leaves in the record of its item, seen through the two readings: a status the program set
  replaces both, one it observed replaces only the observation once a baseline is there.
\<close>

lemma dget_append: "dget (d @ e) k = (if dhas d k then dget d k else dget e k)"
  by (auto simp: dget_def dhas_def map_add_def split: option.split)

lemma remembered_reads:
  assumes "strip text0 = text0" and "text0 \<noteq> []" and "\<not> dhas base ''observed_status_name''" and "\<not> dhas base ''status_name''"
  shows "nonempty (dget (remembered base text0 source now existing) ''observed_status_name'') = text0"
    and "nonempty (dget (remembered base text0 source now existing) ''status_name'') =
      (if source_is_observation source \<and> truthy (dget existing ''status_name'')
       then nonempty (dget existing ''status_name'') else text0)"
proof -
  have "''status_name'' \<notin> fst ` set base" using assms(4) by (simp add: dhas_def map_of_eq_None_iff)
  then have keep: "dget (dupdate existing base) ''status_name'' = dget existing ''status_name''"
    by (rule dget_dupdate_notin)
  show "nonempty (dget (remembered base text0 source now existing) ''observed_status_name'') = text0"
    using assms(1,3) by (simp add: remembered_def Let_def observed_fields_def status_fields_def dget_append dhas_def)
  show "nonempty (dget (remembered base text0 source now existing) ''status_name'') =
      (if source_is_observation source \<and> truthy (dget existing ''status_name'')
       then nonempty (dget existing ''status_name'') else text0)"
    using assms(1,4) keep
    by (simp add: remembered_def Let_def observed_fields_def status_fields_def dget_append)
qed

text \<open>
The baseline of a tracked item. Once a status is remembered, reading the item gives that status. If
the program set it, it is the baseline too; if it was only observed, the baseline the item already had
stays, so that a change made outside the program can be told from the program's own.
\<close>

theorem observation_keeps_baseline:
  assumes "remember_project_item_status now runs owner project item status source file = Inr file1"
    and "strip owner \<noteq> []" and "\<not> no_id project" and "\<not> no_id item" and "strip status \<noteq> []"
    and "cached_project_item_status runs owner project item True file = Inr (baseline, file0)"
  shows "cached_project_item_status runs owner project item False file1 = Inr (strip status, file1) \<and>
    (\<exists>b. cached_project_item_status runs owner project item True file1 = Inr (b, file1) \<and>
       (\<not> source_is_observation source \<longrightarrow> b = strip status) \<and>
       (source_is_observation source \<and> baseline \<noteq> [] \<longrightarrow> b = baseline))"
proof -
  obtain cache f p i where load: "load_project_status_cache runs file = Inr (cache, f)"
    and p: "int_id project = Inr p" and i: "int_id item = Inr i"
    using assms(1-5) by (auto simp: remember_project_item_status_def Let_def bind_res_Inr_iff)
  define key where "key = github_project_cache_key (strip owner) p i"
  define base where "base = [(''owner'', JStr (strip owner)), (''project'', JInt p), (''project_item_id'', JInt i)]"
  define r where "r = remembered base (strip status) source now (obj_of (dget cache key))"
  have file1: "file1 = dset key (JObj r) cache"
    using assms(1-5) load p i
    by (simp add: remember_project_item_status_def Let_def key_def base_def r_def)
  then have full: "load_project_status_cache runs file1 = Inr (file1, file1)"
    by (simp add: load_nonempty_cache)
  have read: "cached_project_item_status runs owner project item only file1 = Inr (if only
       then nonempty (dget r ''status_name'')
       else first_nonempty [nonempty (dget r ''observed_status_name''), nonempty (dget r ''status_name'')], file1)" for only
    using assms(2-4) full p i by (simp add: cached_project_item_status_def file1 Let_def flip: key_def)
  have old: "baseline = nonempty (dget (obj_of (dget cache key)) ''status_name'')"
    using assms(2-4,6) load p i
    by (auto simp: cached_project_item_status_def Let_def obj_of_def simp flip: key_def split: json.splits)
  have base: "\<not> dhas base ''observed_status_name''" "\<not> dhas base ''status_name''" "strip (strip status) = strip status"
    by (simp_all add: base_def dhas_def)
  note reads = remembered_reads [OF base(3) assms(5) base(1,2), of source now "obj_of (dget cache key)", folded r_def]
  have "truthy v" if "nonempty v \<noteq> []" for v
    using that by (cases "truthy v") (simp_all add: nonempty_def str_or_empty_def)
  with assms(5) old reads read show ?thesis by auto
qed

definition demo_item_cache :: obj where
  "demo_item_cache = [(''acme:7:42'', JObj [(''owner'', JStr ''acme''), (''status_name'', JStr ''In progress'')])]"

lemma observation_keeps_baseline_witness:
  "\<exists>f. remember_project_item_status 5 [] ''Acme'' (JInt 7) (JStr ''42'') '' Done '' ''github_project.intake.scan'' demo_item_cache
      = Inr f \<and> cached_project_item_status [] ''Acme'' (JInt 7) (JStr ''42'') False f = Inr (''Done'', f)
      \<and> cached_project_item_status [] ''Acme'' (JInt 7) (JStr ''42'') True f = Inr (''In progress'', f)"
proof -
  let ?run = "remember_project_item_status 5 [] ''Acme'' (JInt 7) (JStr ''42'') '' Done '' ''github_project.intake.scan'' demo_item_cache"
  have ok: "(case ?run of Inr _ \<Rightarrow> True | Inl _ \<Rightarrow> False)" by code_simp
  then obtain f where f: "?run = Inr f" by (cases ?run) auto
  have hyps: "strip ''Acme'' \<noteq> []" "\<not> no_id (JInt 7)" "\<not> no_id (JStr ''42'')" "strip '' Done '' \<noteq> []" by code_simp+
  have old: "cached_project_item_status [] ''Acme'' (JInt 7) (JStr ''42'') True demo_item_cache
      = Inr (''In progress'', demo_item_cache)" by code_simp
  have "source_is_observation ''github_project.intake.scan''" "strip '' Done '' = ''Done''" by code_simp+
  with observation_keeps_baseline [OF f hyps old] f show ?thesis by auto
qed

end
