(* ===== verification/CoderRuns.thy ===== *)
theory CoderRuns imports PrSupervisor TrackerStatus CoordOwnership begin

text \<open>
  The coder half of src/tandem_agents/core/scheduling/coder_supervisor.py: what the supervisor does with
  the answer of the Tandem engine about a coder run. A run that still works has its lease extended; a run
  that ended settles its row, its task and its lease in the coordination store, its files, and the message
  to its tracker. The engine's answers are inputs. An operation reads the clock once, as \<open>now\<close>. The
  workspace registry, which mirrors the status and whose errors are swallowed, is outside the model, and
  so are the sequence numbers of the event log (RunState has them).
\<close>

section \<open>State and configuration\<close>

record coder_state =
  cr_status :: obj
  cr_blackboard :: obj
  cr_summary :: string
  cr_events :: "(string \<times> obj) list"
  cr_db :: db

record coder_config =
  cc_supervisor :: sup_config
  cc_tracker :: tracker_config
  cc_lease_ttl :: int
  cc_provider_id :: string
  cc_provider_model :: string
  cc_cancel_on_source_terminal :: bool
  cc_batch_size :: int

text \<open>The part of the configuration the pull request half reads, with Linear's sync mode and names.\<close>

definition sup_config_of :: "coder_config \<Rightarrow> sup_config" where
  "sup_config_of cfg = (cc_supervisor cfg)
     \<lparr>sc_linear_sync := linear_remote_sync_mode (cc_tracker cfg) ''linear'',
      sc_linear_scope := tk_linear_scope (cc_tracker cfg), sc_done_status := tk_done_status (cc_tracker cfg)\<rparr>"

definition add_event :: "string \<Rightarrow> obj \<Rightarrow> coder_state \<Rightarrow> coder_state" where
  "add_event kind payload s = s\<lparr>cr_events := cr_events s @ [(kind, payload)]\<rparr>"

section \<open>The engine's answer\<close>

text \<open>\<open>dict(value or {})\<close> of a value from the engine. A list of pairs, which Python would also take, raises here.\<close>

definition dict_res :: "json \<Rightarrow> obj res" where
  "dict_res v = (if \<not> truthy v then Inr [] else case v of
      JObj d \<Rightarrow> Inr d | JStr _ \<Rightarrow> Inl (ValueError ''dictionary update sequence'') | _ \<Rightarrow> Inl TypeError)"

definition artifacts_of :: "obj \<Rightarrow> json list" where
  "artifacts_of response = concat (map (\<lambda>k. case dget response k of JList xs \<Rightarrow> filter is_obj xs | _ \<Rightarrow> [])
     [''coder_artifacts'', ''artifacts''])"

definition build_coder_result_from_response :: "string \<Rightarrow> obj \<Rightarrow> obj res" where
  "build_coder_result_from_response run_id response =
     bind_res (dict_res (dget response ''coder_run'')) (\<lambda>coder_run.
     bind_res (dict_res (dget response ''run'')) (\<lambda>final_run.
       let status = normalize_status (py_or (dget final_run ''status'') (dget coder_run ''status''));
           phase = lower (nonempty (py_or (dget final_run ''phase'') (dget coder_run ''phase'')));
           last_error = nonempty (py_or (dget final_run ''last_error'') (dget response ''error''));
           coder_run = (if coder_run = [] then [(''coder_run_id'', JStr run_id), (''status'', JStr status), (''phase'', JStr phase)]
                        else coder_run)
       in Inr [(''run_response'', JObj response), (''coder_run'', JObj coder_run), (''run'', JObj final_run),
            (''artifacts'', JList (artifacts_of response)), (''status'', JStr status), (''phase'', JStr phase),
            (''last_error'', JStr last_error)]))"

section \<open>The store\<close>

definition supervision_payload ::
  "int \<Rightarrow> string \<Rightarrow> string \<Rightarrow> string \<Rightarrow> string \<Rightarrow> string \<Rightarrow> bool \<Rightarrow> int option \<Rightarrow> obj" where
  "supervision_payload now coder_run tandem_status tandem_phase monitor_state last_error terminal cancelled_at =
     [(''coder_run_id'', JStr coder_run), (''tandem_status'', JStr tandem_status), (''tandem_phase'', JStr tandem_phase),
      (''monitor_state'', JStr monitor_state), (''last_checked_at_ms'', JInt now),
      (''next_check_at_ms'', if terminal then JNull else JInt now), (''last_error'', JStr last_error),
      (''terminal'', JBool terminal)]
     @ (case cancelled_at of Some t \<Rightarrow> [(''cancel_requested_at_ms'', JInt t)] | None \<Rightarrow> [])"

text \<open>
  The run's row takes the status, the phase and the supervision in its metadata, and the error if there is
  one; while the run works, its lease is extended.
\<close>

definition touch_changes :: "string \<Rightarrow> string \<Rightarrow> string option \<Rightarrow> bool \<Rightarrow> obj \<Rightarrow> run_row option \<Rightarrow> run_changes" where
  "touch_changes status phase err completed supervision existing =
     no_changes\<lparr>rc_status := Some status, rc_phase := Some phase, rc_error := err, rc_completed := completed,
       rc_metadata := Some (JObj (dset ''coder_supervision'' (JObj supervision)
         (case existing of Some r \<Rightarrow> obj_of (r_metadata r) | None \<Rightarrow> [])))\<rparr>"

definition touch_coordination ::
  "int \<Rightarrow> int \<Rightarrow> string \<Rightarrow> string \<Rightarrow> string \<Rightarrow> string option \<Rightarrow> bool \<Rightarrow> obj \<Rightarrow> db \<Rightarrow> run_row option \<times> db" where
  "touch_coordination now ttl run_id status phase err completed supervision d =
     (let (updated, d1) = update_run now run_id (touch_changes status phase err completed supervision (get_run run_id d)) d;
          lease_id = (case updated of Some r \<Rightarrow> strip (text_arg (r_lease_id r)) | None \<Rightarrow> [])
      in (updated, if status = ''running'' \<and> lease_id \<noteq> [] then snd (heartbeat_lease now lease_id ttl d1) else d1))"

record coordination_ids =
  ci_task_key :: string
  ci_lease_id :: string
  ci_worker_id :: string
  ci_host_id :: string

text \<open>The status document names its claim; the run's row fills in what it leaves out.\<close>

definition coordination_context :: "obj \<Rightarrow> run_row option \<Rightarrow> coordination_ids" where
  "coordination_context status run_coord =
     (let raw = section_of status ''coordination'';
          pick = (\<lambda>k column. strip (first_nonempty [str_or_empty (dget raw k),
             case run_coord of Some r \<Rightarrow> text_arg (column r) | None \<Rightarrow> []]))
      in \<lparr>ci_task_key = pick ''task_key'' r_task_key, ci_lease_id = pick ''lease_id'' r_lease_id,
          ci_worker_id = pick ''worker_id'' r_worker_id, ci_host_id = pick ''host_id'' r_host_id\<rparr>)"

section \<open>Messages to the tracker\<close>

definition finalize_message :: "string \<Rightarrow> string \<Rightarrow> string \<Rightarrow> obj \<Rightarrow> obj \<Rightarrow> outbox_message" where
  "finalize_message run_id kind key task payload =
     \<lparr>om_kind = kind, om_aggregate_type = ''task'',
      om_aggregate_id = first_nonempty [str_or_empty (dget task ''task_id''), run_id],
      om_payload = JObj payload, om_dedupe_key = Some (run_id @ key)\<rparr>"

definition run_payload :: "string \<Rightarrow> string \<Rightarrow> string \<Rightarrow> obj \<Rightarrow> obj \<Rightarrow> obj" where
  "run_payload run_id outcome summary special task =
     [(''run_id'', JStr run_id), (''outcome'', JStr outcome), (''summary'', JStr summary)] @ special @ [(''task'', JObj task)]"

definition linear_finalize_messages :: "coder_config \<Rightarrow> obj \<Rightarrow> string \<Rightarrow> string \<Rightarrow> string \<Rightarrow> outbox_message list" where
  "linear_finalize_messages cfg task run_id outcome summary =
     (let tk = cc_tracker cfg;
          labels = (if outcome \<noteq> ''completed'' \<and> strip (tk_blocked_label tk) \<noteq> [] then [JStr (tk_blocked_label tk)] else []);
          payload_task = linear_task_with_run_id task run_id;
          body = build_linear_comment_body run_id (py_str (py_or (dget task ''title'') (JStr ''Linear task''))) outcome
            (strip (summary @ nlc @ nlc
              @ ''Next expected action: inspect the blocked ACA run, resolve the error, ''
              @ ''and restart or repair the task before marking it complete.'')) None None None
      in if \<not> linear_finalize_enabled (sup_config_of cfg) task then []
         else [finalize_message run_id ''linear_issue.status_update'' '':linear:finalize-status'' task
                 (run_payload run_id outcome summary [(''target_status'', JStr (linear_status_name_for_outcome tk outcome)),
                    (''labels'', JList labels)] payload_task)]
           @ (if outcome \<noteq> ''completed'' \<and> List.member [''status_comment'', ''rich''] (linear_remote_sync_mode tk ''linear'')
              then [finalize_message run_id ''linear_issue.comment'' '':linear:finalize-comment'' task
                      (run_payload run_id outcome summary [(''body'', JStr body)] payload_task)] else []))"

definition github_finalize_messages :: "coder_config \<Rightarrow> obj \<Rightarrow> string \<Rightarrow> string \<Rightarrow> string \<Rightarrow> outbox_message list" where
  "github_finalize_messages cfg task run_id outcome summary =
     (let tk = cc_tracker cfg;
          source_type = first_nonempty [str_or_empty (dget (section_of task ''source'') ''type''), sc_source_type (cc_supervisor cfg)];
          sync = github_remote_sync_mode tk source_type;
          body = build_issue_comment_body run_id (py_str (py_or (dget task ''title'') (JStr ''GitHub task''))) outcome summary None None None
      in if sync = ''off'' \<or> \<not> List.member [''intake_finalize'', ''always''] (github_mcp_scope tk source_type) then []
         else [finalize_message run_id ''github_project.status_update'' '':github:finalize-status'' task
                 (run_payload run_id outcome summary [(''target_status'', JStr (github_project_status_name_for_outcome outcome))] task)]
           @ (if sync = ''status_comment''
              then [finalize_message run_id ''github_issue.comment'' '':github:finalize-comment'' task
                      (run_payload run_id outcome summary [(''body'', JStr body)] task)] else []))"

definition finalize_messages :: "coder_config \<Rightarrow> obj \<Rightarrow> string \<Rightarrow> string \<Rightarrow> string \<Rightarrow> outbox_message list" where
  "finalize_messages cfg task run_id outcome summary =
     (if run_source_type (sup_config_of cfg) task = ''linear'' then linear_finalize_messages cfg task run_id outcome summary
      else github_finalize_messages cfg task run_id outcome summary)"

definition enqueue_all :: "int \<Rightarrow> outbox_message list \<Rightarrow> db \<Rightarrow> db" where
  "enqueue_all now ms d = fold (\<lambda>m d. snd (enqueue_outbox now m d)) ms d"

section \<open>Summaries\<close>

definition artifact_line :: "obj \<Rightarrow> string" where
  "artifact_line a = ''- '' @ ticked (strip (py_str (py_or (dget a ''artifact_type'') (py_or (dget a ''type'') (JStr ''artifact'')))))
     @ '': '' @ ticked (nonempty (dget a ''path''))"

definition or_unknown :: "json \<Rightarrow> string" where
  "or_unknown v = py_str (py_or v (JStr ''unknown''))"

text \<open>A \<open>last_error\<close> that is not a text makes the final join raise.\<close>

definition build_coder_summary :: "string \<Rightarrow> obj \<Rightarrow> obj \<Rightarrow> string \<Rightarrow> string \<Rightarrow> string \<Rightarrow> obj \<Rightarrow> string res" where
  "build_coder_summary run_id task repo engine_label provider_id provider_model result =
     (let artifacts = list_of (dget result ''artifacts''); err = dget result ''last_error'' in
      join_strs nlc (map JStr [''# Coder run completed'', [], ''- ACA Run ID: '' @ ticked run_id,
          ''- Task: '' @ py_str (py_or (dget task ''title'') (JStr ''Untitled task'')),
          ''- Repo: '' @ ticked (str_or_empty (dget repo ''path'')), ''- Engine: '' @ ticked engine_label,
          ''- Provider: '' @ ticked provider_id @ '' / '' @ ticked provider_model,
          ''- Coder workflow: '' @ ticked ''issue_fix'', ''- Coder status: '' @ ticked (or_unknown (dget result ''status'')),
          ''- Coder phase: '' @ ticked (or_unknown (dget result ''phase'')), []]
        @ (if truthy err then [JStr ''## Last Error'', JStr [], err, JStr []] else [])
        @ [JStr ''## Artifacts'', JStr []]
        @ (if artifacts = [] then [JStr ''- _none reported_'']
           else map (\<lambda>a. JStr (artifact_line (obj_of a))) (take 20 artifacts))))"

definition running_summary :: "obj \<Rightarrow> string \<Rightarrow> string" where
  "running_summary task message =
     join nlc [''# Coder run still running'', [], ''Task: '' @ py_str (py_or (dget task ''title'') (JStr ''Untitled task'')), [],
       message, [],
       ''Tandem remains the execution authority. ACA will reconcile this run before posting a final GitHub update.'']"

section \<open>Applying the answer\<close>

definition no_blocker :: "bool \<times> string option \<times> string option \<times> string option" where
  "no_blocker = (False, None, None, None)"

definition working_changes :: "string \<Rightarrow> status_changes" where
  "working_changes message = no_status_changes\<lparr>sg_phase := Some ''coder_execution'', sg_phase_detail := Some message,
     sg_run_status := Some ''running'', sg_blocker := Some no_blocker\<rparr>"

definition supervised_blackboard :: "int \<Rightarrow> obj \<Rightarrow> obj \<Rightarrow> obj" where
  "supervised_blackboard now supervision bb = saved_blackboard now (dset ''coder_supervision'' (JObj supervision) bb)"

definition coder_answer :: "string \<Rightarrow> string \<Rightarrow> bool \<Rightarrow> obj \<Rightarrow> obj" where
  "coder_answer run_id status terminal supervision =
     [(''run_id'', JStr run_id), (''status'', JStr status), (''terminal'', JBool terminal), (''supervision'', JObj supervision)]"

definition apply_non_terminal ::
  "int \<Rightarrow> coder_config \<Rightarrow> string \<Rightarrow> string \<Rightarrow> string \<Rightarrow> string \<Rightarrow> coder_state \<Rightarrow> obj \<times> coder_state" where
  "apply_non_terminal now cfg run_id coder_run tandem_status tandem_phase s =
     (let tandem = first_nonempty [tandem_status, ''running''];
          message = ''Tandem coder run '' @ ticked coder_run @ '' is still '' @ ticked tandem @ ''.'';
          supervision = supervision_payload now coder_run tandem tandem_phase ''running'' [] False None;
          status = update_status now (working_changes message) (cr_status s);
          (_, d) = touch_coordination now (cc_lease_ttl cfg) run_id ''running'' ''coder_execution'' None False supervision (cr_db s)
      in (coder_answer run_id ''running'' False supervision,
          add_event ''coder.supervisor.running'' supervision
            (s\<lparr>cr_blackboard := supervised_blackboard now supervision (cr_blackboard s), cr_status := status, cr_db := d,
               cr_summary := run_text (running_summary (section_of status ''task'') message)\<rparr>)))"

definition terminal_status_of :: "string \<Rightarrow> string" where
  "terminal_status_of tandem_status =
     (if tandem_status = ''completed'' then ''completed'' else if tandem_status = ''cancelled'' then ''cancelled'' else ''blocked'')"

text \<open>The outcome of an ended run: its summary, the phase detail, and what the status document is told.\<close>

record ending =
  en_summary :: string
  en_detail :: string
  en_changes :: status_changes

definition stop_message :: "string \<Rightarrow> obj \<Rightarrow> string" where
  "stop_message tandem_status result =
     (if truthy (dget result ''last_error'') then py_str (dget result ''last_error'')
      else ''Coder workflow stopped with status '' @ ticked (first_nonempty [tandem_status, ''unknown'']))"

definition ending_of :: "coder_config \<Rightarrow> string \<Rightarrow> obj \<Rightarrow> obj \<Rightarrow> obj \<Rightarrow> obj \<Rightarrow> ending res" where
  "ending_of cfg run_id status task repo result =
     (let tandem_status = normalize_status (dget result ''status'');
          provider = section_of status ''provider'';
          text0 = (\<lambda>v otherwise. first_nonempty [str_or_empty v, otherwise]);
          changes = no_status_changes\<lparr>sg_run_status := Some (terminal_status_of tandem_status), sg_run_completed := True\<rparr>
      in if tandem_status = ''completed'' then
           bind_res (build_coder_summary run_id task repo (text0 (dget (section_of status ''engine'') ''version'') ''unknown'')
               (text0 (dget provider ''id'') (cc_provider_id cfg)) (text0 (dget provider ''model'') (cc_provider_model cfg)) result)
             (\<lambda>summary. Inr \<lparr>en_summary = summary, en_detail = ''coder workflow completed'',
                en_changes = changes\<lparr>sg_phase := Some ''handoff'', sg_phase_detail := Some ''coder workflow completed'',
                  sg_blocker := Some no_blocker\<rparr>\<rparr>)
         else (let detail = stop_message tandem_status result in
           bind_res (build_blocked_summary (dget task ''title'') detail [])
             (\<lambda>summary. Inr \<lparr>en_summary = summary, en_detail = detail,
                en_changes = changes\<lparr>sg_phase := Some ''coder_execution'', sg_phase_detail := Some detail,
                  sg_blocker := Some (True, Some ''coder'', Some detail, Some ''manager'')\<rparr>\<rparr>)))"

text \<open>The task's state follows the outcome, then the lease ends.\<close>

definition settle_task :: "int \<Rightarrow> string \<Rightarrow> string \<Rightarrow> string \<Rightarrow> coordination_ids \<Rightarrow> db \<Rightarrow> db" where
  "settle_task now run_id terminal detail ids d =
     (let lease = str_or_none (ci_lease_id ids); worker = str_or_none (ci_worker_id ids); host = str_or_none (ci_host_id ids);
          d1 = (if ci_task_key ids = [] then d
                else if terminal = ''completed''
                then snd (mark_task_done now (ci_task_key ids) run_id lease worker host (Some ''coder workflow completed'') d)
                else snd (mark_task_blocked now (ci_task_key ids) run_id lease worker host (Some detail) d))
      in if ci_lease_id ids = [] then d1 else snd (release_lease now (ci_lease_id ids) terminal (Some detail) d1))"

definition apply_terminal :: "int \<Rightarrow> coder_config \<Rightarrow> string \<Rightarrow> obj \<Rightarrow> coder_state \<Rightarrow> (obj \<times> coder_state) res" where
  "apply_terminal now cfg run_id result s =
     (let tandem_status = normalize_status (dget result ''status'');
          terminal = terminal_status_of tandem_status;
          outcome = (if tandem_status = ''completed'' then ''completed'' else ''blocked'');
          phase = (if tandem_status = ''completed'' then ''handoff'' else ''coder_execution'');
          coder_run = obj_of (dget result ''coder_run'');
          task = first_obj (dget (cr_status s) ''task'') (dget (cr_blackboard s) ''task'') JNull;
          repo = first_obj (dget (cr_status s) ''repo'') (dget (cr_blackboard s) ''repo'') JNull;
          supervision = supervision_payload now (coder_run_id run_id [(''coder_run'', JObj coder_run)]) tandem_status
            (lower (nonempty (dget result ''phase''))) ''terminal'' (nonempty (dget result ''last_error'')) True None;
          bb = dset ''artifacts'' (py_or (dget result ''artifacts'') (py_or (dget (cr_blackboard s) ''artifacts'') (JList [])))
            (dset ''coder_run'' (JObj coder_run) (cr_blackboard s))
      in bind_res (ending_of cfg run_id (cr_status s) task repo result) (\<lambda>e.
        let status = update_status now (en_changes e) (cr_status s);
            (updated, d1) = touch_coordination now (cc_lease_ttl cfg) run_id terminal phase
              (if terminal = ''completed'' then None else Some (en_detail e)) True supervision (cr_db s);
            d2 = settle_task now run_id terminal (en_detail e) (coordination_context status updated) d1;
            d3 = enqueue_all now (finalize_messages cfg task run_id outcome (en_summary e)) d2
        in Inr (coder_answer run_id terminal True supervision,
             add_event (if terminal = ''completed'' then ''run.completed'' else ''run.blocked'')
               [(''kind'', JStr ''coder''), (''supervised'', JBool True), (''tandem_status'', JStr tandem_status)]
               (s\<lparr>cr_blackboard := supervised_blackboard now supervision bb, cr_status := status, cr_db := d3,
                  cr_summary := run_text (en_summary e)\<rparr>))))"

definition apply_coder_result :: "int \<Rightarrow> coder_config \<Rightarrow> string \<Rightarrow> obj \<Rightarrow> coder_state \<Rightarrow> (obj \<times> coder_state) res" where
  "apply_coder_result now cfg run_id result s =
     (let status = normalize_status (dget result ''status'') in
      if List.member TERMINAL_CODER_STATUSES status then apply_terminal now cfg run_id result s
      else Inr (apply_non_terminal now cfg run_id (coder_run_id run_id [(''coder_run'', dget result ''coder_run'')]) status
        (lower (nonempty (dget result ''phase''))) s))"

text \<open>The engine's answers to a cancellation and to a query; an error is the text the supervisor records of it.\<close>

record engine_answers =
  ea_cancel :: "string option"
  ea_run :: "string + json"

definition cancel_reason_of :: "coder_config \<Rightarrow> obj \<Rightarrow> string option \<Rightarrow> string option" where
  "cancel_reason_of cfg status reason =
     (if text_arg reason \<noteq> [] then reason
      else case dget status ''task'' of
        JObj task \<Rightarrow> (if cc_cancel_on_source_terminal cfg \<and> source_task_terminal task
          then Some ''source task reached a terminal state before Tandem coder completed'' else None)
      | _ \<Rightarrow> None)"

definition poll_error :: "int \<Rightarrow> coder_config \<Rightarrow> string \<Rightarrow> string \<Rightarrow> string \<Rightarrow> int option \<Rightarrow> coder_state \<Rightarrow> obj \<times> coder_state" where
  "poll_error now cfg run_id coder_run message cancelled_at s =
     (let old = section_of (cr_blackboard s) ''coder_supervision'';
          supervision = supervision_payload now coder_run (or_unknown (dget old ''tandem_status''))
            (str_or_empty (dget old ''tandem_phase'')) ''poll_error'' message False cancelled_at;
          (_, d) = touch_coordination now (cc_lease_ttl cfg) run_id ''running'' ''coder_execution'' (Some message) False
            supervision (cr_db s)
      in ([(''run_id'', JStr run_id), (''status'', JStr ''running''), (''terminal'', JBool False), (''error'', JStr message),
           (''supervision'', JObj supervision)],
          add_event ''coder.supervisor.poll_error'' supervision
            (s\<lparr>cr_blackboard := supervised_blackboard now supervision (cr_blackboard s),
               cr_status := update_status now (working_changes message) (cr_status s), cr_db := d\<rparr>)))"

text \<open>
  \<open>reconcile_coder_run\<close>. A run that executes no coder workflow is left to the pull request half
  (\<open>supervise\<close>) when its pull request is still watched, and skipped otherwise; both leave the coder
  state as it is. A cancellation the engine refuses raises.
\<close>

definition reconcile_coder_run ::
  "int \<Rightarrow> coder_config \<Rightarrow> string \<Rightarrow> string option \<Rightarrow> engine_answers \<Rightarrow> coder_state \<Rightarrow> (obj \<times> coder_state) res" where
  "reconcile_coder_run now cfg run_id reason ea s =
     (let coder_run = coder_run_id run_id (cr_blackboard s);
          reason' = cancel_reason_of cfg (cr_status s) reason;
          cancelled_at = (if reason' \<noteq> None then Some now else None)
      in if \<not> is_coder_execution (cr_status s) (cr_blackboard s) \<and> text_arg reason = [] then
           Inr ([(''run_id'', JStr run_id), (''status'', JStr ''skipped''),
                 (''reason'', JStr (if is_pr_lifecycle_supervisable (cr_status s) (cr_blackboard s)
                    then ''pull_request_lifecycle'' else ''not_active_coder_execution''))], s)
         else case (reason', ea_cancel ea) of
           (Some _, Some err) \<Rightarrow> Inl (RuntimeError err)
         | _ \<Rightarrow>
            (case ea_run ea of
               Inl message \<Rightarrow> Inr (poll_error now cfg run_id coder_run message cancelled_at s)
             | Inr response \<Rightarrow>
                 bind_res (build_coder_result_from_response coder_run (obj_of response)) (\<lambda>result.
                   apply_coder_result now cfg run_id
                     (case cancelled_at of Some t \<Rightarrow> dsetdefault ''cancel_requested_at_ms'' (JInt t) result | None \<Rightarrow> result) s)))"

section \<open>Lemmas\<close>

subsection \<open>The engine's answer\<close>

text \<open>A result built from an answer has texts for its status, phase and error, so applying it cannot raise.\<close>

lemma coder_result_texts:
  assumes "build_coder_result_from_response run_id response = Inr result"
  shows "is_str (dget result ''last_error'')" and "is_str (dget result ''status'')" and "is_obj (dget result ''coder_run'')"
  using assms by (auto simp: build_coder_result_from_response_def bind_res_Inr_iff Let_def is_str_def is_obj_def)

lemma result_fields_setdefault [simp]:
  "k \<noteq> j \<Longrightarrow> dget (dsetdefault k v d) j = dget d j"
  by (simp add: dsetdefault_def)

lemma join_strs_all: "list_all is_str xs \<Longrightarrow> \<exists>s. join_strs sep xs = Inr s"
  by (simp add: join_strs_def)

lemma coder_summary_total:
  assumes "is_str (dget result ''last_error'')"
  shows "\<exists>s. build_coder_summary run_id task repo e p m result = Inr s"
  unfolding build_coder_summary_def Let_def
  by (rule join_strs_all) (use assms in \<open>auto simp: list_all_iff is_str_def\<close>)

definition run_phase_of :: "string \<Rightarrow> string" where
  "run_phase_of tandem_status = (if tandem_status = ''completed'' then ''handoff'' else ''coder_execution'')"

lemma ending_total:
  assumes "is_str (dget result ''last_error'')"
  shows "\<exists>e. ending_of cfg run_id status task repo result = Inr e \<and>
    sg_run_status (en_changes e) = Some (terminal_status_of (normalize_status (dget result ''status''))) \<and>
    sg_run_completed (en_changes e)"
proof (cases "normalize_status (dget result ''status'') = ''completed''")
  case True
  from coder_summary_total [OF assms] obtain s where
    "build_coder_summary run_id task repo
      (first_nonempty [str_or_empty (dget (section_of status ''engine'') ''version''), ''unknown''])
      (first_nonempty [str_or_empty (dget (section_of status ''provider'') ''id''), cc_provider_id cfg])
      (first_nonempty [str_or_empty (dget (section_of status ''provider'') ''model''), cc_provider_model cfg]) result = Inr s" ..
  with True show ?thesis by (simp add: ending_of_def Let_def)
next
  case False
  then show ?thesis by (simp add: ending_of_def Let_def blocked_summary_no_workers)
qed

subsection \<open>The store\<close>

lemma enqueue_frame [simp]:
  "db_tasks (snd (enqueue_outbox now m d)) = db_tasks d" "db_leases (snd (enqueue_outbox now m d)) = db_leases d"
  "db_workers (snd (enqueue_outbox now m d)) = db_workers d" "db_runs (snd (enqueue_outbox now m d)) = db_runs d"
  by (simp_all add: enqueue_outbox_def Let_def)

lemma enqueue_all_frame [simp]:
  "db_tasks (enqueue_all now ms d) = db_tasks d" "db_leases (enqueue_all now ms d) = db_leases d"
  "db_workers (enqueue_all now ms d) = db_workers d" "db_runs (enqueue_all now ms d) = db_runs d"
  unfolding enqueue_all_def by (induction ms arbitrary: d) simp_all

lemma schema_ok_enqueue_all: "schema_ok d \<Longrightarrow> schema_ok (enqueue_all now ms d)"
  unfolding enqueue_all_def by (induction ms arbitrary: d) (simp_all add: schema_ok_enqueue)

lemma release_keeps_runs [simp]: "db_runs (snd (release_lease now i st r d)) = db_runs d"
  by (simp add: release_lease_def Let_def split: option.split)

lemma transition_frame:
  assumes "\<not> ta_clear_claim a"
  shows "db_leases (snd (transition_task_state now key st a d)) = db_leases d"
    "db_workers (snd (transition_task_state now key st a d)) = db_workers d"
    "db_runs (snd (transition_task_state now key st a d)) = db_runs d"
  using assms by (simp_all add: transition_task_state_def apply_task_state_eq transitioned_def Let_def split: option.split)

lemma owner_args_keep [simp]: "\<not> ta_clear_claim (owner_args st run l w h e r)"
  by (simp add: owner_args_def no_args_def)

lemma update_run_row:
  assumes "get_run run_id d = Some r"
  shows "update_run now run_id c d = (Some (change_run now c r),
    d\<lparr>db_runs := upd_where (\<lambda>r. r_run_id r = run_id) (change_run now c) (db_runs d)\<rparr>)"
  using assms by (simp add: update_run_def get_run_def Let_def row_by_upd_key)

lemma change_run_fields:
  "r_status (change_run now c r) = (case rc_status c of Some v \<Rightarrow> v | None \<Rightarrow> r_status r)"
  "r_error (change_run now c r) = (case rc_error c of Some v \<Rightarrow> Some v | None \<Rightarrow> r_error r)"
  "r_completed_at (change_run now c r) = (if rc_completed c then Some now else r_completed_at r)"
  "r_task_key (change_run now c r) = r_task_key r" "r_worker_id (change_run now c r) = r_worker_id r"
  "r_host_id (change_run now c r) = r_host_id r"
  "r_lease_id (change_run now c r) = (case rc_lease_id c of Some v \<Rightarrow> Some v | None \<Rightarrow> r_lease_id r)"
  by (simp_all add: change_run_def set_opt_def split: option.split)

lemma touch_terminal:
  assumes "get_run run_id d = Some r" and "status \<noteq> ''running''"
  shows "touch_coordination now ttl run_id status phase err completed supervision d =
    (Some (change_run now (touch_changes status phase err completed supervision (Some r)) r),
     d\<lparr>db_runs := upd_where (\<lambda>r. r_run_id r = run_id)
       (change_run now (touch_changes status phase err completed supervision (Some r))) (db_runs d)\<rparr>)"
  using assms by (simp add: touch_coordination_def update_run_row Let_def)

lemma touch_lease_kept: "rc_lease_id (touch_changes st phase err completed supervision x) = None"
  by (simp add: touch_changes_def no_changes_def)

lemma context_after_touch:
  "coordination_context status (Some (change_run now (touch_changes st phase err completed supervision x) r))
     = coordination_context status (Some r)"
  by (simp add: coordination_context_def change_run_fields touch_lease_kept Let_def)

lemma context_after_status:
  "coordination_context (update_status now c status) x = coordination_context status x"
  by (simp add: coordination_context_def section_of_def update_status_frame Let_def)

lemma lease_status_states:
  "task_state_from_lease_status ''completed'' = ''done''" "task_state_from_lease_status ''cancelled'' = ''blocked''"
  "task_state_from_lease_status ''blocked'' = ''blocked''"
  by code_simp+

definition settled_state :: "string \<Rightarrow> string" where
  "settled_state terminal = (if terminal = ''completed'' then ''done'' else ''blocked'')"

lemma terminal_status_cases: "terminal_status_of st \<in> {''completed'', ''cancelled'', ''blocked''}"
  by (simp add: terminal_status_of_def)

lemma terminal_status_facts:
  "terminal_status_of st \<noteq> active" "terminal_status_of st \<noteq> ''running''"
  "task_state_from_lease_status (terminal_status_of st) = settled_state (terminal_status_of st)"
  using terminal_status_cases [of st] lease_status_states by (auto simp: settled_state_def)

lemma mark_states: "normalize_task_state ''done'' = ''done''" "normalize_task_state ''blocked'' = ''blocked''"
  by code_simp+

text \<open>The transition writes the run's own lease into the task, which lets the release clear it.\<close>

lemma marked_task:
  assumes "row_by t_key key (db_tasks d) = Some t" and "key \<noteq> []"
    and "ci_task_key ids = key" and "ci_lease_id ids = i" and "i \<noteq> []"
    and d1: "d1 = (if terminal = ''completed''
     then snd (mark_task_done now key run_id (str_or_none i) worker host (Some ''coder workflow completed'') d)
     else snd (mark_task_blocked now key run_id (str_or_none i) worker host (Some detail) d))"
  shows "\<exists>t1. row_by t_key key (db_tasks d1) = Some t1 \<and> t_claimed_lease_id t1 = Some i \<and> t_state t1 = settled_state terminal"
    and "db_leases d1 = db_leases d" and "db_workers d1 = db_workers d" and "db_runs d1 = db_runs d"
    and "schema_ok d \<Longrightarrow> schema_ok d1"
  using assms(1,5) unfolding d1 mark_task_done_def mark_task_blocked_def
  by (simp_all add: transition_frame schema_ok_transition)
     (simp_all add: transition_task_state_def apply_task_state_eq transitioned_def Let_def row_by_upd_key
        transition_row_def owner_args_def no_args_def coalesce_def str_or_none_def settled_state_def mark_states)

lemma settle_task_eq:
  assumes "key \<noteq> []" and "i \<noteq> []" and "ci_task_key ids = key" and "ci_lease_id ids = i"
  shows "settle_task now run_id terminal detail ids d = snd (release_lease now i terminal (Some detail)
    (if terminal = ''completed''
     then snd (mark_task_done now key run_id (str_or_none i) (str_or_none (ci_worker_id ids)) (str_or_none (ci_host_id ids))
       (Some ''coder workflow completed'') d)
     else snd (mark_task_blocked now key run_id (str_or_none i) (str_or_none (ci_worker_id ids)) (str_or_none (ci_host_id ids))
       (Some detail) d)))"
  using assms by (simp add: settle_task_def Let_def)

lemma settle_effect:
  assumes "schema_ok d" and "row_by l_lease_id i (db_leases d) = Some l" and "lease_active l"
    and "row_by t_key (l_task_key l) (db_tasks d) = Some t" and "l_task_key l \<noteq> []" and "i \<noteq> []"
    and "ci_task_key ids = l_task_key l" and "ci_lease_id ids = i"
    and settled: "d' = settle_task now run_id (terminal_status_of st) detail ids d"
  shows "\<exists>t'. row_by t_key (l_task_key l) (db_tasks d') = Some t' \<and>
      t_state t' = settled_state (terminal_status_of st) \<and> t_claimed_lease_id t' = None"
    and "row_by l_lease_id i (db_leases d') = Some (end_lease now (terminal_status_of st) (Some detail) l)"
    and "\<forall>x\<in>set (db_leases d'). l_task_key x = l_task_key l \<longrightarrow> \<not> lease_active x"
    and "\<forall>w. row_by w_worker_id (l_worker_id l) (db_workers d') = Some w \<longrightarrow> w_current_lease_id w = None"
    and "db_runs d' = db_runs d"
proof -
  let ?st = "terminal_status_of st" and ?key = "l_task_key l"
  define d1 where "d1 = (if ?st = ''completed''
     then snd (mark_task_done now ?key run_id (str_or_none i) (str_or_none (ci_worker_id ids)) (str_or_none (ci_host_id ids))
       (Some ''coder workflow completed'') d)
     else snd (mark_task_blocked now ?key run_id (str_or_none i) (str_or_none (ci_worker_id ids)) (str_or_none (ci_host_id ids))
       (Some detail) d))"
  note m = marked_task [OF assms(4,5,7,8,6) d1_def]
  have d': "d' = snd (release_lease now i ?st (Some detail) d1)"
    unfolding settled d1_def using assms(5-8) by (intro settle_task_eq)
  have l: "row_by l_lease_id i (db_leases d1) = Some l" using assms(2) m(2) by simp
  have ok: "schema_ok d1" using m(5) assms(1) by simp
  note rel = released_store [OF ok l assms(3), of now ?st "Some detail", folded d']
  obtain t1 where "row_by t_key ?key (db_tasks d1) = Some t1" "t_claimed_lease_id t1 = Some i"
    using m(1) by blast
  then show "\<exists>t'. row_by t_key ?key (db_tasks d') = Some t' \<and> t_state t' = settled_state ?st \<and> t_claimed_lease_id t' = None"
    by (simp add: rel row_by_upd_key set_task_state_def clear_claim_of_def terminal_status_facts)
  show "row_by l_lease_id i (db_leases d') = Some (end_lease now ?st (Some detail) l)"
    using l by (simp add: rel row_by_upd_key end_lease_def)
  show "\<forall>x\<in>set (db_leases d'). l_task_key x = ?key \<longrightarrow> \<not> lease_active x"
    using ended_lease_none_active [OF ok l assms(3) terminal_status_facts(1)] by (simp add: rel)
  show "\<forall>w. row_by w_worker_id (l_worker_id l) (db_workers d') = Some w \<longrightarrow> w_current_lease_id w = None"
    by (auto simp: rel row_by_upd_key)
  show "db_runs d' = db_runs d" using m(4) by (simp add: rel)
qed

subsection \<open>A run that ended\<close>

lemma section_of_run [simp]:
  "section_of (update_status now c status) ''run'' = updated_run now c (section_of status ''run'')"
  by (simp add: section_of_def)

lemma ended_run_not_executing:
  assumes "sg_run_status c = Some (terminal_status_of st)"
  shows "\<not> is_coder_execution (update_status now c status) bb"
proof -
  have "normalize_status (JStr x) \<notin> set NON_TERMINAL_RUN_STATUSES" if "x \<in> {''completed'', ''cancelled'', ''blocked''}" for x
    using that by (elim insertE emptyE; hypsubst) (code_simp)+
  then have "\<not> List.member NON_TERMINAL_RUN_STATUSES (normalize_status (JStr (terminal_status_of st)))"
    using terminal_status_cases [of st] by (simp add: List.member_iff)
  with assms show ?thesis by (simp add: is_coder_execution_def updated_run_fields)
qed

text \<open>What applying an end yields: the parts of the new state the properties read.\<close>

lemma apply_terminal_result:
  assumes "is_str (dget result ''last_error'')" and "normalize_status (dget result ''status'') = st"
    and "get_run run_id (cr_db s) = Some r" and "coordination_context (cr_status s) (Some r) = ids"
  shows "\<exists>answer s' (e::ending) d1. apply_terminal now cfg run_id result s = Inr (answer, s') \<and>
    dget answer ''status'' = JStr (terminal_status_of st) \<and> dget answer ''terminal'' = JBool True \<and>
    cr_status s' = update_status now (en_changes e) (cr_status s) \<and>
    sg_run_status (en_changes e) = Some (terminal_status_of st) \<and> sg_run_completed (en_changes e) \<and>
    d1 = (cr_db s)\<lparr>db_runs := upd_where (\<lambda>r. r_run_id r = run_id) (change_run now
       (touch_changes (terminal_status_of st) (run_phase_of st)
         (if terminal_status_of st = ''completed'' then None else Some (en_detail e)) True
         (supervision_payload now (coder_run_id run_id [(''coder_run'', JObj (obj_of (dget result ''coder_run'')))]) st
            (lower (nonempty (dget result ''phase''))) ''terminal'' (nonempty (dget result ''last_error'')) True None) (Some r)))
       (db_runs (cr_db s))\<rparr> \<and>
    cr_db s' = enqueue_all now (finalize_messages cfg (first_obj (dget (cr_status s) ''task'') (dget (cr_blackboard s) ''task'') JNull)
        run_id (if st = ''completed'' then ''completed'' else ''blocked'') (en_summary e))
      (settle_task now run_id (terminal_status_of st) (en_detail e) ids d1)"
proof -
  obtain e where e: "ending_of cfg run_id (cr_status s) (first_obj (dget (cr_status s) ''task'') (dget (cr_blackboard s) ''task'') JNull)
      (first_obj (dget (cr_status s) ''repo'') (dget (cr_blackboard s) ''repo'') JNull) result = Inr e"
    and run: "sg_run_status (en_changes e) = Some (terminal_status_of st)" "sg_run_completed (en_changes e)"
    using ending_total [OF assms(1)] assms(2) by blast
  let ?task = "first_obj (dget (cr_status s) ''task'') (dget (cr_blackboard s) ''task'') JNull"
  define sup where "sup = supervision_payload now (coder_run_id run_id [(''coder_run'', JObj (obj_of (dget result ''coder_run'')))]) st
     (lower (nonempty (dget result ''phase''))) ''terminal'' (nonempty (dget result ''last_error'')) True None"
  define d1 where "d1 = (cr_db s)\<lparr>db_runs := upd_where (\<lambda>r. r_run_id r = run_id) (change_run now
     (touch_changes (terminal_status_of st) (run_phase_of st)
       (if terminal_status_of st = ''completed'' then None else Some (en_detail e)) True sup (Some r))) (db_runs (cr_db s))\<rparr>"
  define d3 where "d3 = enqueue_all now (finalize_messages cfg ?task run_id (if st = ''completed'' then ''completed'' else ''blocked'')
     (en_summary e)) (settle_task now run_id (terminal_status_of st) (en_detail e) ids d1)"
  define bb where "bb = supervised_blackboard now sup (dset ''artifacts''
     (py_or (dget result ''artifacts'') (py_or (dget (cr_blackboard s) ''artifacts'') (JList [])))
     (dset ''coder_run'' (JObj (obj_of (dget result ''coder_run''))) (cr_blackboard s)))"
  define s' where "s' = add_event (if terminal_status_of st = ''completed'' then ''run.completed'' else ''run.blocked'')
     [(''kind'', JStr ''coder''), (''supervised'', JBool True), (''tandem_status'', JStr st)]
     (s\<lparr>cr_blackboard := bb, cr_status := update_status now (en_changes e) (cr_status s), cr_db := d3,
        cr_summary := run_text (en_summary e)\<rparr>)"
  have "apply_terminal now cfg run_id result s = Inr (coder_answer run_id (terminal_status_of st) True sup, s')"
    unfolding apply_terminal_def Let_def assms(2) e bind_res_simps
    by (simp add: touch_terminal [OF assms(3) terminal_status_facts(2)] context_after_status context_after_touch assms(4)
        s'_def d3_def d1_def bb_def sup_def run_phase_of_def)
  then show ?thesis
    using run by (intro exI [of _ "coder_answer run_id (terminal_status_of st) True sup"] exI [of _ s'] exI [of _ e]
        exI [of _ d1]) (simp add: coder_answer_def s'_def d3_def d1_def sup_def add_event_def)
qed

text \<open>A lease that was lost meanwhile is not released, and the task is moved all the same.\<close>

lemma settle_late:
  assumes "\<forall>l. row_by l_lease_id i (db_leases d) = Some l \<longrightarrow> \<not> lease_active l"
    and "row_by t_key key (db_tasks d) = Some t" and "key \<noteq> []" and "i \<noteq> []"
    and "ci_task_key ids = key" and "ci_lease_id ids = i"
    and settled: "d' = settle_task now run_id terminal detail ids d"
  shows "\<exists>t'. row_by t_key key (db_tasks d') = Some t' \<and> t_claimed_lease_id t' = Some i \<and> t_state t' = settled_state terminal"
    and "db_leases d' = db_leases d"
proof -
  define d1 where "d1 = (if terminal = ''completed''
     then snd (mark_task_done now key run_id (str_or_none i) (str_or_none (ci_worker_id ids)) (str_or_none (ci_host_id ids))
       (Some ''coder workflow completed'') d)
     else snd (mark_task_blocked now key run_id (str_or_none i) (str_or_none (ci_worker_id ids)) (str_or_none (ci_host_id ids))
       (Some detail) d))"
  note m = marked_task [OF assms(2,3,5,6,4) d1_def]
  have "snd (release_lease now i terminal (Some detail) d1) = d1"
    using assms(1) m(2) by (simp add: release_lease_def get_lease_def split: option.split)
  moreover have "d' = snd (release_lease now i terminal (Some detail) d1)"
    unfolding settled d1_def using assms(3-6) by (intro settle_task_eq)
  ultimately have "d' = d1" by simp
  with m(1,2) show "\<exists>t'. row_by t_key key (db_tasks d') = Some t' \<and> t_claimed_lease_id t' = Some i \<and> t_state t' = settled_state terminal"
    and "db_leases d' = db_leases d" by simp_all
qed

lemma settle_keeps_runs: "db_runs (settle_task now run_id terminal detail ids d) = db_runs d"
  by (simp add: settle_task_def Let_def mark_task_done_def mark_task_blocked_def transition_frame)

subsection \<open>Reconciling\<close>

lemma cancel_after_update [simp]: "cancel_reason_of cfg (update_status now c status) reason = cancel_reason_of cfg status reason"
  by (simp add: cancel_reason_of_def update_status_frame)

text \<open>An executing run whose cancellation, if any, went through is given the engine's answer.\<close>

lemma reconcile_answered:
  assumes "is_coder_execution (cr_status s) (cr_blackboard s)" and "ea_cancel ea = None" and "ea_run ea = Inr (JObj response)"
    and "build_coder_result_from_response (coder_run_id run_id (cr_blackboard s)) response = Inr result"
  shows "\<exists>result'. reconcile_coder_run now cfg run_id reason ea s = apply_coder_result now cfg run_id result' s \<and>
    (\<forall>k. k \<noteq> ''cancel_requested_at_ms'' \<longrightarrow> dget result' k = dget result k)"
  using assms
  by (intro exI [of _ "case (if cancel_reason_of cfg (cr_status s) reason \<noteq> None then Some now else None) of
        Some t \<Rightarrow> dsetdefault ''cancel_requested_at_ms'' (JInt t) result | None \<Rightarrow> result"])
     (simp add: reconcile_coder_run_def Let_def split: option.splits)

lemma reconcile_terminal:
  assumes "is_coder_execution (cr_status s) (cr_blackboard s)" and "ea_cancel ea = None" and "ea_run ea = Inr (JObj response)"
    and "build_coder_result_from_response (coder_run_id run_id (cr_blackboard s)) response = Inr result"
    and "List.member TERMINAL_CODER_STATUSES (normalize_status (dget result ''status''))"
  shows "\<exists>result'. reconcile_coder_run now cfg run_id reason ea s = apply_terminal now cfg run_id result' s \<and>
    is_str (dget result' ''last_error'') \<and> normalize_status (dget result' ''status'') = normalize_status (dget result ''status'')"
proof -
  from reconcile_answered [OF assms(1-4), of now cfg reason] obtain result' where
    r: "reconcile_coder_run now cfg run_id reason ea s = apply_coder_result now cfg run_id result' s"
    and same: "\<And>k. k \<noteq> ''cancel_requested_at_ms'' \<Longrightarrow> dget result' k = dget result k" by blast
  show ?thesis
    using r assms(5) coder_result_texts(1) [OF assms(4)]
    by (intro exI [of _ result']) (simp add: same apply_coder_result_def Let_def)
qed

lemma reconcile_ended:
  assumes "\<not> is_coder_execution (cr_status s) (cr_blackboard s)"
  shows "\<exists>a. reconcile_coder_run now cfg run_id None ea s = Inr (a, s)"
  using assms by (simp add: reconcile_coder_run_def Let_def text_arg_def)

subsection \<open>The row of a run\<close>

lemma completed_is_terminal:
  "List.member TERMINAL_CODER_STATUSES ''completed''" "terminal_status_of ''completed'' = ''completed''"
  by code_simp+

lemma heartbeat_keeps_runs [simp]: "db_runs (snd (heartbeat_lease now i ttl d)) = db_runs d"
  by (simp add: heartbeat_lease_def Let_def split: option.split)

lemma touch_row:
  assumes "get_run run_id d = Some r"
  shows "get_run run_id (snd (touch_coordination now ttl run_id status phase err completed sv d)) =
    Some (change_run now (touch_changes status phase err completed sv (Some r)) r)"
  using assms by (simp add: touch_coordination_def update_run_row get_run_def Let_def row_by_upd_key)

lemma touch_fields:
  "rc_status (touch_changes status phase err completed sv x) = Some status"
  "rc_error (touch_changes status phase err completed sv x) = err"
  "rc_completed (touch_changes status phase err completed sv x) = completed"
  by (simp_all add: touch_changes_def no_changes_def)

lemma terminal_run_row:
  assumes "is_str (dget result ''last_error'')" and "normalize_status (dget result ''status'') = st"
    and "get_run run_id (cr_db s) = Some r"
  shows "\<exists>a s' r'. apply_terminal now cfg run_id result s = Inr (a, s') \<and> get_run run_id (cr_db s') = Some r' \<and>
    r_status r' = terminal_status_of st \<and> r_completed_at r' = Some now \<and>
    (terminal_status_of st = ''completed'' \<longrightarrow> r_error r' = r_error r)"
proof -
  obtain a s' and e :: ending and d1 where app: "apply_terminal now cfg run_id result s = Inr (a, s')"
    and d1: "\<exists>sv. d1 = (cr_db s)\<lparr>db_runs := upd_where (\<lambda>r. r_run_id r = run_id) (change_run now
        (touch_changes (terminal_status_of st) (run_phase_of st)
          (if terminal_status_of st = ''completed'' then None else Some (en_detail e)) True sv (Some r))) (db_runs (cr_db s))\<rparr>"
    and db: "\<exists>ms ids. cr_db s' = enqueue_all now ms (settle_task now run_id (terminal_status_of st) (en_detail e) ids d1)"
    using apply_terminal_result [OF assms refl, of now cfg] by blast
  have "db_runs (cr_db s') = db_runs d1" using db settle_keeps_runs by auto
  then show ?thesis
    using app d1 assms(3) by (auto simp: get_run_def row_by_upd_key change_run_fields touch_fields)
qed

lemma poll_error_row:
  assumes "get_run run_id (cr_db s) = Some r" and "poll_error now cfg run_id crid message c s = (a, s')"
  shows "\<exists>r'. get_run run_id (cr_db s') = Some r' \<and> r_error r' = Some message"
  using assms(2) touch_row [OF assms(1)]
  by (auto simp: poll_error_def Let_def split_beta add_event_def change_run_fields touch_fields)

lemma saved_blackboard_get [simp]:
  "k \<noteq> ''coder_supervision'' \<Longrightarrow> k \<noteq> ''updated_at_ms'' \<Longrightarrow> dget (supervised_blackboard now sv bb) k = dget bb k"
  by (simp add: supervised_blackboard_def saved_blackboard_def)

lemma working_run_executing:
  assumes "is_coder_execution status bb"
  shows "is_coder_execution (update_status now (working_changes message) status) (supervised_blackboard now sv bb)"
proof -
  have "List.member NON_TERMINAL_RUN_STATUSES (normalize_status (JStr ''running''))"
    "strip ''coder_execution'' = ''coder_execution''" by code_simp+
  with assms show ?thesis
    by (simp add: is_coder_execution_def updated_run_fields updated_phase_fields working_changes_def no_status_changes_def
        split: json.splits)
qed

lemma poll_error_state:
  assumes "poll_error now cfg run_id crid message c s = (a, s')"
  shows "is_coder_execution (cr_status s) (cr_blackboard s) \<Longrightarrow> is_coder_execution (cr_status s') (cr_blackboard s')"
    and "coder_run_id run_id (cr_blackboard s') = coder_run_id run_id (cr_blackboard s)"
  using assms working_run_executing
  by (auto simp: poll_error_def Let_def split_beta add_event_def coder_run_id_def)

section \<open>Properties\<close>


definition demo_coder_cfg :: coder_config where
  "demo_coder_cfg = \<lparr>cc_supervisor = watch_cfg, cc_tracker = \<lparr>tk_github_enabled = True, tk_github_scope = ''always'',
      tk_github_sync = ''status_comment'', tk_linear_enabled = True, tk_linear_scope = ''always'', tk_linear_sync = ''rich'',
      tk_claim_status = [], tk_review_status = [], tk_blocked_status = [], tk_done_status = [], tk_blocked_label = ''blocked''\<rparr>,
     cc_lease_ttl = 300, cc_provider_id = ''p'', cc_provider_model = ''m'', cc_cancel_on_source_terminal = True, cc_batch_size = 100\<rparr>"

definition demo_status :: obj where
  "demo_status = [(''run'', JObj [(''status'', JStr ''running'')]), (''phase'', JObj [(''name'', JStr ''coder_execution'')]),
     (''task'', JObj demo_task)]"

definition demo_blackboard :: obj where
  "demo_blackboard = [(''execution_backend'', JStr ''coder'')]"

definition demo_coder_state :: "db \<Rightarrow> coder_state" where
  "demo_coder_state d = \<lparr>cr_status = demo_status, cr_blackboard = demo_blackboard, cr_summary = [], cr_events = [], cr_db = d\<rparr>"

definition demo_answers :: "string \<Rightarrow> engine_answers" where
  "demo_answers st = \<lparr>ea_cancel = None, ea_run = Inr (JObj [(''run'', JObj [(''status'', JStr st)])])\<rparr>"

lemma demo_files:
  "cr_status (demo_coder_state d) = demo_status" "cr_blackboard (demo_coder_state d) = demo_blackboard"
  "cr_db (demo_coder_state d) = d"
  by (simp_all add: demo_coder_state_def)

lemma demo_run_row:
  "\<exists>r. get_run ''r1'' demo_db = Some r \<and> r_task_key r = Some demo_key \<and> r_lease_id r = Some (new_lease_id ''00000001'')"
  using grant_claim_result(5) [OF _ demo_grant, of "''r1''"]
  by (simp add: get_run_def has_key_def empty_db_def Let_def claim_run_row_def demo_claim_def demo_payload_def)

lemma demo_context:
  assumes "r_task_key r = Some demo_key" and "r_lease_id r = Some (new_lease_id ''00000001'')"
  shows "ci_task_key (coordination_context demo_status (Some r)) = demo_key"
    and "ci_lease_id (coordination_context demo_status (Some r)) = new_lease_id ''00000001''"
proof -
  have "strip demo_key = demo_key" "strip (new_lease_id ''00000001'') = new_lease_id ''00000001''"
      "section_of demo_status ''coordination'' = []"
    by code_simp+
  with assms show "ci_task_key (coordination_context demo_status (Some r)) = demo_key"
    and "ci_lease_id (coordination_context demo_status (Some r)) = new_lease_id ''00000001''"
    by (simp_all add: coordination_context_def Let_def str_or_empty_def text_arg_def)
qed

lemma demo_ids_given: "demo_key \<noteq> []" "new_lease_id ''00000001'' \<noteq> []"
  by (simp_all add: demo_key_def new_lease_id_def)

lemma demo_answered:
  "ea_cancel (demo_answers st) = None" "ea_run (demo_answers st) = Inr (JObj [(''run'', JObj [(''status'', JStr st)])])"
  by (simp_all add: demo_answers_def)

lemma completed_norm: "normalize_status (JStr ''completed'') = ''completed''"
    "settled_state (terminal_status_of ''completed'') = ''done''"
  by code_simp+

lemma demo_executing: "is_coder_execution demo_status demo_blackboard"
  by code_simp

lemma demo_answer_built:
  "build_coder_result_from_response (coder_run_id ''r1'' demo_blackboard)
     [(''run'', JObj [(''status'', JStr ''completed'')])] =
   Inr [(''run_response'', JObj [(''run'', JObj [(''status'', JStr ''completed'')])]),
     (''coder_run'', JObj [(''coder_run_id'', JStr ''r1''), (''status'', JStr ''completed''), (''phase'', JStr [])]),
     (''run'', JObj [(''status'', JStr ''completed'')]), (''artifacts'', JList []), (''status'', JStr ''completed''),
     (''phase'', JStr []), (''last_error'', JStr [])]"
  by code_simp


text \<open>
An old error outlives success. A query that failed writes its message into the run's row; when the
next query says the workflow completed, the row is \<open>completed\<close> and still holds that message, because the
final update passes no error and the store leaves a column without an argument as it is.
\<close>

theorem completed_run_keeps_error:
  assumes "is_coder_execution (cr_status s) (cr_blackboard s)" and "get_run run_id (cr_db s) = Some r"
    and "cancel_reason_of cfg (cr_status s) None = None"
    and "ea_run ea1 = Inl message" and "ea_cancel ea2 = None" and "ea_run ea2 = Inr (JObj response)"
    and "build_coder_result_from_response (coder_run_id run_id (cr_blackboard s)) response = Inr result"
    and "normalize_status (dget result ''status'') = ''completed''"
  shows "\<exists>a1 s1 a2 s2 r2. reconcile_coder_run t1 cfg run_id None ea1 s = Inr (a1, s1) \<and>
    reconcile_coder_run t2 cfg run_id None ea2 s1 = Inr (a2, s2) \<and>
    get_run run_id (cr_db s2) = Some r2 \<and> r_status r2 = ''completed'' \<and> r_error r2 = Some message"
proof -
  let ?crid = "coder_run_id run_id (cr_blackboard s)"
  obtain a1 s1 where poll: "poll_error t1 cfg run_id ?crid message None s = (a1, s1)" by (meson surj_pair)
  have rec1: "reconcile_coder_run t1 cfg run_id None ea1 s = Inr (a1, s1)"
    using assms(1,3,4) poll by (simp add: reconcile_coder_run_def Let_def)
  obtain r1 where r1: "get_run run_id (cr_db s1) = Some r1" "r_error r1 = Some message"
    using poll_error_row [OF assms(2) poll] by blast
  note same = poll_error_state [OF poll]
  have exec: "is_coder_execution (cr_status s1) (cr_blackboard s1)" by (rule same(1) [OF assms(1)])
  have "build_coder_result_from_response (coder_run_id run_id (cr_blackboard s1)) response = Inr result"
    using assms(7) same(2) by simp
  then obtain result' where rec2: "reconcile_coder_run t2 cfg run_id None ea2 s1 = apply_terminal t2 cfg run_id result' s1"
    and res: "is_str (dget result' ''last_error'')" "normalize_status (dget result' ''status'') = ''completed''"
    using reconcile_terminal [OF exec assms(5,6)] assms(8) completed_is_terminal by metis
  have "\<exists>a2 s2 r2. apply_terminal t2 cfg run_id result' s1 = Inr (a2, s2) \<and> get_run run_id (cr_db s2) = Some r2 \<and>
      r_status r2 = ''completed'' \<and> r_error r2 = Some message"
    using terminal_run_row [OF res(1) refl r1(1), of t2 cfg] r1(2) res(2) completed_is_terminal(2) by (auto simp: res(2))
  with rec1 rec2 show ?thesis by metis
qed

lemma completed_run_keeps_error_witness:
  "\<exists>s1 a1 s2 a2 r2. reconcile_coder_run 5000 demo_coder_cfg ''r1'' None \<lparr>ea_cancel = None, ea_run = Inl ''timed out''\<rparr>
       (demo_coder_state demo_db) = Inr (a1, s1) \<and>
     reconcile_coder_run 6000 demo_coder_cfg ''r1'' None (demo_answers ''completed'') s1 = Inr (a2, s2) \<and>
     get_run ''r1'' (cr_db s2) = Some r2 \<and> r_error r2 = Some ''timed out''"
proof -
  obtain r where r: "get_run ''r1'' demo_db = Some r"
    using demo_run_row by blast
  have no: "cancel_reason_of demo_coder_cfg demo_status None = None" by code_simp
  have err: "ea_run \<lparr>ea_cancel = None, ea_run = Inl ''timed out''\<rparr> = Inl ''timed out''" by simp
  from completed_run_keeps_error [where s = "demo_coder_state demo_db", unfolded demo_files, 
      OF demo_executing r no err demo_answered demo_answer_built, of 5000 6000] completed_norm
  show ?thesis by fastforce
qed

text \<open>
C18. A late result overrides the owner. When the run's lease was lost and another worker holds the task,
the end of the run is applied all the same: the task moves to \<open>done\<close> or \<open>blocked\<close> and its claim
names the lost lease, while the other worker's lease stays active.
\<close>

theorem late_result_overrides_owner:
  assumes "is_coder_execution (cr_status s) (cr_blackboard s)" and "ea_cancel ea = None" and "ea_run ea = Inr (JObj response)"
    and "build_coder_result_from_response (coder_run_id run_id (cr_blackboard s)) response = Inr result"
    and "normalize_status (dget result ''status'') = st" and "List.member TERMINAL_CODER_STATUSES st"
    and "get_run run_id (cr_db s) = Some r" and "coordination_context (cr_status s) (Some r) = ids"
    and "\<forall>l. row_by l_lease_id (ci_lease_id ids) (db_leases (cr_db s)) = Some l \<longrightarrow> \<not> lease_active l"
    and "ci_lease_id ids \<noteq> []" and "ci_task_key ids \<noteq> []"
    and "row_by t_key (ci_task_key ids) (db_tasks (cr_db s)) = Some t"
    and "l_task_key owner = ci_task_key ids" and "lease_active owner"
    and "row_by l_lease_id (l_lease_id owner) (db_leases (cr_db s)) = Some owner"
  shows "\<exists>answer s' t'. reconcile_coder_run now cfg run_id reason ea s = Inr (answer, s') \<and>
    row_by t_key (ci_task_key ids) (db_tasks (cr_db s')) = Some t' \<and> t_state t' = settled_state (terminal_status_of st) \<and>
    t_claimed_lease_id t' = Some (ci_lease_id ids) \<and> owner \<in> set (db_leases (cr_db s')) \<and> l_lease_id owner \<noteq> ci_lease_id ids"
proof -
  obtain result' where rec: "reconcile_coder_run now cfg run_id reason ea s = apply_terminal now cfg run_id result' s"
    and res: "is_str (dget result' ''last_error'')" "normalize_status (dget result' ''status'') = st"
    using reconcile_terminal [OF assms(1-4)] assms(5,6) by blast
  obtain answer s' and e :: ending and d1 where app: "apply_terminal now cfg run_id result' s = Inr (answer, s')"
    and d1: "\<exists>f. d1 = (cr_db s)\<lparr>db_runs := upd_where (\<lambda>r. r_run_id r = run_id) f (db_runs (cr_db s))\<rparr>"
    and db: "\<exists>ms. cr_db s' = enqueue_all now ms (settle_task now run_id (terminal_status_of st) (en_detail e) ids d1)"
    using apply_terminal_result [OF res assms(7,8), of now cfg] by blast
  have tables: "db_leases d1 = db_leases (cr_db s)" "db_tasks d1 = db_tasks (cr_db s)" using d1 by auto
  note late = settle_late [of "ci_lease_id ids" d1 "ci_task_key ids" t ids, unfolded tables, OF assms(9,12,11,10) refl refl refl,
    of now run_id "terminal_status_of st" "en_detail e"]
  have "l_lease_id owner \<noteq> ci_lease_id ids" using assms(9,14,15) by auto
  with rec app late db row_by_SomeD [OF assms(15)] show ?thesis by auto
qed

text \<open>The first worker's lease expired; a second worker holds the task.\<close>

definition demo_late_db :: db where
  "demo_late_db = demo_db\<lparr>db_leases :=
     [stale_lease 301000 ''expired'' (claim_lease_row 1000 (new_lease_id ''00000001'') demo_task demo_payload (demo_claim ''r1'' ''w1'') 1),
      claim_lease_row 400000 (new_lease_id ''00000002'') demo_task demo_payload (demo_claim ''r2'' ''w2'') 2]\<rparr>"

lemma demo_late_rows:
  "\<exists>r t owner l. get_run ''r1'' demo_late_db = Some r \<and> r_task_key r = Some demo_key \<and>
     r_lease_id r = Some (new_lease_id ''00000001'') \<and> row_by t_key demo_key (db_tasks demo_late_db) = Some t \<and>
     row_by l_lease_id (new_lease_id ''00000001'') (db_leases demo_late_db) = Some l \<and> \<not> lease_active l \<and>
     row_by l_lease_id (new_lease_id ''00000002'') (db_leases demo_late_db) = Some owner \<and> lease_active owner \<and>
     l_task_key owner = demo_key \<and> l_lease_id owner = new_lease_id ''00000002''"
proof -
  have "new_lease_id ''00000001'' \<noteq> new_lease_id ''00000002''" by (simp add: new_lease_id_def)
  then show ?thesis
    using demo_run_row demo_task_row
    by (simp add: demo_late_db_def get_run_def stale_lease_def claim_lease_row_def lease_active_def demo_payload_def)
qed

lemma late_result_overrides_owner_witness:
  "\<exists>answer s' t'. reconcile_coder_run 500000 demo_coder_cfg ''r1'' None (demo_answers ''completed'')
       (demo_coder_state demo_late_db) = Inr (answer, s') \<and>
     row_by t_key demo_key (db_tasks (cr_db s')) = Some t' \<and> t_state t' = ''done'' \<and>
     t_claimed_lease_id t' = Some (new_lease_id ''00000001'')"
proof -
  obtain r t owner l where r: "get_run ''r1'' demo_late_db = Some r" "r_task_key r = Some demo_key"
      "r_lease_id r = Some (new_lease_id ''00000001'')" and t: "row_by t_key demo_key (db_tasks demo_late_db) = Some t"
    and l: "row_by l_lease_id (new_lease_id ''00000001'') (db_leases demo_late_db) = Some l" "\<not> lease_active l"
    and owner: "row_by l_lease_id (new_lease_id ''00000002'') (db_leases demo_late_db) = Some owner" "lease_active owner"
      "l_task_key owner = demo_key" "l_lease_id owner = new_lease_id ''00000002''"
    using demo_late_rows by blast
  let ?ids = "coordination_context demo_status (Some r)"
  note ctx = demo_context [OF r(2,3)]
  have rows: "\<forall>x. row_by l_lease_id (ci_lease_id ?ids) (db_leases demo_late_db) = Some x \<longrightarrow> \<not> lease_active x"
      "ci_lease_id ?ids \<noteq> []" "ci_task_key ?ids \<noteq> []" "row_by t_key (ci_task_key ?ids) (db_tasks demo_late_db) = Some t"
      "l_task_key owner = ci_task_key ?ids" "row_by l_lease_id (l_lease_id owner) (db_leases demo_late_db) = Some owner"
    unfolding ctx owner(3,4) using l t owner(1) demo_ids_given by simp_all
  from late_result_overrides_owner [where s = "demo_coder_state demo_late_db", unfolded demo_files,
      OF demo_executing demo_answered demo_answer_built _ completed_is_terminal(1) r(1) refl rows(1-5) owner(2) rows(6),
      of 500000 demo_coder_cfg None]
  show ?thesis unfolding ctx using completed_norm by auto
qed

end
