(* ===== verification/CoderFleet.thy ===== *)
theory CoderFleet imports CoderRuns begin

text \<open>
  The supervisor over all runs (src/tandem_agents/core/scheduling/coder_supervisor.py): which directories
  under the output root are runs it looks at, the batch it takes, and one pass over that batch. A run
  directory holds its files' values; a file that cannot be read is \<open>None\<close>. The text PyYAML writes for a
  blackboard, in which the supervisor searches its markers, is an argument.
\<close>

section \<open>Run directories\<close>

record run_dir =
  rd_name :: string
  rd_is_dir :: bool
  rd_mtime :: int
  rd_has_status :: bool
  rd_has_blackboard :: bool
  rd_status :: "json option"
  rd_blackboard :: "json option"
  rd_blackboard_text :: "string option"
  rd_summary :: string
  rd_events :: "(string \<times> obj) list"

definition BLACKBOARD_SUPERVISION_MARKERS :: "string list" where
  "BLACKBOARD_SUPERVISION_MARKERS = [''coder_run:'', ''execution_backend: coder'',
     ''execution_backend: '' @ [CHR 0x27] @ ''coder'' @ [CHR 0x27],
     ''execution_backend: '' @ [CHR 0x22] @ ''coder'' @ [CHR 0x22], ''pull_request_lifecycle:'']"

definition run_prefixes :: "string list" where
  "run_prefixes = [''run-'', ''sched-'', ''qa-'', ''bak-run-'']"

definition is_run_directory :: "run_dir \<Rightarrow> bool" where
  "is_run_directory d =
     (rd_is_dir d \<and> \<not> List.member [''state'', ''browser-tests''] (rd_name d)
      \<and> \<not> starts_with (rd_name d) ''_'' \<and> \<not> starts_with (rd_name d) ''.''
      \<and> list_ex (starts_with (rd_name d)) run_prefixes \<and> (rd_has_status d \<or> rd_has_blackboard d))"

definition load_status_safe :: "run_dir \<Rightarrow> obj" where
  "load_status_safe d = (if rd_has_status d then case rd_status d of Some (JObj s) \<Rightarrow> s | _ \<Rightarrow> [] else [])"

definition blackboard_has_supervision_marker :: "run_dir \<Rightarrow> bool" where
  "blackboard_has_supervision_marker d =
     (rd_has_blackboard d \<and> (case rd_blackboard_text d of
        Some t \<Rightarrow> list_ex (contains t) BLACKBOARD_SUPERVISION_MARKERS | None \<Rightarrow> False))"

text \<open>The blackboard is parsed only for a run that can matter.\<close>

definition worth_loading :: "run_dir \<Rightarrow> obj \<Rightarrow> bool" where
  "worth_loading d status =
     (let run_status = (case dget status ''run'' of JObj r \<Rightarrow> normalize_status (dget r ''status'') | _ \<Rightarrow> []);
          phase_name = (case dget status ''phase'' of JObj p \<Rightarrow> nonempty (dget p ''name'') | _ \<Rightarrow> [])
      in (List.member NON_TERMINAL_RUN_STATUSES run_status \<and> phase_name = ''coder_execution'')
         \<or> (List.member [''completed'', ''running''] run_status \<and> blackboard_has_supervision_marker d))"

definition load_blackboard_for_supervision :: "run_dir \<Rightarrow> obj \<Rightarrow> obj" where
  "load_blackboard_for_supervision d status =
     (if \<not> rd_has_blackboard d \<or> \<not> worth_loading d status then []
      else case rd_blackboard d of Some (JObj b) \<Rightarrow> b | _ \<Rightarrow> [])"

definition supervised_run :: "run_dir \<Rightarrow> bool" where
  "supervised_run d =
     (is_run_directory d
      \<and> (let status = load_status_safe d; bb = load_blackboard_for_supervision d status in
         is_coder_execution status bb \<or> is_pr_lifecycle_supervisable status bb))"

definition batch_size :: "int \<Rightarrow> int option \<Rightarrow> nat" where
  "batch_size configured cap =
     nat (max 1 (int_or (case cap of Some n \<Rightarrow> n | None \<Rightarrow> 0) (int_or configured 100)))"

definition active_item :: "run_dir \<Rightarrow> obj" where
  "active_item d =
     (let status = load_status_safe d; bb = load_blackboard_for_supervision d status;
          part = section_of status
      in [(''run_id'', JStr (rd_name d)), (''coder_run_id'', JStr (coder_run_id (rd_name d) bb)),
          (''task_title'', dget (part ''task'') ''title''), (''task_id'', dget (part ''task'') ''task_id''),
          (''task_key'', dget (part ''coordination'') ''task_key''), (''repo_slug'', dget (part ''repo'') ''slug''),
          (''repo_path'', dget (part ''repo'') ''path''), (''status'', dget (part ''run'') ''status''),
          (''phase'', dget (part ''phase'') ''name''), (''updated_at_ms'', dget (part ''run'') ''updated_at_ms''),
          (''coder_supervision'', JObj (section_of bb ''coder_supervision''))])"

text \<open>The newest directories come first; the loop stops once the batch is full.\<close>

fun collect_active :: "nat \<Rightarrow> run_dir list \<Rightarrow> run_dir list \<Rightarrow> run_dir list" where
  "collect_active room [] found = found"
| "collect_active room (d # ds) found =
     (if length found \<ge> room then found
      else if supervised_run d then collect_active room ds (found @ [d])
      else collect_active room ds found)"

definition active_dirs :: "nat \<Rightarrow> run_dir list \<Rightarrow> run_dir list" where
  "active_dirs room dirs = collect_active room (order_desc rd_mtime dirs) []"

definition list_active_coder_runs :: "int \<Rightarrow> int option \<Rightarrow> run_dir list \<Rightarrow> obj list" where
  "list_active_coder_runs configured cap dirs = map active_item (active_dirs (batch_size configured cap) dirs)"

definition executes_coder :: "run_dir \<Rightarrow> bool" where
  "executes_coder d =
     (is_run_directory d \<and> (case (dget (load_status_safe d) ''run'', dget (load_status_safe d) ''phase'') of
        (JObj run, JObj phase) \<Rightarrow> List.member NON_TERMINAL_RUN_STATUSES (normalize_status (dget run ''status''))
          \<and> nonempty (dget phase ''name'') = ''coder_execution''
      | _ \<Rightarrow> False))"

fun collect_refs :: "nat \<Rightarrow> run_dir list \<Rightarrow> obj list \<Rightarrow> obj list" where
  "collect_refs room [] refs = refs"
| "collect_refs room (d # ds) refs =
     (if length refs \<ge> room then refs
      else if executes_coder d then
        collect_refs room ds (refs @ [[(''run_id'', JStr (rd_name d)),
          (''task_id'', dget (section_of (load_status_safe d) ''task'') ''task_id''),
          (''task_key'', dget (section_of (load_status_safe d) ''coordination'') ''task_key'')]])
      else collect_refs room ds refs)"

definition list_active_coder_task_refs :: "int \<Rightarrow> int option \<Rightarrow> run_dir list \<Rightarrow> obj list" where
  "list_active_coder_task_refs configured cap dirs =
     collect_refs (batch_size configured cap) (order_desc rd_mtime dirs) []"

definition same_run_task :: "obj \<Rightarrow> obj \<Rightarrow> bool" where
  "same_run_task task item =
     (let key = nonempty (dget task ''task_key''); ident = nonempty (dget task ''task_id'') in
      (key \<noteq> [] \<and> str_or_empty (dget item ''task_key'') = key) \<or> (ident \<noteq> [] \<and> str_or_empty (dget item ''task_id'') = ident))"

definition task_has_active_coder_run :: "int \<Rightarrow> obj \<Rightarrow> run_dir list \<Rightarrow> bool" where
  "task_has_active_coder_run configured task dirs =
     list_ex (same_run_task task) (list_active_coder_runs configured None dirs)"

section \<open>One pass\<close>

record fleet =
  fl_dirs :: "run_dir list"
  fl_db :: db

text \<open>
  Reconciling a run reads its files and writes them back, which makes its directory the newest; a skipped
  run is left as it is. A file that does not parse raises.
\<close>

definition run_state_of :: "run_dir \<Rightarrow> db \<Rightarrow> coder_state res" where
  "run_state_of d db =
     (case (if rd_has_status d then rd_status d else Some (JObj []),
            if rd_has_blackboard d then rd_blackboard d else Some (JObj [])) of
        (Some status, Some bb) \<Rightarrow> Inr \<lparr>cr_status = obj_of status, cr_blackboard = obj_of bb, cr_summary = rd_summary d,
          cr_events = rd_events d, cr_db = db\<rparr>
      | _ \<Rightarrow> Inl (ValueError ''unreadable run file''))"

definition written_dir :: "(obj \<Rightarrow> string) \<Rightarrow> int \<Rightarrow> coder_state \<Rightarrow> run_dir \<Rightarrow> run_dir" where
  "written_dir yaml now s d =
     d\<lparr>rd_mtime := now, rd_has_status := True, rd_has_blackboard := True, rd_status := Some (JObj (cr_status s)),
       rd_blackboard := Some (JObj (cr_blackboard s)), rd_blackboard_text := Some (yaml (cr_blackboard s)),
       rd_summary := cr_summary s, rd_events := cr_events s\<rparr>"

definition was_skipped :: "obj \<Rightarrow> bool" where
  "was_skipped answer = (dget answer ''status'' = JStr ''skipped'')"

definition reconcile_dir ::
  "(obj \<Rightarrow> string) \<Rightarrow> int \<Rightarrow> coder_config \<Rightarrow> string option \<Rightarrow> engine_answers \<Rightarrow> string \<Rightarrow> fleet \<Rightarrow> (obj \<times> fleet) res" where
  "reconcile_dir yaml now cfg reason ea name f =
     (case row_by rd_name name (fl_dirs f) of
        None \<Rightarrow> Inr ([(''run_id'', JStr name), (''status'', JStr ''skipped''), (''reason'', JStr ''not_active_coder_execution'')], f)
      | Some d \<Rightarrow>
          bind_res (run_state_of d (fl_db f)) (\<lambda>s.
          bind_res (reconcile_coder_run now cfg name reason ea s) (\<lambda>(answer, s').
            Inr (answer, if was_skipped answer then f
              else f\<lparr>fl_dirs := upd_where (\<lambda>x. rd_name x = name) (written_dir yaml now s') (fl_dirs f), fl_db := cr_db s'\<rparr>))))"

text \<open>The first run that raises ends the pass; what was done before it stays.\<close>

fun reconcile_each ::
  "(obj \<Rightarrow> string) \<Rightarrow> int \<Rightarrow> coder_config \<Rightarrow> (string \<Rightarrow> engine_answers) \<Rightarrow> string list \<Rightarrow> fleet
   \<Rightarrow> py_error option \<times> obj list \<times> fleet" where
  "reconcile_each yaml now cfg ea [] f = (None, [], f)"
| "reconcile_each yaml now cfg ea (name # names) f =
     (case reconcile_dir yaml now cfg None (ea name) name f of
        Inl e \<Rightarrow> (Some e, [], f)
      | Inr (answer, f1) \<Rightarrow>
          (let (err, answers, f2) = reconcile_each yaml now cfg ea names f1 in (err, answer # answers, f2)))"

definition reconcile_active_coder_runs ::
  "(obj \<Rightarrow> string) \<Rightarrow> int \<Rightarrow> coder_config \<Rightarrow> int option \<Rightarrow> (string \<Rightarrow> engine_answers) \<Rightarrow> fleet
   \<Rightarrow> py_error option \<times> obj list \<times> fleet" where
  "reconcile_active_coder_runs yaml now cfg cap ea f =
     reconcile_each yaml now cfg ea (map rd_name (active_dirs (batch_size (cc_batch_size cfg) cap) (fl_dirs f))) f"

section \<open>Lemmas\<close>

lemma collect_active_eq:
  "length found \<le> room \<Longrightarrow>
     collect_active room ds found = found @ take (room - length found) (filter supervised_run ds)"
proof (induction ds arbitrary: found)
  case (Cons d ds)
  then show ?case by (cases "length found = room") (auto simp: Suc_diff_Suc take_Cons' not_le)
qed simp

lemma active_dirs_eq: "active_dirs room dirs = take room (filter supervised_run (order_desc rd_mtime dirs))"
  by (simp add: active_dirs_def collect_active_eq)

lemma newest_first:
  assumes "\<forall>x\<in>set xs. f x \<le> m"
  shows "order_desc f xs = filter (\<lambda>x. f x = m) xs @ order_desc f (filter (\<lambda>x. f x \<noteq> m) xs)"
proof -
  have "sort_key g xs = filter (\<lambda>x. g x = k) xs @ sort_key g (filter (\<lambda>x. g x \<noteq> k) xs)"
    if "\<forall>x\<in>set xs. k \<le> g x" for g :: "'a \<Rightarrow> int" and k
    using that
  proof (induction xs)
    case (Cons x xs)
    then have IH: "sort_key g xs = filter (\<lambda>x. g x = k) xs @ sort_key g (filter (\<lambda>x. g x \<noteq> k) xs)" by simp
    have low: "insort_key g x (ys @ zs) = ys @ insort_key g x zs" if "\<forall>y\<in>set ys. g y = k" "k < g x" for ys zs
      using that by (induction ys) auto
    have front: "insort_key g x ys = x # ys" if "g x = k" "\<forall>y\<in>set ys. k \<le> g y" for ys
      using that by (cases ys) auto
    show ?case
    proof (cases "g x = k")
      case True
      moreover have "\<forall>y\<in>set (sort_key g xs). k \<le> g y" using Cons.prems by simp
      ultimately show ?thesis using front IH by simp
    next
      case False
      then have "k < g x" using Cons.prems by auto
      then show ?thesis using low False IH by simp
    qed
  qed simp
  from this [of "- m" "\<lambda>x. - f x"] assms show ?thesis by (simp add: order_desc_def)
qed

text \<open>Once a full batch has been written at a time later than every other directory's, it is the batch again.\<close>

lemma batch_repeats:
  assumes "\<forall>d\<in>set dirs. rd_mtime d \<le> now" and "filter (\<lambda>d. rd_mtime d = now) dirs = batch"
    and "\<forall>d\<in>set batch. supervised_run d" and "length batch = room"
  shows "active_dirs room dirs = batch"
proof -
  have "filter supervised_run batch = batch" using assms(3) by (simp add: filter_id_conv)
  with assms(4) show ?thesis
    unfolding active_dirs_eq newest_first [OF assms(1)] assms(2) by simp
qed

subsection \<open>A run that still works\<close>

text \<open>The engine has nothing final to say: it cannot be asked, or the run it describes has not ended.\<close>

definition still_working :: "engine_answers \<Rightarrow> bool" where
  "still_working ea = (case ea_run ea of
      Inl _ \<Rightarrow> True
    | Inr v \<Rightarrow> (case build_coder_result_from_response [] (obj_of v) of
        Inr result \<Rightarrow> \<not> List.member TERMINAL_CODER_STATUSES (normalize_status (dget result ''status''))
      | Inl _ \<Rightarrow> False))"

definition working_dir :: "coder_config \<Rightarrow> run_dir \<Rightarrow> bool" where
  "working_dir cfg d =
     (is_run_directory d \<and> rd_has_status d \<and> rd_has_blackboard d
      \<and> (case (rd_status d, rd_blackboard d) of
           (Some (JObj status), Some (JObj bb)) \<Rightarrow>
             is_coder_execution status bb \<and> cancel_reason_of cfg status None = None
         | _ \<Rightarrow> False))"

lemma working_dirE:
  assumes "working_dir cfg d"
  obtains status bb where "rd_status d = Some (JObj status)" "rd_blackboard d = Some (JObj bb)" "is_run_directory d"
    "rd_has_status d" "rd_has_blackboard d" "is_coder_execution status bb" "cancel_reason_of cfg status None = None"
  using assms unfolding working_dir_def by (cases "rd_status d"; cases "rd_blackboard d") (auto split: json.splits)

lemma executing_is_loaded:
  assumes "is_coder_execution status bb"
  shows "worth_loading d status"
  using assms by (auto simp: is_coder_execution_def worth_loading_def split: json.splits)

lemma working_is_supervised:
  assumes "working_dir cfg d"
  shows "supervised_run d"
proof -
  obtain status bb where "rd_status d = Some (JObj status)" "rd_blackboard d = Some (JObj bb)" "is_run_directory d"
      "rd_has_status d" "rd_has_blackboard d" "is_coder_execution status bb"
    using assms by (rule working_dirE)
  then show ?thesis
    using executing_is_loaded [of status bb d]
    by (simp add: supervised_run_def load_status_safe_def load_blackboard_for_supervision_def)
qed

lemma built_status_any_id:
  assumes "build_coder_result_from_response rid response = Inr result"
  shows "\<exists>result'. build_coder_result_from_response rid' response = Inr result' \<and> dget result' ''status'' = dget result ''status''"
proof -
  obtain crun frun where "dict_res (dget response ''coder_run'') = Inr crun" "dict_res (dget response ''run'') = Inr frun"
    using assms unfolding build_coder_result_from_response_def bind_res_Inr_iff by blast
  with assms show ?thesis by (simp add: build_coder_result_from_response_def Let_def) (auto simp flip: assms)
qed

lemma non_terminal_state:
  assumes "apply_non_terminal now cfg run_id crid tandem_status phase s = (a, s')"
  shows "\<exists>m sv. cr_status s' = update_status now (working_changes m) (cr_status s) \<and>
      cr_blackboard s' = supervised_blackboard now sv (cr_blackboard s)"
    and "\<not> was_skipped a"
  using assms by (auto simp: apply_non_terminal_def Let_def split_beta add_event_def was_skipped_def coder_answer_def)

lemma poll_error_files:
  assumes "poll_error now cfg run_id crid message c s = (a, s')"
  shows "\<exists>m sv. cr_status s' = update_status now (working_changes m) (cr_status s) \<and>
      cr_blackboard s' = supervised_blackboard now sv (cr_blackboard s)"
    and "\<not> was_skipped a"
  using assms by (auto simp: poll_error_def Let_def split_beta add_event_def was_skipped_def)

lemma working_reconciled:
  assumes "is_coder_execution (cr_status s) (cr_blackboard s)" and "cancel_reason_of cfg (cr_status s) None = None"
    and "still_working ea"
  shows "\<exists>a s'. reconcile_coder_run now cfg run_id None ea s = Inr (a, s') \<and> \<not> was_skipped a \<and>
    is_coder_execution (cr_status s') (cr_blackboard s') \<and> cancel_reason_of cfg (cr_status s') None = None"
proof -
  let ?crid = "coder_run_id run_id (cr_blackboard s)"
  have keeps: "is_coder_execution (cr_status s') (cr_blackboard s') \<and> cancel_reason_of cfg (cr_status s') None = None"
    if "\<exists>m sv. cr_status s' = update_status now (working_changes m) (cr_status s) \<and>
      cr_blackboard s' = supervised_blackboard now sv (cr_blackboard s)" for s'
    using that working_run_executing [OF assms(1)] assms(2) by auto
  show ?thesis
  proof (cases "ea_run ea")
    case (Inl message)
    obtain a s' where p: "poll_error now cfg run_id ?crid message None s = (a, s')" by (meson surj_pair)
    have "reconcile_coder_run now cfg run_id None ea s = Inr (a, s')"
      using assms(1,2) Inl p by (simp add: reconcile_coder_run_def Let_def)
    then show ?thesis using poll_error_files [OF p] keeps by blast
  next
    case (Inr v)
    then obtain r0 where r0: "build_coder_result_from_response [] (obj_of v) = Inr r0"
        "\<not> List.member TERMINAL_CODER_STATUSES (normalize_status (dget r0 ''status''))"
      using assms(3) by (auto simp: still_working_def split: sum.splits)
    obtain result where r: "build_coder_result_from_response ?crid (obj_of v) = Inr result"
        "dget result ''status'' = dget r0 ''status''"
      using built_status_any_id [OF r0(1), of ?crid] by blast
    obtain a s' where p: "apply_non_terminal now cfg run_id (coder_run_id run_id [(''coder_run'', dget result ''coder_run'')])
        (normalize_status (dget result ''status'')) (lower (nonempty (dget result ''phase''))) s = (a, s')" by (meson surj_pair)
    have "reconcile_coder_run now cfg run_id None ea s = Inr (a, s')"
      using assms(1,2) Inr r r0(2) p by (simp add: reconcile_coder_run_def Let_def apply_coder_result_def)
    then show ?thesis using non_terminal_state [OF p] keeps by blast
  qed
qed

lemma working_dir_step:
  assumes "row_by rd_name name (fl_dirs f) = Some d" and "working_dir cfg d" and "still_working ea"
  shows "\<exists>a s'. reconcile_dir yaml now cfg None ea name f = Inr (a, f\<lparr>
      fl_dirs := upd_where (\<lambda>x. rd_name x = name) (written_dir yaml now s') (fl_dirs f), fl_db := cr_db s'\<rparr>) \<and>
    working_dir cfg (written_dir yaml now s' d)"
proof -
  obtain status bb where d: "rd_status d = Some (JObj status)" "rd_blackboard d = Some (JObj bb)" "is_run_directory d"
      "rd_has_status d" "rd_has_blackboard d"
    and exec: "is_coder_execution status bb" "cancel_reason_of cfg status None = None"
    using assms(2) by (rule working_dirE)
  define s where "s = \<lparr>cr_status = status, cr_blackboard = bb, cr_summary = rd_summary d, cr_events = rd_events d, cr_db = fl_db f\<rparr>"
  have s: "run_state_of d (fl_db f) = Inr s" using d by (simp add: run_state_of_def s_def)
  obtain a s' where r: "reconcile_coder_run now cfg name None ea s = Inr (a, s')" "\<not> was_skipped a"
      "is_coder_execution (cr_status s') (cr_blackboard s')" "cancel_reason_of cfg (cr_status s') None = None"
    using working_reconciled [of s cfg ea now name] exec assms(3) by (auto simp: s_def)
  have "working_dir cfg (written_dir yaml now s' d)"
    using d(3) r(3,4) by (simp add: working_dir_def written_dir_def is_run_directory_def)
  moreover have "reconcile_dir yaml now cfg None ea name f = Inr (a, f\<lparr>
      fl_dirs := upd_where (\<lambda>x. rd_name x = name) (written_dir yaml now s') (fl_dirs f), fl_db := cr_db s'\<rparr>)"
    using assms(1) s r(1,2) by (simp add: reconcile_dir_def)
  ultimately show ?thesis by blast
qed

lemma written_dir_fields [simp]:
  "rd_name (written_dir yaml now s d) = rd_name d" "rd_mtime (written_dir yaml now s d) = now"
  by (simp_all add: written_dir_def)

lemma pass_over_working:
  assumes "distinct names" and "\<forall>m\<in>set names. \<exists>d. row_by rd_name m (fl_dirs f) = Some d \<and> working_dir cfg d"
    and "\<forall>m. still_working (ea m)"
  shows "\<exists>answers f'. reconcile_each yaml now cfg ea names f = (None, answers, f') \<and>
    map rd_name (fl_dirs f') = map rd_name (fl_dirs f) \<and>
    (\<forall>m. m \<notin> set names \<longrightarrow> row_by rd_name m (fl_dirs f') = row_by rd_name m (fl_dirs f)) \<and>
    (\<forall>m\<in>set names. \<exists>d. row_by rd_name m (fl_dirs f') = Some d \<and> working_dir cfg d \<and> rd_mtime d = now)"
  using assms(1,2)
proof (induction names arbitrary: f)
  case (Cons n names)
  obtain d where d: "row_by rd_name n (fl_dirs f) = Some d" "working_dir cfg d" using Cons.prems(2) by auto
  obtain a s' where step: "reconcile_dir yaml now cfg None (ea n) n f = Inr (a, f\<lparr>
      fl_dirs := upd_where (\<lambda>x. rd_name x = n) (written_dir yaml now s') (fl_dirs f), fl_db := cr_db s'\<rparr>)"
    and kept: "working_dir cfg (written_dir yaml now s' d)"
    using working_dir_step [OF d, of "ea n" yaml now] assms(3) by blast
  define f1 where "f1 = f\<lparr>fl_dirs := upd_where (\<lambda>x. rd_name x = n) (written_dir yaml now s') (fl_dirs f), fl_db := cr_db s'\<rparr>"
  have rows: "row_by rd_name m (fl_dirs f1) = (if m = n then Some (written_dir yaml now s' d) else row_by rd_name m (fl_dirs f))" for m
    using d(1) by (simp add: f1_def row_by_upd_key)
  have names1: "map rd_name (fl_dirs f1) = map rd_name (fl_dirs f)" by (simp add: f1_def map_upd_where)
  have "\<forall>m\<in>set names. \<exists>d. row_by rd_name m (fl_dirs f1) = Some d \<and> working_dir cfg d"
    using Cons.prems rows by auto
  then obtain answers f' where rest: "reconcile_each yaml now cfg ea names f1 = (None, answers, f')"
      "map rd_name (fl_dirs f') = map rd_name (fl_dirs f1)"
      "\<forall>m. m \<notin> set names \<longrightarrow> row_by rd_name m (fl_dirs f') = row_by rd_name m (fl_dirs f1)"
      "\<forall>m\<in>set names. \<exists>d. row_by rd_name m (fl_dirs f') = Some d \<and> working_dir cfg d \<and> rd_mtime d = now"
    using Cons.IH [of f1] Cons.prems(1) by auto
  have "reconcile_each yaml now cfg ea (n # names) f = (None, a # answers, f')"
    using step rest(1) by (simp flip: f1_def)
  moreover have "\<exists>d. row_by rd_name m (fl_dirs f') = Some d \<and> working_dir cfg d \<and> rd_mtime d = now" if "m \<in> set (n # names)" for m
  proof (cases "m \<in> set names")
    case False
    then have "m = n" using that by simp
    with False rest(3) rows kept show ?thesis by auto
  qed (use rest(4) in blast)
  moreover have "row_by rd_name m (fl_dirs f') = row_by rd_name m (fl_dirs f)" if "m \<notin> set (n # names)" for m
    using that rest(3) rows by auto
  ultimately show ?case using rest(2) names1 by auto
qed simp

subsection \<open>A full batch of working runs\<close>

definition full_batch :: "coder_config \<Rightarrow> nat \<Rightarrow> string set \<Rightarrow> int \<Rightarrow> run_dir list \<Rightarrow> bool" where
  "full_batch cfg n names t dirs \<longleftrightarrow> keys_ok rd_name dirs \<and> rd_name ` set (active_dirs n dirs) = names \<and>
     length (active_dirs n dirs) = n \<and> (\<forall>d\<in>set (active_dirs n dirs). working_dir cfg d) \<and> (\<forall>d\<in>set dirs. rd_mtime d \<le> t)"

lemma set_active_dirs: "set (active_dirs n dirs) \<subseteq> set dirs"
  unfolding active_dirs_eq by (auto dest: in_set_takeD)

lemma distinct_active_names:
  assumes "keys_ok rd_name dirs"
  shows "distinct (map rd_name (active_dirs n dirs))"
proof -
  have "distinct (map rd_name (order_desc rd_mtime dirs))"
    using assms by (simp add: keys_ok_def order_desc_def distinct_map)
  then have "distinct (map rd_name (filter supervised_run (order_desc rd_mtime dirs)))"
    by (rule distinct_map_filter)
  then show ?thesis by (simp add: active_dirs_eq flip: take_map)
qed

lemma filter_names_length:
  assumes "keys_ok rd_name dirs" and "names \<subseteq> rd_name ` set dirs"
  shows "length (filter (\<lambda>d. rd_name d \<in> names) dirs) = card names"
proof -
  have "distinct (map rd_name (filter (\<lambda>d. rd_name d \<in> names) dirs))"
    using assms(1) by (simp add: keys_ok_def distinct_map_filter)
  then have "length (filter (\<lambda>d. rd_name d \<in> names) dirs) = card (rd_name ` set (filter (\<lambda>d. rd_name d \<in> names) dirs))"
    by (metis distinct_card length_map list.set_map)
  moreover have "rd_name ` set (filter (\<lambda>d. rd_name d \<in> names) dirs) = names" using assms(2) by auto
  ultimately show ?thesis by simp
qed

lemma full_batch_pass:
  assumes "full_batch cfg (batch_size (cc_batch_size cfg) None) names t (fl_dirs f)" and "t < now" and "\<forall>m. still_working (ea m)"
  shows "\<exists>answers f'. reconcile_active_coder_runs yaml now cfg None ea f = (None, answers, f') \<and>
    full_batch cfg (batch_size (cc_batch_size cfg) None) names now (fl_dirs f') \<and>
    (\<forall>m. m \<notin> names \<longrightarrow> row_by rd_name m (fl_dirs f') = row_by rd_name m (fl_dirs f))"
proof -
  define n where "n = batch_size (cc_batch_size cfg) None"
  let ?batch = "active_dirs n (fl_dirs f)"
  note inv = assms(1) [unfolded full_batch_def, folded n_def]
  have keys: "keys_ok rd_name (fl_dirs f)" and names: "set (map rd_name ?batch) = names" using inv by simp_all
  have rows: "\<forall>m\<in>set (map rd_name ?batch). \<exists>d. row_by rd_name m (fl_dirs f) = Some d \<and> working_dir cfg d"
    using inv set_active_dirs [of n "fl_dirs f"] by (auto simp: row_by_eq_Some_iff [OF keys])
  obtain answers f' where pass: "reconcile_each yaml now cfg ea (map rd_name ?batch) f = (None, answers, f')"
    and same_names: "map rd_name (fl_dirs f') = map rd_name (fl_dirs f)"
    and others: "\<forall>m. m \<notin> names \<longrightarrow> row_by rd_name m (fl_dirs f') = row_by rd_name m (fl_dirs f)"
    and batch: "\<forall>m\<in>names. \<exists>d. row_by rd_name m (fl_dirs f') = Some d \<and> working_dir cfg d \<and> rd_mtime d = now"
    using pass_over_working [OF distinct_active_names [OF keys] rows assms(3), of yaml now] unfolding names by blast
  have keys': "keys_ok rd_name (fl_dirs f')" using keys same_names by (simp add: keys_ok_def)
  have age: "(if rd_name d \<in> names then rd_mtime d = now \<and> working_dir cfg d else rd_mtime d \<le> t)"
    if "d \<in> set (fl_dirs f')" for d
  proof -
    have d: "row_by rd_name (rd_name d) (fl_dirs f') = Some d" using that by (simp add: row_by_eq_Some_iff [OF keys'])
    show ?thesis
    proof (cases "rd_name d \<in> names")
      case True then show ?thesis using batch d by fastforce
    next
      case False
      then have "d \<in> set (fl_dirs f)" using others d row_by_SomeD by metis
      with False inv show ?thesis by simp
    qed
  qed
  have newest: "filter (\<lambda>d. rd_mtime d = now) (fl_dirs f') = filter (\<lambda>d. rd_name d \<in> names) (fl_dirs f')" (is "_ = ?b")
    using age assms(2) by (intro filter_cong refl) (fastforce split: if_splits)
  have sub: "names \<subseteq> rd_name ` set (fl_dirs f')"
    using set_active_dirs [of n "fl_dirs f"] same_names names by (metis image_mono list.set_map)
  have "card names = n"
    using inv distinct_card [OF distinct_active_names [OF keys, of n]] by (simp flip: names)
  then have len: "length ?b = n" using filter_names_length [OF keys' sub] by simp
  have working: "\<forall>d\<in>set ?b. working_dir cfg d" using age by auto
  have mtimes: "\<forall>d\<in>set (fl_dirs f'). rd_mtime d \<le> now" using age assms(2) by (fastforce split: if_splits)
  have "active_dirs n (fl_dirs f') = ?b"
    using batch_repeats [OF mtimes newest _ len] working working_is_supervised by blast
  moreover have "rd_name ` set ?b = names" using sub by auto
  ultimately have "full_batch cfg n names now (fl_dirs f')"
    using keys' len working mtimes by (simp add: full_batch_def)
  with pass others show ?thesis by (auto simp: reconcile_active_coder_runs_def n_def)
qed

definition fleet_pass :: "(obj \<Rightarrow> string) \<Rightarrow> coder_config \<Rightarrow> int \<times> (string \<Rightarrow> engine_answers) \<Rightarrow> fleet \<Rightarrow> fleet" where
  "fleet_pass yaml cfg tick f = snd (snd (reconcile_active_coder_runs yaml (fst tick) cfg None (snd tick) f))"

lemma full_batch_passes:
  assumes "full_batch cfg (batch_size (cc_batch_size cfg) None) names t (fl_dirs f)"
    and "sorted_wrt (<) (t # map fst ticks)" and "\<forall>(_, ea)\<in>set ticks. \<forall>m. still_working (ea m)" and "m \<notin> names"
  shows "row_by rd_name m (fl_dirs (fold (fleet_pass yaml cfg) ticks f)) = row_by rd_name m (fl_dirs f) \<and>
    (\<exists>t'. full_batch cfg (batch_size (cc_batch_size cfg) None) names t' (fl_dirs (fold (fleet_pass yaml cfg) ticks f)))"
  using assms(1-3)
proof (induction ticks arbitrary: t f)
  case (Cons tick ticks)
  obtain now ea where tick: "tick = (now, ea)" by (cases tick)
  have later: "t < now" and working: "\<forall>m. still_working (ea m)" using Cons.prems(2,3) by (auto simp: tick)
  obtain answers f' where pass: "reconcile_active_coder_runs yaml now cfg None ea f = (None, answers, f')"
    and full: "full_batch cfg (batch_size (cc_batch_size cfg) None) names now (fl_dirs f')"
    and same: "row_by rd_name m (fl_dirs f') = row_by rd_name m (fl_dirs f)"
    using full_batch_pass [OF Cons.prems(1) later working, of yaml] assms(4) by blast
  have "sorted_wrt (<) (now # map fst ticks)" using Cons.prems(2) by (simp add: tick)
  from Cons.IH [OF full this] Cons.prems(3) same pass show ?case by (simp add: tick fleet_pass_def)
qed auto

section \<open>Properties\<close>

text \<open>
C10. A full batch starves the rest. When the batch is full of runs that keep working, every pass writes
their directories, which makes them the newest, so every later pass takes the same batch: however many
passes follow, a run outside the batch is never reconciled, its directory stays as it is, and it is still
one the supervisor should look at.
\<close>

theorem full_batch_starves_the_rest:
  assumes "keys_ok rd_name (fl_dirs f)" and "n = batch_size (cc_batch_size cfg) None"
    and "length (active_dirs n (fl_dirs f)) = n" and "\<forall>d\<in>set (active_dirs n (fl_dirs f)). working_dir cfg d"
    and "d \<in> set (fl_dirs f)" and "supervised_run d" and "d \<notin> set (active_dirs n (fl_dirs f))"
    and "\<forall>x\<in>set (fl_dirs f). rd_mtime x \<le> t" and "sorted_wrt (<) (t # map fst ticks)"
    and "\<forall>(_, ea)\<in>set ticks. \<forall>m. still_working (ea m)"
  shows "(let f' = fold (fleet_pass yaml cfg) ticks f in
    d \<in> set (fl_dirs f') \<and> d \<notin> set (active_dirs n (fl_dirs f')) \<and>
    rd_name ` set (active_dirs n (fl_dirs f')) = rd_name ` set (active_dirs n (fl_dirs f)))"
proof -
  let ?names = "rd_name ` set (active_dirs n (fl_dirs f))" and ?f = "fold (fleet_pass yaml cfg) ticks f"
  have full: "full_batch cfg n ?names t (fl_dirs f)" using assms(1,3,4,8) by (simp add: full_batch_def)
  have out: "rd_name d \<notin> ?names"
    using assms(1,5,7) set_active_dirs [of n "fl_dirs f"] by (auto simp: keys_ok_def distinct_map inj_on_def)
  from full_batch_passes [OF full [unfolded assms(2)] assms(9,10) out [unfolded assms(2)], of yaml]
  obtain t' where row: "row_by rd_name (rd_name d) (fl_dirs ?f) = row_by rd_name (rd_name d) (fl_dirs f)"
    and full': "full_batch cfg n ?names t' (fl_dirs ?f)" by (auto simp: assms(2))
  have "d \<in> set (fl_dirs ?f)"
    using row assms(1,5) row_by_SomeD by (metis row_by_eq_Some_iff)
  moreover have "rd_name ` set (active_dirs n (fl_dirs ?f)) = ?names" using full' by (simp add: full_batch_def)
  ultimately show ?thesis using out unfolding Let_def by auto
qed

definition demo_dir :: "string \<Rightarrow> int \<Rightarrow> run_dir" where
  "demo_dir name mtime = \<lparr>rd_name = name, rd_is_dir = True, rd_mtime = mtime, rd_has_status = True, rd_has_blackboard = True,
     rd_status = Some (JObj (demo_status)), rd_blackboard = Some (JObj (demo_blackboard)),
     rd_blackboard_text = None, rd_summary = [], rd_events = []\<rparr>"

definition demo_fleet :: fleet where
  "demo_fleet = \<lparr>fl_dirs = [demo_dir ''run-a'' 10, demo_dir ''run-b'' 20], fl_db = empty_db\<rparr>"

definition small_batch :: coder_config where
  "small_batch = demo_coder_cfg\<lparr>cc_batch_size := 1\<rparr>"

theorem full_batch_starves_the_rest_witness:
  "(let f = fold (fleet_pass (\<lambda>bb. dumps_spaced (JObj bb)) small_batch)
       [(100, \<lambda>_. demo_answers ''running''), (200, \<lambda>_. demo_answers ''running'')] demo_fleet
    in demo_dir ''run-a'' 10 \<in> set (fl_dirs f) \<and> rd_name ` set (active_dirs 1 (fl_dirs f)) = {''run-b''})"
proof -
  let ?f = demo_fleet and ?ticks = "[(100::int, \<lambda>_::string. demo_answers ''running''), (200, \<lambda>_. demo_answers ''running'')]"
  have batch: "active_dirs 1 (fl_dirs ?f) = [demo_dir ''run-b'' 20]" "batch_size (cc_batch_size small_batch) None = 1"
    by code_simp+
  have facts: "working_dir small_batch (demo_dir ''run-b'' 20)" "supervised_run (demo_dir ''run-a'' 10)"
      "still_working (demo_answers ''running'')" by code_simp+
  have "keys_ok rd_name (fl_dirs ?f)" by (simp add: keys_ok_def demo_fleet_def demo_dir_def)
  moreover have "(1::nat) = batch_size (cc_batch_size small_batch) None" using batch(2) by simp
  moreover have "length (active_dirs 1 (fl_dirs ?f)) = 1" "\<forall>d\<in>set (active_dirs 1 (fl_dirs ?f)). working_dir small_batch d"
    using batch(1) facts(1) by simp_all
  moreover have "demo_dir ''run-a'' 10 \<in> set (fl_dirs ?f)" by (simp add: demo_fleet_def)
  moreover note facts(2)
  moreover have "demo_dir ''run-a'' 10 \<notin> set (active_dirs 1 (fl_dirs ?f))" unfolding batch by (simp add: demo_dir_def)
  moreover have "\<forall>x\<in>set (fl_dirs ?f). rd_mtime x \<le> 20" by (simp add: demo_fleet_def demo_dir_def)
  moreover have "sorted_wrt (<) ((20::int) # map fst ?ticks)" by simp
  moreover have "\<forall>(_, ea)\<in>set ?ticks. \<forall>m. still_working (ea m)" using facts(3) by simp
  ultimately have "(let f' = fold (fleet_pass (\<lambda>bb. dumps_spaced (JObj bb)) small_batch) ?ticks ?f in
      demo_dir ''run-a'' 10 \<in> set (fl_dirs f') \<and> demo_dir ''run-a'' 10 \<notin> set (active_dirs 1 (fl_dirs f')) \<and>
      rd_name ` set (active_dirs 1 (fl_dirs f')) = rd_name ` set (active_dirs 1 (fl_dirs ?f)))"
    by (rule full_batch_starves_the_rest)
  moreover have "rd_name ` set (active_dirs 1 (fl_dirs ?f)) = {''run-b''}" unfolding batch by (simp add: demo_dir_def)
  ultimately show ?thesis unfolding Let_def by simp
qed

end
