(* ===== verification/KanbanBoard.thy ===== *)
theory KanbanBoard imports RunState begin

text \<open>
  The Kanban board (src/tandem_agents/core/repository/board.py): a YAML file of columns and cards from
  which tasks are picked, claimed and moved. The file is the value its text encodes, or missing; a board
  is the dictionary the program works on. The cards of a board are dictionaries; a list with another
  entry raises when it is read. An operation reads the clock once.
\<close>

section \<open>The file\<close>

definition BOARD_COLUMNS :: "string list" where
  "BOARD_COLUMNS = [''backlog'', ''ready'', ''in_progress'', ''review'', ''test'', ''blocked'', ''done'']"

definition columns_json :: json where
  "columns_json = JList (map JStr BOARD_COLUMNS)"

definition board_meta :: "int \<Rightarrow> string \<Rightarrow> string \<Rightarrow> obj" where
  "board_meta now board_id name = [(''id'', JStr board_id), (''name'', JStr name), (''columns'', columns_json),
     (''created_at_ms'', JInt now), (''updated_at_ms'', JInt now)]"

definition default_board :: "int \<Rightarrow> string \<Rightarrow> string \<Rightarrow> obj" where
  "default_board now name board_id = [(''board'', JObj (board_meta now board_id name)), (''cards'', JList [])]"

definition fresh_board :: "int \<Rightarrow> json \<Rightarrow> obj" where
  "fresh_board now cards = [(''board'', JObj (board_meta now ''aca-main'' ''ACA Kanban'')), (''cards'', cards)]"

text \<open>
  What is read of a file: a dictionary without a \<open>board\<close> section is replaced by an empty board, a list
  becomes the cards of one, and so does nothing for a text, unless \<open>board\<close> occurs in it.
\<close>

definition recognised_board :: "int \<Rightarrow> json \<Rightarrow> obj res" where
  "recognised_board now v = (case v of
      JObj d \<Rightarrow> Inr (if dhas d ''board'' then d else fresh_board now (JList []))
    | JList xs \<Rightarrow> (if List.member xs (JStr ''board'') then Inl AttributeError else Inr (fresh_board now (JList xs)))
    | JStr s \<Rightarrow> (if contains s ''board'' then Inl AttributeError else Inr (fresh_board now (JList [])))
    | _ \<Rightarrow> Inl TypeError)"

definition meta_defaults :: "int \<Rightarrow> obj \<Rightarrow> obj" where
  "meta_defaults now m = dsetdefault ''updated_at_ms'' (JInt now) (dsetdefault ''created_at_ms'' (JInt now)
     (dsetdefault ''columns'' columns_json m))"

definition load_board :: "int \<Rightarrow> json option \<Rightarrow> obj res" where
  "load_board now file = (case file of
      None \<Rightarrow> Inr (default_board now ''ACA Kanban'' ''aca-main'')
    | Some v \<Rightarrow> bind_res (recognised_board now (if truthy v then v else JObj [])) (\<lambda>b.
        let b = dsetdefault ''board'' (JObj []) (dsetdefault ''cards'' (JList []) b) in
        case dget b ''board'' of JObj m \<Rightarrow> Inr (dset ''board'' (JObj (meta_defaults now m)) b) | _ \<Rightarrow> Inl AttributeError))"

definition touched_meta :: "int \<Rightarrow> obj \<Rightarrow> obj" where
  "touched_meta now b = dset ''board'' (JObj (dset ''updated_at_ms'' (JInt now) (section_of b ''board''))) b"

text \<open>What \<open>save_board\<close> writes; the board in memory keeps its old time.\<close>

definition save_board :: "int \<Rightarrow> obj \<Rightarrow> json res" where
  "save_board now b = (case dget (dsetdefault ''board'' (JObj []) b) ''board'' of
      JObj m \<Rightarrow> Inr (JObj (touched_meta now (dsetdefault ''board'' (JObj []) b)))
    | _ \<Rightarrow> Inl TypeError)"

definition ensure_board_template :: "int \<Rightarrow> string \<Rightarrow> json option \<Rightarrow> (obj \<times> json) res" where
  "ensure_board_template now name file = bind_res (load_board now file) (\<lambda>b.
     let b = (if dget b ''cards'' = JNull then dset ''cards'' (JList []) b else b);
         m = dsetdefault ''created_at_ms'' (JInt now) (dsetdefault ''columns'' columns_json
               (dsetdefault ''name'' (JStr name) (dsetdefault ''id'' (JStr ''aca-main'') (section_of b ''board''))));
         b = touched_meta now (dset ''board'' (JObj m) b)
     in bind_res (save_board now b) (\<lambda>written. Inr (b, written)))"

section \<open>Lanes\<close>

definition cards_of :: "obj \<Rightarrow> obj list res" where
  "cards_of b = (case dget_def b ''cards'' (JList []) of
      JList xs \<Rightarrow> if list_all is_obj xs then Inr (map obj_of xs) else Inl AttributeError
    | _ \<Rightarrow> Inl TypeError)"

definition with_cards :: "obj list \<Rightarrow> obj \<Rightarrow> obj" where
  "with_cards cs b = dset ''cards'' (JList (map JObj cs)) b"

text \<open>The columns of the board are texts; a card without a lane is in the backlog.\<close>

definition board_columns :: "obj \<Rightarrow> string list" where
  "board_columns b = (if dhas (section_of b ''board'') ''columns''
     then map py_str (list_of (dget (section_of b ''board'') ''columns'')) else BOARD_COLUMNS)"

definition lane_of :: "obj \<Rightarrow> string" where
  "lane_of item = (if truthy (dget item ''lane'') then py_str (dget item ''lane'') else ''backlog'')"

definition add_to_lane :: "obj \<Rightarrow> (string \<times> obj list) list \<Rightarrow> (string \<times> obj list) list" where
  "add_to_lane item lanes =
     AList.update (lane_of item) ((case map_of lanes (lane_of item) of Some cs \<Rightarrow> cs | None \<Rightarrow> []) @ [item]) lanes"

definition lanes_of_cards :: "string list \<Rightarrow> obj list \<Rightarrow> (string \<times> obj list) list" where
  "lanes_of_cards columns cards = fold add_to_lane cards (fold (\<lambda>c. AList.update c []) columns [])"

definition board_lanes :: "obj \<Rightarrow> (string \<times> obj list) list res" where
  "board_lanes b = bind_res (cards_of b) (\<lambda>cards. Inr (lanes_of_cards (board_columns b) cards))"

definition board_summary :: "obj \<Rightarrow> (string \<times> nat) list res" where
  "board_summary b = bind_res (board_lanes b) (\<lambda>lanes. Inr (map (\<lambda>(l, cs). (l, length cs)) lanes))"

definition card_line :: "obj \<Rightarrow> string" where
  "card_line item = ''- '' @ ticked (field_str item ''id'' []) @ '' '' @ field_str item ''title'' []"

definition lane_lines :: "(string \<times> obj list) list \<Rightarrow> string \<Rightarrow> string list" where
  "lane_lines lanes lane =
     (let cards = (case map_of lanes lane of Some cs \<Rightarrow> cs | None \<Rightarrow> []) in
      [''## '' @ lane @ '' ('' @ nat_str (length cards) @ '')'']
      @ (if cards = [] then [''- _empty_''] else map card_line cards) @ [[]])"

definition board_markdown :: "int \<Rightarrow> obj \<Rightarrow> string res" where
  "board_markdown now b = bind_res (board_lanes b) (\<lambda>lanes.
     let meta = section_of b ''board'' in
     Inr (rstrip_by is_space (join nlc
       ([''# '' @ field_str meta ''name'' ''ACA Kanban'', [], ''- Board ID: '' @ ticked (field_str meta ''id'' ''aca-main''),
         ''- Updated: '' @ ticked (py_str (dget_def meta ''updated_at_ms'' (JInt now))), []]
        @ concat (map (lane_lines lanes) (board_columns b)))) @ nlc))"

section \<open>Cards and tasks\<close>

text \<open>The fields copied as they are, as lists (\<open>list(value or [])\<close>), and as dictionaries (\<open>value or {}\<close>).\<close>

definition list_field :: "obj \<Rightarrow> string \<Rightarrow> (string \<times> json) res" where
  "list_field d k = bind_res (py_list (dget d k)) (\<lambda>xs. Inr (k, JList xs))"

definition same_field :: "obj \<Rightarrow> string \<Rightarrow> (string \<times> json) res" where
  "same_field d k = Inr (k, dget d k)"

definition dict_field :: "obj \<Rightarrow> string \<Rightarrow> (string \<times> json) res" where
  "dict_field d k = Inr (k, py_or (dget d k) (JObj []))"

definition work_fields :: "obj \<Rightarrow> (string \<times> json) list res" where
  "work_fields d = map_res id
     [list_field d ''labels'', list_field d ''acceptance_criteria'', same_field d ''program_goal'', same_field d ''local_goal'',
      list_field d ''in_scope'', list_field d ''out_of_scope'', list_field d ''dependencies'', list_field d ''deliverables'',
      list_field d ''target_files'', list_field d ''verification_commands'', same_field d ''notes_for_agent'',
      same_field d ''raw_issue_body'', dict_field d ''task_contract'', list_field d ''subtasks'', dict_field d ''source'',
      dict_field d ''repo'']"

definition project_fields :: "obj \<Rightarrow> obj" where
  "project_fields d = [(''project_name'', dget d ''project_name''), (''project_column'', dget d ''project_column''),
     (''project_schema'', py_or (dget d ''project_schema'') (JObj []))]"

definition history_entry :: "string \<Rightarrow> int \<Rightarrow> string \<Rightarrow> string \<Rightarrow> json" where
  "history_entry lane now actor note_text =
     JObj [(''lane'', JStr lane), (''at_ms'', JInt now), (''by'', JStr actor), (''note'', JStr note_text)]"

text \<open>A task without an id gets one from its title and a random token; a title that is not a text raises there.\<close>

definition new_card_id :: "string \<Rightarrow> obj \<Rightarrow> json res" where
  "new_card_id token task =
     (if truthy (dget task ''card_id'') then Inr (dget task ''card_id'')
      else if truthy (dget task ''task_id'') then Inr (dget task ''task_id'')
      else case dget_def task ''title'' (JStr ''task'') of
        JStr t \<Rightarrow> Inr (JStr (slugify t @ ''-'' @ token)) | _ \<Rightarrow> Inl TypeError)"

definition task_to_card :: "int \<Rightarrow> string \<Rightarrow> obj \<Rightarrow> string \<Rightarrow> obj res" where
  "task_to_card now token task lane = bind_res (new_card_id token task) (\<lambda>card_id.
     bind_res (work_fields task) (\<lambda>work.
       Inr ([(''id'', card_id), (''title'', dget_def task ''title'' (JStr ''Untitled task'')),
             (''description'', dget_def task ''description'' (JStr []))] @ project_fields task
         @ [(''lane'', JStr lane), (''priority'', dget task ''priority'')] @ work
         @ [(''created_at_ms'', JInt now), (''updated_at_ms'', JInt now),
            (''history'', JList [history_entry lane now ''aca'' ''created''])])))"

definition card_to_task :: "obj \<Rightarrow> string option \<Rightarrow> obj res" where
  "card_to_task item board_path = bind_res (work_fields item) (\<lambda>work.
     let task = [(''task_id'', dget item ''id''), (''title'', dget_def item ''title'' (JStr ''Untitled task'')),
           (''description'', dget_def item ''description'' (JStr []))] @ project_fields item
           @ [(''priority'', dget item ''priority'')] @ work @ [(''lane'', dget_def item ''lane'' (JStr ''ready''))]
     in case dget task ''source'' of
          JObj s \<Rightarrow>
            (let s1 = dsetdefault ''card_id'' (dget item ''id'') s;
                 s2 = (case board_path of
                   Some p \<Rightarrow> dsetdefault ''type'' (JStr ''kanban_board'') (dsetdefault ''board_path'' (JStr p) s1) | None \<Rightarrow> s1)
             in Inr (dset ''source'' (JObj s2) task))
        | _ \<Rightarrow> Inl AttributeError)"

section \<open>Picking, claiming and moving\<close>

definition has_id :: "string \<Rightarrow> obj \<Rightarrow> bool" where
  "has_id card_id item = (py_str (dget item ''id'') = card_id)"

definition find_card :: "obj \<Rightarrow> string \<Rightarrow> obj option res" where
  "find_card b card_id = bind_res (cards_of b) (\<lambda>cards. Inr (find (has_id card_id) cards))"

fun first_in_lanes :: "string list \<Rightarrow> obj list \<Rightarrow> obj option" where
  "first_in_lanes [] cards = None"
| "first_in_lanes (lane # lanes) cards =
     (case find (\<lambda>c. dget c ''lane'' = JStr lane) cards of Some c \<Rightarrow> Some c | None \<Rightarrow> first_in_lanes lanes cards)"

definition select_card :: "obj \<Rightarrow> string \<Rightarrow> string list \<Rightarrow> obj option res" where
  "select_card b card_id preferred_lanes =
     (if card_id \<noteq> [] then find_card b card_id
      else bind_res (cards_of b) (\<lambda>cards. Inr (case first_in_lanes preferred_lanes cards of
          Some c \<Rightarrow> Some c
        | None \<Rightarrow> (case cards of c # _ \<Rightarrow> Some c | [] \<Rightarrow> None))))"

definition default_lanes :: "string list" where
  "default_lanes = [''ready'', ''backlog'']"

text \<open>The first card with the id is changed in place.\<close>

fun change_first :: "('a \<Rightarrow> bool) \<Rightarrow> ('a \<Rightarrow> 'a) \<Rightarrow> 'a list \<Rightarrow> 'a list" where
  "change_first p f [] = []"
| "change_first p f (x # xs) = (if p x then f x # xs else x # change_first p f xs)"

definition append_history :: "json \<Rightarrow> obj \<Rightarrow> obj res" where
  "append_history entry item = (case dget (dsetdefault ''history'' (JList []) item) ''history'' of
      JList xs \<Rightarrow> Inr (dset ''history'' (JList (xs @ [entry])) item) | _ \<Rightarrow> Inl AttributeError)"

definition change_card :: "obj \<Rightarrow> string \<Rightarrow> (obj \<Rightarrow> obj res) \<Rightarrow> (obj \<times> obj) res" where
  "change_card b card_id f = bind_res (cards_of b) (\<lambda>cards.
     case find (has_id card_id) cards of
       None \<Rightarrow> Inl (ValueError (''Card not found: '' @ card_id))
     | Some item \<Rightarrow> bind_res (f item) (\<lambda>item'.
         Inr (item', with_cards (change_first (has_id card_id) (\<lambda>_. item') cards) b)))"

definition claim_card :: "int \<Rightarrow> obj \<Rightarrow> string \<Rightarrow> string \<Rightarrow> string \<Rightarrow> (obj \<times> obj) res" where
  "claim_card now b card_id run_id actor = change_card b card_id (\<lambda>item.
     append_history (history_entry ''in_progress'' now actor (''claimed by '' @ run_id))
       (dset ''claimed_by'' (JStr actor) (dset ''assigned_run_id'' (JStr run_id)
         (dset ''updated_at_ms'' (JInt now) (dset ''lane'' (JStr ''in_progress'') item)))))"

definition move_card :: "int \<Rightarrow> obj \<Rightarrow> string \<Rightarrow> string \<Rightarrow> string \<Rightarrow> string \<Rightarrow> (obj \<times> obj) res" where
  "move_card now b card_id lane actor note_text = change_card b card_id (\<lambda>item.
     append_history (history_entry lane now actor note_text)
       (dset ''updated_at_ms'' (JInt now) (dset ''lane'' (JStr lane) item)))"

section \<open>Well-formed boards\<close>

definition card_ok :: "obj \<Rightarrow> bool" where
  "card_ok c = (is_str (dget c ''lane'')
     \<and> (case dget_def c ''history'' (JList []) of JList _ \<Rightarrow> True | _ \<Rightarrow> False))"

definition card_ids :: "obj list \<Rightarrow> string list" where
  "card_ids cards = map (\<lambda>c. py_str (dget c ''id'')) cards"

text \<open>
  A board has its section with columns, and its cards are dictionaries with a lane, a history that is a
  list if there is one, and ids of their own.
\<close>

definition board_ok :: "obj \<Rightarrow> bool" where
  "board_ok b = ((case dget b ''board'' of JObj m \<Rightarrow> dhas m ''columns'' | _ \<Rightarrow> False)
     \<and> (case cards_of b of Inr cards \<Rightarrow> list_all card_ok cards \<and> distinct (card_ids cards) | Inl _ \<Rightarrow> False))"

section \<open>Lemmas\<close>

lemma board_okE:
  assumes "board_ok b"
  obtains m cards where "dget b ''board'' = JObj m" "dhas m ''columns''" "cards_of b = Inr cards"
    "list_all card_ok cards" "distinct (card_ids cards)"
  using assms unfolding board_ok_def by (cases "dget b ''board''"; cases "cards_of b") auto

lemma cards_of_with [simp]: "cards_of (with_cards cs b) = Inr cs"
  by (simp add: cards_of_def with_cards_def dget_def_def is_obj_def list_all_iff comp_def)

lemma board_section_with [simp]: "dget (with_cards cs b) ''board'' = dget b ''board''"
  by (simp add: with_cards_def)

lemma cards_of_other [simp]: "k \<noteq> ''cards'' \<Longrightarrow> cards_of (dset k v b) = cards_of b"
  by (simp add: cards_of_def dget_def_def)

lemma has_id_iff: "has_id i c \<longleftrightarrow> py_str (dget c ''id'') = i"
  by (simp add: has_id_def)

lemma find_id_None: "find (has_id i) cards = None \<longleftrightarrow> i \<notin> set (card_ids cards)"
  by (induction cards) (auto simp: card_ids_def has_id_iff)

lemma find_id_Some: "find (has_id i) cards = Some c \<Longrightarrow> c \<in> set cards \<and> py_str (dget c ''id'') = i"
  by (induction cards) (auto simp: has_id_iff split: if_splits)

lemma change_first_ids:
  assumes "find (has_id i) cards = Some c" and "dget c' ''id'' = dget c ''id''"
  shows "card_ids (change_first (has_id i) (\<lambda>_. c') cards) = card_ids cards"
  using assms by (induction cards) (auto simp: card_ids_def split: if_splits)

lemma change_first_all:
  "list_all p cards \<Longrightarrow> p c' \<Longrightarrow> list_all p (change_first q (\<lambda>_. c') cards)"
  by (induction cards) auto

lemma change_first_others:
  "c \<in> set cards \<Longrightarrow> \<not> q c \<Longrightarrow> c \<in> set (change_first q f cards)"
  by (induction cards) auto

lemma change_first_new:
  "find q cards = Some c \<Longrightarrow> c' \<in> set (change_first q (\<lambda>_. c') cards)"
  by (induction cards) (auto split: if_splits)

lemma dsetdefault_get: "dget (dsetdefault k v d) j = (if j = k \<and> \<not> dhas d k then v else dget d j)"
  by (auto simp: dsetdefault_def)

lemma dsetdefault_default: "dget (dsetdefault k v d) k = dget_def d k v"
  by (simp add: dsetdefault_get dget_def_def)

lemma dget_def_dset [simp]: "dget_def (dset k v d) j w = (if j = k then v else dget_def d j w)"
  by (simp add: dget_def_def)

lemma append_history_ok:
  assumes "card_ok c" and "dget_def c1 ''history'' (JList []) = dget_def c ''history'' (JList [])"
    and "is_str (dget c1 ''lane'')"
  shows "\<exists>c'. append_history e c1 = Inr c' \<and> card_ok c' \<and> (\<forall>k. k \<noteq> ''history'' \<longrightarrow> dget c' k = dget c1 k)"
proof -
  obtain xs where "dget_def c1 ''history'' (JList []) = JList xs"
    using assms(1,2) by (cases "dget_def c ''history'' (JList [])") (auto simp: card_ok_def)
  then show ?thesis
    using assms(3) by (simp add: append_history_def dsetdefault_default card_ok_def)
qed

text \<open>A change of one card that keeps its id and its type keeps the board's.\<close>

lemma change_card_ok:
  assumes "board_ok b" and "cards_of b = Inr cards"
    and "\<And>c. c \<in> set cards \<Longrightarrow> card_ok c \<Longrightarrow> \<exists>c'. f c = Inr c' \<and> card_ok c' \<and> dget c' ''id'' = dget c ''id'' \<and> P c'"
  shows "case change_card b i f of
      Inl e \<Rightarrow> i \<notin> set (card_ids cards) \<and> e = ValueError (''Card not found: '' @ i)
    | Inr (c', b') \<Rightarrow> board_ok b' \<and> P c' \<and> (\<exists>cards'. cards_of b' = Inr cards' \<and> card_ids cards' = card_ids cards \<and>
        c' \<in> set cards' \<and> py_str (dget c' ''id'') = i \<and> (\<forall>c\<in>set cards. \<not> has_id i c \<longrightarrow> c \<in> set cards'))"
proof (cases "find (has_id i) cards")
  case None
  then show ?thesis using assms(2) find_id_None [of i cards] by (simp add: change_card_def)
next
  case (Some c)
  have ok: "list_all card_ok cards" "distinct (card_ids cards)" using assms(1,2) by (auto elim: board_okE)
  have c: "c \<in> set cards" "py_str (dget c ''id'') = i" using find_id_Some [OF Some] by simp_all
  obtain c' where c': "f c = Inr c'" "card_ok c'" "dget c' ''id'' = dget c ''id''" "P c'"
    using assms(3) [OF c(1)] ok(1) c(1) by (auto simp: list_all_iff)
  let ?cards = "change_first (has_id i) (\<lambda>_. c') cards"
  have "board_ok (with_cards ?cards b)"
    using assms(1) ok c'(2) change_first_all [of card_ok cards c'] change_first_ids [OF Some c'(3)]
    by (auto simp: board_ok_def split: json.splits)
  then show ?thesis
    using assms(2) Some c c' change_first_ids [OF Some c'(3)] change_first_new [OF Some] change_first_others
    by (auto simp: change_card_def)
qed

lemma claim_changes_card:
  assumes "card_ok c"
  shows "\<exists>c'. append_history e (dset ''claimed_by'' x (dset ''assigned_run_id'' y (dset ''updated_at_ms'' z
      (dset ''lane'' (JStr l) c)))) = Inr c' \<and> card_ok c' \<and> dget c' ''id'' = dget c ''id'' \<and>
    (dget c' ''lane'' = JStr l \<and> dget c' ''assigned_run_id'' = y)"
proof -
  let ?c = "dset ''claimed_by'' x (dset ''assigned_run_id'' y (dset ''updated_at_ms'' z (dset ''lane'' (JStr l) c)))"
  obtain c' where "append_history e ?c = Inr c'" "card_ok c'" "\<forall>k. k \<noteq> ''history'' \<longrightarrow> dget c' k = dget ?c k"
    using append_history_ok [OF assms, of ?c e] by (auto simp: is_str_def)
  then show ?thesis by (intro exI [of _ c']) simp
qed

lemma move_changes_card:
  assumes "card_ok c"
  shows "\<exists>c'. append_history e (dset ''updated_at_ms'' z (dset ''lane'' (JStr l) c)) = Inr c' \<and> card_ok c' \<and>
    dget c' ''id'' = dget c ''id'' \<and> dget c' ''lane'' = JStr l"
proof -
  let ?c = "dset ''updated_at_ms'' z (dset ''lane'' (JStr l) c)"
  obtain c' where "append_history e ?c = Inr c'" "card_ok c'" "\<forall>k. k \<noteq> ''history'' \<longrightarrow> dget c' k = dget ?c k"
    using append_history_ok [OF assms, of ?c e] by (auto simp: is_str_def)
  then show ?thesis by (intro exI [of _ c']) simp
qed

subsection \<open>Lanes\<close>

lemma map_of_columns:
  "map_of (fold (\<lambda>c. AList.update c []) columns lanes) l =
     (if l \<in> set columns then Some [] else map_of lanes l)"
  by (induction columns arbitrary: lanes) (auto simp: update_conv')

lemma map_of_add_to_lane:
  "map_of (add_to_lane c lanes) l =
     (if l = lane_of c then Some ((case map_of lanes l of Some cs \<Rightarrow> cs | None \<Rightarrow> []) @ [c]) else map_of lanes l)"
  by (simp add: add_to_lane_def update_conv')

lemma lanes_fold:
  "map_of (fold add_to_lane cards lanes) l =
     (let mine = filter (\<lambda>c. lane_of c = l) cards in
      case map_of lanes l of Some cs \<Rightarrow> Some (cs @ mine) | None \<Rightarrow> if mine = [] then None else Some mine)"
  by (induction cards arbitrary: lanes) (auto simp: map_of_add_to_lane Let_def split: option.splits)

lemma distinct_lane_names:
  "distinct (map fst (lanes_of_cards columns cards))"
proof -
  have "distinct (map fst (fold (\<lambda>c. AList.update c []) columns lanes))" if "distinct (map fst lanes)"
    for lanes :: "(string \<times> obj list) list"
    using that by (induction columns arbitrary: lanes) (simp_all add: distinct_update)
  moreover have "distinct (map fst (fold add_to_lane cards lanes))" if "distinct (map fst lanes)" for lanes
    using that by (induction cards arbitrary: lanes) (simp_all add: distinct_update add_to_lane_def)
  ultimately show ?thesis by (simp add: lanes_of_cards_def)
qed

subsection \<open>Reading back what was written\<close>

lemma dset_ne: "dset k v d \<noteq> []"
  by (cases d) (auto simp: dset_def split: prod.splits)

lemma saved_board:
  assumes "board_ok b"
  shows "\<exists>v. save_board now b = Inr v"
  using assms by (rule board_okE) (simp add: save_board_def dsetdefault_get)

lemma load_saved:
  assumes "board_ok b" and "save_board now b = Inr v"
  shows "\<exists>b'. load_board now' (Some v) = Inr b' \<and> board_ok b' \<and> cards_of b' = cards_of b"
proof -
  obtain m where m: "dget b ''board'' = JObj m" "dhas m ''columns''" using assms(1) by (rule board_okE)
  have has: "dhas b ''board''" using m(1) by (auto simp: dget_def dhas_def split: option.splits)
  then have v: "v = JObj (touched_meta now b)" using assms(2) m(1) by (simp add: save_board_def dsetdefault_def)
  define w where "w = dsetdefault ''cards'' (JList []) (touched_meta now b)"
  have cards: "cards_of w = cards_of b"
    by (auto simp: w_def touched_meta_def cards_of_def dget_def_def dsetdefault_def)
  have sec: "dget w ''board'' = JObj (dset ''updated_at_ms'' (JInt now) m)" "dhas w ''board''"
    using m(1) by (auto simp: w_def touched_meta_def section_of_def dsetdefault_def)
  let ?m = "meta_defaults now' (dset ''updated_at_ms'' (JInt now) m)"
  have "dhas (touched_meta now b) ''board''" by (simp add: touched_meta_def)
  then have "recognised_board now' (if truthy v then v else JObj []) = Inr (touched_meta now b)"
    by (auto simp: v recognised_board_def touched_meta_def dset_ne)
  moreover have "dsetdefault ''board'' (JObj []) w = w" using sec(2) by (simp add: dsetdefault_def)
  ultimately have "load_board now' (Some v) = Inr (dset ''board'' (JObj ?m) w)"
    using sec(1) by (simp add: load_board_def w_def)
  moreover have "board_ok (dset ''board'' (JObj ?m) w)"
    using assms(1) m(2) cards by (simp add: board_ok_def meta_defaults_def dsetdefault_def)
  ultimately show ?thesis using cards by auto
qed


subsection \<open>Every card in one lane\<close>

lemma cards_of_update:
  "mset (concat (map snd (AList.update k ((case map_of lanes k of Some ys \<Rightarrow> ys | None \<Rightarrow> []) @ [c]) lanes)))
     = add_mset c (mset (concat (map snd lanes)))"
proof (induction lanes)
  case (Cons p lanes)
  then show ?case by (cases p; cases "fst p = k") simp_all
qed simp

lemma cards_of_fold:
  "mset (concat (map snd (fold add_to_lane cards lanes))) = mset (concat (map snd lanes)) + mset cards"
  by (induction cards arbitrary: lanes) (simp_all add: add_to_lane_def cards_of_update)

lemma no_card_in_update: "concat (map snd lanes) = [] \<Longrightarrow> concat (map snd (AList.update c [] lanes)) = []"
proof (induction lanes)
  case (Cons p lanes)
  then show ?case by (cases p; cases "fst p = c") (simp_all del: concat_eq_Nil_conv)
qed simp

lemma cards_of_empty_lanes:
  "concat (map snd lanes) = [] \<Longrightarrow> concat (map snd (fold (\<lambda>c. AList.update c []) columns lanes)) = []"
  by (induction columns arbitrary: lanes) (simp_all only: fold.simps no_card_in_update id_apply o_apply)

section \<open>Properties\<close>

text \<open>The result of a change of the card \<open>i\<close> to a lane, for a board with the given cards.\<close>

definition sound_change :: "obj list \<Rightarrow> string \<Rightarrow> string \<Rightarrow> (obj \<times> obj) res \<Rightarrow> bool" where
  "sound_change cards i lane r = (case r of
      Inl e \<Rightarrow> i \<notin> set (card_ids cards) \<and> e = ValueError (''Card not found: '' @ i)
    | Inr (c, b') \<Rightarrow> board_ok b' \<and> dget c ''lane'' = JStr lane \<and>
        (\<exists>cards'. cards_of b' = Inr cards' \<and> card_ids cards' = card_ids cards \<and> c \<in> set cards' \<and>
           py_str (dget c ''id'') = i \<and> (\<forall>d\<in>set cards. \<not> has_id i d \<longrightarrow> d \<in> set cards')))"

definition demo_board :: obj where
  "demo_board = [(''board'', JObj (board_meta 1 ''aca-main'' ''ACA Kanban'')),
     (''cards'', JList [JObj [(''id'', JStr ''a-1''), (''title'', JStr ''Fix it''), (''lane'', JStr ''ready'')],
        JObj [(''id'', JStr ''a-2''), (''title'', JStr ''Ship it''), (''lane'', JStr ''done''), (''history'', JList [])],
        JObj [(''id'', JStr ''a-3''), (''lane'', JStr ''parked'')]])]"

definition demo_cards :: "obj list" where
  "demo_cards = [[(''id'', JStr ''a-1''), (''title'', JStr ''Fix it''), (''lane'', JStr ''ready'')],
     [(''id'', JStr ''a-2''), (''title'', JStr ''Ship it''), (''lane'', JStr ''done''), (''history'', JList [])],
     [(''id'', JStr ''a-3''), (''lane'', JStr ''parked'')]]"

lemma demo_board_ok: "board_ok demo_board" "cards_of demo_board = Inr demo_cards"
proof -
  show c: "cards_of demo_board = Inr demo_cards"
    by (simp add: cards_of_def demo_board_def demo_cards_def dget_def_def dhas_def dget_def is_obj_def)
  have "card_ids demo_cards = [''a-1'', ''a-2'', ''a-3'']"
    by (simp add: card_ids_def demo_cards_def dget_def)
  then show "board_ok demo_board"
    by (simp add: board_ok_def c) (simp add: demo_board_def demo_cards_def board_meta_def card_ok_def is_str_def
        dget_def dget_def_def dhas_def)
qed

text \<open>
  C12. Well-formed boards are closed under the operations that write them. Claiming or moving a card
  either raises "Card not found" and then the board has no card with that id, or returns the card in its
  new lane and a well-formed board with the same ids in the same order, every other card unchanged.
  Saving a well-formed board never fails, and loading what was written, at any later time, gives a
  well-formed board with the same cards.
\<close>

theorem board_operations_keep_type:
  assumes "board_ok b" and "cards_of b = Inr cards"
  shows "sound_change cards i ''in_progress'' (claim_card now b i run_id actor)
    \<and> sound_change cards i lane (move_card now b i lane actor note_text)
    \<and> (\<exists>v b'. save_board now b = Inr v \<and> load_board now' (Some v) = Inr b' \<and> board_ok b' \<and> cards_of b' = Inr cards)"
proof (intro conjI)
  have ok: "list_all card_ok cards" using assms by (auto elim: board_okE)
  show "sound_change cards i ''in_progress'' (claim_card now b i run_id actor)"
    unfolding claim_card_def sound_change_def
    by (rule change_card_ok [OF assms, where P = "\<lambda>c. dget c ''lane'' = JStr ''in_progress''"])
      (use claim_changes_card in blast)
  show "sound_change cards i lane (move_card now b i lane actor note_text)"
    unfolding move_card_def sound_change_def
    by (rule change_card_ok [OF assms, where P = "\<lambda>c. dget c ''lane'' = JStr lane"])
      (use move_changes_card in blast)
  obtain v where "save_board now b = Inr v" using saved_board [OF assms(1)] by blast
  then show "\<exists>v b'. save_board now b = Inr v \<and> load_board now' (Some v) = Inr b' \<and> board_ok b' \<and> cards_of b' = Inr cards"
    using load_saved [OF assms(1)] assms(2) by metis
qed

theorem board_operations_keep_type_witness:
  "sound_change demo_cards ''a-2'' ''in_progress'' (claim_card 5 demo_board ''a-2'' ''r-1'' ''manager'')
    \<and> sound_change demo_cards ''a-9'' ''done'' (move_card 5 demo_board ''a-9'' ''done'' ''aca'' ''merged'')
    \<and> claim_card 5 demo_board ''a-9'' ''r-1'' ''manager'' = Inl (ValueError ''Card not found: a-9'')"
proof -
  have "''a-9'' \<notin> set (card_ids demo_cards)" by code_simp
  then have "claim_card 5 demo_board ''a-9'' ''r-1'' ''manager'' = Inl (ValueError ''Card not found: a-9'')"
    by (simp add: claim_card_def change_card_def demo_board_ok(2) flip: find_id_None)
  then show ?thesis
    using board_operations_keep_type [OF demo_board_ok, where i = "''a-2''" and now = 5 and run_id = "''r-1''"
        and actor = "''manager''"]
      board_operations_keep_type [OF demo_board_ok, where i = "''a-9''" and now = 5 and lane = "''done''"
        and actor = "''aca''" and note_text = "''merged''"]
    by blast
qed

text \<open>
  C13. The lanes of a board, built by one pass that appends each card to its lane, are the lanes of the
  reference reading: every column of the board and every lane a card is in is a lane once, it holds the
  cards of that lane in the order of the board, every card is in exactly one lane, and the summary counts
  the cards of each.
\<close>

theorem board_lanes_are_filters:
  assumes "cards_of b = Inr cards"
  shows "\<exists>lanes. board_lanes b = Inr lanes \<and> distinct (map fst lanes)
    \<and> (\<forall>l. map_of lanes l = (if l \<in> set (board_columns b) \<union> lane_of ` set cards
          then Some (filter (\<lambda>c. lane_of c = l) cards) else None))
    \<and> mset (concat (map snd lanes)) = mset cards
    \<and> board_summary b = Inr (map (\<lambda>l. (l, length (filter (\<lambda>c. lane_of c = l) cards))) (map fst lanes))"
proof -
  let ?lanes = "lanes_of_cards (board_columns b) cards"
  have lanes: "board_lanes b = Inr ?lanes" using assms by (simp add: board_lanes_def)
  have mine: "map_of ?lanes l = (if l \<in> set (board_columns b) \<union> lane_of ` set cards
      then Some (filter (\<lambda>c. lane_of c = l) cards) else None)" for l
    by (auto simp: lanes_of_cards_def lanes_fold map_of_columns filter_empty_conv)
  have "length cs = length (filter (\<lambda>c. lane_of c = l) cards)" if "(l, cs) \<in> set ?lanes" for l cs
    using mine [of l] map_of_is_SomeI [OF distinct_lane_names that] by (simp split: if_splits)
  then have "board_summary b = Inr (map (\<lambda>l. (l, length (filter (\<lambda>c. lane_of c = l) cards))) (map fst ?lanes))"
    by (auto simp: board_summary_def lanes)
  then show ?thesis
    using lanes mine distinct_lane_names cards_of_fold [of cards] cards_of_empty_lanes [of "[]" "board_columns b"]
    by (intro exI [of _ ?lanes]) (simp add: lanes_of_cards_def)
qed

theorem board_lanes_are_filters_witness:
  "\<exists>lanes. board_lanes demo_board = Inr lanes \<and> map_of lanes ''parked'' = Some [demo_cards ! 2]
    \<and> map_of lanes ''review'' = Some [] \<and> map_of lanes ''archive'' = None"
proof -
  have "set (board_columns demo_board) = set BOARD_COLUMNS" by code_simp
  moreover have "lane_of ` set demo_cards = {''ready'', ''done'', ''parked''}" by code_simp
  moreover have "filter (\<lambda>c. lane_of c = ''parked'') demo_cards = [demo_cards ! 2]"
    "filter (\<lambda>c. lane_of c = ''review'') demo_cards = []" by code_simp+
  moreover obtain lanes where "board_lanes demo_board = Inr lanes"
    and "\<forall>l. map_of lanes l = (if l \<in> set (board_columns demo_board) \<union> lane_of ` set demo_cards
          then Some (filter (\<lambda>c. lane_of c = l) demo_cards) else None)"
    using board_lanes_are_filters [OF demo_board_ok(2)] by blast
  ultimately show ?thesis by (intro exI [of _ lanes]) (simp add: BOARD_COLUMNS_def)
qed

end
