(* ===== verification/WorkerBlockers.thy ===== *)
theory WorkerBlockers imports RunState RepoTruth VerificationPolicy begin

text \<open>
  What a run makes of failed workers (src/tandem_agents/core/execution/runner_core.py): the blocker it
  names, the budgets of extra attempts, and whether the blocker can be retried. A blocker and a worker's
  result are dictionaries; the environment of the configuration maps names to texts. Lists of paths in a
  worker's result are lists, as the worker writes them, and a return code is an integer or missing.
\<close>

section \<open>Kinds of blockers\<close>

definition RETRYABLE_WORKER_BLOCKER_KINDS :: "string list" where
  "RETRYABLE_WORKER_BLOCKER_KINDS =
     [''worker_incomplete_diff'', ''worker_no_progress'', ''worker_off_track'', ''worker_unproductive_diff'',
      ''worker_corrupt_diff'', ''carry_forward_patch_apply_failed'', ''worker_no_diff'', ''worker_reported_blocker'',
      ''engine_tool_loop_stalled'', ''engine_tool_loop_stalled_no_diff'', ''engine_prompt_timeout'',
      ''engine_empty_response'', ''engine_no_activity_response'']"

definition PARTIAL_DIFF_EXTRA_RETRY_BLOCKER_KINDS :: "string list" where
  "PARTIAL_DIFF_EXTRA_RETRY_BLOCKER_KINDS =
     [''worker_incomplete_diff'', ''worker_corrupt_diff'', ''worker_no_progress'', ''worker_off_track'',
      ''carry_forward_patch_apply_failed'', ''engine_tool_loop_stalled'', ''engine_prompt_timeout'']"

definition worker_of :: "obj \<Rightarrow> obj" where
  "worker_of blocker = obj_of (dget blocker ''worker'')"

definition kind_of :: "obj \<Rightarrow> string" where
  "kind_of blocker = nonempty (dget blocker ''kind'')"

definition reason_of :: "obj \<Rightarrow> string" where
  "reason_of d = nonempty (dget d ''failure_reason'')"

definition return_code :: "obj \<Rightarrow> int" where
  "return_code result = (case dget result ''returncode'' of JInt i \<Rightarrow> i | _ \<Rightarrow> 0)"

section \<open>Paths\<close>

definition ends_with :: "string \<Rightarrow> string \<Rightarrow> bool" where
  "ends_with s t = starts_with (rev s) (rev t)"

text \<open>\<open>Path(p).name\<close>: empty components and single dots do not count.\<close>

definition path_name :: "string \<Rightarrow> string" where
  "path_name p = (case rev (filter (\<lambda>c. c \<noteq> [] \<and> c \<noteq> ''.'') (split_char (CHR ''/'') p)) of c # _ \<Rightarrow> c | [] \<Rightarrow> [])"

definition test_suffixes :: "string list" where
  "test_suffixes = [''_test.py'', ''.test.py'', ''_test.rs'', ''.test.ts'', ''.test.tsx'', ''.spec.ts'', ''.spec.tsx'']"

definition repo_path_looks_like_test_file :: "string \<Rightarrow> bool" where
  "repo_path_looks_like_test_file path =
     (let p = rel_text (JStr path); name = lower (path_name p) in
      if p = [] \<or> path_escapes p then False
      else contains (CHR ''/'' # lower p @ ''/'') ''/tests/'' \<or> starts_with name ''test_''
        \<or> list_ex (ends_with name) test_suffixes)"

text \<open>A changed file counts when it is inside the checkout and not the probe the worker leaves.\<close>

definition counted_path :: "string \<Rightarrow> bool" where
  "counted_path p = (p \<noteq> [] \<and> p \<noteq> ''__aca_temp_probe.txt'' \<and> \<not> path_escapes p)"

definition both_sides :: "string list \<Rightarrow> bool" where
  "both_sides paths = (list_ex repo_path_looks_like_test_file paths \<and> \<not> list_all repo_path_looks_like_test_file paths)"

definition changed_files_include_source_and_test :: "json \<Rightarrow> bool" where
  "changed_files_include_source_and_test changed_files = (case changed_files of
      JList raws \<Rightarrow> both_sides (filter counted_path (map rel_text raws)) | _ \<Rightarrow> False)"

text \<open>The paths and the texts of a list field, empty ones left out.\<close>

definition listed_paths :: "obj \<Rightarrow> string \<Rightarrow> string list" where
  "listed_paths d k = filter (\<lambda>p. p \<noteq> []) (map slash_text (list_of (dget d k)))"

definition listed_texts :: "obj \<Rightarrow> string \<Rightarrow> string list" where
  "listed_texts d k = filter (\<lambda>p. p \<noteq> []) (map nonempty (list_of (dget d k)))"

definition collect_worker_changed_files :: "obj list \<Rightarrow> string list" where
  "collect_worker_changed_files results =
     rev (remdups (rev (filter counted_path (map rel_text (concat (map (\<lambda>r. list_of (dget r ''changed_files'')) results))))))"

section \<open>The blocker of the first failed worker\<close>

definition worker_failed :: "obj \<Rightarrow> bool" where
  "worker_failed result = (nonempty (dget result ''status'') = ''failed'' \<or> return_code result \<noteq> 0)"

definition or_text :: "string \<Rightarrow> string \<Rightarrow> string" where
  "or_text s t = (if s \<noteq> [] then s else t)"

definition ignored_sentence :: "obj \<Rightarrow> string" where
  "ignored_sentence first = (let ignored = map py_str (list_of (dget first ''ignored_files'')) in
     if ignored = [] then [] else '' Ignored files: '' @ join '', '' ignored @ ''.'')"

text \<open>Per kind: the message, the phase detail after the worker's name, and the default recovery action.\<close>

definition failure_words :: "string \<Rightarrow> string \<Rightarrow> obj \<Rightarrow> string \<times> string \<times> string" where
  "failure_words kind reason first =
     (if kind = ''engine_empty_response'' then
        (''Tandem engine returned no assistant transcript after async retry and prompt_sync fallback.'',
         '' blocked on empty Tandem engine transcript'',
         ''Check Tandem engine provider/model routing and persisted engine snapshots, then reset the task to Backlog.'')
      else if kind = ''engine_no_activity_response'' then
        (''Tandem engine produced no visible assistant or tool activity for the worker prompt.'',
         '' blocked on silent Tandem engine activity'',
         ''Retry with a narrower worker prompt before marking the task blocked.'')
      else if kind = ''worker_no_diff'' then
        (''Worker inspected the task but produced no repository diff.'', '' produced no filesystem changes'',
         ''Inspect the worker log and PR candidate context, then reset the task to Backlog if another attempt is needed.'')
      else if kind = ''worker_no_progress'' then
        (or_text reason ''Worker produced no terminal result before the no-progress watchdog fired.'',
         '' made no terminal progress'',
         ''Inspect the worker log and engine run state, then retry after fixing the stalled worker path.'')
      else if kind = ''worker_incomplete_diff'' then
        (''Worker produced a partial repository diff but reported remaining blockers.'', '' produced an incomplete diff'',
         ''Retry with a narrower repair prompt focused on the unmet acceptance criteria.'')
      else if kind = ''worker_off_track'' then
        (or_text reason ''Worker drifted away from the required task evidence.'', '' drifted off the required edit/test path'',
         ''Retry with a narrower prompt that edits the required test or evidence file first.'')
      else if kind = ''worker_runaway_diff'' then
        (or_text reason ''Worker produced an unexpectedly large diff.'', '' tripped the runaway diff guard'',
         ''Inspect the clipped diff evidence and fix the edit path before resetting this task for another run.'')
      else if kind = ''worker_unproductive_diff'' then
        (or_text reason ''Worker produced a placeholder or comment-only diff.'', '' produced an unproductive diff'',
         ''Retry with a smaller prompt that requires a real implementation-backed assertion before comments.'')
      else if kind = ''worker_reported_blocker'' then
        (or_text reason ''Worker reported a blocker before producing a repository diff.'', '' reported a blocker'',
         ''Retry with exact target file paths first; do not use brace globs to inspect concrete target files.'')
      else if kind = ''carry_forward_patch_apply_failed'' then
        (or_text reason ''ACA could not apply the preserved partial diff before retry.'', '' could not apply preserved partial diff'',
         ''Discard the corrupt preserved patch and replan a fresh narrow repair against parent target files.'')
      else if kind = ''ignored_path_changes'' then
        (''Worker edited only Git-ignored files, so no reviewable repository diff was produced.'' @ ignored_sentence first,
         '' edited only ignored files'',
         ''Move the requested deliverable to tracked repository files, then reset the task to Backlog.'')
      else if kind = ''engine_exception'' then
        (or_text reason ''Tandem engine prompt failed with an exception.'', '' hit an engine prompt exception'',
         ''Inspect the worker log and Tandem engine health, then retry.'')
      else if kind = ''engine_provider_auth'' then
        (or_text reason ''Tandem engine provider authentication failed.'', '' blocked on Tandem provider authentication'',
         ''Repair the Tandem Control Panel provider credentials/model route, then reset the task to Backlog.'')
      else if kind = ''engine_dispatch_failed'' then
        (or_text reason ''Tandem engine could not dispatch the provider request.'', '' blocked on Tandem engine dispatch'',
         ''Inspect Tandem engine dispatch logs and provider routing, then reset the task to Backlog.'')
      else
        (or_text reason ''One or more workers failed.'', '' failed during worker execution'',
         ''Inspect the failed worker log, then reset the task to Backlog if another attempt is needed.''))"

definition worded_kinds :: "string list" where
  "worded_kinds = [''engine_empty_response'', ''engine_no_activity_response'', ''worker_no_diff'', ''worker_no_progress'',
     ''worker_incomplete_diff'', ''worker_off_track'', ''worker_runaway_diff'', ''worker_unproductive_diff'',
     ''worker_reported_blocker'', ''carry_forward_patch_apply_failed'', ''ignored_path_changes'', ''engine_exception'',
     ''engine_provider_auth'', ''engine_dispatch_failed'']"

definition bit_if :: "string \<Rightarrow> string \<Rightarrow> string list" where
  "bit_if label s = (if s \<noteq> [] then [label @ s] else [])"

definition detail_bits :: "string \<Rightarrow> string \<Rightarrow> string \<Rightarrow> obj \<Rightarrow> obj \<Rightarrow> string list" where
  "detail_bits worker_id kind reason engine first =
     [''worker='' @ worker_id, ''reason='' @ or_text reason kind]
     @ bit_if ''session_id='' (nonempty (dget engine ''session_id''))
     @ bit_if ''engine_run_id='' (nonempty (py_or (dget engine ''run_id'') (dget first ''engine_run_id'')))
     @ (if dget engine ''retry_count'' = JNull \<or> dget engine ''retry_count'' = JStr [] then []
        else [''retry_count='' @ py_str (dget engine ''retry_count'')])
     @ bit_if ''fallback='' (nonempty (dget engine ''fallback_mode''))"

definition worker_failure_blocker :: "obj list \<Rightarrow> obj" where
  "worker_failure_blocker worker_results =
     (let first = (case find worker_failed worker_results of Some r \<Rightarrow> r | None \<Rightarrow> []);
          kind = or_text (nonempty (dget first ''blocker_kind'')) ''worker_failed'';
          reason = reason_of first;
          engine = obj_of (dget first ''engine'');
          worker_id = or_text (nonempty (dget first ''worker_id'')) ''worker'';
          (message, phase_detail, recovery) = failure_words kind reason first
      in [(''kind'', JStr kind), (''message'', JStr message),
          (''detail'', JStr (join ''; '' (detail_bits worker_id kind reason engine first))),
          (''phase_detail'', JStr (worker_id @ phase_detail)),
          (''recovery_action'', JStr (if List.member worded_kinds kind
             then nonempty (py_or (dget first ''recovery_action'') (JStr recovery)) else recovery)),
          (''engine'', JObj engine), (''worker'', JObj first)])"

section \<open>Budgets of extra attempts\<close>

type_synonym environ = "string \<Rightarrow> string option"

text \<open>A number from the environment, at least zero; a text that is no number counts as missing.\<close>

definition env_budget :: "environ \<Rightarrow> string \<Rightarrow> int \<Rightarrow> int" where
  "env_budget env key fallback = (case strip (case env key of Some s \<Rightarrow> s | None \<Rightarrow> []) of
      [] \<Rightarrow> fallback
    | c # cs \<Rightarrow> (case py_int (c # cs) of Some i \<Rightarrow> max 0 i | None \<Rightarrow> fallback))"

definition worker_incomplete_diff_extra_retries :: "environ \<Rightarrow> int" where
  "worker_incomplete_diff_extra_retries env = env_budget env ''ACA_WORKER_INCOMPLETE_DIFF_EXTRA_RETRIES'' 1"

definition worker_off_track_extra_retries :: "environ \<Rightarrow> int" where
  "worker_off_track_extra_retries env = env_budget env ''ACA_WORKER_OFF_TRACK_EXTRA_RETRIES'' 1"

definition worker_engine_empty_response_extra_retries :: "environ \<Rightarrow> int" where
  "worker_engine_empty_response_extra_retries env = env_budget env ''ACA_WORKER_ENGINE_EMPTY_RESPONSE_EXTRA_RETRIES'' 1"

definition worker_verifiable_diff_test_failed_extra_retries :: "environ \<Rightarrow> int" where
  "worker_verifiable_diff_test_failed_extra_retries env =
     env_budget env ''ACA_WORKER_VERIFIABLE_DIFF_TEST_FAILED_EXTRA_RETRIES'' 1"

definition worker_verifiable_diff_weak_test_extra_retries :: "environ \<Rightarrow> int" where
  "worker_verifiable_diff_weak_test_extra_retries env =
     env_budget env ''ACA_WORKER_VERIFIABLE_DIFF_WEAK_TEST_EXTRA_RETRIES'' 3"

definition worker_verifiable_diff_import_error_extra_retries :: "environ \<Rightarrow> int" where
  "worker_verifiable_diff_import_error_extra_retries env =
     env_budget env ''ACA_WORKER_VERIFIABLE_DIFF_IMPORT_ERROR_EXTRA_RETRIES'' 2"

definition worker_verifiable_diff_exception_extra_retries :: "environ \<Rightarrow> int" where
  "worker_verifiable_diff_exception_extra_retries env =
     env_budget env ''ACA_WORKER_VERIFIABLE_DIFF_EXCEPTION_EXTRA_RETRIES'' 2"

definition worker_verifiable_diff_assertion_extra_retries :: "environ \<Rightarrow> int" where
  "worker_verifiable_diff_assertion_extra_retries env =
     env_budget env ''ACA_WORKER_VERIFIABLE_DIFF_ASSERTION_EXTRA_RETRIES'' 2"

definition verification_repair_extra_retries :: "environ \<Rightarrow> int" where
  "verification_repair_extra_retries env = env_budget env ''ACA_VERIFICATION_REPAIR_EXTRA_RETRIES'' 1"

definition worker_complementary_partial_diff_loop_extra_retries :: "environ \<Rightarrow> int" where
  "worker_complementary_partial_diff_loop_extra_retries env =
     env_budget env ''ACA_WORKER_COMPLEMENTARY_PARTIAL_DIFF_LOOP_EXTRA_RETRIES'' 1"

definition worker_repair_loop_extra_retries :: "environ \<Rightarrow> int" where
  "worker_repair_loop_extra_retries env =
     foldr max
       [worker_off_track_extra_retries env, worker_engine_empty_response_extra_retries env,
        worker_verifiable_diff_test_failed_extra_retries env, worker_verifiable_diff_weak_test_extra_retries env,
        worker_verifiable_diff_import_error_extra_retries env, worker_verifiable_diff_exception_extra_retries env,
        worker_verifiable_diff_assertion_extra_retries env]
       (worker_incomplete_diff_extra_retries env)"

section \<open>What the blocker says about the failure\<close>

definition worker_failure_has_partial_diff :: "obj \<Rightarrow> bool" where
  "worker_failure_has_partial_diff blocker =
     (nonempty (dget (worker_of blocker) ''partial_diff_artifact'') \<noteq> []
      \<or> nonempty (dget (obj_of (dget (worker_of blocker) ''artifacts'')) ''partial_diff'') \<noteq> [])"

definition incomplete_with :: "string list \<Rightarrow> obj \<Rightarrow> bool" where
  "incomplete_with reasons blocker =
     (List.member reasons (reason_of (worker_of blocker)) \<and> kind_of blocker = ''worker_incomplete_diff''
      \<and> worker_failure_has_partial_diff blocker
      \<and> changed_files_include_source_and_test (dget (worker_of blocker) ''changed_files''))"

definition worker_failure_is_verifiable_diff_test_failed :: "obj \<Rightarrow> bool" where
  "worker_failure_is_verifiable_diff_test_failed blocker =
     incomplete_with [''WORKER_VERIFIABLE_DIFF_TEST_FAILED'', ''WORKER_VERIFIABLE_DIFF_UNTERMINATED''] blocker"

definition worker_failure_is_verifiable_diff_weak_test :: "obj \<Rightarrow> bool" where
  "worker_failure_is_verifiable_diff_weak_test blocker =
     incomplete_with [''WORKER_VERIFIABLE_DIFF_WEAK_TEST'', ''WORKER_VERIFIABLE_DIFF_MISALIGNED_TEST''] blocker"

definition engine_stall_reasons :: "string list" where
  "engine_stall_reasons = [''ENGINE_PROMPT_TIMEOUT'', ''ENGINE_TOOL_LOOP_STALLED'']"

definition preserved_reasons :: "string list" where
  "preserved_reasons = [''WORKER_VERIFIABLE_DIFF_TEST_FAILED'', ''WORKER_VERIFIABLE_DIFF_UNTERMINATED'',
     ''WORKER_VERIFIABLE_DIFF_WEAK_TEST'', ''WORKER_VERIFIABLE_DIFF_MISALIGNED_TEST''] @ engine_stall_reasons
     @ [''WORKER_OFF_TRACK_TESTLESS_DIFF'', ''WORKER_TEST_ONLY_DIFF'']"

definition worker_failure_is_repair_no_change_on_preserved_partial :: "obj \<Rightarrow> bool" where
  "worker_failure_is_repair_no_change_on_preserved_partial blocker =
     (let w = worker_of blocker; preserved = nonempty (dget w ''preserved_failure_reason'') in
      kind_of blocker = ''worker_no_progress'' \<and> reason_of w = ''WORKER_REPAIR_NO_CHANGE''
      \<and> List.member preserved_reasons preserved \<and> worker_failure_has_partial_diff blocker
      \<and> (List.member engine_stall_reasons preserved
          \<or> changed_files_include_source_and_test (dget w ''changed_files'')))"

definition worker_failure_is_incomplete_diff_with_partial :: "obj \<Rightarrow> bool" where
  "worker_failure_is_incomplete_diff_with_partial blocker =
     (kind_of blocker = ''worker_incomplete_diff''
      \<and> List.member (''WORKER_TEST_ONLY_DIFF'' # engine_stall_reasons) (reason_of (worker_of blocker))
      \<and> worker_failure_has_partial_diff blocker)"

text \<open>The texts a failure is recognised by: the fields of the worker's result, one per line, in lower case.\<close>

definition failure_text :: "string list \<Rightarrow> obj \<Rightarrow> string" where
  "failure_text keys blocker = lower (join nlc (map (\<lambda>k. str_or_empty (dget (worker_of blocker) k)) keys))"

definition output_keys :: "string list" where
  "output_keys = [''stdout'', ''output_excerpt'', ''failure_reason'', ''verification_output_excerpt'']"

definition worker_failure_has_import_error :: "obj \<Rightarrow> bool" where
  "worker_failure_has_import_error blocker = (let text0 = failure_text output_keys blocker in
     (contains text0 ''importerror'' \<and> contains text0 ''cannot import name'')
     \<or> (contains text0 ''modulenotfounderror'' \<and> contains text0 ''no module named''))"

definition quoted_word :: "string \<Rightarrow> string" where
  "quoted_word s = char_of (39::nat) # s @ [char_of (39::nat)]"

definition exception_signs :: "string list list" where
  "exception_signs =
     [[''typeerror:'', ''got an unexpected keyword argument''],
      [''nameerror:'', ''is not defined''],
      [''typeerror:'', '' positional argument'', '' given''],
      [''typeerror:'', ''missing'', ''required positional argument''],
      [''attributeerror:'', quoted_word ''str'' @ '' object has no attribute '' @ quoted_word ''get''],
      [''attributeerror:'', quoted_word ''nonetype'' @ '' object has no attribute '' @ quoted_word ''get''],
      [''syntaxerror:'', ''from __future__ imports must occur at the beginning of the file'']]"

definition worker_failure_has_repairable_exception :: "obj \<Rightarrow> bool" where
  "worker_failure_has_repairable_exception blocker =
     list_ex (list_all (contains (failure_text output_keys blocker))) exception_signs"

definition worker_failure_has_assertion_failure :: "obj \<Rightarrow> bool" where
  "worker_failure_has_assertion_failure blocker = (let text0 = failure_text output_keys blocker in
     contains text0 ''assertionerror:'' \<or> contains text0 (nlc @ ''fail:'') \<or> contains text0 ''failed (failures='')"

definition worker_failure_is_false_missing_target_glob :: "obj \<Rightarrow> bool" where
  "worker_failure_is_false_missing_target_glob blocker =
     (let text0 = failure_text [''stdout'', ''output_excerpt'', ''failure_reason''] blocker in
      contains text0 ''glob'' \<and> contains text0 ''no matches''
      \<and> (contains text0 ''target file'' \<or> contains text0 ''target files'' \<or> contains text0 ''required target''))"

section \<open>Retrying the attempt\<close>

definition raised_for :: "bool \<Rightarrow> int \<Rightarrow> int \<Rightarrow> int" where
  "raised_for c n extra = (if c then max extra n else extra)"

text \<open>An import error, a repairable exception and a failed assertion raise the budget to their own.\<close>

definition raised_budget :: "environ \<Rightarrow> obj \<Rightarrow> int \<Rightarrow> int" where
  "raised_budget env blocker extra =
     raised_for (worker_failure_has_assertion_failure blocker) (worker_verifiable_diff_assertion_extra_retries env)
       (raised_for (worker_failure_has_repairable_exception blocker) (worker_verifiable_diff_exception_extra_retries env)
         (raised_for (worker_failure_has_import_error blocker) (worker_verifiable_diff_import_error_extra_retries env) extra))"

definition no_change_budget :: "environ \<Rightarrow> obj \<Rightarrow> int" where
  "no_change_budget env blocker = raised_budget env blocker
     (if changed_files_include_source_and_test (dget (worker_of blocker) ''changed_files'')
      then worker_verifiable_diff_test_failed_extra_retries env else worker_incomplete_diff_extra_retries env)"

definition test_failed_budget :: "environ \<Rightarrow> obj \<Rightarrow> int" where
  "test_failed_budget env blocker = raised_budget env blocker (worker_verifiable_diff_test_failed_extra_retries env)"

definition weak_test_budget :: "environ \<Rightarrow> obj \<Rightarrow> int" where
  "weak_test_budget env blocker = worker_verifiable_diff_weak_test_extra_retries env
     + (if worker_failure_has_import_error blocker \<or> worker_failure_has_repairable_exception blocker
           \<or> worker_failure_has_assertion_failure blocker then 1 else 0)"

text \<open>The extra attempts of a failure that left a partial diff, past the ordinary ones.\<close>

definition partial_diff_can_retry :: "environ \<Rightarrow> obj \<Rightarrow> int \<Rightarrow> int \<Rightarrow> bool" where
  "partial_diff_can_retry env blocker attempt base_max_loops =
     (let kind = kind_of blocker in
      if \<not> List.member PARTIAL_DIFF_EXTRA_RETRY_BLOCKER_KINDS kind then False
      else if (kind = ''engine_tool_loop_stalled'' \<or> kind = ''engine_prompt_timeout'')
        \<and> \<not> worker_failure_has_partial_diff blocker then False
      else if kind = ''worker_off_track'' then attempt < base_max_loops + worker_off_track_extra_retries env - 1
      else if worker_failure_is_verifiable_diff_test_failed blocker then
        attempt < base_max_loops + test_failed_budget env blocker - 1
      else if worker_failure_is_verifiable_diff_weak_test blocker then
        attempt < base_max_loops + weak_test_budget env blocker - 1
      else worker_failure_is_incomplete_diff_with_partial blocker
        \<and> attempt < base_max_loops + worker_incomplete_diff_extra_retries env - 1)"

definition worker_failure_can_retry :: "environ \<Rightarrow> obj \<Rightarrow> int \<Rightarrow> int \<Rightarrow> bool" where
  "worker_failure_can_retry env blocker attempt base_max_loops =
     (let kind = kind_of blocker; w = worker_of blocker in
      if \<not> List.member RETRYABLE_WORKER_BLOCKER_KINDS kind then False
      else if kind = ''worker_reported_blocker'' then
        worker_failure_is_false_missing_target_glob blocker \<and> attempt < base_max_loops - 1
      else if kind = ''worker_no_progress'' \<and> truthy (dget w ''worker_abandoned_after_timeout'') then False
      else if kind = ''engine_empty_response'' \<or> kind = ''engine_no_activity_response'' then attempt < base_max_loops - 1
      else if kind = ''worker_no_progress'' \<and> reason_of w = ''WORKER_REPAIR_NO_CHANGE'' then
        worker_failure_is_repair_no_change_on_preserved_partial blocker
        \<and> attempt < base_max_loops + no_change_budget env blocker - 1
      else attempt < base_max_loops - 1 \<or> partial_diff_can_retry env blocker attempt base_max_loops)"

section \<open>Retrying after a rejected review or integration\<close>

text \<open>A repair section that keeps a partial diff, in the status or on the blackboard.\<close>

definition keeps_incomplete_diff :: "obj \<Rightarrow> bool" where
  "keeps_incomplete_diff repair =
     (nonempty (dget repair ''extra_retry_source'') = ''worker_incomplete_diff''
      \<or> (case dget repair ''extra_retry_sources'' of JList xs \<Rightarrow> List.member xs (JStr ''worker_incomplete_diff'') | _ \<Rightarrow> False)
      \<or> (truthy (dget repair ''partial_diff_artifacts'') \<and> dget repair ''partial_diff_state'' = JStr ''preserved_not_accepted''))"

definition repair_state_has_worker_incomplete_diff :: "obj \<Rightarrow> obj \<Rightarrow> bool" where
  "repair_state_has_worker_incomplete_diff status blackboard =
     (keeps_incomplete_diff (section_of status ''repair'') \<or> keeps_incomplete_diff (section_of blackboard ''repair''))"

definition verification_can_retry :: "environ \<Rightarrow> obj \<Rightarrow> obj \<Rightarrow> int \<Rightarrow> int \<Rightarrow> bool" where
  "verification_can_retry env status blackboard attempt base_max_loops =
     (attempt < base_max_loops - 1
      \<or> (repair_state_has_worker_incomplete_diff status blackboard
         \<and> attempt < base_max_loops + (worker_incomplete_diff_extra_retries env + verification_repair_extra_retries env) - 1))"

definition integration_can_retry :: "environ \<Rightarrow> obj \<Rightarrow> obj \<Rightarrow> int \<Rightarrow> int \<Rightarrow> bool" where
  "integration_can_retry env status blackboard attempt base_max_loops =
     (verification_can_retry env status blackboard attempt base_max_loops
      \<or> (repair_state_has_worker_incomplete_diff status blackboard
         \<and> attempt < base_max_loops + worker_incomplete_diff_extra_retries env
             + env_budget env ''ACA_INTEGRATION_REJECTION_EXTRA_RETRIES'' 1 - 1))"

end
