(* ===== verification/RepairArtifacts.thy ===== *)
theory RepairArtifacts imports WorkerBlockers begin

text \<open>
  The partial diffs a run preserves between attempts, and the retries they allow
  (src/tandem_agents/core/execution/runner_core.py). An artifact is a dictionary with the patch, the
  reason of the failure and the changed files; the artifacts of a run are kept in the repair sections of
  its status and its blackboard, in the order the attempts left them.
\<close>

section \<open>Artifacts of the workers' results\<close>

definition worker_result_has_reviewable_synced_diff :: "obj \<Rightarrow> bool" where
  "worker_result_has_reviewable_synced_diff result =
     ((normalized_text (dget result ''status'') = ''completed'' \<or> return_code result = 0)
      \<and> nonempty (dget result ''partial_diff_state'') = ''reviewable_terminalized''
      \<and> (case dget result ''synced_files'' of JList xs \<Rightarrow> list_ex (\<lambda>p. nonempty p \<noteq> []) xs | _ \<Rightarrow> False))"

definition worker_failure_is_inherited_overlay_no_fresh_changes :: "obj \<Rightarrow> bool" where
  "worker_failure_is_inherited_overlay_no_fresh_changes result =
     ((normalized_text (dget result ''status'') = ''failed'' \<or> return_code result \<noteq> 0)
      \<and> (reason_of result = ''WORKER_INHERITED_OVERLAY_NO_FRESH_CHANGES''
          \<or> (dget result ''fresh_changed_files'' = JList [] \<and> truthy (dget result ''inherited_overlay_changed_files''))))"

definition patch_path_of :: "obj \<Rightarrow> string" where
  "patch_path_of result = or_text (nonempty (dget result ''partial_diff_artifact''))
     (nonempty (dget (obj_of (dget result ''artifacts'')) ''partial_diff''))"

text \<open>The first 2000 characters, with an ellipsis on its own line when more were cut.\<close>

definition excerpt :: "string \<Rightarrow> string" where
  "excerpt s = (if length s > 2000 then rstrip_by is_space (take 2000 s) @ nlc @ ''...'' else s)"

definition put_text :: "string \<Rightarrow> string \<Rightarrow> obj \<Rightarrow> obj" where
  "put_text k s d = (if s \<noteq> [] then dset k (JStr s) d else d)"

definition artifact_reason :: "obj \<Rightarrow> string" where
  "artifact_reason result = or_text (nonempty (dget result ''preserved_failure_reason'')) (reason_of result)"

definition artifact_identity :: "obj \<Rightarrow> obj" where
  "artifact_identity result =
     put_text ''recovery_action'' (nonempty (dget result ''recovery_action''))
       (put_text ''blocker_kind'' (nonempty (dget result ''blocker_kind''))
         ((if nonempty (dget result ''preserved_failure_reason'') \<noteq> []
           then dset ''preserved_from_failure_reason'' (JStr (reason_of result)) else id)
           (put_text ''failure_reason'' (artifact_reason result)
             [(''subtask_id'', JStr (nonempty (dget result ''subtask_id''))),
              (''worker_id'', JStr (nonempty (dget result ''worker_id''))),
              (''patch_path'', JStr (patch_path_of result))])))"

definition one_sided_reasons :: "string list" where
  "one_sided_reasons = [''WORKER_OFF_TRACK_TESTLESS_DIFF'', ''WORKER_TEST_ONLY_DIFF'']"

definition not_reusable :: "string \<Rightarrow> obj \<Rightarrow> obj" where
  "not_reusable why entry = dset ''patch_reusable_reason'' (JStr why) (dset ''patch_reusable'' (JBool False) entry)"

definition guard_reuse :: "string \<Rightarrow> obj \<Rightarrow> obj" where
  "guard_reuse reason entry =
     (if List.member one_sided_reasons reason then not_reusable ''one_sided_guard'' entry
      else if List.member [''WORKER_VERIFIABLE_DIFF_MISALIGNED_TEST'', ''WORKER_RUNAWAY_DIFF'', ''WORKER_DESTRUCTIVE_DIFF''] reason
      then not_reusable (lower reason) entry else entry)"

definition runtime_reuse :: "obj \<Rightarrow> obj \<Rightarrow> obj" where
  "runtime_reuse result entry =
     (if nonempty (dget result ''blocker_kind'') = ''worker_runaway_diff'' \<or> dget result ''patch_reusable'' = JBool False
      then dsetdefault ''patch_reusable_reason''
             (JStr (or_text (nonempty (py_or (dget result ''patch_reusable_reason'') (JStr ''runtime_marked_non_reusable'')))
                            ''runtime_marked_non_reusable''))
             (dset ''patch_reusable'' (JBool False) entry)
      else entry)"

definition put_texts :: "string \<Rightarrow> string list \<Rightarrow> obj \<Rightarrow> obj" where
  "put_texts k xs d = (if xs \<noteq> [] then dset k (JList (map JStr xs)) d else d)"

definition first_of_each :: "'a list \<Rightarrow> 'a list" where
  "first_of_each xs = rev (remdups (rev xs))"

text \<open>The texts of a field that must be a list.\<close>

definition texts_if_list :: "obj \<Rightarrow> string \<Rightarrow> string list" where
  "texts_if_list d k = (case dget d k of JList _ \<Rightarrow> listed_texts d k | _ \<Rightarrow> [])"

definition blank_values :: "json list" where
  "blank_values = [JNull, JStr [], JList [], JObj []]"

definition copy_unless_blank :: "obj \<Rightarrow> string \<Rightarrow> obj \<Rightarrow> obj" where
  "copy_unless_blank result k d = (if List.member blank_values (dget result k) then d else dset k (dget result k) d)"

definition artifact_evidence :: "obj \<Rightarrow> obj \<Rightarrow> obj" where
  "artifact_evidence result entry =
     put_texts ''subtask_target_files'' (first_of_each (texts_if_list result ''subtask_target_files''))
       (put_texts ''subtask_files'' (first_of_each (texts_if_list result ''subtask_files''))
         (copy_unless_blank result ''verification_output_excerpt''
           (copy_unless_blank result ''verification_timed_out''
             (copy_unless_blank result ''verification_returncode''
               (put_texts ''verification_command'' (texts_if_list result ''verification_command'')
                 (put_texts ''syntax_errors'' (first_of_each (texts_if_list result ''syntax_errors''))
                   (put_text ''worker_output_excerpt'' (excerpt (nonempty (py_or (dget result ''stdout'') (dget result ''output_excerpt''))))
                     (put_texts ''changed_files'' (collect_worker_changed_files [result]) entry))))))))"

definition artifact_entry :: "obj \<Rightarrow> obj" where
  "artifact_entry result =
     artifact_evidence result (runtime_reuse result (guard_reuse (artifact_reason result) (artifact_identity result)))"

definition partial_diff_artifacts_for_retry :: "obj list \<Rightarrow> obj list" where
  "partial_diff_artifacts_for_retry worker_results =
     first_of_each (map artifact_entry
       (filter (\<lambda>r. \<not> worker_result_has_reviewable_synced_diff r \<and> patch_path_of r \<noteq> []) worker_results))"

section \<open>Artifacts of the run\<close>

definition artifact_key :: "obj \<Rightarrow> string" where
  "artifact_key artifact = (let patch_path = nonempty (dget artifact ''patch_path'') in
     if patch_path \<noteq> [] then ''patch:'' @ patch_path
     else join '':'' [nonempty (dget artifact ''subtask_id''), nonempty (dget artifact ''worker_id''),
            join '','' (map (\<lambda>p. strip (py_str p)) (list_of (dget artifact ''changed_files'')))])"

fun merge_artifacts :: "obj list \<Rightarrow> string list \<Rightarrow> obj list \<Rightarrow> obj list" where
  "merge_artifacts artifacts seen [] = artifacts"
| "merge_artifacts artifacts seen (raw # raws) =
     (if List.member seen (artifact_key raw) then merge_artifacts artifacts seen raws
      else merge_artifacts (artifacts @ [raw]) (artifact_key raw # seen) raws)"

definition dicts_of :: "json \<Rightarrow> obj list" where
  "dicts_of v = (case v of JList xs \<Rightarrow> map obj_of (filter is_obj xs) | _ \<Rightarrow> [])"

definition merge_partial_diff_artifacts_for_retry :: "json \<Rightarrow> obj list \<Rightarrow> obj list" where
  "merge_partial_diff_artifacts_for_retry existing new_artifacts = merge_artifacts [] [] (dicts_of existing @ new_artifacts)"

text \<open>The artifacts of the run as its repair sections hold them, the blackboard's first.\<close>

definition repair_partial_diff_artifacts :: "obj \<Rightarrow> obj \<Rightarrow> obj list" where
  "repair_partial_diff_artifacts status blackboard =
     first_of_each (dicts_of (dget (section_of blackboard ''repair'') ''partial_diff_artifacts'')
       @ dicts_of (dget (section_of status ''repair'') ''partial_diff_artifacts''))"

text \<open>What an artifact repairs: its subtask, or else its first list of files.\<close>

definition partial_diff_artifact_repair_key :: "obj \<Rightarrow> string" where
  "partial_diff_artifact_repair_key artifact =
     (let subtask_id = nonempty (dget artifact ''subtask_id'') in
      if subtask_id \<noteq> [] then ''subtask:'' @ subtask_id
      else case filter (\<lambda>k. listed_paths artifact k \<noteq> []) [''subtask_target_files'', ''subtask_files'', ''changed_files''] of
        k # _ \<Rightarrow> k @ '':'' @ join '','' (listed_paths artifact k) | [] \<Rightarrow> [])"

section \<open>One-sided diffs\<close>

text \<open>A diff of sources without tests, and one of tests alone, as the guards of the worker named them.\<close>

definition source_only :: "obj \<Rightarrow> bool" where
  "source_only artifact = (reason_of artifact = ''WORKER_OFF_TRACK_TESTLESS_DIFF'' \<and> listed_paths artifact ''changed_files'' \<noteq> []
     \<and> list_all (\<lambda>p. \<not> repo_path_looks_like_test_file p) (listed_paths artifact ''changed_files''))"

definition test_only :: "obj \<Rightarrow> bool" where
  "test_only artifact = (reason_of artifact = ''WORKER_TEST_ONLY_DIFF'' \<and> listed_paths artifact ''changed_files'' \<noteq> []
     \<and> list_all repo_path_looks_like_test_file (listed_paths artifact ''changed_files''))"

definition pairs_files :: "obj \<Rightarrow> bool" where
  "pairs_files artifact = changed_files_include_source_and_test (JList (map JStr (listed_paths artifact ''changed_files'')))"

definition keys_where :: "(obj \<Rightarrow> bool) \<Rightarrow> obj list \<Rightarrow> string list" where
  "keys_where p artifacts = filter (\<lambda>k. k \<noteq> []) (map partial_diff_artifact_repair_key (filter p artifacts))"

definition partial_diff_artifacts_complementary_one_sided_pair_count :: "obj list \<Rightarrow> int" where
  "partial_diff_artifacts_complementary_one_sided_pair_count artifacts =
     int (length (remdups (filter (List.member (keys_where test_only artifacts)) (keys_where source_only artifacts))))"

definition partial_diff_artifacts_have_complementary_one_sided_pair :: "obj list \<Rightarrow> bool" where
  "partial_diff_artifacts_have_complementary_one_sided_pair artifacts =
     (partial_diff_artifacts_complementary_one_sided_pair_count artifacts > 0)"

definition complementary_one_sided_partial_diff_can_retry :: "environ \<Rightarrow> obj list \<Rightarrow> int \<Rightarrow> int \<Rightarrow> bool" where
  "complementary_one_sided_partial_diff_can_retry env artifacts attempt base_max_loops =
     (let pair_count = partial_diff_artifacts_complementary_one_sided_pair_count artifacts;
          base_extra = max (worker_incomplete_diff_extra_retries env) (worker_off_track_extra_retries env) + 1
      in pair_count > 0 \<and> attempt < base_max_loops + (base_extra + max 0 (pair_count - 1) * 2) - 1)"

text \<open>The cycle: a source-only and a test-only diff of the same repair, and then another try at either or a rebuild.\<close>

definition paired_rebuild_reasons :: "string list" where
  "paired_rebuild_reasons = [''WORKER_VERIFIABLE_DIFF_WEAK_TEST'', ''WORKER_VERIFIABLE_DIFF_MISALIGNED_TEST'',
     ''WORKER_VERIFIABLE_DIFF_TEST_FAILED'', ''WORKER_VERIFIABLE_DIFF_UNTERMINATED'', ''WORKER_RUNAWAY_DIFF'',
     ''WORKER_DESTRUCTIVE_DIFF'']"

record cycle_seen =
  source_seen :: bool
  test_seen :: bool
  rebuild_seen :: bool
  again_seen :: bool

definition cycle_step :: "obj \<Rightarrow> cycle_seen \<Rightarrow> cycle_seen" where
  "cycle_step artifact s =
     (let again = again_seen s \<or> (source_seen s \<and> test_seen s) in
      if source_only artifact then s\<lparr>source_seen := True, again_seen := again\<rparr>
      else if test_only artifact then s\<lparr>test_seen := True, again_seen := again\<rparr>
      else if List.member paired_rebuild_reasons (reason_of artifact) \<and> pairs_files artifact then s\<lparr>rebuild_seen := True\<rparr>
      else s)"

definition nothing_seen :: cycle_seen where
  "nothing_seen = \<lparr>source_seen = False, test_seen = False, rebuild_seen = False, again_seen = False\<rparr>"

text \<open>The artifacts of the same repair as a worker that failed one-sidedly; none when it has no key.\<close>

definition same_repair :: "obj \<Rightarrow> obj list \<Rightarrow> obj list" where
  "same_repair worker artifacts =
     filter (\<lambda>a. partial_diff_artifact_repair_key a = partial_diff_artifact_repair_key worker) artifacts"

definition failed_one_sided :: "obj \<Rightarrow> bool" where
  "failed_one_sided worker = (List.member one_sided_reasons (reason_of worker) \<and> partial_diff_artifact_repair_key worker \<noteq> [])"

definition one_sided_repair_cycle_should_block :: "obj list \<Rightarrow> obj \<Rightarrow> bool" where
  "one_sided_repair_cycle_should_block artifacts blocker =
     (let s = fold cycle_step (same_repair (worker_of blocker) artifacts) nothing_seen in
      failed_one_sided (worker_of blocker) \<and> source_seen s \<and> test_seen s \<and> (rebuild_seen s \<or> again_seen s))"

definition failed_verifiable :: "obj \<Rightarrow> bool" where
  "failed_verifiable artifact =
     List.member [''WORKER_VERIFIABLE_DIFF_TEST_FAILED'', ''WORKER_VERIFIABLE_DIFF_UNTERMINATED''] (reason_of artifact)"

text \<open>The one-sided diffs since the last paired diff that reached its focused verification and failed it.\<close>

fun followups :: "obj list \<Rightarrow> bool \<Rightarrow> int \<Rightarrow> int" where
  "followups [] seen n = n"
| "followups (a # artifacts) seen n =
     (if failed_verifiable a then (if pairs_files a then followups artifacts True 0 else followups artifacts seen n)
      else if seen \<and> (source_only a \<or> test_only a) then followups artifacts seen (n + 1)
      else followups artifacts seen n)"

definition failed_verifiable_followup_one_sided_can_retry :: "environ \<Rightarrow> obj list \<Rightarrow> obj \<Rightarrow> bool" where
  "failed_verifiable_followup_one_sided_can_retry env artifacts blocker =
     (let n = followups (same_repair (worker_of blocker) artifacts) False 0 in
      failed_one_sided (worker_of blocker) \<and> 0 < n \<and> n \<le> max 1 (worker_verifiable_diff_test_failed_extra_retries env))"

section \<open>Other retries on preserved diffs\<close>

definition partial_diff_artifacts_matching_failure_count :: "obj list \<Rightarrow> obj \<Rightarrow> string list \<Rightarrow> int" where
  "partial_diff_artifacts_matching_failure_count artifacts blocker reasons =
     (let subtask_id = nonempty (dget (worker_of blocker) ''subtask_id'') in
      int (length (filter (\<lambda>a. List.member reasons (reason_of a)
        \<and> (subtask_id = [] \<or> nonempty (dget a ''subtask_id'') = [] \<or> nonempty (dget a ''subtask_id'') = subtask_id)) artifacts)))"

definition verifiable_diff_test_failed_partial_diff_can_retry :: "environ \<Rightarrow> obj list \<Rightarrow> obj \<Rightarrow> int \<Rightarrow> int \<Rightarrow> bool" where
  "verifiable_diff_test_failed_partial_diff_can_retry env artifacts blocker attempt max_loops =
     (let n = partial_diff_artifacts_matching_failure_count artifacts blocker
                [''WORKER_VERIFIABLE_DIFF_TEST_FAILED'', ''WORKER_VERIFIABLE_DIFF_UNTERMINATED'']
      in attempt < max_loops \<and> worker_failure_is_verifiable_diff_test_failed blocker
         \<and> test_failed_budget env blocker > 0 \<and> 0 < n \<and> n \<le> test_failed_budget env blocker)"

definition partial_diff_artifact_has_engine_empty_repair_context :: "obj \<Rightarrow> bool" where
  "partial_diff_artifact_has_engine_empty_repair_context artifact =
     (pairs_files artifact \<or> source_only artifact \<or> test_only artifact)"

definition engine_empty_response_repair_can_retry :: "obj list \<Rightarrow> obj \<Rightarrow> int \<Rightarrow> int \<Rightarrow> int \<Rightarrow> int \<Rightarrow> bool" where
  "engine_empty_response_repair_can_retry artifacts blocker attempt max_loops used_retries retry_budget =
     (let kind = kind_of blocker; reason = reason_of (worker_of blocker) in
      (kind = ''engine_empty_response'' \<or> (kind = ''engine_prompt_timeout'' \<and> (reason = [] \<or> reason = ''ENGINE_PROMPT_TIMEOUT'')))
      \<and> list_ex partial_diff_artifact_has_engine_empty_repair_context artifacts
      \<and> max 0 used_retries < max 0 retry_budget \<and> attempt < max_loops - 1)"

definition destructive_complementary_partial_diff_can_retry :: "environ \<Rightarrow> obj list \<Rightarrow> obj \<Rightarrow> int \<Rightarrow> int \<Rightarrow> bool" where
  "destructive_complementary_partial_diff_can_retry env artifacts blocker attempt base_max_loops =
     (kind_of blocker = ''worker_runaway_diff'' \<and> reason_of (worker_of blocker) = ''WORKER_DESTRUCTIVE_DIFF''
      \<and> worker_failure_has_partial_diff blocker \<and> partial_diff_artifacts_have_complementary_one_sided_pair artifacts
      \<and> length (filter (\<lambda>a. List.member [''WORKER_DESTRUCTIVE_DIFF'', ''WORKER_RUNAWAY_DIFF''] (reason_of a)) artifacts) = 1
      \<and> attempt < base_max_loops + (worker_repair_loop_extra_retries env
          + worker_complementary_partial_diff_loop_extra_retries env) - 1)"

definition stalled_no_diff_repair_can_retry :: "environ \<Rightarrow> obj list \<Rightarrow> obj \<Rightarrow> int \<Rightarrow> int \<Rightarrow> bool" where
  "stalled_no_diff_repair_can_retry env artifacts blocker attempt base_max_loops =
     (kind_of blocker = ''engine_tool_loop_stalled_no_diff''
      \<and> list_ex (\<lambda>a. nonempty (dget a ''patch_path'') \<noteq> [] \<and> reason_of a \<noteq> []) artifacts
      \<and> attempt < base_max_loops + max 1 (worker_incomplete_diff_extra_retries env) - 1)"

end
