(* ===== verification/RetryFeedback.thy ===== *)
theory RetryFeedback imports RepairArtifacts begin

text \<open>
  The texts a run hands to the next attempt (src/tandem_agents/core/execution/runner_core.py and
  phases/repair.py): what failed, what was preserved, and what the repair has to keep.
\<close>

section \<open>Parts of a text\<close>

definition parts :: "string list \<Rightarrow> string list" where
  "parts xs = filter (\<lambda>s. s \<noteq> []) xs"

definition blank_line :: string where
  "blank_line = nlc @ nlc"

definition text_when :: "bool \<Rightarrow> string \<Rightarrow> string" where
  "text_when c s = (if c then s else [])"

definition labelled :: "string \<Rightarrow> json \<Rightarrow> string" where
  "labelled label v = text_when (truthy v) (label @ py_str v)"

definition bullets :: "string list \<Rightarrow> string" where
  "bullets xs = (if xs = [] then ''- none'' else join nlc (map (\<lambda>x. ''- '' @ x) xs))"

section \<open>After a failed worker\<close>

definition noise_line :: "string \<Rightarrow> bool" where
  "noise_line line = (line = [] \<or> contains (lower line) ''aca preserved this partial worker diff''
     \<or> contains (lower line) ''partial diff is not treated as a completed worker result''
     \<or> line = ''- __aca_temp_probe.txt'')"

definition compact_partial_diff_retry_excerpt :: "string \<Rightarrow> string \<Rightarrow> bool \<Rightarrow> string" where
  "compact_partial_diff_retry_excerpt out kind has_patch =
     (if \<not> has_patch then out
      else let compacted = strip (join nlc (first_of_each (filter (\<lambda>l. \<not> noise_line l) (map strip (split_lines out))))) in
        if compacted = [] \<and> (kind = ''engine_prompt_timeout'' \<or> kind = ''engine_tool_loop_stalled'')
        then ''ENGINE_PROMPT_TIMEOUT before the worker returned a terminal response.'' else compacted)"

text \<open>The last paired diff of the same repair that failed its focused verification.\<close>

definition failed_followup_artifact :: "obj \<Rightarrow> obj list \<Rightarrow> obj option" where
  "failed_followup_artifact worker artifacts =
     (case rev (filter (\<lambda>a. failed_verifiable a \<and> pairs_files a) (same_repair worker artifacts)) of a # _ \<Rightarrow> Some a | [] \<Rightarrow> None)"

definition verification_command_text :: "obj \<Rightarrow> string" where
  "verification_command_text artifact = (let ps = texts_if_list artifact ''verification_command'' in
     text_when (ps \<noteq> []) (''Focused verification command: '' @ ticked (join '' '' ps) @ ''.''))"

definition required_tests :: "obj \<Rightarrow> string list" where
  "required_tests artifact = first_of_each (filter repo_path_looks_like_test_file
     (filter (\<lambda>p. p \<noteq> []) (map nonempty (list_of
       (py_or (dget artifact ''subtask_target_files'') (dget artifact ''subtask_files''))))))"

definition failed_verifiable_followup_retry_feedback :: "obj list \<Rightarrow> obj \<Rightarrow> string" where
  "failed_verifiable_followup_retry_feedback artifacts blocker =
     (if \<not> failed_one_sided (worker_of blocker) then []
      else case failed_followup_artifact (worker_of blocker) artifacts of
        None \<Rightarrow> []
      | Some a \<Rightarrow>
          (let out = excerpt (nonempty (py_or (dget a ''verification_output_excerpt'') (dget a ''worker_output_excerpt'')))
           in join nlc (parts
             [''The previous paired source+test diff reached focused verification and failed. '' @
              ''This follow-up repair must start from that verification output, fix the named failing test(s), '' @
              ''and rerun the focused command before returning.'',
              verification_command_text a,
              text_when (required_tests a \<noteq> [])
                (''Required test file(s) from the failed focused verification: '' @ join '', '' (required_tests a) @ ''.''),
              text_when (out \<noteq> []) (''Previous focused verification output:'' @ nlc @ out)])))"

definition preserve_guidance :: string where
  "preserve_guidance =
     ''The preserved patch already contains source and test changes, but focused verification failed. '' @
     ''Treat the failure output as a repair target: preserve the regression assertions and public-contract '' @
     ''coverage unless they are factually wrong. Prefer fixing production, exports, imports, wiring, or setup '' @
     ''so the existing focused test passes. Do not make tests less strict, delete assertions, or reroute imports '' @
     ''just to avoid exercising the intended public contract.''"

definition smaller_slice_guidance :: string where
  "smaller_slice_guidance =
     ''Plan a smaller repair slice that preserves any useful existing diff, then explicitly addresses the unmet '' @
     ''acceptance criteria. Do not repeat only the same partial change, and do not mark the task complete '' @
     ''until required tests or deterministic verification pass.''"

definition oracle_guidance :: string where
  "oracle_guidance =
     ''If the failed attempt added only a test-local oracle, mock enum, constant table, or helper that restates '' @
     ''the desired behavior without calling existing production code, discard that approach and replace it '' @
     ''with coverage that exercises the real implementation.''"

definition cut_at_2000 :: "string \<Rightarrow> string" where
  "cut_at_2000 s = (if length s > 2000 then take 2000 s @ nlc @ ''...'' else s)"

definition worker_failure_retry_feedback :: "obj list \<Rightarrow> obj list \<Rightarrow> obj \<Rightarrow> int \<Rightarrow> string option" where
  "worker_failure_retry_feedback artifacts worker_results blocker attempt =
     (let kind = kind_of blocker; w = worker_of blocker;
          patch_path = nonempty (py_or (dget w ''partial_diff_artifact'') (dget (obj_of (dget w ''artifacts'')) ''partial_diff''));
          out = cut_at_2000 (compact_partial_diff_retry_excerpt (nonempty (dget w ''stdout'')) kind (patch_path \<noteq> []))
      in if \<not> List.member RETRYABLE_WORKER_BLOCKER_KINDS kind then None
         else Some (join blank_line (parts
           [''CRITICAL: Worker attempt '' @ int_str (attempt + 1) @ '' failed with retryable blocker '' @ ticked kind @ ''.'',
            nonempty (dget blocker ''message''),
            labelled ''Detail: '' (dget blocker ''detail''),
            labelled ''Recovery action: '' (dget blocker ''recovery_action''),
            ''Changed files from the failed attempt:'' @ nlc @ bullets (collect_worker_changed_files worker_results),
            text_when (patch_path \<noteq> []) (''Preserved partial patch: '' @ ticked patch_path),
            text_when (out \<noteq> []) (''Worker output excerpt:'' @ nlc @ out),
            text_when (worker_failure_is_verifiable_diff_test_failed blocker) preserve_guidance,
            failed_verifiable_followup_retry_feedback artifacts blocker,
            smaller_slice_guidance, oracle_guidance])))"

definition destructive_complementary_retry_feedback :: "obj \<Rightarrow> int \<Rightarrow> string" where
  "destructive_complementary_retry_feedback blocker attempt =
     (let w = worker_of blocker;
          patch_path = nonempty (dget w ''partial_diff_artifact'');
          changed = (case dget w ''changed_files'' of JList xs \<Rightarrow> map py_str (filter (\<lambda>p. nonempty p \<noteq> []) xs) | _ \<Rightarrow> [])
      in join blank_line (parts
        [''CRITICAL: Worker attempt '' @ int_str (attempt + 1) @
           '' tripped the destructive diff guard during complementary partial-diff repair.'',
         nonempty (dget blocker ''message''),
         labelled ''Detail: '' (dget blocker ''detail''),
         ''ACA will retry once from clean files because earlier attempts produced a source-only/test-only complementary pair, '' @
           ''but the previous rebuild rewrote too much code.'',
         ''Changed files from the destructive attempt:'' @ nlc @ bullets changed,
         text_when (patch_path \<noteq> []) (''Rejected destructive patch: '' @ ticked patch_path),
         ''Next repair constraints: preserve existing file structure, avoid deleting or replacing existing functions, '' @
           ''keep deletions near zero, and make only small additive edits that satisfy the source+test contract.'']))"

section \<open>Reading what the integration printed\<close>

text \<open>The text after the first occurrence of a word, letters compared in lower case, and the text before one.\<close>

fun text_after :: "string \<Rightarrow> string \<Rightarrow> string option" where
  "text_after w [] = None"
| "text_after w (c # cs) =
     (if starts_with (lower (c # cs)) w then Some (drop (length w) (c # cs)) else text_after w cs)"

fun text_before :: "string \<Rightarrow> string \<Rightarrow> string option" where
  "text_before w [] = None"
| "text_before w (c # cs) = (if starts_with (c # cs) w then Some [] else map_option (Cons c) (text_before w cs))"

definition code_fence :: string where
  "code_fence = replicate 3 (CHR 0x60)"

definition fenced_json :: "string \<Rightarrow> string list" where
  "fenced_json s = (case text_after (code_fence @ ''json'') s of None \<Rightarrow> []
     | Some rest \<Rightarrow> (case text_before code_fence rest of None \<Rightarrow> [] | Some body \<Rightarrow> [strip body]))"

definition extract_fenced_json :: "string \<Rightarrow> obj option" where
  "extract_fenced_json s =
     (if strip s = [] then None
      else first_dict (strip s # fenced_json s @ (if brace_span s = [] then [] else [strip (brace_span s)])))"

definition integration_payload :: "obj \<Rightarrow> obj" where
  "integration_payload integration_result =
     (case extract_fenced_json (str_or_empty (dget integration_result ''stdout'')) of Some d \<Rightarrow> d | None \<Rightarrow> [])"

definition payload_entries :: "json \<Rightarrow> string list" where
  "payload_entries v = (case v of
      JList xs \<Rightarrow> parts (map (\<lambda>x. strip (py_str x)) xs)
    | JObj kvs \<Rightarrow> map (\<lambda>(k, x). k @ '': '' @ py_str x) (filter (\<lambda>(k, x). strip (py_str x) \<noteq> []) kvs)
    | _ \<Rightarrow> parts [nonempty v])"

definition integration_payload_details :: "obj \<Rightarrow> string" where
  "integration_payload_details payload =
     (let lines = bit_if ''Summary: '' (nonempty (dget payload ''summary''))
        @ concat (map (\<lambda>(label, k). let es = payload_entries (dget payload k) in
            if es = [] then [] else [label @ '': '' @ join ''; '' (take 5 es)])
          [(''Blockers'', ''blockers''), (''Required fixes'', ''required_fixes''), (''Risks'', ''risks''), (''Tests'', ''tests'')])
      in if lines = [] then [] else nlc @ join nlc lines)"

definition integration_blocker_message :: "obj \<Rightarrow> string option" where
  "integration_blocker_message integration_result =
     (let payload = integration_payload integration_result;
          status = normalized_text (dget_or payload [''status'', ''outcome'', ''result'']);
          next_action = normalized_text (dget_or payload [''next_action'', ''action'']);
          details = integration_payload_details payload
      in if payload = [] then None
         else if dget payload ''approved'' = JBool False then
           Some (''Integration review did not approve the worker result.'' @ details)
         else if List.member [''blocked'', ''failed'', ''fail'', ''repair_needed'', ''needs_changes'', ''incomplete''] status then
           Some (''Integration review reported '' @ ticked status @ ''.'' @ details)
         else if List.member [''blocked'', ''repair_needed'', ''needs_changes'', ''retry'', ''fix_required''] next_action then
           Some (''Integration review requested '' @ ticked next_action @ ''.'' @ details)
         else if truthy (dget payload ''blockers'') then Some (''Integration review reported blockers.'' @ details)
         else if truthy (dget payload ''required_fixes'') then Some (''Integration review reported required fixes.'' @ details)
         else None)"

definition integration_event_type :: "obj \<Rightarrow> string" where
  "integration_event_type integration_result =
     (if return_code integration_result \<noteq> 0 \<or> integration_blocker_message integration_result \<noteq> None
      then ''manager.failed'' else ''manager.completed'')"

definition watchdog_markers :: "string list" where
  "watchdog_markers = [''ENGINE_TOOL_LOOP_STALLED'', ''ENGINE_PROMPT_TIMEOUT'', ''ENGINE_EMPTY_RESPONSE'',
     ''engine_tool_loop_stalled'', ''engine_prompt_timeout'', ''engine_empty_response'', ''no_text_timeout'']"

definition integration_failure_can_defer_to_review :: "obj \<Rightarrow> bool" where
  "integration_failure_can_defer_to_review result =
     (return_code result \<noteq> 0 \<and>
      list_ex (contains (join '' '' (map str_or_empty
        [dget result ''stdout'', dget result ''failure_reason'', dget result ''blocker_kind'',
         dget (obj_of (dget result ''engine'')) ''stream_reason'']))) watchdog_markers)"

definition concrete_failure_markers :: "string list" where
  "concrete_failure_markers = [''placeholder'', ''requested'', ''not implemented'', ''incomplete'', ''acceptance criteria unmet'',
     ''unmet acceptance'', ''missing implementation'', ''missing coverage'', ''no repository diff'', ''no filesystem changes'',
     ''worker output only'', ''cargo test'']"

definition inspection_markers :: "string list" where
  "inspection_markers = [''bubblewrap_not_available'', ''sandbox'', ''git/status'', ''status/diff inspection'', ''could not inspect'',
     ''cannot verify'', ''not run:'', ''tool environment'', ''commands were blocked'']"

definition integration_semantic_blocker_can_defer_to_review :: "obj \<Rightarrow> string \<Rightarrow> bool" where
  "integration_semantic_blocker_can_defer_to_review result blocker_message =
     (let payload = integration_payload result;
          combined = lower (join '' '' [str_or_empty (dget result ''stdout''), blocker_message, str_or_empty (dget payload ''summary''),
            str_or_empty (dget payload ''risks''), str_or_empty (dget payload ''tests'')])
      in \<not> list_ex (contains combined) concrete_failure_markers \<and> list_ex (contains combined) inspection_markers)"

section \<open>After a rejected integration or verification\<close>

definition integration_retry_text :: "string \<Rightarrow> obj \<Rightarrow> string" where
  "integration_retry_text blocker_message result =
     (let out = nonempty (dget result ''stdout'') in
      join blank_line (parts
        [''Integration review rejected the previous worker result. Repair these issues before continuing.'', blocker_message,
         text_when (out \<noteq> []) (''Raw integration output:'' @ nlc @ out)]))"

definition verification_retry_text :: "obj \<Rightarrow> obj \<Rightarrow> string option \<Rightarrow> string" where
  "verification_retry_text review_result test_result validation_blocker =
     (let feedback = join blank_line (parts [labelled (''Reviewer Feedback:'' @ nlc) (dget review_result ''stdout''),
            labelled (''Tester Feedback:'' @ nlc) (dget test_result ''stdout'')])
      in first_nonempty [feedback, case validation_blocker of Some b \<Rightarrow> b | None \<Rightarrow> [],
           ''Validation failed without specific stdout.''])"

section \<open>Retry or block\<close>

datatype repair_action = Continue | RetryWith string | Block string string string

text \<open>The last three are the message, the kind and the phase of the blocker.\<close>

definition has_verifiable_worker_success :: "obj list \<Rightarrow> bool" where
  "has_verifiable_worker_success worker_results =
     list_ex (\<lambda>r. List.member [''skipped_existing'', ''tolerated_failure''] (normalized_text (dget r ''status''))
       \<or> truthy (dget r ''verified_existing'')) worker_results"

definition check_no_diff :: "int \<Rightarrow> int \<Rightarrow> repair_action" where
  "check_no_diff attempt max_loops =
     (if attempt < max_loops - 1 then
        RetryWith (''CRITICAL: The previous attempt produced no code changes. '' @ ''You must write code to satisfy the requirements!'')
      else Block ''Run produced no repository changes.'' ''no_diff'' ''handoff'')"

definition no_proof_message :: string where
  "no_proof_message = ''Run produced no repository changes and no verifiable target-file proof. '' @
     ''ACA will not mark this task complete.''"

definition check_no_verifiable_proof :: "string list \<Rightarrow> obj list \<Rightarrow> int \<Rightarrow> int \<Rightarrow> repair_action" where
  "check_no_verifiable_proof expected_repo_files worker_results attempt max_loops =
     (if expected_repo_files \<noteq> [] \<or> has_verifiable_worker_success worker_results then Continue
      else if attempt < max_loops - 1 then RetryWith no_proof_message
      else Block no_proof_message ''no_verifiable_proof'' ''handoff'')"

text \<open>The notes the decisions leave on the blackboard.\<close>

definition no_diff_note :: "int \<Rightarrow> string" where
  "no_diff_note attempt = ''Attempt '' @ int_str (attempt + 1) @ '' failed (no diff). Retrying.''"

definition proof_note :: "int \<Rightarrow> repair_action \<Rightarrow> string list" where
  "proof_note attempt action = (case action of
      Continue \<Rightarrow> [''Repository already satisfied the expected file set; continuing despite zero diff.'']
    | RetryWith _ \<Rightarrow> [''Attempt '' @ int_str (attempt + 1) @ '' failed (no diff, no verifiable proof). Retrying.'']
    | Block _ _ _ \<Rightarrow> [])"

definition verification_note :: "int \<Rightarrow> string option \<Rightarrow> string" where
  "verification_note attempt validation_blocker =
     ''Attempt '' @ int_str (attempt + 1) @ '' failed with '' @ ticked ''repair-needed'' @ ''. '' @
     ''Repairing with feedback and re-planning.'' @ nlc @ ''Validation blocker: '' @
     (case validation_blocker of Some b \<Rightarrow> b | None \<Rightarrow> ''None'')"

end
