(* ===== verification/RunContext.thy ===== *)
theory RunContext imports RetryFeedback CoordEvents CoordRuns begin

text \<open>
  The state of one coding run (src/tandem_agents/core/phases/context.py) with the run's part of the
  coordination store, and the heartbeat of the run's lease as the run's own code does it
  (src/tandem_agents/core/execution/runner_core.py). A save of the status or the blackboard leaves the
  file equal to the document here, and an event is its kind and payload; the envelope of the log's lines
  is \<open>append_event\<close> of RunState. The lists the run appends to are lists, as the initial documents have them.
\<close>

section \<open>The context\<close>

record run_context =
  rx_run_id :: string
  rx_now :: int
  rx_task :: obj
  rx_repo :: obj
  rx_engine :: obj
  rx_board :: obj
  rx_status :: obj
  rx_blackboard :: obj
  rx_results :: "obj list"
  rx_planned :: "obj list"
  rx_pending :: "obj list"
  rx_expected :: "string list"
  rx_validation :: obj
  rx_review :: obj
  rx_test :: obj
  rx_diff :: string
  rx_misses :: int
  rx_lost :: bool
  rx_feedback :: "string option"
  rx_fallback :: bool
  rx_store :: db
  rx_events :: "(string \<times> obj) list"
  rx_summary :: string
  rx_patches :: "(string \<times> string) list"

text \<open>The configuration the run's own code reads.\<close>

record run_settings =
  rs_env :: environ
  rs_max_retries :: int
  rs_lease_ttl :: int
  rs_artifacts :: string

definition emit :: "string \<Rightarrow> obj \<Rightarrow> run_context \<Rightarrow> run_context" where
  "emit kind payload x = x\<lparr>rx_events := rx_events x @ [(kind, payload)]\<rparr>"

definition append_to :: "string \<Rightarrow> json \<Rightarrow> obj \<Rightarrow> obj" where
  "append_to k v d = dset k (JList (list_of (dget d k) @ [v])) d"

definition append_blackboard_note :: "string \<Rightarrow> run_context \<Rightarrow> run_context" where
  "append_blackboard_note message x = x\<lparr>rx_blackboard := append_to ''notes'' (JStr message) (rx_blackboard x)\<rparr>"

definition set_run_status :: "status_changes \<Rightarrow> run_context \<Rightarrow> run_context" where
  "set_run_status c x = x\<lparr>rx_status := update_status (rx_now x) c (rx_status x)\<rparr>"

text \<open>A field of the repair section, in both documents.\<close>

definition in_repair :: "(obj \<Rightarrow> obj) \<Rightarrow> obj \<Rightarrow> obj" where
  "in_repair f d = dset ''repair'' (JObj (f (section_of d ''repair''))) d"

definition change_repair :: "(obj \<Rightarrow> obj) \<Rightarrow> run_context \<Rightarrow> run_context" where
  "change_repair f x = x\<lparr>rx_status := in_repair f (rx_status x), rx_blackboard := in_repair f (rx_blackboard x)\<rparr>"

definition put_repair :: "string \<Rightarrow> json \<Rightarrow> run_context \<Rightarrow> run_context" where
  "put_repair k v = change_repair (dset k v)"

definition repair_field :: "string \<Rightarrow> run_context \<Rightarrow> json" where
  "repair_field k x = dget (section_of (rx_blackboard x) ''repair'') k"

definition text_field :: "obj \<Rightarrow> string \<Rightarrow> string option" where
  "text_field d k = (case dget d k of JStr s \<Rightarrow> Some s | _ \<Rightarrow> None)"

definition lease_id_of :: "run_context \<Rightarrow> string option" where
  "lease_id_of x = text_field (section_of (rx_status x) ''coordination'') ''lease_id''"

section \<open>Coordination\<close>

definition COORDINATION_LOST_THRESHOLD :: int where
  "COORDINATION_LOST_THRESHOLD = 3"

definition TERMINAL_LEASE_STATUSES :: "string list" where
  "TERMINAL_LEASE_STATUSES = [''completed'', ''blocked'', ''failed'', ''cancelled'', ''canceled'']"

definition lease_fields :: "(string \<times> string) list" where
  "lease_fields = [(''lease_id'', ''lease_id''), (''worker_id'', ''worker_id''), (''host_id'', ''host_id''),
     (''task_key'', ''task_key''), (''expires_at_ms'', ''lease_expires_at_ms''),
     (''heartbeat_at_ms'', ''lease_heartbeat_at_ms''), (''status'', ''lease_status'')]"

definition mirror_lease :: "lease_row \<Rightarrow> obj \<Rightarrow> obj" where
  "mirror_lease l d = fold (\<lambda>(a, b) d. if dget (row_to_lease l) a \<noteq> JNull then dset b (dget (row_to_lease l) a) d else d) lease_fields d"

definition in_coordination :: "(obj \<Rightarrow> obj) \<Rightarrow> run_context \<Rightarrow> run_context" where
  "in_coordination f x = x\<lparr>rx_status := dset ''coordination'' (JObj (f (section_of (rx_status x) ''coordination''))) (rx_status x)\<rparr>"

definition sync_status_coordination_from_lease :: "lease_row option \<Rightarrow> run_context \<Rightarrow> run_context" where
  "sync_status_coordination_from_lease lease x = (case lease of Some l \<Rightarrow> in_coordination (mirror_lease l) x | None \<Rightarrow> x)"

text \<open>The document after a missed heartbeat, and the status of the lease it names.\<close>

definition mark_coordination_heartbeat_miss :: "string \<Rightarrow> lease_row option \<Rightarrow> run_context \<Rightarrow> string option \<times> run_context" where
  "mark_coordination_heartbeat_miss lease_id lease x =
     (let x' = in_coordination (\<lambda>d.
            dset ''lease_heartbeat_missed_at_ms'' (JInt (rx_now x)) (dset ''consecutive_heartbeat_misses'' (JInt (rx_misses x))
              (case lease of Some l \<Rightarrow> mirror_lease l d
               | None \<Rightarrow> dset ''lease_status'' (JStr ''missing'') (dset ''lease_id'' (JStr lease_id) d)))) x
      in (str_or_none (nonempty (dget (section_of (rx_status x') ''coordination'') ''lease_status'')), x'))"

definition lost_message :: "string \<Rightarrow> string option \<Rightarrow> int \<Rightarrow> string" where
  "lost_message lease_id lease_status misses =
     ''Lost coordination lease '' @ lease_id @ (case lease_status of Some s \<Rightarrow> '' status='' @ s | None \<Rightarrow> []) @ '' after '' @
     int_str misses @ '' consecutive heartbeat misses. '' @ ''Another worker may have reclaimed the task.''"

definition blocked_changes :: "string \<Rightarrow> string \<Rightarrow> string \<Rightarrow> string \<Rightarrow> string \<Rightarrow> status_changes" where
  "blocked_changes phase detail kind message owner =
     no_status_changes\<lparr>sg_phase := Some phase, sg_phase_detail := Some detail, sg_run_status := Some ''blocked'',
       sg_blocker := Some (True, Some kind, Some message, Some owner)\<rparr>"

definition mark_coordination_lost_status :: "string \<Rightarrow> string option \<Rightarrow> run_context \<Rightarrow> string \<times> run_context" where
  "mark_coordination_lost_status lease_id lease_status x =
     (let message = lost_message lease_id lease_status (rx_misses x) in
      (message, set_run_status ((blocked_changes ''coordination'' ''lease heartbeat repeatedly missed'' ''coordination_lost''
         message ''system'')\<lparr>sg_phase_role := Some ''system'', sg_run_completed := True\<rparr>) x))"

record run_update =
  ru_status :: "string option"
  ru_phase :: "string option"
  ru_error :: "string option"
  ru_completed :: bool

definition run_update_changes :: "run_update \<Rightarrow> run_changes" where
  "run_update_changes u = no_changes\<lparr>rc_status := ru_status u, rc_phase := ru_phase u, rc_error := ru_error u, rc_completed := ru_completed u\<rparr>"

definition change_run_row :: "run_update \<Rightarrow> run_context \<Rightarrow> run_context" where
  "change_run_row u x = x\<lparr>rx_store := snd (update_run (rx_now x) (rx_run_id x) (run_update_changes u) (rx_store x))\<rparr>"

definition lost_update :: "string \<Rightarrow> run_update" where
  "lost_update message = \<lparr>ru_status = Some ''blocked'', ru_phase = Some ''coordination'', ru_error = Some message, ru_completed = True\<rparr>"

definition lost_event :: "string \<Rightarrow> string option \<Rightarrow> int \<Rightarrow> string \<Rightarrow> obj" where
  "lost_event lease_id lease_status misses message =
     [(''lease_id'', JStr lease_id), (''lease_status'', opt_str lease_status), (''consecutive_misses'', JInt misses),
      (''message'', JStr message)]"

text \<open>
  One heartbeat and one update of the run's row. The first component is whether the lease still counts;
  \<open>tracked\<close> says whether the caller passes its context, which then counts the misses in a row and is marked
  as lost at the third. A lease that has ended counts, and then the row of the run is left alone.
\<close>

definition miss_heartbeat :: "string \<Rightarrow> run_update \<Rightarrow> run_context \<Rightarrow> run_context" where
  "miss_heartbeat lease_id u x =
     (let (lease_status, x1) = mark_coordination_heartbeat_miss lease_id (get_lease lease_id (rx_store x)) (x\<lparr>rx_misses := rx_misses x + 1\<rparr>)
      in if rx_misses x1 \<ge> COORDINATION_LOST_THRESHOLD \<and> \<not> rx_lost x1 then
           (let (message, x2) = mark_coordination_lost_status lease_id lease_status (x1\<lparr>rx_lost := True\<rparr>)
            in change_run_row (lost_update message) (emit ''coordination_lost'' (lost_event lease_id lease_status (rx_misses x2) message) x2))
         else change_run_row u x1)"

definition touch_run :: "run_settings \<Rightarrow> bool \<Rightarrow> run_update \<Rightarrow> run_context \<Rightarrow> bool \<times> run_context" where
  "touch_run cfg tracked u x =
     (case lease_id_of x of
        None \<Rightarrow> (True, change_run_row u x)
      | Some [] \<Rightarrow> (True, change_run_row u x)
      | Some (c # cs) \<Rightarrow>
          (let lease_id = c # cs; (beaten, d) = heartbeat_lease (rx_now x) lease_id (rs_lease_ttl cfg) (rx_store x) in
           case beaten of
             Some l \<Rightarrow> (let x1 = x\<lparr>rx_store := d\<rparr> in
               (True, change_run_row u (if tracked then sync_status_coordination_from_lease (Some l) (x1\<lparr>rx_misses := 0\<rparr>) else x1)))
           | None \<Rightarrow>
               (let current = get_lease lease_id (rx_store x);
                    ended = (case current of Some l \<Rightarrow> List.member TERMINAL_LEASE_STATUSES (lower (strip (l_status l))) | None \<Rightarrow> False)
                in if ended then (True, if tracked then sync_status_coordination_from_lease current (x\<lparr>rx_misses := 0\<rparr>) else x)
                   else (False, if tracked then miss_heartbeat lease_id u x else change_run_row u x))))"

section \<open>The checkout after a rejected attempt\<close>

text \<open>What git answers: each answer is a return code and the standard output.\<close>

record git_answers =
  ga_status :: "int \<times> string"
  ga_diff :: "int \<times> string"
  ga_reset :: int
  ga_clean :: int

definition preserved_patch :: "git_answers \<Rightarrow> string" where
  "preserved_patch g = (if fst (ga_diff g) = 0 \<and> strip (snd (ga_diff g)) \<noteq> [] then snd (ga_diff g) else snd (ga_status g))"

definition preserve_and_reset_blocked_worktree ::
  "run_settings \<Rightarrow> git_answers \<Rightarrow> string \<Rightarrow> string \<Rightarrow> run_context \<Rightarrow> string option \<times> run_context" where
  "preserve_and_reset_blocked_worktree cfg g reason artifact_name x =
     (if fst (ga_status g) \<noteq> 0 \<or> strip (snd (ga_status g)) = [] then (None, x)
      else
        let path = rs_artifacts cfg @ ''/'' @ artifact_name;
            b1 = append_to ''artifacts'' (JStr path) (rx_blackboard x);
            b2 = append_to ''blocked_worktree_cleanup'' (JObj [(''reason'', JStr reason), (''patch_path'', JStr path),
                   (''status'', JStr (strip (snd (ga_status g))))]) b1;
            note_text = (if ga_reset g \<noteq> 0 \<or> ga_clean g \<noteq> 0
                    then ''Warning: failed to fully clean blocked run worktree after preserving diff artifact.''
                    else ''Preserved blocked worktree diff at '' @ ticked path @ '' and reset shared checkout.'')
        in (Some path, append_blackboard_note note_text
              (x\<lparr>rx_blackboard := b2, rx_patches := rx_patches x @ [(path, preserved_patch g)]\<rparr>)))"

section \<open>Preserved diffs in the repair sections\<close>

definition add_source :: "string \<Rightarrow> obj \<Rightarrow> obj" where
  "add_source s repair = (case dget_def repair ''extra_retry_sources'' (JList []) of
      JList xs \<Rightarrow> dset ''extra_retry_sources'' (JList (if List.member xs (JStr s) then xs else xs @ [JStr s])) repair
    | _ \<Rightarrow> repair)"

definition drop_key :: "string \<Rightarrow> obj \<Rightarrow> obj" where
  "drop_key k d = filter (\<lambda>(j, v). j \<noteq> k) d"

definition keep_artifacts :: "obj list \<Rightarrow> string \<Rightarrow> obj \<Rightarrow> obj" where
  "keep_artifacts merged blocker_kind repair =
     (if blocker_kind \<noteq> [] then add_source blocker_kind else id)
       (add_source ''worker_incomplete_diff''
         (dset ''extra_retry_source'' (py_or (dget repair ''extra_retry_source'') (JStr ''worker_incomplete_diff''))
           (dset ''partial_diff_state'' (JStr ''preserved_not_accepted'')
             (dset ''partial_diff_artifacts'' (JList (map JObj merged)) repair))))"

definition merge_worker_partial_diff_artifacts_into_repair :: "string \<Rightarrow> run_context \<Rightarrow> run_context" where
  "merge_worker_partial_diff_artifacts_into_repair blocker_kind x =
     (let new_artifacts = partial_diff_artifacts_for_retry (rx_results x);
          existing = py_or (dget (section_of (rx_blackboard x) ''repair'') ''partial_diff_artifacts'')
                           (dget (section_of (rx_status x) ''repair'') ''partial_diff_artifacts'')
      in if new_artifacts = [] then x
         else change_repair (keep_artifacts (merge_partial_diff_artifacts_for_retry existing new_artifacts) blocker_kind) x)"

text \<open>A repair section without its preserved diffs; a section that is missing or no dictionary is left alone.\<close>

definition discarded_artifacts :: "json \<Rightarrow> obj \<Rightarrow> obj" where
  "discarded_artifacts artifacts repair =
     (if truthy artifacts then
        (case dget_def repair ''discarded_partial_diff_artifacts'' (JList []) of
           JList xs \<Rightarrow> dset ''discarded_partial_diff_artifacts''
             (JList (xs @ (case artifacts of JList ys \<Rightarrow> ys | v \<Rightarrow> [v]))) repair
         | _ \<Rightarrow> repair)
      else repair)"

definition without_source :: "obj \<Rightarrow> obj" where
  "without_source repair = (case dget repair ''extra_retry_sources'' of
      JList xs \<Rightarrow> (let ys = filter (\<lambda>v. v \<noteq> JStr ''worker_incomplete_diff'') xs in
        if ys \<noteq> [] then dset ''extra_retry_sources'' (JList ys) repair else drop_key ''extra_retry_sources'' repair)
    | _ \<Rightarrow> repair)"

definition discard_repair :: "string \<Rightarrow> obj \<Rightarrow> obj" where
  "discard_repair reason repair =
     (let r1 = discarded_artifacts (dget repair ''partial_diff_artifacts'') (drop_key ''partial_diff_artifacts'' repair);
          r2 = (if dget r1 ''partial_diff_state'' = JStr ''preserved_not_accepted''
                then dset ''partial_diff_state'' (JStr ''discarded_after_integration_rejection'') r1 else r1);
          r3 = (if nonempty (dget r2 ''extra_retry_source'') = ''worker_incomplete_diff'' then drop_key ''extra_retry_source'' r2 else r2)
      in dset ''partial_diff_discard_reason'' (JStr reason) (without_source r3))"

definition discard_in :: "string \<Rightarrow> obj \<Rightarrow> obj" where
  "discard_in reason d = (if is_obj (dget d ''repair'') then in_repair (discard_repair reason) d else d)"

definition discard_partial_diff_repair_artifacts :: "string \<Rightarrow> run_context \<Rightarrow> run_context" where
  "discard_partial_diff_repair_artifacts reason x =
     x\<lparr>rx_status := discard_in reason (rx_status x), rx_blackboard := discard_in reason (rx_blackboard x)\<rparr>"

end
