(* ===== verification/RunLoop.thy ===== *)
theory RunLoop imports RunContext begin

text \<open>
  The repair loop of a coding run (\<open>_run_once_internal_impl\<close> in
  src/tandem_agents/core/execution/runner_core.py, with phases/repair.py): one pass plans, dispatches the
  workers, checks the checkout, integrates, reviews, and then ends the run or starts another pass with
  feedback. The phases that drive language-model sessions and git are functions of the context
  (\<open>run_phases\<close>), nothing is assumed of them; an exception in one of them leaves the loop and is outside it.
\<close>

section \<open>The phases\<close>

record run_phases =
  ph_manager :: "run_context \<Rightarrow> obj \<times> run_context"
  ph_prescreen :: "run_context \<Rightarrow> bool \<times> run_context"
  ph_candidates :: "run_context \<Rightarrow> bool \<times> run_context"
  ph_dispatch :: "run_context \<Rightarrow> run_context"
  ph_integration :: "run_context \<Rightarrow> obj \<times> run_context"
  ph_diff :: "run_context \<Rightarrow> string"
  ph_review :: "run_context \<Rightarrow> policy_decision \<times> run_context"
  ph_git :: "run_context \<Rightarrow> git_answers"

text \<open>How a run ends: each constructor is one of the calls the loop returns from, the last an exception of its own code.\<close>

datatype run_end =
    LostBefore
  | LostDuring
  | ManagerFailed
  | NoTargets
  | PreSatisfied
  | CandidatesBlocked
  | WorkersFailed
  | IntegrationFailed "string option"
  | DecisionBlocked string string string
  | VerificationFailed policy_decision
  | Finalized
  | Raised py_error

datatype pass_result = GoOn | Retry | Ended run_end

text \<open>A step of a pass, followed by the next one unless it retries or ends.\<close>

type_synonym step = "run_context \<Rightarrow> pass_result \<times> run_context"

definition then_step :: "step \<Rightarrow> step \<Rightarrow> step" where
  "then_step f g x = (case f x of (GoOn, x') \<Rightarrow> g x' | (r, x') \<Rightarrow> (r, x'))"

section \<open>The bounds of the loop\<close>

definition base_max_loops :: "run_settings \<Rightarrow> int" where
  "base_max_loops cfg = max 0 (rs_max_retries cfg) + 1"

definition max_loops :: "run_settings \<Rightarrow> int" where
  "max_loops cfg = base_max_loops cfg + worker_repair_loop_extra_retries (rs_env cfg)
     + verification_repair_extra_retries (rs_env cfg) + worker_complementary_partial_diff_loop_extra_retries (rs_env cfg)"

definition initial_repair :: "run_settings \<Rightarrow> obj" where
  "initial_repair cfg =
     (let env = rs_env cfg in
      [(''configured_max_retries'', JInt (max 0 (rs_max_retries cfg))),
       (''worker_incomplete_diff_extra_retries'', JInt (worker_incomplete_diff_extra_retries env)),
       (''worker_off_track_extra_retries'', JInt (worker_off_track_extra_retries env)),
       (''worker_engine_empty_response_extra_retries'', JInt (worker_engine_empty_response_extra_retries env)),
       (''verification_repair_extra_retries'', JInt (verification_repair_extra_retries env)),
       (''worker_complementary_partial_diff_loop_extra_retries'',
          JInt (worker_complementary_partial_diff_loop_extra_retries env)),
       (''worker_verifiable_diff_test_failed_extra_retries'', JInt (worker_verifiable_diff_test_failed_extra_retries env)),
       (''worker_verifiable_diff_weak_test_extra_retries'', JInt (worker_verifiable_diff_weak_test_extra_retries env)),
       (''worker_verifiable_diff_import_error_extra_retries'', JInt (worker_verifiable_diff_import_error_extra_retries env)),
       (''worker_verifiable_diff_exception_extra_retries'', JInt (worker_verifiable_diff_exception_extra_retries env)),
       (''worker_verifiable_diff_assertion_extra_retries'', JInt (worker_verifiable_diff_assertion_extra_retries env)),
       (''base_max_loops'', JInt (base_max_loops cfg)), (''max_loops'', JInt (max_loops cfg)), (''attempt'', JInt 0)])"

definition start_repair :: "run_settings \<Rightarrow> run_context \<Rightarrow> run_context" where
  "start_repair cfg x = x\<lparr>rx_status := dset ''repair'' (JObj (initial_repair cfg)) (rx_status x),
     rx_blackboard := dset ''repair'' (JObj (initial_repair cfg)) (rx_blackboard x), rx_feedback := None\<rparr>"

section \<open>Planning\<close>

definition preserve_named :: "run_settings \<Rightarrow> run_phases \<Rightarrow> string \<Rightarrow> string \<Rightarrow> run_context \<Rightarrow> string option \<times> run_context" where
  "preserve_named cfg ops reason artifact_name x =
     preserve_and_reset_blocked_worktree cfg (ph_git ops x) reason artifact_name x"

definition preserve_blocked :: "run_settings \<Rightarrow> run_phases \<Rightarrow> string \<Rightarrow> run_context \<Rightarrow> run_context" where
  "preserve_blocked cfg ops reason x = snd (preserve_named cfg ops reason ''blocked-working-diff.patch'' x)"

definition begin_attempt :: "run_settings \<Rightarrow> run_phases \<Rightarrow> int \<Rightarrow> step" where
  "begin_attempt cfg ops attempt x =
     (let x1 = put_repair ''attempt'' (JInt (attempt + 1)) x in
      if rx_lost x1 then (Ended LostBefore, preserve_blocked cfg ops ''coordination_lost'' x1)
      else if attempt > 0 then
        (GoOn, emit ''run.retry'' [(''attempt'', JInt (attempt + 1))]
          (set_run_status (no_status_changes\<lparr>sg_phase := Some ''planning'',
             sg_phase_detail := Some (''Retrying (attempt '' @ int_str (attempt + 1) @ '')'')\<rparr>) x1))
      else (GoOn, x1))"

definition run_blocked :: "run_context \<Rightarrow> bool" where
  "run_blocked x = (dget (section_of (rx_status x) ''run'') ''status'' = JStr ''blocked'')"

definition manager_excerpt :: "obj \<Rightarrow> string" where
  "manager_excerpt result = take 1000 (nonempty (dget result ''stdout''))"

definition fallback_obj :: "string \<Rightarrow> bool \<Rightarrow> obj" where
  "fallback_obj excerpt0 used = [(''required'', JBool True),
     (''reason'', JStr (or_text excerpt0 ''manager planning returned nonzero status'')), (''used'', JBool used)]"

definition note_manager_failure :: "obj \<Rightarrow> run_context \<Rightarrow> run_context" where
  "note_manager_failure result x =
     (let x1 = emit ''manager.failed'' [(''returncode'', dget result ''returncode''),
            (''stdout_excerpt'', JStr (manager_excerpt result))] x;
          x2 = x1\<lparr>rx_fallback := True,
            rx_blackboard := dset ''manager_fallback'' (JObj (fallback_obj (manager_excerpt result) False)) (rx_blackboard x1)\<rparr>
      in append_blackboard_note ''Manager planning returned no usable plan; ACA will try contract-based fallback planning.'' x2)"

text \<open>A failed manager with subtasks from the fallback goes on; without any it blocks the run.\<close>

definition settle_manager_failure :: "run_settings \<Rightarrow> obj \<Rightarrow> run_context \<Rightarrow> run_context" where
  "settle_manager_failure cfg result x =
     (let planned = int (length (rx_planned x)); pending = int (length (rx_pending x));
          counts = [(''planned_workers'', JInt planned), (''pending_workers'', JInt pending)];
          detail = or_text (manager_excerpt result) ''Manager planning failed''
      in if pending > 0 then
           emit ''manager.fallback'' ((''reason'', JStr (manager_excerpt result)) # counts)
             (x\<lparr>rx_blackboard := dset ''manager_fallback'' (JObj (fallback_obj (manager_excerpt result) True @ counts)) (rx_blackboard x)\<rparr>)
         else
           snd (touch_run cfg False \<lparr>ru_status = Some ''blocked'', ru_phase = Some ''planning'', ru_error = Some detail, ru_completed = False\<rparr>
             (set_run_status (blocked_changes ''planning'' ''manager planning failed'' ''manager'' detail ''manager'') x)))"

definition plan_attempt :: "run_settings \<Rightarrow> run_phases \<Rightarrow> step" where
  "plan_attempt cfg ops x =
     (let (result, x1) = ph_manager ops (x\<lparr>rx_fallback := False\<rparr>);
          failed = return_code result \<noteq> 0
      in if run_blocked x1 then (Ended ManagerFailed, x1)
         else let x2 = (if failed then note_manager_failure result x1 else x1);
                  (satisfied, x3) = ph_prescreen ops (x2\<lparr>rx_results := []\<rparr>);
                  x4 = (if failed \<and> \<not> run_blocked x3 then settle_manager_failure cfg result x3 else x3)
         in if rx_planned x4 = [] then (Ended NoTargets, x4)
            else if run_blocked x4 then (Ended ManagerFailed, x4)
            else if satisfied then (Ended PreSatisfied, x4)
            else case ph_candidates ops x4 of (True, x5) \<Rightarrow> (Ended CandidatesBlocked, x5) | (False, x5) \<Rightarrow> (GoOn, x5))"

section \<open>Workers\<close>

definition set_metrics :: "(obj \<Rightarrow> obj) \<Rightarrow> run_context \<Rightarrow> run_context" where
  "set_metrics f x = x\<lparr>rx_status := dset ''metrics'' (JObj (f (section_of (rx_status x) ''metrics''))) (rx_status x)\<rparr>"

definition dispatch_attempt :: "run_settings \<Rightarrow> run_phases \<Rightarrow> step" where
  "dispatch_attempt cfg ops x =
     (let x1 = set_metrics (\<lambda>m. dsetdefault ''tolerated_workers'' (JInt 0) (dsetdefault ''skipped_workers'' (JInt 0)
            (dset ''planned_workers'' (JInt (int (length (rx_planned x)))) m))) x;
          x2 = ph_dispatch ops x1
      in if rx_lost x2 then (Ended LostDuring, preserve_blocked cfg ops ''coordination_lost'' x2) else (GoOn, x2))"

text \<open>What is decided about a retry of the workers, and which rule decided it.\<close>

record retry_choice =
  ch_feedback :: "string option"
  ch_allowed :: bool
  ch_cycle :: bool
  ch_followup :: bool
  ch_empty_blocked :: bool
  ch_complementary :: bool
  ch_focused :: bool
  ch_destructive :: bool
  ch_stalled :: bool
  ch_empty :: bool

text \<open>What the rules read: the blocker, all preserved diffs, and the attempt with its bounds.\<close>

record retry_case =
  rk_env :: environ
  rk_blocker :: obj
  rk_artifacts :: "obj list"
  rk_attempt :: int
  rk_base :: int
  rk_max :: int
  rk_used :: int

definition empty_repair_allowed :: "retry_case \<Rightarrow> bool" where
  "empty_repair_allowed k = engine_empty_response_repair_can_retry (rk_artifacts k) (rk_blocker k) (rk_attempt k) (rk_max k)
     (rk_used k) (worker_engine_empty_response_extra_retries (rk_env k))"

definition ordinary_choice :: "retry_case \<Rightarrow> string option \<Rightarrow> retry_choice" where
  "ordinary_choice k feedback =
     (let cycle = one_sided_repair_cycle_should_block (rk_artifacts k) (rk_blocker k);
          followup = cycle \<and> failed_verifiable_followup_one_sided_can_retry (rk_env k) (rk_artifacts k) (rk_blocker k);
          allowed0 = feedback \<noteq> None \<and> worker_failure_can_retry (rk_env k) (rk_blocker k) (rk_attempt k) (rk_base k);
          allowed1 = (if cycle then followup else allowed0);
          feedback1 = (if cycle \<and> \<not> followup then None else feedback);
          stop = allowed1 \<and> kind_of (rk_blocker k) = ''engine_empty_response'' \<and> rk_artifacts k \<noteq> [] \<and> \<not> empty_repair_allowed k
      in \<lparr>ch_feedback = (if stop then None else feedback1), ch_allowed = (allowed1 \<and> \<not> stop), ch_cycle = cycle, ch_followup = followup,
          ch_empty_blocked = stop, ch_complementary = False, ch_focused = False, ch_destructive = False, ch_stalled = False,
          ch_empty = False\<rparr>)"

text \<open>One more rule: it applies when the choice so far is undecided.\<close>

definition one_sided_rules :: "retry_case \<Rightarrow> retry_choice \<Rightarrow> retry_choice" where
  "one_sided_rules k c =
     (if ch_feedback c = None \<or> ch_allowed c \<or> ch_cycle c then c
      else let comp = complementary_one_sided_partial_diff_can_retry (rk_env k) (rk_artifacts k) (rk_attempt k) (rk_base k);
               focused = \<not> comp \<and> verifiable_diff_test_failed_partial_diff_can_retry (rk_env k) (rk_artifacts k) (rk_blocker k)
                 (rk_attempt k) (rk_max k)
           in c\<lparr>ch_complementary := comp, ch_focused := focused, ch_allowed := comp \<or> focused\<rparr>)"

definition destructive_rule :: "retry_case \<Rightarrow> retry_choice \<Rightarrow> retry_choice" where
  "destructive_rule k c =
     (if ch_feedback c \<noteq> None \<or> ch_allowed c then c
      else if destructive_complementary_partial_diff_can_retry (rk_env k) (rk_artifacts k) (rk_blocker k) (rk_attempt k) (rk_base k)
      then c\<lparr>ch_destructive := True, ch_allowed := True,
             ch_feedback := Some (destructive_complementary_retry_feedback (rk_blocker k) (rk_attempt k))\<rparr>
      else c)"

definition engine_rules :: "retry_case \<Rightarrow> retry_choice \<Rightarrow> retry_choice" where
  "engine_rules k c =
     (if ch_feedback c = None \<or> ch_allowed c then c
      else let stalled = stalled_no_diff_repair_can_retry (rk_env k) (rk_artifacts k) (rk_blocker k) (rk_attempt k) (rk_base k);
               empty = \<not> stalled \<and> empty_repair_allowed k
           in c\<lparr>ch_stalled := stalled, ch_empty := empty, ch_allowed := stalled \<or> empty\<rparr>)"

definition choose_retry :: "retry_case \<Rightarrow> string option \<Rightarrow> retry_choice" where
  "choose_retry k feedback = engine_rules k (destructive_rule k (one_sided_rules k (ordinary_choice k feedback)))"

definition retry_granted :: "retry_choice \<Rightarrow> bool" where
  "retry_granted c = (ch_feedback c \<noteq> None \<and> ch_allowed c)"

definition retry_reason :: "retry_choice \<Rightarrow> obj \<Rightarrow> string" where
  "retry_reason c blocker =
     (if ch_destructive c then ''destructive_complementary_partial_diff''
      else if ch_focused c then ''focused_test_failed_partial_diff''
      else if ch_followup c then ''failed_verifiable_followup_one_sided''
      else if ch_empty c \<and> kind_of blocker = ''engine_prompt_timeout'' then ''engine_prompt_timeout_during_repair''
      else if ch_empty c then ''engine_empty_response_during_repair''
      else if ch_complementary c then ''complementary_one_sided_partial_diffs''
      else if ch_stalled c then ''stalled_no_diff_preserved_partial_diff'' else [])"

section \<open>What a retry of the workers keeps\<close>

definition completed_subtask_ids_for_retry :: "obj list \<Rightarrow> string list" where
  "completed_subtask_ids_for_retry worker_results =
     first_of_each (filter (\<lambda>s. s \<noteq> []) (map (\<lambda>r. nonempty (dget r ''subtask_id''))
       (filter (\<lambda>r. List.member [''completed'', ''skipped_existing'', ''tolerated_failure''] (normalized_text (dget r ''status''))
          \<or> truthy (dget r ''verified_existing'')) worker_results)))"

definition failed_subtask_id :: "obj list \<Rightarrow> string" where
  "failed_subtask_id worker_results =
     first_nonempty (map (\<lambda>r. nonempty (dget r ''subtask_id'')) (filter (\<lambda>r. return_code r \<noteq> 0) worker_results))"

definition is_subtask :: "string \<Rightarrow> obj \<Rightarrow> bool" where
  "is_subtask i st = (nonempty (dget st ''id'') = i)"

definition deferred_subtasks_for_retry :: "obj list \<Rightarrow> obj list \<Rightarrow> obj list" where
  "deferred_subtasks_for_retry pending worker_results =
     (let i = failed_subtask_id worker_results in
      if i = [] then [] else drop 1 (dropWhile (\<lambda>st. \<not> is_subtask i st) pending))"

definition failed_subtask_for_retry :: "obj list \<Rightarrow> obj list \<Rightarrow> obj option" where
  "failed_subtask_for_retry pending worker_results =
     (let i = failed_subtask_id worker_results in if i = [] then None else find (is_subtask i) pending)"

definition dicts_json :: "obj list \<Rightarrow> json" where
  "dicts_json ds = JList (map JObj ds)"

definition count_field :: "json \<Rightarrow> int" where
  "count_field v = (case v of JInt i \<Rightarrow> max 0 i | JBool b \<Rightarrow> (if b then 1 else 0)
     | JStr s \<Rightarrow> (case py_int s of Some i \<Rightarrow> max 0 i | None \<Rightarrow> 0) | _ \<Rightarrow> 0)"

definition if_some :: "bool \<Rightarrow> ('a \<Rightarrow> 'a) \<Rightarrow> 'a \<Rightarrow> 'a" where
  "if_some c f x = (if c then f x else x)"

definition mark_stall :: "string \<Rightarrow> obj \<Rightarrow> obj" where
  "mark_stall kind repair = dset ''last_repair_stall_kind'' (JStr kind)
     (dset ''stalled_no_diff_repair_attempts'' (JInt (count_field (dget repair ''stalled_no_diff_repair_attempts'') + 1)) repair)"

definition source_incomplete :: "string \<Rightarrow> obj \<Rightarrow> obj" where
  "source_incomplete kind repair =
     add_source kind (add_source ''worker_incomplete_diff'' (dset ''extra_retry_source'' (JStr ''worker_incomplete_diff'') repair))"

definition keep_for_retry :: "retry_case \<Rightarrow> retry_choice \<Rightarrow> run_context \<Rightarrow> run_context" where
  "keep_for_retry k c x =
     (let artifacts = rk_artifacts k; kind = kind_of (rk_blocker k);
          done_ids = completed_subtask_ids_for_retry (rx_results x);
          failed = failed_subtask_for_retry (rx_pending x) (rx_results x);
          deferred = deferred_subtasks_for_retry (rx_pending x) (rx_results x)
      in if_some (ch_stalled c) (change_repair (mark_stall kind))
        (if_some (ch_empty c) (\<lambda>x. put_repair ''engine_empty_response_repair_budget''
             (JInt (worker_engine_empty_response_extra_retries (rk_env k)))
             (put_repair ''engine_empty_response_repair_attempts'' (JInt (rk_used k + 1)) x))
         (if_some (artifacts \<noteq> []) (change_repair (source_incomplete kind))
          (if_some (deferred \<noteq> []) (put_repair ''deferred_subtasks'' (dicts_json deferred))
           (if_some (failed \<noteq> None \<and> failed \<noteq> Some []) (put_repair ''failed_subtask'' (JObj (case failed of Some st \<Rightarrow> st | None \<Rightarrow> [])))
            (if_some (done_ids \<noteq> []) (put_repair ''completed_subtask_ids'' (JList (map JStr done_ids)))
             (if_some (artifacts \<noteq> []) (\<lambda>x. put_repair ''partial_diff_state'' (JStr ''preserved_not_accepted'')
                (put_repair ''partial_diff_artifacts'' (dicts_json artifacts) x)) x)))))))"

definition defer_to_repair_loop :: "retry_case \<Rightarrow> retry_choice \<Rightarrow> run_context \<Rightarrow> run_context" where
  "defer_to_repair_loop k c x =
     (let blocker = rk_blocker k; n = int_str (rk_attempt k + 1) in
      emit ''worker.retry_deferred_to_repair_loop''
        [(''attempt'', JInt (rk_attempt k + 1)), (''kind'', dget blocker ''kind''), (''detail'', dget blocker ''detail''),
         (''partial_diff_artifacts'', dicts_json (rk_artifacts k)),
         (''completed_subtask_ids'', JList (map JStr (completed_subtask_ids_for_retry (rx_results x)))),
         (''deferred_subtask_count'', JInt (int (length (deferred_subtasks_for_retry (rx_pending x) (rx_results x))))),
         (''extra_retry_reason'', JStr (retry_reason c blocker))]
        (append_blackboard_note (''Attempt '' @ n @ '' hit retryable worker blocker '' @ ticked (kind_of blocker) @ ''. Retrying.'')
          ((keep_for_retry k c x)\<lparr>rx_feedback := ch_feedback c\<rparr>)))"

text \<open>The marks the decision leaves in the repair sections, granted or not.\<close>

definition mark_choice :: "retry_choice \<Rightarrow> run_context \<Rightarrow> run_context" where
  "mark_choice c x =
     if_some (ch_empty_blocked c) (put_repair ''engine_empty_response_retry_blocked'' (JBool True))
       (if_some (ch_cycle c) (put_repair (if ch_followup c then ''one_sided_after_failed_verifiable_retry''
           else ''one_sided_repair_cycle_blocked'') (JBool True)) x)"

definition has_unresolved_write_required_worker_failure :: "obj list \<Rightarrow> bool" where
  "has_unresolved_write_required_worker_failure worker_results =
     list_ex (\<lambda>r. normalized_text (dget r ''status'') = ''failed'' \<and> dget r ''write_required'' \<noteq> JBool False
        \<and> \<not> truthy (dget r ''verified_existing'')
        \<and> \<not> (list_ex worker_result_has_reviewable_synced_diff worker_results
              \<and> worker_failure_is_inherited_overlay_no_fresh_changes r)) worker_results"

definition retry_case_of :: "run_settings \<Rightarrow> int \<Rightarrow> run_context \<Rightarrow> retry_case" where
  "retry_case_of cfg attempt x =
     \<lparr>rk_env = rs_env cfg, rk_blocker = worker_failure_blocker (rx_results x),
      rk_artifacts = merge_partial_diff_artifacts_for_retry (repair_field ''partial_diff_artifacts'' x)
        (partial_diff_artifacts_for_retry (rx_results x)),
      rk_attempt = attempt, rk_base = base_max_loops cfg, rk_max = max_loops cfg,
      rk_used = count_field (repair_field ''engine_empty_response_repair_attempts'' x)\<rparr>"

definition workers_failed :: "run_context \<Rightarrow> bool" where
  "workers_failed x = truthy (dget (section_of (rx_status x) ''metrics'') ''failed_workers'')"

definition retry_choice_of :: "run_settings \<Rightarrow> int \<Rightarrow> run_context \<Rightarrow> retry_choice" where
  "retry_choice_of cfg attempt x =
     (let k = retry_case_of cfg attempt x in
      choose_retry k (worker_failure_retry_feedback (repair_partial_diff_artifacts (rx_status x) (rx_blackboard x))
        (rx_results x) (rk_blocker k) attempt))"

definition check_workers :: "run_settings \<Rightarrow> int \<Rightarrow> step" where
  "check_workers cfg attempt x =
     (if \<not> workers_failed x then (GoOn, x)
      else let k = retry_case_of cfg attempt x; c = retry_choice_of cfg attempt x; x1 = mark_choice c x in
        if retry_granted c then (Retry, defer_to_repair_loop k c x1)
        else if has_unresolved_write_required_worker_failure (rx_results x1) then (Ended WorkersFailed, x1)
        else if nonempty (dget (obj_of (dget (rx_task x1) ''source'')) ''type'') = ''github_project'' then (Ended WorkersFailed, x1)
        else case repo_validation_blocker_message (rx_validation x1) of
          Inl e \<Rightarrow> (Ended (Raised e), x1)
        | Inr message \<Rightarrow> if has_text message then (Ended WorkersFailed, x1)
            else (GoOn, append_blackboard_note
              ''Worker failures were tolerated because the expected repository files were present after sync.'' x1))"

section \<open>The checkout after the workers\<close>

definition missing_file_names :: "obj \<Rightarrow> string list" where
  "missing_file_names validation = filter (\<lambda>p. strip p \<noteq> []) (map py_str (list_of (dget validation ''missing_files'')))"

text \<open>\<open>json.dumps(.., indent=2)\<close> of the failed commands is given; its first 4000 characters are used.\<close>

definition repo_feedback :: "string \<Rightarrow> string \<Rightarrow> obj \<Rightarrow> string" where
  "repo_feedback failures_text message validation =
     join blank_line ([''CRITICAL: Deterministic repository validation failed after worker sync.'', message]
       @ (if missing_file_names validation = [] then []
          else [''Missing expected files:'' @ nlc @ join nlc (map (\<lambda>p. ''- '' @ p) (missing_file_names validation))])
       @ (if truthy (dget validation ''command_failures'')
          then [''Verification command failures:'' @ nlc @ take 4000 failures_text] else [])
       @ [''Preserve any useful existing diff, then add the missing tracked source, test, and documentation files. '' @
          ''Do not proceed to review until deterministic validation passes.''])"

definition check_repository :: "(json \<Rightarrow> string) \<Rightarrow> run_settings \<Rightarrow> int \<Rightarrow> step" where
  "check_repository dumps_indented cfg attempt x =
     (case repo_validation_blocker_message (rx_validation x) of
        Inl e \<Rightarrow> (Ended (Raised e), x)
      | Inr None \<Rightarrow> (GoOn, x)
      | Inr (Some []) \<Rightarrow> (GoOn, x)
      | Inr (Some (m # ms)) \<Rightarrow>
          (let message = m # ms; retrying = attempt < base_max_loops cfg - 1;
               x1 = emit ''repo_validation.failed'' [(''reason'', JStr message),
                      (''missing_files'', JList (map JStr (missing_file_names (rx_validation x)))), (''will_retry'', JBool retrying)]
                    (append_blackboard_note (''Attempt '' @ int_str (attempt + 1) @ '' failed deterministic repo validation: '' @ message) x)
           in if retrying then
                (Retry, x1\<lparr>rx_feedback := Some (repo_feedback (dumps_indented (dget (rx_validation x) ''command_failures'')) message (rx_validation x))\<rparr>)
              else (Ended (DecisionBlocked message ''repo_validation_failed'' ''handoff''), x1)))"

section \<open>Integration\<close>

definition deferred_note :: "string \<Rightarrow> string \<Rightarrow> run_context \<Rightarrow> run_context" where
  "deferred_note note_text reason x =
     emit ''integration.deferred'' [(''reason'', JStr (take 500 reason))] (append_blackboard_note note_text x)"

definition review_entry :: "int \<Rightarrow> string \<Rightarrow> obj \<Rightarrow> json" where
  "review_entry attempt message result = JObj [(''attempt'', JInt (attempt + 1)), (''returncode'', dget result ''returncode''),
     (''blocker'', JStr message), (''stdout'', JStr (nonempty (dget result ''stdout'')))]"

definition with_patch :: "string option \<Rightarrow> string \<Rightarrow> string \<Rightarrow> string \<Rightarrow> string" where
  "with_patch patch before after feedback = (case patch of
      None \<Rightarrow> feedback | Some p \<Rightarrow> feedback @ blank_line @ before @ ticked p @ after)"

definition retry_integration :: "run_settings \<Rightarrow> run_phases \<Rightarrow> int \<Rightarrow> string \<Rightarrow> obj \<Rightarrow> run_context \<Rightarrow> run_context" where
  "retry_integration cfg ops attempt message result x =
     (let x1 = append_blackboard_note (''Attempt '' @ int_str (attempt + 1) @
            '' failed integration review. Retrying with integration feedback.'') x;
          x2 = x1\<lparr>rx_blackboard := append_to ''integration_reviews'' (review_entry attempt message result) (rx_blackboard x1)\<rparr>;
          (patch, x3) = preserve_named cfg ops ''integration_retry_repair_needed''
            (''retry-'' @ int_str (attempt + 1) @ ''-integration-rejected-working-diff.patch'') x2;
          x4 = discard_partial_diff_repair_artifacts ''Integration review rejected the carried partial diff as incomplete.'' x3
      in x4\<lparr>rx_feedback := Some (with_patch patch
           (''The rejected working diff was preserved and the shared checkout was reset '' @
            ''before this retry. Inspect or reuse only useful hunks from '')
           (''; '' @ ''do not keep helper-only or unwired behavior just because it came from a preserved timeout patch.'')
           (integration_retry_text message result))\<rparr>)"

definition integrating :: "run_context \<Rightarrow> run_context" where
  "integrating x = set_run_status (no_status_changes\<lparr>sg_phase := Some ''integration'', sg_phase_detail := Some ''manager integration'',
     sg_phase_role := Some ''manager''\<rparr>) x"

text \<open>
  A blocker of the review that can be deferred is noted as deferred, and then it ends the run like one that
  cannot be retried: the branch of the deferral falls through to the block.
\<close>

definition check_integration :: "run_settings \<Rightarrow> run_phases \<Rightarrow> int \<Rightarrow> step" where
  "check_integration cfg ops attempt x =
     (let (result, x2) = ph_integration ops (integrating x);
          blocker = integration_blocker_message result;
          x3 = emit (integration_event_type result) [(''stage'', JStr ''integration''), (''returncode'', dget result ''returncode''),
            (''blocker'', opt_str blocker)] x2
      in if return_code result \<noteq> 0 then
           (if integration_failure_can_defer_to_review result then
              (GoOn, deferred_note
                ''Integration prompt hit an engine watchdog after worker sync; deferring to review and deterministic verification.''
                (nonempty (dget result ''stdout'')) x3)
            else (Ended (IntegrationFailed None), x3))
         else case blocker of
           None \<Rightarrow> (GoOn, x3)
         | Some message \<Rightarrow>
             if integration_semantic_blocker_can_defer_to_review result message then
               (Ended (IntegrationFailed (Some message)), deferred_note
                 (''Integration review could not inspect repository state because its tool environment was limited; '' @
                  ''deferring to review and deterministic verification.'') message x3)
             else if integration_can_retry (rs_env cfg) (rx_status x3) (rx_blackboard x3) attempt (base_max_loops cfg) then
               (Retry, retry_integration cfg ops attempt message result x3)
             else (Ended (IntegrationFailed (Some message)), x3))"

section \<open>The diff, the review and the end\<close>

definition apply_action :: "repair_action \<Rightarrow> run_context \<Rightarrow> pass_result \<times> run_context" where
  "apply_action a x = (case a of
      Continue \<Rightarrow> (GoOn, x) | RetryWith f \<Rightarrow> (Retry, x\<lparr>rx_feedback := Some f\<rparr>)
    | Block message kind phase \<Rightarrow> (Ended (DecisionBlocked message kind phase), x))"

definition add_notes :: "string list \<Rightarrow> run_context \<Rightarrow> run_context" where
  "add_notes notes x = fold append_blackboard_note notes x"

definition validation_ok :: "run_context \<Rightarrow> bool" where
  "validation_ok x = truthy (dget (rx_validation x) ''ok'')"

definition check_diff :: "run_settings \<Rightarrow> run_phases \<Rightarrow> int \<Rightarrow> step" where
  "check_diff cfg ops attempt x =
     (let x1 = x\<lparr>rx_diff := ph_diff ops x\<rparr>; base = base_max_loops cfg in
      if strip (rx_diff x1) \<noteq> [] then (GoOn, x1)
      else if \<not> validation_ok x1 then
        (let a = check_no_diff attempt base in
         apply_action a (add_notes (case a of RetryWith _ \<Rightarrow> [no_diff_note attempt] | _ \<Rightarrow> []) x1))
      else
        (let a = check_no_verifiable_proof (rx_expected x1) (rx_results x1) attempt base in
         apply_action a (add_notes (proof_note attempt a) x1)))"

definition retry_verification :: "run_settings \<Rightarrow> run_phases \<Rightarrow> int \<Rightarrow> policy_decision \<Rightarrow> run_context \<Rightarrow> run_context" where
  "retry_verification cfg ops attempt v x =
     (let x1 = append_blackboard_note (verification_note attempt (vp_validation_blocker v)) x;
          (patch, x2) = preserve_named cfg ops (''verification_retry_'' @ (case vp_failure_category v of Some c \<Rightarrow> c | None \<Rightarrow> ''None''))
            (''retry-'' @ int_str (attempt + 1) @ ''-rejected-working-diff.patch'') x1;
          x3 = discard_partial_diff_repair_artifacts ''Review/verification rejected the carried partial diff as incomplete.'' x2
      in x3\<lparr>rx_feedback := Some (with_patch patch
           (''The rejected working diff was preserved and the shared checkout was reset '' @
            ''before this retry. Inspect or reuse only the useful hunks from '')
           (''; '' @ ''do not carry forward rejected shallow or incomplete behavior.'')
           (verification_retry_text (rx_review x) (rx_test x) (vp_validation_blocker v)))\<rparr>)"

definition check_verification :: "run_settings \<Rightarrow> run_phases \<Rightarrow> int \<Rightarrow> step" where
  "check_verification cfg ops attempt x =
     (let (v, x1) = ph_review ops x in
      if vp_should_retry v then
        (if verification_can_retry (rs_env cfg) (rx_status x1) (rx_blackboard x1) attempt (base_max_loops cfg)
         then (Retry, retry_verification cfg ops attempt v x1) else (Ended (VerificationFailed v), x1))
      else if vp_outcome v \<noteq> ''pass'' then (Ended (VerificationFailed v), x1)
      else (Ended Finalized, x1))"

section \<open>The loop\<close>

definition run_pass :: "(json \<Rightarrow> string) \<Rightarrow> run_settings \<Rightarrow> run_phases \<Rightarrow> int \<Rightarrow> step" where
  "run_pass dumps_indented cfg ops attempt =
     then_step (begin_attempt cfg ops attempt) (then_step (plan_attempt cfg ops) (then_step (dispatch_attempt cfg ops)
       (then_step (check_workers cfg attempt) (then_step (check_repository dumps_indented cfg attempt)
         (then_step (check_integration cfg ops attempt) (then_step (check_diff cfg ops attempt) (check_verification cfg ops attempt)))))))"

text \<open>The attempts that are left, and the one to make next.\<close>

fun run_attempts :: "(json \<Rightarrow> string) \<Rightarrow> run_settings \<Rightarrow> run_phases \<Rightarrow> nat \<Rightarrow> int \<Rightarrow> run_context \<Rightarrow> run_end \<times> run_context" where
  "run_attempts di cfg ops 0 attempt x =
     (DecisionBlocked ''Run exceeded maximum retry loop count without completing.'' ''max_retries'' ''handoff'', x)"
| "run_attempts di cfg ops (Suc n) attempt x =
     (case run_pass di cfg ops attempt x of
        (Ended e, x') \<Rightarrow> (e, x') | (_, x') \<Rightarrow> run_attempts di cfg ops n (attempt + 1) x')"

definition repair_loop :: "(json \<Rightarrow> string) \<Rightarrow> run_settings \<Rightarrow> run_phases \<Rightarrow> run_context \<Rightarrow> run_end \<times> run_context" where
  "repair_loop di cfg ops x = run_attempts di cfg ops (nat (max_loops cfg)) 0 (start_repair cfg x)"

end
