(* ===== verification/RepairBounds.thy ===== *)
theory RepairBounds imports RunLoop begin

text \<open>
  How far the rules of the repair loop reach: the attempts each of them grants, against the number of
  attempts the loop makes.
\<close>

section \<open>Budgets\<close>

lemma env_budget_nonneg: "0 \<le> fallback \<Longrightarrow> 0 \<le> env_budget env key fallback"
  by (auto simp: env_budget_def split: list.split option.split)

lemma budgets_nonneg [simp]:
  "0 \<le> worker_incomplete_diff_extra_retries env" "0 \<le> worker_off_track_extra_retries env"
  "0 \<le> worker_engine_empty_response_extra_retries env" "0 \<le> worker_verifiable_diff_test_failed_extra_retries env"
  "0 \<le> worker_verifiable_diff_weak_test_extra_retries env" "0 \<le> worker_verifiable_diff_import_error_extra_retries env"
  "0 \<le> worker_verifiable_diff_exception_extra_retries env" "0 \<le> worker_verifiable_diff_assertion_extra_retries env"
  "0 \<le> verification_repair_extra_retries env" "0 \<le> worker_complementary_partial_diff_loop_extra_retries env"
  by (simp_all add: env_budget_nonneg worker_incomplete_diff_extra_retries_def worker_off_track_extra_retries_def
      worker_engine_empty_response_extra_retries_def worker_verifiable_diff_test_failed_extra_retries_def
      worker_verifiable_diff_weak_test_extra_retries_def worker_verifiable_diff_import_error_extra_retries_def
      worker_verifiable_diff_exception_extra_retries_def worker_verifiable_diff_assertion_extra_retries_def
      verification_repair_extra_retries_def worker_complementary_partial_diff_loop_extra_retries_def)

lemma le_foldr_max: "x = a \<or> x \<in> set xs \<Longrightarrow> (x::int) \<le> foldr max xs a"
  by (induction xs) auto

lemma within_loop_budget:
  "worker_incomplete_diff_extra_retries env \<le> worker_repair_loop_extra_retries env"
  "worker_off_track_extra_retries env \<le> worker_repair_loop_extra_retries env"
  "worker_verifiable_diff_test_failed_extra_retries env \<le> worker_repair_loop_extra_retries env"
  "worker_verifiable_diff_weak_test_extra_retries env \<le> worker_repair_loop_extra_retries env"
  "worker_verifiable_diff_import_error_extra_retries env \<le> worker_repair_loop_extra_retries env"
  "worker_verifiable_diff_exception_extra_retries env \<le> worker_repair_loop_extra_retries env"
  "worker_verifiable_diff_assertion_extra_retries env \<le> worker_repair_loop_extra_retries env"
  unfolding worker_repair_loop_extra_retries_def by (rule le_foldr_max; simp only: list.set insert_iff simp_thms)+

lemma raised_budget_within:
  assumes "extra \<le> worker_repair_loop_extra_retries env"
  shows "raised_budget env blocker extra \<le> worker_repair_loop_extra_retries env"
  using assms within_loop_budget(5,6,7) [of env] by (simp add: raised_budget_def raised_for_def)

lemma named_budgets_within:
  "no_change_budget env blocker \<le> worker_repair_loop_extra_retries env"
  "test_failed_budget env blocker \<le> worker_repair_loop_extra_retries env"
  "weak_test_budget env blocker \<le> worker_repair_loop_extra_retries env + 1"
  using within_loop_budget [of env]
  by (simp_all add: no_change_budget_def test_failed_budget_def weak_test_budget_def raised_budget_within)

lemma partial_retry_bound:
  assumes "partial_diff_can_retry env blocker attempt base"
  shows "attempt < base + worker_repair_loop_extra_retries env"
  using assms within_loop_budget(1,2) [of env] named_budgets_within [of env blocker]
  by (auto simp: partial_diff_can_retry_def Let_def split: if_splits)

lemma worker_retry_bound:
  assumes "worker_failure_can_retry env blocker attempt base"
  shows "attempt < base + worker_repair_loop_extra_retries env"
proof -
  have "0 \<le> worker_repair_loop_extra_retries env" using within_loop_budget(1) [of env] budgets_nonneg(1) [of env] by linarith
  then show ?thesis
    using assms partial_retry_bound [of env blocker attempt base] named_budgets_within(1) [of env blocker]
    by (auto simp: worker_failure_can_retry_def Let_def split: if_splits)
qed

section \<open>The attempts of the loop\<close>

text \<open>
  Room for the ordinary rules: the review's and the complementary budget together give one pass, and as
  many as the budget of rejected integrations. The defaults of the program are one, one and one.
\<close>

definition roomy :: "run_settings \<Rightarrow> bool" where
  "roomy cfg = (let room = verification_repair_extra_retries (rs_env cfg) + worker_complementary_partial_diff_loop_extra_retries (rs_env cfg)
     in 1 \<le> room \<and> env_budget (rs_env cfg) ''ACA_INTEGRATION_REJECTION_EXTRA_RETRIES'' 1 \<le> room)"

lemma ordinary_rules_bound:
  assumes "roomy cfg"
  shows "worker_failure_can_retry (rs_env cfg) blocker attempt (base_max_loops cfg) \<Longrightarrow> attempt < max_loops cfg - 1"
    and "destructive_complementary_partial_diff_can_retry (rs_env cfg) artifacts blocker attempt (base_max_loops cfg)
      \<Longrightarrow> attempt < max_loops cfg - 1"
    and "stalled_no_diff_repair_can_retry (rs_env cfg) artifacts blocker attempt (base_max_loops cfg)
      \<Longrightarrow> attempt < max_loops cfg - 1"
    and "verification_can_retry (rs_env cfg) status blackboard attempt (base_max_loops cfg) \<Longrightarrow> attempt < max_loops cfg - 1"
    and "integration_can_retry (rs_env cfg) status blackboard attempt (base_max_loops cfg) \<Longrightarrow> attempt < max_loops cfg - 1"
proof -
  let ?env = "rs_env cfg"
  let ?R = "worker_repair_loop_extra_retries ?env" and ?V = "verification_repair_extra_retries ?env"
    and ?C = "worker_complementary_partial_diff_loop_extra_retries ?env" and ?I = "worker_incomplete_diff_extra_retries ?env"
  have r: "1 \<le> ?V + ?C" and integ: "env_budget ?env ''ACA_INTEGRATION_REJECTION_EXTRA_RETRIES'' 1 \<le> ?V + ?C"
    using assms by (simp_all add: roomy_def Let_def)
  have nn: "0 \<le> ?V" "0 \<le> ?C" "0 \<le> ?I" "?I \<le> ?R" by (simp_all add: within_loop_budget)
  have m: "max_loops cfg = base_max_loops cfg + ?R + ?V + ?C" by (simp add: max_loops_def)
  show "attempt < max_loops cfg - 1" if "worker_failure_can_retry ?env blocker attempt (base_max_loops cfg)"
    using worker_retry_bound [OF that] r m by linarith
  show "attempt < max_loops cfg - 1"
    if "destructive_complementary_partial_diff_can_retry ?env artifacts blocker attempt (base_max_loops cfg)"
  proof -
    have "attempt < base_max_loops cfg + (?R + ?C) - 1"
      using that unfolding destructive_complementary_partial_diff_can_retry_def by blast
    then show ?thesis using nn m by linarith
  qed
  show "attempt < max_loops cfg - 1"
    if "stalled_no_diff_repair_can_retry ?env artifacts blocker attempt (base_max_loops cfg)"
  proof -
    have "attempt < base_max_loops cfg + max 1 ?I - 1"
      using that unfolding stalled_no_diff_repair_can_retry_def by blast
    then show ?thesis using nn m r by linarith
  qed
  show v: "attempt < max_loops cfg - 1" if "verification_can_retry ?env status blackboard attempt (base_max_loops cfg)"
  proof -
    have "attempt < base_max_loops cfg - 1 \<or> attempt < base_max_loops cfg + (?I + ?V) - 1"
      using that unfolding verification_can_retry_def by blast
    then show ?thesis using nn m r by linarith
  qed
  show "attempt < max_loops cfg - 1" if "integration_can_retry ?env status blackboard attempt (base_max_loops cfg)"
  proof -
    have "verification_can_retry ?env status blackboard attempt (base_max_loops cfg) \<or>
        attempt < base_max_loops cfg + ?I + env_budget ?env ''ACA_INTEGRATION_REJECTION_EXTRA_RETRIES'' 1 - 1"
      using that unfolding integration_can_retry_def by blast
    then show ?thesis using v nn m integ by linarith
  qed
qed

text \<open>A retry of the workers in the last attempt comes from one of the rules on preserved diffs.\<close>

lemma last_retry_rules:
  assumes "roomy cfg" and "rk_env k = rs_env cfg" and "rk_base k = base_max_loops cfg" and "rk_max k = max_loops cfg"
    and "\<not> rk_attempt k < max_loops cfg - 1" and "retry_granted (choose_retry k feedback)"
  shows "ch_followup (choose_retry k feedback) \<or> ch_complementary (choose_retry k feedback) \<or> ch_focused (choose_retry k feedback)"
proof -
  have no_worker: "\<not> worker_failure_can_retry (rk_env k) (rk_blocker k) (rk_attempt k) (rk_base k)"
    and no_destructive: "\<not> destructive_complementary_partial_diff_can_retry (rk_env k) (rk_artifacts k) (rk_blocker k)
      (rk_attempt k) (rk_base k)"
    and no_stalled: "\<not> stalled_no_diff_repair_can_retry (rk_env k) (rk_artifacts k) (rk_blocker k) (rk_attempt k) (rk_base k)"
    using ordinary_rules_bound(1-3) [OF assms(1)] assms(2,3,5) by metis+
  have no_empty: "\<not> empty_repair_allowed k"
    using assms(4,5) by (simp add: empty_repair_allowed_def engine_empty_response_repair_can_retry_def Let_def)
  define c where "c = one_sided_rules k (ordinary_choice k feedback)"
  have rest: "choose_retry k feedback = c"
    using no_destructive no_stalled no_empty assms(6)
    by (auto simp: choose_retry_def c_def destructive_rule_def engine_rules_def retry_granted_def Let_def split: if_splits)
  then have "ch_allowed c" using assms(6) by (simp add: retry_granted_def)
  then show ?thesis unfolding rest
    using no_worker by (auto simp: c_def one_sided_rules_def ordinary_choice_def Let_def split: if_splits)
qed

end
