(* ===== verification/RunOutcomes.thy ===== *)
theory RunOutcomes imports RepairBounds begin

text \<open>
  What the end of the repair loop says about its last pass: a finalized run passed every check of that
  pass, and a run that used up its attempts was still granted one more.
\<close>

section \<open>Steps\<close>

lemma then_step_cases:
  assumes "then_step f g x = (r, y)"
  obtains x' where "f x = (GoOn, x')" "g x' = (r, y)" | "f x = (r, y)" "r \<noteq> GoOn"
  using assms by (auto simp: then_step_def split: prod.splits pass_result.splits)

lemma preserve_blocked_same: "rx_results (preserve_blocked cfg ops reason x) = rx_results x"
  by (simp add: preserve_blocked_def preserve_named_def preserve_and_reset_blocked_worktree_def append_blackboard_note_def Let_def)

lemma begin_attempt_ends: "begin_attempt cfg ops attempt x = (r, y) \<Longrightarrow> r = GoOn \<or> r = Ended LostBefore"
  by (auto simp: begin_attempt_def Let_def split: if_splits)

lemma plan_attempt_ends:
  "plan_attempt cfg ops x = (r, y) \<Longrightarrow>
     r = GoOn \<or> (\<exists>e. r = Ended e \<and> e \<in> {ManagerFailed, NoTargets, PreSatisfied, CandidatesBlocked})"
  by (auto simp: plan_attempt_def Let_def split: prod.splits if_splits bool.splits)

lemma dispatch_attempt_ends: "dispatch_attempt cfg ops x = (r, y) \<Longrightarrow> r = GoOn \<or> r = Ended LostDuring"
  by (auto simp: dispatch_attempt_def Let_def split: if_splits)

text \<open>Failed workers are settled when the run may go on with them.\<close>

definition workers_settled :: "run_context \<Rightarrow> bool" where
  "workers_settled x = (\<not> workers_failed x
     \<or> (\<not> has_unresolved_write_required_worker_failure (rx_results x)
        \<and> nonempty (dget (obj_of (dget (rx_task x) ''source'')) ''type'') \<noteq> ''github_project''))"

definition checkout_sound :: "run_context \<Rightarrow> bool" where
  "checkout_sound x = (case repo_validation_blocker_message (rx_validation x) of Inr m \<Rightarrow> \<not> has_text m | Inl _ \<Rightarrow> False)"

definition integration_passes :: "obj \<Rightarrow> bool" where
  "integration_passes result =
     (if return_code result \<noteq> 0 then integration_failure_can_defer_to_review result
      else integration_blocker_message result = None)"

definition diff_or_proof :: "run_phases \<Rightarrow> run_context \<Rightarrow> bool" where
  "diff_or_proof ops x = (strip (ph_diff ops x) \<noteq> []
     \<or> (validation_ok x \<and> (rx_expected x \<noteq> [] \<or> has_verifiable_worker_success (rx_results x))))"

lemma mark_choice_same:
  "rx_results (mark_choice c x) = rx_results x" "rx_task (mark_choice c x) = rx_task x"
  "rx_validation (mark_choice c x) = rx_validation x"
  by (simp_all add: mark_choice_def if_some_def put_repair_def change_repair_def)

lemma note_same:
  "rx_results (append_blackboard_note s x) = rx_results x" "rx_task (append_blackboard_note s x) = rx_task x"
  "rx_validation (append_blackboard_note s x) = rx_validation x"
  by (simp_all add: append_blackboard_note_def)

lemma check_workers_ends:
  assumes "check_workers cfg attempt x = (r, y)"
  shows "(r = GoOn \<and> workers_settled x \<and> rx_validation y = rx_validation x)
    \<or> (r = Retry \<and> workers_failed x \<and> retry_granted (retry_choice_of cfg attempt x))
    \<or> r = Ended WorkersFailed \<or> (\<exists>e. r = Ended (Raised e))"
  using assms by (auto simp: check_workers_def workers_settled_def Let_def mark_choice_same note_same
      split: if_splits sum.splits)

lemma check_repository_ends:
  assumes "check_repository di cfg attempt x = (r, y)"
  shows "(r = GoOn \<and> checkout_sound x) \<or> (r = Retry \<and> attempt < base_max_loops cfg - 1)
    \<or> (\<exists>m. r = Ended (DecisionBlocked m ''repo_validation_failed'' ''handoff'')) \<or> (\<exists>e. r = Ended (Raised e))"
  using assms by (auto simp: check_repository_def checkout_sound_def has_text_def Let_def
      split: sum.splits option.splits list.splits if_splits)

lemma check_integration_ends:
  assumes "check_integration cfg ops attempt x = (r, y)"
  shows "(r = GoOn \<and> integration_passes (fst (ph_integration ops (integrating x))))
    \<or> (r = Retry \<and> (\<exists>status blackboard. integration_can_retry (rs_env cfg) status blackboard attempt (base_max_loops cfg)))
    \<or> (\<exists>m. r = Ended (IntegrationFailed m))"
proof -
  obtain result x2 where i: "ph_integration ops (integrating x) = (result, x2)" by (cases "ph_integration ops (integrating x)")
  then show ?thesis
    using assms unfolding check_integration_def integration_passes_def
    by (auto simp: Let_def split: if_splits option.splits)
qed

lemma check_diff_ends:
  assumes "check_diff cfg ops attempt x = (r, y)"
  shows "(r = GoOn \<and> diff_or_proof ops x) \<or> (r = Retry \<and> attempt < base_max_loops cfg - 1)
    \<or> (\<exists>m k. r = Ended (DecisionBlocked m k ''handoff'') \<and> k \<in> {''no_diff'', ''no_verifiable_proof''})"
  using assms by (auto simp: check_diff_def apply_action_def check_no_diff_def check_no_verifiable_proof_def diff_or_proof_def
      validation_ok_def Let_def split: if_splits)

lemma check_verification_ends:
  assumes "check_verification cfg ops attempt x = (r, y)"
  shows "(r = Ended Finalized \<and> (\<exists>v. ph_review ops x = (v, y) \<and> vp_outcome v = ''pass'' \<and> \<not> vp_should_retry v))
    \<or> (r = Retry \<and> (\<exists>status blackboard. verification_can_retry (rs_env cfg) status blackboard attempt (base_max_loops cfg)))
    \<or> (\<exists>v. r = Ended (VerificationFailed v))"
  using assms by (auto simp: check_verification_def split: prod.splits if_splits)

section \<open>Passes\<close>

lemma run_pass_stages:
  assumes "run_pass di cfg ops attempt x = (r, y)"
  obtains (early) e where "r = Ended e" "e \<in> {LostBefore, LostDuring, ManagerFailed, NoTargets, PreSatisfied, CandidatesBlocked,
        WorkersFailed} \<union> range Raised \<union> range IntegrationFailed \<union> range VerificationFailed"
    | (decision) m k p where "r = Ended (DecisionBlocked m k p)" "k \<noteq> ''max_retries''"
    | (workers) w where "r = Retry" "workers_failed w" "retry_granted (retry_choice_of cfg attempt w)"
    | (other) "r = Retry" "attempt < base_max_loops cfg - 1
        \<or> (\<exists>status blackboard. integration_can_retry (rs_env cfg) status blackboard attempt (base_max_loops cfg))
        \<or> (\<exists>status blackboard. verification_can_retry (rs_env cfg) status blackboard attempt (base_max_loops cfg))"
    | (final) p w s d e v where "r = Ended Finalized" "dispatch_attempt cfg ops p = (GoOn, w)" "workers_settled w"
        "check_workers cfg attempt w = (GoOn, s)" "checkout_sound w"
        "integration_passes (fst (ph_integration ops (integrating s)))" "check_integration cfg ops attempt s = (GoOn, d)"
        "diff_or_proof ops d" "check_diff cfg ops attempt d = (GoOn, e)" "ph_review ops e = (v, y)" "vp_outcome v = ''pass''"
        "\<not> vp_should_retry v"
proof -
  note steps = assms [unfolded run_pass_def]
  from steps show thesis
  proof (cases rule: then_step_cases)
    case 2
    then show thesis using begin_attempt_ends [OF 2(1)] early by blast
  next
    case (1 x1)
    from 1(2) show thesis
    proof (cases rule: then_step_cases)
      case 2
      then show thesis using plan_attempt_ends [OF 2(1)] early by blast
    next
      case (1 x2)
      note p = this
      from 1(2) show thesis
      proof (cases rule: then_step_cases)
        case 2
        then show thesis using dispatch_attempt_ends [OF 2(1)] early by blast
      next
        case (1 w)
        note disp = this(1)
        from 1(2) show thesis
        proof (cases rule: then_step_cases)
          case 2
          then show thesis using check_workers_ends [OF 2(1)] early workers by blast
        next
          case (1 s)
          note work = this(1)
          from 1(2) show thesis
          proof (cases rule: then_step_cases)
            case 2
            then show thesis using check_repository_ends [OF 2(1)] early other decision by blast
          next
            case (1 s')
            note repo = this(1)
            have same: "s' = s" using repo by (auto simp: check_repository_def Let_def split: sum.splits option.splits list.splits if_splits)
            have settled: "workers_settled w" "rx_validation s = rx_validation w" using check_workers_ends [OF work] by auto
            have sound: "checkout_sound w" using check_repository_ends [OF repo] settled(2) by (auto simp: checkout_sound_def)
            from 1(2) [unfolded same] show thesis
            proof (cases rule: then_step_cases)
              case 2
              then show thesis using check_integration_ends [OF 2(1)] early other by blast
            next
              case (1 d)
              note integ = this(1)
              from 1(2) show thesis
              proof (cases rule: then_step_cases)
                case 2
                then show thesis using check_diff_ends [OF 2(1)] early other decision by blast
              next
                case (1 e)
                from check_verification_ends [OF 1(2)] show thesis
                proof (elim disjE conjE exE)
                  fix v
                  assume "r = Ended Finalized" "ph_review ops e = (v, y)" "vp_outcome v = ''pass''" "\<not> vp_should_retry v"
                  then show thesis
                    using final [OF _ disp settled(1) work sound _ integ _ 1(1)] check_integration_ends [OF integ] check_diff_ends [OF 1(1)]
                    by blast
                next
                  fix status blackboard
                  assume "r = Retry" "verification_can_retry (rs_env cfg) status blackboard attempt (base_max_loops cfg)"
                  then show thesis using other by blast
                next
                  fix v assume "r = Ended (VerificationFailed v)" then show thesis using early by blast
                qed
              qed
            qed
          qed
        qed
      qed
    qed
  qed
qed

section \<open>The loop\<close>

lemma last_pass:
  assumes "run_attempts di cfg ops n a x = (e, y)"
  shows "(\<exists>b z. a \<le> b \<and> b < a + int n \<and> run_pass di cfg ops b z = (Ended e, y))
    \<or> (e = DecisionBlocked ''Run exceeded maximum retry loop count without completing.'' ''max_retries'' ''handoff'' \<and>
       (n = 0 \<or> (\<exists>z. run_pass di cfg ops (a + int n - 1) z = (Retry, y))))"
  using assms
proof (induction n arbitrary: a x)
  case (Suc n)
  obtain r z where pass: "run_pass di cfg ops a x = (r, z)" by (cases "run_pass di cfg ops a x")
  show ?case
  proof (cases r)
    case (Ended e')
    then show ?thesis using Suc.prems pass by (intro disjI1 exI [of _ a] exI [of _ x]) simp
  next
    case GoOn
    then show ?thesis using pass by (elim run_pass_stages) auto
  next
    case Retry
    then have next_pass: "run_attempts di cfg ops n (a + 1) z = (e, y)" using Suc.prems pass by simp
    have here: "run_pass di cfg ops (a + int (Suc n) - 1) x = (Retry, y)" if "n = 0" using that Retry pass next_pass by simp
    from Suc.IH [OF next_pass] show ?thesis
    proof (elim disjE conjE exE)
      fix b z' assume "a + 1 \<le> b" "b < a + 1 + int n" "run_pass di cfg ops b z' = (Ended e, y)"
      then show ?thesis by (intro disjI1 exI [of _ b] exI [of _ z']) simp
    next
      assume "n = 0" "e = DecisionBlocked ''Run exceeded maximum retry loop count without completing.'' ''max_retries'' ''handoff''"
      then show ?thesis using here by blast
    next
      fix z' assume "e = DecisionBlocked ''Run exceeded maximum retry loop count without completing.'' ''max_retries'' ''handoff''"
        "run_pass di cfg ops (a + 1 + int n - 1) z' = (Retry, y)"
      then show ?thesis by (intro disjI2 conjI) (auto intro!: exI [of _ z'] simp: algebra_simps)
    qed
  qed
qed simp

lemma max_loops_pos: "base_max_loops cfg \<le> max_loops cfg" "0 < max_loops cfg"
proof -
  let ?env = "rs_env cfg"
  have "0 \<le> worker_incomplete_diff_extra_retries ?env" "0 \<le> verification_repair_extra_retries ?env"
    "0 \<le> worker_complementary_partial_diff_loop_extra_retries ?env" by simp_all
  then show le: "base_max_loops cfg \<le> max_loops cfg"
    using within_loop_budget(1) [of ?env] unfolding max_loops_def by linarith
  have "0 < base_max_loops cfg" by (simp add: base_max_loops_def)
  then show "0 < max_loops cfg" using le by linarith
qed

lemma roomy_base: "roomy cfg \<Longrightarrow> base_max_loops cfg - 1 < max_loops cfg - 1"
  using within_loop_budget(1) [of "rs_env cfg"] budgets_nonneg(1) [of "rs_env cfg"]
  by (simp only: max_loops_def roomy_def Let_def, linarith)

lemma finalized_review:
  assumes "repair_loop di cfg ops x = (Finalized, y)"
  obtains z v where "ph_review ops z = (v, y)" "vp_outcome v = ''pass''" "\<not> vp_should_retry v"
proof -
  from last_pass [OF assms [unfolded repair_loop_def]] obtain b z where "run_pass di cfg ops b z = (Ended Finalized, y)"
    by auto
  then show thesis by (cases rule: run_pass_stages) (auto intro: that)
qed

section \<open>Properties\<close>

text \<open>
  C7. A finalized run passed every check of its last pass. When the repair loop hands a run to its finalization, that pass is
  one of the counted attempts, and in it: the workers ran and the lease was not lost; no worker that had to write is left
  with an unresolved failure; the validation of the checkout has no blocker; the integration review printed no blocker (or its
  prompt failed on an engine watchdog); there is a diff, or the checkout is valid and something proves the work; and the
  verification policy passed and asked for no repair. Each check is made on the state the check before it left.
\<close>

theorem finalized_run_is_verified:
  assumes "repair_loop di cfg ops x = (Finalized, y)"
  shows "\<exists>attempt p w s d e v. 0 \<le> attempt \<and> attempt < max_loops cfg
    \<and> dispatch_attempt cfg ops p = (GoOn, w) \<and> \<not> rx_lost w \<and> workers_settled w \<and> checkout_sound w
    \<and> check_workers cfg attempt w = (GoOn, s) \<and> integration_passes (fst (ph_integration ops (integrating s)))
    \<and> check_integration cfg ops attempt s = (GoOn, d) \<and> diff_or_proof ops d \<and> check_diff cfg ops attempt d = (GoOn, e)
    \<and> ph_review ops e = (v, y) \<and> vp_outcome v = ''pass'' \<and> \<not> vp_should_retry v"
proof -
  from last_pass [OF assms [unfolded repair_loop_def]] obtain b z where
    b: "0 \<le> b" "b < max_loops cfg" "run_pass di cfg ops b z = (Ended Finalized, y)"
    using max_loops_pos(2) [of cfg] by auto
  from b(3) show ?thesis
  proof (cases rule: run_pass_stages)
    case (final p w s d e v)
    moreover have "\<not> rx_lost w" using final(2) by (auto simp: dispatch_attempt_def Let_def split: if_splits)
    ultimately show ?thesis using b(1,2) by (intro exI [of _ b] exI [of _ p] exI [of _ w] exI [of _ s] exI [of _ d] exI [of _ e] exI [of _ v]) simp
  qed auto
qed


section \<open>Examples\<close>

text \<open>A run whose only worker fails one-sidedly in every attempt, after a test-only diff and a failed paired one.\<close>

definition thrifty_env :: environ where
  "thrifty_env = (\<lambda>k. if k = ''ACA_VERIFICATION_REPAIR_EXTRA_RETRIES'' \<or> k = ''ACA_INTEGRATION_REJECTION_EXTRA_RETRIES'' then Some ''1'' else Some ''0'')"

definition demo_settings :: run_settings where
  "demo_settings = \<lparr>rs_env = thrifty_env, rs_max_retries = 0, rs_lease_ttl = 300, rs_artifacts = ''artifacts''\<rparr>"

definition demo_result :: obj where
  "demo_result = [(''status'', JStr ''failed''), (''subtask_id'', JStr ''s1''), (''worker_id'', JStr ''w1''),
     (''blocker_kind'', JStr ''worker_off_track''), (''failure_reason'', JStr ''WORKER_OFF_TRACK_TESTLESS_DIFF''),
     (''partial_diff_artifact'', JStr ''p3.patch''), (''changed_files'', JList [JStr ''src/a.py''])]"

definition demo_artifacts :: "obj list" where
  "demo_artifacts =
     [[(''subtask_id'', JStr ''s1''), (''patch_path'', JStr ''p1.patch''), (''failure_reason'', JStr ''WORKER_TEST_ONLY_DIFF''),
       (''changed_files'', JList [JStr ''src/test_a.py''])],
      [(''subtask_id'', JStr ''s1''), (''patch_path'', JStr ''p2.patch''),
       (''failure_reason'', JStr ''WORKER_VERIFIABLE_DIFF_TEST_FAILED''),
       (''changed_files'', JList [JStr ''src/a.py'', JStr ''src/test_a.py''])]]"

definition accepted_decision :: policy_decision where
  "accepted_decision = \<lparr>vp_outcome = ''pass'', vp_failure_category = None, vp_review_blocker = None, vp_test_blocker = None,
     vp_repo_blocker = None, vp_validation_blocker = None, vp_should_retry = False, vp_review_returncode = Some 0,
     vp_test_returncode = Some 0, vp_review_outcome = ''pass'', vp_test_outcome = ''pass''\<rparr>"

definition demo_phases :: "(run_context \<Rightarrow> run_context) \<Rightarrow> run_phases" where
  "demo_phases work = \<lparr>ph_manager = (\<lambda>x. ([(''returncode'', JInt 0)], x)),
     ph_prescreen = (\<lambda>x. (False, x\<lparr>rx_planned := [[(''id'', JStr ''s1'')]], rx_pending := [[(''id'', JStr ''s1'')]]\<rparr>)),
     ph_candidates = (\<lambda>x. (False, x)), ph_dispatch = work, ph_integration = (\<lambda>x. ([(''returncode'', JInt 0)], x)),
     ph_diff = (\<lambda>x. '' src/a.py | 2 +-''), ph_review = (\<lambda>x. (accepted_decision, x)),
     ph_git = (\<lambda>x. \<lparr>ga_status = (0, []), ga_diff = (0, []), ga_reset = 0, ga_clean = 0\<rparr>)\<rparr>"

definition failing_work :: "run_context \<Rightarrow> run_context" where
  "failing_work x = x\<lparr>rx_results := [demo_result],
     rx_blackboard := dset ''repair'' (JObj [(''partial_diff_artifacts'', dicts_json demo_artifacts)]) (rx_blackboard x),
     rx_status := dset ''metrics'' (JObj [(''failed_workers'', JInt 1)]) (rx_status x)\<rparr>"

definition demo_start :: run_context where
  "demo_start = \<lparr>rx_run_id = ''r1'', rx_now = 5, rx_task = [], rx_repo = [], rx_engine = [], rx_board = [], rx_status = [],
     rx_blackboard = [], rx_results = [], rx_planned = [], rx_pending = [], rx_expected = [], rx_validation = [(''ok'', JBool True)],
     rx_review = [], rx_test = [], rx_diff = [], rx_misses = 0, rx_lost = False, rx_feedback = None, rx_fallback = False,
     rx_store = empty_db, rx_events = [], rx_summary = [], rx_patches = []\<rparr>"

lemma demo_budgets:
  "roomy demo_settings" "max_loops demo_settings = 2" "base_max_loops demo_settings = 1"
proof -
  have v: "verification_repair_extra_retries thrifty_env = 1" by code_simp
  have c: "worker_complementary_partial_diff_loop_extra_retries thrifty_env = 0" by code_simp
  have i: "env_budget thrifty_env ''ACA_INTEGRATION_REJECTION_EXTRA_RETRIES'' 1 = 1" by code_simp
  have r: "worker_repair_loop_extra_retries thrifty_env = 0" by code_simp
  show "roomy demo_settings" "max_loops demo_settings = 2" "base_max_loops demo_settings = 1"
    by (simp_all add: roomy_def demo_settings_def max_loops_def base_max_loops_def v c i r)
qed

definition demo_merged :: "obj list" where
  "demo_merged = merge_partial_diff_artifacts_for_retry (dicts_json demo_artifacts) (partial_diff_artifacts_for_retry [demo_result])"

lemma demo_cycle:
  "one_sided_repair_cycle_should_block demo_merged (worker_failure_blocker [demo_result])"
  "failed_verifiable_followup_one_sided_can_retry thrifty_env demo_merged (worker_failure_blocker [demo_result])"
  "kind_of (worker_failure_blocker [demo_result]) = ''worker_off_track''"
  by code_simp+

lemma failing_case:
  "rx_results (failing_work x) = [demo_result]" "rx_lost (failing_work x) = rx_lost x"
  "repair_field ''partial_diff_artifacts'' (failing_work x) = dicts_json demo_artifacts" "workers_failed (failing_work x)"
  by (simp_all add: failing_work_def repair_field_def workers_failed_def section_of_def)

lemma demo_retry_granted: "retry_granted (retry_choice_of demo_settings attempt (failing_work x))"
proof -
  obtain fb where fb: "worker_failure_retry_feedback (repair_partial_diff_artifacts (rx_status (failing_work x)) (rx_blackboard (failing_work x)))
      [demo_result] (worker_failure_blocker [demo_result]) attempt = Some fb"
    by (simp add: worker_failure_retry_feedback_def demo_cycle(3) RETRYABLE_WORKER_BLOCKER_KINDS_def Let_def)
  show ?thesis
    unfolding retry_choice_of_def Let_def retry_case_of_def retry_case.select_convs failing_case demo_merged_def [symmetric] fb
    by (simp add: choose_retry_def ordinary_choice_def one_sided_rules_def destructive_rule_def engine_rules_def
        retry_granted_def demo_cycle demo_settings_def Let_def)
qed

lemma change_repair_frame:
  "rx_lost (change_repair f x) = rx_lost x" "run_blocked (change_repair f x) = run_blocked x"
  "rx_lost (put_repair k v x) = rx_lost x" "run_blocked (put_repair k v x) = run_blocked x"
  by (simp_all add: change_repair_def put_repair_def run_blocked_def in_repair_def section_of_def)

lemma other_frames:
  "rx_lost (emit k p x) = rx_lost x" "run_blocked (emit k p x) = run_blocked x"
  "rx_lost (append_blackboard_note s x) = rx_lost x" "run_blocked (append_blackboard_note s x) = run_blocked x"
  "rx_lost (x\<lparr>rx_feedback := fb\<rparr>) = rx_lost x" "run_blocked (x\<lparr>rx_feedback := fb\<rparr>) = run_blocked x"
  by (simp_all add: emit_def append_blackboard_note_def run_blocked_def)

lemma retry_frames:
  "rx_lost (defer_to_repair_loop k c x) = rx_lost x" "run_blocked (defer_to_repair_loop k c x) = run_blocked x"
  "rx_lost (mark_choice c x) = rx_lost x" "run_blocked (mark_choice c x) = run_blocked x"
  by (simp_all add: defer_to_repair_loop_def keep_for_retry_def mark_choice_def if_some_def Let_def change_repair_frame other_frames)

lemma set_status_frame:
  "rx_lost (set_run_status c x) = rx_lost x"
  "sg_run_status c = None \<Longrightarrow> run_blocked (set_run_status c x) = run_blocked x"
  by (simp_all add: set_run_status_def run_blocked_def section_of_def updated_run_def)

lemma begin_goes_on:
  assumes "\<not> rx_lost x"
  shows "\<exists>x'. begin_attempt cfg ops attempt x = (GoOn, x') \<and> \<not> rx_lost x' \<and> run_blocked x' = run_blocked x"
  using assms by (simp add: begin_attempt_def Let_def change_repair_frame other_frames set_status_frame no_status_changes_def)

lemma demo_pass:
  assumes "\<not> rx_lost x" and "\<not> run_blocked x"
  shows "\<exists>y. run_pass di demo_settings (demo_phases failing_work) attempt x = (Retry, y) \<and> \<not> rx_lost y \<and> \<not> run_blocked y"
proof -
  let ?ops = "demo_phases failing_work"
  obtain x1 where 1: "begin_attempt demo_settings ?ops attempt x = (GoOn, x1)" "\<not> rx_lost x1" "\<not> run_blocked x1"
    using begin_goes_on [OF assms(1)] assms(2) by blast
  obtain x2 where 2: "plan_attempt demo_settings ?ops x1 = (GoOn, x2)" "\<not> rx_lost x2" "\<not> run_blocked x2"
    using 1(2,3) by (simp add: plan_attempt_def demo_phases_def return_code_def run_blocked_def Let_def)
  define w where "w = failing_work (set_metrics (\<lambda>m. dsetdefault ''tolerated_workers'' (JInt 0) (dsetdefault ''skipped_workers'' (JInt 0)
            (dset ''planned_workers'' (JInt (int (length (rx_planned x2)))) m))) x2)"
  have w: "dispatch_attempt demo_settings ?ops x2 = (GoOn, w)" "\<not> rx_lost w" "\<not> run_blocked w"
    using 2(2,3) by (simp_all add: dispatch_attempt_def demo_phases_def w_def failing_work_def set_metrics_def run_blocked_def section_of_def Let_def)
  have "workers_failed w" "retry_granted (retry_choice_of demo_settings attempt w)"
    unfolding w_def by (rule failing_case demo_retry_granted)+
  then obtain y where y: "check_workers demo_settings attempt w = (Retry, y)" "\<not> rx_lost y" "\<not> run_blocked y"
    using w(2,3) by (simp add: check_workers_def Let_def retry_frames)
  then show ?thesis using 1(1) 2(1) w(1) by (simp add: run_pass_def then_step_def)
qed

lemma demo_runs_out:
  "fst (repair_loop di demo_settings (demo_phases failing_work) demo_start)
     = DecisionBlocked ''Run exceeded maximum retry loop count without completing.'' ''max_retries'' ''handoff''"
proof -
  let ?x = "start_repair demo_settings demo_start"
  have x: "\<not> rx_lost ?x" "\<not> run_blocked ?x"
    by (simp_all add: start_repair_def demo_start_def run_blocked_def section_of_def)
  obtain y where y: "run_pass di demo_settings (demo_phases failing_work) 0 ?x = (Retry, y)" "\<not> rx_lost y" "\<not> run_blocked y"
    using demo_pass [OF x] by blast
  obtain z where z: "run_pass di demo_settings (demo_phases failing_work) 1 y = (Retry, z)"
    using demo_pass [OF y(2,3)] by blast
  have "nat (max_loops demo_settings) = Suc (Suc 0)" by (simp add: demo_budgets)
  then show ?thesis using y(1) z by (simp add: repair_loop_def)
qed


definition calm :: "run_context \<Rightarrow> bool" where
  "calm x = (\<not> rx_lost x \<and> \<not> run_blocked x \<and> \<not> workers_failed x \<and> rx_validation x = [(''ok'', JBool True)])"

lemma calm_steps:
  assumes "calm x"
  shows "\<exists>y. begin_attempt demo_settings ops 0 x = (GoOn, y) \<and> calm y"
    and "\<exists>y. plan_attempt demo_settings (demo_phases work) x = (GoOn, y) \<and> calm y"
    and "\<exists>y. dispatch_attempt demo_settings (demo_phases id) x = (GoOn, y) \<and> calm y"
    and "check_workers demo_settings 0 x = (GoOn, x)"
    and "check_repository di demo_settings 0 x = (GoOn, x)"
    and "\<exists>y. check_integration demo_settings (demo_phases work) 0 x = (GoOn, y) \<and> calm y"
    and "\<exists>y. check_diff demo_settings (demo_phases work) 0 x = (GoOn, y)"
proof -
  have facts: "repo_validation_blocker_message [(''ok'', JBool True)] = Inr None"
    "integration_blocker_message [(''returncode'', JInt 0)] = None" "strip '' src/a.py | 2 +-'' \<noteq> []"
    by code_simp+
  show "\<exists>y. begin_attempt demo_settings ops 0 x = (GoOn, y) \<and> calm y"
    using assms by (simp add: begin_attempt_def calm_def change_repair_frame)
      (simp add: put_repair_def change_repair_def workers_failed_def in_repair_def section_of_def)
  show "\<exists>y. plan_attempt demo_settings (demo_phases work) x = (GoOn, y) \<and> calm y"
    using assms by (simp add: plan_attempt_def demo_phases_def return_code_def run_blocked_def calm_def workers_failed_def Let_def)
  show "\<exists>y. dispatch_attempt demo_settings (demo_phases id) x = (GoOn, y) \<and> calm y"
    using assms by (simp add: dispatch_attempt_def demo_phases_def calm_def set_metrics_def run_blocked_def workers_failed_def
        section_of_def dsetdefault_def Let_def)
  show "check_workers demo_settings 0 x = (GoOn, x)" using assms by (simp add: check_workers_def calm_def)
  show "check_repository di demo_settings 0 x = (GoOn, x)" using assms by (simp add: check_repository_def calm_def facts)
  show "\<exists>y. check_integration demo_settings (demo_phases work) 0 x = (GoOn, y) \<and> calm y"
    using assms by (simp add: check_integration_def demo_phases_def facts return_code_def calm_def integrating_def set_status_frame
        no_status_changes_def Let_def other_frames)
      (simp add: emit_def set_run_status_def workers_failed_def section_of_def update_status_def)
  show "\<exists>y. check_diff demo_settings (demo_phases work) 0 x = (GoOn, y)" by (simp add: check_diff_def demo_phases_def facts Let_def)
qed

lemma demo_review: "check_verification demo_settings (demo_phases work) 0 x = (Ended Finalized, x)"
  by (simp add: check_verification_def demo_phases_def accepted_decision_def)

lemma demo_finalizes:
  "\<exists>y. repair_loop di demo_settings (demo_phases id) demo_start = (Finalized, y)"
proof -
  have "calm (start_repair demo_settings demo_start)"
    by (simp add: calm_def start_repair_def demo_start_def run_blocked_def workers_failed_def section_of_def)
  then obtain a b c d e where
    "begin_attempt demo_settings (demo_phases id) 0 (start_repair demo_settings demo_start) = (GoOn, a)"
    "plan_attempt demo_settings (demo_phases id) a = (GoOn, b)" "dispatch_attempt demo_settings (demo_phases id) b = (GoOn, c)" "calm c"
    "check_integration demo_settings (demo_phases id) 0 c = (GoOn, d)" "check_diff demo_settings (demo_phases id) 0 d = (GoOn, e)"
    by (metis calm_steps(1,2,3,6,7))
  then have "\<exists>y. run_pass di demo_settings (demo_phases id) 0 (start_repair demo_settings demo_start) = (Ended Finalized, y)"
    using calm_steps(4,5) by (simp add: run_pass_def then_step_def demo_review)
  moreover have "nat (max_loops demo_settings) = Suc (Suc 0)" by (simp add: demo_budgets)
  ultimately show ?thesis by (auto simp: repair_loop_def)
qed

theorem finalized_run_is_verified_witness:
  "\<exists>y v e. repair_loop dumps_spaced demo_settings (demo_phases id) demo_start = (Finalized, y)
    \<and> ph_review (demo_phases id) e = (v, y) \<and> vp_outcome v = ''pass''"
proof -
  obtain y where "repair_loop dumps_spaced demo_settings (demo_phases id) demo_start = (Finalized, y)"
    using demo_finalizes by blast
  then show ?thesis using finalized_run_is_verified by blast
qed

end
