(* ===== verification/RunSync.thy ===== *)
theory RunSync imports RunContext TrackerStatus OutboxDispatcher CoderRuns begin

text \<open>
  What a run tells the trackers (src/tandem_agents/core/execution/runner_core.py): the claim at its start
  and the outcome at its end, through the outbox when the caller passes the coordination store, directly
  otherwise. What the engine's connectors answer during one call is the record \<open>sync_answers\<close>. The cached
  snapshots of project boards, dropped after a status update, are outside the model.
\<close>

section \<open>The connector's state in the status document\<close>

definition mcp_fresh :: "bool \<Rightarrow> string \<Rightarrow> string \<Rightarrow> obj" where
  "mcp_fresh linear scope remote_sync = (if linear then [(''server'', JStr [])] else [])
     @ [(''scope'', JStr scope), (''remote_sync'', JStr remote_sync), (''connected'', JNull),
        (''last_action'', JStr ''initialized''), (''warnings'', JList [])]"

definition mcp_key :: "bool \<Rightarrow> string" where
  "mcp_key linear = (if linear then ''linear_mcp'' else ''github_mcp'')"

definition init_mcp_status :: "bool \<Rightarrow> string \<Rightarrow> string \<Rightarrow> run_context \<Rightarrow> run_context" where
  "init_mcp_status linear scope remote_sync x =
     x\<lparr>rx_status := dset (mcp_key linear) (JObj (mcp_fresh linear scope remote_sync)) (rx_status x)\<rparr>"

definition update_mcp_status :: "bool \<Rightarrow> bool option \<Rightarrow> string \<Rightarrow> string \<Rightarrow> string \<Rightarrow> run_context \<Rightarrow> run_context" where
  "update_mcp_status linear connected last_action warning server x =
     (let d0 = (if dhas (rx_status x) (mcp_key linear) then section_of (rx_status x) (mcp_key linear)
                else mcp_fresh linear ''none'' ''off'');
          d1 = (if linear \<and> server \<noteq> [] then dset ''server'' (JStr server) d0 else d0);
          d2 = dset ''last_action'' (JStr last_action)
            (dset ''connected'' (case connected of Some b \<Rightarrow> JBool b | None \<Rightarrow> JNull) d1);
          d3 = (if warning \<noteq> [] then append_to ''warnings'' (JStr warning) d2 else d2)
      in x\<lparr>rx_status := dset (mcp_key linear) (JObj d3) (rx_status x)\<rparr>)"

definition tracker_name :: "bool \<Rightarrow> string" where
  "tracker_name linear = (if linear then ''Linear'' else ''GitHub'')"

definition record_warning :: "bool \<Rightarrow> string \<Rightarrow> run_context \<Rightarrow> run_context" where
  "record_warning linear message x =
     append_blackboard_note (tracker_name linear @ '' MCP warning: '' @ message)
       (update_mcp_status linear None ''warning'' message []
         (emit (mcp_key linear @ ''.warning'') [(''message'', JStr message)] x))"

section \<open>Connecting and disconnecting\<close>

record sync_answers =
  sa_connectors :: connectors
  sa_clock :: "nat \<Rightarrow> int"
  sa_server :: string
  sa_connect_error :: "string option"
  sa_connected :: bool
  sa_disconnect_error :: "string option"
  sa_update_warning :: string
  sa_comment_warning :: string

text \<open>\<open>_connect_*_for_phase\<close> with \<open>required=False\<close>: a failed connection is a warning.\<close>

definition connect_for_phase :: "bool \<Rightarrow> sync_answers \<Rightarrow> string \<Rightarrow> run_context \<Rightarrow> bool \<times> run_context" where
  "connect_for_phase linear sa event_type x =
     (case sa_connect_error sa of
        Some e \<Rightarrow> (False, record_warning linear e x)
      | None \<Rightarrow> (True, append_blackboard_note (tracker_name linear @ '' MCP connected for phase '' @ ticked event_type @ ''.'')
          (update_mcp_status linear (Some True) event_type [] (if linear then sa_server sa else [])
            (emit event_type ([(''connected'', JBool True)] @ (if linear then [(''server'', JStr (sa_server sa))] else [])) x))))"

definition disconnect_github_for_coding :: "sync_answers \<Rightarrow> string \<Rightarrow> run_context \<Rightarrow> run_context" where
  "disconnect_github_for_coding sa event_type x =
     (if \<not> sa_connected sa then x
      else case sa_disconnect_error sa of
        Some e \<Rightarrow> record_warning False e x
      | None \<Rightarrow> append_blackboard_note (''GitHub MCP disconnected for phase '' @ ticked event_type @ ''.'')
          (update_mcp_status False (Some False) event_type [] [] (emit event_type [(''connected'', JBool False)] x)))"

section \<open>Messages and what became of them\<close>

record sync_words =
  sw_linear :: bool
  sw_status_kind :: string
  sw_comment_kind :: string
  sw_status_event :: string
  sw_comment_event :: string
  sw_status_note :: string
  sw_comment_note :: string

definition github_words :: sync_words where
  "github_words = \<lparr>sw_linear = False, sw_status_kind = ''github_project.status_update'', sw_comment_kind = ''github_issue.comment'',
     sw_status_event = ''github_project.status_updated'', sw_comment_event = ''github_project.comment_added'',
     sw_status_note = ''GitHub Project status updated to '', sw_comment_note = ''GitHub issue summary comment added.''\<rparr>"

definition linear_words :: sync_words where
  "linear_words = \<lparr>sw_linear = True, sw_status_kind = ''linear_issue.status_update'', sw_comment_kind = ''linear_issue.comment'',
     sw_status_event = ''linear_issue.status_updated'', sw_comment_event = ''linear_issue.comment_added'',
     sw_status_note = ''Linear issue status updated to '', sw_comment_note = ''Linear issue summary comment added.''\<rparr>"

definition note_status :: "sync_words \<Rightarrow> json \<Rightarrow> run_context \<Rightarrow> run_context" where
  "note_status w status_name x =
     append_blackboard_note (sw_status_note w @ ticked (py_str status_name) @ ''.'') (emit (sw_status_event w) [(''status'', status_name)] x)"

text \<open>One item of the dispatcher's answer: whether it failed for good, and what it leaves in the run.\<close>

definition take_item :: "sync_words \<Rightarrow> bool \<Rightarrow> string \<Rightarrow> string \<Rightarrow> dispatch_result \<Rightarrow> bool \<times> run_context \<Rightarrow> bool \<times> run_context" where
  "take_item w status_only target outcome r s =
     (let (terminal, x) = s in
      if str_or_empty (dget (dr_payload r) ''run_id'') \<noteq> rx_run_id x then s
      else if status_only \<and> dr_kind r \<noteq> sw_status_kind w then s
      else if lower (strip (dr_status r)) \<noteq> ''dispatched'' then (terminal \<or> dr_terminal r, x)
      else if strip (dr_kind r) = sw_status_kind w then
        (terminal, note_status w (py_or (dget (dr_payload r) ''target_status'') (JStr target)) x)
      else if strip (dr_kind r) = sw_comment_kind w then
        (terminal, append_blackboard_note (sw_comment_note w) (emit (sw_comment_event w) [(''outcome'', JStr outcome)] x))
      else s)"

definition enqueue_messages :: "outbox_message list \<Rightarrow> run_context \<Rightarrow> run_context" where
  "enqueue_messages ms x = x\<lparr>rx_store := enqueue_all (rx_now x) ms (rx_store x)\<rparr>"

definition dispatch_outbox_now :: "sync_answers \<Rightarrow> run_context \<Rightarrow> dispatch_result list \<times> run_context" where
  "dispatch_outbox_now sa x = (let (s, d) = dispatch_outbox_tick (sa_connectors sa) (sa_clock sa) 25 (rx_store x) in
     (ts_items s, x\<lparr>rx_store := d\<rparr>))"

definition send_messages ::
  "sync_words \<Rightarrow> sync_answers \<Rightarrow> bool \<Rightarrow> string \<Rightarrow> string \<Rightarrow> outbox_message list \<Rightarrow> run_context \<Rightarrow> bool \<times> run_context" where
  "send_messages w sa status_only target outcome ms x =
     (let (items, x1) = dispatch_outbox_now sa (enqueue_messages ms x) in fold (take_item w status_only target outcome) items (False, x1))"

section \<open>The claim\<close>

definition task_source_of :: "obj \<Rightarrow> obj" where
  "task_source_of task = section_of task ''source''"

definition claim_message :: "sync_words \<Rightarrow> string \<Rightarrow> obj \<Rightarrow> obj \<Rightarrow> outbox_message" where
  "claim_message w run_id task special = finalize_message run_id (sw_status_kind w)
     (if sw_linear w then '':linear:claim'' else '':github:claim'') task
     ([(''run_id'', JStr run_id)] @ special @ [(''task'', JObj task)])"

definition sync_claim :: "sync_words \<Rightarrow> sync_answers \<Rightarrow> string \<Rightarrow> obj \<Rightarrow> run_context \<Rightarrow> run_context" where
  "sync_claim w sa target special x =
     (let (terminal, x1) = send_messages w sa True target [] [claim_message w (rx_run_id x) (rx_task x) special] x in
      if terminal then record_warning (sw_linear w)
        (if sw_linear w then ''Linear claim status could not be dispatched from the outbox.''
         else ''GitHub Project claim status could not be dispatched from the outbox.'') x1
      else x1)"

text \<open>Without the store: one direct call of the connector.\<close>

definition claim_directly :: "sync_words \<Rightarrow> sync_answers \<Rightarrow> string \<Rightarrow> run_context \<Rightarrow> run_context" where
  "claim_directly w sa target x =
     (if sa_update_warning sa \<noteq> [] then record_warning (sw_linear w) (sa_update_warning sa) x else note_status w (JStr target) x)"

definition sync_github_claim_status :: "sync_answers \<Rightarrow> string \<Rightarrow> bool \<Rightarrow> run_context \<Rightarrow> run_context" where
  "sync_github_claim_status sa remote_sync stored x =
     (let target = github_project_status_name_for_task_state ''active'' in
      if remote_sync = ''off'' then x
      else if stored then sync_claim github_words sa target [(''target_status'', JStr target)] x
      else claim_directly github_words sa target x)"

definition sync_linear_claim_status :: "tracker_config \<Rightarrow> string \<Rightarrow> sync_answers \<Rightarrow> string \<Rightarrow> bool \<Rightarrow> run_context \<Rightarrow> run_context" where
  "sync_linear_claim_status tk claim_label sa remote_sync stored x =
     (let target = linear_status_name_for_task_state tk ''active'';
          labels = (if strip claim_label \<noteq> [] then [JStr claim_label] else [])
      in if remote_sync = ''off'' then x
         else if stored then sync_claim linear_words sa target [(''target_status'', JStr target), (''labels'', JList labels)] x
         else claim_directly linear_words sa target x)"

section \<open>The outcome\<close>

text \<open>What a caller says of the outcome; \<open>fo_stored\<close> is whether it passes the coordination store.\<close>

record final_outcome =
  fo_outcome :: string
  fo_summary :: string
  fo_diff :: "string option"
  fo_review :: "int option"
  fo_test :: "int option"
  fo_stored :: bool

definition comment_fields :: "final_outcome \<Rightarrow> string \<Rightarrow> obj" where
  "comment_fields o1 body = [(''diff_snapshot'', opt_str (fo_diff o1)), (''review_returncode'', opt_int (fo_review o1)),
     (''test_returncode'', opt_int (fo_test o1)), (''body'', JStr body)]"

definition outcome_comment :: "bool \<Rightarrow> final_outcome \<Rightarrow> string \<Rightarrow> obj \<Rightarrow> string" where
  "outcome_comment linear o1 run_id task =
     (let title = py_str (py_or (dget task ''title'') (JStr (tracker_name linear @ '' task''))) in
      (if linear then build_linear_comment_body else build_issue_comment_body) run_id title (fo_outcome o1) (fo_summary o1)
        (fo_diff o1) (fo_review o1) (fo_test o1))"

definition outcome_messages :: "sync_words \<Rightarrow> final_outcome \<Rightarrow> string \<Rightarrow> obj \<Rightarrow> obj \<Rightarrow> bool \<Rightarrow> outbox_message list" where
  "outcome_messages w o1 run_id task status_fields0 with_comment =
     (let key = (if sw_linear w then '':linear:'' else '':github:'') in
      finalize_message run_id (sw_status_kind w) (key @ ''finalize-status'') task
        (run_payload run_id (fo_outcome o1) (fo_summary o1) status_fields0 task)
      # (if with_comment then [finalize_message run_id (sw_comment_kind w) (key @ ''finalize-comment'') task
           (run_payload run_id (fo_outcome o1) (fo_summary o1) (comment_fields o1 (outcome_comment (sw_linear w) o1 run_id task)) task)] else []))"

definition finish_sync :: "sync_words \<Rightarrow> bool \<times> run_context \<Rightarrow> run_context" where
  "finish_sync w s =
     (let (terminal, x) = s in
      append_blackboard_note (tracker_name (sw_linear w) @ '' sync enqueued through the coordination outbox.'')
        (if terminal then record_warning (sw_linear w)
           (tracker_name (sw_linear w) @ '' finalize sync could not be fully dispatched from the outbox.'') x else x))"

record sync_config =
  sy_tracker :: tracker_config
  sy_source_type :: string
  sy_done_label :: string

definition sync_source_type :: "sync_config \<Rightarrow> obj \<Rightarrow> string" where
  "sync_source_type sy task = first_nonempty [str_or_empty (dget (task_source_of task) ''type''), sy_source_type sy]"

definition finalize_scopes :: "string list" where
  "finalize_scopes = [''intake_finalize'', ''always'']"

definition outcome_labels :: "sync_config \<Rightarrow> string \<Rightarrow> json list" where
  "outcome_labels sy outcome =
     (if outcome = ''completed'' then (if strip (sy_done_label sy) \<noteq> [] then [JStr (sy_done_label sy)] else [])
      else if strip (tk_blocked_label (sy_tracker sy)) \<noteq> [] then [JStr (tk_blocked_label (sy_tracker sy))] else [])"

text \<open>\<open>_finalize_linear_sync\<close>; Linear stays connected, so nothing follows a disconnect.\<close>

definition finalize_linear_sync :: "sync_config \<Rightarrow> sync_answers \<Rightarrow> final_outcome \<Rightarrow> run_context \<Rightarrow> bool \<times> run_context" where
  "finalize_linear_sync sy sa o1 x =
     (let tk = sy_tracker sy; source_type = sync_source_type sy (rx_task x); sync = linear_remote_sync_mode tk source_type;
          target = linear_status_name_for_outcome tk (fo_outcome o1); commented = List.member [''status_comment'', ''rich''] sync
      in if sync = ''off'' \<or> \<not> List.member finalize_scopes (linear_mcp_scope tk source_type) then (False, x)
         else if fo_stored o1 then
           (let s = send_messages linear_words sa False target (fo_outcome o1)
              (outcome_messages linear_words o1 (rx_run_id x) (rx_task x)
                [(''target_status'', JStr target), (''labels'', JList (outcome_labels sy (fo_outcome o1)))] commented) x
            in (fst s, finish_sync linear_words s))
         else case connect_for_phase True sa ''linear_mcp.connected_for_finalize'' x of
           (False, x1) \<Rightarrow> (False, x1)
         | (True, x1) \<Rightarrow>
             if sa_update_warning sa \<noteq> [] then (False, record_warning True (sa_update_warning sa) x1)
             else (False, note_status linear_words (JStr target)
               (if commented \<and> sa_comment_warning sa \<noteq> [] then record_warning True (sa_comment_warning sa) x1 else x1)))"

definition finalize_github_sync :: "sync_config \<Rightarrow> sync_answers \<Rightarrow> final_outcome \<Rightarrow> run_context \<Rightarrow> bool \<times> run_context" where
  "finalize_github_sync sy sa o1 x =
     (let tk = sy_tracker sy; source_type = sync_source_type sy (rx_task x); sync = github_remote_sync_mode tk source_type;
          scope = github_mcp_scope tk source_type; target = github_project_status_name_for_outcome (fo_outcome o1);
          leave = (\<lambda>y. if scope = ''always'' then y else disconnect_github_for_coding sa ''github_mcp.disconnected_after_finalize'' y)
      in if source_type = ''linear'' then finalize_linear_sync sy sa o1 x
         else if sync = ''off'' \<or> \<not> List.member finalize_scopes scope then (False, x)
         else if fo_stored o1 then
           (let s = send_messages github_words sa False target (fo_outcome o1)
              (outcome_messages github_words o1 (rx_run_id x) (rx_task x) [(''target_status'', JStr target)] (sync = ''status_comment'')) x
            in (fst s, leave (finish_sync github_words s)))
         else case connect_for_phase False sa ''github_mcp.connected_for_finalize'' x of
           (False, x1) \<Rightarrow> (False, x1) | (True, x1) \<Rightarrow> (False, leave x1))"

end
