(* ===== verification/RunEndings.thy ===== *)
theory RunEndings imports RunOutcomes RunSync KanbanBoard begin

text \<open>
  How a run ends (src/tandem_agents/core/execution/runner_core.py with run_lifecycle.py and
  phases/finalize.py): the document, the run's row, the card, the summary and the trackers' messages of
  every way out of the repair loop, the document of a run that raised, and the release of its lease.
  What git, the configuration and the trackers answer is the record \<open>end_answers\<close>. The copies of the
  documents that are written for the reader are outside the model.
\<close>

section \<open>What an ending reads\<close>

record end_answers =
  fa_sync :: sync_config
  fa_trackers :: sync_answers
  fa_pr_trackers :: sync_answers
  fa_server :: string
  fa_auth :: "json option"
  fa_branch :: string
  fa_current_branch :: string
  fa_commit :: "obj option"
  fa_diff_stat :: string
  fa_push :: "int \<times> string \<times> string"
  fa_pr_body :: string
  fa_provider :: "string \<times> string"
  fa_default_branch :: string
  fa_repo_slug :: json
  fa_files :: "string list"

text \<open>An ending may raise; the context is what it has changed by then.\<close>

type_synonym ending_step = "run_context \<Rightarrow> py_error option \<times> run_context"

definition with_summary :: "string res \<Rightarrow> ending_step \<Rightarrow> ending_step" where
  "with_summary summary rest x = (case summary of Inl e \<Rightarrow> (Some e, x) | Inr t \<Rightarrow> rest (x\<lparr>rx_summary := run_text t\<rparr>))"

definition task_title :: "run_context \<Rightarrow> json res" where
  "task_title x = (if dhas (rx_task x) ''title'' then Inr (dget (rx_task x) ''title'') else Inl (KeyError ''title''))"

definition blocked_text :: "string \<Rightarrow> obj list \<Rightarrow> run_context \<Rightarrow> string res" where
  "blocked_text message worker_results x = bind_res (task_title x) (\<lambda>t. build_blocked_summary t message worker_results)"

text \<open>A card that cannot be moved is left behind: its lane is already changed when its history is no list.\<close>

definition moved_card :: "int \<Rightarrow> string \<Rightarrow> string \<Rightarrow> string \<Rightarrow> obj \<Rightarrow> obj" where
  "moved_card now lane actor note_text item =
     (let item' = dset ''updated_at_ms'' (JInt now) (dset ''lane'' (JStr lane) item)
      in case append_history (history_entry lane now actor note_text) item' of Inr i \<Rightarrow> i | Inl _ \<Rightarrow> item')"

definition move_task_card_if_present :: "string \<Rightarrow> string \<Rightarrow> string \<Rightarrow> run_context \<Rightarrow> run_context" where
  "move_task_card_if_present lane actor note_text x =
     (let task_id = nonempty (dget (rx_task x) ''task_id'') in
      if task_id = [] then x
      else case change_card (rx_board x) task_id (\<lambda>item. Inr (moved_card (rx_now x) lane actor note_text item)) of
        Inr (_, b) \<Rightarrow> x\<lparr>rx_board := b\<rparr> | Inl _ \<Rightarrow> x)"

definition worker_result_metrics :: "obj list \<Rightarrow> obj" where
  "worker_result_metrics worker_results =
     map (\<lambda>(k, s). (k, JInt (int (length (filter (\<lambda>r. normalized_text (dget r ''status'') = s) worker_results)))))
       [(''completed_workers'', ''completed''), (''failed_workers'', ''failed''), (''skipped_workers'', ''skipped_existing''),
        (''tolerated_workers'', ''tolerated_failure'')]"

section \<open>Blocked runs\<close>

definition block_run :: "string \<Rightarrow> string \<Rightarrow> string \<Rightarrow> string \<Rightarrow> obj list \<Rightarrow> obj \<Rightarrow> ending_step" where
  "block_run phase kind message phase_detail worker_results event_payload x =
     (let detail = or_text phase_detail message;
          title = (if rx_task x = [] then JStr (''Blocked at phase: '' @ phase) else dget (rx_task x) ''title'')
      in with_summary (build_blocked_summary title message worker_results)
           (\<lambda>y. (None, change_run_row \<lparr>ru_status = Some ''blocked'', ru_phase = Some phase, ru_error = Some message, ru_completed = True\<rparr>
              (emit ''run.blocked'' (dupdate [(''kind'', JStr kind), (''phase'', JStr phase), (''detail'', JStr detail)] event_payload) y)))
           (set_run_status ((blocked_changes phase detail kind message ''manager'')\<lparr>sg_run_completed := True\<rparr>) x))"

definition touch_blocked :: "run_settings \<Rightarrow> string \<Rightarrow> string \<Rightarrow> bool \<Rightarrow> run_context \<Rightarrow> run_context" where
  "touch_blocked cfg phase message completed x =
     snd (touch_run cfg False \<lparr>ru_status = Some ''blocked'', ru_phase = Some phase, ru_error = Some message, ru_completed = completed\<rparr> x)"

definition blocked_outcome :: "string \<Rightarrow> final_outcome" where
  "blocked_outcome summary = \<lparr>fo_outcome = ''blocked'', fo_summary = summary, fo_diff = None, fo_review = None, fo_test = None, fo_stored = True\<rparr>"

definition sync_outcome :: "end_answers \<Rightarrow> final_outcome \<Rightarrow> run_context \<Rightarrow> bool \<times> run_context" where
  "sync_outcome fa o1 x = finalize_github_sync (fa_sync fa) (fa_trackers fa) o1 x"

text \<open>What the blocked endings end with: the summary, the trackers, the event.\<close>

definition close_blocked :: "end_answers \<Rightarrow> string \<Rightarrow> obj list \<Rightarrow> final_outcome \<Rightarrow> obj \<Rightarrow> ending_step" where
  "close_blocked fa message worker_results o1 event_payload x =
     with_summary (blocked_text message worker_results x)
       (\<lambda>y. (None, emit ''run.blocked'' event_payload (snd (sync_outcome fa o1 y)))) x"

definition no_targets_message :: string where
  "no_targets_message = ''Manager planning produced no subtasks and ACA could not infer a credible repo target set.''"

definition block_no_targets :: "run_settings \<Rightarrow> end_answers \<Rightarrow> ending_step" where
  "block_no_targets cfg fa x =
     close_blocked fa no_targets_message [] (blocked_outcome no_targets_message) [(''kind'', JStr ''no_targets'')]
       (move_task_card_if_present ''blocked'' ''manager'' ''no repository target set''
         (touch_blocked cfg ''planning'' no_targets_message True
           (set_run_status ((blocked_changes ''planning'' ''no credible repository target set could be inferred'' ''manager''
               no_targets_message ''manager'')\<lparr>sg_run_completed := True,
               sg_metrics := Some [(''planned_workers'', JInt (int (length (rx_planned x)))), (''completed_workers'', JInt 0),
                 (''failed_workers'', JInt 0), (''skipped_workers'', JInt 0), (''tolerated_workers'', JInt 0)]\<rparr>) x)))"

definition block_manager_failed :: "run_settings \<Rightarrow> end_answers \<Rightarrow> ending_step" where
  "block_manager_failed cfg fa x =
     (let blocker = section_of (rx_status x) ''blocker''; detail0 = dget (section_of (rx_status x) ''phase'') ''detail'';
          msg = strip (py_str (py_or (dget blocker ''message'') (py_or detail0 (JStr ''Manager planning failed for task.''))));
          kind = or_text (strip (py_str (py_or (dget blocker ''kind'') (JStr ''manager'')))) ''manager'';
          detail = strip (py_str (py_or detail0 (JStr msg)))
      in close_blocked fa msg [] (blocked_outcome msg) [(''kind'', JStr kind), (''detail'', JStr detail)]
           (touch_blocked cfg ''planning'' msg True
             (set_run_status ((blocked_changes ''planning'' detail kind msg ''manager'')\<lparr>sg_run_completed := True\<rparr>) x)))"

definition engine_artifacts :: "obj \<Rightarrow> obj \<Rightarrow> obj" where
  "engine_artifacts engine artifacts = fold (\<lambda>(k, name) d. if truthy (dget engine k) then dset name (dget engine k) d else d)
     [(''events_path'', ''engine_events''), (''messages_path'', ''engine_messages''), (''sync_snapshot_path'', ''engine_sync_snapshot'')] artifacts"

definition note_worker_blocker :: "obj \<Rightarrow> obj \<Rightarrow> obj" where
  "note_worker_blocker blocker status =
     (let engine = obj_of (dget blocker ''engine'');
          s1 = dset ''blocker'' (JObj (dset ''recovery_action'' (dget blocker ''recovery_action'')
                 (dset ''detail'' (dget blocker ''detail'') (section_of status ''blocker'')))) status
      in if engine = [] then s1 else dset ''engine'' (JObj (dupdate (section_of s1 ''engine'') engine)) s1)"

definition with_engine_artifacts :: "obj \<Rightarrow> run_context \<Rightarrow> run_context" where
  "with_engine_artifacts engine x = x\<lparr>rx_status := dset ''artifacts''
     (JObj (engine_artifacts engine (section_of (rx_status x) ''artifacts''))) (rx_status x)\<rparr>"

definition worker_failure_text :: "obj \<Rightarrow> string" where
  "worker_failure_text blocker =
     (let detail = str_of (dget blocker ''detail''); recovery = str_of (dget blocker ''recovery_action'')
      in join nlc (filter (\<lambda>l. l \<noteq> []) [str_of (dget blocker ''message''),
           if detail \<noteq> [] then ''Detail: '' @ detail else [], if recovery \<noteq> [] then ''Recovery: '' @ recovery else []]))"

definition blocker_entry :: "obj \<Rightarrow> json" where
  "blocker_entry blocker = JObj [(''kind'', dget blocker ''kind''), (''message'', dget blocker ''message''), (''detail'', dget blocker ''detail''),
     (''recovery_action'', dget blocker ''recovery_action''), (''phase'', JStr ''worker_execution'')]"

definition block_worker_failure :: "run_settings \<Rightarrow> end_answers \<Rightarrow> ending_step" where
  "block_worker_failure cfg fa x =
     (let blocker = worker_failure_blocker (rx_results x); message = str_of (dget blocker ''message''); kind = str_of (dget blocker ''kind'');
          x1 = set_run_status ((blocked_changes ''worker_execution'' (str_of (dget blocker ''phase_detail'')) kind message ''worker'')
                 \<lparr>sg_run_completed := True\<rparr>) x;
          x2 = merge_worker_partial_diff_artifacts_into_repair kind (x1\<lparr>rx_status := note_worker_blocker blocker (rx_status x1)\<rparr>);
          x3 = with_engine_artifacts (obj_of (dget blocker ''engine'')) x2;
          x4 = x3\<lparr>rx_blackboard := append_to ''blockers'' (blocker_entry blocker) (rx_blackboard x3)\<rparr>
      in close_blocked fa (worker_failure_text blocker) (rx_results x) (blocked_outcome message)
           [(''kind'', JStr kind), (''detail'', dget blocker ''detail''), (''recovery_action'', dget blocker ''recovery_action'')]
           (move_task_card_if_present ''blocked'' ''manager'' kind (touch_blocked cfg ''worker_execution'' message True x4)))"

definition block_integration_failed :: "run_settings \<Rightarrow> run_phases \<Rightarrow> end_answers \<Rightarrow> string option \<Rightarrow> ending_step" where
  "block_integration_failed cfg ops fa message x =
     (let msg = or_text (case message of Some m \<Rightarrow> m | None \<Rightarrow> []) ''Integration prompt failed after worker completion.''
      in close_blocked fa msg [] (blocked_outcome msg) [(''kind'', JStr ''integration''), (''detail'', JStr msg)]
           (move_task_card_if_present ''blocked'' ''manager'' ''integration failure''
             (touch_blocked cfg ''handoff'' msg False
               (set_run_status (blocked_changes ''handoff'' msg ''integration'' msg ''manager'')
                 (preserve_blocked cfg ops ''integration_failed'' x)))))"

text \<open>The return code of a result, for the comment: the codes of results are numbers or missing.\<close>

definition code_of :: "obj \<Rightarrow> int option" where
  "code_of result = (case dget result ''returncode'' of JInt i \<Rightarrow> Some i | _ \<Rightarrow> None)"

definition block_verification_failed :: "run_settings \<Rightarrow> run_phases \<Rightarrow> end_answers \<Rightarrow> policy_decision \<Rightarrow> ending_step" where
  "block_verification_failed cfg ops fa v x =
     (let category = or_text (strip (or_text (case vp_failure_category v of Some c \<Rightarrow> c | None \<Rightarrow> []) (vp_outcome v))) (vp_outcome v);
          label = replace_char (CHR 0x5F) (CHR 0x2D) category;
          msg = or_text (case vp_validation_blocker v of Some m \<Rightarrow> m | None \<Rightarrow> []) ''Review or test failed'';
          full = label @ '': '' @ msg
      in close_blocked fa full (rx_results x) ((blocked_outcome full)\<lparr>fo_diff := Some (rx_diff x), fo_review := code_of (rx_review x),
             fo_test := code_of (rx_test x)\<rparr>) [(''kind'', JStr category)]
           (move_task_card_if_present ''blocked'' ''manager'' (label @ '' validation failure'')
             (touch_blocked cfg ''handoff'' msg False
               (set_run_status (blocked_changes ''handoff'' full category msg ''reviewer'')
                 (preserve_blocked cfg ops (''verification_'' @ category) x)))))"

definition block_from_decision :: "run_settings \<Rightarrow> end_answers \<Rightarrow> string \<Rightarrow> string \<Rightarrow> string \<Rightarrow> ending_step" where
  "block_from_decision cfg fa message kind phase x =
     (let msg = or_text message ''Run blocked.''; k = or_text kind ''unknown''
      in close_blocked fa msg (rx_results x) (blocked_outcome msg) [(''kind'', JStr k)]
           (touch_blocked cfg phase msg True
             (set_run_status ((blocked_changes phase msg k msg ''manager'')\<lparr>sg_run_completed := True\<rparr>) x)))"

definition lost_before_text :: "int \<Rightarrow> string" where
  "lost_before_text misses = ''Lost coordination lease after '' @ int_str misses @
     '' consecutive heartbeat misses. Another worker may have reclaimed the task.''"

definition lost_during_text :: "int \<Rightarrow> string" where
  "lost_during_text misses = ''Lost coordination lease during worker execution after '' @ int_str misses @ '' consecutive heartbeat misses.''"

definition block_lost :: "bool \<Rightarrow> ending_step" where
  "block_lost during x =
     block_run ''coordination'' ''coordination_lost'' ((if during then lost_during_text else lost_before_text) (rx_misses x))
       (if during then ''lease heartbeat repeatedly missed during worker execution'' else ''lease heartbeat repeatedly missed'') [] [] x"

section \<open>Completed runs\<close>

definition completed_outcome :: "string \<Rightarrow> string \<Rightarrow> int option \<Rightarrow> int option \<Rightarrow> bool \<Rightarrow> final_outcome" where
  "completed_outcome summary diff review test stored = \<lparr>fo_outcome = ''completed'', fo_summary = summary, fo_diff = Some diff,
     fo_review = review, fo_test = test, fo_stored = stored\<rparr>"

definition completed_text :: "end_answers \<Rightarrow> json \<Rightarrow> json \<Rightarrow> json \<Rightarrow> run_context \<Rightarrow> string res" where
  "completed_text fa engine_label review test x = bind_res (task_title x) (\<lambda>t.
     let provider = section_of (rx_status x) ''provider'' in
     build_completed_summary (rx_run_id x) (py_str t) (py_str (dget (rx_repo x) ''path'')) (py_str engine_label)
       (py_str (py_or (dget provider ''id'') (JStr (fst (fa_provider fa)))))
       (py_str (py_or (dget provider ''model'') (JStr (snd (fa_provider fa))))) (rx_results x) review test (Some (fa_diff_stat fa)))"

text \<open>The claim the document names is marked as done when it is complete.\<close>

definition claim_field :: "run_context \<Rightarrow> string \<Rightarrow> string" where
  "claim_field x k = str_of (dget (section_of (rx_status x) ''coordination'') k)"

definition mark_claim_done :: "string \<Rightarrow> run_context \<Rightarrow> run_context" where
  "mark_claim_done reason x =
     (let f = claim_field x in
      if f ''task_key'' = [] \<or> f ''lease_id'' = [] \<or> f ''worker_id'' = [] \<or> f ''host_id'' = [] then x
      else x\<lparr>rx_store := snd (mark_task_done (rx_now x) (f ''task_key'') (rx_run_id x) (Some (f ''lease_id'')) (Some (f ''worker_id''))
             (Some (f ''host_id'')) (Some reason) (rx_store x))\<rparr>)"

definition github_failed_detail :: string where
  "github_failed_detail = ''github finalize outbox dispatch hit terminal failure''"

definition pre_satisfied_sync_message :: string where
  "pre_satisfied_sync_message = ''Run was successful locally but the GitHub finalize sync hit a terminal '' @
     ''outbox failure. The remote board will not show the completed status; '' @
     ''investigate with `aca lease list` and the GitHub MCP logs.''"

definition pre_satisfied_changes :: "run_context \<Rightarrow> status_changes" where
  "pre_satisfied_changes x = no_status_changes\<lparr>sg_phase := Some ''handoff'', sg_phase_detail := Some ''repository already satisfied task'',
     sg_run_status := Some ''completed'', sg_run_completed := True,
     sg_metrics := Some (dset ''tests_passed'' (JBool True) (dset ''planned_workers'' (JInt (int (length (rx_planned x))))
       (worker_result_metrics (rx_results x))))\<rparr>"

definition complete_pre_satisfied :: "end_answers \<Rightarrow> ending_step" where
  "complete_pre_satisfied fa x =
     (let x1 = set_run_status (pre_satisfied_changes x)
            (append_blackboard_note ''Repository already satisfied the expected files; skipping worker execution.'' x);
          label = py_or (dget (rx_engine x) ''version'') (py_or (dget (rx_engine x) ''status'') (JStr ''unknown''))
      in with_summary (completed_text fa label (JInt 0) (JInt 0) x1) (\<lambda>x2.
           let (failed, x3) = sync_outcome fa (completed_outcome ''Repository already satisfied the requested task.''
                 (fa_diff_stat fa) (Some 0) (Some 0) True) x2
           in if failed then block_run ''handoff'' ''github_sync_failed'' pre_satisfied_sync_message github_failed_detail [] [] x3
              else (None, emit ''run.completed'' [(''kind'', JStr ''verified_existing'')]
                (mark_claim_done ''repository already satisfied task'' x3))) x1)"

section \<open>Commit, push and pull request\<close>

definition block_finalization_failure :: "string \<Rightarrow> string \<Rightarrow> ending_step" where
  "block_finalization_failure kind message x =
     block_run ''handoff'' kind message message (rx_results x) [] (move_task_card_if_present ''blocked'' ''manager'' kind x)"

definition pull_request_message :: "end_answers \<Rightarrow> run_context \<Rightarrow> outbox_message" where
  "pull_request_message fa x = finalize_message (rx_run_id x) ''github_pull_request.create'' '':github:create-pr'' (rx_task x)
     [(''run_id'', JStr (rx_run_id x)), (''task'', JObj (rx_task x)), (''head_branch'', JStr (fa_branch fa)),
      (''title'', JStr (''aca: '' @ py_str (dget (rx_task x) ''title''))), (''body'', JStr (fa_pr_body fa))]"

definition is_created_pull_request :: "string \<Rightarrow> dispatch_result \<Rightarrow> bool" where
  "is_created_pull_request run_id r = (str_or_empty (dget (dr_payload r) ''run_id'') = run_id \<and> dr_kind r = ''github_pull_request.create''
     \<and> lower (strip (dr_status r)) = ''dispatched'' \<and> nonempty (dget (dr_extra r) ''pr_url'') \<noteq> [])"

definition pull_request_of :: "end_answers \<Rightarrow> dispatch_result \<Rightarrow> obj" where
  "pull_request_of fa r =
     (let pr = obj_of (dget (dr_extra r) ''pull_request'') in
      if pr \<noteq> [] then pr
      else [(''url'', JStr (nonempty (dget (dr_extra r) ''pr_url''))), (''head_branch'', JStr (fa_branch fa)),
            (''base_branch'', JStr (or_text (fa_default_branch fa) ''main'')), (''base_repo'', fa_repo_slug fa),
            (''lifecycle_state'', JStr ''waiting-for-review''), (''terminal'', JBool False)])"

definition put_pull_request :: "string \<Rightarrow> obj \<Rightarrow> obj \<Rightarrow> obj" where
  "put_pull_request url pr d = dset ''pull_request_lifecycle'' (JObj pr) (dset ''pull_request'' (JStr url) d)"

definition pull_request_metadata :: "string \<Rightarrow> obj \<Rightarrow> run_context \<Rightarrow> run_changes" where
  "pull_request_metadata url pr x = no_changes\<lparr>rc_metadata := Some (JObj (put_pull_request url pr
     (case get_run (rx_run_id x) (rx_store x) of Some r \<Rightarrow> obj_of (r_metadata r) | None \<Rightarrow> [])))\<rparr>"

definition keep_pull_request :: "end_answers \<Rightarrow> dispatch_result \<Rightarrow> run_context \<Rightarrow> run_context" where
  "keep_pull_request fa r x =
     (let url = nonempty (dget (dr_extra r) ''pr_url''); pr = pull_request_of fa r;
          s1 = put_pull_request url pr (rx_status x);
          x1 = x\<lparr>rx_blackboard := put_pull_request url pr (rx_blackboard x),
                 rx_status := dset ''task'' (JObj (put_pull_request url pr (section_of s1 ''task''))) s1,
                 rx_store := snd (update_run (rx_now x) (rx_run_id x) (pull_request_metadata url pr x) (rx_store x))\<rparr>
      in emit ''github_pull_request.created'' [(''url'', JStr url), (''pull_request'', JObj pr)]
           (append_blackboard_note (''Created Pull Request: '' @ url) x1))"

text \<open>The message is sent with the rest of the outbox; the run's first result with a link is its pull request.\<close>

definition enqueue_and_dispatch_pr :: "end_answers \<Rightarrow> run_context \<Rightarrow> bool \<times> run_context" where
  "enqueue_and_dispatch_pr fa x =
     (let (items, x1) = dispatch_outbox_now (fa_pr_trackers fa) (enqueue_messages [pull_request_message fa x] x)
      in case find (is_created_pull_request (rx_run_id x)) items of
           Some r \<Rightarrow> (True, keep_pull_request fa r x1) | None \<Rightarrow> (False, x1))"

definition short_commit :: "obj \<Rightarrow> string" where
  "short_commit info = take 7 (str_of (dget info ''commit''))"

definition push_detail :: "end_answers \<Rightarrow> string" where
  "push_detail fa = (case fa_push fa of (_, stderr, stdout) \<Rightarrow> strip (or_text stderr (or_text stdout ''git push failed'')))"

definition branch_message :: "end_answers \<Rightarrow> string" where
  "branch_message fa = ''ACA expected to finalize on branch '' @ ticked (fa_branch fa) @ '' but the repository is on '' @
     ticked (or_text (fa_current_branch fa) ''unknown'') @
     ''. No commit was created; reset the checkout to the default branch and rerun.''"

definition no_pull_request_message :: string where
  "no_pull_request_message = ''ACA committed and pushed the branch, but GitHub PR creation '' @
     ''did not return a pull request URL. The task cannot be marked complete without a reviewable PR.''"

definition push_message :: "end_answers \<Rightarrow> obj \<Rightarrow> string" where
  "push_message fa info = ''ACA committed local changes as '' @ ticked (short_commit info) @ '', but failed to push branch '' @
     ticked (fa_branch fa) @ '': '' @ push_detail fa @ ''. No pull request was created, so the task remains blocked.''"

definition finished_blackboard :: "end_answers \<Rightarrow> run_context \<Rightarrow> run_context" where
  "finished_blackboard fa x = x\<lparr>rx_blackboard := dset ''test'' (JObj (rx_test x)) (dset ''review'' (JObj (rx_review x))
     (dset ''workers'' (dicts_json (rx_results x)) (dset ''artifacts''
       (JList (list_of (dget (rx_blackboard x) ''artifacts'') @ map JStr (fa_files fa))) (rx_blackboard x))))\<rparr>"

text \<open>Publishing the commit: the run goes on when nothing was committed, or when it was pushed and has a pull request.\<close>

datatype publish_end = Published | NoPullRequest | PushFailed

definition publish :: "end_answers \<Rightarrow> obj \<Rightarrow> run_context \<Rightarrow> publish_end \<times> run_context" where
  "publish fa info x =
     (let x1 = append_blackboard_note (''Committed validated changes as '' @ ticked (short_commit info) @ ''.'')
            (x\<lparr>rx_blackboard := dset ''commit'' (JObj info) (rx_blackboard x)\<rparr>)
      in if fst (fa_push fa) \<noteq> 0 then
           (PushFailed, append_blackboard_note (''Warning: Failed to push branch '' @ ticked (fa_branch fa) @ '': '' @ push_detail fa) x1)
         else (let (created, x2) = enqueue_and_dispatch_pr fa
                     (append_blackboard_note (''Pushed branch '' @ ticked (fa_branch fa) @ '' to remote.'') x1)
               in if created then (Published, x2)
                  else (NoPullRequest, append_blackboard_note ''Blocked: GitHub PR creation did not return a pull request URL.'' x2)))"

definition finished_changes :: "run_context \<Rightarrow> status_changes" where
  "finished_changes x =
     (let metrics = section_of (rx_status x) ''metrics'' in
      no_status_changes\<lparr>sg_phase := Some ''handoff'', sg_phase_detail := Some ''task completed'', sg_run_status := Some ''completed'',
        sg_run_completed := True,
        sg_metrics := Some [(''planned_workers'', JInt (int (length (rx_planned x)))),
          (''completed_workers'', dget metrics ''completed_workers''), (''failed_workers'', dget metrics ''failed_workers''),
          (''tests_passed'', JBool (dget (rx_review x) ''returncode'' = JInt 0 \<and> dget (rx_test x) ''returncode'' = JInt 0))]\<rparr>)"

definition completed_sync_message :: string where
  "completed_sync_message = ''Run completed locally but the GitHub finalize sync hit a terminal '' @
     ''outbox failure. The remote board will not show the completed status; '' @
     ''investigate the GitHub MCP logs and the coordination outbox before re-running.''"

definition complete_published :: "run_settings \<Rightarrow> end_answers \<Rightarrow> ending_step" where
  "complete_published cfg fa x =
     (if \<not> dhas (section_of (rx_status x) ''metrics'') ''completed_workers'' then (Some (KeyError ''completed_workers''), x)
      else if \<not> dhas (section_of (rx_status x) ''metrics'') ''failed_workers'' then (Some (KeyError ''failed_workers''), x)
      else
        let x1 = snd (touch_run cfg False \<lparr>ru_status = Some ''completed'', ru_phase = Some ''handoff'', ru_error = None, ru_completed = True\<rparr>
              (set_run_status (finished_changes x) x));
            x2 = move_task_card_if_present ''review'' ''manager'' ''run completed; awaiting review'' (mark_claim_done ''task completed'' x1);
            engine = section_of (rx_status x2) ''engine'';
            label = py_or (dget engine ''version'') (py_or (dget engine ''build_id'') (JStr ''unknown''))
        in with_summary (completed_text fa label (dget (rx_review x2) ''returncode'') (dget (rx_test x2) ''returncode'') x2) (\<lambda>x3.
             let (failed, x4) = sync_outcome fa (completed_outcome ''Run completed successfully.'' (fa_diff_stat fa)
                   (code_of (rx_review x3)) (code_of (rx_test x3)) False) x3
             in if failed then block_run ''handoff'' ''github_sync_failed'' completed_sync_message github_failed_detail [] [] x4
                else (None, emit ''run.completed'' [(''result'', JStr ''completed'')] x4)) x2)"

definition finalize_completed_run :: "run_settings \<Rightarrow> end_answers \<Rightarrow> ending_step" where
  "finalize_completed_run cfg fa x =
     (if fa_current_branch fa \<noteq> fa_branch fa then block_finalization_failure ''run_branch_mismatch'' (branch_message fa) x
      else case task_title x of Inl e \<Rightarrow> (Some e, x)
      | Inr _ \<Rightarrow>
          (let x1 = finished_blackboard fa x in
           case fa_commit fa of
             None \<Rightarrow> complete_published cfg fa x1
           | Some [] \<Rightarrow> complete_published cfg fa x1
           | Some (f # fs) \<Rightarrow>
               (case publish fa (f # fs) x1 of
                  (Published, x2) \<Rightarrow> complete_published cfg fa x2
                | (NoPullRequest, x2) \<Rightarrow> block_finalization_failure ''pull_request_missing'' no_pull_request_message x2
                | (PushFailed, x2) \<Rightarrow> block_finalization_failure ''push_failed'' (push_message fa (f # fs)) x2)))"

section \<open>The ending of a run\<close>

definition end_run :: "run_settings \<Rightarrow> run_phases \<Rightarrow> end_answers \<Rightarrow> run_end \<Rightarrow> ending_step" where
  "end_run cfg ops fa e x = (case e of
      LostBefore \<Rightarrow> block_lost False x
    | LostDuring \<Rightarrow> block_lost True x
    | ManagerFailed \<Rightarrow> block_manager_failed cfg fa x
    | NoTargets \<Rightarrow> block_no_targets cfg fa x
    | PreSatisfied \<Rightarrow> complete_pre_satisfied fa x
    | CandidatesBlocked \<Rightarrow> (None, x)
    | WorkersFailed \<Rightarrow> block_worker_failure cfg fa x
    | IntegrationFailed m \<Rightarrow> block_integration_failed cfg ops fa m x
    | DecisionBlocked m k p \<Rightarrow> block_from_decision cfg fa m k p x
    | VerificationFailed v \<Rightarrow> block_verification_failed cfg ops fa v x
    | Finalized \<Rightarrow> finalize_completed_run cfg fa x
    | Raised err \<Rightarrow> (Some err, x))"

end
