(* ===== verification/RunRelease.thy ===== *)
theory RunRelease imports RunEndings begin

text \<open>
  The frame of a coding run (\<open>_run_once_internal\<close> in
  src/tandem_agents/core/execution/runner_core.py): an exception of the loop or of an ending becomes a
  blocked run, and the run's lease is released on every way out, with a status read off the run's
  document. The configuration's connector name and the engine's answer about it are given.
\<close>

section \<open>Blockers of exceptions\<close>

text \<open>\<open>str(exc)\<close>: the text of a missing key is the key as Python prints it.\<close>

definition crash_text :: "py_error \<Rightarrow> string" where
  "crash_text e = (case e of KeyError k \<Rightarrow> repr_str k | _ \<Rightarrow> err_text e)"

definition auth_markers :: "string list" where
  "auth_markers = [''awaiting authorization'', ''authorization required'', ''mcp oauth token refresh failed'', ''invalid_grant'',
     ''client id mismatch'']"

definition exception_is_linear_mcp_auth_required :: "string \<Rightarrow> string \<Rightarrow> bool" where
  "exception_is_linear_mcp_auth_required source_type detail =
     (let text0 = lower detail; has = (\<lambda>s. contains s text0) in
      lower (strip source_type) = ''linear'' \<and>
      ((has ''500 internal server error'' \<and> has ''/tool/execute'' \<and> has ''127.0.0.1'')
       \<or> (list_ex has auth_markers \<and> (has ''linear'' \<or> has ''mcp'' \<or> has ''oauth''))))"

definition challenge_url :: "obj \<Rightarrow> string" where
  "challenge_url challenge = nonempty (dget_or challenge [''authorization_url'', ''authorizationUrl''])"

definition pending_urls :: "json \<Rightarrow> string list" where
  "pending_urls pending = (case pending of
      JObj kvs \<Rightarrow> filter (\<lambda>u. u \<noteq> []) (map (\<lambda>(_, v). challenge_url (obj_of v)) (filter (\<lambda>(_, v). is_obj v) kvs))
    | _ \<Rightarrow> [])"

definition server_auth_url :: "obj \<Rightarrow> string" where
  "server_auth_url server =
     (let challenge = dget_or server [''last_auth_challenge'', ''lastAuthChallenge''];
          first = (if is_obj challenge then challenge_url (obj_of challenge) else []);
          pending = pending_urls (dget_or server [''pending_auth_by_tool'', ''pendingAuthByTool''])
      in if first \<noteq> [] then first
         else case pending of u # _ \<Rightarrow> u | [] \<Rightarrow> nonempty (dget server ''authorizationUrl''))"

definition linear_mcp_authorization_url :: "string \<Rightarrow> json option \<Rightarrow> string" where
  "linear_mcp_authorization_url server_name payload = (case payload of
      Some (JObj p) \<Rightarrow>
        (let servers = (if is_obj (dget p ''servers'') then obj_of (dget p ''servers'') else p)
         in case dget servers server_name of JObj server \<Rightarrow> server_auth_url server | _ \<Rightarrow> [])
    | _ \<Rightarrow> [])"

record crash_blocker =
  cb_kind :: string
  cb_message :: string
  cb_detail :: string
  cb_url :: string

definition crash_blocker_for_exception :: "end_answers \<Rightarrow> string \<Rightarrow> crash_blocker" where
  "crash_blocker_for_exception fa detail =
     (if exception_is_linear_mcp_auth_required (sy_source_type (fa_sync fa)) detail then
        (let url = linear_mcp_authorization_url (fa_server fa) (fa_auth fa) in
         \<lparr>cb_kind = ''linear_mcp_auth_required'',
          cb_message = ''Linear MCP authorization is required. Reconnect the Linear MCP server in the Tandem '' @
            ''control panel, then rerun this ACA task.'' @ (if url \<noteq> [] then '' Authorization URL: '' @ url else []),
          cb_detail = detail, cb_url = url\<rparr>)
      else \<lparr>cb_kind = ''internal_error'', cb_message = ''Unhandled exception: '' @ detail, cb_detail = detail, cb_url = []\<rparr>)"

text \<open>The phase of the blocked run is the printed phase section.\<close>

definition crash_phase :: "run_context \<Rightarrow> string" where
  "crash_phase x = py_str (py_or (dget (rx_status x) ''phase'') (JStr ''unknown''))"

definition crash_run :: "end_answers \<Rightarrow> string \<Rightarrow> run_context \<Rightarrow> run_context" where
  "crash_run fa detail x =
     (let b = crash_blocker_for_exception fa detail in
      snd (block_run (crash_phase x) (cb_kind b) (cb_message b) (cb_detail b) []
        (if cb_url b \<noteq> [] then [(''authorization_url'', JStr (cb_url b))] else []) x))"

section \<open>The status of the released lease\<close>

definition status_run_value :: "obj \<Rightarrow> string" where
  "status_run_value status =
     (let direct = lower (nonempty (dget status ''run_status'')) in
      if direct \<noteq> [] then direct
      else case dget status ''run'' of JObj run \<Rightarrow> lower (nonempty (dget run ''status'')) | _ \<Rightarrow> [])"

definition status_has_active_blocker :: "obj \<Rightarrow> bool" where
  "status_has_active_blocker status = (case dget status ''blocker'' of JObj b \<Rightarrow> dget b ''active'' = JBool True | _ \<Rightarrow> False)"

definition status_blocker_reason :: "obj \<Rightarrow> string" where
  "status_blocker_reason status =
     (let blocker = (if status_has_active_blocker status then section_of status ''blocker'' else []);
          detail = (case dget status ''phase'' of JObj p \<Rightarrow> nonempty (dget p ''detail'') | _ \<Rightarrow> [])
      in first_nonempty [nonempty (dget blocker ''detail''), nonempty (dget blocker ''message''), detail, nonempty (dget blocker ''kind'')])"

fun blocked_payload :: "obj list \<Rightarrow> (string \<times> string) option" where
  "blocked_payload [] = None"
| "blocked_payload (p # ps) = (if status_has_active_blocker p then Some (''blocked'', or_text (status_blocker_reason p) ''run blocked'')
     else blocked_payload ps)"

fun ended_payload :: "obj list \<Rightarrow> string \<times> string" where
  "ended_payload [] = (''blocked'', ''run finished without terminal status'')"
| "ended_payload (p # ps) =
     (let s = status_run_value p; reason = status_blocker_reason p in
      if s = ''completed'' then (''completed'', ''run completed'')
      else if s = ''blocked'' then (''blocked'', or_text reason ''run blocked'')
      else if s = ''failed'' then (''failed'', or_text reason ''run failed'')
      else if s = ''cancelled'' then (''blocked'', or_text reason ''run cancelled'')
      else ended_payload ps)"

definition final_lease_release_decision :: "string option \<Rightarrow> obj list \<Rightarrow> string \<times> string" where
  "final_lease_release_decision crashed payloads = (case crashed of
      Some e \<Rightarrow> (''failed'', ''crashed: '' @ e)
    | None \<Rightarrow> (case blocked_payload payloads of Some r \<Rightarrow> r | None \<Rightarrow> ended_payload payloads))"

text \<open>The answer's document, the saved one and the context's are the same document; an empty saved one is left out.\<close>

definition status_payloads_for_final_release :: "run_context \<Rightarrow> obj list" where
  "status_payloads_for_final_release x =
     [rx_status x] @ (if rx_status x \<noteq> [] then [rx_status x] else []) @ [rx_status x]"

definition release_run :: "string option \<Rightarrow> run_context \<Rightarrow> run_context" where
  "release_run crashed x =
     (let (status, reason) = final_lease_release_decision crashed (status_payloads_for_final_release x) in
      case lease_id_of x of
        Some (c # cs) \<Rightarrow> x\<lparr>rx_store := snd (release_lease (rx_now x) (c # cs) status (Some reason) (rx_store x))\<rparr>
      | _ \<Rightarrow> x)"

definition finish_run :: "run_settings \<Rightarrow> run_phases \<Rightarrow> end_answers \<Rightarrow> run_end \<Rightarrow> run_context \<Rightarrow> run_context" where
  "finish_run cfg ops fa e x = (case end_run cfg ops fa e x of
      (None, y) \<Rightarrow> release_run None y
    | (Some err, y) \<Rightarrow> release_run (Some (crash_text err)) (crash_run fa (crash_text err) y))"

text \<open>A run from its repair loop on.\<close>

definition coding_run :: "(json \<Rightarrow> string) \<Rightarrow> run_settings \<Rightarrow> run_phases \<Rightarrow> end_answers \<Rightarrow> run_context \<Rightarrow> run_context" where
  "coding_run di cfg ops fa x = (let (e, y) = repair_loop di cfg ops x in finish_run cfg ops fa e y)"

section \<open>Frames\<close>

definition doc_status :: "run_context \<Rightarrow> json" where
  "doc_status x = dget (section_of (rx_status x) ''run'') ''status''"

definition doc_blocked :: "run_context \<Rightarrow> bool" where
  "doc_blocked x = (doc_status x = JStr ''blocked'' \<and> dget (section_of (rx_status x) ''blocker'') ''active'' = JBool True)"

end
