(* ===== verification/RunCompletion.thy ===== *)
theory RunCompletion imports RunRelease begin

text \<open>
  What the document, the run's row and the store say when a coding run has ended: blocked for every ending
  but the two completed ones, and no lease left to the run.
\<close>

section \<open>The sections an ending leaves alone\<close>

text \<open>The sections of the document that name the run, its blocker and its claim, with the blackboard's pull request.\<close>

definition doc_of :: "run_context \<Rightarrow> json \<times> json \<times> json \<times> json" where
  "doc_of x = (dget (rx_status x) ''run'', dget (rx_status x) ''blocker'', dget (rx_status x) ''coordination'',
     dget (rx_blackboard x) ''pull_request'')"

lemma doc_of_facts:
  assumes "doc_of y = doc_of x"
  shows "doc_status y = doc_status x" "doc_blocked y = doc_blocked x" "lease_id_of y = lease_id_of x"
    "dget (rx_blackboard y) ''pull_request'' = dget (rx_blackboard x) ''pull_request''"
  using assms by (simp_all add: doc_of_def doc_status_def doc_blocked_def lease_id_of_def section_of_def)

lemma doc_of_store [simp]:
  "doc_of (x\<lparr>rx_store := d\<rparr>) = doc_of x" "doc_of (x\<lparr>rx_board := b\<rparr>) = doc_of x" "doc_of (x\<lparr>rx_summary := s\<rparr>) = doc_of x"
  "doc_of (emit k p x) = doc_of x" "doc_of (append_blackboard_note s x) = doc_of x"
  "doc_of (change_run_row u x) = doc_of x" "doc_of (enqueue_messages ms x) = doc_of x" "doc_of (mark_claim_done r x) = doc_of x"
  "doc_of (x\<lparr>rx_patches := ps\<rparr>) = doc_of x"
  by (simp_all add: doc_of_def emit_def append_blackboard_note_def append_to_def change_run_row_def enqueue_messages_def
      mark_claim_done_def Let_def)

lemma doc_of_status:
  "k \<notin> {''run'', ''blocker'', ''coordination''} \<Longrightarrow> doc_of (x\<lparr>rx_status := dset k v (rx_status x)\<rparr>) = doc_of x"
  by (auto simp: doc_of_def)

lemma doc_of_append: "k \<noteq> ''pull_request'' \<Longrightarrow> doc_of (x\<lparr>rx_blackboard := append_to k v (rx_blackboard x)\<rparr>) = doc_of x"
  by (simp add: doc_of_def append_to_def)

lemma doc_of_touch [simp]: "doc_of (snd (touch_run cfg False u x)) = doc_of x"
  by (simp add: touch_run_def Let_def split: option.split list.split prod.split)

lemma doc_of_repair [simp]: "doc_of (change_repair f x) = doc_of x"
  by (simp add: change_repair_def in_repair_def doc_of_def)

lemma doc_of_move [simp]: "doc_of (move_task_card_if_present l a n x) = doc_of x"
  by (simp add: move_task_card_if_present_def Let_def split: sum.split)

lemma doc_of_preserve [simp]: "doc_of (preserve_blocked cfg ops reason x) = doc_of x"
  by (simp add: preserve_blocked_def preserve_named_def preserve_and_reset_blocked_worktree_def Let_def)
    (simp add: doc_of_def append_to_def)

lemma doc_of_warning [simp]: "doc_of (record_warning linear m x) = doc_of x"
  by (simp add: record_warning_def update_mcp_status_def mcp_key_def doc_of_status Let_def)

lemma doc_of_connect [simp]: "doc_of (snd (connect_for_phase linear sa e x)) = doc_of x"
  by (simp add: connect_for_phase_def update_mcp_status_def mcp_key_def doc_of_status Let_def split: option.split)

lemma doc_of_disconnect [simp]: "doc_of (disconnect_github_for_coding sa e x) = doc_of x"
  by (simp add: disconnect_github_for_coding_def update_mcp_status_def mcp_key_def doc_of_status Let_def split: option.split)

lemma doc_of_note_status [simp]: "doc_of (note_status w s x) = doc_of x"
  by (simp add: note_status_def)

lemma doc_of_items: "doc_of (snd (fold (take_item w b t o1) items s)) = doc_of (snd s)"
proof (induction items arbitrary: s)
  case (Cons r items)
  have "doc_of (snd (take_item w b t o1 r s)) = doc_of (snd s)"
    by (simp add: take_item_def Let_def split: prod.split)
  then show ?case using Cons by simp
qed simp

lemma doc_of_dispatch [simp]: "doc_of (snd (dispatch_outbox_now sa x)) = doc_of x"
  by (simp add: dispatch_outbox_now_def split: prod.split)

lemma doc_of_send [simp]: "doc_of (snd (send_messages w sa b t o1 ms x)) = doc_of x"
proof -
  obtain items x1 where d: "dispatch_outbox_now sa (enqueue_messages ms x) = (items, x1)"
    by (cases "dispatch_outbox_now sa (enqueue_messages ms x)")
  have "doc_of x1 = doc_of x" using doc_of_dispatch [of sa "enqueue_messages ms x"] d by simp
  then show ?thesis by (simp add: send_messages_def d doc_of_items)
qed

lemma doc_of_finish [simp]: "doc_of (finish_sync w s) = doc_of (snd s)"
  by (simp add: finish_sync_def Let_def split: prod.split)

lemma doc_of_linear [simp]: "doc_of (snd (finalize_linear_sync sy sa o1 x)) = doc_of x"
proof -
  obtain ok x1 where c: "connect_for_phase True sa ''linear_mcp.connected_for_finalize'' x = (ok, x1)"
    by (cases "connect_for_phase True sa ''linear_mcp.connected_for_finalize'' x")
  have "doc_of x1 = doc_of x" using doc_of_connect [of True sa "''linear_mcp.connected_for_finalize''" x] c by simp
  then show ?thesis by (simp add: finalize_linear_sync_def c Let_def split: bool.split)
qed

lemma doc_of_sync [simp]: "doc_of (snd (sync_outcome fa o1 x)) = doc_of x"
proof -
  obtain ok x1 where c: "connect_for_phase False (fa_trackers fa) ''github_mcp.connected_for_finalize'' x = (ok, x1)"
    by (cases "connect_for_phase False (fa_trackers fa) ''github_mcp.connected_for_finalize'' x")
  have "doc_of x1 = doc_of x" using doc_of_connect [of False "fa_trackers fa" "''github_mcp.connected_for_finalize''" x] c by simp
  then show ?thesis by (simp add: sync_outcome_def finalize_github_sync_def c Let_def split: bool.split)
qed

section \<open>Blocked endings\<close>

lemma blocked_status:
  "sg_run_status c = Some ''blocked'' \<Longrightarrow> sg_blocker c = Some (True, k, m, ow) \<Longrightarrow> doc_blocked (set_run_status c x)"
  by (simp add: doc_blocked_def doc_status_def set_run_status_def section_of_def updated_run_def updated_blocker_def update_status_def)

lemma set_status_lease [simp]: "lease_id_of (set_run_status c x) = lease_id_of x"
  by (simp add: lease_id_of_def set_run_status_def section_of_def update_status_frame)

lemma blocked_changes_fields [simp]:
  "sg_run_status (blocked_changes p d k m ow) = Some ''blocked''" "sg_blocker (blocked_changes p d k m ow) = Some (True, Some k, Some m, Some ow)"
  by (simp_all add: blocked_changes_def)

text \<open>Doing a summary and then something that leaves the document alone leaves it alone, whether it raises or not.\<close>

lemma with_summary_doc:
  assumes "\<And>y. doc_of y = doc_of x \<Longrightarrow> doc_of (snd (rest y)) = doc_of x"
  shows "doc_of (snd (with_summary summary rest x)) = doc_of x"
  using assms by (simp add: with_summary_def split: sum.split)

lemma close_blocked_doc: "doc_of (snd (close_blocked fa m ws o1 p x)) = doc_of x"
  unfolding close_blocked_def by (rule with_summary_doc) simp

lemma block_run_blocked: "doc_blocked (snd (block_run phase kind message detail ws p x))"
proof -
  let ?x = "set_run_status ((blocked_changes phase (or_text detail message) kind message ''manager'')\<lparr>sg_run_completed := True\<rparr>) x"
  have "doc_of (snd (block_run phase kind message detail ws p x)) = doc_of ?x"
    unfolding block_run_def Let_def by (rule with_summary_doc) simp
  moreover have "doc_blocked ?x" by (rule blocked_status) simp_all
  ultimately show ?thesis using doc_of_facts(2) by blast
qed

lemma closed_blocked:
  assumes "doc_of y = doc_of (set_run_status c x)" and "sg_run_status c = Some ''blocked''" and "sg_blocker c = Some (True, k, m, ow)"
  shows "doc_blocked (snd (close_blocked fa msg ws o1 p y))"
  using close_blocked_doc [of fa msg ws o1 p y] assms(1) blocked_status [OF assms(2,3)] doc_of_facts(2) by metis

lemma worker_notes_blocked:
  assumes "doc_blocked x"
  shows "doc_blocked (x\<lparr>rx_status := note_worker_blocker blocker (rx_status x)\<rparr>)"
  using assms by (simp add: doc_blocked_def doc_status_def note_worker_blocker_def section_of_def Let_def)

lemma merge_partial_doc: "doc_of (merge_worker_partial_diff_artifacts_into_repair kind x) = doc_of x"
  by (simp add: merge_worker_partial_diff_artifacts_into_repair_def Let_def)

lemma worker_failure_blocked: "doc_blocked (snd (block_worker_failure cfg fa x))"
proof -
  let ?b = "worker_failure_blocker (rx_results x)"
  let ?k = "str_of (dget ?b ''kind'')" and ?m = "str_of (dget ?b ''message'')"
  define x1 where "x1 = set_run_status ((blocked_changes ''worker_execution'' (str_of (dget ?b ''phase_detail'')) ?k ?m ''worker'')
                 \<lparr>sg_run_completed := True\<rparr>) x"
  define x2 where "x2 = x1\<lparr>rx_status := note_worker_blocker ?b (rx_status x1)\<rparr>"
  define x3 where "x3 = with_engine_artifacts (obj_of (dget ?b ''engine'')) (merge_worker_partial_diff_artifacts_into_repair ?k x2)"
  define y where "y = move_task_card_if_present ''blocked'' ''manager'' ?k (touch_blocked cfg ''worker_execution'' ?m True
      (x3\<lparr>rx_blackboard := append_to ''blockers'' (blocker_entry ?b) (rx_blackboard x3)\<rparr>))"
  have "doc_blocked x1" unfolding x1_def by (rule blocked_status) simp_all
  then have "doc_blocked x2" unfolding x2_def by (rule worker_notes_blocked)
  moreover have "doc_of x3 = doc_of x2"
    by (simp add: x3_def with_engine_artifacts_def doc_of_status merge_partial_doc)
  moreover have "doc_of y = doc_of x3" by (simp add: y_def touch_blocked_def doc_of_append)
  ultimately have "doc_blocked y" using doc_of_facts(2) by metis
  moreover have "\<exists>m ws o1 p. block_worker_failure cfg fa x = close_blocked fa m ws o1 p y"
    unfolding block_worker_failure_def Let_def y_def x3_def x2_def x1_def by blast
  ultimately show ?thesis using close_blocked_doc doc_of_facts(2) by metis
qed

lemma simple_endings_blocked:
  "doc_blocked (snd (block_no_targets cfg fa x))" "doc_blocked (snd (block_manager_failed cfg fa x))"
  "doc_blocked (snd (block_integration_failed cfg ops fa m x))" "doc_blocked (snd (block_verification_failed cfg ops fa v x))"
  "doc_blocked (snd (block_from_decision cfg fa message kind phase x))" "doc_blocked (snd (block_lost during x))"
proof -
  show "doc_blocked (snd (block_no_targets cfg fa x))"
    unfolding block_no_targets_def touch_blocked_def
    by (rule closed_blocked, (subst doc_of_move doc_of_touch)+, rule refl) simp_all
  show "doc_blocked (snd (block_manager_failed cfg fa x))"
    unfolding block_manager_failed_def Let_def touch_blocked_def by (rule closed_blocked, rule doc_of_touch) simp_all
  show "doc_blocked (snd (block_from_decision cfg fa message kind phase x))"
    unfolding block_from_decision_def Let_def touch_blocked_def by (rule closed_blocked, rule doc_of_touch) simp_all
  show "doc_blocked (snd (block_integration_failed cfg ops fa m x))"
    unfolding block_integration_failed_def Let_def touch_blocked_def
    by (rule closed_blocked, (subst doc_of_move doc_of_touch)+, rule refl) simp_all
  show "doc_blocked (snd (block_verification_failed cfg ops fa v x))"
    unfolding block_verification_failed_def Let_def touch_blocked_def
    by (rule closed_blocked, (subst doc_of_move doc_of_touch)+, rule refl) simp_all
  show "doc_blocked (snd (block_lost during x))" by (simp add: block_lost_def block_run_blocked)
qed

section \<open>Completed endings\<close>

lemma crash_blocked: "doc_blocked (crash_run fa detail x)"
  by (simp add: crash_run_def Let_def block_run_blocked)

lemma release_doc [simp]: "doc_of (release_run crashed x) = doc_of x"
  by (simp add: release_run_def split: option.split list.split prod.split)

lemma blocked_not_completed: "doc_blocked x \<Longrightarrow> doc_status x \<noteq> JStr ''completed''"
  by (simp add: doc_blocked_def)

lemma completed_status:
  "sg_run_status c = Some s \<Longrightarrow> doc_status (set_run_status c x) = JStr s"
  by (simp add: doc_status_def set_run_status_def section_of_def updated_run_def update_status_def)

lemma finish_completed:
  assumes "doc_status (finish_run cfg ops fa e x) = JStr ''completed''"
  obtains y where "end_run cfg ops fa e x = (None, y)" "doc_status y = JStr ''completed''" "finish_run cfg ops fa e x = release_run None y"
proof (cases "end_run cfg ops fa e x")
  case (Pair err y)
  show thesis
  proof (cases err)
    case None
    then have f: "finish_run cfg ops fa e x = release_run None y" using Pair by (simp add: finish_run_def)
    then show thesis using that Pair None assms doc_of_facts(1) [OF release_doc] by metis
  next
    case (Some m)
    then have "finish_run cfg ops fa e x = release_run (Some (crash_text m)) (crash_run fa (crash_text m) y)"
      using Pair by (simp add: finish_run_def)
    then have "doc_blocked (finish_run cfg ops fa e x)" using doc_of_facts(2) [OF release_doc] crash_blocked by metis
    then show thesis using assms blocked_not_completed by blast
  qed
qed

lemma failing_ends_blocked:
  assumes "e \<notin> {Finalized, PreSatisfied, CandidatesBlocked}"
  shows "doc_blocked (finish_run cfg ops fa e x)"
proof -
  have "doc_blocked (snd (end_run cfg ops fa e x)) \<or> (\<exists>m. e = Raised m)"
    using assms by (cases e) (simp_all add: end_run_def simple_endings_blocked worker_failure_blocked)
  moreover obtain err y where y: "end_run cfg ops fa e x = (err, y)" by (cases "end_run cfg ops fa e x")
  moreover have "err \<noteq> None" if "e = Raised m" for m using that y by (auto simp: end_run_def)
  ultimately have "doc_blocked y \<or> err \<noteq> None" by auto
  then show ?thesis
  proof (cases err)
    case None
    then have "doc_blocked y" using \<open>doc_blocked y \<or> err \<noteq> None\<close> by simp
    then show ?thesis using None y doc_of_facts(2) [OF release_doc] by (simp add: finish_run_def)
  next
    case (Some m)
    then show ?thesis using y doc_of_facts(2) [OF release_doc] crash_blocked by (simp add: finish_run_def)
  qed
qed

section \<open>The tables an ending leaves alone\<close>

lemma outbox_ops_runs [simp]:
  "db_runs (snd (reap_stale_outbox_claims now st d)) = db_runs d" "db_runs (snd (claim_pending_outbox now n d)) = db_runs d"
  "db_runs (store_complete now i d) = db_runs d" "db_runs (store_retry now i err b d) = db_runs d"
  by (simp_all add: reap_stale_outbox_claims_def claim_pending_outbox_def store_complete_def store_retry_def complete_outbox_def
      retry_outbox_def Let_def split: option.split)

lemma settle_runs: "db_runs (settle_all store_complete store_retry clock k vs d) = db_runs d"
proof (induction vs arbitrary: k d)
  case (Cons v vs)
  then show ?case by (cases v) simp_all
qed simp

lemma tick_runs [simp]: "db_runs (snd (dispatch_outbox_tick cx clock n d)) = db_runs d"
proof -
  obtain a d1 where 1: "reap_stale_outbox_claims (clock 0) DEFAULT_OUTBOX_STALE_AFTER_SECONDS d = (a, d1)"
    by (cases "reap_stale_outbox_claims (clock 0) DEFAULT_OUTBOX_STALE_AFTER_SECONDS d")
  obtain b d2 where 2: "claim_pending_outbox (clock 1) n d1 = (b, d2)" by (cases "claim_pending_outbox (clock 1) n d1")
  have "db_runs d2 = db_runs d"
    using outbox_ops_runs(1,2) 1 2 by (metis snd_conv)
  then show ?thesis by (simp add: dispatch_outbox_tick_def 1 2 settle_runs Let_def del: One_nat_def)
qed

lemma plain_store [simp]:
  "rx_store (emit k p x) = rx_store x" "rx_store (append_blackboard_note s x) = rx_store x" "rx_store (set_run_status c x) = rx_store x"
  "rx_store (move_task_card_if_present l a n x) = rx_store x" "rx_store (record_warning linear m x) = rx_store x"
  "rx_store (note_status w t x) = rx_store x" "rx_store (disconnect_github_for_coding sa e x) = rx_store x"
  "rx_store (snd (connect_for_phase linear sa e x)) = rx_store x" "rx_store (finish_sync w r) = rx_store (snd r)"
  by (simp_all add: emit_def append_blackboard_note_def set_run_status_def move_task_card_if_present_def record_warning_def
      update_mcp_status_def note_status_def disconnect_github_for_coding_def connect_for_phase_def finish_sync_def Let_def
      split: sum.split option.split prod.split)

lemma items_store: "rx_store (snd (fold (take_item w b t o1) items s)) = rx_store (snd s)"
proof (induction items arbitrary: s)
  case (Cons r items)
  have "rx_store (snd (take_item w b t o1 r s)) = rx_store (snd s)" by (simp add: take_item_def Let_def split: prod.split)
  then show ?case using Cons by simp
qed simp

lemma send_runs [simp]: "db_runs (rx_store (snd (send_messages w sa b t o1 ms x))) = db_runs (rx_store x)"
proof -
  obtain items x1 where d: "dispatch_outbox_now sa (enqueue_messages ms x) = (items, x1)"
    by (cases "dispatch_outbox_now sa (enqueue_messages ms x)")
  obtain su d1 where t: "dispatch_outbox_tick (sa_connectors sa) (sa_clock sa) 25 (rx_store (enqueue_messages ms x)) = (su, d1)"
    by (cases "dispatch_outbox_tick (sa_connectors sa) (sa_clock sa) 25 (rx_store (enqueue_messages ms x))")
  have "rx_store x1 = d1" using d t by (auto simp: dispatch_outbox_now_def)
  moreover have "db_runs d1 = db_runs (rx_store (enqueue_messages ms x))" using tick_runs t by (metis snd_conv)
  then have "db_runs d1 = db_runs (rx_store x)" by (simp add: enqueue_messages_def)
  ultimately show ?thesis by (simp add: send_messages_def d items_store)
qed

lemma connected:
  assumes "connect_for_phase linear sa e x = (ok, x1)"
  shows "rx_store x1 = rx_store x"
  using plain_store(8) [of linear sa e x] assms by simp

lemma linear_runs: "db_runs (rx_store (snd (finalize_linear_sync sy sa o1 x))) = db_runs (rx_store x)"
proof -
  obtain ok x1 where c: "connect_for_phase True sa ''linear_mcp.connected_for_finalize'' x = (ok, x1)"
    by (cases "connect_for_phase True sa ''linear_mcp.connected_for_finalize'' x")
  then show ?thesis using connected [OF c] by (simp add: finalize_linear_sync_def Let_def split: bool.split)
qed

lemma sync_runs [simp]: "db_runs (rx_store (snd (sync_outcome fa o1 x))) = db_runs (rx_store x)"
proof -
  obtain ok x1 where c: "connect_for_phase False (fa_trackers fa) ''github_mcp.connected_for_finalize'' x = (ok, x1)"
    by (cases "connect_for_phase False (fa_trackers fa) ''github_mcp.connected_for_finalize'' x")
  then show ?thesis using connected [OF c]
    by (simp add: sync_outcome_def finalize_github_sync_def linear_runs Let_def split: bool.split)
qed

text \<open>A caller that does not pass the store leaves it as it was, and is never told of a failure.\<close>

lemma unstored_linear:
  assumes "\<not> fo_stored o1"
  shows "\<not> fst (finalize_linear_sync sy sa o1 x) \<and> rx_store (snd (finalize_linear_sync sy sa o1 x)) = rx_store x"
proof (cases "connect_for_phase True sa ''linear_mcp.connected_for_finalize'' x")
  case (Pair ok x1)
  show ?thesis
    using assms connected [OF Pair] unfolding finalize_linear_sync_def Let_def Pair
    by (cases ok) simp_all
qed

lemma unstored_github:
  assumes "\<not> fo_stored o1"
  shows "\<not> fst (finalize_github_sync sy sa o1 x) \<and> rx_store (snd (finalize_github_sync sy sa o1 x)) = rx_store x"
proof (cases "connect_for_phase False sa ''github_mcp.connected_for_finalize'' x")
  case (Pair ok x1)
  show ?thesis
    using assms connected [OF Pair] unstored_linear [OF assms, of sy sa x] unfolding finalize_github_sync_def Let_def Pair
    by (cases ok) simp_all
qed

lemma unstored_sync:
  assumes "\<not> fo_stored o1"
  shows "\<not> fst (sync_outcome fa o1 x)" "rx_store (snd (sync_outcome fa o1 x)) = rx_store x"
  using unstored_github [OF assms] by (simp_all add: sync_outcome_def)

lemma heartbeat_outbox [simp]: "db_outbox (snd (heartbeat_lease now i ttl d)) = db_outbox d"
  by (simp add: heartbeat_lease_def Let_def split: option.split)

lemma update_run_outbox [simp]: "db_outbox (snd (update_run now i c d)) = db_outbox d"
  by (simp add: update_run_def Let_def split: option.split)

lemma touch_outbox [simp]: "db_outbox (rx_store (snd (touch_run cfg False u x))) = db_outbox (rx_store x)"
proof (cases "lease_id_of x")
  case (Some lease_id)
  obtain b d where h: "heartbeat_lease (rx_now x) lease_id (rs_lease_ttl cfg) (rx_store x) = (b, d)"
    by (cases "heartbeat_lease (rx_now x) lease_id (rs_lease_ttl cfg) (rx_store x)")
  then have "db_outbox d = db_outbox (rx_store x)" using heartbeat_outbox by (metis snd_conv)
  then show ?thesis using Some h by (cases lease_id) (simp_all add: touch_run_def change_run_row_def Let_def split: option.split)
qed (simp add: touch_run_def change_run_row_def)

lemma mark_done_tables [simp]:
  "db_outbox (rx_store (mark_claim_done r x)) = db_outbox (rx_store x)" "db_runs (rx_store (mark_claim_done r x)) = db_runs (rx_store x)"
  by (simp_all add: mark_claim_done_def mark_task_done_def transition_task_state_def apply_task_state_eq transitioned_def Let_def
      split: option.split)

end
