(* ===== verification/RunResults.thy ===== *)
theory RunResults imports RunCompletion begin

text \<open>
  Runs from their repair loop to their end: what a completed run went through, what any other run leaves
  behind, and what the completed endings do not tell the store.
\<close>

section \<open>The last event\<close>

definition last_event :: "run_context \<Rightarrow> string" where
  "last_event x = (if rx_events x = [] then [] else fst (last (rx_events x)))"

lemma last_event_ops [simp]:
  "last_event (emit k p x) = k" "last_event (change_run_row u x) = last_event x" "last_event (release_run c x) = last_event x"
  "last_event (x\<lparr>rx_store := d\<rparr>) = last_event x"
  by (simp_all add: last_event_def emit_def change_run_row_def release_run_def split: option.split list.split prod.split)

lemma blocked_summary_plain: "\<exists>t. build_blocked_summary title message [] = Inr t"
  by (simp add: build_blocked_summary_def bind_res_def)

lemma block_run_plain: "\<exists>y. block_run phase kind message detail [] p x = (None, y) \<and> last_event y = ''run.blocked''"
proof -
  obtain t where "build_blocked_summary (if rx_task x = [] then JStr (''Blocked at phase: '' @ phase) else dget (rx_task x) ''title'')
      message [] = Inr t"
    using blocked_summary_plain by blast
  then show ?thesis by (simp add: block_run_def Let_def with_summary_def)
qed

lemma block_run_event:
  "block_run phase kind message detail ws p x = (None, y) \<Longrightarrow> last_event y = ''run.blocked''"
  by (auto simp: block_run_def Let_def with_summary_def split: sum.splits)

lemma close_blocked_event: "close_blocked fa m ws o1 p x = (None, y) \<Longrightarrow> last_event y = ''run.blocked''"
  by (auto simp: close_blocked_def with_summary_def split: sum.splits)

lemma crash_event: "last_event (crash_run fa detail x) = ''run.blocked''"
  using block_run_plain by (simp add: crash_run_def Let_def) (metis snd_conv)

lemma failing_end_event:
  assumes "e \<notin> {Finalized, PreSatisfied, CandidatesBlocked}" and "end_run cfg ops fa e x = (None, y)"
  shows "last_event y = ''run.blocked''"
proof -
  have closing: "\<exists>m ws o1 p z. end_run cfg ops fa e x = close_blocked fa m ws o1 p z"
    if "e \<notin> {LostBefore, LostDuring, Finalized, PreSatisfied, CandidatesBlocked} \<union> range Raised"
    using that by (cases e) (simp_all add: end_run_def block_manager_failed_def block_no_targets_def block_worker_failure_def
        block_integration_failed_def block_from_decision_def block_verification_failed_def Let_def, blast+)
  show ?thesis
  proof (cases "e \<in> {LostBefore, LostDuring}")
    case True
    then show ?thesis using assms(2) block_run_event by (auto simp: end_run_def block_lost_def)
  next
    case False
    have "e \<notin> range Raised" using assms(2) by (auto simp: end_run_def)
    then obtain m ws o1 p z where "end_run cfg ops fa e x = close_blocked fa m ws o1 p z" using closing False assms(1) by blast
    then show ?thesis using close_blocked_event assms(2) by metis
  qed
qed

lemma failing_finish_event:
  assumes "e \<notin> {Finalized, PreSatisfied, CandidatesBlocked}"
  shows "last_event (finish_run cfg ops fa e x) = ''run.blocked''"
proof -
  obtain err y where y: "end_run cfg ops fa e x = (err, y)" by (cases "end_run cfg ops fa e x")
  then show ?thesis using failing_end_event [OF assms] crash_event by (cases err) (simp_all add: finish_run_def)
qed

section \<open>The released lease\<close>

lemma decision_statuses:
  "fst (final_lease_release_decision crashed ps) \<in> {''completed'', ''blocked'', ''failed''}"
proof -
  have "fst r \<in> {''completed'', ''blocked'', ''failed''}" if "blocked_payload ps = Some r" for r ps
    using that by (induction ps) (auto split: if_splits)
  moreover have "fst (ended_payload ps) \<in> {''completed'', ''blocked'', ''failed''}" for ps
    by (induction ps) (auto simp: Let_def)
  ultimately show ?thesis by (simp add: final_lease_release_decision_def split: option.split)
qed

lemma release_active:
  assumes "status \<noteq> ''active''" and "get_lease i d = Some l0" and "lease_active l0"
  shows "get_lease i (snd (release_lease now i status reason d)) = Some (end_lease now status reason l0)"
    and "\<forall>t\<in>set (db_tasks (snd (release_lease now i status reason d))). t_key t = l_task_key l0 \<longrightarrow>
      t_claimed_lease_id t \<noteq> Some i \<and> t_state t = task_state_from_lease_status status"
proof -
  have keys: "\<And>l. l_lease_id l = i \<and> lease_active l \<Longrightarrow> l_lease_id (end_lease now status reason l) = l_lease_id l" by (simp add: end_lease_def)
  show "get_lease i (snd (release_lease now i status reason d)) = Some (end_lease now status reason l0)"
    using assms row_by_SomeD [OF assms(2) [unfolded get_lease_def]]
    by (simp add: release_lease_def get_lease_def Let_def row_by_upd_where end_lease_def)
  show "\<forall>t\<in>set (db_tasks (snd (release_lease now i status reason d))). t_key t = l_task_key l0 \<longrightarrow>
      t_claimed_lease_id t \<noteq> Some i \<and> t_state t = task_state_from_lease_status status"
    using assms(2,3) by (auto simp: release_lease_def Let_def upd_where_def set_task_state_def clear_claim_of_def split: if_splits)
qed

lemma release_inactive:
  assumes "get_lease i d = Some l0" and "\<not> lease_active l0"
  shows "release_lease now i status reason d = (Some l0, d)"
  using assms by (simp add: release_lease_def)

lemma release_none:
  assumes "get_lease i d = None"
  shows "release_lease now i status reason d = (None, d)"
  using assms by (simp add: release_lease_def)

lemma finish_releases: "\<exists>crashed z. finish_run cfg ops fa e x = release_run crashed z"
proof -
  obtain err y where "end_run cfg ops fa e x = (err, y)" by (cases "end_run cfg ops fa e x")
  then show ?thesis by (cases err) (auto simp: finish_run_def)
qed

lemma release_run_lease:
  assumes "lease_id_of z = Some i" and "i \<noteq> []" and "release_run crashed z = y"
  shows "(case get_lease i (rx_store y) of None \<Rightarrow> True | Some l \<Rightarrow> \<not> lease_active l)
    \<and> (\<forall>l0. get_lease i (rx_store z) = Some l0 \<and> lease_active l0 \<longrightarrow>
         (\<forall>t\<in>set (db_tasks (rx_store y)). t_key t = l_task_key l0 \<longrightarrow> t_claimed_lease_id t \<noteq> Some i))"
proof -
  obtain st reason where d: "final_lease_release_decision crashed (status_payloads_for_final_release z) = (st, reason)"
    by (cases "final_lease_release_decision crashed (status_payloads_for_final_release z)")
  have st: "st \<noteq> ''active''" using decision_statuses [of crashed "status_payloads_for_final_release z"] d by auto
  have y: "rx_store y = snd (release_lease (rx_now z) i st (Some reason) (rx_store z))"
    using assms d by (cases i) (auto simp: release_run_def)
  show ?thesis
  proof (cases "get_lease i (rx_store z)")
    case None
    then show ?thesis by (simp add: y release_none)
  next
    case (Some l0)
    show ?thesis
    proof (cases "lease_active l0")
      case True
      then show ?thesis using release_active [OF st Some True, of "rx_now z" "Some reason"] Some st
        by (simp add: y end_lease_active_iff)
    next
      case False
      then show ?thesis using Some by (simp add: y release_inactive)
    qed
  qed
qed

section \<open>Published runs\<close>

lemma if_raises: "(if b then (Some e, x) else r) = (None, y) \<Longrightarrow> r = (None, y)"
  by (simp split: if_splits)

lemma with_summary_None: "with_summary summary rest x = (None, y) \<Longrightarrow> \<exists>t. rest (x\<lparr>rx_summary := t\<rparr>) = (None, y)"
  by (auto simp: with_summary_def split: sum.splits)

lemma complete_published_result:
  assumes "complete_published cfg fa x = (None, y)"
  shows "doc_status y = JStr ''completed'' \<and> db_outbox (rx_store y) = db_outbox (rx_store x)
    \<and> dget (rx_blackboard y) ''pull_request'' = dget (rx_blackboard x) ''pull_request''"
proof -
  define a where "a = set_run_status (finished_changes x) x"
  define b where "b = snd (touch_run cfg False \<lparr>ru_status = Some ''completed'', ru_phase = Some ''handoff'', ru_error = None,
      ru_completed = True\<rparr> a)"
  define c where "c = move_task_card_if_present ''review'' ''manager'' ''run completed; awaiting review'' (mark_claim_done ''task completed'' b)"
  have doc: "doc_of c = doc_of a" by (simp add: c_def b_def)
  have out: "db_outbox (rx_store c) = db_outbox (rx_store x)" by (simp add: c_def b_def a_def)
  have done_a: "doc_status a = JStr ''completed''" unfolding a_def by (rule completed_status) (simp add: finished_changes_def Let_def)
  have link: "dget (rx_blackboard a) ''pull_request'' = dget (rx_blackboard x) ''pull_request''" by (simp add: a_def set_run_status_def)
  define o2 where "o2 = (\<lambda>z :: run_context. completed_outcome ''Run completed successfully.'' (fa_diff_stat fa) (code_of (rx_review z)) (code_of (rx_test z)) False)"
  have unstored: "\<not> fo_stored (o2 z)" for z by (simp add: o2_def completed_outcome_def)
  obtain s where y: "y = emit ''run.completed'' [(''result'', JStr ''completed'')] (snd (sync_outcome fa (o2 (c\<lparr>rx_summary := s\<rparr>)) (c\<lparr>rx_summary := s\<rparr>)))"
  proof -
    obtain t where t: "(case sync_outcome fa (o2 (c\<lparr>rx_summary := t\<rparr>)) (c\<lparr>rx_summary := t\<rparr>) of (failed, x4) \<Rightarrow>
        if failed then block_run ''handoff'' ''github_sync_failed'' completed_sync_message github_failed_detail [] [] x4
        else (None, emit ''run.completed'' [(''result'', JStr ''completed'')] x4)) = (None, y)"
      using with_summary_None [OF if_raises [OF if_raises [OF assms [unfolded complete_published_def Let_def,
            folded a_def, folded b_def, folded c_def]]]] unfolding o2_def by blast
    obtain f z where fz: "sync_outcome fa (o2 (c\<lparr>rx_summary := t\<rparr>)) (c\<lparr>rx_summary := t\<rparr>) = (f, z)"
      by (cases "sync_outcome fa (o2 (c\<lparr>rx_summary := t\<rparr>)) (c\<lparr>rx_summary := t\<rparr>)")
    have "\<not> f" using unstored_sync(1) [OF unstored, of fa "c\<lparr>rx_summary := t\<rparr>" "c\<lparr>rx_summary := t\<rparr>"] unfolding fz by (simp only: fst_conv not_False_eq_True)
    then have "y = emit ''run.completed'' [(''result'', JStr ''completed'')] z" using t unfolding fz by (simp only: prod.case if_False prod.inject simp_thms)
    then show thesis by (rule that [of t, unfolded fz snd_conv])
  qed
  have "doc_of y = doc_of a" using doc by (simp add: y)
  moreover have "rx_store y = rx_store c" by (simp add: y unstored_sync(2) [OF unstored])
  ultimately show ?thesis using out done_a link doc_of_facts(1,4) [of y a] by simp
qed

lemma complete_published_event:
  assumes "complete_published cfg fa x = (None, y)"
  shows "last_event y = ''run.completed''"
proof -
  obtain c t o2 where t: "(case sync_outcome fa o2 c of (failed, x4) \<Rightarrow>
      if failed then block_run ''handoff'' ''github_sync_failed'' completed_sync_message github_failed_detail [] [] x4
      else (None, emit ''run.completed'' [(''result'', JStr ''completed'')] x4)) = (None, y)" and "\<not> fo_stored o2"
    using with_summary_None [OF if_raises [OF if_raises [OF assms [unfolded complete_published_def Let_def]]]]
    by (elim exE) (erule that, simp add: completed_outcome_def)
  then show ?thesis using unstored_sync(1) [of o2 fa c] by (cases "sync_outcome fa o2 c") auto
qed

lemma publish_link:
  assumes "publish fa info x = (Published, y)"
  shows "fst (fa_push fa) = 0 \<and> (\<exists>url. url \<noteq> [] \<and> dget (rx_blackboard y) ''pull_request'' = JStr url)"
  using assms by (auto simp: publish_def enqueue_and_dispatch_pr_def keep_pull_request_def put_pull_request_def
      is_created_pull_request_def append_blackboard_note_def append_to_def emit_def Let_def find_Some_iff
      split: if_splits prod.splits option.splits)

lemma finalization_failure_blocked: "doc_blocked (snd (block_finalization_failure kind message x))"
  by (simp add: block_finalization_failure_def block_run_blocked)

text \<open>The commit of a run reached its reader: there is none, or it was pushed and has a pull request.\<close>

definition delivered :: "end_answers \<Rightarrow> run_context \<Rightarrow> bool" where
  "delivered fa y = (fa_current_branch fa = fa_branch fa \<and> (fa_commit fa \<in> {None, Some []}
     \<or> (fst (fa_push fa) = 0 \<and> str_of (dget (rx_blackboard y) ''pull_request'') \<noteq> [])))"

lemma finalized_delivers:
  assumes "finalize_completed_run cfg fa x = (None, y)" and "doc_status y = JStr ''completed''"
  shows "delivered fa y"
proof (cases "fa_current_branch fa = fa_branch fa")
  case False
  then have "y = snd (block_finalization_failure ''run_branch_mismatch'' (branch_message fa) x)"
    using assms(1) by (simp add: finalize_completed_run_def)
  then show ?thesis using finalization_failure_blocked assms(2) blocked_not_completed by blast
next
  case True
  show ?thesis
  proof (cases "fa_commit fa \<in> {None, Some []}")
    case none: False
    then obtain f fs where commit: "fa_commit fa = Some (f # fs)" by (metis insertCI list.exhaust option.exhaust)
    obtain r x2 where p: "publish fa (f # fs) (finished_blackboard fa x) = (r, x2)" by (cases "publish fa (f # fs) (finished_blackboard fa x)")
    have title: "\<exists>t. task_title x = Inr t" using assms(1) True by (cases "task_title x") (simp_all add: finalize_completed_run_def)
    have c: "finalize_completed_run cfg fa x = (case r of Published \<Rightarrow> complete_published cfg fa x2
        | NoPullRequest \<Rightarrow> block_finalization_failure ''pull_request_missing'' no_pull_request_message x2
        | PushFailed \<Rightarrow> block_finalization_failure ''push_failed'' (push_message fa (f # fs)) x2)"
      using True commit p title by (cases r) (auto simp: finalize_completed_run_def)
    have r: "r = Published"
      using assms c finalization_failure_blocked blocked_not_completed by (cases r) (simp_all, (metis snd_conv)+)
    then have fin: "complete_published cfg fa x2 = (None, y)" using assms(1) c by simp
    from publish_link [OF p [unfolded r]] complete_published_result [OF fin] show ?thesis
      by (auto simp: delivered_def True str_of_def)
  qed (simp add: delivered_def True)
qed

section \<open>Satisfied runs\<close>

lemma block_run_not_completed: "block_run phase kind m d ws p x = (None, y) \<Longrightarrow> doc_status y \<noteq> JStr ''completed''"
  using block_run_blocked blocked_not_completed by (metis snd_conv)

lemma satisfied_keeps_runs:
  assumes "complete_pre_satisfied fa x = (None, y)" and "doc_status y = JStr ''completed''"
  shows "db_runs (rx_store y) = db_runs (rx_store x)"
proof -
  define x1 where "x1 = set_run_status (pre_satisfied_changes x)
      (append_blackboard_note ''Repository already satisfied the expected files; skipping worker execution.'' x)"
  define o2 where "o2 = completed_outcome ''Repository already satisfied the requested task.'' (fa_diff_stat fa) (Some 0) (Some 0) True"
  obtain t where t: "(case sync_outcome fa o2 (x1\<lparr>rx_summary := t\<rparr>) of (failed, x3) \<Rightarrow>
      if failed then block_run ''handoff'' ''github_sync_failed'' pre_satisfied_sync_message github_failed_detail [] [] x3
      else (None, emit ''run.completed'' [(''kind'', JStr ''verified_existing'')]
        (mark_claim_done ''repository already satisfied task'' x3))) = (None, y)"
    using with_summary_None [OF assms(1) [unfolded complete_pre_satisfied_def Let_def, folded x1_def, folded o2_def]] by blast
  obtain f z where z: "sync_outcome fa o2 (x1\<lparr>rx_summary := t\<rparr>) = (f, z)" by (cases "sync_outcome fa o2 (x1\<lparr>rx_summary := t\<rparr>)")
  have "\<not> f" using t assms(2) block_run_not_completed unfolding z by auto
  then have "rx_store y = rx_store (mark_claim_done ''repository already satisfied task'' z)" using t unfolding z by auto
  moreover have "db_runs (rx_store z) = db_runs (rx_store x1)"
    using sync_runs [of fa o2 "x1\<lparr>rx_summary := t\<rparr>"] unfolding z by simp
  ultimately show ?thesis by (simp add: x1_def)
qed

lemma release_run_runs: "db_runs (rx_store (release_run crashed x)) = db_runs (rx_store x)"
  by (simp add: release_run_def split: prod.split option.split list.split)

section \<open>Properties\<close>

text \<open>
  C1. A run says completed only for work that was checked and delivered. When the document of a run says
  completed at its end, the repair loop ended in one of three ways: the files were already as the task
  wants them; the phase that prepares existing pull requests answered by itself; or the verification
  policy passed the last review without asking for a repair, and then the checkout was on the run's
  branch and a commit, if there was one, was pushed and has a pull request.
\<close>

theorem completed_run_was_delivered:
  assumes "doc_status (coding_run di cfg ops fa x) = JStr ''completed''"
  shows "\<exists>e y. repair_loop di cfg ops x = (e, y) \<and> (e \<in> {PreSatisfied, CandidatesBlocked} \<or>
    (e = Finalized \<and> delivered fa (coding_run di cfg ops fa x)
     \<and> (\<exists>z v. ph_review ops z = (v, y) \<and> vp_outcome v = ''pass'' \<and> \<not> vp_should_retry v)))"
proof -
  obtain e y where loop: "repair_loop di cfg ops x = (e, y)" by (cases "repair_loop di cfg ops x")
  then have run: "coding_run di cfg ops fa x = finish_run cfg ops fa e y" by (simp add: coding_run_def)
  have ends: "e \<in> {Finalized, PreSatisfied, CandidatesBlocked}"
    using assms failing_ends_blocked blocked_not_completed unfolding run by blast
  show ?thesis
  proof (cases "e = Finalized")
    case True
    obtain z where z: "end_run cfg ops fa e y = (None, z)" "doc_status z = JStr ''completed''"
      "finish_run cfg ops fa e y = release_run None z"
      using finish_completed [OF assms [unfolded run]] by blast
    have "delivered fa z" using finalized_delivers z(1,2) True by (simp add: end_run_def)
    then have "delivered fa (coding_run di cfg ops fa x)"
      using doc_of_facts(4) [OF release_doc, of None z] by (simp add: run z(3) delivered_def)
    moreover obtain z' v where "ph_review ops z' = (v, y)" "vp_outcome v = ''pass''" "\<not> vp_should_retry v"
      using finalized_review [OF loop [unfolded True]] by blast
    ultimately show ?thesis using loop True by blast
  qed (use loop ends in blast)
qed

text \<open>
  C15. Every other run ends blocked and says so. Whatever the phases and the trackers do, a run whose repair
  loop ends in any other way (a lost lease, planning, workers, integration, review, a decision, an exception)
  ends with the status blocked and an active blocker in its document, and the event \<open>run.blocked\<close> as its last,
  even when writing the summary of the ending raises.
\<close>

theorem unfinished_run_is_blocked:
  assumes "repair_loop di cfg ops x = (e, y)" and "e \<notin> {Finalized, PreSatisfied, CandidatesBlocked}"
  shows "doc_blocked (coding_run di cfg ops fa x) \<and> last_event (coding_run di cfg ops fa x) = ''run.blocked''"
  using failing_ends_blocked [OF assms(2)] failing_finish_event [OF assms(2)] by (simp add: coding_run_def assms(1))


text \<open>
  The row of a satisfied run stays open. A run that ends because the repository already satisfies the task says
  completed in its document, but nothing it does from the end of the loop on touches the table of the runs: the row keeps
  the status and the open end it had.
\<close>

theorem satisfied_run_row_stays_open:
  assumes "repair_loop di cfg ops x = (PreSatisfied, y)" and "doc_status (coding_run di cfg ops fa x) = JStr ''completed''"
  shows "db_runs (rx_store (coding_run di cfg ops fa x)) = db_runs (rx_store y)"
proof -
  have run: "coding_run di cfg ops fa x = finish_run cfg ops fa PreSatisfied y" by (simp add: coding_run_def assms(1))
  obtain z where z: "complete_pre_satisfied fa y = (None, z)" "doc_status z = JStr ''completed''"
    "coding_run di cfg ops fa x = release_run None z"
    using finish_completed [OF assms(2) [unfolded run]] by (auto simp: end_run_def run)
  have "db_runs (rx_store z) = db_runs (rx_store y)" using satisfied_keeps_runs [OF z(1,2)] .
  then show ?thesis by (simp add: z(3) release_run_runs)
qed

text \<open>
  C17. The end of a completed run bypasses the outbox. The last steps of a finalized run, after its pull request, leave the
  outbox of the store exactly as it was, whatever the configuration of the trackers and whatever they answer: no message with
  the final status or the summary is enqueued for any tracker (on GitHub the status is then not updated at all, Linear is called directly),
  and the failure that would block the run with \<open>github_sync_failed\<close> cannot occur, the run always says completed.
\<close>

theorem completed_run_enqueues_nothing:
  assumes "complete_published cfg fa x = (None, y)"
  shows "db_outbox (rx_store y) = db_outbox (rx_store x) \<and> doc_status y = JStr ''completed'' \<and> last_event y = ''run.completed''"
  using complete_published_result [OF assms] complete_published_event [OF assms] by blast

text \<open>
  C21. A deferred integration blocks the run. When the integration review prints a blocker that only says that it could not
  inspect the checkout, the run notes that the decision is deferred to the review (the event \<open>integration.deferred\<close> is the last
  one of the pass), and all the same the pass ends there: no review takes place, in no attempt is a retry made, and the
  document of the run ends blocked.
\<close>

theorem deferred_integration_blocks:
  assumes "ph_integration ops (integrating x) = (result, z)" and "return_code result = 0"
    and "integration_blocker_message result = Some m" and "integration_semantic_blocker_can_defer_to_review result m"
  shows "\<exists>y. check_integration cfg ops attempt x = (Ended (IntegrationFailed (Some m)), y) \<and> last_event y = ''integration.deferred''
    \<and> doc_blocked (finish_run cfg ops fa (IntegrationFailed (Some m)) y)"
  using assms failing_ends_blocked [of "IntegrationFailed (Some m)"]
  by (simp add: check_integration_def deferred_note_def Let_def)

end
