(* ===== verification/RunExamples.thy ===== *)
theory RunExamples imports RunResults begin

text \<open>
  Concrete runs: one that is reviewed and published, one that finds its work done, one that has lost its lease,
  one whose workers fail. Each is the witness of a property.
\<close>

section \<open>Answers\<close>

definition quiet_trackers :: tracker_config where
  "quiet_trackers = \<lparr>tk_github_enabled = False, tk_github_scope = [], tk_github_sync = [], tk_linear_enabled = False,
     tk_linear_scope = [], tk_linear_sync = [], tk_claim_status = [], tk_review_status = [], tk_blocked_status = [],
     tk_done_status = [], tk_blocked_label = []\<rparr>"

definition quiet_answers :: sync_answers where
  "quiet_answers = \<lparr>sa_connectors = demo_connectors, sa_clock = (\<lambda>_. 5), sa_server = ''linear'', sa_connect_error = None,
     sa_connected = False, sa_disconnect_error = None, sa_update_warning = [], sa_comment_warning = []\<rparr>"

definition clean_end :: end_answers where
  "clean_end = \<lparr>fa_sync = \<lparr>sy_tracker = quiet_trackers, sy_source_type = ''manual'', sy_done_label = []\<rparr>, fa_trackers = quiet_answers,
     fa_pr_trackers = quiet_answers, fa_server = ''linear'', fa_auth = None, fa_branch = ''aca/t1'', fa_current_branch = ''aca/t1'',
     fa_commit = None, fa_diff_stat = [], fa_push = (0, [], []), fa_pr_body = [], fa_provider = (''p'', ''m''),
     fa_default_branch = ''main'', fa_repo_slug = JNull, fa_files = []\<rparr>"

lemma quiet_sync: "\<not> fst (sync_outcome clean_end o1 x)"
  by (simp add: sync_outcome_def clean_end_def finalize_github_sync_def finalize_linear_sync_def linear_remote_sync_mode_def
      linear_mcp_scope_def github_remote_sync_mode_def github_mcp_scope_def quiet_trackers_def Let_def)

section \<open>A published run\<close>

definition prepared :: "run_context \<Rightarrow> run_context" where
  "prepared x = x\<lparr>rx_task := [(''title'', JStr ''Fix it'')],
     rx_status := dset ''metrics'' (JObj [(''completed_workers'', JInt 1), (''failed_workers'', JInt 0)]) (rx_status x)\<rparr>"

definition ready :: "run_context \<Rightarrow> bool" where
  "ready x = (calm x \<and> rx_task x = [(''title'', JStr ''Fix it'')] \<and> rx_results x = []
     \<and> dget (rx_status x) ''metrics'' = JObj [(''completed_workers'', JInt 1), (''failed_workers'', JInt 0)])"

lemma plan_results:
  "plan_attempt demo_settings (demo_phases work) x = (GoOn, y) \<Longrightarrow> rx_results y = []"
  by (auto simp: plan_attempt_def demo_phases_def return_code_def Let_def split: if_splits)

lemma prepared_dispatch:
  assumes "calm x" and "rx_results x = []"
  shows "\<exists>y. dispatch_attempt demo_settings (demo_phases prepared) x = (GoOn, y) \<and> ready y"
  using assms by (simp add: dispatch_attempt_def demo_phases_def prepared_def ready_def calm_def set_metrics_def run_blocked_def
      workers_failed_def section_of_def Let_def)

lemma ready_integration:
  assumes "ready x"
  shows "\<exists>y. check_integration demo_settings (demo_phases work) 0 x = (GoOn, y) \<and> ready y"
proof -
  have facts: "integration_blocker_message [(''returncode'', JInt 0)] = None" by code_simp
  have "dget (rx_status (emit k p (integrating x))) ''metrics'' = dget (rx_status x) ''metrics''" for k p
    using assms by (simp add: emit_def integrating_def set_run_status_def update_status_def section_of_def ready_def no_status_changes_def)
  then show ?thesis
    using assms by (simp add: check_integration_def demo_phases_def facts return_code_def ready_def calm_def integrating_def set_status_frame
        no_status_changes_def Let_def other_frames workers_failed_def section_of_def)
      (simp add: emit_def set_run_status_def)
qed

lemma ready_diff:
  assumes "ready x"
  shows "\<exists>y. check_diff demo_settings (demo_phases work) 0 x = (GoOn, y) \<and> ready y"
proof -
  have "strip '' src/a.py | 2 +-'' \<noteq> []" by code_simp
  then show ?thesis using assms
    by (simp add: check_diff_def demo_phases_def ready_def calm_def run_blocked_def workers_failed_def section_of_def Let_def)
qed

lemma prepared_finalizes:
  "\<exists>y. repair_loop di demo_settings (demo_phases prepared) demo_start = (Finalized, y) \<and> ready y"
proof -
  let ?ops = "demo_phases prepared"
  have "calm (start_repair demo_settings demo_start)"
    by (simp add: calm_def start_repair_def demo_start_def run_blocked_def workers_failed_def section_of_def)
  then obtain a b where 1: "begin_attempt demo_settings ?ops 0 (start_repair demo_settings demo_start) = (GoOn, a)"
    "plan_attempt demo_settings ?ops a = (GoOn, b)" "calm b"
    by (metis calm_steps(1,2))
  obtain c where 2: "dispatch_attempt demo_settings ?ops b = (GoOn, c)" "ready c"
    using prepared_dispatch [OF 1(3) plan_results [OF 1(2)]] by blast
  obtain d where 3: "check_integration demo_settings ?ops 0 c = (GoOn, d)" "ready d" using ready_integration [OF 2(2)] by blast
  obtain e where 4: "check_diff demo_settings ?ops 0 d = (GoOn, e)" "ready e" using ready_diff [OF 3(2)] by blast
  have "calm c" using 2(2) by (simp add: ready_def)
  then have "run_pass di demo_settings ?ops 0 (start_repair demo_settings demo_start) = (Ended Finalized, e)"
    using 1 2(1) 3(1) 4(1) calm_steps(4,5) by (simp add: run_pass_def then_step_def demo_review)
  moreover have "nat (max_loops demo_settings) = Suc (Suc 0)" by (simp add: demo_budgets)
  ultimately show ?thesis using 4(2) by (simp add: repair_loop_def)
qed

lemma ready_title: "ready x \<Longrightarrow> dget (rx_task x) ''title'' = JStr ''Fix it''"
  by (simp add: ready_def dget_def)

lemma touch_same [simp]:
  "rx_task (snd (touch_run cfg False u x)) = rx_task x" "rx_results (snd (touch_run cfg False u x)) = rx_results x"
  by (simp_all add: touch_run_def change_run_row_def Let_def split: option.split list.split prod.split)

lemma closing_same [simp]:
  "rx_task (move_task_card_if_present l a n x) = rx_task x" "rx_results (move_task_card_if_present l a n x) = rx_results x"
  "rx_task (mark_claim_done r x) = rx_task x" "rx_results (mark_claim_done r x) = rx_results x"
  "rx_task (set_run_status c x) = rx_task x" "rx_results (set_run_status c x) = rx_results x"
  by (simp_all add: move_task_card_if_present_def mark_claim_done_def set_run_status_def Let_def split: sum.split)

lemma ready_published:
  assumes "rx_task x = [(''title'', JStr ''Fix it'')]" and "rx_results x = []"
    and "dget (rx_status x) ''metrics'' = JObj [(''completed_workers'', JInt 1), (''failed_workers'', JInt 0)]"
  shows "\<exists>y. complete_published demo_settings clean_end x = (None, y)"
proof -
  let ?m = "[(''completed_workers'', JInt 1), (''failed_workers'', JInt 0)]"
  have has: "dhas (section_of (rx_status x) ''metrics'') ''completed_workers''" "dhas (section_of (rx_status x) ''metrics'') ''failed_workers''"
    by (simp_all add: section_of_def assms(3) dhas_def)
  define c where "c = move_task_card_if_present ''review'' ''manager'' ''run completed; awaiting review'' (mark_claim_done ''task completed''
     (snd (touch_run demo_settings False \<lparr>ru_status = Some ''completed'', ru_phase = Some ''handoff'', ru_error = None, ru_completed = True\<rparr>
              (set_run_status (finished_changes x) x))))"
  have c: "rx_task c = rx_task x" "rx_results c = rx_results x"
    by (simp_all add: c_def closing_same)
  have "\<exists>t. completed_text clean_end l r t' c = Inr t" for l r t'
    by (simp add: completed_text_def task_title_def c assms(1,2) dhas_def bind_res_def build_completed_summary_def Let_def)
  then show ?thesis using has quiet_sync
    by (simp add: complete_published_def Let_def c_def [symmetric] with_summary_def split: sum.split prod.split) (metis Inl_Inr_False fst_conv)
qed

lemma finalize_prepared:
  assumes "ready x"
  shows "\<exists>y. finalize_completed_run demo_settings clean_end x = (None, y)"
proof -
  have "\<exists>y. complete_published demo_settings clean_end (finished_blackboard clean_end x) = (None, y)"
    by (rule ready_published) (use assms in \<open>simp_all add: ready_def finished_blackboard_def\<close>)
  moreover have "task_title x = Inr (JStr ''Fix it'')" using assms by (simp add: task_title_def ready_def dhas_def dget_def)
  ultimately show ?thesis by (simp add: finalize_completed_run_def clean_end_def)
qed

lemma prepared_completes:
  "doc_status (coding_run di demo_settings (demo_phases prepared) clean_end demo_start) = JStr ''completed''"
proof -
  obtain y where y: "repair_loop di demo_settings (demo_phases prepared) demo_start = (Finalized, y)" "ready y"
    using prepared_finalizes by blast
  obtain z where z: "finalize_completed_run demo_settings clean_end y = (None, z)" using finalize_prepared [OF y(2)] by blast
  have "complete_published demo_settings clean_end (finished_blackboard clean_end y) = (None, z)"
    using z by (simp add: finalize_completed_run_def clean_end_def split: sum.splits)
  then have "doc_status z = JStr ''completed''" using complete_published_result by blast
  then show ?thesis using doc_of_facts(1) [OF release_doc] y(1) z by (simp add: coding_run_def finish_run_def end_run_def)
qed

theorem completed_run_was_delivered_witness:
  "doc_status (coding_run dumps_spaced demo_settings (demo_phases prepared) clean_end demo_start) = JStr ''completed''
   \<and> fst (repair_loop dumps_spaced demo_settings (demo_phases prepared) demo_start) = Finalized
   \<and> (\<exists>e y. repair_loop dumps_spaced demo_settings (demo_phases prepared) demo_start = (e, y)
        \<and> (e \<in> {PreSatisfied, CandidatesBlocked}
          \<or> (e = Finalized \<and> delivered clean_end (coding_run dumps_spaced demo_settings (demo_phases prepared) clean_end demo_start)
             \<and> (\<exists>z v. ph_review (demo_phases prepared) z = (v, y) \<and> vp_outcome v = ''pass'' \<and> \<not> vp_should_retry v))))"
proof -
  obtain y where y: "repair_loop dumps_spaced demo_settings (demo_phases prepared) demo_start = (Finalized, y)" "ready y"
    using prepared_finalizes by blast
  have "fst (repair_loop dumps_spaced demo_settings (demo_phases prepared) demo_start) = Finalized" by (simp add: y(1))
  then show ?thesis using prepared_completes completed_run_was_delivered [OF prepared_completes] by blast
qed

theorem completed_run_enqueues_nothing_witness:
  "\<exists>x y. complete_published demo_settings clean_end x = (None, y) \<and> doc_status y = JStr ''completed''"
proof -
  obtain x where "ready x" using prepared_finalizes by blast
  then obtain y where "complete_published demo_settings clean_end x = (None, y)" using ready_published by (auto simp: ready_def)
  then show ?thesis using completed_run_enqueues_nothing by blast
qed

section \<open>A run that has lost its lease\<close>

definition lost_lease :: lease_row where
  "lost_lease = \<lparr>l_lease_id = ''lease-1'', l_task_key = ''t1'', l_task_id = None, l_run_id = ''r1'', l_worker_id = ''w1'', l_host_id = ''h1'',
     l_role = ''coding'', l_status = ''active'', l_attempt = 1, l_acquired_at = 1, l_heartbeat_at = 1, l_expires_at = 9,
     l_released_at = None, l_release_reason = None, l_metadata = JNull\<rparr>"

definition lost_context :: run_context where
  "lost_context = demo_start\<lparr>rx_lost := True, rx_status := [(''coordination'', JObj [(''lease_id'', JStr ''lease-1'')])],
     rx_store := empty_db\<lparr>db_leases := [lost_lease]\<rparr>\<rparr>"

lemma lost_loop:
  "repair_loop di demo_settings (demo_phases id) lost_context = (LostBefore, put_repair ''attempt'' (JInt 1) (start_repair demo_settings lost_context))"
proof -
  have "nat (max_loops demo_settings) = Suc (Suc 0)" by (simp add: demo_budgets)
  moreover have "run_pass di demo_settings (demo_phases id) 0 (start_repair demo_settings lost_context)
      = (Ended LostBefore, put_repair ''attempt'' (JInt 1) (start_repair demo_settings lost_context))"
    by (simp add: run_pass_def then_step_def begin_attempt_def Let_def change_repair_frame)
      (simp add: start_repair_def lost_context_def preserve_blocked_def preserve_named_def
        preserve_and_reset_blocked_worktree_def demo_phases_def strip_def)
  ultimately show ?thesis by (simp add: repair_loop_def)
qed

theorem unfinished_run_is_blocked_witness:
  "fst (repair_loop dumps_spaced demo_settings (demo_phases id) lost_context) = LostBefore
   \<and> doc_blocked (coding_run dumps_spaced demo_settings (demo_phases id) clean_end lost_context)
   \<and> last_event (coding_run dumps_spaced demo_settings (demo_phases id) clean_end lost_context) = ''run.blocked''"
  using unfinished_run_is_blocked [OF lost_loop, of dumps_spaced clean_end] by (simp add: lost_loop)

lemma block_run_lease: "lease_id_of (snd (block_run phase kind message detail ws p x)) = lease_id_of x"
proof -
  have "doc_of (snd (block_run phase kind message detail ws p x))
      = doc_of (set_run_status ((blocked_changes phase (or_text detail message) kind message ''manager'')\<lparr>sg_run_completed := True\<rparr>) x)"
    unfolding block_run_def Let_def by (rule with_summary_doc) simp
  from doc_of_facts(3) [OF this] show ?thesis by simp
qed

lemma lost_lease_id:
  "lease_id_of (coding_run di demo_settings (demo_phases id) clean_end lost_context) = Some ''lease-1''"
proof -
  let ?y = "put_repair ''attempt'' (JInt 1) (start_repair demo_settings lost_context)"
  have lease: "lease_id_of ?y = Some ''lease-1''"
    by (simp add: put_repair_def change_repair_def in_repair_def start_repair_def lost_context_def lease_id_of_def section_of_def
        text_field_def)
  obtain z where z: "block_lost False ?y = (None, z)" unfolding block_lost_def using block_run_plain by blast
  then have "lease_id_of z = Some ''lease-1''" using block_run_lease lease unfolding block_lost_def by (metis snd_conv)
  then show ?thesis using doc_of_facts(3) [OF release_doc, of None z] z
    by (simp add: coding_run_def lost_loop finish_run_def end_run_def)
qed


section \<open>A satisfied run\<close>

definition satisfied_phases :: run_phases where
  "satisfied_phases = (demo_phases id)\<lparr>ph_prescreen := (\<lambda>x. (True, x\<lparr>rx_planned := [[(''id'', JStr ''s1'')]],
     rx_task := [(''title'', JStr ''Fix it'')]\<rparr>))\<rparr>"

lemma satisfied_loop:
  "\<exists>y. repair_loop di demo_settings satisfied_phases demo_start = (PreSatisfied, y) \<and> rx_task y = [(''title'', JStr ''Fix it'')]
    \<and> rx_results y = []"
proof -
  have "calm (start_repair demo_settings demo_start)"
    by (simp add: calm_def start_repair_def demo_start_def run_blocked_def workers_failed_def section_of_def)
  then obtain a where a: "begin_attempt demo_settings satisfied_phases 0 (start_repair demo_settings demo_start) = (GoOn, a)" "calm a"
    using calm_steps(1) by blast
  have "\<exists>y. plan_attempt demo_settings satisfied_phases a = (Ended PreSatisfied, y) \<and> rx_task y = [(''title'', JStr ''Fix it'')]
      \<and> rx_results y = []"
    using a(2) by (simp add: plan_attempt_def satisfied_phases_def demo_phases_def return_code_def run_blocked_def calm_def Let_def)
  then have "\<exists>y. run_pass di demo_settings satisfied_phases 0 (start_repair demo_settings demo_start) = (Ended PreSatisfied, y)
      \<and> rx_task y = [(''title'', JStr ''Fix it'')] \<and> rx_results y = []"
    using a(1) by (auto simp: run_pass_def then_step_def)
  moreover have "nat (max_loops demo_settings) = Suc (Suc 0)" by (simp add: demo_budgets)
  ultimately show ?thesis by (auto simp: repair_loop_def)
qed

lemma satisfied_completes:
  "doc_status (coding_run di demo_settings satisfied_phases clean_end demo_start) = JStr ''completed''"
proof -
  obtain x where x: "repair_loop di demo_settings satisfied_phases demo_start = (PreSatisfied, x)"
    "rx_task x = [(''title'', JStr ''Fix it'')]" "rx_results x = []"
    using satisfied_loop by blast
  define x1 where "x1 = set_run_status (pre_satisfied_changes x)
      (append_blackboard_note ''Repository already satisfied the expected files; skipping worker execution.'' x)"
  have same: "rx_task x1 = rx_task x" "rx_results x1 = rx_results x" by (simp_all add: x1_def note_same)
  have done_x1: "doc_status x1 = JStr ''completed''" unfolding x1_def by (rule completed_status) (simp add: pre_satisfied_changes_def)
  have words: "\<exists>t. completed_text clean_end l r t' x1 = Inr t" for l r t'
    by (simp add: completed_text_def task_title_def same x(2,3) dhas_def bind_res_def build_completed_summary_def Let_def)
  define o2 where "o2 = completed_outcome ''Repository already satisfied the requested task.'' (fa_diff_stat clean_end) (Some 0) (Some 0) True"
  obtain t where t: "completed_text clean_end (py_or (dget (rx_engine x) ''version'') (py_or (dget (rx_engine x) ''status'') (JStr ''unknown'')))
      (JInt 0) (JInt 0) x1 = Inr t"
    using words by blast
  have x1_engine: "rx_engine x1 = rx_engine x" by (simp add: x1_def set_run_status_def append_blackboard_note_def)
  obtain f z where fz: "sync_outcome clean_end o2 (x1\<lparr>rx_summary := run_text t\<rparr>) = (f, z)"
    by (cases "sync_outcome clean_end o2 (x1\<lparr>rx_summary := run_text t\<rparr>)")
  have "\<not> f" using quiet_sync [of o2 "x1\<lparr>rx_summary := run_text t\<rparr>"] by (simp add: fz)
  then have z: "complete_pre_satisfied clean_end x = (None, emit ''run.completed'' [(''kind'', JStr ''verified_existing'')]
        (mark_claim_done ''repository already satisfied task'' z))"
    unfolding complete_pre_satisfied_def Let_def x1_def [symmetric] o2_def [symmetric] with_summary_def x1_engine t
    by (simp only: sum.case fz prod.case if_False)
  have "doc_of z = doc_of (x1\<lparr>rx_summary := run_text t\<rparr>)" using doc_of_sync [of clean_end o2 "x1\<lparr>rx_summary := run_text t\<rparr>"] by (simp add: fz)
  then have "doc_of (release_run None (emit ''run.completed'' [(''kind'', JStr ''verified_existing'')]
      (mark_claim_done ''repository already satisfied task'' z))) = doc_of x1" by simp
  from doc_of_facts(1) [OF this] show ?thesis
    using done_x1 by (simp add: coding_run_def x(1) finish_run_def end_run_def z)
qed

theorem satisfied_run_row_stays_open_witness:
  "\<exists>y. repair_loop dumps_spaced demo_settings satisfied_phases demo_start = (PreSatisfied, y)
    \<and> db_runs (rx_store (coding_run dumps_spaced demo_settings satisfied_phases clean_end demo_start)) = db_runs (rx_store y)"
proof -
  obtain y where "repair_loop dumps_spaced demo_settings satisfied_phases demo_start = (PreSatisfied, y)" using satisfied_loop by blast
  then show ?thesis using satisfied_run_row_stays_open [OF _ satisfied_completes] by blast
qed

section \<open>A review that could not look\<close>

definition limited_payload :: obj where
  "limited_payload = [(''approved'', JBool False), (''tests'', JStr ''sandbox'')]"

definition limited_review :: obj where
  "limited_review = [(''returncode'', JInt 0), (''stdout'', JStr (dumps (JObj limited_payload)))]"

definition limited_phases :: run_phases where
  "limited_phases = (demo_phases id)\<lparr>ph_integration := (\<lambda>x. (limited_review, x))\<rparr>"

lemma limited_blocker:
  "integration_payload limited_review = limited_payload"
  "integration_blocker_message limited_review
     = Some (''Integration review did not approve the worker result.'' @ integration_payload_details limited_payload)"
proof -
  have wf: "json_wf (JObj limited_payload)" "sort_keys_pairs limited_payload = limited_payload" by code_simp+
  show p: "integration_payload limited_review = limited_payload"
    using printed_object [OF wf] by (simp add: integration_payload_def limited_review_def extract_fenced_json_def str_or_empty_def)
  have "dget limited_payload ''approved'' = JBool False" "limited_payload \<noteq> []" by code_simp+
  then show "integration_blocker_message limited_review
     = Some (''Integration review did not approve the worker result.'' @ integration_payload_details limited_payload)"
    unfolding integration_blocker_message_def Let_def p by simp
qed

text \<open>What is searched for the markers, in lower case.\<close>

definition limited_text :: string where
  "limited_text = lower (join '' '' [dumps (JObj limited_payload), ''Integration review did not approve the worker result.'' @ nlc @ ''Tests: sandbox'',
     [], [], ''sandbox''])"

lemma limited_deferred:
  "integration_semantic_blocker_can_defer_to_review limited_review
     (''Integration review did not approve the worker result.'' @ integration_payload_details limited_payload)"
proof -
  have details: "integration_payload_details limited_payload = nlc @ ''Tests: sandbox''" by code_simp
  have fields: "str_or_empty (dget limited_review ''stdout'') = dumps (JObj limited_payload)"
    "str_or_empty (dget limited_payload ''summary'') = []" "str_or_empty (dget limited_payload ''risks'') = []"
    "str_or_empty (dget limited_payload ''tests'') = ''sandbox''"
    by (simp_all add: limited_review_def limited_payload_def str_or_empty_def)
  have quiet: "\<not> list_ex (contains limited_text) concrete_failure_markers" by code_simp
  have "contains limited_text ''sandbox''" by code_simp
  then have "list_ex (contains limited_text) inspection_markers" by (simp add: inspection_markers_def)
  then show ?thesis
    using quiet unfolding integration_semantic_blocker_can_defer_to_review_def limited_blocker(1) Let_def fields details limited_text_def
    by simp
qed

theorem deferred_integration_blocks_witness:
  "\<exists>y m. check_integration demo_settings limited_phases 0 demo_start = (Ended (IntegrationFailed (Some m)), y)
    \<and> last_event y = ''integration.deferred''"
proof -
  have 1: "ph_integration limited_phases (integrating demo_start) = (limited_review, integrating demo_start)"
    by (simp add: limited_phases_def)
  have 2: "return_code limited_review = 0" by code_simp
  show ?thesis using deferred_integration_blocks [OF 1 2 limited_blocker(2) limited_deferred, of demo_settings 0] by blast
qed

end
