(* ===== verification/WorkerAttempts.thy ===== *)
theory WorkerAttempts imports PyDynamic begin

text \<open>
  The attempts of the workers of a run, and what a worker that lost its attempt may still do
  (src/tandem_agents/core/execution/worker.py and phases/worker_dispatch.py). Two files of the run directory
  are shared by the worker threads and the dispatcher: the execution each worker is on, and the executions
  that were cancelled. A file is the value its text encodes; no file and a text that is no JSON are \<open>None\<close>,
  which every reader treats alike.
\<close>

section \<open>The two files\<close>

record attempt_files =
  af_active :: "json option"
  af_cancelled :: "json option"

type_synonym attempts = "(string \<times> string) list"

definition file_obj :: "json option \<Rightarrow> obj" where
  "file_obj file = (case file of Some (JObj kvs) \<Rightarrow> kvs | _ \<Rightarrow> [])"

definition load_active_worker_attempts :: "json option \<Rightarrow> attempts" where
  "load_active_worker_attempts file =
     map (\<lambda>(k, v). (k, py_str v)) (filter (\<lambda>(k, v). strip k \<noteq> [] \<and> strip (py_str v) \<noteq> []) (file_obj file))"

definition write_active_worker_attempts :: "attempts \<Rightarrow> json option" where
  "write_active_worker_attempts ats = (if ats = [] then None else Some (JObj (map (\<lambda>(k, v). (k, JStr v)) ats)))"

definition mark_active_worker_attempt :: "string \<Rightarrow> string \<Rightarrow> attempt_files \<Rightarrow> attempt_files" where
  "mark_active_worker_attempt worker execution fs =
     (let w = strip worker; e = strip execution in
      if w = [] \<or> e = [] then fs
      else fs\<lparr>af_active := write_active_worker_attempts (AList.update w e (load_active_worker_attempts (af_active fs)))\<rparr>)"

definition clear_active_worker_attempt :: "string \<Rightarrow> string \<Rightarrow> attempt_files \<Rightarrow> attempt_files" where
  "clear_active_worker_attempt worker execution fs =
     (let w = strip worker; e = strip execution; ats = load_active_worker_attempts (af_active fs) in
      if w = [] \<or> e = [] \<or> map_of ats w \<noteq> Some e then fs
      else fs\<lparr>af_active := write_active_worker_attempts (AList.delete w ats)\<rparr>)"

section \<open>Cancelled executions\<close>

definition stripped_strs :: "json list \<Rightarrow> string list" where
  "stripped_strs vs = filter (\<lambda>s. s \<noteq> []) (map (\<lambda>v. strip (py_str v)) vs)"

definition last_n :: "nat \<Rightarrow> 'a list \<Rightarrow> 'a list" where
  "last_n n xs = drop (length xs - n) xs"

text \<open>What the dispatcher reads before it adds an execution: a single text counts as a list of one, unstripped.\<close>

definition cancelled_before :: "json \<Rightarrow> string list" where
  "cancelled_before v = (case v of JStr s \<Rightarrow> [s] | JList vs \<Rightarrow> stripped_strs vs | _ \<Rightarrow> [])"

definition mark_cancelled_worker_attempt :: "string \<Rightarrow> string \<Rightarrow> json option \<Rightarrow> json option" where
  "mark_cancelled_worker_attempt worker execution file =
     (let w = strip worker; e = strip execution; loaded = file_obj file; before = cancelled_before (dget loaded w);
          ats = (if List.member before e then before else before @ [e])
      in if w = [] \<or> e = [] then file else Some (JObj (dset w (JList (map JStr (last_n 20 ats))) loaded)))"

definition clear_active_worker_attempt_marker :: "string \<Rightarrow> attempt_files \<Rightarrow> attempt_files" where
  "clear_active_worker_attempt_marker worker fs =
     (let w = strip worker; loaded = file_obj (af_active fs); rest = AList.delete w loaded in
      if w = [] \<or> \<not> dhas loaded w then fs
      else fs\<lparr>af_cancelled := mark_cancelled_worker_attempt w (nonempty (dget loaded w)) (af_cancelled fs),
              af_active := (if rest = [] then None else Some (JObj rest))\<rparr>)"

definition value_or_list :: "json \<Rightarrow> json list" where
  "value_or_list v = (case v of JList vs \<Rightarrow> vs | _ \<Rightarrow> [v])"

definition load_cancelled_worker_attempts :: "json option \<Rightarrow> (string \<times> string list) list" where
  "load_cancelled_worker_attempts file =
     fold (\<lambda>(k, v) acc. let w = strip k; es = stripped_strs (value_or_list v) in
             if w = [] \<or> es = [] then acc else AList.update w es acc) (file_obj file) []"

definition worker_attempt_is_cancelled :: "attempt_files \<Rightarrow> string \<Rightarrow> string \<Rightarrow> bool" where
  "worker_attempt_is_cancelled fs worker execution =
     (let w = strip worker; e = strip execution in
      w \<noteq> [] \<and> e \<noteq> [] \<and> List.member (case map_of (load_cancelled_worker_attempts (af_cancelled fs)) w of Some es \<Rightarrow> es | None \<Rightarrow> []) e)"

section \<open>Who may still report\<close>

definition worker_event_attempt_is_current :: "attempt_files \<Rightarrow> obj \<Rightarrow> bool" where
  "worker_event_attempt_is_current fs payload =
     (let e = nonempty (dget payload ''execution_id''); w = nonempty (dget payload ''worker_id'') in
      if e = [] \<or> w = [] then True
      else if worker_attempt_is_cancelled fs w e then False
      else strip (case map_of (load_active_worker_attempts (af_active fs)) w of Some s \<Rightarrow> s | None \<Rightarrow> []) = e)"

text \<open>\<open>name.split(marker, 1)[1]\<close>, and nothing when the marker does not occur.\<close>

fun after_first :: "string \<Rightarrow> string \<Rightarrow> string" where
  "after_first marker [] = []"
| "after_first marker (c # s) = (if starts_with (c # s) marker then drop (length marker) (c # s) else after_first marker s)"

definition execution_id_from_worktree_path :: "string \<Rightarrow> string" where
  "execution_id_from_worktree_path name = strip (after_first ''--exec-'' (strip name))"

text \<open>The reader of the prompt stream: without a file of attempts, or with one that is no object, every attempt is current.\<close>

definition log_path_worker_attempt_is_current :: "attempt_files \<Rightarrow> string \<Rightarrow> string \<Rightarrow> bool" where
  "log_path_worker_attempt_is_current fs worker worktree_name =
     (let e = execution_id_from_worktree_path worktree_name; w = strip worker;
          cancelled = (case dget (file_obj (af_cancelled fs)) w of
              JStr s \<Rightarrow> [strip s] | JList vs \<Rightarrow> map (\<lambda>v. strip (py_str v)) vs | _ \<Rightarrow> [])
      in if e = [] \<or> w = [] then True
         else if List.member cancelled e then False
         else (case af_active fs of Some (JObj kvs) \<Rightarrow> nonempty (dget kvs w) = e | _ \<Rightarrow> True))"

definition run_has_terminal_status :: "json option \<Rightarrow> bool" where
  "run_has_terminal_status status = (case status of
      Some (JObj d) \<Rightarrow> (case dget d ''run'' of
          JObj run \<Rightarrow> List.member [''blocked'', ''completed''] (lower (nonempty (dget run ''status'')))
            \<or> dget run ''completed_at_ms'' \<noteq> JNull
        | _ \<Rightarrow> False)
    | _ \<Rightarrow> False)"

text \<open>The log of a worker and the events of the run, an event being its kind and payload.\<close>

record worker_report =
  wr_log :: string
  wr_events :: "(string \<times> obj) list"

definition append_worker_event_if_run_active ::
  "json option \<Rightarrow> attempt_files \<Rightarrow> string \<Rightarrow> string \<Rightarrow> obj \<Rightarrow> worker_report \<Rightarrow> bool \<times> worker_report" where
  "append_worker_event_if_run_active status fs kind run_id payload r =
     (if run_has_terminal_status status then
        (False, r\<lparr>wr_log := wr_log r @ nlc @ ''ACA suppressed late worker event '' @ ticked kind @ '' because run '' @ run_id
           @ '' is already terminal.'' @ nlc\<rparr>)
      else if \<not> worker_event_attempt_is_current fs payload then
        (False, r\<lparr>wr_log := wr_log r @ nlc @ ''ACA suppressed stale worker event '' @ ticked kind @ '' from inactive execution ''
           @ py_str (dget payload ''execution_id'') @ ''.'' @ nlc\<rparr>)
      else (True, r\<lparr>wr_events := wr_events r @ [(kind, payload)]\<rparr>))"

text \<open>A result that came too late: it fails, whatever the worker did.\<close>

definition stale_result :: "string \<Rightarrow> string \<Rightarrow> string \<Rightarrow> bool \<Rightarrow> obj \<Rightarrow> obj" where
  "stale_result reason action log_path write_required result =
     dset ''write_required'' (JBool write_required) (dset ''log_path'' (JStr log_path) (dset ''recovery_action'' (JStr action)
       (dset ''blocker_kind'' (JStr ''stale_worker_result'') (dset ''failure_reason'' (JStr reason)
         (dset ''status'' (JStr ''failed'') (dset ''returncode'' (JInt 1) result))))))"

definition late_terminal_worker_result :: "string \<Rightarrow> bool \<Rightarrow> obj \<Rightarrow> worker_report \<Rightarrow> obj \<times> worker_report" where
  "late_terminal_worker_result log_path write_required result r =
     (dsetdefault ''stdout'' (JStr []) (stale_result ''WORKER_RESULT_AFTER_RUN_TERMINAL''
        ''Inspect the terminal run blocker; this late worker result was intentionally ignored.'' log_path write_required result),
      r\<lparr>wr_log := wr_log r @ nlc
        @ ''ACA ignored this worker result because the run was already terminal before the worker returned.'' @ nlc\<rparr>)"

definition inactive_worker_attempt_result :: "string \<Rightarrow> bool \<Rightarrow> string \<Rightarrow> obj \<Rightarrow> worker_report \<Rightarrow> obj \<times> worker_report" where
  "inactive_worker_attempt_result log_path write_required execution result r =
     (dsetdefault ''stdout'' (JStr []) (dset ''execution_id'' (JStr (strip execution))
        (stale_result ''WORKER_RESULT_AFTER_RETRY_SUPERSEDED''
          ''Inspect the active retry result; this abandoned worker result was intentionally ignored.'' log_path write_required result)),
      r\<lparr>wr_log := wr_log r @ nlc
        @ ''ACA ignored this worker result because a newer retry execution superseded it before sync.'' @ nlc\<rparr>)"

section \<open>Sequences of operations\<close>

text \<open>What the threads of a run do to the two files, in the order in which the operations take place.\<close>

datatype attempt_op = Start string string | Finish string string | Cancel string

fun apply_attempt_op :: "attempt_op \<Rightarrow> attempt_files \<Rightarrow> attempt_files" where
  "apply_attempt_op (Start worker execution) fs = mark_active_worker_attempt worker execution fs"
| "apply_attempt_op (Finish worker execution) fs = clear_active_worker_attempt worker execution fs"
| "apply_attempt_op (Cancel worker) fs = clear_active_worker_attempt_marker worker fs"

fun starts_attempt :: "string \<Rightarrow> string \<Rightarrow> attempt_op \<Rightarrow> bool" where
  "starts_attempt w e (Start worker execution) = (strip worker = w \<and> strip execution = e)"
| "starts_attempt w e _ = False"

section \<open>Lemmas\<close>

text \<open>Attempts as the writer leaves them: no blank worker and no blank execution.\<close>

definition no_blanks :: "attempts \<Rightarrow> bool" where
  "no_blanks ats = list_all (\<lambda>(k, v). strip k \<noteq> [] \<and> strip v \<noteq> []) ats"

lemma load_no_blanks: "no_blanks (load_active_worker_attempts file)"
  by (auto simp: no_blanks_def load_active_worker_attempts_def list_all_iff)

lemma filter_blanks: "no_blanks ats \<Longrightarrow> filter (\<lambda>(k, v). strip k \<noteq> [] \<and> strip (py_str v) \<noteq> []) (map (\<lambda>(k, v). (k, JStr v)) ats)
    = map (\<lambda>(k, v). (k, JStr v)) ats"
  by (induction ats) (auto simp: no_blanks_def)

lemma load_write [simp]: "no_blanks ats \<Longrightarrow> load_active_worker_attempts (write_active_worker_attempts ats) = ats"
  by (simp add: load_active_worker_attempts_def write_active_worker_attempts_def file_obj_def filter_blanks comp_def
      case_prod_beta)

lemma no_blanks_update: "no_blanks ats \<Longrightarrow> strip w \<noteq> [] \<Longrightarrow> strip e \<noteq> [] \<Longrightarrow> no_blanks (AList.update w e ats)"
  by (induction ats) (auto simp: no_blanks_def)

lemma no_blanks_delete: "no_blanks ats \<Longrightarrow> no_blanks (AList.delete w ats)"
  by (auto simp: no_blanks_def list_all_iff AList.delete_eq)

definition active_of :: "attempt_files \<Rightarrow> string \<Rightarrow> string option" where
  "active_of fs w = map_of (load_active_worker_attempts (af_active fs)) w"

lemma active_start:
  "active_of (mark_active_worker_attempt worker execution fs) w =
     (if strip worker = w \<and> w \<noteq> [] \<and> strip execution \<noteq> [] then Some (strip execution) else active_of fs w)"
  by (auto simp: active_of_def mark_active_worker_attempt_def Let_def load_no_blanks no_blanks_update update_conv)

lemma active_finish:
  "active_of (clear_active_worker_attempt worker execution fs) w \<in> {None, active_of fs w}"
  by (auto simp: active_of_def clear_active_worker_attempt_def Let_def load_no_blanks no_blanks_delete AList.delete_conv)

lemma load_delete:
  "map_of (load_active_worker_attempts (Some (JObj (AList.delete v kvs)))) w =
     (if w = v then None else map_of (load_active_worker_attempts (Some (JObj kvs))) w)"
  by (induction kvs) (auto simp: load_active_worker_attempts_def file_obj_def)

lemma load_no_file [simp]: "load_active_worker_attempts None = []" "load_active_worker_attempts (Some (JObj [])) = []"
  by (simp_all add: load_active_worker_attempts_def file_obj_def)

lemma load_missing: "\<not> dhas (file_obj file) w \<Longrightarrow> map_of (load_active_worker_attempts file) w = None"
  by (force simp: load_active_worker_attempts_def dhas_def map_of_eq_None_iff)

lemma load_file_obj: "load_active_worker_attempts file = load_active_worker_attempts (Some (JObj (file_obj file)))"
  by (simp add: load_active_worker_attempts_def file_obj_def)

lemma active_cancel:
  "active_of (clear_active_worker_attempt_marker worker fs) w = (if w = strip worker \<and> w \<noteq> [] then None else active_of fs w)"
proof (cases "strip worker = [] \<or> \<not> dhas (file_obj (af_active fs)) (strip worker)")
  case True
  then show ?thesis using load_missing [of "af_active fs" "strip worker"]
    by (auto simp: active_of_def clear_active_worker_attempt_marker_def)
next
  case False
  define rest where "rest = AList.delete (strip worker) (file_obj (af_active fs))"
  have "load_active_worker_attempts (if rest = [] then None else Some (JObj rest)) = load_active_worker_attempts (Some (JObj rest))"
    by simp
  then have "active_of (clear_active_worker_attempt_marker worker fs) w = map_of (load_active_worker_attempts (Some (JObj rest))) w"
    using False by (simp add: active_of_def clear_active_worker_attempt_marker_def rest_def Let_def)
  then show ?thesis using False load_delete [of "strip worker" "file_obj (af_active fs)" w] load_file_obj [of "af_active fs"]
    by (simp add: rest_def active_of_def)
qed

text \<open>An execution that is not the active one of its worker does not become it unless it is started again.\<close>

definition runs_on :: "attempt_files \<Rightarrow> string \<Rightarrow> string \<Rightarrow> bool" where
  "runs_on fs w e \<longleftrightarrow> map_option strip (active_of fs w) = Some e"

lemma stays_inactive:
  assumes "\<forall>op\<in>set ops. \<not> starts_attempt w e op" and "\<not> runs_on fs w e"
  shows "\<not> runs_on (fold apply_attempt_op ops fs) w e"
  using assms
proof (induction ops arbitrary: fs)
  case (Cons op ops)
  have "\<not> runs_on (apply_attempt_op op fs) w e"
  proof (cases op)
    case (Finish v x)
    then show ?thesis using Cons.prems(2) active_finish [of v x fs w] by (auto simp: runs_on_def)
  qed (use Cons.prems in \<open>auto simp: runs_on_def active_start active_cancel split: if_splits\<close>)
  then show ?case using Cons by simp
qed simp

lemma current_iff:
  assumes "nonempty (dget payload ''worker_id'') = w" "nonempty (dget payload ''execution_id'') = e" "w \<noteq> []" "e \<noteq> []"
  shows "worker_event_attempt_is_current fs payload \<longleftrightarrow> runs_on fs w e \<and> \<not> worker_attempt_is_cancelled fs w e"
  using assms by (auto simp: worker_event_attempt_is_current_def runs_on_def active_of_def split: option.splits)

section \<open>Attempts that lost their worker\<close>

text \<open>
  A cancelled attempt stays silent. Once the dispatcher has cleared the attempt of a worker, nothing that the threads of
  the run do to the files afterwards, in whatever order, lets an execution of that worker report an event to the run's log
  again, unless that very execution is started again; only the worker's own log grows.
\<close>

theorem cancelled_attempt_stays_silent:
  assumes "nonempty (dget payload ''worker_id'') = w" and "nonempty (dget payload ''execution_id'') = e" and "w \<noteq> []" and "e \<noteq> []"
    and "\<forall>op\<in>set ops. \<not> starts_attempt w e op"
  shows "\<exists>r'. append_worker_event_if_run_active status (fold apply_attempt_op ops (apply_attempt_op (Cancel w) fs)) kind run_id payload r
      = (False, r') \<and> wr_events r' = wr_events r"
proof -
  have "\<not> runs_on (apply_attempt_op (Cancel w) fs) w e"
    using assms(1,3) strip_nonempty [of "dget payload ''worker_id''"] by (simp add: runs_on_def active_cancel)
  from stays_inactive [OF assms(5) this]
  have "\<not> worker_event_attempt_is_current (fold apply_attempt_op ops (apply_attempt_op (Cancel w) fs)) payload"
    by (simp add: current_iff [OF assms(1-4)])
  then show ?thesis by (simp add: append_worker_event_if_run_active_def)
qed

text \<open>Only the newest execution of a worker may report, and only while it is not cancelled.\<close>

theorem newest_attempt_reports:
  assumes "nonempty (dget payload ''worker_id'') = w" and "nonempty (dget payload ''execution_id'') = e" and "w \<noteq> []" and "e \<noteq> []"
    and "strip worker = w" and "strip execution \<noteq> []"
  shows "worker_event_attempt_is_current (apply_attempt_op (Start worker execution) fs) payload
    \<longleftrightarrow> e = strip execution \<and> \<not> worker_attempt_is_cancelled fs w e"
proof -
  have "worker_attempt_is_cancelled (mark_active_worker_attempt worker execution fs) w e = worker_attempt_is_cancelled fs w e"
    by (simp add: worker_attempt_is_cancelled_def mark_active_worker_attempt_def Let_def)
  then show ?thesis using assms(3-6) by (auto simp: current_iff [OF assms(1-4)] runs_on_def active_start)
qed

end
