(* ===== verification/EngineSessions.thy ===== *)
theory EngineSessions imports WorkerAttempts RunState begin

text \<open>
  The engine sessions of the workers of a run: the file \<open>active_worker_engine_sessions.json\<close>, in which a worker
  records its session, and its three writers, the worker (src/tandem_agents/core/execution/worker.py), the
  dispatcher (phases/worker_dispatch.py) and the planner (phases/planning.py). The recovery of a restarted
  program is in OrphanSessions. The file is the value its text encodes, \<open>None\<close> for no file or no JSON.
\<close>

section \<open>Reading and writing the file\<close>

type_synonym sessions = "(string \<times> obj) list"

definition session_of :: "obj \<Rightarrow> string" where
  "session_of info = nonempty (dget info ''session_id'')"

definition put_session :: "string \<Rightarrow> obj \<Rightarrow> obj" where
  "put_session s info = dset ''session_id'' (JStr s) info"

text \<open>One entry of the file; an entry without a worker or a session is dropped.\<close>

definition add_session :: "string \<Rightarrow> obj \<Rightarrow> sessions \<Rightarrow> sessions" where
  "add_session k info acc = (if strip k = [] \<or> session_of info = [] then acc
     else AList.update (strip k) (put_session (session_of info) info) acc)"

definition load_active_worker_engine_sessions :: "json option \<Rightarrow> sessions" where
  "load_active_worker_engine_sessions file =
     fold (\<lambda>(k, v). case v of JObj info \<Rightarrow> add_session k info | _ \<Rightarrow> id) (file_obj file) []"

definition sessions_obj :: "sessions \<Rightarrow> obj" where
  "sessions_obj ss = map (\<lambda>(w, info). (w, JObj info)) ss"

definition file_of :: "sessions \<Rightarrow> json option" where
  "file_of ss = (if ss = [] then None else Some (JObj (sessions_obj ss)))"

definition write_active_worker_engine_sessions :: "sessions \<Rightarrow> json option" where
  "write_active_worker_engine_sessions ss = file_of (fold (\<lambda>(k, info). add_session k info) ss [])"

definition info_of :: "sessions \<Rightarrow> string \<Rightarrow> obj" where
  "info_of ss w = (case map_of ss w of Some info \<Rightarrow> info | None \<Rightarrow> [])"

section \<open>The worker\<close>

definition marks_sessions :: "string \<Rightarrow> bool" where
  "marks_sessions w = (w = ''manager'' \<or> starts_with w ''worker-'')"

definition mark_active_worker_engine_session ::
  "int \<Rightarrow> string \<Rightarrow> string option \<Rightarrow> string \<Rightarrow> string \<Rightarrow> string \<Rightarrow> json option \<Rightarrow> json option" where
  "mark_active_worker_engine_session now log_path cwd worker session run file =
     (let w = strip worker; s = strip session; ss = load_active_worker_engine_sessions file; current = info_of ss w;
          run_id = (if run \<noteq> [] then strip run else nonempty (dget current ''run_id''));
          current = dset ''updated_at_ms'' (JInt now) (dset ''log_path'' (JStr log_path) (dset ''run_id'' (JStr run_id)
            (put_session s current)))
      in if \<not> marks_sessions w \<or> s = [] then file
         else write_active_worker_engine_sessions (AList.update w (put_opt ''cwd'' cwd current) ss))"

definition clear_active_worker_engine_session :: "string \<Rightarrow> string \<Rightarrow> json option \<Rightarrow> json option" where
  "clear_active_worker_engine_session worker session file =
     (let w = strip worker; s = strip session; ss = load_active_worker_engine_sessions file in
      if \<not> marks_sessions w \<or> s = [] \<or> session_of (info_of ss w) \<noteq> s then file
      else write_active_worker_engine_sessions (AList.delete w ss))"

definition failed_cleanup :: "int \<Rightarrow> string \<Rightarrow> string \<Rightarrow> obj \<Rightarrow> obj" where
  "failed_cleanup now session error info =
     dset ''cleanup_error'' (JStr (take 500 (if error \<noteq> [] then error else ''session_delete_failed'')))
       (dset ''cleanup_failed_at_ms'' (JInt now) (put_session session info))"

definition mark_session_cleanup_failed :: "int \<Rightarrow> string \<Rightarrow> string \<Rightarrow> string \<Rightarrow> json option \<Rightarrow> json option" where
  "mark_session_cleanup_failed now worker session error file =
     (let w = strip worker; s = strip session; ss = load_active_worker_engine_sessions file in
      if \<not> marks_sessions w \<or> s = [] then file
      else write_active_worker_engine_sessions (AList.update w (failed_cleanup now s error (info_of ss w)) ss))"

section \<open>The dispatcher\<close>

definition pop_active_worker_engine_session :: "string \<Rightarrow> json option \<Rightarrow> json option" where
  "pop_active_worker_engine_session worker file =
     (let w = strip worker in
      if w = [] then file else file_of (AList.delete w (load_active_worker_engine_sessions file)))"

definition mark_dispatch_cleanup_failed :: "int \<Rightarrow> string \<Rightarrow> obj \<Rightarrow> string \<Rightarrow> json option \<Rightarrow> json option" where
  "mark_dispatch_cleanup_failed now worker info error file =
     (let w = strip worker; s = session_of info; ss = load_active_worker_engine_sessions file;
          current = (case map_of ss w of Some i \<Rightarrow> i | None \<Rightarrow> info)
      in if w = [] \<or> s = [] then file
         else Some (JObj (sessions_obj (AList.update w (failed_cleanup now s error current) ss))))"

definition session_payload :: "string \<Rightarrow> obj \<Rightarrow> string \<Rightarrow> obj" where
  "session_payload worker info reason = [(''worker_id'', JStr worker), (''session_id'', JStr (session_of info)),
     (''engine_run_id'', JStr (nonempty (dget info ''run_id''))), (''reason'', JStr reason)]"

definition cancel_reason :: "string \<Rightarrow> string \<Rightarrow> string" where
  "cancel_reason fallback reason = (if strip reason = [] then fallback else strip reason)"

section \<open>The planner\<close>

definition pop_active_engine_session :: "string \<Rightarrow> json option \<Rightarrow> obj \<times> json option" where
  "pop_active_engine_session role file =
     (let r = strip role in case file of
        Some (JObj loaded) \<Rightarrow> (if r = [] then ([], file)
          else (obj_of (dget loaded r), let rest = AList.delete r loaded in if rest = [] then None else Some (JObj rest)))
      | _ \<Rightarrow> ([], file))"

text \<open>The file and the events after a cancelled planning session, with what the engine answers to the delete.\<close>

definition cancel_active_manager_engine_session ::
  "string \<Rightarrow> string option \<Rightarrow> json option \<times> (string \<times> obj) list \<Rightarrow> json option \<times> (string \<times> obj) list" where
  "cancel_active_manager_engine_session reason error st =
     (let (info, file) = pop_active_engine_session ''manager'' (fst st); r = cancel_reason ''manager_cancelled'' reason;
          payload = tl (session_payload [] info r)
      in if session_of info = [] then (file, snd st)
         else (file, snd st @ [(''manager.engine_cancel_requested'', payload),
           (case error of None \<Rightarrow> (''manager.engine_cancelled'', payload)
            | Some e \<Rightarrow> (''manager.engine_cancel_failed'', payload @ [(''error'', JStr (take 500 e))]))]))"

section \<open>Sessions over time\<close>

text \<open>
  The state the threads share. \<open>es_live\<close> are the sessions the engine holds, with the worker they belong to;
  \<open>es_running\<close> those whose worker thread has not yet left its prompt; \<open>es_deleting\<close> the deletions the dispatcher
  has handed to a thread of their own, with what it read from the file. A delete that fails may or may not
  have deleted the session.
\<close>

record engine_state =
  es_file :: "json option"
  es_attempts :: attempt_files
  es_events :: "(string \<times> obj) list"
  es_live :: "(string \<times> string) set"
  es_running :: "(string \<times> string) set"
  es_deleting :: "(string \<times> obj \<times> string) list"

definition start_session :: "int \<Rightarrow> string \<Rightarrow> string \<Rightarrow> string \<Rightarrow> string \<Rightarrow> engine_state \<Rightarrow> engine_state" where
  "start_session now log_path cwd w s x = x\<lparr>es_live := insert (w, s) (es_live x), es_running := insert (w, s) (es_running x),
     es_file := mark_active_worker_engine_session now log_path (Some cwd) w s [] (es_file x)\<rparr>"

definition end_session :: "int \<Rightarrow> string option \<Rightarrow> string \<Rightarrow> string \<Rightarrow> engine_state \<Rightarrow> engine_state" where
  "end_session now error w s x = (let x1 = x\<lparr>es_running := es_running x - {(w, s)}\<rparr> in case error of
       None \<Rightarrow> x1\<lparr>es_live := es_live x - {(w, s)}, es_file := clear_active_worker_engine_session w s (es_file x)\<rparr>
     | Some e \<Rightarrow> x1\<lparr>es_file := mark_session_cleanup_failed now w s e (es_file x)\<rparr>)"

definition cancel_active_worker_engine_session :: "string \<Rightarrow> string \<Rightarrow> engine_state \<Rightarrow> engine_state" where
  "cancel_active_worker_engine_session worker reason x =
     (let x1 = x\<lparr>es_attempts := clear_active_worker_attempt_marker worker (es_attempts x)\<rparr>;
          info = info_of (load_active_worker_engine_sessions (es_file x)) (strip worker); r = cancel_reason ''worker_cancelled'' reason
      in if session_of info = [] then x1
         else x1\<lparr>es_events := es_events x @ [(''worker.engine_cancel_requested'', session_payload worker info r)],
                 es_deleting := es_deleting x @ [(worker, info, r)]\<rparr>)"

definition finish_delete :: "int \<Rightarrow> string option \<Rightarrow> string \<times> obj \<times> string \<Rightarrow> engine_state \<Rightarrow> engine_state" where
  "finish_delete now error d x = (case d of (worker, info, r) \<Rightarrow>
     let x1 = x\<lparr>es_deleting := remove1 d (es_deleting x)\<rparr> in case error of
       None \<Rightarrow> x1\<lparr>es_live := es_live x - {(strip worker, session_of info)},
           es_file := pop_active_worker_engine_session worker (es_file x),
           es_events := es_events x @ [(''worker.engine_cancelled'', session_payload worker info r)]\<rparr>
     | Some e \<Rightarrow> x1\<lparr>es_file := mark_dispatch_cleanup_failed now worker info e (es_file x),
           es_events := es_events x @ [(''worker.engine_cancel_failed'', session_payload worker info r @ [(''error'', JStr (take 500 e))])]\<rparr>)"

text \<open>
  The steps. With \<open>orderly\<close> a worker opens a session only when its last one is over and no deletion of it is
  under way; the program does not wait for that.
\<close>

definition free_worker :: "string \<Rightarrow> engine_state \<Rightarrow> bool" where
  "free_worker w x \<longleftrightarrow> (\<forall>p\<in>es_live x \<union> es_running x. fst p \<noteq> w) \<and> list_all (\<lambda>(v, _). strip v \<noteq> w) (es_deleting x)"

definition is_name :: "string \<Rightarrow> bool" where
  "is_name s \<longleftrightarrow> s \<noteq> [] \<and> strip s = s"

inductive session_step :: "bool \<Rightarrow> engine_state \<Rightarrow> engine_state \<Rightarrow> bool" for orderly where
  Opened: "is_name w \<Longrightarrow> is_name s \<Longrightarrow> marks_sessions w \<Longrightarrow> (orderly \<longrightarrow> free_worker w x)
    \<Longrightarrow> session_step orderly x (start_session now log_path cwd w s x)"
| Closed: "(w, s) \<in> es_running x \<Longrightarrow> session_step orderly x (end_session now error w s x)"
| Requested: "session_step orderly x (cancel_active_worker_engine_session worker reason x)"
| Answered: "d \<in> set (es_deleting x) \<Longrightarrow> session_step orderly x (finish_delete now error d x)"
| Lost: "session_step orderly x (x\<lparr>es_live := es_live x - lost\<rparr>)"

inductive session_runs :: "bool \<Rightarrow> engine_state \<Rightarrow> engine_state \<Rightarrow> bool" for orderly where
  Here: "session_runs orderly x x"
| Then: "session_runs orderly x y \<Longrightarrow> session_step orderly y z \<Longrightarrow> session_runs orderly x z"

definition marker :: "json option \<Rightarrow> string \<Rightarrow> string option" where
  "marker file w = map_option session_of (map_of (load_active_worker_engine_sessions file) w)"

text \<open>No session of the engine is forgotten: the file names it.\<close>

definition all_marked :: "engine_state \<Rightarrow> bool" where
  "all_marked x \<longleftrightarrow> (\<forall>(w, s)\<in>es_live x. marker (es_file x) w = Some s)"

section \<open>Reading back what was written\<close>

definition tidy_entry :: "string \<times> obj \<Rightarrow> bool" where
  "tidy_entry e \<longleftrightarrow> is_name (fst e) \<and> (\<exists>s. is_name s \<and> dget (snd e) ''session_id'' = JStr s)"

definition tidy :: "sessions \<Rightarrow> bool" where
  "tidy ss \<longleftrightarrow> distinct (map fst ss) \<and> list_all tidy_entry ss"

lemma strip_name: "strip s \<noteq> [] \<Longrightarrow> is_name (strip s)"
  by (simp add: is_name_def)

lemma dset_same: "dget d k = v \<Longrightarrow> v \<noteq> JNull \<Longrightarrow> dset k v d = d"
  by (induction d) (auto simp: dset_def)

lemma session_of_put [simp]: "is_name s \<Longrightarrow> session_of (put_session s info) = s"
  by (simp add: session_of_def put_session_def is_name_def)

lemma tidy_put: "is_name w \<Longrightarrow> is_name s \<Longrightarrow> tidy_entry (w, put_session s info)"
  by (auto simp: tidy_entry_def put_session_def)

lemma session_of_name: "session_of info \<noteq> [] \<Longrightarrow> is_name (session_of info)"
  by (simp add: session_of_def is_name_def)

lemma list_all_update: "list_all P ss \<Longrightarrow> P (w, i) \<Longrightarrow> list_all P (AList.update w i ss)"
  by (induction ss) auto

lemma update_new: "w \<notin> fst ` set ss \<Longrightarrow> AList.update w i ss = ss @ [(w, i)]"
  by (induction ss) auto

lemma tidy_Nil [simp]: "tidy []"
  by (simp add: tidy_def)

lemma tidy_update: "tidy ss \<Longrightarrow> tidy_entry (w, i) \<Longrightarrow> tidy (AList.update w i ss)"
  by (simp add: tidy_def distinct_update list_all_update)

lemma list_all_delete: "list_all P ss \<Longrightarrow> list_all P (AList.delete w ss)"
  by (induction ss) auto

lemma tidy_delete: "tidy ss \<Longrightarrow> tidy (AList.delete w ss)"
  by (simp add: tidy_def distinct_delete list_all_delete)

lemma add_session_tidy: "tidy acc \<Longrightarrow> tidy (add_session k info acc)"
  by (simp add: add_session_def tidy_update tidy_put strip_name session_of_name)

lemma add_session_new:
  "tidy_entry (w, i) \<Longrightarrow> w \<notin> fst ` set acc \<Longrightarrow> add_session w i acc = acc @ [(w, i)]"
  by (auto simp: add_session_def tidy_entry_def is_name_def session_of_def put_session_def dset_same update_new)

lemma fold_tidy: "tidy acc \<Longrightarrow> tidy (fold (\<lambda>(k, v). case v of JObj info \<Rightarrow> add_session k info | _ \<Rightarrow> id) kvs acc)"
  by (induction kvs arbitrary: acc) (auto simp: add_session_tidy split: json.split)

lemma load_tidy [simp]: "tidy (load_active_worker_engine_sessions file)"
  by (simp add: load_active_worker_engine_sessions_def fold_tidy)

lemma fold_add_tidy: "tidy (acc @ ss) \<Longrightarrow> fold (\<lambda>(k, info). add_session k info) ss acc = acc @ ss"
proof (induction ss arbitrary: acc)
  case (Cons e ss)
  have "add_session (fst e) (snd e) acc = acc @ [e]" using Cons.prems add_session_new [of "fst e" "snd e" acc] by (simp add: tidy_def)
  then show ?case using Cons by (simp add: case_prod_beta)
qed simp

lemma load_sessions_obj:
  assumes "tidy ss"
  shows "load_active_worker_engine_sessions (Some (JObj (sessions_obj ss))) = ss"
proof -
  have "fold (\<lambda>(k, v). case v of JObj info \<Rightarrow> add_session k info | _ \<Rightarrow> id) (sessions_obj ss) acc
      = fold (\<lambda>(k, info). add_session k info) ss acc" for acc
    by (induction ss arbitrary: acc) (auto simp: sessions_obj_def)
  then show ?thesis using fold_add_tidy [of "[]" ss] assms by (simp add: load_active_worker_engine_sessions_def file_obj_def)
qed

lemma load_file_of [simp]: "tidy ss \<Longrightarrow> load_active_worker_engine_sessions (file_of ss) = ss"
  by (simp add: file_of_def load_sessions_obj) (simp add: load_active_worker_engine_sessions_def file_obj_def)

lemma write_tidy [simp]: "tidy ss \<Longrightarrow> write_active_worker_engine_sessions ss = file_of ss"
  using fold_add_tidy [of "[]" ss] by (simp add: write_active_worker_engine_sessions_def)

section \<open>What every operation does to a marker\<close>

lemma marker_file_of: "tidy ss \<Longrightarrow> marker (file_of ss) w = map_option session_of (map_of ss w)"
  by (simp add: marker_def)

lemma session_of_dset [simp]: "k \<noteq> ''session_id'' \<Longrightarrow> session_of (dset k v i) = session_of i"
  by (simp add: session_of_def)

lemma tidy_dset: "tidy_entry (w, i) \<Longrightarrow> k \<noteq> ''session_id'' \<Longrightarrow> tidy_entry (w, dset k v i)"
  by (simp add: tidy_entry_def)

lemma put_opt_session: "k \<noteq> ''session_id'' \<Longrightarrow> session_of (put_opt k c i) = session_of i"
  "tidy_entry (w, i) \<Longrightarrow> k \<noteq> ''session_id'' \<Longrightarrow> tidy_entry (w, put_opt k c i)"
  by (simp_all add: put_opt_def tidy_dset split: option.split)

lemma marker_put:
  assumes "tidy_entry (w, i)"
  shows "marker (file_of (AList.update w i (load_active_worker_engine_sessions file))) v = (if v = w then Some (session_of i) else marker file v)"
  using assms by (simp add: marker_file_of tidy_update update_conv' ) (simp add: marker_def)

lemma marker_remove:
  "marker (file_of (AList.delete w (load_active_worker_engine_sessions file))) v = (if v = w then None else marker file v)"
  by (simp add: marker_file_of tidy_delete delete_conv') (simp add: marker_def)

lemma failed_cleanup_entry:
  "is_name w \<Longrightarrow> is_name s \<Longrightarrow> tidy_entry (w, failed_cleanup now s e i)" "is_name s \<Longrightarrow> session_of (failed_cleanup now s e i) = s"
  by (simp_all add: failed_cleanup_def tidy_dset tidy_put)

lemma marker_mark:
  assumes "is_name w" "is_name s" "marks_sessions w"
  shows "marker (mark_active_worker_engine_session now lp cwd w s run file) v = (if v = w then Some s else marker file v)"
proof -
  have names: "strip w = w" "strip s = s" "s \<noteq> []" using assms by (simp_all add: is_name_def)
  show ?thesis using assms
    by (simp add: mark_active_worker_engine_session_def Let_def names marker_put tidy_update put_opt_session tidy_dset tidy_put)
qed

lemma marker_clear:
  assumes "is_name w" "is_name s" "marks_sessions w"
  shows "marker (clear_active_worker_engine_session w s file) v = (if v = w \<and> marker file w = Some s then None else marker file v)"
proof -
  have names: "strip w = w" "strip s = s" "s \<noteq> []" using assms by (simp_all add: is_name_def)
  have "session_of (info_of (load_active_worker_engine_sessions file) w) = s \<longleftrightarrow> marker file w = Some s"
    using names(3) by (auto simp: info_of_def marker_def session_of_def split: option.split)
  then show ?thesis using assms
    by (simp add: clear_active_worker_engine_session_def Let_def names marker_remove tidy_delete)
qed

lemma marker_failed:
  assumes "is_name w" "is_name s" "marks_sessions w"
  shows "marker (mark_session_cleanup_failed now w s e file) v = (if v = w then Some s else marker file v)"
proof -
  have names: "strip w = w" "strip s = s" "s \<noteq> []" using assms by (simp_all add: is_name_def)
  show ?thesis using assms
    by (simp add: mark_session_cleanup_failed_def Let_def names marker_put tidy_update failed_cleanup_entry)
qed

lemma marker_pop: "marker (pop_active_worker_engine_session w file) v = (if v = strip w \<and> strip w \<noteq> [] then None else marker file v)"
  by (simp add: pop_active_worker_engine_session_def Let_def marker_remove)

lemma marker_dispatch_failed:
  assumes "strip w \<noteq> []" "session_of info \<noteq> []"
  shows "marker (mark_dispatch_cleanup_failed now w info e file) v = (if v = strip w then Some (session_of info) else marker file v)"
proof -
  have "is_name (strip w)" "is_name (session_of info)" using assms strip_name session_of_name by auto
  moreover have "sessions_obj ss \<noteq> [] \<Longrightarrow> Some (JObj (sessions_obj ss)) = file_of ss" for ss by (auto simp: file_of_def sessions_obj_def)
  moreover have "sessions_obj (AList.update x y ss) \<noteq> []" for x y ss by (cases ss) (auto simp: sessions_obj_def)
  ultimately show ?thesis using assms
    by (simp add: mark_dispatch_cleanup_failed_def Let_def marker_put failed_cleanup_entry)
qed

section \<open>Orderly runs keep every session marked\<close>

definition tracked :: "engine_state \<Rightarrow> (string \<times> string) set" where
  "tracked x = es_live x \<union> es_running x"

text \<open>A worker has one session at a time, and whatever is being deleted for it is that session.\<close>

definition orderly_state :: "engine_state \<Rightarrow> bool" where
  "orderly_state x \<longleftrightarrow>
     (\<forall>w s. (w, s) \<in> tracked x \<longrightarrow> is_name w \<and> is_name s \<and> marks_sessions w \<and> (\<forall>s'. (w, s') \<in> tracked x \<longrightarrow> s' = s)
        \<and> marker (es_file x) w \<in> (if (w, s) \<in> es_live x then {Some s} else {None, Some s}))
     \<and> (\<forall>v i r. (v, i, r) \<in> set (es_deleting x) \<longrightarrow> strip v \<noteq> [] \<and> session_of i \<noteq> []
        \<and> (\<forall>s. (strip v, s) \<in> tracked x \<longrightarrow> s = session_of i))"

lemma orderlyD:
  assumes "orderly_state x" "(w, s) \<in> tracked x"
  shows "is_name w" "is_name s" "marks_sessions w" "(w, s') \<in> tracked x \<Longrightarrow> s' = s"
    "(w, s) \<in> es_live x \<Longrightarrow> marker (es_file x) w = Some s" "marker (es_file x) w \<in> {None, Some s}"
  using assms unfolding orderly_state_def by (auto split: if_splits)

lemma orderly_marked: "orderly_state x \<Longrightarrow> all_marked x"
  by (auto simp: all_marked_def tracked_def dest: orderlyD(5))

lemma orderlyI:
  assumes "\<And>w s. (w, s) \<in> tracked x \<Longrightarrow> is_name w \<and> is_name s \<and> marks_sessions w"
    and "\<And>w s s'. (w, s) \<in> tracked x \<Longrightarrow> (w, s') \<in> tracked x \<Longrightarrow> s' = s"
    and "\<And>w s. (w, s) \<in> tracked x \<Longrightarrow> marker (es_file x) w = Some s \<or> (marker (es_file x) w = None \<and> (w, s) \<notin> es_live x)"
    and "\<And>v i r. (v, i, r) \<in> set (es_deleting x) \<Longrightarrow> strip v \<noteq> [] \<and> session_of i \<noteq> []"
    and "\<And>v i r s. (v, i, r) \<in> set (es_deleting x) \<Longrightarrow> (strip v, s) \<in> tracked x \<Longrightarrow> s = session_of i"
  shows "orderly_state x"
  unfolding orderly_state_def using assms by (metis insert_iff)

lemma orderly_deleting:
  assumes "orderly_state x" "(v, i, r) \<in> set (es_deleting x)"
  shows "strip v \<noteq> []" "session_of i \<noteq> []" "(strip v, s) \<in> tracked x \<Longrightarrow> s = session_of i"
  using assms unfolding orderly_state_def by blast+

text \<open>A step that opens nothing and asks for no new deletion, and whose markers are the old ones, the session's own, or gone with it.\<close>

lemma orderly_shrink:
  assumes old: "orderly_state x" and sub: "tracked y \<subseteq> tracked x" and live: "es_live y \<subseteq> es_live x"
    and dels: "set (es_deleting y) \<subseteq> set (es_deleting x)"
    and marks: "\<And>w s. (w, s) \<in> tracked y \<Longrightarrow> marker (es_file y) w \<in> {marker (es_file x) w, Some s} \<or>
      (marker (es_file y) w = None \<and> (w, s) \<notin> es_live y)"
  shows "orderly_state y"
proof (rule orderlyI)
  fix w s assume t: "(w, s) \<in> tracked y"
  then have tx: "(w, s) \<in> tracked x" using sub by blast
  show "is_name w \<and> is_name s \<and> marks_sessions w" using orderlyD(1-3) [OF old tx] by simp
  have "marker (es_file x) w = Some s \<or> (marker (es_file x) w = None \<and> (w, s) \<notin> es_live x)"
    using orderlyD(5,6) [OF old tx] by auto
  then show "marker (es_file y) w = Some s \<or> (marker (es_file y) w = None \<and> (w, s) \<notin> es_live y)"
    using marks [OF t] live by auto
next
  fix w s s' assume "(w, s) \<in> tracked y" "(w, s') \<in> tracked y"
  then show "s' = s" using orderlyD(4) [OF old] sub by blast
next
  fix v i r assume "(v, i, r) \<in> set (es_deleting y)"
  then show "strip v \<noteq> [] \<and> session_of i \<noteq> []" using orderly_deleting(1,2) [OF old] dels by blast
next
  fix v i r s assume "(v, i, r) \<in> set (es_deleting y)" "(strip v, s) \<in> tracked y"
  then show "s = session_of i" using orderly_deleting(3) [OF old] dels sub by blast
qed

lemma orderly_open:
  assumes "orderly_state x" "is_name w" "is_name s" "marks_sessions w" "free_worker w x"
  shows "orderly_state (start_session now lp cwd w s x)"
proof -
  have fresh: "(w, t) \<notin> tracked x" for t using assms(5) unfolding free_worker_def tracked_def by (metis fst_conv)
  have idle: "strip v \<noteq> w" if "(v, i, r) \<in> set (es_deleting x)" for v i r
    using that assms(5) by (auto simp: free_worker_def list_all_iff)
  have tr: "tracked (start_session now lp cwd w s x) = insert (w, s) (tracked x)" by (auto simp: tracked_def start_session_def)
  have m: "marker (es_file (start_session now lp cwd w s x)) v = (if v = w then Some s else marker (es_file x) v)" for v
    using assms(2-4) by (simp add: start_session_def marker_mark)
  have d: "es_deleting (start_session now lp cwd w s x) = es_deleting x" "es_live (start_session now lp cwd w s x) = insert (w, s) (es_live x)"
    by (simp_all add: start_session_def)
  show ?thesis
  proof (rule orderlyI, unfold tr m d)
    fix v t assume "(v, t) \<in> insert (w, s) (tracked x)"
    then show "is_name v \<and> is_name t \<and> marks_sessions v" using assms orderlyD(1-3) by blast
  next
    fix v t t' assume "(v, t) \<in> insert (w, s) (tracked x)" "(v, t') \<in> insert (w, s) (tracked x)"
    then show "t' = t" using fresh orderlyD(4) [OF assms(1)] by blast
  next
    fix v t assume "(v, t) \<in> insert (w, s) (tracked x)"
    then show "(if v = w then Some s else marker (es_file x) v) = Some t \<or>
        ((if v = w then Some s else marker (es_file x) v) = None \<and> (v, t) \<notin> insert (w, s) (es_live x))"
      using fresh orderlyD(5,6) [OF assms(1), of v t] by (cases "v = w") auto
  next
    fix v i r assume "(v, i, r) \<in> set (es_deleting x)"
    then show "strip v \<noteq> [] \<and> session_of i \<noteq> []" using orderly_deleting [OF assms(1)] by blast
  next
    fix v i r t assume "(v, i, r) \<in> set (es_deleting x)" "(strip v, t) \<in> insert (w, s) (tracked x)"
    then show "t = session_of i" using idle orderly_deleting(3) [OF assms(1)] by blast
  qed
qed

lemma orderly_close:
  assumes "orderly_state x" "(w, s) \<in> es_running x"
  shows "orderly_state (end_session now error w s x)"
proof (rule orderly_shrink [OF assms(1)])
  have t: "(w, s) \<in> tracked x" using assms(2) by (simp add: tracked_def)
  note facts = orderlyD [OF assms(1) t]
  show sub: "tracked (end_session now error w s x) \<subseteq> tracked x"
    by (cases error) (auto simp: tracked_def end_session_def Let_def)
  fix v u assume u: "(v, u) \<in> tracked (end_session now error w s x)"
  show "marker (es_file (end_session now error w s x)) v \<in> {marker (es_file x) v, Some u} \<or>
      (marker (es_file (end_session now error w s x)) v = None \<and> (v, u) \<notin> es_live (end_session now error w s x))"
  proof (cases "v = w")
    case True
    then have "u = s" using u sub facts(4) by blast
    then show ?thesis using True by (cases error) (auto simp: end_session_def Let_def marker_clear marker_failed facts(1-3))
  next
    case False
    then show ?thesis by (cases error) (auto simp: end_session_def Let_def marker_clear marker_failed facts(1-3))
  qed
qed (cases error; auto simp: end_session_def Let_def)+

lemma orderly_answer:
  assumes "orderly_state x" "d \<in> set (es_deleting x)"
  shows "orderly_state (finish_delete now error d x)"
proof -
  obtain v i r where d: "d = (v, i, r)" by (cases d)
  note facts = orderly_deleting [OF assms(1) assms(2) [unfolded d]]
  show ?thesis
  proof (rule orderly_shrink [OF assms(1)])
    show sub: "tracked (finish_delete now error d x) \<subseteq> tracked x"
      by (cases error) (auto simp: tracked_def finish_delete_def d Let_def)
    show "set (es_deleting (finish_delete now error d x)) \<subseteq> set (es_deleting x)"
      using set_remove1_subset by (cases error) (fastforce simp: finish_delete_def d Let_def)+
    fix w s assume t: "(w, s) \<in> tracked (finish_delete now error d x)"
    have own: "w = strip v \<Longrightarrow> s = session_of i" using t sub facts(3) by blast
    show "marker (es_file (finish_delete now error d x)) w \<in> {marker (es_file x) w, Some s} \<or>
      (marker (es_file (finish_delete now error d x)) w = None \<and> (w, s) \<notin> es_live (finish_delete now error d x))"
      using own facts(1,2) by (cases error) (auto simp: finish_delete_def d Let_def marker_pop marker_dispatch_failed)
  qed (cases error; auto simp: finish_delete_def d Let_def)
qed

lemma orderly_request:
  assumes "orderly_state x"
  shows "orderly_state (cancel_active_worker_engine_session worker reason x)"
proof -
  define info where "info = info_of (load_active_worker_engine_sessions (es_file x)) (strip worker)"
  define y where "y = cancel_active_worker_engine_session worker reason x"
  have same: "es_file y = es_file x" "es_live y = es_live x" "tracked y = tracked x"
    by (simp_all add: y_def cancel_active_worker_engine_session_def tracked_def Let_def)
  have new: "(v, i, r) \<in> set (es_deleting x) \<or> (v = worker \<and> i = info \<and> session_of info \<noteq> [])" if "(v, i, r) \<in> set (es_deleting y)" for v i r
    using that by (auto simp: y_def cancel_active_worker_engine_session_def info_def Let_def split: if_splits)
  have named: "strip worker \<noteq> []" "marker (es_file x) (strip worker) = Some (session_of info)" if some: "session_of info \<noteq> []"
  proof -
    obtain i where i: "map_of (load_active_worker_engine_sessions (es_file x)) (strip worker) = Some i"
      using some by (cases "map_of (load_active_worker_engine_sessions (es_file x)) (strip worker)")
        (auto simp: info_def info_of_def session_of_def)
    then show "marker (es_file x) (strip worker) = Some (session_of info)" by (simp add: marker_def info_def info_of_def)
    show "strip worker \<noteq> []" using load_tidy [of "es_file x"] map_of_SomeD [OF i]
      by (auto simp: tidy_def list_all_iff tidy_entry_def is_name_def)
  qed
  show ?thesis unfolding y_def [symmetric]
  proof (rule orderlyI, unfold same)
    fix v i r assume "(v, i, r) \<in> set (es_deleting y)"
    then show "strip v \<noteq> [] \<and> session_of i \<noteq> []" using new named(1) orderly_deleting(1,2) [OF assms] by blast
  next
    fix v i r s assume "(v, i, r) \<in> set (es_deleting y)" "(strip v, s) \<in> tracked x"
    then show "s = session_of i" using new named(2) orderly_deleting(3) [OF assms] orderlyD(6) [OF assms] by fastforce
  next
    fix w s assume t: "(w, s) \<in> tracked x"
    show "is_name w \<and> is_name s \<and> marks_sessions w" using orderlyD(1-3) [OF assms t] by simp
    show "marker (es_file x) w = Some s \<or> (marker (es_file x) w = None \<and> (w, s) \<notin> es_live x)"
      using orderlyD(5,6) [OF assms t] by auto
  next
    fix w s s' assume "(w, s) \<in> tracked x" "(w, s') \<in> tracked x"
    then show "s' = s" using orderlyD(4) [OF assms] by blast
  qed
qed

lemma orderly_lost:
  assumes "orderly_state x"
  shows "orderly_state (x\<lparr>es_live := es_live x - lost\<rparr>)"
  by (rule orderly_shrink [OF assms]) (auto simp: tracked_def)

lemma orderly_step: "session_step True x y \<Longrightarrow> orderly_state x \<Longrightarrow> orderly_state y"
  by (induction rule: session_step.induct) (simp_all add: orderly_open orderly_close orderly_request orderly_answer orderly_lost)

lemma orderly_runs: "session_runs True x y \<Longrightarrow> orderly_state x \<Longrightarrow> orderly_state y"
  by (induction rule: session_runs.induct) (auto intro: orderly_step)

definition quiet :: "engine_state \<Rightarrow> bool" where
  "quiet x \<longleftrightarrow> es_live x = {} \<and> es_running x = {} \<and> es_deleting x = []"

lemma quiet_orderly: "quiet x \<Longrightarrow> orderly_state x"
  by (simp add: quiet_def orderly_state_def tracked_def)


definition idle_engine :: engine_state where
  "idle_engine = \<lparr>es_file = None, es_attempts = \<lparr>af_active = None, af_cancelled = None\<rparr>, es_events = [], es_live = {},
     es_running = {}, es_deleting = []\<rparr>"

text \<open>A worker opens a session, and the engine refuses to delete it at the worker's end.\<close>

definition refused_engine :: engine_state where
  "refused_engine = end_session 2 (Some ''busy'') ''worker-1'' ''s1'' (start_session 1 ''w.log'' ''/w'' ''worker-1'' ''s1'' idle_engine)"


text \<open>
  A late deletion forgets the next session. When a worker opens a session while the deletion of its previous one is under way
  (a retry after a cancelled attempt), the answer to that deletion takes the new session's entry out of the file: the engine
  holds the session, no entry names it, and the dispatcher cannot cancel it any more.
\<close>

theorem late_delete_forgets_session:
  assumes "(worker, info, r) \<in> set (es_deleting x)" and "is_name w" and "is_name s" and "marks_sessions w" and "strip worker = w"
    and "session_of info \<noteq> s"
  shows "\<exists>y. session_step False x (start_session now log_path cwd w s x)
    \<and> session_step False (start_session now log_path cwd w s x) y
    \<and> (w, s) \<in> es_live y \<and> marker (es_file y) w = None
    \<and> es_deleting (cancel_active_worker_engine_session w reason y) = es_deleting y"
proof -
  define x1 where "x1 = start_session now log_path cwd w s x"
  define y where "y = finish_delete now None (worker, info, r) x1"
  have 1: "session_step False x x1" unfolding x1_def by (rule Opened) (simp_all add: assms)
  have 2: "session_step False x1 y" unfolding y_def by (rule Answered) (simp add: x1_def start_session_def assms(1))
  have live: "(w, s) \<in> es_live y" using assms(6) by (auto simp: y_def finish_delete_def x1_def start_session_def Let_def)
  have none: "marker (es_file y) w = None"
    using assms(2,5) by (simp add: y_def finish_delete_def Let_def marker_pop is_name_def)
  then have "session_of (info_of (load_active_worker_engine_sessions (es_file y)) w) = []"
    by (simp add: marker_def info_of_def session_of_def)
  then have "es_deleting (cancel_active_worker_engine_session w reason y) = es_deleting y"
    using assms(2) by (simp add: cancel_active_worker_engine_session_def is_name_def Let_def)
  with 1 2 live none show ?thesis unfolding x1_def by blast
qed

text \<open>
  A planning session that could not be deleted is forgotten. Cancelling the manager's session takes its entry out of the file
  before the engine is asked, and puts nothing back when the engine refuses.
\<close>

lemma delete_sessions_obj: "AList.delete w (sessions_obj ss) = sessions_obj (AList.delete w ss)"
  by (induction ss) (auto simp: sessions_obj_def)

theorem refused_planning_session_is_forgotten:
  assumes "tidy ss" and "marker (file_of ss) ''manager'' = Some s"
  shows "\<exists>after es. cancel_active_manager_engine_session reason (Some e) (file_of ss, events) = (after, es)
    \<and> fst (last es) = ''manager.engine_cancel_failed'' \<and> marker after ''manager'' = None"
proof -
  obtain i where i: "map_of ss ''manager'' = Some i" "session_of i = s" using assms by (auto simp: marker_file_of)
  have name: "is_name s" using assms(1) map_of_SomeD [OF i(1)] i(2)
    by (auto simp: tidy_def list_all_iff tidy_entry_def session_of_def is_name_def)
  have "dget (sessions_obj ss) ''manager'' = JObj i" using i(1) by (induction ss) (auto simp: sessions_obj_def split: if_splits)
  moreover have "strip ''manager'' = ''manager''" by code_simp
  ultimately have pop: "pop_active_engine_session ''manager'' (file_of ss) = (i, file_of (AList.delete ''manager'' ss))"
  proof -
    have "sessions_obj xs = [] \<longleftrightarrow> xs = []" for xs by (simp add: sessions_obj_def)
    moreover have "ss \<noteq> []" using i(1) by auto
    ultimately show ?thesis using \<open>dget (sessions_obj ss) ''manager'' = JObj i\<close> \<open>strip ''manager'' = ''manager''\<close>
      by (simp add: pop_active_engine_session_def file_of_def delete_sessions_obj Let_def)
  qed
  have "marker (file_of (AList.delete ''manager'' ss)) ''manager'' = None"
    using assms(1) by (simp add: marker_file_of tidy_delete delete_conv')
  then show ?thesis using name i(2)
    by (simp add: cancel_active_manager_engine_session_def pop Let_def is_name_def)
qed

end
