(* ===== verification/OrphanSessions.thy ===== *)
theory OrphanSessions imports EngineSessions begin

text \<open>
  The engine sessions that runs leave behind when they end or the program restarts, and their cleanup
  (src/tandem_agents/core/execution/run_recovery.py). A run directory holds its name, its documents, the file
  of the sessions and the events, an event being its kind and payload; the engine's answer to a delete is a
  function of the number of deletes asked before and the session. The time a delete may take is the engine's
  (\<open>Unanswered\<close> is a delete still running when its time is over).
\<close>

section \<open>Sessions a run names\<close>

definition dict_of :: "json \<Rightarrow> obj" where
  "dict_of v = (case v of JObj d \<Rightarrow> d | _ \<Rightarrow> [])"

definition dict_list :: "json \<Rightarrow> obj list" where
  "dict_list v = (case v of JList vs \<Rightarrow> concat (map (\<lambda>x. case x of JObj d \<Rightarrow> [d] | _ \<Rightarrow> []) vs) | _ \<Rightarrow> [])"

definition first_worker :: string where
  "first_worker = ''worker-1''"

definition worker_or_first :: "json \<Rightarrow> string" where
  "worker_or_first v = (let w = strip (if truthy v then py_str v else first_worker) in if w = [] then first_worker else w)"

text \<open>The characters of \<open>[A-Za-z0-9_.:-]\<close>, the first match of \<open>key([...]+)\<close>, and all those of \<open>session_id=([A-Za-z0-9][...]+)\<close>.\<close>

definition token_char :: "char \<Rightarrow> bool" where
  "token_char c = (is_alnum_ascii c \<or> List.member ''_.:-'' c)"

fun token_after :: "string \<Rightarrow> string \<Rightarrow> string" where
  "token_after key [] = []"
| "token_after key (c # s) =
     (let t = takeWhile token_char (drop (length key) (c # s)) in
      if starts_with (c # s) key \<and> t \<noteq> [] then t else token_after key s)"

function session_ids_in :: "string \<Rightarrow> string list" where
  "session_ids_in [] = []"
| "session_ids_in (c # s) =
     (let t = takeWhile token_char (drop 11 (c # s)) in
      if starts_with (c # s) ''session_id='' \<and> 2 \<le> length t \<and> is_alnum_ascii (hd t)
      then t # session_ids_in (drop (11 + length t) (c # s)) else session_ids_in s)"
  by pat_completeness auto
termination by (relation "measure length") auto

definition append_unique_session :: "obj list \<Rightarrow> obj \<Rightarrow> obj list" where
  "append_unique_session sessions session =
     (let s = session_of session in
      if s = [] \<or> list_ex (\<lambda>e. session_of e = s) sessions then sessions
      else sessions @ [dset ''worker_id'' (JStr (worker_or_first (dget session ''worker_id''))) (put_session s session)])"

definition load_orphan_sessions :: "json option \<Rightarrow> sessions" where
  "load_orphan_sessions file =
     map (\<lambda>(w, info). (w, dset ''worker_id'' (JStr w) info)) (load_active_worker_engine_sessions file)"

definition detail_sessions :: "string \<Rightarrow> obj list" where
  "detail_sessions detail =
     map (\<lambda>s. let w = token_after ''worker='' detail in
            [(''worker_id'', JStr (if w = [] then first_worker else w)), (''session_id'', JStr s),
             (''run_id'', JStr (token_after ''engine_run_id='' detail))]) (session_ids_in detail)"

definition failed_on_engine :: "obj \<Rightarrow> bool" where
  "failed_on_engine worker =
     (List.member [''failed'', ''blocked'', ''cancelled'', ''canceled''] (lower (nonempty (dget worker ''status'')))
      \<and> contains (lower (str_or_empty (py_or (dget worker ''blocker_kind'') (dget worker ''failure_reason'')))) ''engine'')"

definition worker_session :: "obj \<Rightarrow> obj" where
  "worker_session worker =
     (let engine = dict_of (dget worker ''engine'') in
      [(''worker_id'', JStr (worker_or_first (dget worker ''worker_id''))),
       (''session_id'', JStr (nonempty (py_or (dget engine ''session_id'') (dget worker ''session_id'')))),
       (''run_id'', JStr (nonempty (py_or (dget engine ''run_id'') (dget worker ''engine_run_id''))))])"

definition blocker_detail :: "obj \<Rightarrow> string" where
  "blocker_detail d = str_or_empty (dget (dict_of (dget d ''blocker'')) ''detail'')"

definition terminal_engine_sessions :: "json option \<Rightarrow> obj \<Rightarrow> obj \<Rightarrow> obj list" where
  "terminal_engine_sessions file status blackboard =
     fold (\<lambda>s acc. append_unique_session acc s)
       (map (\<lambda>(w, info). dset ''worker_id'' (JStr w) info) (load_orphan_sessions file)
        @ detail_sessions (blocker_detail status) @ detail_sessions (blocker_detail blackboard)
        @ map worker_session (filter failed_on_engine
            (dict_list (dget blackboard ''workers'') @ dict_list (dget status ''workers'')))) []"

definition cancelled_kinds :: "string list" where
  "cancelled_kinds = [''worker.engine_cancelled'', ''manager.engine_cancelled'', ''run.orphan_engine_session_cancelled'']"

definition already_cancelled_session_ids :: "(string \<times> obj) list \<Rightarrow> string list" where
  "already_cancelled_session_ids events =
     filter (\<lambda>s. s \<noteq> []) (map (\<lambda>(kind, payload). session_of payload) (filter (\<lambda>(kind, payload). List.member cancelled_kinds (strip kind)) events))"

section \<open>Deleting one session\<close>

datatype delete_answer = Deleted | Refused string | Unanswered | Vanished

type_synonym delete_answers = "nat \<Rightarrow> string \<Rightarrow> delete_answer"

fun delete_result :: "delete_answer \<Rightarrow> bool \<times> string" where
  "delete_result Deleted = (True, [])"
| "delete_result (Refused e) = (False, take 500 e)"
| "delete_result Unanswered = (False, ''session_delete_timeout'')"
| "delete_result Vanished = (False, ''session_delete_failed'')"

definition write_orphan_sessions :: "sessions \<Rightarrow> json option" where
  "write_orphan_sessions ss =
     file_of (fold (\<lambda>(k, info) acc. if strip k = [] \<or> session_of info = [] then acc
         else AList.update k (put_session (session_of info) info) acc) ss [])"

definition remove_active_session_marker :: "string \<Rightarrow> string \<Rightarrow> json option \<Rightarrow> json option" where
  "remove_active_session_marker w s file =
     (let ss = load_orphan_sessions file in
      if map_of ss w \<noteq> None \<and> session_of (info_of ss w) = s then write_orphan_sessions (AList.delete w ss) else file)"

definition write_active_session_cleanup_failure :: "int \<Rightarrow> string \<Rightarrow> obj \<Rightarrow> string \<Rightarrow> json option \<Rightarrow> json option" where
  "write_active_session_cleanup_failure now w session error file =
     (let ss = load_orphan_sessions file; current = (case map_of ss w of Some i \<Rightarrow> i | None \<Rightarrow> session);
          current = put_session (session_of session) (dset ''worker_id'' (JStr w) current);
          current = dset ''run_id'' (JStr (nonempty (py_or (dget session ''run_id'') (dget current ''run_id'')))) current;
          current = dset ''cleanup_failed_at_ms'' (JInt now) current;
          current = dset ''cleanup_error'' (JStr (take 500 (if error \<noteq> [] then error else ''session_delete_failed''))) current
      in write_orphan_sessions (AList.update w current ss))"

text \<open>The cleanup of one run under way: the file, the events, the sessions the engine was asked to delete, and the results.\<close>

record cleanup =
  cu_file :: "json option"
  cu_events :: "(string \<times> obj) list"
  cu_calls :: "string list"
  cu_results :: "(string \<times> string \<times> bool \<times> string) list"

definition orphan_payload :: "string \<Rightarrow> string \<Rightarrow> obj \<Rightarrow> string \<Rightarrow> obj" where
  "orphan_payload w s session error = [(''worker_id'', JStr w), (''session_id'', JStr s),
     (''engine_run_id'', JStr (nonempty (dget session ''run_id''))), (''reason'', JStr ''terminal_run_orphan_cleanup''),
     (''error'', JStr error)]"

definition cleanup_session :: "int \<Rightarrow> delete_answers \<Rightarrow> string list \<Rightarrow> obj \<Rightarrow> cleanup \<Rightarrow> cleanup" where
  "cleanup_session now engine already session c =
     (let s = session_of session; w = worker_or_first (dget session ''worker_id'');
          (ok, error) = delete_result (engine (length (cu_calls c)) s)
      in if s = [] \<or> List.member already s then c
         else c\<lparr>cu_calls := cu_calls c @ [s],
           cu_events := cu_events c @ [(if ok then ''run.orphan_engine_session_cancelled''
              else ''run.orphan_engine_session_cancel_failed'', orphan_payload w s session error)],
           cu_file := (if ok then remove_active_session_marker w s (cu_file c)
              else write_active_session_cleanup_failure now w session error (cu_file c)),
           cu_results := cu_results c @ [(w, s, ok, error)]\<rparr>)"

section \<open>One run, and all runs\<close>

text \<open>A document is missing, unreadable with the error's text, or an object.\<close>

record orphan_dir =
  od_name :: string
  od_is_dir :: bool
  od_mtime :: int
  od_status :: "(string + obj) option"
  od_blackboard :: "(string + obj) option"
  od_sessions :: "json option"
  od_events :: "(string \<times> obj) list"

definition terminal_statuses :: "string list" where
  "terminal_statuses = [''blocked'', ''failed'', ''completed'', ''cancelled'', ''canceled'']"

definition run_status_text :: "obj \<Rightarrow> string" where
  "run_status_text status = lower (nonempty (dget (dict_of (dget status ''run'')) ''status''))"

definition readable :: "(string + obj) option \<Rightarrow> obj" where
  "readable doc = (case doc of Some (Inr d) \<Rightarrow> d | _ \<Rightarrow> [])"

definition limited :: "int option \<Rightarrow> 'a list \<Rightarrow> 'a list" where
  "limited n xs = (case n of None \<Rightarrow> xs | Some k \<Rightarrow> take (nat (max 0 k)) xs)"

definition ended_run :: "orphan_dir \<Rightarrow> bool" where
  "ended_run d = (case od_status d of Some (Inr status) \<Rightarrow> List.member terminal_statuses (run_status_text status) | _ \<Rightarrow> False)"

definition cleanup_run :: "int \<Rightarrow> delete_answers \<Rightarrow> int option \<Rightarrow> string list \<Rightarrow> orphan_dir \<Rightarrow> cleanup" where
  "cleanup_run now engine max_sessions calls d =
     (let c = \<lparr>cu_file = od_sessions d, cu_events = od_events d, cu_calls = calls, cu_results = []\<rparr> in
      if \<not> ended_run d then c
      else fold (cleanup_session now engine (already_cancelled_session_ids (od_events d)))
        (limited max_sessions (terminal_engine_sessions (od_sessions d) (readable (od_status d)) (readable (od_blackboard d)))) c)"

definition after_cleanup :: "cleanup \<Rightarrow> orphan_dir \<Rightarrow> orphan_dir" where
  "after_cleanup c d = d\<lparr>od_sessions := cu_file c, od_events := cu_events c\<rparr>"

definition orphan_cleanup_max_sessions :: "string option \<Rightarrow> int" where
  "orphan_cleanup_max_sessions env =
     (case strip (case env of Some s \<Rightarrow> s | None \<Rightarrow> []) of [] \<Rightarrow> 6
      | c # cs \<Rightarrow> (case py_int (c # cs) of Some i \<Rightarrow> max 0 i | None \<Rightarrow> 6))"

definition recent_run_dirs :: "int \<Rightarrow> orphan_dir list \<Rightarrow> orphan_dir list" where
  "recent_run_dirs limit dirs =
     take (nat (max 1 limit)) (order_desc od_mtime
       (filter (\<lambda>d. od_is_dir d \<and> (starts_with (od_name d) ''run-'' \<or> starts_with (od_name d) ''sched-'')) dirs))"

text \<open>The runs in turn, until no session is left in the budget: the directories that were reached, and the deletes asked.\<close>

fun cleanup_runs :: "int \<Rightarrow> delete_answers \<Rightarrow> int \<Rightarrow> string list \<Rightarrow> orphan_dir list \<Rightarrow> orphan_dir list \<times> string list" where
  "cleanup_runs now engine budget calls [] = ([], calls)"
| "cleanup_runs now engine budget calls (d # ds) =
     (let c = cleanup_run now engine (Some budget) calls d; left = budget - int (length (cu_results c)); d1 = after_cleanup c d in
      if cu_results c \<noteq> [] \<and> left \<le> 0 then ([d1], cu_calls c)
      else let (rest, calls') = cleanup_runs now engine left (cu_calls c) ds in (d1 # rest, calls'))"

definition cleanup_terminal_orphaned_engine_sessions ::
  "int \<Rightarrow> delete_answers \<Rightarrow> string option \<Rightarrow> int \<Rightarrow> int option \<Rightarrow> orphan_dir list \<Rightarrow> orphan_dir list \<times> string list" where
  "cleanup_terminal_orphaned_engine_sessions now engine env limit max_sessions dirs =
     (let budget = (case max_sessions of None \<Rightarrow> orphan_cleanup_max_sessions env | Some n \<Rightarrow> max 0 n) in
      if budget \<le> 0 then ([], []) else cleanup_runs now engine budget [] (recent_run_dirs limit dirs))"

section \<open>What a pass asks of the engine\<close>

definition asked :: "cleanup \<Rightarrow> string set" where
  "asked c = (\<lambda>(w, s, ok, e). s) ` set (cu_results c)"

definition deleted :: "cleanup \<Rightarrow> string set" where
  "deleted c = (\<lambda>(w, s, ok, e). s) ` {r \<in> set (cu_results c). fst (snd (snd r))}"

lemma cleanup_session_cases:
  "cleanup_session now engine already session c = c \<or> (\<exists>w ok e. session_of session \<noteq> [] \<and> session_of session \<notin> set already
     \<and> cu_results (cleanup_session now engine already session c) = cu_results c @ [(w, session_of session, ok, e)]
     \<and> cu_calls (cleanup_session now engine already session c) = cu_calls c @ [session_of session]
     \<and> (\<exists>payload. session_of payload = session_of session
        \<and> cu_events (cleanup_session now engine already session c) = cu_events c @ [(if ok then ''run.orphan_engine_session_cancelled''
              else ''run.orphan_engine_session_cancel_failed'', payload)]))"
proof (cases "session_of session = [] \<or> List.member already (session_of session)")
  case True
  then show ?thesis by (auto simp: cleanup_session_def split: prod.split)
next
  case False
  obtain ok e where r: "delete_result (engine (length (cu_calls c)) (session_of session)) = (ok, e)" by fastforce
  have "session_of (orphan_payload w (session_of session) session e) = session_of session" for w
    by (simp add: orphan_payload_def session_of_def)
  then show ?thesis using False by (auto simp: cleanup_session_def r Let_def List.member_iff)
qed

lemma cleanup_fold_counts:
  "length (cu_calls (fold (cleanup_session now engine already) ss c)) + length (cu_results c)
       = length (cu_calls c) + length (cu_results (fold (cleanup_session now engine already) ss c))
   \<and> length (cu_results (fold (cleanup_session now engine already) ss c)) \<le> length (cu_results c) + length ss"
proof (induction ss arbitrary: c)
  case (Cons s ss)
  let ?c = "cleanup_session now engine already s c"
  have "length (cu_calls ?c) + length (cu_results c) = length (cu_calls c) + length (cu_results ?c)
      \<and> length (cu_results ?c) \<le> length (cu_results c) + 1"
    using cleanup_session_cases [of now engine already s c] by auto
  then show ?case using Cons.IH [of ?c] by simp
qed simp

text \<open>The sessions asked are among those listed, were not cancelled before, and a deleted one is in the log afterwards.\<close>

definition logged :: "cleanup \<Rightarrow> bool" where
  "logged c \<longleftrightarrow> deleted c \<subseteq> set (already_cancelled_session_ids (cu_events c))"

lemma cleanup_session_log:
  "asked (cleanup_session now engine already s c) \<subseteq> asked c \<union> (session_of ` {s} - set already)
   \<and> (logged c \<longrightarrow> logged (cleanup_session now engine already s c))"
proof (cases "cleanup_session now engine already s c = c")
  case False
  have kinds: "strip ''run.orphan_engine_session_cancelled'' = ''run.orphan_engine_session_cancelled''" by code_simp
  obtain w ok e payload where facts: "session_of s \<noteq> []" "session_of s \<notin> set already"
    "cu_results (cleanup_session now engine already s c) = cu_results c @ [(w, session_of s, ok, e)]"
    "session_of payload = session_of s"
    "cu_events (cleanup_session now engine already s c) = cu_events c @ [(if ok then ''run.orphan_engine_session_cancelled''
       else ''run.orphan_engine_session_cancel_failed'', payload)]"
    using False cleanup_session_cases [of now engine already s c] by blast
  then show ?thesis
    by (cases ok) (auto simp: logged_def asked_def deleted_def already_cancelled_session_ids_def kinds cancelled_kinds_def List.member_iff)
qed simp

lemma cleanup_fold_log:
  "asked (fold (cleanup_session now engine already) ss c) \<subseteq> asked c \<union> (session_of ` set ss - set already)
   \<and> (logged c \<longrightarrow> logged (fold (cleanup_session now engine already) ss c))"
proof (induction ss arbitrary: c)
  case (Cons s ss)
  then show ?case using cleanup_session_log [of now engine already s c] Cons.IH [of "cleanup_session now engine already s c"]
    by auto
qed simp

definition before_cleanup :: "string list \<Rightarrow> orphan_dir \<Rightarrow> cleanup" where
  "before_cleanup calls d = \<lparr>cu_file = od_sessions d, cu_events = od_events d, cu_calls = calls, cu_results = []\<rparr>"

lemma before_cleanup_simps [simp]:
  "cu_results (before_cleanup calls d) = []" "cu_calls (before_cleanup calls d) = calls" "asked (before_cleanup calls d) = {}"
  "logged (before_cleanup calls d)"
  by (simp_all add: before_cleanup_def asked_def logged_def deleted_def)

lemma cleanup_run_fold:
  "cleanup_run now engine n calls d = (if ended_run d then fold (cleanup_session now engine (already_cancelled_session_ids (od_events d)))
     (limited n (terminal_engine_sessions (od_sessions d) (readable (od_status d)) (readable (od_blackboard d)))) (before_cleanup calls d)
   else before_cleanup calls d)"
  by (simp add: cleanup_run_def before_cleanup_def Let_def)

lemma cleanup_run_counts:
  "length (cu_calls (cleanup_run now engine n calls d)) = length calls + length (cu_results (cleanup_run now engine n calls d))"
  "length (cu_results (cleanup_run now engine (Some k) calls d)) \<le> nat k"
proof -
  note counts = cleanup_fold_counts [of now engine _ _ "before_cleanup calls d"]
  show "length (cu_calls (cleanup_run now engine n calls d)) = length calls + length (cu_results (cleanup_run now engine n calls d))"
    using counts by (simp add: cleanup_run_fold)
  have "length (limited (Some k) xs) \<le> nat k" for xs :: "obj list" by (simp add: limited_def)
  then show "length (cu_results (cleanup_run now engine (Some k) calls d)) \<le> nat k"
    using counts by (auto simp: cleanup_run_fold intro: order_trans)
qed

lemma cleanup_run_asks:
  "asked (cleanup_run now engine n calls d) \<inter> set (already_cancelled_session_ids (od_events d)) = {}"
  "logged (cleanup_run now engine n calls d)"
  using cleanup_fold_log [of now engine "already_cancelled_session_ids (od_events d)" _ "before_cleanup calls d"]
  by (auto simp: cleanup_run_fold)

lemma cleanup_runs_budget:
  "0 \<le> budget \<Longrightarrow> length (snd (cleanup_runs now engine budget calls ds)) \<le> length calls + nat budget"
proof (induction ds arbitrary: budget calls)
  case (Cons d ds)
  let ?c = "cleanup_run now engine (Some budget) calls d"
  note counts = cleanup_run_counts(1) [of now engine "Some budget" calls d] cleanup_run_counts(2) [of now engine budget calls d]
  show ?case
  proof (cases "cu_results ?c \<noteq> [] \<and> budget - int (length (cu_results ?c)) \<le> 0")
    case True
    then show ?thesis using counts by (simp add: Let_def)
  next
    case False
    then have "0 \<le> budget - int (length (cu_results ?c))" using Cons.prems by auto
    from Cons.IH [OF this, of "cu_calls ?c"] show ?thesis using False counts Cons.prems
      by (auto simp: Let_def split: prod.split)
  qed
qed simp

section \<open>The cleanup\<close>

text \<open>
  C36. The cleanup stays within its budget. Over all the runs it visits, one pass asks the engine for at most as many deletes as it
  was given sessions, or as the environment allows it, whatever the runs contain and whatever the engine answers.
\<close>

theorem orphan_cleanup_within_budget:
  "length (snd (cleanup_terminal_orphaned_engine_sessions now engine env limit max_sessions dirs))
     \<le> nat (case max_sessions of None \<Rightarrow> orphan_cleanup_max_sessions env | Some n \<Rightarrow> n)"
proof (cases "0 < (case max_sessions of None \<Rightarrow> orphan_cleanup_max_sessions env | Some n \<Rightarrow> max 0 n)")
  case True
  then show ?thesis
    using cleanup_runs_budget [of "case max_sessions of None \<Rightarrow> orphan_cleanup_max_sessions env | Some n \<Rightarrow> max 0 n" now engine "[]"]
    by (auto simp: cleanup_terminal_orphaned_engine_sessions_def Let_def max_def split: option.splits)
qed (simp add: cleanup_terminal_orphaned_engine_sessions_def)

text \<open>
  C31. A deleted session is never deleted again. The sessions a later pass over the run asks the engine to delete are disjoint from
  those an earlier pass deleted, with any number of events of other origin in between, and whatever the documents then name.
\<close>

theorem deleted_sessions_are_not_asked_again:
  "deleted (cleanup_run now engine n calls d)
     \<inter> asked (cleanup_run now' engine' n' calls' (d'\<lparr>od_events := cu_events (cleanup_run now engine n calls d) @ later\<rparr>)) = {}"
proof -
  let ?c = "cleanup_run now engine n calls d"
  have "deleted ?c \<subseteq> set (already_cancelled_session_ids (cu_events ?c @ later))"
    using cleanup_run_asks(2) [of now engine n calls d] by (auto simp: logged_def already_cancelled_session_ids_def)
  then show ?thesis using cleanup_run_asks(1) [of now' engine' n' calls' "d'\<lparr>od_events := cu_events ?c @ later\<rparr>"] by auto
qed

section \<open>What the cleanup loses\<close>

lemma first_worker_name [simp]: "is_name first_worker"
  unfolding is_name_def by code_simp

lemma worker_or_first_name [simp]: "is_name (worker_or_first v)"
  by (simp add: worker_or_first_def Let_def) (simp add: is_name_def)

lemma load_orphan_tidy [simp]: "tidy (load_orphan_sessions file)"
proof -
  have "tidy (map (\<lambda>(w, info). (w, dset ''worker_id'' (JStr w) info)) ss)" if "tidy ss" for ss
    using that by (auto simp: tidy_def tidy_entry_def list_all_iff comp_def case_prod_beta)
  then show ?thesis by (simp add: load_orphan_sessions_def)
qed

lemma marker_orphan: "map_option session_of (map_of (load_orphan_sessions file) w) = marker file w"
proof -
  have "map_option session_of (map_of (map (\<lambda>(w, info). (w, dset ''worker_id'' (JStr w) info)) ss) w) = map_option session_of (map_of ss w)" for ss
    by (induction ss) auto
  then show ?thesis by (simp add: load_orphan_sessions_def marker_def)
qed

lemma write_orphan_tidy [simp]:
  assumes "tidy ss"
  shows "write_orphan_sessions ss = file_of ss"
proof -
  have "(case e of (k, info) \<Rightarrow> \<lambda>acc. if strip k = [] \<or> session_of info = [] then acc else AList.update k (put_session (session_of info) info) acc)
      = (case e of (k, info) \<Rightarrow> add_session k info)" if "e \<in> set ss" for e
  proof -
    obtain k info where e: "e = (k, info)" by (cases e)
    then have "strip k = k" using assms that by (auto simp: tidy_def list_all_iff tidy_entry_def is_name_def)
    then show ?thesis by (simp add: e add_session_def fun_eq_iff)
  qed
  then have "fold (\<lambda>(k, info) acc. if strip k = [] \<or> session_of info = [] then acc else AList.update k (put_session (session_of info) info) acc) ss []
      = fold (\<lambda>(k, info). add_session k info) ss []"
    by (intro fold_cong) auto
  then show ?thesis using fold_add_tidy [of "[]" ss] assms by (simp add: write_orphan_sessions_def)
qed

lemma marker_failure:
  assumes "is_name w" and "session_of session \<noteq> []"
  shows "marker (write_active_session_cleanup_failure now w session error file) v = (if v = w then Some (session_of session) else marker file v)"
proof -
  have name: "is_name (session_of session)" using assms(2) by (rule session_of_name)
  have put: "marker (file_of (AList.update w i (load_orphan_sessions file))) v = (if v = w then Some (session_of i) else marker file v)"
    if "tidy_entry (w, i)" for i
    using that by (simp add: marker_file_of tidy_update update_conv' marker_orphan)
  show ?thesis using assms(1) name
    by (simp add: write_active_session_cleanup_failure_def Let_def put tidy_update tidy_dset tidy_put)
qed

text \<open>
  A second refusal drops the first session. When the engine refuses to delete two sessions of one worker, the file names the second
  one only: the entry of the first is overwritten, so that no later pass learns of it from the file.
\<close>

theorem second_refusal_drops_the_first:
  assumes "worker_or_first (dget a ''worker_id'') = w" and "worker_or_first (dget b ''worker_id'') = w"
    and "session_of a \<notin> insert [] (set already)" and "session_of b \<notin> insert [] (set already)"
    and "engine (length (cu_calls c)) (session_of a) \<noteq> Deleted" and "engine (Suc (length (cu_calls c))) (session_of b) \<noteq> Deleted"
  shows "marker (cu_file (cleanup_session now engine already a c)) w = Some (session_of a)
    \<and> marker (cu_file (cleanup_session now engine already b (cleanup_session now engine already a c))) w = Some (session_of b)"
proof -
  have refused: "\<exists>e. delete_result x = (False, e)" if "x \<noteq> Deleted" for x using that by (cases x) auto
  obtain e1 e2 where e: "delete_result (engine (length (cu_calls c)) (session_of a)) = (False, e1)"
    "delete_result (engine (Suc (length (cu_calls c))) (session_of b)) = (False, e2)"
    using refused [OF assms(5)] refused [OF assms(6)] by blast
  have w: "is_name w" using assms(1) worker_or_first_name by metis
  show ?thesis using assms(1-4) w by (simp add: cleanup_session_def e Let_def List.member_iff marker_failure)
qed

text \<open>
  Cancelled sessions use up the budget. The sessions of a run are cut to the budget before those already cancelled are left out: when
  the first ones are all cancelled (the texts that name them stay in the documents), no pass with that budget, now or later, asks
  the engine for anything or changes the run, however many other sessions the run names.
\<close>

definition first_sessions :: "int \<Rightarrow> orphan_dir \<Rightarrow> obj list" where
  "first_sessions n d = limited (Some n) (terminal_engine_sessions (od_sessions d) (readable (od_status d)) (readable (od_blackboard d)))"

theorem cancelled_sessions_use_up_the_budget:
  assumes "session_of ` set (first_sessions n d) \<subseteq> set (already_cancelled_session_ids (od_events d))"
  shows "cu_calls (cleanup_run now engine (Some n) calls d) = calls
    \<and> fold (\<lambda>(now, engine) d. after_cleanup (cleanup_run now engine (Some n) [] d) d) passes d = d"
proof -
  have skip: "fold (cleanup_session now engine (already_cancelled_session_ids (od_events d))) ss c = c"
    if "session_of ` set ss \<subseteq> set (already_cancelled_session_ids (od_events d))" for now engine c ss
    using that by (induction ss) (auto simp: cleanup_session_def List.member_iff split: prod.split)
  have run: "cleanup_run now engine (Some n) calls d = before_cleanup calls d" for now engine calls
    using skip assms by (simp add: cleanup_run_fold first_sessions_def)
  have "after_cleanup (before_cleanup calls d) d = d" for calls by (simp add: after_cleanup_def before_cleanup_def)
  then have "fold (\<lambda>(now, engine) d. after_cleanup (cleanup_run now engine (Some n) [] d) d) passes d = d"
    using run by (induction passes) auto
  then show ?thesis by (simp add: run)
qed

definition crowded_run :: orphan_dir where
  "crowded_run = \<lparr>od_name = ''run-1'', od_is_dir = True, od_mtime = 1,
     od_status = Some (Inr [(''run'', JObj [(''status'', JStr ''blocked'')]),
       (''blocker'', JObj [(''detail'', JStr ''session_id=s1; session_id=s2'')])]),
     od_blackboard = None, od_sessions = None,
     od_events = [(''run.orphan_engine_session_cancelled'', [(''session_id'', JStr ''s1'')])]\<rparr>"

theorem cancelled_sessions_use_up_the_budget_witness:
  "cu_calls (cleanup_run 5 (\<lambda>_ _. Deleted) (Some 1) [] crowded_run) = []
   \<and> fold (\<lambda>(now, engine) d. after_cleanup (cleanup_run now engine (Some 1) [] d) d) [(5, \<lambda>_ _. Deleted), (6, \<lambda>_ _. Deleted)] crowded_run = crowded_run
   \<and> cu_calls (cleanup_run 5 (\<lambda>_ _. Deleted) (Some 2) [] crowded_run) = [''s2'']"
proof -
  have "map session_of (first_sessions 1 crowded_run) = [''s1'']" by code_simp
  then have "session_of ` set (first_sessions 1 crowded_run) = {''s1''}" by (metis list.set(1) list.set(2) set_map)
  moreover have "already_cancelled_session_ids (od_events crowded_run) = [''s1'']" by code_simp
  ultimately have h: "session_of ` set (first_sessions 1 crowded_run) \<subseteq> set (already_cancelled_session_ids (od_events crowded_run))" by simp
  have "cu_calls (cleanup_run 5 (\<lambda>_ _. Deleted) (Some 2) [] crowded_run) = [''s2'']" by code_simp
  then show ?thesis using cancelled_sessions_use_up_the_budget [OF h, of 5 "\<lambda>_ _. Deleted" "[]" "[(5, \<lambda>_ _. Deleted), (6, \<lambda>_ _. Deleted)]"] by simp
qed

end
