(* ===== verification/CommandChecks.thy ===== *)
theory CommandChecks imports RetryFeedback begin

text \<open>
  Which commands check a change (src/tandem_agents/core/repository/repo_truth.py, with the readers of fenced
  commands of phases/review_verify.py and execution/run_recovery.py): what looks like a shell command, and the
  commands inferred from the packages and tests around the changed files. A path is the list of its parts below
  the checkout; a manifest is the value its text encodes, \<open>None\<close> when it cannot be read. \<open>shlex\<close> is Python's.
\<close>

section \<open>shlex\<close>

definition single_quote :: char where "single_quote = CHR 0x27"
definition double_quote :: char where "double_quote = CHR 0x22"
definition backslash :: char where "backslash = CHR 0x5C"

definition shell_space :: "char \<Rightarrow> bool" where
  "shell_space c = (c = CHR '' '' \<or> c = CHR 0x09 \<or> c = CHR 0x0D \<or> c = CHR 0x0A)"

datatype shlex_state = Blank | InWord | Quoted char | Escaped "char option"

text \<open>\<open>shlex.split(text, comments=False, posix=True)\<close>: the words, or nothing for an open quotation or escape (\<open>ValueError\<close>).\<close>

fun shlex_words :: "shlex_state \<Rightarrow> string \<Rightarrow> bool \<Rightarrow> string \<Rightarrow> string list option" where
  "shlex_words Blank tok q [] = Some []"
| "shlex_words InWord tok q [] = Some (if tok \<noteq> [] \<or> q then [tok] else [])"
| "shlex_words (Quoted d) tok q [] = None"
| "shlex_words (Escaped r) tok q [] = None"
| "shlex_words Blank tok q (c # s) =
     (if shell_space c then shlex_words Blank [] False s
      else if c = backslash then shlex_words (Escaped None) [] False s
      else if c = single_quote \<or> c = double_quote then shlex_words (Quoted c) [] True s
      else shlex_words InWord [c] False s)"
| "shlex_words InWord tok q (c # s) =
     (if shell_space c then (if tok \<noteq> [] \<or> q then map_option ((#) tok) (shlex_words Blank [] False s) else shlex_words Blank [] False s)
      else if c = single_quote \<or> c = double_quote then shlex_words (Quoted c) tok True s
      else if c = backslash then shlex_words (Escaped None) tok q s
      else shlex_words InWord (tok @ [c]) q s)"
| "shlex_words (Quoted d) tok q (c # s) =
     (if c = d then shlex_words InWord tok True s
      else if c = backslash \<and> d = double_quote then shlex_words (Escaped (Some d)) tok True s
      else shlex_words (Quoted d) (tok @ [c]) True s)"
| "shlex_words (Escaped r) tok q (c # s) =
     (case r of None \<Rightarrow> shlex_words InWord (tok @ [c]) q s
      | Some d \<Rightarrow> shlex_words (Quoted d) (if c \<noteq> backslash \<and> c \<noteq> d then tok @ [backslash, c] else tok @ [c]) q s)"

definition shlex_split :: "string \<Rightarrow> string list option" where
  "shlex_split text = shlex_words Blank [] False text"

text \<open>\<open>shlex.quote\<close>.\<close>

definition shell_safe :: "char \<Rightarrow> bool" where
  "shell_safe c = (is_alnum_ascii c \<or> List.member ''_@%+=:,./-'' c)"

definition shlex_quote :: "string \<Rightarrow> string" where
  "shlex_quote s =
     (if s = [] then [single_quote, single_quote]
      else if list_all shell_safe s then s
      else [single_quote] @ concat (map (\<lambda>c. if c = single_quote
        then [single_quote, double_quote, single_quote, double_quote, single_quote] else [c]) s) @ [single_quote])"

section \<open>Commands in texts\<close>

definition check_programs :: "string list" where
  "check_programs = [''bash'', ''bun'', ''cargo'', ''cat'', ''deno'', ''find'', ''git'', ''go'', ''grep'', ''head'', ''just'', ''ls'',
     ''make'', ''node'', ''npm'', ''npx'', ''pnpm'', ''python'', ''python3'', ''pytest'', ''sed'', ''sh'', ''tail'', ''test'', ''wc'', ''yarn'']"

definition command_check_is_executable :: "string \<Rightarrow> bool" where
  "command_check_is_executable command =
     (case shlex_split (strip command) of
        Some (p # ps) \<Rightarrow> strip command \<noteq> [] \<and> (List.member (strip p) (CHR ''/'') \<or> List.member check_programs (strip p))
      | _ \<Rightarrow> False)"

definition filter_executable_command_checks :: "string list \<Rightarrow> string list" where
  "filter_executable_command_checks commands = first_of_each (filter command_check_is_executable (map strip commands))"

text \<open>
  The bodies of the fenced blocks of a text, as the pattern \<open>```(?:bash|sh|shell)?\s*\n(.*?)```\<close> finds them: a fence with
  one of the languages or none, blanks with a newline, and everything up to the next fence. The white space before
  the last of its newlines belongs to the fence.
\<close>

definition block_fence :: string where
  "block_fence = [CHR 0x60, CHR 0x60, CHR 0x60]"

definition after_blank_line :: "string \<Rightarrow> string option" where
  "after_blank_line s =
     (let blanks = takeWhile is_space s in
      if List.member blanks (CHR 0x0A)
      then Some (drop (length blanks - length (takeWhile (\<lambda>c. c \<noteq> CHR 0x0A) (rev blanks))) s) else None)"

fun first_language :: "string list \<Rightarrow> string \<Rightarrow> string option" where
  "first_language [] s = None"
| "first_language (l # ls) s =
     (case (if starts_with (lower s) l then after_blank_line (drop (length l) s) else None) of
        Some body \<Rightarrow> Some body | None \<Rightarrow> first_language ls s)"

definition fence_body :: "string \<Rightarrow> string option" where
  "fence_body s = (if starts_with s block_fence then first_language [''bash'', ''sh'', ''shell'', []] (drop 3 s) else None)"

fun upto_fence :: "string \<Rightarrow> (string \<times> string) option" where
  "upto_fence [] = None"
| "upto_fence (c # s) = (if starts_with (c # s) block_fence then Some ([], drop 3 (c # s))
     else map_option (\<lambda>(body, rest). (c # body, rest)) (upto_fence s))"

definition fenced :: "string \<Rightarrow> (string \<times> string) option" where
  "fenced s = (case fence_body s of Some b \<Rightarrow> upto_fence b | None \<Rightarrow> None)"

lemma length_after_blank: "after_blank_line s = Some b \<Longrightarrow> length b \<le> length s"
  by (auto simp: after_blank_line_def Let_def split: if_splits)

lemma length_first_language: "first_language ls s = Some b \<Longrightarrow> length b \<le> length s"
  by (induction ls) (auto dest!: length_after_blank split: option.splits if_splits)

lemma length_upto_fence: "upto_fence s = Some (b, r) \<Longrightarrow> length r < length s"
  by (induction s arbitrary: b) (auto split: if_splits)

lemma length_fence_body: "fence_body s = Some b \<Longrightarrow> length b \<le> length s"
  unfolding fence_body_def by (cases "starts_with s block_fence") (auto simp del: first_language.simps dest!: length_first_language)

lemma length_fenced: "fenced s = Some (b, r) \<Longrightarrow> length r < length s"
  unfolding fenced_def
  by (cases "fence_body s") (auto dest: length_upto_fence length_fence_body intro: less_le_trans)

function fenced_bodies :: "string \<Rightarrow> string list" where
  "fenced_bodies [] = []"
| "fenced_bodies (c # s) = (case fenced (c # s) of Some (b, r) \<Rightarrow> b # fenced_bodies r | None \<Rightarrow> fenced_bodies s)"
  by pat_completeness auto
termination by (relation "measure length") (auto dest: length_fenced)

definition verification_commands_from_text :: "string \<Rightarrow> string list" where
  "verification_commands_from_text text =
     filter (\<lambda>c. c \<noteq> [] \<and> \<not> starts_with c ''#'') (map strip (concat (map split_lines (fenced_bodies text))))"

definition verification_commands_from_task_text :: "obj \<Rightarrow> string list" where
  "verification_commands_from_task_text task =
     first_of_each (verification_commands_from_text (join nlc (filter (\<lambda>s. strip s \<noteq> [])
       (map str_or_empty [dget task ''description'', dget task ''raw_issue_body'',
          (case dget task ''task_contract'' of JObj d \<Rightarrow> dget d ''raw_issue_body'' | _ \<Rightarrow> JNull)]))))"

section \<open>Paths and manifests\<close>

type_synonym path = "string list"

record repo_tree =
  tr_exists :: "path \<Rightarrow> bool"
  tr_is_file :: "path \<Rightarrow> bool"
  tr_is_dir :: "path \<Rightarrow> bool"
  tr_json :: "path \<Rightarrow> json option"
  tr_toml :: "path \<Rightarrow> obj option"

definition rel_parts :: "string \<Rightarrow> path" where
  "rel_parts p = filter (\<lambda>s. s \<noteq> [] \<and> s \<noteq> ''.'') (split_char (CHR ''/'') p)"

definition as_posix :: "path \<Rightarrow> string" where
  "as_posix ps = (if ps = [] then ''.'' else join ''/'' ps)"

definition ignored_dir_parts :: "string list" where
  "ignored_dir_parts = [''.git'', ''.aca-worktrees'', ''node_modules'', ''dist'', ''build'', ''coverage'', ''target'', ''.venv'', ''__pycache__'']"

definition is_ignored_path :: "path \<Rightarrow> bool" where
  "is_ignored_path ps = list_ex (\<lambda>p. List.member ignored_dir_parts p \<or> starts_with p ''.git'') ps"

text \<open>A directory and those above it, up to the checkout.\<close>

definition ancestors :: "path \<Rightarrow> path list" where
  "ancestors ps = map (\<lambda>k. take k ps) (rev [0..<Suc (length ps)])"

definition nearest_package_dir :: "repo_tree \<Rightarrow> path \<Rightarrow> path option" where
  "nearest_package_dir t ps =
     (if ps = [] then None else find (\<lambda>d. tr_is_file t (d @ [''package.json''])) (ancestors (butlast ps)))"

definition cargo_package_name :: "repo_tree \<Rightarrow> path \<Rightarrow> string" where
  "cargo_package_name t d =
     (case tr_toml t (d @ [''Cargo.toml'']) of
        Some data \<Rightarrow> (case dget data ''package'' of JObj package \<Rightarrow> nonempty (dget package ''name'') | _ \<Rightarrow> [])
      | None \<Rightarrow> [])"

definition nearest_cargo_package_dir :: "repo_tree \<Rightarrow> path \<Rightarrow> path option" where
  "nearest_cargo_package_dir t ps =
     (if tr_is_dir t ps then find (\<lambda>d. tr_is_file t (d @ [''Cargo.toml'']) \<and> cargo_package_name t d \<noteq> []) (ancestors ps)
      else if ps = [] then None
      else find (\<lambda>d. tr_is_file t (d @ [''Cargo.toml'']) \<and> cargo_package_name t d \<noteq> []) (ancestors (butlast ps)))"

text \<open>The scripts of a manifest; a manifest that is no object raises.\<close>

definition load_package_scripts :: "repo_tree \<Rightarrow> path \<Rightarrow> (string \<times> string) list res" where
  "load_package_scripts t file =
     (case tr_json t file of
        None \<Rightarrow> Inr []
      | Some (JObj payload) \<Rightarrow> (case dget payload ''scripts'' of
            JObj scripts \<Rightarrow> Inr (filter (\<lambda>(n, c). strip n \<noteq> [] \<and> strip c \<noteq> []) (map (\<lambda>(n, c). (n, py_str c)) scripts))
          | _ \<Rightarrow> Inr [])
      | Some _ \<Rightarrow> Inl AttributeError)"

definition package_runner :: "repo_tree \<Rightarrow> path \<Rightarrow> string" where
  "package_runner t d =
     (let quoted = shlex_quote (as_posix d); has = (\<lambda>f. tr_is_file t (d @ [f]) \<or> tr_is_file t [f]) in
      if has ''pnpm-lock.yaml'' then ''pnpm -C '' @ quoted @ '' run''
      else if has ''yarn.lock'' then ''yarn --cwd '' @ quoted @ '' run''
      else if has ''bun.lockb'' then ''bun --cwd '' @ quoted @ '' run''
      else ''npm --prefix '' @ quoted @ '' run'')"

definition relative_to :: "path \<Rightarrow> path \<Rightarrow> string" where
  "relative_to d ps = (if take (length d) ps = d then as_posix (drop (length d) ps) else [])"

definition script_references_changed_file :: "path \<Rightarrow> string \<Rightarrow> string list \<Rightarrow> bool" where
  "script_references_changed_file d script changed =
     (let command = replace_char backslash (CHR ''/'') script in
      command \<noteq> [] \<and> list_ex (\<lambda>rel. list_ex (\<lambda>c. c \<noteq> [] \<and> contains command c) [rel, relative_to d (rel_parts rel)]) changed)"

section \<open>Python tests\<close>

text \<open>\<open>PurePath.suffix\<close> and \<open>stem\<close> of a last part: the text from its last dot on, unless that dot is its first or its last character.\<close>

definition name_suffix :: "string \<Rightarrow> string" where
  "name_suffix name =
     (let ext = rev (takeWhile (\<lambda>c. c \<noteq> CHR ''.'') (rev name)) in
      if ext = [] \<or> length name \<le> length ext + 1 then [] else CHR ''.'' # ext)"

definition name_stem :: "string \<Rightarrow> string" where
  "name_stem name = take (length name - length (name_suffix name)) name"

definition is_test_stem :: "string \<Rightarrow> bool" where
  "is_test_stem stem = (starts_with stem ''test_'' \<or> ends_with stem ''_test'')"

text \<open>\<open>^[A-Za-z_][A-Za-z0-9_]*$\<close>, whose end may stand before a final newline.\<close>

definition is_identifier :: "string \<Rightarrow> bool" where
  "is_identifier part =
     (let s = (if part \<noteq> [] \<and> last part = CHR 0x0A then butlast part else part) in
      case s of [] \<Rightarrow> False
      | c # cs \<Rightarrow> (is_alnum_ascii c \<and> \<not> is_digit c \<or> c = CHR ''_'') \<and> list_all (\<lambda>d. is_alnum_ascii d \<or> d = CHR ''_'') cs)"

definition python_unittest_module :: "path \<Rightarrow> string" where
  "python_unittest_module ps =
     (if ps = [] \<or> name_suffix (last ps) \<noteq> ''.py'' \<or> \<not> is_test_stem (name_stem (last ps)) then []
      else let parts = butlast ps @ [name_stem (last ps)] in
        if list_all is_identifier parts then join ''.'' parts else [])"

definition test_candidates :: "path \<Rightarrow> path list" where
  "test_candidates ps =
     (if ps = [] \<or> name_suffix (last ps) \<noteq> ''.py'' \<or> hd ps \<noteq> ''src'' then []
      else if is_test_stem (name_stem (last ps)) then [ps]
      else [butlast ps @ [name_stem (last ps) @ ''_test.py''], butlast ps @ [''test_'' @ last ps]])"

definition python_test_commands :: "repo_tree \<Rightarrow> string list \<Rightarrow> string list" where
  "python_test_commands t files =
     first_of_each (concat (map (\<lambda>rel. map (\<lambda>c. ''python3 -m unittest '' @ python_unittest_module c)
       (filter (\<lambda>c. python_unittest_module c \<noteq> [] \<and> (tr_exists t c \<or> as_posix c = rel)) (test_candidates (rel_parts rel)))) files))"

section \<open>Inferred commands\<close>

fun insert_by :: "('a \<Rightarrow> string) \<Rightarrow> 'a \<Rightarrow> 'a list \<Rightarrow> 'a list" where
  "insert_by f x [] = [x]"
| "insert_by f x (y # ys) = (if str_le (f x) (f y) then x # y # ys else y # insert_by f x ys)"

definition sorted_by :: "('a \<Rightarrow> string) \<Rightarrow> 'a list \<Rightarrow> 'a list" where
  "sorted_by f xs = foldr (insert_by f) xs []"

definition task_words :: "obj \<Rightarrow> string" where
  "task_words task =
     (let acceptance = (case dget task ''acceptance_criteria'' of JList vs \<Rightarrow> vs | v \<Rightarrow> [v]) in
      lower (join '' '' [str_or_empty (dget task ''title''), str_or_empty (dget task ''description''),
        join '' '' (filter (\<lambda>s. strip s \<noteq> []) (map str_or_empty acceptance))]))"

definition prefers_tests :: "obj \<Rightarrow> bool" where
  "prefers_tests task = list_ex (contains (task_words task)) [''test'', ''smoke'', ''verify'', ''verification'', ''lint'', ''typecheck'']"

definition relevant_script :: "path \<Rightarrow> string list \<Rightarrow> string \<times> string \<Rightarrow> bool" where
  "relevant_script d files = (\<lambda>(name, command).
     list_ex (contains (lower name @ '' '' @ lower command)) [''test'', ''smoke'', ''check''] \<and> script_references_changed_file d command files)"

definition package_scripts_to_run :: "bool \<Rightarrow> path \<Rightarrow> string list \<Rightarrow> (string \<times> string) list \<Rightarrow> string list" where
  "package_scripts_to_run prefer d files scripts =
     (let has = (\<lambda>n. map_of scripts n \<noteq> None) in
      (if has ''build'' then [''build''] else [])
      @ (if prefer \<or> \<not> has ''build'' then take 1 (filter has [''test:smoke'', ''test:ci'', ''test:unit'', ''test'']) else [])
      @ (if prefer then map fst (filter (relevant_script d files) (sorted_by fst scripts)) else []))"

fun package_commands :: "repo_tree \<Rightarrow> bool \<Rightarrow> string list \<Rightarrow> path list \<Rightarrow> string list res" where
  "package_commands t prefer files [] = Inr []"
| "package_commands t prefer files (d # ds) =
     bind_res (load_package_scripts t (d @ [''package.json''])) (\<lambda>scripts.
     bind_res (package_commands t prefer files ds) (\<lambda>rest.
       Inr (map (\<lambda>n. package_runner t d @ '' '' @ n) (package_scripts_to_run prefer d files scripts) @ rest)))"

definition found_dirs :: "(path \<Rightarrow> path option) \<Rightarrow> string list \<Rightarrow> path list" where
  "found_dirs search files = sorted_by as_posix (first_of_each (List.map_filter (\<lambda>rel. search (rel_parts rel)) files))"

definition checked_files :: "string list \<Rightarrow> string list" where
  "checked_files changed = filter (\<lambda>p. p \<noteq> [] \<and> \<not> is_ignored_path (rel_parts p)) (map (\<lambda>p. safe_rel_path (JStr p)) changed)"

definition cargo_commands :: "repo_tree \<Rightarrow> string list \<Rightarrow> string list" where
  "cargo_commands t files = map (\<lambda>d. ''cargo check -p '' @ shlex_quote (cargo_package_name t d)) (found_dirs (nearest_cargo_package_dir t) files)"

definition infer_command_checks :: "repo_tree \<Rightarrow> string list \<Rightarrow> obj \<Rightarrow> string list res" where
  "infer_command_checks t changed task =
     (let files = checked_files changed in
      if files = [] then Inr []
      else bind_res (package_commands t (prefers_tests task) files (found_dirs (nearest_package_dir t) files)) (\<lambda>packages.
        Inr (first_of_each (cargo_commands t files @ python_test_commands t files @ packages))))"

section \<open>Lemmas\<close>

lemma shell_safe_plain: "shell_safe c \<Longrightarrow> \<not> shell_space c \<and> c \<noteq> backslash \<and> c \<noteq> single_quote \<and> c \<noteq> double_quote"
  by (auto simp: shell_safe_def shell_space_def backslash_def single_quote_def double_quote_def is_alnum_ascii_def is_upper_az_def
      is_lower_az_def is_digit_def code_def)

text \<open>Words followed by a blank or the end.\<close>

definition next_words :: "string \<Rightarrow> string list option" where
  "next_words rest = shlex_words Blank [] False rest"

definition word_ends :: "string \<Rightarrow> bool" where
  "word_ends rest \<longleftrightarrow> rest = [] \<or> shell_space (hd rest)"

lemma word_end:
  assumes "word_ends rest" and "tok \<noteq> [] \<or> q"
  shows "shlex_words InWord tok q rest = map_option ((#) tok) (next_words rest)"
  using assms by (cases rest) (auto simp: word_ends_def next_words_def)

lemma safe_word: "list_all shell_safe s \<Longrightarrow> shlex_words InWord tok q (s @ rest) = shlex_words InWord (tok @ s) q rest"
  by (induction s arbitrary: tok) (auto dest: shell_safe_plain)

lemma quoted_word:
  "shlex_words (Quoted single_quote) tok True
     (concat (map (\<lambda>c. if c = single_quote then [single_quote, double_quote, single_quote, double_quote, single_quote] else [c]) s)
       @ single_quote # rest)
   = shlex_words InWord (tok @ s) True rest"
proof (induction s arbitrary: tok)
  case (Cons c s)
  have d: "double_quote \<noteq> single_quote" "\<not> shell_space single_quote" "\<not> shell_space double_quote" "backslash \<noteq> double_quote"
    "backslash \<noteq> single_quote" "single_quote \<noteq> double_quote" "double_quote \<noteq> backslash" "single_quote \<noteq> backslash"
    by (simp_all add: double_quote_def single_quote_def shell_space_def backslash_def)
  show ?case
  proof (cases "c = single_quote")
    case True
    then show ?thesis using Cons.IH [of "tok @ [c]"] d by simp
  next
    case False
    then show ?thesis using Cons.IH [of "tok @ [c]"] d by simp
  qed
qed (simp add: single_quote_def)

lemma quote_splits:
  assumes "word_ends rest"
  shows "next_words (shlex_quote s @ rest) = map_option ((#) s) (next_words rest)"
proof -
  have sq: "\<not> shell_space single_quote" "single_quote \<noteq> backslash"
    by (simp_all add: single_quote_def shell_space_def backslash_def)
  consider "s = []" | "s \<noteq> []" "list_all shell_safe s" | "s \<noteq> []" "\<not> list_all shell_safe s" by blast
  then show ?thesis
  proof cases
    case 1
    then show ?thesis using assms sq by (simp add: next_words_def shlex_quote_def word_end)
  next
    case 2
    then obtain c t where s: "s = c # t" by (cases s) auto
    have "shell_safe c" using 2 s by simp
    then show ?thesis using 2 s shell_safe_plain [of c] safe_word [of t "[c]" False rest] word_end [OF assms]
      by (simp add: next_words_def shlex_quote_def)
  next
    case 3
    then show ?thesis using sq quoted_word [of "[]" s rest] word_end [OF assms] by (simp add: next_words_def shlex_quote_def)
  qed
qed

text \<open>A quoted text is one word for the shell, the text itself.\<close>

theorem quoted_text_is_one_word: "shlex_split (shlex_quote s) = Some [s]"
  using quote_splits [of "[]" s] by (simp add: shlex_split_def next_words_def word_ends_def)

section \<open>Inferred commands\<close>

lemma safe_then_blank:
  assumes "list_all shell_safe w" and "w \<noteq> []"
  shows "next_words (w @ CHR '' '' # rest) = map_option ((#) w) (next_words rest)"
proof -
  obtain c t where w: "w = c # t" using assms(2) by (cases w) auto
  have "shell_safe c" using assms(1) w by simp
  then have "next_words (w @ CHR '' '' # rest) = shlex_words InWord ([c] @ t) False (CHR '' '' # rest)"
    using assms w shell_safe_plain [of c] safe_word [of t "[c]" False "CHR '' '' # rest"] by (simp add: next_words_def)
  then show ?thesis by (simp add: w next_words_def shell_space_def)
qed

lemma cargo_words: "next_words (''cargo check -p '' @ shlex_quote n) = Some [''cargo'', ''check'', ''-p'', n]"
proof -
  have w: "list_all shell_safe ''cargo''" "list_all shell_safe ''check''" "list_all shell_safe ''-p''" by code_simp+
  have "''cargo check -p '' @ shlex_quote n = ''cargo'' @ CHR '' '' # ''check'' @ CHR '' '' # ''-p'' @ CHR '' '' # shlex_quote n" by simp
  then show ?thesis
    using safe_then_blank [OF w(1)] safe_then_blank [OF w(2)] safe_then_blank [OF w(3)] quote_splits [of "[]" n]
    by (simp add: word_ends_def) (simp add: next_words_def)
qed

lemma safe_no_space: "shell_safe c \<Longrightarrow> \<not> is_space c"
  by (auto simp: shell_safe_def is_space_def is_alnum_ascii_def is_upper_az_def is_lower_az_def is_digit_def code_def Let_def)

lemma quote_end: "shlex_quote n \<noteq> [] \<and> \<not> is_space (last (shlex_quote n))"
proof (cases "n \<noteq> [] \<and> list_all shell_safe n")
  case True
  then have "shell_safe (last n)" by (simp add: list_all_iff)
  then show ?thesis using True safe_no_space by (simp add: shlex_quote_def)
next
  case False
  have "\<not> is_space single_quote" by code_simp
  then show ?thesis using False by (cases "n = []") (auto simp: shlex_quote_def)
qed

lemma strip_ends:
  assumes "s \<noteq> []" and "\<not> is_space (hd s)" and "\<not> is_space (last s)"
  shows "strip s = s"
proof -
  have "dropWhile is_space s = s" using assms by (cases s) auto
  moreover have "dropWhile is_space (rev s) = rev s" using assms by (cases s rule: rev_cases) auto
  ultimately show ?thesis by (simp add: strip_def strip_by_def rstrip_by_def lstrip_by_def)
qed

lemma cargo_executable: "command_check_is_executable (''cargo check -p '' @ shlex_quote n)"
proof -
  have "\<not> is_space (CHR ''c'')" by code_simp
  then have "strip (''cargo check -p '' @ shlex_quote n) = ''cargo check -p '' @ shlex_quote n"
    using quote_end [of n] by (intro strip_ends) auto
  moreover have "List.member check_programs (strip ''cargo'')" by code_simp
  moreover have "shlex_split (''cargo check -p '' @ shlex_quote n) = Some [''cargo'', ''check'', ''-p'', n]"
    using cargo_words [of n] by (simp only: shlex_split_def next_words_def)
  ultimately show ?thesis unfolding command_check_is_executable_def by simp
qed

lemma set_insert_by [simp]: "set (insert_by f x xs) = insert x (set xs)"
  by (induction xs) auto

lemma set_sorted_by [simp]: "set (sorted_by f xs) = set xs"
  by (induction xs) (simp_all add: sorted_by_def)

lemma set_found_dirs: "set (found_dirs search files) = {d. \<exists>rel\<in>set files. search (rel_parts rel) = Some d}"
  by (force simp: found_dirs_def List.map_filter_def first_of_each_def)

lemma set_ancestors: "set (ancestors ps) = {take k ps |k. k \<le> length ps}"
  unfolding ancestors_def by (simp add: image_def del: upt_Suc) (auto simp: less_Suc_eq_le)

lemma ancestors_butlast: "set (ancestors (butlast ps)) \<subseteq> set (ancestors ps)"
proof
  fix d assume "d \<in> set (ancestors (butlast ps))"
  then obtain k where k: "d = take k (butlast ps)" "k \<le> length (butlast ps)" unfolding set_ancestors by blast
  then have "d = take k ps" by (simp add: butlast_conv_take)
  moreover have "k \<le> length ps" using k(2) by simp
  ultimately show "d \<in> set (ancestors ps)" unfolding set_ancestors by blast
qed

lemma find_hit: "find p xs = Some x \<Longrightarrow> x \<in> set xs \<and> p x"
  by (auto simp: find_Some_iff)

lemma found_package:
  "nearest_package_dir t ps = Some d \<Longrightarrow> d \<in> set (ancestors ps) \<and> tr_is_file t (d @ [''package.json''])"
  "nearest_cargo_package_dir t ps = Some d \<Longrightarrow> d \<in> set (ancestors ps) \<and> tr_is_file t (d @ [''Cargo.toml'']) \<and> cargo_package_name t d \<noteq> []"
  using ancestors_butlast
  by (auto simp: nearest_package_dir_def nearest_cargo_package_dir_def split: if_splits dest!: find_hit)

text \<open>The scripts a package runs are scripts it declares.\<close>

lemma scripts_declared: "n \<in> set (package_scripts_to_run prefer d files scripts) \<Longrightarrow> n \<in> fst ` set scripts"
  by (auto simp: package_scripts_to_run_def map_of_eq_None_iff Let_def split: if_splits dest!: in_set_takeD)

lemma package_commands_declared:
  "package_commands t prefer files ds = Inr cs \<Longrightarrow> c \<in> set cs \<Longrightarrow> \<exists>d\<in>set ds. \<exists>scripts n.
     load_package_scripts t (d @ [''package.json'']) = Inr scripts \<and> n \<in> fst ` set scripts \<and> c = package_runner t d @ '' '' @ n"
proof (induction ds arbitrary: cs)
  case (Cons d ds)
  obtain scripts rest where "load_package_scripts t (d @ [''package.json'']) = Inr scripts" "package_commands t prefer files ds = Inr rest"
    "cs = map (\<lambda>n. package_runner t d @ '' '' @ n) (package_scripts_to_run prefer d files scripts) @ rest"
    using Cons.prems(1) by (auto simp: bind_res_Inr_iff)
  then show ?case using Cons.IH [of rest] Cons.prems(2) scripts_declared by (auto dest!: scripts_declared)
qed simp

text \<open>The sources of an inferred command: a Cargo manifest or the declared scripts of a package above a changed file, or a test module.\<close>

definition declared_command :: "repo_tree \<Rightarrow> string list \<Rightarrow> string \<Rightarrow> bool" where
  "declared_command t files c \<longleftrightarrow>
     (\<exists>rel\<in>set files. \<exists>d\<in>set (ancestors (rel_parts rel)).
        (tr_is_file t (d @ [''Cargo.toml'']) \<and> cargo_package_name t d \<noteq> [] \<and> c = ''cargo check -p '' @ shlex_quote (cargo_package_name t d))
      \<or> (tr_is_file t (d @ [''package.json'']) \<and> (\<exists>scripts n. load_package_scripts t (d @ [''package.json'']) = Inr scripts
           \<and> n \<in> fst ` set scripts \<and> c = package_runner t d @ '' '' @ n)))
   \<or> (\<exists>p. python_unittest_module p \<noteq> [] \<and> (tr_exists t p \<or> as_posix p \<in> set files) \<and> c = ''python3 -m unittest '' @ python_unittest_module p)"

text \<open>
  No command is invented. Whatever the agents wrote, the commands inferred from the changed files are pairwise different, and
  each one checks a Cargo package that encloses a changed file, runs a script that the nearest package of a changed file declares,
  or runs a test module that exists or was changed; the Cargo commands always pass for shell commands, with the package's name as
  one word.
\<close>

theorem inferred_commands_are_declared:
  assumes "infer_command_checks t changed task = Inr cs"
  shows "distinct cs \<and> list_all (declared_command t (checked_files changed)) cs
    \<and> set (cargo_commands t (checked_files changed)) \<subseteq> Collect command_check_is_executable"
proof -
  let ?files = "checked_files changed"
  have cargo: "declared_command t ?files c" if cmd: "c \<in> set (cargo_commands t ?files)" for c
  proof -
    obtain d where d: "d \<in> set (found_dirs (nearest_cargo_package_dir t) ?files)" and c: "c = ''cargo check -p '' @ shlex_quote (cargo_package_name t d)"
      using cmd by (auto simp: cargo_commands_def)
    obtain rel where rel: "rel \<in> set ?files" "nearest_cargo_package_dir t (rel_parts rel) = Some d" using d unfolding set_found_dirs by blast
    show ?thesis unfolding declared_command_def using rel(1) found_package(2) [OF rel(2)] c by blast
  qed
  have python: "declared_command t ?files c" if "c \<in> set (python_test_commands t ?files)" for c
    using that by (auto simp: python_test_commands_def first_of_each_def declared_command_def)
  have packages: "declared_command t ?files c"
    if ps: "package_commands t (prefers_tests task) ?files (found_dirs (nearest_package_dir t) ?files) = Inr ps" and c: "c \<in> set ps" for ps c
  proof -
    obtain d scripts n where d: "d \<in> set (found_dirs (nearest_package_dir t) ?files)" and n: "load_package_scripts t (d @ [''package.json'']) = Inr scripts"
      "n \<in> fst ` set scripts" "c = package_runner t d @ '' '' @ n"
      using package_commands_declared [OF ps c] by blast
    obtain rel where rel: "rel \<in> set ?files" "nearest_package_dir t (rel_parts rel) = Some d" using d unfolding set_found_dirs by blast
    show ?thesis unfolding declared_command_def using rel(1) found_package(1) [OF rel(2)] n by blast
  qed
  have "cs = [] \<or> (\<exists>ps. package_commands t (prefers_tests task) ?files (found_dirs (nearest_package_dir t) ?files) = Inr ps
      \<and> cs = first_of_each (cargo_commands t ?files @ python_test_commands t ?files @ ps))"
    using assms by (auto simp: infer_command_checks_def bind_res_Inr_iff Let_def split: if_splits)
  then have "distinct cs \<and> list_all (declared_command t ?files) cs"
    using cargo python packages by (auto simp: first_of_each_def list_all_iff)
  moreover have "set (cargo_commands t ?files) \<subseteq> Collect command_check_is_executable"
    using cargo_executable by (auto simp: cargo_commands_def)
  ultimately show ?thesis by blast
qed

end
