(* ===== verification/VerificationPhase.thy ===== *)
theory VerificationPhase imports CommandChecks RunContext begin

text \<open>
  The review and test phase of a coding run (src/tandem_agents/core/phases/review_verify.py): the reviewer's and
  the tester's sessions, the deterministic validation with the commands the engine runs, the coding run contract
  (core/verification/coding_run_contract.py), and the decision of the verification policy. The sessions, with the
  heartbeats beside them, are functions of the context; the checkout is what it is when the tester is done.
\<close>

section \<open>The changed and the expected files\<close>

definition worker_changed_files :: "obj list \<Rightarrow> string list" where
  "worker_changed_files results =
     first_of_each (filter (\<lambda>p. p \<noteq> []) (map nonempty (concat (map (\<lambda>r. value_list (dget r ''changed_files'')) results))))"

definition plain_path :: "string \<Rightarrow> string" where
  "plain_path p = drop_dot_slash (replace_char backslash (CHR ''/'') (strip p))"

definition validation_expected_repo_files :: "file_system \<Rightarrow> string list \<Rightarrow> string list \<Rightarrow> string list" where
  "validation_expected_repo_files fs expected changed =
     (let plain = (\<lambda>ps. map plain_path (filter (\<lambda>p. strip p \<noteq> []) ps)); es = plain expected; cs = plain changed in
      if cs = [] then first_of_each es
      else first_of_each (filter (\<lambda>p. p \<noteq> [] \<and> (List.member cs p \<or> fs_is_file fs p)) (es @ cs)))"

definition prose_suffixes :: "string list" where
  "prose_suffixes = [''.md'', ''.markdown'', ''.mdx'', ''.rst'', ''.txt'', ''.adoc'']"

definition path_suffix :: "string \<Rightarrow> string" where
  "path_suffix p = (let ps = rel_parts p in if ps = [] then [] else name_suffix (last ps))"

definition changes_require_command_verification :: "string list \<Rightarrow> string list \<Rightarrow> bool" where
  "changes_require_command_verification changed expected =
     list_ex (\<lambda>p. strip p \<noteq> [] \<and> \<not> List.member prose_suffixes (lower (path_suffix (strip p)))) (if changed \<noteq> [] then changed else expected)"

section \<open>The coding run contract\<close>

definition coding_run_contract :: "string \<Rightarrow> obj \<Rightarrow> string \<Rightarrow> string \<Rightarrow> string list \<Rightarrow> obj" where
  "coding_run_contract run_id task repo_path branch expected =
     (let files = filter (\<lambda>p. p \<noteq> []) (map strip expected); editing = (files \<noteq> []) in
      [(''run_id'', JStr run_id), (''task_title'', JStr (if truthy (dget task ''title'') then py_str (dget task ''title'') else ''Task'')),
       (''source_type'', JStr (str_or_empty (dget (section_of task ''source'') ''type''))), (''repo_path'', JStr repo_path),
       (''branch_name'', JStr branch), (''worktree_path'', JNull), (''expected_repo_files'', str_list files),
       (''code_editing'', JBool editing), (''requires_diff_review_before_handoff'', JBool editing),
       (''requires_minimal_verification_before_handoff'', JBool editing),
       (''handoff_mode'', JStr (if editing then ''code_edit'' else ''task_only'')),
       (''handoff_rules'', str_list (if editing
          then [''Review the diff before handoff.'',
                ''Run at least one minimal verification command or deterministic repo validation before completion.'',
                ''Persist the diff snapshot and verification result in the run artifacts.'']
          else [''No code-edit diff review is required for this run.'',
                ''Complete the run with a summary and the existing task artifacts.'']))])"

definition contract_note :: string where
  "contract_note = ''Coding run contract: diff review and minimal verification are required before handoff.''"

definition add_note :: "string \<Rightarrow> obj \<Rightarrow> obj" where
  "add_note message bb =
     (let notes = list_of (dget bb ''notes'') in
      dset ''notes'' (JList (if List.member notes (JStr message) then notes else notes @ [JStr message])) bb)"

definition record_coding_run_contract :: "obj \<Rightarrow> obj \<Rightarrow> obj" where
  "record_coding_run_contract contract bb =
     (let bb1 = dset ''coding_run_contract'' (JObj contract) bb in
      if dget contract ''code_editing'' = JBool True then add_note contract_note bb1 else bb1)"

section \<open>Commands on the engine\<close>

text \<open>What the engine's tool gives for a command: an exception with its text, or a payload.\<close>

datatype tool_answer = ToolRaised string | ToolPayload json

definition exit_code :: "obj \<Rightarrow> int" where
  "exit_code metadata = (case dget metadata ''exit_code'' of JInt i \<Rightarrow> i | JBool b \<Rightarrow> (if b then 1 else 0) | _ \<Rightarrow> 1)"

definition engine_command_result :: "string \<Rightarrow> string \<Rightarrow> tool_answer \<Rightarrow> obj" where
  "engine_command_result engine_path command reply =
     (let (rc, out, err) = (case reply of
          ToolRaised e \<Rightarrow> (1, [], e)
        | ToolPayload v \<Rightarrow> (let payload = obj_of v; metadata = obj_of (dget payload ''metadata'') in
            (exit_code metadata, nonempty (dget payload ''output''), nonempty (dget metadata ''stderr''))))
      in [(''command'', JStr command), (''returncode'', JInt rc), (''stdout'', JStr out), (''stderr'', JStr err),
          (''status'', JStr (if rc = 0 then ''pass'' else ''fail'')), (''executor'', JStr ''tandem_engine''),
          (''engine_repo_path'', JStr engine_path)])"

definition engine_shell_command :: "string \<Rightarrow> string \<Rightarrow> string" where
  "engine_shell_command engine_path command = ''cd '' @ shlex_quote engine_path @ '' && '' @ command"

definition run_engine_command_checks :: "(string \<Rightarrow> tool_answer) \<Rightarrow> string \<Rightarrow> string list \<Rightarrow> obj list" where
  "run_engine_command_checks engine engine_path commands =
     map (\<lambda>c. engine_command_result engine_path c (engine (engine_shell_command engine_path c))) commands"

section \<open>Pull requests named as candidates\<close>

definition word_char :: "char \<Rightarrow> bool" where
  "word_char c = (let n = code c in is_alnum_ascii c \<or> c = CHR ''_'' \<or> List.member [170, 178, 179, 181, 185, 186, 188, 189, 190] n
     \<or> (192 \<le> n \<and> n \<noteq> 215 \<and> n \<noteq> 247))"

definition number_here :: "string \<Rightarrow> bool" where
  "number_here s = (case s of [] \<Rightarrow> False
     | c # t \<Rightarrow> c = CHR ''#'' \<and> (let ds = takeWhile is_digit t; rest = drop (length ds) t in
         ds \<noteq> [] \<and> (rest = [] \<or> \<not> word_char (hd rest))))"

text \<open>\<open>(?:^|[\s(])#\d+\b\<close>.\<close>

fun number_after_gap :: "string \<Rightarrow> bool" where
  "number_after_gap [] = False"
| "number_after_gap (c # s) = (((is_space c \<or> c = CHR ''('') \<and> number_here s) \<or> number_after_gap s)"

definition candidate_markers :: "string list" where
  "candidate_markers = ['' pr'', ''prs'', ''pull request'', ''pull requests'', ''cherry-pick'', ''merge'', ''close'', ''branch'']"

definition task_mentions_external_pr_candidates :: "obj \<Rightarrow> bool" where
  "task_mentions_external_pr_candidates task =
     (let text = lower (join nlc [str_or_empty (dget task ''title''),
            str_or_empty (py_or (dget task ''description'') (dget task ''raw_issue_body'')),
            join nlc (map str_or_empty (value_list (dget task ''acceptance_criteria'')))])
      in (number_here text \<or> number_after_gap text) \<and> list_ex (contains text) candidate_markers)"

fun pr_candidate_contexts_from_subtasks :: "obj list \<Rightarrow> obj list" where
  "pr_candidate_contexts_from_subtasks [] = []"
| "pr_candidate_contexts_from_subtasks (s # ss) =
     (case dget s ''pr_candidate_context'' of JList _ \<Rightarrow> dicts_of (dget s ''pr_candidate_context'')
      | _ \<Rightarrow> pr_candidate_contexts_from_subtasks ss)"

definition candidate_files :: "obj \<Rightarrow> json list" where
  "candidate_files context =
     (case dget context ''files'' of
        JList (f # fs) \<Rightarrow> map (\<lambda>d. dget d ''filename'') (filter (\<lambda>d. \<not> truthy (dget d ''current_layout_stale'')) (dicts_of (JList (f # fs))))
      | _ \<Rightarrow> (case dget context ''changed_files'' of JList fs \<Rightarrow> fs | _ \<Rightarrow> []))"

definition pr_candidate_target_files :: "obj list \<Rightarrow> string list" where
  "pr_candidate_target_files contexts =
     first_of_each (filter (\<lambda>p. p \<noteq> [] \<and> \<not> List.member [''.jules/bolt.md'', ''jules/bolt.md''] p \<and> \<not> starts_with p ''.jules/'')
       (map (\<lambda>v. lstrip_by (\<lambda>c. c = CHR ''/'') (nonempty v))
         (concat (map candidate_files (filter (\<lambda>c. \<not> truthy (dget c ''error'')) contexts)))))"

definition pr_candidate_unexpected_changed_files :: "obj list \<Rightarrow> string list \<Rightarrow> string list" where
  "pr_candidate_unexpected_changed_files subtasks changed =
     (let allowed = pr_candidate_target_files (pr_candidate_contexts_from_subtasks subtasks) in
      if allowed = [] then [] else first_of_each (filter (\<lambda>p. p \<noteq> [] \<and> \<not> List.member allowed p) changed))"

section \<open>The phase\<close>

record verify_answers =
  va_reviewer :: "run_context \<Rightarrow> obj \<times> run_context"
  va_tester :: "string list \<Rightarrow> run_context \<Rightarrow> obj \<times> run_context"
  va_plan :: obj
  va_files :: file_system
  va_tree :: repo_tree
  va_engine :: "string \<Rightarrow> tool_answer"
  va_engine_path :: string
  va_repo_path :: string
  va_branch :: string

text \<open>The session's answer as the policy reads it.\<close>

definition agent_of :: "obj \<Rightarrow> agent_result" where
  "agent_of r = \<lparr>ar_returncode = (case dget r ''returncode'' of JInt i \<Rightarrow> Some i | _ \<Rightarrow> None), ar_stdout = str_or_empty (dget r ''stdout'')\<rparr>"

definition decision_obj :: "policy_decision \<Rightarrow> obj" where
  "decision_obj v = [(''outcome'', JStr (vp_outcome v)), (''failure_category'', opt_str (vp_failure_category v)),
     (''review_blocker'', opt_str (vp_review_blocker v)), (''test_blocker'', opt_str (vp_test_blocker v)),
     (''repo_blocker'', opt_str (vp_repo_blocker v)), (''validation_blocker'', opt_str (vp_validation_blocker v)),
     (''should_retry'', JBool (vp_should_retry v)), (''review_returncode'', opt_int (vp_review_returncode v)),
     (''test_returncode'', opt_int (vp_test_returncode v)), (''review_outcome'', JStr (vp_review_outcome v)),
     (''test_outcome'', JStr (vp_test_outcome v))]"

definition append_new :: "'a list \<Rightarrow> 'a list \<Rightarrow> 'a list" where
  "append_new xs ys = xs @ filter (\<lambda>y. \<not> List.member xs y) (first_of_each ys)"

record check_plan =
  cp_task :: "string list"
  cp_executable :: "string list"
  cp_manager :: "string list"
  cp_inferred :: "string list"
  cp_changed :: "string list"

definition combined_command_checks :: "check_plan \<Rightarrow> string list" where
  "combined_command_checks p = first_of_each (cp_executable p @ cp_manager p @ cp_inferred p)"

definition plan_checks :: "verify_answers \<Rightarrow> run_context \<Rightarrow> check_plan res" where
  "plan_checks va x =
     (let task_commands = append_new (stripped_entries (dget (rx_task x) ''verification_commands'')) (verification_commands_from_task_text (rx_task x));
          changed = worker_changed_files (rx_results x)
      in bind_res (infer_command_checks (va_tree va) changed (rx_task x)) (\<lambda>inferred.
        Inr \<lparr>cp_task = task_commands, cp_executable = filter_executable_command_checks task_commands,
             cp_manager = extract_command_checks (va_plan va), cp_inferred = inferred, cp_changed = changed\<rparr>))"

definition phase_changes :: "string \<Rightarrow> string \<Rightarrow> status_changes" where
  "phase_changes phase role = no_status_changes\<lparr>sg_phase := Some phase, sg_phase_role := Some role, sg_run_status := Some ''running''\<rparr>"

definition running_update :: "string \<Rightarrow> run_update" where
  "running_update phase = \<lparr>ru_status = Some ''running'', ru_phase = Some phase, ru_error = None, ru_completed = False\<rparr>"

definition enter_phase :: "run_settings \<Rightarrow> string \<Rightarrow> string \<Rightarrow> run_context \<Rightarrow> run_context" where
  "enter_phase cfg phase role x = snd (touch_run cfg True (running_update phase) (set_run_status (phase_changes phase role) x))"

text \<open>The task moves to review when the document names its claim in full.\<close>

definition mark_review :: "run_context \<Rightarrow> run_context" where
  "mark_review x =
     (let c = section_of (rx_status x) ''coordination''; field = (\<lambda>k. str_of (dget c k)) in
      case dget c ''lease_expires_at_ms'' of
        JInt expires \<Rightarrow>
          (if field ''task_key'' \<noteq> [] \<and> field ''lease_id'' \<noteq> [] \<and> field ''worker_id'' \<noteq> [] \<and> field ''host_id'' \<noteq> []
           then x\<lparr>rx_store := snd (mark_task_review (rx_now x) (field ''task_key'') (rx_run_id x) (field ''lease_id'') (field ''worker_id'')
             (field ''host_id'') expires (Some ''review phase started'') (rx_store x))\<rparr> else x)
      | _ \<Rightarrow> x)"

definition session_event :: "string \<Rightarrow> obj \<Rightarrow> run_context \<Rightarrow> run_context" where
  "session_event name r = emit (name @ (if dget r ''returncode'' = JInt 0 then ''.completed'' else ''.failed''))
     [(''returncode'', dget r ''returncode'')]"

definition review_session :: "run_settings \<Rightarrow> verify_answers \<Rightarrow> run_context \<Rightarrow> run_context" where
  "review_session cfg va x =
     (let (r, x1) = va_reviewer va (mark_review (enter_phase cfg ''review'' ''reviewer'' x))
      in session_event ''review'' r (x1\<lparr>rx_review := r\<rparr>))"

definition test_session :: "run_settings \<Rightarrow> verify_answers \<Rightarrow> string list \<Rightarrow> run_context \<Rightarrow> run_context" where
  "test_session cfg va commands x =
     (let (r, x1) = va_tester va commands (enter_phase cfg ''test'' ''tester'' x)
      in session_event ''test'' r (x1\<lparr>rx_test := r\<rparr>))"

text \<open>The validation without commands runs none.\<close>

definition files_validation :: "file_system \<Rightarrow> string list \<Rightarrow> obj" where
  "files_validation fs expected = fst (deterministic_repo_validation fs (\<lambda>c w. (Exited 0 [] [], w)) 1 expected [] ())"

definition with_command_results :: "obj list \<Rightarrow> obj \<Rightarrow> obj" where
  "with_command_results results rv =
     (let failures = filter (\<lambda>r. \<not> check_passed r) results in
      dset ''ok'' (JBool (truthy (dget rv ''ok'') \<and> failures = []))
        (dset ''command_failures'' (JList (map JObj failures)) (dset ''command_checks'' (JList (map JObj results)) rv)))"

definition engine_validation :: "verify_answers \<Rightarrow> string list \<Rightarrow> string list \<Rightarrow> obj" where
  "engine_validation va expected commands =
     (let rv = files_validation (va_files va) expected in
      if commands = [] then rv
      else with_command_results (run_engine_command_checks (va_engine va) (va_engine_path va) commands) rv)"

definition not_ok :: "string \<Rightarrow> json \<Rightarrow> obj \<Rightarrow> obj" where
  "not_ok k v rv = dset ''ok'' (JBool False) (dset k v rv)"

definition phase_validation :: "verify_answers \<Rightarrow> check_plan \<Rightarrow> obj list \<Rightarrow> obj \<Rightarrow> string list \<Rightarrow> obj" where
  "phase_validation va plan subtasks task expected =
     (let commands = combined_command_checks plan; rv = engine_validation va expected commands;
          unexpected = (if cp_changed plan \<noteq> [] \<and> task_mentions_external_pr_candidates task
            then pr_candidate_unexpected_changed_files subtasks (cp_changed plan) else []);
          rv1 = (if unexpected \<noteq> [] then not_ok ''unexpected_files'' (str_list unexpected) rv else rv);
          editing = list_ex (\<lambda>p. strip p \<noteq> []) expected
      in if editing \<and> changes_require_command_verification (cp_changed plan) expected \<and> commands = []
         then not_ok ''verification_missing'' (JBool True) rv1 else rv1)"

definition verification_plan_obj :: "check_plan \<Rightarrow> string list \<Rightarrow> obj" where
  "verification_plan_obj plan expected =
     [(''commands'', str_list (combined_command_checks plan)), (''task_commands'', str_list (cp_task plan)),
      (''executable_task_commands'', str_list (cp_executable plan)), (''manager_commands'', str_list (cp_manager plan)),
      (''inferred_commands'', str_list (cp_inferred plan)), (''changed_files'', str_list (cp_changed plan)),
      (''expected_files'', str_list expected),
      (''requires_command_verification'', JBool (changes_require_command_verification (cp_changed plan) expected))]"

definition phase_blackboard :: "check_plan \<Rightarrow> string list \<Rightarrow> obj \<Rightarrow> obj \<Rightarrow> obj \<Rightarrow> obj" where
  "phase_blackboard plan expected rv task bb =
     (let keep = (\<lambda>k d. dset k (py_or (dget task k) (py_or (dget d k) (JObj []))) d);
          goal = (\<lambda>k d. dset k (py_or (dget task k) (dget d k)) d)
      in dset ''repo_validation'' (JObj rv)
        (dset ''expected_deliverables'' (JObj [(''deliverables'', str_entries task ''deliverables''),
            (''target_files'', str_entries task ''target_files''), (''acceptance_criteria'', str_entries task ''acceptance_criteria'')])
          (dset ''verification_plan'' (JObj (verification_plan_obj plan expected))
            (keep ''contract_completeness'' (keep ''dependency_status'' (goal ''local_goal'' (goal ''program_goal''
              (dset ''task_contract'' (py_or (dget task ''task_contract'') (JObj [])) (dset ''expected_repo_files'' (str_list expected) bb)))))))))"

definition record_decision :: "policy_decision \<Rightarrow> run_context \<Rightarrow> run_context" where
  "record_decision v x = emit ''verification.completed'' (decision_obj v)
     (x\<lparr>rx_blackboard := dset ''verification'' (JObj (decision_obj v)) (rx_blackboard x),
        rx_status := dset ''verification'' (JObj (decision_obj v)) (rx_status x)\<rparr>)"

text \<open>The files that are expected after the sessions, and what the validation of the checkout leaves in the context.\<close>

definition validate_checkout :: "verify_answers \<Rightarrow> check_plan \<Rightarrow> run_context \<Rightarrow> run_context" where
  "validate_checkout va plan x =
     (let expected = validation_expected_repo_files (va_files va) (rx_expected x) (cp_changed plan);
          rv = phase_validation va plan (rx_planned x) (rx_task x) expected;
          contract = coding_run_contract (rx_run_id x) (rx_task x) (va_repo_path va) (va_branch va) expected
      in x\<lparr>rx_expected := expected, rx_validation := rv,
           rx_blackboard := record_coding_run_contract contract (phase_blackboard plan expected rv (rx_task x) (rx_blackboard x)),
           rx_status := dset ''repo_validation'' (JObj rv) (rx_status x)\<rparr>)"

definition run_review_and_test :: "run_settings \<Rightarrow> verify_answers \<Rightarrow> run_context \<Rightarrow> policy_decision res \<times> run_context" where
  "run_review_and_test cfg va x =
     (case plan_checks va x of
        Inl e \<Rightarrow> (Inl e, x)
      | Inr plan \<Rightarrow>
          (let y = validate_checkout va plan (test_session cfg va (combined_command_checks plan) (review_session cfg va x)) in
           case evaluate_verification_policy (agent_of (rx_review y)) (agent_of (rx_test y)) (rx_validation y) of
             Inl e \<Rightarrow> (Inl e, y)
           | Inr v \<Rightarrow> (Inr v, record_decision v y)))"

section \<open>What the validation says\<close>

lemma files_validation_fields:
  "dget (files_validation fs expected) ''missing_files'' = str_list (filter (\<lambda>p. \<not> file_present fs p) expected)"
  "dget (files_validation fs expected) ''unreadable_files'' = str_list (filter (\<lambda>p. \<not> fs_readable fs p) (filter (file_present fs) expected))"
  "dget (files_validation fs expected) ''command_failures'' = JList []"
  "dget (files_validation fs expected) ''unexpected_files'' = JNull" "dget (files_validation fs expected) ''verification_missing'' = JNull"
  by (simp_all add: files_validation_def deterministic_repo_validation_def Let_def)

definition failed_commands :: "verify_answers \<Rightarrow> string list \<Rightarrow> obj list" where
  "failed_commands va commands =
     filter (\<lambda>r. \<not> check_passed r) (run_engine_command_checks (va_engine va) (va_engine_path va) commands)"

lemma engine_validation_fields:
  "dget (engine_validation va expected commands) ''missing_files'' = str_list (filter (\<lambda>p. \<not> file_present (va_files va) p) expected)"
  "dget (engine_validation va expected commands) ''unreadable_files''
     = str_list (filter (\<lambda>p. \<not> fs_readable (va_files va) p) (filter (file_present (va_files va)) expected))"
  "dget (engine_validation va expected commands) ''command_failures'' = JList (map JObj (failed_commands va commands))"
  "dget (engine_validation va expected commands) ''verification_missing'' = JNull"
  by (simp_all add: engine_validation_def with_command_results_def files_validation_fields failed_commands_def
      run_engine_command_checks_def Let_def)

lemma phase_validation_fields:
  "dget (phase_validation va plan sts task expected) ''missing_files'' = str_list (filter (\<lambda>p. \<not> file_present (va_files va) p) expected)"
  "dget (phase_validation va plan sts task expected) ''unreadable_files''
     = str_list (filter (\<lambda>p. \<not> fs_readable (va_files va) p) (filter (file_present (va_files va)) expected))"
  "dget (phase_validation va plan sts task expected) ''command_failures'' = JList (map JObj (failed_commands va (combined_command_checks plan)))"
  "truthy (dget (phase_validation va plan sts task expected) ''verification_missing'') \<longleftrightarrow>
     list_ex (\<lambda>p. strip p \<noteq> []) expected \<and> changes_require_command_verification (cp_changed plan) expected \<and> combined_command_checks plan = []"
  by (simp_all add: phase_validation_def not_ok_def engine_validation_fields Let_def)

definition command_passes :: "verify_answers \<Rightarrow> string \<Rightarrow> bool" where
  "command_passes va command =
     check_passed (engine_command_result (va_engine_path va) command (va_engine va (engine_shell_command (va_engine_path va) command)))"

lemma command_passes_iff:
  "command_passes va command \<longleftrightarrow> (\<exists>payload. va_engine va (engine_shell_command (va_engine_path va) command) = ToolPayload payload
     \<and> exit_code (obj_of (dget (obj_of payload) ''metadata'')) = 0)"
  by (cases "va_engine va (engine_shell_command (va_engine_path va) command)")
    (auto simp: command_passes_def engine_command_result_def check_passed_def Let_def)

lemma no_failed_commands: "failed_commands va commands = [] \<longleftrightarrow> list_all (command_passes va) commands"
  by (induction commands) (auto simp: failed_commands_def run_engine_command_checks_def command_passes_def)

text \<open>What a review checked: the expected files, the commands of the plan, and that there were commands when the changes ask for them.\<close>

definition checked_by :: "verify_answers \<Rightarrow> check_plan \<Rightarrow> string list \<Rightarrow> bool" where
  "checked_by va plan expected \<longleftrightarrow>
     list_all (\<lambda>p. file_present (va_files va) p \<and> fs_readable (va_files va) p) expected
     \<and> list_all (command_passes va) (combined_command_checks plan)
     \<and> (combined_command_checks plan \<noteq> [] \<or> \<not> changes_require_command_verification (cp_changed plan) expected
        \<or> list_all (\<lambda>p. strip p = []) expected)"

lemma passing_review_checks:
  assumes "run_review_and_test cfg va x = (Inr v, y)" and "vp_outcome v = ''pass''"
  shows "\<exists>plan. plan_checks va x = Inr plan \<and> checked_by va plan (rx_expected y)"
proof -
  obtain plan where plan: "plan_checks va x = Inr plan"
    using assms(1) by (cases "plan_checks va x") (auto simp: run_review_and_test_def)
  define z where "z = test_session cfg va (combined_command_checks plan) (review_session cfg va x)"
  define u where "u = validate_checkout va plan z"
  have ev: "evaluate_verification_policy (agent_of (rx_review u)) (agent_of (rx_test u)) (rx_validation u) = Inr v" and y: "y = record_decision v u"
    using assms(1) plan by (auto simp: run_review_and_test_def z_def u_def Let_def split: sum.splits)
  have expected: "rx_expected y = rx_expected u" by (simp add: y record_decision_def emit_def)
  have rv: "rx_validation u = phase_validation va plan (rx_planned z) (rx_task z) (rx_expected u)"
    by (simp add: u_def validate_checkout_def Let_def)
  from verification_pass_iff [OF ev] assms(2) have
    "filter (\<lambda>p. \<not> file_present (va_files va) p) (rx_expected u) = []"
    "filter (\<lambda>p. \<not> fs_readable (va_files va) p) (filter (file_present (va_files va)) (rx_expected u)) = []"
    "failed_commands va (combined_command_checks plan) = []"
    "\<not> (list_ex (\<lambda>p. strip p \<noteq> []) (rx_expected u) \<and> changes_require_command_verification (cp_changed plan) (rx_expected u)
        \<and> combined_command_checks plan = [])"
    by (simp_all add: rv phase_validation_fields str_list_def)
  then have "checked_by va plan (rx_expected u)"
    by (auto simp: checked_by_def no_failed_commands filter_empty_conv list_all_iff list_ex_iff)
  then show ?thesis using plan expected by simp
qed

text \<open>
  C4. A review that passes has checked the checkout. Whatever the two agents answered, a run passes its review only if every file
  that is expected (after the workers' changes) is there and readable, every command of the plan left the engine with exit code
  zero, and, unless the changes are prose or no file is expected, there was a command at all.
\<close>

theorem passed_review_means_checked:
  assumes "run_review_and_test cfg va x = (Inr v, y)" and "vp_outcome v = ''pass''"
  shows "\<exists>plan. plan_checks va x = Inr plan \<and> checked_by va plan (rx_expected y)"
  using assms by (rule passing_review_checks)

end
