(* ===== verification/RunRecovery.thy ===== *)
theory RunRecovery imports VerificationPhase OrphanSessions RunExamples begin

text \<open>
  The recovery of runs that a restart of the program orphaned between their workers and their end
  (src/tandem_agents/core/execution/run_recovery.py): which run directories can be recovered, the context rebuilt
  from their documents, the verification it records, and the ending. A document is a file's value, or the text of
  the error that reading it raised. The configuration rebuilt from the documents is part of the answers an ending
  reads (RunEndings).
\<close>

section \<open>Which runs can be recovered\<close>

definition either_dict :: "obj \<Rightarrow> obj \<Rightarrow> string \<Rightarrow> obj" where
  "either_dict status blackboard k = (let d = dict_of (dget status k) in if d \<noteq> [] then d else dict_of (dget blackboard k))"

definition kinds_of :: "(string \<times> obj) list \<Rightarrow> string list" where
  "kinds_of events = map fst events"

definition failed_workers_of :: "obj \<Rightarrow> int" where
  "failed_workers_of status = (case dget (dict_of (dget status ''metrics'')) ''failed_workers'' of
      JInt i \<Rightarrow> i | JBool b \<Rightarrow> (if b then 1 else 0) | _ \<Rightarrow> 0)"

definition restart_orphan_is_recoverable :: "obj \<Rightarrow> obj \<Rightarrow> (string \<times> obj) list \<Rightarrow> bool \<times> string" where
  "restart_orphan_is_recoverable status blackboard events =
     (let workers = dict_list (dget blackboard ''workers'') in
      if \<not> List.member [''created'', ''running''] (run_status_text status) then (False, ''not_active'')
      else if dget (dict_of (dget status ''blocker'')) ''active'' = JBool True then (False, ''blocked'')
      else if List.member (kinds_of events) ''run.completed'' \<or> List.member (kinds_of events) ''run.blocked'' then (False, ''already_terminal'')
      else if List.member (kinds_of events) ''github_pull_request.created'' then (False, ''already_has_pr'')
      else if workers = [] then (False, ''missing_workers'')
      else if list_ex (\<lambda>w. lower (nonempty (dget w ''status'')) \<noteq> ''completed'') workers then (False, ''worker_not_completed'')
      else if failed_workers_of status > 0 then (False, ''failed_workers'')
      else if worker_changed_files workers = [] then (False, ''missing_changed_files'')
      else (True, ''recoverable''))"

section \<open>The context\<close>

definition string_entries :: "json \<Rightarrow> string list" where
  "string_entries v = filter (\<lambda>s. s \<noteq> []) (map nonempty (value_list v))"

record recovery_input =
  ri_run_id :: string
  ri_now :: int
  ri_status :: "(string + obj) option"
  ri_blackboard :: "(string + obj) option"
  ri_events :: "(string \<times> obj) list"
  ri_board :: obj
  ri_repo_exists :: bool
  ri_store :: db
  ri_summary :: string

definition context_from_recovered_state :: "recovery_input \<Rightarrow> obj \<Rightarrow> obj \<Rightarrow> run_context" where
  "context_from_recovered_state ri status blackboard =
     (let plan = dict_of (dget blackboard ''manager_plan''); subtasks = dict_list (dget blackboard ''subtasks'') in
      \<lparr>rx_run_id = ri_run_id ri, rx_now = ri_now ri, rx_task = either_dict status blackboard ''task'',
       rx_repo = either_dict status blackboard ''repo'', rx_engine = either_dict status blackboard ''engine'',
       rx_board = ri_board ri, rx_status = status, rx_blackboard = blackboard,
       rx_results = dict_list (dget blackboard ''workers''),
       rx_planned = (if subtasks \<noteq> [] then subtasks else dict_list (dget plan ''subtasks'')), rx_pending = [],
       rx_expected = string_entries (dget blackboard ''expected_repo_files''),
       rx_validation = dict_of (dget blackboard ''repo_validation''), rx_review = dict_of (dget blackboard ''review''),
       rx_test = dict_of (dget blackboard ''test''), rx_diff = [], rx_misses = 0, rx_lost = False, rx_feedback = None,
       rx_fallback = False, rx_store = ri_store ri, rx_events = ri_events ri, rx_summary = ri_summary ri, rx_patches = []\<rparr>)"

section \<open>The recorded verification\<close>

definition recovered_verification_commands :: "verify_answers \<Rightarrow> run_context \<Rightarrow> string list \<Rightarrow> string list res" where
  "recovered_verification_commands va x changed =
     bind_res (infer_command_checks (va_tree va) changed (rx_task x)) (\<lambda>inferred.
       Inr (filter_executable_command_checks (first_of_each (string_entries (dget (rx_task x) ''verification_commands'')
         @ verification_commands_from_text (str_or_empty (py_or (dget (rx_task x) ''description'') (dget (rx_task x) ''raw_issue_body'')))
         @ extract_command_checks (dict_of (dget (rx_blackboard x) ''manager_plan'')) @ inferred))))"

definition agent_text :: "obj \<Rightarrow> obj" where
  "agent_text payload = [(''returncode'', JInt 0), (''stdout'', JStr (dumps_spaced (sort_keys (JObj payload))))]"

definition assumed_review :: obj where
  "assumed_review = agent_text [(''status'', JStr ''pass''),
     (''notes'', JList [JStr ''Recovered after ACA API restart; worker diff was already completed.''])]"

definition assumed_test :: "obj \<Rightarrow> obj" where
  "assumed_test rv = agent_text [(''status'', JStr (if truthy (dget rv ''ok'') then ''pass'' else ''blocked'')),
     (''results'', JList (map (\<lambda>r. JObj [(''command'', dget r ''command''), (''status'', dget r ''status'')]) (dicts_of (dget rv ''command_checks''))))]"

definition put_both :: "string \<Rightarrow> json \<Rightarrow> run_context \<Rightarrow> run_context" where
  "put_both k v x = x\<lparr>rx_blackboard := dset k v (rx_blackboard x), rx_status := dset k v (rx_status x)\<rparr>"

text \<open>The context with the validation, and the answers of the agents when the documents have none.\<close>

definition with_recovered_validation :: "verify_answers \<Rightarrow> string list \<Rightarrow> string list \<Rightarrow> run_context \<Rightarrow> run_context" where
  "with_recovered_validation va changed commands x =
     (let expected = validation_expected_repo_files (va_files va) (rx_expected x) changed; rv = engine_validation va expected commands
      in x\<lparr>rx_expected := expected, rx_validation := rv,
           rx_review := (if rx_review x \<noteq> [] then rx_review x else assumed_review),
           rx_test := (if rx_test x \<noteq> [] then rx_test x else assumed_test rv)\<rparr>)"

definition recovered_documents :: "verify_answers \<Rightarrow> string list \<Rightarrow> policy_decision \<Rightarrow> run_context \<Rightarrow> run_context" where
  "recovered_documents va commands v x =
     (let x1 = put_both ''test'' (JObj (rx_test x)) (put_both ''review'' (JObj (rx_review x)) (put_both ''verification'' (JObj (decision_obj v))
            (put_both ''repo_validation'' (JObj (rx_validation x)) x)));
          contract = coding_run_contract (rx_run_id x) (rx_task x) (va_repo_path va) (va_branch va) (rx_expected x);
          bb = dset ''recovered_after_restart'' (JBool True) (dset ''expected_repo_files'' (str_list (rx_expected x)) (rx_blackboard x1))
      in emit ''verification.recovered_after_restart'' [(''outcome'', JStr (vp_outcome v)), (''commands'', str_list commands),
           (''expected_files'', str_list (rx_expected x))] (x1\<lparr>rx_blackboard := record_coding_run_contract contract bb\<rparr>))"

definition record_recovered_verification :: "verify_answers \<Rightarrow> run_context \<Rightarrow> (policy_decision \<times> run_context) res" where
  "record_recovered_verification va x =
     (let changed = worker_changed_files (rx_results x) in
      bind_res (recovered_verification_commands va x changed) (\<lambda>commands.
        let y = with_recovered_validation va changed commands x in
        bind_res (evaluate_verification_policy (agent_of (rx_review y)) (agent_of (rx_test y)) (rx_validation y)) (\<lambda>v.
          Inr (v, recovered_documents va commands v y))))"

section \<open>Recovering a run\<close>

text \<open>What became of a run: the reason why it was not recovered, and its context when the recovery began.\<close>

datatype recovery = NotRecovered string "run_context option" | Recovered run_context

definition recovery_failed :: "py_error \<Rightarrow> run_context \<Rightarrow> recovery" where
  "recovery_failed e x = NotRecovered (''recovery_failed:'' @ err_text e)
     (Some (emit ''run.recovery_failed'' [(''reason'', JStr (take 1000 (err_text e)))] x))"

definition recovery_start :: "recovery_input \<Rightarrow> obj \<Rightarrow> obj \<Rightarrow> run_context" where
  "recovery_start ri status blackboard =
     emit ''run.recovery_started'' [(''reason'', JStr ''restart_orphan_after_worker_completion'')] (context_from_recovered_state ri status blackboard)"

definition recover_restart_orphaned_run ::
  "run_settings \<Rightarrow> verify_answers \<Rightarrow> end_answers \<Rightarrow> recovery_input \<Rightarrow> recovery" where
  "recover_restart_orphaned_run cfg va fa ri =
     (case (ri_status ri, ri_blackboard ri) of
        (Some (Inr status), Some (Inr blackboard)) \<Rightarrow>
          (let (eligible, reason) = restart_orphan_is_recoverable status blackboard (ri_events ri) in
           if \<not> eligible then NotRecovered reason None
           else if \<not> ri_repo_exists ri then NotRecovered ''repo_path_missing'' None
           else let x = recovery_start ri status blackboard in
             (case record_recovered_verification va x of
                Inl e \<Rightarrow> recovery_failed e x
              | Inr (v, y) \<Rightarrow>
                  (case finalize_completed_run cfg fa y of
                     (Some e, z) \<Rightarrow> recovery_failed e z
                   | (None, z) \<Rightarrow> Recovered z)))
      | (None, _) \<Rightarrow> NotRecovered ''missing_state'' None
      | (_, None) \<Rightarrow> NotRecovered ''missing_state'' None
      | (Some (Inl e), _) \<Rightarrow> NotRecovered (''state_load_failed:'' @ e) None
      | (_, Some (Inl e)) \<Rightarrow> NotRecovered (''state_load_failed:'' @ e) None)"

section \<open>What is recovered\<close>

lemma recovered_run:
  assumes "recover_restart_orphaned_run cfg va fa ri = Recovered z"
  obtains status blackboard v y where "ri_status ri = Some (Inr status)" "ri_blackboard ri = Some (Inr blackboard)"
    "fst (restart_orphan_is_recoverable status blackboard (ri_events ri))"
    "record_recovered_verification va (recovery_start ri status blackboard) = Inr (v, y)" "finalize_completed_run cfg fa y = (None, z)"
proof -
  obtain status blackboard where docs: "ri_status ri = Some (Inr status)" "ri_blackboard ri = Some (Inr blackboard)"
    using assms by (simp add: recover_restart_orphaned_run_def split: option.splits sum.splits)
  define x where "x = recovery_start ri status blackboard"
  obtain eligible reason where e: "restart_orphan_is_recoverable status blackboard (ri_events ri) = (eligible, reason)"
    by (cases "restart_orphan_is_recoverable status blackboard (ri_events ri)")
  have run: "recover_restart_orphaned_run cfg va fa ri =
      (if \<not> eligible then NotRecovered reason None else if \<not> ri_repo_exists ri then NotRecovered ''repo_path_missing'' None
       else case record_recovered_verification va x of Inl err \<Rightarrow> recovery_failed err x
          | Inr (v, y) \<Rightarrow> (case finalize_completed_run cfg fa y of (Some err, z) \<Rightarrow> recovery_failed err z | (None, z) \<Rightarrow> Recovered z))"
    unfolding x_def by (simp add: recover_restart_orphaned_run_def docs e Let_def)
  have ok: eligible using assms run by (cases eligible) simp_all
  have exists: "ri_repo_exists ri" using assms run ok by (cases "ri_repo_exists ri") simp_all
  obtain v y where r: "record_recovered_verification va x = Inr (v, y)"
    using assms run ok exists by (cases "record_recovered_verification va x") (auto simp: recovery_failed_def)
  obtain err u where f: "finalize_completed_run cfg fa y = (err, u)" by (cases "finalize_completed_run cfg fa y")
  have "err = None" "u = z" using assms run ok exists r f by (cases err; simp add: recovery_failed_def)+
  then show thesis using that [OF docs _ r [unfolded x_def]] e ok f by simp
qed

lemma finalize_ends:
  assumes "finalize_completed_run cfg fa x = (None, y)"
  shows "doc_status y = JStr ''completed'' \<or> doc_status y = JStr ''blocked''"
proof -
  have stop: "doc_status z = JStr ''blocked''" if "block_finalization_failure k m u = (None, z)" for k m u z
    using finalization_failure_blocked [of k m u] that by (simp add: doc_blocked_def)
  have published: "doc_status z = JStr ''completed''" if "complete_published cfg fa u = (None, z)" for u z
    using complete_published_result [OF that] by simp
  show ?thesis
  proof (cases "fa_current_branch fa = fa_branch fa")
    case True
    obtain t where t: "task_title x = Inr t" using assms True by (cases "task_title x") (simp_all add: finalize_completed_run_def)
    show ?thesis
    proof (cases "fa_commit fa \<in> {None, Some []}")
      case False
      then obtain f fs where commit: "fa_commit fa = Some (f # fs)" by (metis insertCI list.exhaust option.exhaust)
      obtain r u where p: "publish fa (f # fs) (finished_blackboard fa x) = (r, u)" by (cases "publish fa (f # fs) (finished_blackboard fa x)")
      have "finalize_completed_run cfg fa x = (case r of Published \<Rightarrow> complete_published cfg fa u
          | NoPullRequest \<Rightarrow> block_finalization_failure ''pull_request_missing'' no_pull_request_message u
          | PushFailed \<Rightarrow> block_finalization_failure ''push_failed'' (push_message fa (f # fs)) u)"
        using True commit p t by (cases r) (auto simp: finalize_completed_run_def)
      then show ?thesis using assms published stop by (cases r) auto
    next
      case none: True
      then have "finalize_completed_run cfg fa x = complete_published cfg fa (finished_blackboard fa x)"
        using True t by (auto simp: finalize_completed_run_def)
      then show ?thesis using assms published by simp
    qed
  next
    case False
    then show ?thesis using assms stop by (simp add: finalize_completed_run_def)
  qed
qed

lemma fst_guard: "fst (if a then (False, r) else p) \<longleftrightarrow> \<not> a \<and> fst p"
  by simp

lemma recoverable_iff:
  "fst (restart_orphan_is_recoverable status blackboard events) \<longleftrightarrow>
     List.member [''created'', ''running''] (run_status_text status) \<and> dget (dict_of (dget status ''blocker'')) ''active'' \<noteq> JBool True
     \<and> \<not> (List.member (kinds_of events) ''run.completed'' \<or> List.member (kinds_of events) ''run.blocked'')
     \<and> \<not> List.member (kinds_of events) ''github_pull_request.created'' \<and> dict_list (dget blackboard ''workers'') \<noteq> []
     \<and> \<not> list_ex (\<lambda>w. lower (nonempty (dget w ''status'')) \<noteq> ''completed'') (dict_list (dget blackboard ''workers''))
     \<and> \<not> failed_workers_of status > 0 \<and> worker_changed_files (dict_list (dget blackboard ''workers'')) \<noteq> []"
  unfolding restart_orphan_is_recoverable_def Let_def by (simp only: fst_guard fst_conv not_not simp_thms)

text \<open>
  Only unfinished work is recovered. A run is recovered only if its document says it is under way and has no active blocker, its
  log has no end and no created pull request, and all of its workers completed, none of them failed, with some file changed.
\<close>

theorem recovered_run_was_unfinished:
  assumes "recover_restart_orphaned_run cfg va fa ri = Recovered z"
  shows "\<exists>status blackboard. ri_status ri = Some (Inr status) \<and> ri_blackboard ri = Some (Inr blackboard)
    \<and> run_status_text status \<in> {''created'', ''running''} \<and> dget (dict_of (dget status ''blocker'')) ''active'' \<noteq> JBool True
    \<and> {''run.completed'', ''run.blocked'', ''github_pull_request.created''} \<inter> fst ` set (ri_events ri) = {}
    \<and> dict_list (dget blackboard ''workers'') \<noteq> []
    \<and> list_all (\<lambda>w. lower (nonempty (dget w ''status'')) = ''completed'') (dict_list (dget blackboard ''workers''))
    \<and> failed_workers_of status \<le> 0 \<and> worker_changed_files (dict_list (dget blackboard ''workers'')) \<noteq> []"
  using assms
proof (rule recovered_run)
  fix status blackboard v y
  assume s: "ri_status ri = Some (Inr status)" "ri_blackboard ri = Some (Inr blackboard)"
    and ok: "fst (restart_orphan_is_recoverable status blackboard (ri_events ri))"
  have "run_status_text status \<in> {''created'', ''running''}" using ok by (simp only: recoverable_iff List.member_iff list.set)
  moreover have "{''run.completed'', ''run.blocked'', ''github_pull_request.created''} \<inter> fst ` set (ri_events ri) = {}"
  proof -
    have "''run.completed'' \<notin> set (kinds_of (ri_events ri))" "''run.blocked'' \<notin> set (kinds_of (ri_events ri))"
      "''github_pull_request.created'' \<notin> set (kinds_of (ri_events ri))"
      using ok by (simp_all only: recoverable_iff List.member_iff not_False_eq_True de_Morgan_disj)
    then show ?thesis unfolding kinds_of_def set_map by blast
  qed
  moreover have "list_all (\<lambda>w. lower (nonempty (dget w ''status'')) = ''completed'') (dict_list (dget blackboard ''workers''))"
    using ok unfolding recoverable_iff list_all_iff list_ex_iff by blast
  ultimately show ?thesis using s ok unfolding recoverable_iff by (intro exI conjI) (assumption | linarith | blast)+
qed

text \<open>
  C25. A run is recovered once. The document of a recovered run says completed or blocked, so that no later recovery, whatever it
  reads besides that document and whatever is answered then, takes the run up again.
\<close>

theorem recovery_happens_once:
  assumes "recover_restart_orphaned_run cfg va fa ri = Recovered z"
  shows "doc_status z \<in> {JStr ''completed'', JStr ''blocked''}
    \<and> recover_restart_orphaned_run cfg' va' fa' (ri'\<lparr>ri_status := Some (Inr (rx_status z)), ri_blackboard := Some (Inr bb)\<rparr>)
        = NotRecovered ''not_active'' None"
  using assms
proof (rule recovered_run)
  fix status blackboard v y
  assume "finalize_completed_run cfg fa y = (None, z)"
  then have doc: "doc_status z = JStr ''completed'' \<or> doc_status z = JStr ''blocked''" by (rule finalize_ends)
  have same: "obj_of = dict_of" by (simp add: fun_eq_iff obj_of_def dict_of_def)
  have low: "lower (strip ''completed'') = ''completed''" "lower (strip ''blocked'') = ''blocked''" by code_simp+
  have "run_status_text (rx_status z) \<in> {''completed'', ''blocked''}"
    using doc low by (auto simp: run_status_text_def doc_status_def section_of_def same)
  then show ?thesis using doc
    by (auto simp: recover_restart_orphaned_run_def restart_orphan_is_recoverable_def Let_def)
qed

section \<open>Reviewed and recovered runs\<close>

text \<open>
  A finalized run was checked. When the reviews of a run are the phase above, a run whose repair loop ends in its finalization
  found every expected file of its last pass, and passed every command of that pass's plan.
\<close>

theorem finalized_run_passed_its_checks:
  assumes "repair_loop di cfg ops x = (Finalized, y)"
    and "\<And>z v u. ph_review ops z = (v, u) \<Longrightarrow> run_review_and_test cfg va z = (Inr v, u)"
  shows "\<exists>z plan. plan_checks va z = Inr plan \<and> checked_by va plan (rx_expected y)"
proof -
  obtain z v where z: "ph_review ops z = (v, y)" "vp_outcome v = ''pass''" using finalized_review [OF assms(1)] by metis
  from passing_review_checks [OF assms(2) [OF z(1)] z(2)] show ?thesis by blast
qed

subsection \<open>A recovery whose verification fails\<close>

lemma clean_published:
  assumes title: "dhas (rx_task x) ''title''" and ws: "map_res worker_summary_line (rx_results x) = Inr ws"
    and has: "dhas (section_of (rx_status x) ''metrics'') ''completed_workers''" "dhas (section_of (rx_status x) ''metrics'') ''failed_workers''"
  shows "\<exists>y. complete_published demo_settings clean_end x = (None, y)"
proof -
  define c where "c = move_task_card_if_present ''review'' ''manager'' ''run completed; awaiting review'' (mark_claim_done ''task completed''
     (snd (touch_run demo_settings False \<lparr>ru_status = Some ''completed'', ru_phase = Some ''handoff'', ru_error = None, ru_completed = True\<rparr>
              (set_run_status (finished_changes x) x))))"
  have c: "rx_task c = rx_task x" "rx_results c = rx_results x" by (simp_all add: c_def closing_same)
  have "\<exists>t. completed_text clean_end l r t' c = Inr t" for l r t'
    by (simp add: completed_text_def task_title_def c title ws bind_res_def build_completed_summary_def Let_def)
  then show ?thesis using has quiet_sync
    by (simp add: complete_published_def Let_def c_def [symmetric] with_summary_def split: sum.split prod.split) (metis Inl_Inr_False fst_conv)
qed

definition failing_checkout :: verify_answers where
  "failing_checkout = \<lparr>va_reviewer = (\<lambda>x. ([], x)), va_tester = (\<lambda>cs x. ([], x)), va_plan = [],
     va_files = \<lparr>fs_exists = (\<lambda>_. True), fs_is_file = (\<lambda>_. True), fs_readable = (\<lambda>_. True)\<rparr>,
     va_tree = \<lparr>tr_exists = (\<lambda>_. False), tr_is_file = (\<lambda>_. False), tr_is_dir = (\<lambda>_. False), tr_json = (\<lambda>_. None), tr_toml = (\<lambda>_. None)\<rparr>,
     va_engine = (\<lambda>_. ToolPayload (JObj [(''metadata'', JObj [(''exit_code'', JInt 1)])])), va_engine_path = ''/repo'',
     va_repo_path = ''/repo'', va_branch = ''aca/t1''\<rparr>"

definition orphaned_status :: obj where
  "orphaned_status = [(''run'', JObj [(''status'', JStr ''running'')]),
     (''task'', JObj [(''title'', JStr ''Fix it''), (''verification_commands'', JList [JStr ''pytest''])]),
     (''metrics'', JObj [(''completed_workers'', JInt 1), (''failed_workers'', JInt 0)])]"

definition orphaned_blackboard :: obj where
  "orphaned_blackboard = [(''workers'', JList [JObj [(''worker_id'', JStr ''w1''), (''title'', JStr ''t''), (''status'', JStr ''completed''),
     (''changed_files'', JList [JStr ''a.py''])]]),
     (''review'', JObj [(''returncode'', JInt 0)]), (''test'', JObj [(''returncode'', JInt 0)])]"

definition orphaned_run :: recovery_input where
  "orphaned_run = \<lparr>ri_run_id = ''run-1'', ri_now = 9, ri_status = Some (Inr orphaned_status), ri_blackboard = Some (Inr orphaned_blackboard),
     ri_events = [], ri_board = [], ri_repo_exists = True, ri_store = empty_db, ri_summary = []\<rparr>"

lemma orphaned_commands:
  "recovered_verification_commands failing_checkout (recovery_start orphaned_run orphaned_status orphaned_blackboard) [''a.py''] = Inr [''pytest'']"
  by code_simp

lemma orphaned_validation:
  "repo_validation_blocker_message (engine_validation failing_checkout [''a.py''] [''pytest''])
     = Inr (Some ''Repository validation command failed: pytest'')"
  by code_simp

lemma orphaned_outcome:
  "(case record_recovered_verification failing_checkout (recovery_start orphaned_run orphaned_status orphaned_blackboard) of
      Inr (v, y) \<Rightarrow> vp_outcome v | Inl e \<Rightarrow> []) = ''blocked''"
  by code_simp

lemma recorded_context:
  assumes "record_recovered_verification va x = Inr (v, y)"
  shows "rx_task y = rx_task x" "rx_results y = rx_results x" "section_of (rx_status y) ''metrics'' = section_of (rx_status x) ''metrics''"
    "dget (rx_blackboard y) ''verification'' = JObj (decision_obj v)"
proof -
  obtain commands where y: "y = recovered_documents va commands v (with_recovered_validation va (worker_changed_files (rx_results x)) commands x)"
    using assms by (auto simp: record_recovered_verification_def bind_res_Inr_iff Let_def)
  show "rx_task y = rx_task x" "rx_results y = rx_results x" "section_of (rx_status y) ''metrics'' = section_of (rx_status x) ''metrics''"
    by (simp_all add: y recovered_documents_def with_recovered_validation_def put_both_def emit_def section_of_def Let_def)
  show "dget (rx_blackboard y) ''verification'' = JObj (decision_obj v)"
    by (simp add: y recovered_documents_def with_recovered_validation_def put_both_def emit_def record_coding_run_contract_def add_note_def Let_def)
qed

text \<open>
  A recovery does not heed its verification. The orphaned run above is recovered while the one command of its task fails: the
  recorded decision says blocked, and the run is finalized and ends completed all the same.
\<close>

theorem rejected_recovery_completes:
  "\<exists>v y z. record_recovered_verification failing_checkout (recovery_start orphaned_run orphaned_status orphaned_blackboard) = Inr (v, y)
     \<and> vp_outcome v = ''blocked'' \<and> dget (rx_blackboard y) ''verification'' = JObj (decision_obj v)
     \<and> recover_restart_orphaned_run demo_settings failing_checkout clean_end orphaned_run = Recovered z
     \<and> doc_status z = JStr ''completed''"
proof -
  let ?x = "recovery_start orphaned_run orphaned_status orphaned_blackboard"
  obtain v y where r: "record_recovered_verification failing_checkout ?x = Inr (v, y)" and v: "vp_outcome v = ''blocked''"
    using orphaned_outcome by (auto split: sum.splits prod.splits)
  note same = recorded_context [OF r]
  have start: "dhas (rx_task ?x) ''title''" "(case map_res worker_summary_line (rx_results ?x) of Inr ws \<Rightarrow> True | Inl e \<Rightarrow> False)"
    "dhas (section_of (rx_status ?x) ''metrics'') ''completed_workers''" "dhas (section_of (rx_status ?x) ''metrics'') ''failed_workers''"
    "fst (restart_orphan_is_recoverable orphaned_status orphaned_blackboard [])" by code_simp+
  obtain ws where ws: "map_res worker_summary_line (rx_results ?x) = Inr ws" using start(2) by (auto split: sum.splits)
  have "\<exists>z. complete_published demo_settings clean_end (finished_blackboard clean_end y) = (None, z)"
    by (rule clean_published) (use same start(1,3,4) ws in \<open>simp_all add: finished_blackboard_def\<close>)
  then obtain z where z: "complete_published demo_settings clean_end (finished_blackboard clean_end y) = (None, z)" by blast
  have "task_title y = Inr (dget (rx_task y) ''title'')" using start(1) same(1) by (simp add: task_title_def)
  then have f: "finalize_completed_run demo_settings clean_end y = (None, z)"
    using z by (simp add: finalize_completed_run_def clean_end_def)
  have docs: "ri_status orphaned_run = Some (Inr orphaned_status)" "ri_blackboard orphaned_run = Some (Inr orphaned_blackboard)"
    "ri_events orphaned_run = []" "ri_repo_exists orphaned_run" by (simp_all add: orphaned_run_def)
  obtain reason where e: "restart_orphan_is_recoverable orphaned_status orphaned_blackboard [] = (True, reason)"
    using start(5) by (metis prod.exhaust_sel)
  have "recover_restart_orphaned_run demo_settings failing_checkout clean_end orphaned_run = Recovered z"
    by (simp add: recover_restart_orphaned_run_def docs e r f)
  moreover have "doc_status z = JStr ''completed''" using complete_published_result [OF z] by simp
  ultimately show ?thesis using r v same(4) by blast
qed

section \<open>Concrete runs\<close>

theorem recovery_happens_once_witness:
  "\<exists>z. recover_restart_orphaned_run demo_settings failing_checkout clean_end orphaned_run = Recovered z
     \<and> doc_status z = JStr ''completed''
     \<and> recover_restart_orphaned_run demo_settings failing_checkout clean_end
         (orphaned_run\<lparr>ri_status := Some (Inr (rx_status z)), ri_blackboard := Some (Inr orphaned_blackboard)\<rparr>)
       = NotRecovered ''not_active'' None"
  using rejected_recovery_completes recovery_happens_once by blast

text \<open>A checkout whose one command passes, and a context with the results of a worker.\<close>

definition passing_checkout :: verify_answers where
  "passing_checkout = failing_checkout\<lparr>va_engine := (\<lambda>_. ToolPayload (JObj [(''metadata'', JObj [(''exit_code'', JInt 0)])]))\<rparr>"

definition reviewed_run :: run_context where
  "reviewed_run = recovery_start orphaned_run orphaned_status orphaned_blackboard"

lemma reviewed_run_passes:
  "(case run_review_and_test demo_settings passing_checkout reviewed_run of
      (Inr v, y) \<Rightarrow> vp_outcome v = ''pass'' \<and> rx_expected y = [''a.py''] | (Inl e, y) \<Rightarrow> False)"
  by code_simp

theorem passed_review_means_checked_witness:
  "\<exists>(y :: run_context) plan. plan_checks passing_checkout reviewed_run = Inr plan \<and> rx_expected y = [''a.py'']
     \<and> checked_by passing_checkout plan (rx_expected y) \<and> cp_executable plan = [''pytest'']"
proof -
  obtain v y where run: "run_review_and_test demo_settings passing_checkout reviewed_run = (Inr v, y)"
    and v: "vp_outcome v = ''pass''" and files: "rx_expected y = [''a.py'']"
    using reviewed_run_passes by (auto split: prod.splits sum.splits)
  obtain plan where plan: "plan_checks passing_checkout reviewed_run = Inr plan" "checked_by passing_checkout plan (rx_expected y)"
    using passed_review_means_checked [OF run v] by blast
  have "(case plan_checks passing_checkout reviewed_run of Inr plan \<Rightarrow> cp_executable plan | Inl e \<Rightarrow> []) = [''pytest'']" by code_simp
  then have "cp_executable plan = [''pytest'']" using plan(1) by simp
  with plan files show ?thesis by blast
qed

end
