(* ===== verification/Spec2Isabelle.thy ===== *)
theory Spec2Isabelle
  imports Prelude PyText PyValue PyJson ContractText TaskContract TaskDependencies
    CoordSchema CoordLeases CoordWorkers CoordTasks CoordClaims CoordRuns CoordOutbox CoordApprovals
    CoordEvents CoordSystem CoordOwnership CoordRefinement OutboxDispatcher Triage Scheduler
    JsonRoundTrip PyDynamic RepoTruth VerificationPolicy PrLifecycle PrSupervisor PrMerges ExternalActions
    RunState TrackerStatus CoderRuns CoderFleet KanbanBoard
    WorkerBlockers RepairArtifacts RetryFeedback RunContext RunLoop RepairBounds RunOutcomes RunSync RunEndings
    RunRelease RunCompletion RunResults RunExamples
    WorkerAttempts EngineSessions OrphanSessions CommandChecks VerificationPhase RunRecovery
begin

text \<open>
  Tandem agents: the coordination core, a coding run with its verification, and the life of its pull request
  (src/tandem_agents/core, with paths relative to the source directory of the repository).

  The program lets several worker processes, on several hosts, take tasks from issue trackers and
  boards and carry them out. What keeps them apart is a coordination store in SQLite or Postgres.
  A task is registered, waits as \<open>queued\<close>, is admitted by a planner, claimed by a worker under a lease,
  moved through \<open>active\<close> and \<open>review\<close>, and released. A reaper ends leases that expired and leases
  of workers that stopped beating. Messages to the trackers go through an outbox that a dispatcher
  empties; risky actions wait in a queue of approvals. A coding run plans, dispatches workers, validates and
  integrates in a repair loop until it is verified or given up, and releases its lease. A run's result is judged by a verification policy
  over the answers of a reviewer, a tester and the checks of the checkout; the pull request it opened is
  then watched by a supervisor that repairs, updates or merges it under bounds and gates.

  \<^bold>\<open>Theories.\<close>

  \<^item> \<open>Prelude\<close>: errors as values (\<open>py_error\<close>, \<open>res\<close>), and the SQL idioms of the store on lists of
    records: UPDATE .. WHERE (\<open>upd_where\<close>), lookup by key (\<open>row_by\<close>), INSERT .. ON CONFLICT (\<open>upsert\<close>),
    ORDER BY (\<open>order_desc\<close>, \<open>order_asc\<close>), unique keys (\<open>keys_ok\<close>), with their lemmas.
  \<^item> \<open>PyText\<close>, \<open>PyValue\<close>, \<open>PyJson\<close>: the Python the source uses. Strings with strip, lower, split,
    splitlines and \<open>slugify\<close> (utils/utils.py); JSON values with truthiness, \<open>or\<close>, \<open>str\<close> and
    dictionaries in insertion order; \<open>json.dumps(sort_keys=True)\<close> and \<open>json.loads\<close>. \<open>JsonRoundTrip\<close>: reading
    a column gives back the stored value, its dictionaries sorted. \<open>PyDynamic\<close>: \<open>list(x)\<close>, \<open>join\<close>, \<open>int(text)\<close>
    and other operations that raise on values of the wrong type.
  \<^item> \<open>ContractText\<close>, \<open>TaskContract\<close>, \<open>TaskDependencies\<close>: core/task_contract.py. The sections of an
    issue body, the handoff block, the contract of a task, its execution kind; the dependency status,
    the completeness, and the validation of a subtask plan.
  \<^item> \<open>CoordSchema\<close>: coordination/schema.py, constants.py, rows.py. A record per table, the store \<open>db\<close> as a
    record of tables, and \<open>schema_ok\<close>: primary keys, unique columns, id sequences, and the
    partial unique index that allows one active lease per task.
  \<^item> \<open>CoordLeases\<close>, \<open>CoordWorkers\<close>, \<open>CoordTasks\<close>, \<open>CoordRuns\<close>, \<open>CoordOutbox\<close>, \<open>CoordApprovals\<close>, \<open>CoordEvents\<close>: the
    mixins of the store, one definition per method and per SQL statement that several methods share.
    A method is a function of the clock \<open>now\<close>, its arguments and the store, and returns its
    result with the new store.
  \<^item> \<open>CoordClaims\<close>, \<open>CoordOwnership\<close>: what a claim, a heartbeat, a release, a reaping and an operator's reset
    mean for the owner of a task. \<open>CoordSystem\<close>: every operation of the store as a constructor of
    \<open>store_op\<close>, the stores the program can reach (\<open>reachable\<close>) and what holds in all of them.
    \<open>CoordRefinement\<close>: the abstract lock per task (\<open>lock_step\<close>) that the store implements, seen
    through \<open>lock_of\<close>.
  \<^item> \<open>OutboxDispatcher\<close>: scheduling/outbox_dispatcher.py, one tick. The calls to the trackers are a record
    of functions (\<open>connectors\<close>), an exception is a value.
  \<^item> \<open>Triage\<close>: triage.py. \<open>Scheduler\<close>: \<open>plan_task_admissions\<close> of scheduling/scheduler.py.
  \<^item> \<open>RepoTruth\<close>: parts of repository/repo_truth.py. The files a plan is expected to touch, the commands a plan
    may run, the retried command checks and the validation of a checkout. The shell is an operation on a
    world, the file system a record of predicates. \<open>VerificationPolicy\<close>: verification/verification_policy.py.
  \<^item> \<open>PrLifecycle\<close>: integrations/github_mcp.py, from a pull request as GitHub returns it to its life-cycle state,
    the feedback and prompt of a repair, and the gates of the automatic merge, with the calls it makes.
    \<open>PrSupervisor\<close>: scheduling/coder_supervisor.py, one tick (\<open>supervise\<close>) over the files and the metadata of a run
    (\<open>supervised\<close>), with the circuit breaker and the budget of budget.py; what GitHub, the engine and Linear
    answer in a tick is the record \<open>tick\<close>, what the tick does outside is its log. \<open>PrMerges\<close>: the supervisor
    and the merge gates together.
  \<^item> \<open>ExternalActions\<close>: external_actions/github_pr.py. The plan for the pull requests a task names, its approvals in
    the store of \<open>CoordApprovals\<close>, and the execution of the approved ones in a world (\<open>outside\<close>).
  \<^item> \<open>RunState\<close>: runtime/runstate.py and run_output.py, the files of a run: status document, event log,
    blackboard with its Markdown, summaries. \<open>TrackerStatus\<close>: the status names, scopes and comments of
    integrations/linear_mcp.py and github_mcp.py, and the cache of observed project statuses.
  \<^item> \<open>CoderRuns\<close>: the coder half of scheduling/coder_supervisor.py. One reconciliation of a run the engine works on
    (\<open>reconcile_coder_run\<close>), over the store, the files of the run and the messages (\<open>coder_state\<close>); what the engine
    answers is the record \<open>engine_answers\<close>. \<open>CoderFleet\<close>: the scan of the run directories and one pass over a batch.
  \<^item> \<open>KanbanBoard\<close>: repository/board.py. A board is the dictionary of its YAML file; templates, load and save, lanes,
    cards from tasks and back, selection, claim and move.
  \<^item> \<open>WorkerBlockers\<close>, \<open>RepairArtifacts\<close>, \<open>RetryFeedback\<close>: the decisions of execution/runner_core.py about failed
    workers: the blocker and its wording, the budgets of extra attempts in the environment, the preserved partial diffs,
    every predicate that allows a retry, and the texts handed to the next attempt (with phases/repair.py).
  \<^item> \<open>RunContext\<close>: the state of a coding run (phases/context.py, the record \<open>run_context\<close>), its heartbeat with the count of misses
    (\<open>touch_run\<close>), its repair sections. \<open>RunLoop\<close>: the repair loop of \<open>_run_once_internal_impl\<close>, one \<open>step\<close> per part of a pass,
    sequenced by \<open>then_step\<close> in \<open>run_pass\<close>; a way to leave the loop is a constructor of \<open>run_end\<close>. The phases that drive
    sessions and git are the record of functions \<open>run_phases\<close>, and no theorem assumes anything of them.
    \<open>RepairBounds\<close> and \<open>RunOutcomes\<close>: how far each rule reaches, and what a pass has checked when it ends.
  \<^item> \<open>RunSync\<close>: what a run tells the trackers, through the outbox or directly. \<open>RunEndings\<close>: every way a run ends
    (runner_core.py, run_lifecycle.py, phases/finalize.py), as an \<open>ending_step\<close> that may raise. \<open>RunRelease\<close>: the frame around them
    (\<open>_run_once_internal\<close>): the blocker of an exception and the release of the lease; \<open>coding_run\<close> is a run from its loop to
    its release. \<open>RunCompletion\<close>, \<open>RunResults\<close>, \<open>RunExamples\<close>: frame lemmas, properties of whole runs, and concrete runs.
  \<^item> \<open>CommandChecks\<close>: the commands that check a change (repository/repo_truth.py, with the readers of fenced commands of
    phases/review_verify.py and execution/run_recovery.py), \<open>shlex\<close> included. \<open>VerificationPhase\<close>: the review and test phase
    (phases/review_verify.py, verification/coding_run_contract.py), in the shape of the field \<open>ph_review\<close> of \<open>run_phases\<close>.
  \<^item> \<open>WorkerAttempts\<close>, \<open>EngineSessions\<close>: the files of attempts and engine sessions that worker threads, dispatcher and planner
    share (execution/worker.py, phases/worker_dispatch.py, phases/planning.py). An operation on a file is a function of its
    value; what the threads do in time is a list of \<open>attempt_op\<close> and the relation \<open>session_step\<close>.
  \<^item> \<open>OrphanSessions\<close>, \<open>RunRecovery\<close>: execution/run_recovery.py, the cleanup of the sessions that ended runs left in the engine,
    and the recovery of runs a restart orphaned between their workers and their end.

  \<^bold>\<open>Interfaces.\<close> A locale states what the clients of a group of definitions rely on.
  \<open>lease_update\<close> and its extension \<open>lease_ending\<close> (\<open>CoordLeases\<close>) are the updates of a lease row: they
  keep its identity and never revive it; the heartbeat and the reapings are their interpretations,
  and schema preservation and the history of leases are proved once for all of them.
  \<open>outbox_row_op\<close> and \<open>approval_row_op\<close> play the same part for the outbox and the
  approvals. \<open>settling\<close> (\<open>OutboxDispatcher\<close>) is the contract between the dispatcher's loop and the
  store, interpreted on \<open>complete_outbox\<close> and \<open>retry_outbox\<close>.

  \<^bold>\<open>Lemmas.\<close> Each operation of the store preserves \<open>schema_ok\<close>; so the claim's INSERT never meets the
  unique index. The claim is granted exactly when no live lease and no unmet dependency stands
  against it, and excludes later claims while its lease and its worker live. Leases form
  an append-only history in which each task has at most one active lease, its last. The outbox
  neither loses nor duplicates a message in a claim and backs off within bounds; a tick settles every
  message it claims. An approval moves along \<open>approval_step\<close> only. The planner's loop ends, decides
  every queued task, and respects the limits and the file scopes against the tasks it sees. The
  verification policy passes a run exactly when both agents accept and the checkout is sound, and a
  failure names its reason. The breaker is a small step relation (\<open>breaker_step\<close>) that every tick follows,
  so passes are bounded and a pull request that stays broken reaches a human; a merge happens only through
  the gates and is announced only when it happened. An approved batch of actions is settled row by row.
  An ended coder run settles its task and its lease, whoever owns the task by then; a pass over the runs takes the
  directories written last. An observed tracker status never replaces a baseline. The operations of a board keep it
  well formed, and its lanes are the filters of its cards. A coding run says completed only when its last pass went through every
  check and what it committed was pushed and has a pull request (or its files were right from the start); every other run ends blocked with
  a blocker and an event, exceptions included; no run keeps its lease. Each rule of the repair loop is bounded by the
  loop's count of attempts, but for three whose last grant is not used. A review that passes has found the expected files and
  passed every command of its plan, none of the inferred ones invented. While workers open sessions one after the other, the
  file names every session the engine holds; the cleanup stays in its budget and asks no deleted session again; a recovered
  run ends, and is recovered once.

  \<^bold>\<open>Bounds.\<close> \<open>loads\<close> parses with fuel twice the length of the text plus two: each level of the
  grammar consumes a character per two calls. The admission loop and the path scanner are total
  by a measure. A command check runs at most the configured number of attempts, and a repair gate counts
  its attempts; their recursions are structural. The repair loop recurses on the attempts left, \<open>max_loops\<close> at first: the configured
  retries and the three budgets the source adds, so no fuel is chosen. Times and counters are unbounded integers, as in Python; SQLite's 64-bit columns
  are not modelled, a clock in milliseconds stays far below them.

  \<^bold>\<open>Not modelled.\<close> An operation is one step: statements of two operations do not interleave. SQLite's
  BEGIN IMMEDIATE and the advisory lock of Postgres give this for claims and reapings; heartbeats, releases and
  transitions run their statements under autocommit. A claim that is refused closes its connection
  without a commit, so nothing of it remains. Characters are those of Isabelle's type \<open>char\<close>. A float
  in a JSON text keeps its numeral; sums and comparisons of float costs are inputs. The texts of Python's own
  exceptions are empty. \<open>close_pr_numbers\<close> and other lists read with \<open>for\<close> are lists, not texts. A dictionary where the code calls \<open>dict(x)\<close> on a value that is none is taken as
  empty where Python raises. Not modelled at all: connections and DDL, threads and sleeping loops,
  the HTTP API and the CLI, the transport of the MCP clients, the engine and its language-model sessions, git, the prompts and the
  parsing of plans, the pool of workers and the guards inside a worker's session, the time limits of a delete, an exception inside a phase of the repair loop, and cached board snapshots,
  the discovery of files in a checkout, the mirrors of a run's files in the artifact store and the workspace
  registry, the knowledge base, packaging.
\<close>

end
